(* ===== verification/Prelude.thy ===== *)
theory Prelude
  imports Main "HOL-Library.Word"
begin

unbundle bit_operations_syntax

text \<open>
  Shared vocabulary of the development.

  \<^item> Machine integers: the firmware is C and C++ for a 32-bit Cortex-M4 (GD32F303), so
    \<^verbatim>\<open>uint8_t\<close>, \<^verbatim>\<open>uint16_t\<close> and \<^verbatim>\<open>uint32_t\<close> are words of that width and arithmetic wraps.
  \<^item> Memory-mapped registers: \<open>mem\<close> maps the address of a 32-bit peripheral register to
    the value last stored there. A driver function of the vendor library is a function on
    \<open>mem\<close>. What the peripheral does to its own registers while the processor waits is the
    argument \<open>hw\<close> of the functions that poll.
  \<^item> The enumerations \<^verbatim>\<open>FlagStatus\<close>, \<^verbatim>\<open>ErrStatus\<close> and \<^verbatim>\<open>ControlStatus\<close> of \<^verbatim>\<open>gd32f30x.h\<close>.
  \<^item> The bit macros of \<^verbatim>\<open>gd32f30x.h\<close>.
  \<^item> Two contracts that most of the vendor library's functions follow, as locales:
    \<open>reg_field\<close> (replace a field of a register) and \<open>reg_bit\<close> (set and clear a flag).
\<close>

section \<open>Machine types\<close>

type_synonym u8 = "8 word"
type_synonym u16 = "16 word"
type_synonym u32 = "32 word"
type_synonym mem = "32 word \<Rightarrow> 32 word"

datatype FlagStatus = RESET | SET
datatype ErrStatus = ERROR | SUCCESS
datatype ControlStatus = DISABLE | ENABLE

named_theorems reg_simps \<open>rewriting of register masks and fields\<close>
named_theorems addr_simps \<open>distinctness of register addresses\<close>

section \<open>Bit macros of gd32f30x.h\<close>

abbreviation BIT :: "u32 \<Rightarrow> u32" where
  "BIT x \<equiv> push_bit (unat x) 1"

abbreviation BITS :: "u32 \<Rightarrow> u32 \<Rightarrow> u32" where
  "BITS start' end' \<equiv> push_bit (unat start') 0xFFFFFFFF AND drop_bit (unat (31 - end')) 0xFFFFFFFF"

abbreviation GET_BITS :: "u32 \<Rightarrow> u32 \<Rightarrow> u32 \<Rightarrow> u32" where
  "GET_BITS regval start' end' \<equiv> drop_bit (unat start') (regval AND BITS start' end')"

section \<open>Clock constants of gd32f30x.h\<close>

abbreviation HXTAL_VALUE :: u32 where "HXTAL_VALUE \<equiv> 0xE10000"
abbreviation HXTAL_STARTUP_TIMEOUT :: u32 where "HXTAL_STARTUP_TIMEOUT \<equiv> 0xFFFF"
abbreviation IRC48M_VALUE :: u32 where "IRC48M_VALUE \<equiv> 0x2DC6C00"
abbreviation IRC8M_VALUE :: u32 where "IRC8M_VALUE \<equiv> 0x7A1200"
abbreviation IRC8M_STARTUP_TIMEOUT :: u32 where "IRC8M_STARTUP_TIMEOUT \<equiv> 0x500"

section \<open>Polling a register\<close>

text \<open>
  A busy-wait reads a status register again and again; between two reads the hardware may change
  the registers, which is the function \<open>hw\<close>, applied before every read. \<open>poll_until n\<close> is a wait
  that gives up after \<open>n\<close> reads and says whether the last read satisfied the condition.
  \<open>poll_clear\<close> and \<open>poll_set\<close> are the waits without a limit: they return \<open>None\<close> exactly when the
  loop never ends.
\<close>

fun poll_until :: "nat \<Rightarrow> (mem \<Rightarrow> mem) \<Rightarrow> (mem \<Rightarrow> bool) \<Rightarrow> mem \<Rightarrow> bool \<times> mem" where
  "poll_until 0 hw ready m = (False, m)"
| "poll_until (Suc n) hw ready m =
    (let m = hw m in if ready m then (True, m) else poll_until n hw ready m)"

partial_function (option) poll_clear :: "(mem \<Rightarrow> mem) \<Rightarrow> u32 \<Rightarrow> u32 \<Rightarrow> mem \<Rightarrow> mem option" where
  "poll_clear hw a k m = (let m = hw m in if m a AND k = 0 then Some m else poll_clear hw a k m)"

partial_function (option) poll_set :: "(mem \<Rightarrow> mem) \<Rightarrow> u32 \<Rightarrow> u32 \<Rightarrow> mem \<Rightarrow> mem option" where
  "poll_set hw a k m = (let m = hw m in if m a AND k \<noteq> 0 then Some m else poll_set hw a k m)"

lemma poll_until_pos:
  "0 < n \<Longrightarrow> poll_until n hw ready m =
     (if ready (hw m) then (True, hw m) else poll_until (n - 1) hw ready (hw m))"
  by (cases n) (simp_all add: Let_def)

lemma poll_until_ready: "poll_until n hw ready m = (True, m') \<Longrightarrow> ready m'"
  by (induction n hw ready m rule: poll_until.induct) (auto simp: Let_def split: if_splits)

lemma poll_until_iff:
  "fst (poll_until n hw ready m) \<longleftrightarrow> (\<exists>i. 0 < i \<and> i \<le> n \<and> ready ((hw ^^ i) m))"
proof (induction n arbitrary: m)
  case 0
  then show ?case by simp
next
  case (Suc n)
  have "(\<exists>i. 0 < i \<and> i \<le> Suc n \<and> ready ((hw ^^ i) m)) \<longleftrightarrow>
        ready (hw m) \<or> (\<exists>i. 0 < i \<and> i \<le> n \<and> ready ((hw ^^ i) (hw m)))"
    (is "?L \<longleftrightarrow> ?R")
  proof
    assume ?L
    then obtain i where i: "0 < i" "i \<le> Suc n" "ready ((hw ^^ i) m)" by blast
    then show ?R by (cases i; cases "i - 1") (auto simp: funpow_swap1)
  next
    assume ?R
    then show ?L
    proof
      assume "ready (hw m)"
      then show ?L by (intro exI[of _ 1]) simp
    next
      assume "\<exists>i. 0 < i \<and> i \<le> n \<and> ready ((hw ^^ i) (hw m))"
      then obtain i where "0 < i" "i \<le> n" "ready ((hw ^^ i) (hw m))" by blast
      then show ?L by (intro exI[of _ "Suc i"]) (simp add: funpow_swap1)
    qed
  qed
  then show ?case using Suc by (simp add: Let_def)
qed

text \<open>A property of the registers that the hardware keeps is kept by every wait.\<close>

lemma poll_until_keeps:
  assumes "\<And>m. P m \<Longrightarrow> P (hw m)" "P m"
  shows "P (snd (poll_until n hw ready m))"
  using assms(2) by (induction n arbitrary: m) (auto simp: Let_def assms(1))

lemma poll_set_returns:
  assumes "(hw ^^ Suc i) m a AND k \<noteq> 0"
  shows "\<exists>j \<le> i. poll_set hw a k m = Some ((hw ^^ Suc j) m) \<and> (hw ^^ Suc j) m a AND k \<noteq> 0"
  using assms
proof (induction i arbitrary: m)
  case 0
  then show ?case by (subst poll_set.simps) (simp add: Let_def)
next
  case (Suc i)
  show ?case
  proof (cases "hw m a AND k = 0")
    case True
    have "(hw ^^ Suc i) (hw m) a AND k \<noteq> 0" using Suc.prems by (simp add: funpow_swap1)
    from Suc.IH[OF this] obtain j where "j \<le> i"
      "poll_set hw a k (hw m) = Some ((hw ^^ Suc j) (hw m))" "(hw ^^ Suc j) (hw m) a AND k \<noteq> 0" by blast
    then show ?thesis using True
      by (intro exI[of _ "Suc j"]) (subst poll_set.simps, simp add: Let_def funpow_swap1)
  next
    case False
    then show ?thesis by (intro exI[of _ 0]) (subst poll_set.simps, simp add: Let_def)
  qed
qed

lemma poll_set_Some: "poll_set hw a k m = Some m' \<Longrightarrow> m' a AND k \<noteq> 0"
  by (rule poll_set.raw_induct[of "\<lambda>hw a k m m'. m' a AND k \<noteq> 0"])
    (auto simp: Let_def split: if_splits)

lemma poll_clear_Some: "poll_clear hw a k m = Some m' \<Longrightarrow> m' a AND k = 0"
  by (rule poll_clear.raw_induct[of "\<lambda>hw a k m m'. m' a AND k = 0"])
    (auto simp: Let_def split: if_splits)

section \<open>Words\<close>

lemma unat_u32_less: "unat (a :: u32) < 2 ^ 32"
  using unsigned_less[of a] by simp

lemma unat_drop_bit: "unat (drop_bit n (a :: u32)) = unat a div 2 ^ n"
  by (subst unat_drop_bit_eq) (rule drop_bit_eq_div)

lemma unat_of_nat_u32: "n < 2 ^ 32 \<Longrightarrow> unat (of_nat n :: u32) = n"
  by (simp add: unat_of_nat take_bit_nat_eq_self)

lemma unat_plus_small: "unat (a :: u32) + n < 2 ^ 32 \<Longrightarrow> unat (a + of_nat n) = unat a + n"
  by (subst unat_add_lem[THEN iffD1]) (simp_all add: unat_of_nat)

lemma unat_ucast_u8: "unat (ucast (x :: u8) :: u32) = unat x"
proof -
  have "unat x < 2 ^ 8" using unsigned_less[of x] by simp
  then show ?thesis by (simp add: unsigned_ucast_eq take_bit_nat_eq_self)
qed

lemma and_not_or_and [reg_simps]:
  fixes r v k :: "'a :: len word"
  shows "((r AND NOT k) OR v) AND k = v AND k"
  by (rule bit_word_eqI) (auto simp: bit_simps)

lemma and_not_or_and_not [reg_simps]:
  fixes r v k :: "'a :: len word"
  assumes "v AND NOT k = 0"
  shows "((r AND NOT k) OR v) AND NOT k = r AND NOT k"
  using assms by (auto simp: bit_eq_iff bit_simps)

lemma and_not_or_twice [reg_simps]:
  fixes r v w k :: "'a :: len word"
  assumes "w AND NOT k = 0"
  shows "((((r AND NOT k) OR w) AND NOT k) OR v) = (r AND NOT k) OR v"
  using assms by (auto simp: bit_eq_iff bit_simps)

lemma field_writes_commute:
  fixes r v w k l :: "'a :: len word"
  assumes "k AND l = 0" "v AND NOT k = 0" "w AND NOT l = 0"
  shows "(((r AND NOT k) OR v) AND NOT l) OR w = (((r AND NOT l) OR w) AND NOT k) OR v"
  using assms by (auto simp: bit_eq_iff bit_simps)

lemma or_and_self [reg_simps]:
  fixes r b :: "'a :: len word"
  shows "(r OR b) AND b = b" "(r AND NOT b) AND b = 0"
  by (auto simp: bit_eq_iff bit_simps)

lemma or_and_other [reg_simps]:
  fixes r b c :: "'a :: len word"
  assumes "b AND c = 0"
  shows "(r OR b) AND c = r AND c" "(r AND NOT b) AND c = r AND c"
  using assms by (auto simp: bit_eq_iff bit_simps)

lemma or_and_not_cancel [reg_simps]:
  fixes r b :: "'a :: len word"
  shows "(r OR b) AND NOT b = r AND NOT b" "(r AND NOT b) OR b = r OR b"
  by (auto simp: bit_eq_iff bit_simps)

text \<open>A register that is a row of fields of \<open>w\<close> bits: replacing field \<open>j\<close> changes no other field.\<close>

lemma field_slot:
  fixes r t :: u32
  assumes "w * i + w \<le> 32" "w * j + w \<le> 32" "t AND NOT (mask w) = 0"
  shows "drop_bit (w * i) ((r AND NOT (push_bit (w * j) (mask w))) OR push_bit (w * j) t) AND mask w =
     (if i = j then t else drop_bit (w * i) r AND mask w)"
proof (rule bit_word_eqI)
  fix n assume n: "n < LENGTH(32)"
  have t: "k < w" if "bit t k" for k
    using assms(3) that bit_imp_le_length[of t k] by (auto simp: bit_eq_iff bit_simps)
  consider (same) "i = j" | (below) "w * i + w \<le> w * j" | (above) "w * j + w \<le> w * i"
    using mult_le_mono2[of "Suc i" j w] mult_le_mono2[of "Suc j" i w] by (cases i j rule: linorder_cases) auto
  then show "bit (drop_bit (w * i) ((r AND NOT (push_bit (w * j) (mask w))) OR push_bit (w * j) t) AND mask w) n =
     bit (if i = j then t else drop_bit (w * i) r AND mask w) n"
    using assms(1,2) n t[of n] t[of "w * i + n - w * j"] by cases (auto simp: bit_simps)
qed

section \<open>Contract: a function that replaces a field of one register\<close>

locale reg_field =
  fixes cfg :: "u32 \<Rightarrow> mem \<Rightarrow> mem"
    and addr :: u32
    and fmask :: u32
  assumes cfg_addr: "cfg v m addr = (m addr AND NOT fmask) OR v"
    and cfg_frame: "a \<noteq> addr \<Longrightarrow> cfg v m a = m a"
begin

lemma cfg_eq: "cfg v m = m(addr := (m addr AND NOT fmask) OR v)"
  by (rule ext) (simp add: cfg_addr cfg_frame)

lemma field_read_back: "cfg v m addr AND fmask = v AND fmask"
  by (simp add: cfg_addr and_not_or_and)

lemma field_others: "v AND NOT fmask = 0 \<Longrightarrow> cfg v m addr AND NOT fmask = m addr AND NOT fmask"
  by (simp add: cfg_addr and_not_or_and_not)

lemma field_last_wins: "w AND NOT fmask = 0 \<Longrightarrow> cfg v (cfg w m) = cfg v m"
  by (simp add: cfg_eq and_not_or_twice)

end

section \<open>Contract: a pair of functions that set and clear a flag of one register\<close>

locale reg_bit =
  fixes turn_on :: "mem \<Rightarrow> mem"
    and turn_off :: "mem \<Rightarrow> mem"
    and addr :: u32
    and flag :: u32
  assumes on_addr: "turn_on m addr = m addr OR flag"
    and on_frame: "a \<noteq> addr \<Longrightarrow> turn_on m a = m a"
    and off_addr: "turn_off m addr = m addr AND NOT flag"
    and off_frame: "a \<noteq> addr \<Longrightarrow> turn_off m a = m a"
begin

lemma on_eq: "turn_on m = m(addr := m addr OR flag)"
  by (rule ext) (simp add: on_addr on_frame)

lemma off_eq: "turn_off m = m(addr := m addr AND NOT flag)"
  by (rule ext) (simp add: off_addr off_frame)

lemma flag_on: "turn_on m addr AND flag = flag"
  by (simp add: on_addr or_and_self)

lemma flag_off: "turn_off m addr AND flag = 0"
  by (simp add: off_addr or_and_self)

lemma on_other_bits: "flag AND c = 0 \<Longrightarrow> turn_on m addr AND c = m addr AND c"
  by (simp add: on_addr or_and_other)

lemma off_other_bits: "flag AND c = 0 \<Longrightarrow> turn_off m addr AND c = m addr AND c"
  by (simp add: off_addr or_and_other)

lemma off_after_on: "turn_off (turn_on m) = turn_off m"
  by (simp add: on_eq off_eq or_and_not_cancel)

lemma on_after_off: "turn_on (turn_off m) = turn_on m"
  by (simp add: on_eq off_eq or_and_not_cancel)

lemma on_idem: "turn_on (turn_on m) = turn_on m"
  by (simp add: on_eq or.assoc)

end

end
