(* ===== verification/Gd32_Fmc.thy ===== *)
theory Gd32_Fmc
  imports Prelude
begin

unbundle bit_operations_syntax

text \<open>
  Flash memory controller: \<^verbatim>\<open>gd32f30x_fmc.c\<close>.

  The controller and the flash array are hardware, so they are an argument \<open>c\<close> of every
  function here: \<open>st32 c a v\<close> and \<open>st16 c a v\<close> are what a store of \<open>v\<close> at address \<open>a\<close> does
  (to a register of the controller, or to a cell of the array being programmed), \<open>tick c\<close> is what
  the controller does before the next read of its status. The state of the machine is the
  controller's registers, the bytes of the array, and whatever the controller keeps
  (\<open>inner\<close>), which no program can read. \<open>nor_flash\<close> collects the behaviour the user manual of the
  GD32F30x documents for such a controller; theorems that need it name it as a hypothesis.
  The status register is taken not to change between the two or three reads of one call of
  \<^verbatim>\<open>fmc_bank0_state_get\<close>.
\<close>

section \<open>Machine and controller\<close>

record 'h mach =
  regs :: mem
  flash :: "u32 \<Rightarrow> u8"
  inner :: 'h

record 'h chip =
  st32 :: "u32 \<Rightarrow> u32 \<Rightarrow> 'h mach \<Rightarrow> 'h mach"
  st16 :: "u32 \<Rightarrow> u16 \<Rightarrow> 'h mach \<Rightarrow> 'h mach"
  tick :: "'h mach \<Rightarrow> 'h mach"

datatype fmc_state_enum = FMC_READY | FMC_BUSY | FMC_PGERR | FMC_WPERR | FMC_TOERR

text \<open>A 16-bit and a 32-bit little-endian read of a byte-addressed memory.\<close>

definition rd16 :: "(u32 \<Rightarrow> u8) \<Rightarrow> u32 \<Rightarrow> u16" where
  "rd16 f a = ucast (f a) OR push_bit 8 (ucast (f (a + 1)))"

definition rd32 :: "(u32 \<Rightarrow> u8) \<Rightarrow> u32 \<Rightarrow> u32" where
  "rd32 f a = ucast (f a) OR push_bit 8 (ucast (f (a + 1))) OR
     push_bit 16 (ucast (f (a + 2))) OR push_bit 24 (ucast (f (a + 3)))"

definition wr32 :: "(u32 \<Rightarrow> u8) \<Rightarrow> u32 \<Rightarrow> u32 \<Rightarrow> u32 \<Rightarrow> u8" where
  "wr32 f a d = f(a := ucast d, a + 1 := ucast (drop_bit 8 d), a + 2 := ucast (drop_bit 16 d),
     a + 3 := ucast (drop_bit 24 d))"

text \<open>The read-modify-write statements \<^verbatim>\<open>REG |= bits\<close> and \<^verbatim>\<open>REG &= ~bits\<close>.\<close>

definition set_bits :: "'h chip \<Rightarrow> u32 \<Rightarrow> u32 \<Rightarrow> 'h mach \<Rightarrow> 'h mach" where
  "set_bits c a k s = st32 c a (regs s a OR k) s"

definition clear_bits :: "'h chip \<Rightarrow> u32 \<Rightarrow> u32 \<Rightarrow> 'h mach \<Rightarrow> 'h mach" where
  "clear_bits c a k s = st32 c a (regs s a AND NOT k) s"

section \<open>Registers and constants\<close>

abbreviation FMC :: u32 where "FMC \<equiv> 0x40022000"
abbreviation FMC_WS :: u32 where "FMC_WS \<equiv> 0x40022000"
abbreviation FMC_KEY0 :: u32 where "FMC_KEY0 \<equiv> 0x40022004"
abbreviation FMC_OBKEY :: u32 where "FMC_OBKEY \<equiv> 0x40022008"
abbreviation FMC_STAT0 :: u32 where "FMC_STAT0 \<equiv> 0x4002200C"
abbreviation FMC_CTL0 :: u32 where "FMC_CTL0 \<equiv> 0x40022010"
abbreviation FMC_ADDR0 :: u32 where "FMC_ADDR0 \<equiv> 0x40022014"
abbreviation FMC_OBSTAT :: u32 where "FMC_OBSTAT \<equiv> 0x4002201C"
abbreviation FMC_WP :: u32 where "FMC_WP \<equiv> 0x40022020"
abbreviation FMC_KEY1 :: u32 where "FMC_KEY1 \<equiv> 0x40022044"
abbreviation FMC_STAT1 :: u32 where "FMC_STAT1 \<equiv> 0x4002204C"
abbreviation FMC_CTL1 :: u32 where "FMC_CTL1 \<equiv> 0x40022050"
abbreviation FMC_ADDR1 :: u32 where "FMC_ADDR1 \<equiv> 0x40022054"
abbreviation FMC_WSEN :: u32 where "FMC_WSEN \<equiv> 0x400220FC"
abbreviation OB_SPC :: u32 where "OB_SPC \<equiv> 0x1FFFF800"
abbreviation OB_USER :: u32 where "OB_USER \<equiv> 0x1FFFF802"
abbreviation OB_WP0 :: u32 where "OB_WP0 \<equiv> 0x1FFFF808"
abbreviation OB_WP1 :: u32 where "OB_WP1 \<equiv> 0x1FFFF80A"
abbreviation OB_WP2 :: u32 where "OB_WP2 \<equiv> 0x1FFFF80C"
abbreviation OB_WP3 :: u32 where "OB_WP3 \<equiv> 0x1FFFF80E"
abbreviation FMC_WS_WSCNT :: u32 where "FMC_WS_WSCNT \<equiv> 0x7"
abbreviation FMC_STAT0_BUSY :: u32 where "FMC_STAT0_BUSY \<equiv> 0x1"
abbreviation FMC_STAT0_PGERR :: u32 where "FMC_STAT0_PGERR \<equiv> 0x4"
abbreviation FMC_STAT0_WPERR :: u32 where "FMC_STAT0_WPERR \<equiv> 0x10"
abbreviation FMC_STAT0_ENDF :: u32 where "FMC_STAT0_ENDF \<equiv> 0x20"
abbreviation FMC_CTL0_PG :: u32 where "FMC_CTL0_PG \<equiv> 0x1"
abbreviation FMC_CTL0_PER :: u32 where "FMC_CTL0_PER \<equiv> 0x2"
abbreviation FMC_CTL0_MER :: u32 where "FMC_CTL0_MER \<equiv> 0x4"
abbreviation FMC_CTL0_OBPG :: u32 where "FMC_CTL0_OBPG \<equiv> 0x10"
abbreviation FMC_CTL0_OBER :: u32 where "FMC_CTL0_OBER \<equiv> 0x20"
abbreviation FMC_CTL0_START :: u32 where "FMC_CTL0_START \<equiv> 0x40"
abbreviation FMC_CTL0_LK :: u32 where "FMC_CTL0_LK \<equiv> 0x80"
abbreviation FMC_CTL0_OBWEN :: u32 where "FMC_CTL0_OBWEN \<equiv> 0x200"
abbreviation FMC_OBSTAT_SPC :: u32 where "FMC_OBSTAT_SPC \<equiv> 0x2"
abbreviation FMC_STAT1_BUSY :: u32 where "FMC_STAT1_BUSY \<equiv> 0x1"
abbreviation FMC_STAT1_PGERR :: u32 where "FMC_STAT1_PGERR \<equiv> 0x4"
abbreviation FMC_STAT1_WPERR :: u32 where "FMC_STAT1_WPERR \<equiv> 0x10"
abbreviation FMC_CTL1_PG :: u32 where "FMC_CTL1_PG \<equiv> 0x1"
abbreviation FMC_CTL1_PER :: u32 where "FMC_CTL1_PER \<equiv> 0x2"
abbreviation FMC_CTL1_MER :: u32 where "FMC_CTL1_MER \<equiv> 0x4"
abbreviation FMC_CTL1_START :: u32 where "FMC_CTL1_START \<equiv> 0x40"
abbreviation FMC_CTL1_LK :: u32 where "FMC_CTL1_LK \<equiv> 0x80"
abbreviation FMC_WSEN_BPEN :: u32 where "FMC_WSEN_BPEN \<equiv> 0x2"
abbreviation FMC_REG_VAL :: "u32 \<Rightarrow> u32" where
  "FMC_REG_VAL offset \<equiv> FMC + drop_bit 6 offset"
abbreviation FMC_BIT_POS :: "u32 \<Rightarrow> u32" where
  "FMC_BIT_POS val \<equiv> val AND 0x1F"
abbreviation FMC_REG_VALS :: "u32 \<Rightarrow> u32" where
  "FMC_REG_VALS offset \<equiv> FMC + drop_bit 12 offset"
abbreviation FMC_BIT_POS0 :: "u32 \<Rightarrow> u32" where
  "FMC_BIT_POS0 val \<equiv> drop_bit 6 val AND 0x1F"
abbreviation FMC_BIT_POS1 :: "u32 \<Rightarrow> u32" where
  "FMC_BIT_POS1 val \<equiv> val AND 0x1F"
abbreviation FMC_REG_OFFSET_GET :: "u32 \<Rightarrow> u32" where
  "FMC_REG_OFFSET_GET flag \<equiv> drop_bit 12 flag"
abbreviation FMC_STAT0_REG_OFFSET :: u32 where "FMC_STAT0_REG_OFFSET \<equiv> 0xC"
abbreviation UNLOCK_KEY0 :: u32 where "UNLOCK_KEY0 \<equiv> 0x45670123"
abbreviation UNLOCK_KEY1 :: u32 where "UNLOCK_KEY1 \<equiv> 0xCDEF89AB"
abbreviation OB_USER_MASK :: u32 where "OB_USER_MASK \<equiv> 0xF0"
abbreviation FMC_NSPC :: u32 where "FMC_NSPC \<equiv> 0xA5"
abbreviation FMC_USPC :: u32 where "FMC_USPC \<equiv> 0xBB"
abbreviation OB_WP0_WP0 :: u32 where "OB_WP0_WP0 \<equiv> 0xFF"
abbreviation OB_WP1_WP1 :: u32 where "OB_WP1_WP1 \<equiv> 0xFF00"
abbreviation OB_WP2_WP2 :: u32 where "OB_WP2_WP2 \<equiv> 0xFF0000"
abbreviation OB_WP3_WP3 :: u32 where "OB_WP3_WP3 \<equiv> 0xFF000000"
abbreviation FMC_TIMEOUT_COUNT :: u32 where "FMC_TIMEOUT_COUNT \<equiv> 0xFFF0000"
abbreviation FMC_BANK0_END_ADDRESS :: u32 where "FMC_BANK0_END_ADDRESS \<equiv> 0x807FFFF"
abbreviation FMC_BANK0_SIZE :: u32 where "FMC_BANK0_SIZE \<equiv> 0x200"
abbreviation FMC_FLAG_BANK0_PGERR :: u32 where "FMC_FLAG_BANK0_PGERR \<equiv> 0x302"
abbreviation FMC_FLAG_BANK0_WPERR :: u32 where "FMC_FLAG_BANK0_WPERR \<equiv> 0x304"
abbreviation FMC_FLAG_BANK0_END :: u32 where "FMC_FLAG_BANK0_END \<equiv> 0x305"

text \<open>The size of the flash memory in KB, a 16-bit cell of the system memory.\<close>

definition FMC_SIZE :: "'h mach \<Rightarrow> u32" where
  "FMC_SIZE s = ucast (rd16 (flash s) 0x1FFFF7E0)"

section \<open>Operations\<close>

definition fmc_wscnt_set :: "'h chip \<Rightarrow> u32 \<Rightarrow> 'h mach \<Rightarrow> 'h mach" where
  "fmc_wscnt_set c wscnt s =
    (let reg = regs s FMC_WS;
         reg = reg AND NOT FMC_WS_WSCNT
      in st32 c FMC_WS (reg OR wscnt) s)"

definition fmc_unlock :: "'h chip \<Rightarrow> 'h mach \<Rightarrow> 'h mach" where
  "fmc_unlock c s =
    (let s = (if regs s FMC_CTL0 AND FMC_CTL0_LK \<noteq> 0
              then st32 c FMC_KEY0 UNLOCK_KEY1 (st32 c FMC_KEY0 UNLOCK_KEY0 s) else s)
      in (if FMC_BANK0_SIZE < FMC_SIZE s then
            (if regs s FMC_CTL1 AND FMC_CTL1_LK \<noteq> 0
             then st32 c FMC_KEY1 UNLOCK_KEY1 (st32 c FMC_KEY1 UNLOCK_KEY0 s) else s)
          else s))"

definition fmc_bank0_unlock :: "'h chip \<Rightarrow> 'h mach \<Rightarrow> 'h mach" where
  "fmc_bank0_unlock c s =
    (if regs s FMC_CTL0 AND FMC_CTL0_LK \<noteq> 0
     then st32 c FMC_KEY0 UNLOCK_KEY1 (st32 c FMC_KEY0 UNLOCK_KEY0 s)
     else s)"

definition fmc_bank1_unlock :: "'h chip \<Rightarrow> 'h mach \<Rightarrow> 'h mach" where
  "fmc_bank1_unlock c s =
    (if regs s FMC_CTL1 AND FMC_CTL1_LK \<noteq> 0
     then st32 c FMC_KEY1 UNLOCK_KEY1 (st32 c FMC_KEY1 UNLOCK_KEY0 s)
     else s)"

definition fmc_lock :: "'h chip \<Rightarrow> 'h mach \<Rightarrow> 'h mach" where
  "fmc_lock c s =
    (let s = set_bits c FMC_CTL0 FMC_CTL0_LK s
      in (if FMC_BANK0_SIZE < FMC_SIZE s then set_bits c FMC_CTL1 FMC_CTL1_LK s else s))"

definition fmc_bank0_lock :: "'h chip \<Rightarrow> 'h mach \<Rightarrow> 'h mach" where
  "fmc_bank0_lock c s = set_bits c FMC_CTL0 FMC_CTL0_LK s"

definition fmc_bank1_lock :: "'h chip \<Rightarrow> 'h mach \<Rightarrow> 'h mach" where
  "fmc_bank1_lock c s = set_bits c FMC_CTL1 FMC_CTL1_LK s"

definition fmc_bank0_state_get :: "'h mach \<Rightarrow> fmc_state_enum" where
  "fmc_bank0_state_get s =
    (if regs s FMC_STAT0 AND FMC_STAT0_BUSY \<noteq> 0 then FMC_BUSY
     else if regs s FMC_STAT0 AND FMC_STAT0_WPERR \<noteq> 0 then FMC_WPERR
     else if regs s FMC_STAT0 AND FMC_STAT0_PGERR \<noteq> 0 then FMC_PGERR
     else FMC_READY)"

fun fmc_bank0_ready_loop :: "'h chip \<Rightarrow> nat \<Rightarrow> 'h mach \<Rightarrow> fmc_state_enum \<times> 'h mach" where
  "fmc_bank0_ready_loop c timeout s =
    (let s = tick c s;
         fmc_state = fmc_bank0_state_get s
      in (if fmc_state = FMC_BUSY then
            (case timeout of 0 \<Rightarrow> (FMC_TOERR, s) | Suc n \<Rightarrow> fmc_bank0_ready_loop c n s)
          else (fmc_state, s)))"

definition fmc_bank0_ready_wait :: "'h chip \<Rightarrow> u32 \<Rightarrow> 'h mach \<Rightarrow> fmc_state_enum \<times> 'h mach" where
  "fmc_bank0_ready_wait c timeout s = fmc_bank0_ready_loop c (unat (timeout - 1)) s"

definition fmc_page_erase_bank0 :: "'h chip \<Rightarrow> u32 \<Rightarrow> 'h mach \<Rightarrow> fmc_state_enum \<times> 'h mach" where
  "fmc_page_erase_bank0 c page_address s =
    (let (fmc_state, s) = fmc_bank0_ready_wait c FMC_TIMEOUT_COUNT s
      in (if fmc_state = FMC_READY then
            (let s = set_bits c FMC_CTL0 FMC_CTL0_PER s;
                 s = st32 c FMC_ADDR0 page_address s;
                 s = set_bits c FMC_CTL0 FMC_CTL0_START s;
                 (fmc_state, s) = fmc_bank0_ready_wait c FMC_TIMEOUT_COUNT s
              in (fmc_state, clear_bits c FMC_CTL0 FMC_CTL0_PER s))
          else (fmc_state, s)))"

definition fmc_bank1_state_get :: "'h mach \<Rightarrow> fmc_state_enum" where
  "fmc_bank1_state_get s =
    (if regs s FMC_STAT1 AND FMC_STAT1_BUSY \<noteq> 0 then FMC_BUSY
     else if regs s FMC_STAT1 AND FMC_STAT1_WPERR \<noteq> 0 then FMC_WPERR
     else if regs s FMC_STAT1 AND FMC_STAT1_PGERR \<noteq> 0 then FMC_PGERR
     else FMC_READY)"

fun fmc_bank1_ready_loop :: "'h chip \<Rightarrow> nat \<Rightarrow> 'h mach \<Rightarrow> fmc_state_enum \<times> 'h mach" where
  "fmc_bank1_ready_loop c timeout s =
    (let s = tick c s;
         fmc_state = fmc_bank1_state_get s
      in (if fmc_state = FMC_BUSY then
            (case timeout of 0 \<Rightarrow> (FMC_TOERR, s) | Suc n \<Rightarrow> fmc_bank1_ready_loop c n s)
          else (fmc_state, s)))"

definition fmc_bank1_ready_wait :: "'h chip \<Rightarrow> u32 \<Rightarrow> 'h mach \<Rightarrow> fmc_state_enum \<times> 'h mach" where
  "fmc_bank1_ready_wait c timeout s = fmc_bank1_ready_loop c (unat (timeout - 1)) s"

definition fmc_page_erase_bank1 :: "'h chip \<Rightarrow> u32 \<Rightarrow> 'h mach \<Rightarrow> fmc_state_enum \<times> 'h mach" where
  "fmc_page_erase_bank1 c page_address s =
    (let (fmc_state, s) = fmc_bank1_ready_wait c FMC_TIMEOUT_COUNT s
      in (if fmc_state = FMC_READY then
            (let s = set_bits c FMC_CTL1 FMC_CTL1_PER s;
                 s = st32 c FMC_ADDR1 page_address s;
                 s = (if regs s FMC_OBSTAT AND FMC_OBSTAT_SPC \<noteq> 0 then st32 c FMC_ADDR0 page_address s else s);
                 s = set_bits c FMC_CTL1 FMC_CTL1_START s;
                 (fmc_state, s) = fmc_bank1_ready_wait c FMC_TIMEOUT_COUNT s
              in (fmc_state, clear_bits c FMC_CTL1 FMC_CTL1_PER s))
          else (fmc_state, s)))"

definition fmc_page_erase :: "'h chip \<Rightarrow> u32 \<Rightarrow> 'h mach \<Rightarrow> fmc_state_enum \<times> 'h mach" where
  "fmc_page_erase c page_address s =
    (if FMC_BANK0_SIZE < FMC_SIZE s then
       (if FMC_BANK0_END_ADDRESS > page_address then fmc_page_erase_bank0 c page_address s
        else fmc_page_erase_bank1 c page_address s)
     else fmc_page_erase_bank0 c page_address s)"

definition fmc_bank1_erase :: "'h chip \<Rightarrow> 'h mach \<Rightarrow> fmc_state_enum \<times> 'h mach" where
  "fmc_bank1_erase c s =
    (let (fmc_state, s) = fmc_bank1_ready_wait c FMC_TIMEOUT_COUNT s
      in (if fmc_state = FMC_READY then
            (let s = set_bits c FMC_CTL1 FMC_CTL1_MER s;
                 s = set_bits c FMC_CTL1 FMC_CTL1_START s;
                 (fmc_state, s) = fmc_bank1_ready_wait c FMC_TIMEOUT_COUNT s
              in (fmc_state, clear_bits c FMC_CTL1 FMC_CTL1_MER s))
          else (fmc_state, s)))"

definition fmc_bank0_erase :: "'h chip \<Rightarrow> 'h mach \<Rightarrow> fmc_state_enum \<times> 'h mach" where
  "fmc_bank0_erase c s =
    (let (fmc_state, s) = fmc_bank0_ready_wait c FMC_TIMEOUT_COUNT s
      in (if fmc_state = FMC_READY then
            (let s = set_bits c FMC_CTL0 FMC_CTL0_MER s;
                 s = set_bits c FMC_CTL0 FMC_CTL0_START s;
                 (fmc_state, s) = fmc_bank0_ready_wait c FMC_TIMEOUT_COUNT s
              in (fmc_state, clear_bits c FMC_CTL0 FMC_CTL0_MER s))
          else (fmc_state, s)))"

definition fmc_mass_erase :: "'h chip \<Rightarrow> 'h mach \<Rightarrow> fmc_state_enum \<times> 'h mach" where
  "fmc_mass_erase c s =
    (if FMC_BANK0_SIZE < FMC_SIZE s then
       (let (fmc_state, s) = fmc_bank0_ready_wait c FMC_TIMEOUT_COUNT s
         in (if fmc_state = FMC_READY then
               (let s = set_bits c FMC_CTL0 FMC_CTL0_MER s;
                    s = set_bits c FMC_CTL0 FMC_CTL0_START s;
                    (fmc_state, s) = fmc_bank0_ready_wait c FMC_TIMEOUT_COUNT s
                 in (if fmc_state \<noteq> FMC_READY then (fmc_state, s)
                     else fmc_bank1_erase c (clear_bits c FMC_CTL0 FMC_CTL0_MER s)))
             else fmc_bank1_erase c s))
     else fmc_bank0_erase c s)"

definition fmc_word_program_bank0 :: "'h chip \<Rightarrow> u32 \<Rightarrow> u32 \<Rightarrow> 'h mach \<Rightarrow> fmc_state_enum \<times> 'h mach" where
  "fmc_word_program_bank0 c address data s =
    (let (fmc_state, s) = fmc_bank0_ready_wait c FMC_TIMEOUT_COUNT s
      in (if fmc_state = FMC_READY then
            (let s = set_bits c FMC_CTL0 FMC_CTL0_PG s;
                 s = st32 c address data s;
                 (fmc_state, s) = fmc_bank0_ready_wait c FMC_TIMEOUT_COUNT s
              in (fmc_state, clear_bits c FMC_CTL0 FMC_CTL0_PG s))
          else (fmc_state, s)))"

definition fmc_word_program_bank1 :: "'h chip \<Rightarrow> u32 \<Rightarrow> u32 \<Rightarrow> 'h mach \<Rightarrow> fmc_state_enum \<times> 'h mach" where
  "fmc_word_program_bank1 c address data s =
    (let (fmc_state, s) = fmc_bank1_ready_wait c FMC_TIMEOUT_COUNT s
      in (if fmc_state = FMC_READY then
            (let s = set_bits c FMC_CTL1 FMC_CTL1_PG s;
                 s = st32 c address data s;
                 (fmc_state, s) = fmc_bank1_ready_wait c FMC_TIMEOUT_COUNT s
              in (fmc_state, clear_bits c FMC_CTL1 FMC_CTL1_PG s))
          else (fmc_state, s)))"

definition fmc_word_program :: "'h chip \<Rightarrow> u32 \<Rightarrow> u32 \<Rightarrow> 'h mach \<Rightarrow> fmc_state_enum \<times> 'h mach" where
  "fmc_word_program c address data s =
    (if FMC_BANK0_SIZE < FMC_SIZE s then
       (if FMC_BANK0_END_ADDRESS > address then fmc_word_program_bank0 c address data s
        else fmc_word_program_bank1 c address data s)
     else fmc_word_program_bank0 c address data s)"

definition fmc_halfword_program_bank0 :: "'h chip \<Rightarrow> u32 \<Rightarrow> u16 \<Rightarrow> 'h mach \<Rightarrow> fmc_state_enum \<times> 'h mach" where
  "fmc_halfword_program_bank0 c address data s =
    (let (fmc_state, s) = fmc_bank0_ready_wait c FMC_TIMEOUT_COUNT s
      in (if fmc_state = FMC_READY then
            (let s = set_bits c FMC_CTL0 FMC_CTL0_PG s;
                 s = st16 c address data s;
                 (fmc_state, s) = fmc_bank0_ready_wait c FMC_TIMEOUT_COUNT s
              in (fmc_state, clear_bits c FMC_CTL0 FMC_CTL0_PG s))
          else (fmc_state, s)))"

definition fmc_halfword_program_bank1 :: "'h chip \<Rightarrow> u32 \<Rightarrow> u16 \<Rightarrow> 'h mach \<Rightarrow> fmc_state_enum \<times> 'h mach" where
  "fmc_halfword_program_bank1 c address data s =
    (let (fmc_state, s) = fmc_bank1_ready_wait c FMC_TIMEOUT_COUNT s
      in (if fmc_state = FMC_READY then
            (let s = set_bits c FMC_CTL1 FMC_CTL1_PG s;
                 s = st16 c address data s;
                 (fmc_state, s) = fmc_bank1_ready_wait c FMC_TIMEOUT_COUNT s
              in (fmc_state, clear_bits c FMC_CTL1 FMC_CTL1_PG s))
          else (fmc_state, s)))"

definition fmc_halfword_program :: "'h chip \<Rightarrow> u32 \<Rightarrow> u16 \<Rightarrow> 'h mach \<Rightarrow> fmc_state_enum \<times> 'h mach" where
  "fmc_halfword_program c address data s =
    (if FMC_BANK0_SIZE < FMC_SIZE s then
       (if FMC_BANK0_END_ADDRESS > address then fmc_halfword_program_bank0 c address data s
        else fmc_halfword_program_bank1 c address data s)
     else fmc_halfword_program_bank0 c address data s)"

definition fmc_word_reprogram_bank0 :: "'h chip \<Rightarrow> u32 \<Rightarrow> u32 \<Rightarrow> 'h mach \<Rightarrow> fmc_state_enum \<times> 'h mach" where
  "fmc_word_reprogram_bank0 c address data s =
    (let (fmc_state, s) = fmc_bank0_ready_wait c FMC_TIMEOUT_COUNT s;
         s = set_bits c FMC_WSEN FMC_WSEN_BPEN s
      in (if fmc_state = FMC_READY then
            (let s = set_bits c FMC_CTL0 FMC_CTL0_PG s;
                 s = st32 c address data s;
                 (fmc_state, s) = fmc_bank0_ready_wait c FMC_TIMEOUT_COUNT s
              in (fmc_state, clear_bits c FMC_CTL0 FMC_CTL0_PG s))
          else (fmc_state, s)))"

definition fmc_word_reprogram_bank1 :: "'h chip \<Rightarrow> u32 \<Rightarrow> u32 \<Rightarrow> 'h mach \<Rightarrow> fmc_state_enum \<times> 'h mach" where
  "fmc_word_reprogram_bank1 c address data s =
    (let (fmc_state, s) = fmc_bank1_ready_wait c FMC_TIMEOUT_COUNT s;
         s = set_bits c FMC_WSEN FMC_WSEN_BPEN s
      in (if fmc_state = FMC_READY then
            (let s = set_bits c FMC_CTL1 FMC_CTL1_PG s;
                 s = st32 c address data s;
                 (fmc_state, s) = fmc_bank1_ready_wait c FMC_TIMEOUT_COUNT s
              in (fmc_state, clear_bits c FMC_CTL1 FMC_CTL1_PG s))
          else (fmc_state, s)))"

definition fmc_word_reprogram :: "'h chip \<Rightarrow> u32 \<Rightarrow> u32 \<Rightarrow> 'h mach \<Rightarrow> fmc_state_enum \<times> 'h mach" where
  "fmc_word_reprogram c address data s =
    (if FMC_BANK0_SIZE < FMC_SIZE s then
       (if FMC_BANK0_END_ADDRESS > address then fmc_word_reprogram_bank0 c address data s
        else fmc_word_reprogram_bank1 c address data s)
     else fmc_word_reprogram_bank0 c address data s)"

definition ob_unlock :: "'h chip \<Rightarrow> 'h mach \<Rightarrow> 'h mach" where
  "ob_unlock c s =
    (if regs s FMC_CTL0 AND FMC_CTL0_OBWEN = 0
     then st32 c FMC_OBKEY UNLOCK_KEY1 (st32 c FMC_OBKEY UNLOCK_KEY0 s)
     else s)"

definition ob_lock :: "'h chip \<Rightarrow> 'h mach \<Rightarrow> 'h mach" where
  "ob_lock c s = clear_bits c FMC_CTL0 FMC_CTL0_OBWEN s"

definition ob_spc_get :: "'h mach \<Rightarrow> FlagStatus" where
  "ob_spc_get s = (if regs s FMC_OBSTAT AND FMC_OBSTAT_SPC \<noteq> 0 then SET else RESET)"

definition ob_erase :: "'h chip \<Rightarrow> 'h mach \<Rightarrow> fmc_state_enum \<times> 'h mach" where
  "ob_erase c s =
    (let (fmc_state, s) = fmc_bank0_ready_wait c FMC_TIMEOUT_COUNT s;
         temp_spc = (if ob_spc_get s \<noteq> RESET then FMC_USPC else FMC_NSPC)
      in (if fmc_state = FMC_READY then
            (let s = set_bits c FMC_CTL0 FMC_CTL0_OBER s;
                 s = set_bits c FMC_CTL0 FMC_CTL0_START s;
                 (fmc_state, s) = fmc_bank0_ready_wait c FMC_TIMEOUT_COUNT s
              in (if fmc_state = FMC_READY then
                    (let s = clear_bits c FMC_CTL0 FMC_CTL0_OBER s;
                         s = set_bits c FMC_CTL0 FMC_CTL0_OBPG s;
                         s = st16 c OB_SPC (ucast temp_spc) s;
                         (fmc_state, s) = fmc_bank0_ready_wait c FMC_TIMEOUT_COUNT s
                      in (fmc_state, if fmc_state \<noteq> FMC_TOERR then clear_bits c FMC_CTL0 FMC_CTL0_OBPG s else s))
                  else (fmc_state, if fmc_state \<noteq> FMC_TOERR then clear_bits c FMC_CTL0 FMC_CTL0_OBPG s else s)))
          else (fmc_state, s)))"

definition ob_wp_write :: "'h chip \<Rightarrow> u32 \<Rightarrow> u16 \<Rightarrow> fmc_state_enum \<times> 'h mach \<Rightarrow> fmc_state_enum \<times> 'h mach" where
  "ob_wp_write c reg temp_wp = (\<lambda>(fmc_state, s).
     if fmc_state = FMC_READY \<and> temp_wp \<noteq> 0xFF
     then fmc_bank0_ready_wait c FMC_TIMEOUT_COUNT (st16 c reg temp_wp s)
     else (fmc_state, s))"

definition ob_write_protection_enable :: "'h chip \<Rightarrow> u32 \<Rightarrow> 'h mach \<Rightarrow> fmc_state_enum \<times> 'h mach" where
  "ob_write_protection_enable c ob_wp s =
    (let (fmc_state, s) = fmc_bank0_ready_wait c FMC_TIMEOUT_COUNT s;
         ob_wp = NOT ob_wp;
         temp_wp0 = (ucast (ob_wp AND OB_WP0_WP0) :: u16);
         temp_wp1 = (ucast (drop_bit 8 (ob_wp AND OB_WP1_WP1)) :: u16);
         temp_wp2 = (ucast (drop_bit 16 (ob_wp AND OB_WP2_WP2)) :: u16);
         temp_wp3 = (ucast (drop_bit 24 (ob_wp AND OB_WP3_WP3)) :: u16)
      in (if fmc_state = FMC_READY then
            (let s = set_bits c FMC_CTL0 FMC_CTL0_OBPG s;
                 (fmc_state, s) = ob_wp_write c OB_WP0 temp_wp0 (fmc_state, s);
                 (fmc_state, s) = ob_wp_write c OB_WP1 temp_wp1 (fmc_state, s);
                 (fmc_state, s) = ob_wp_write c OB_WP2 temp_wp2 (fmc_state, s);
                 (fmc_state, s) = ob_wp_write c OB_WP3 temp_wp3 (fmc_state, s)
              in (fmc_state, if fmc_state \<noteq> FMC_TOERR then clear_bits c FMC_CTL0 FMC_CTL0_OBPG s else s))
          else (fmc_state, s)))"

definition ob_security_protection_config :: "'h chip \<Rightarrow> u8 \<Rightarrow> 'h mach \<Rightarrow> fmc_state_enum \<times> 'h mach" where
  "ob_security_protection_config c ob_spc s =
    (let (fmc_state, s) = fmc_bank0_ready_wait c FMC_TIMEOUT_COUNT s
      in (if fmc_state = FMC_READY then
            (let s = set_bits c FMC_CTL0 FMC_CTL0_OBER s;
                 s = set_bits c FMC_CTL0 FMC_CTL0_START s;
                 (fmc_state, s) = fmc_bank0_ready_wait c FMC_TIMEOUT_COUNT s
              in (if fmc_state = FMC_READY then
                    (let s = clear_bits c FMC_CTL0 FMC_CTL0_OBER s;
                         s = set_bits c FMC_CTL0 FMC_CTL0_OBPG s;
                         s = st16 c OB_SPC (ucast ob_spc) s;
                         (fmc_state, s) = fmc_bank0_ready_wait c FMC_TIMEOUT_COUNT s
                      in (fmc_state, if fmc_state \<noteq> FMC_TOERR then clear_bits c FMC_CTL0 FMC_CTL0_OBPG s else s))
                  else (fmc_state, if fmc_state \<noteq> FMC_TOERR then clear_bits c FMC_CTL0 FMC_CTL0_OBER s else s)))
          else (fmc_state, s)))"

definition ob_user_write :: "'h chip \<Rightarrow> u8 \<Rightarrow> u8 \<Rightarrow> u8 \<Rightarrow> u8 \<Rightarrow> 'h mach \<Rightarrow> fmc_state_enum \<times> 'h mach" where
  "ob_user_write c ob_fwdgt ob_deepsleep ob_stdby ob_boot s =
    (let (fmc_state, s) = fmc_bank0_ready_wait c FMC_TIMEOUT_COUNT s
      in (if fmc_state = FMC_READY then
            (let s = set_bits c FMC_CTL0 FMC_CTL0_OBPG s;
                 temp = ((ob_boot OR ob_fwdgt) OR ob_deepsleep) OR ob_stdby OR ucast OB_USER_MASK;
                 s = st16 c OB_USER (ucast temp) s;
                 (fmc_state, s) = fmc_bank0_ready_wait c FMC_TIMEOUT_COUNT s
              in (fmc_state, if fmc_state \<noteq> FMC_TOERR then clear_bits c FMC_CTL0 FMC_CTL0_OBPG s else s))
          else (fmc_state, s)))"

definition ob_data_program :: "'h chip \<Rightarrow> u32 \<Rightarrow> u8 \<Rightarrow> 'h mach \<Rightarrow> fmc_state_enum \<times> 'h mach" where
  "ob_data_program c address data s =
    (let (fmc_state, s) = fmc_bank0_ready_wait c FMC_TIMEOUT_COUNT s
      in (if fmc_state = FMC_READY then
            (let s = set_bits c FMC_CTL0 FMC_CTL0_OBPG s;
                 s = st16 c address (ucast data) s;
                 (fmc_state, s) = fmc_bank0_ready_wait c FMC_TIMEOUT_COUNT s
              in (fmc_state, if fmc_state \<noteq> FMC_TOERR then clear_bits c FMC_CTL0 FMC_CTL0_OBPG s else s))
          else (fmc_state, s)))"

definition ob_user_get :: "'h mach \<Rightarrow> u8" where
  "ob_user_get s = ucast (drop_bit 2 (regs s FMC_OBSTAT))"

definition ob_data_get :: "'h mach \<Rightarrow> u16" where
  "ob_data_get s = ucast (drop_bit 10 (regs s FMC_OBSTAT))"

definition ob_write_protection_get :: "'h mach \<Rightarrow> u32" where
  "ob_write_protection_get s = regs s FMC_WP"

definition fmc_interrupt_enable :: "'h chip \<Rightarrow> u32 \<Rightarrow> 'h mach \<Rightarrow> 'h mach" where
  "fmc_interrupt_enable c interrupt s = set_bits c (FMC_REG_VAL interrupt) (BIT (FMC_BIT_POS interrupt)) s"

definition fmc_interrupt_disable :: "'h chip \<Rightarrow> u32 \<Rightarrow> 'h mach \<Rightarrow> 'h mach" where
  "fmc_interrupt_disable c interrupt s = clear_bits c (FMC_REG_VAL interrupt) (BIT (FMC_BIT_POS interrupt)) s"

definition fmc_flag_get :: "u32 \<Rightarrow> 'h mach \<Rightarrow> FlagStatus" where
  "fmc_flag_get flag s =
    (if regs s (FMC_REG_VAL flag) AND BIT (FMC_BIT_POS flag) \<noteq> 0 then SET else RESET)"

definition fmc_flag_clear :: "'h chip \<Rightarrow> u32 \<Rightarrow> 'h mach \<Rightarrow> 'h mach" where
  "fmc_flag_clear c flag s = set_bits c (FMC_REG_VAL flag) (BIT (FMC_BIT_POS flag)) s"

definition fmc_interrupt_flag_get :: "u32 \<Rightarrow> 'h mach \<Rightarrow> FlagStatus" where
  "fmc_interrupt_flag_get flag s =
    (let (ret1, ret2) =
       (if FMC_REG_OFFSET_GET flag = FMC_STAT0_REG_OFFSET
        then (regs s (FMC_REG_VALS flag) AND BIT (FMC_BIT_POS0 flag), regs s FMC_CTL0 AND BIT (FMC_BIT_POS1 flag))
        else (regs s (FMC_REG_VALS flag) AND BIT (FMC_BIT_POS0 flag), regs s FMC_CTL1 AND BIT (FMC_BIT_POS1 flag)))
      in (if ret1 \<noteq> 0 \<and> ret2 \<noteq> 0 then SET else RESET))"

definition fmc_interrupt_flag_clear :: "'h chip \<Rightarrow> u32 \<Rightarrow> 'h mach \<Rightarrow> 'h mach" where
  "fmc_interrupt_flag_clear c flag s = set_bits c (FMC_REG_VALS flag) (BIT (FMC_BIT_POS0 flag)) s"

declare fmc_bank0_ready_loop.simps [simp del]
declare fmc_bank1_ready_loop.simps [simp del]

section \<open>Documented behaviour of the flash controller\<close>

text \<open>
  The array has pages of 2 KB. Erasing a page sets all its bytes to 0xFF; programming a word
  writes four bytes.
\<close>

definition erase_page :: "u32 \<Rightarrow> (u32 \<Rightarrow> u8) \<Rightarrow> u32 \<Rightarrow> u8" where
  "erase_page p f = (\<lambda>a. if drop_bit 11 a = drop_bit 11 p then 0xFF else f a)"

definition in_flash :: "'h mach \<Rightarrow> u32 \<Rightarrow> bool" where
  "in_flash s a \<longleftrightarrow> 0x08000000 \<le> a \<and> unat a < 0x08000000 + 1024 * unat (FMC_SIZE s)"

definition fmc_idle :: "'h mach \<Rightarrow> bool" where
  "fmc_idle s \<longleftrightarrow> regs s FMC_STAT0 AND FMC_STAT0_BUSY = 0"

definition fmc_unlocked :: "'h mach \<Rightarrow> bool" where
  "fmc_unlocked s \<longleftrightarrow> regs s FMC_CTL0 AND FMC_CTL0_LK = 0"

text \<open>No error is flagged, no command bit is set, nothing is write protected, single-bank device.\<close>

definition fmc_ready :: "'h mach \<Rightarrow> bool" where
  "fmc_ready s \<longleftrightarrow> regs s FMC_STAT0 AND 0x15 = 0 \<and> regs s FMC_CTL0 AND 0x77 = 0 \<and>
     regs s FMC_WP = 0xFFFFFFFF \<and> FMC_SIZE s \<le> 0x200"

text \<open>
  The state \<open>s'\<close> is the one in which the busy flag of a started operation is first read as
  clear, and it is reached before the driver's time limit.
\<close>

definition completes :: "'h chip \<Rightarrow> 'h mach \<Rightarrow> 'h mach \<Rightarrow> bool" where
  "completes c s s' \<longleftrightarrow> (\<exists>n \<le> unat (FMC_TIMEOUT_COUNT - 1). (tick c ^^ Suc n) s = s' \<and> fmc_idle s' \<and>
     (\<forall>i < n. \<not> fmc_idle ((tick c ^^ Suc i) s)))"

text \<open>
  The behaviour documented in the FMC chapter of the GD32F30x user manual:
  an idle controller does not change by itself; the two keys unlock it; its control and address
  registers can be written while it is unlocked; the status flags ENDF, WPERR and PGERR are
  cleared by writing 1 to them; setting START with PER selected erases the page of the address
  register; a store to an erased word with PG selected programs it, a store to a word that is not
  erased is refused with PGERR.
\<close>

definition chip_registers :: "'h chip \<Rightarrow> bool" where
  "chip_registers c \<longleftrightarrow>
     (\<forall>s. fmc_idle s \<longrightarrow> tick c s = s) \<and>
     (\<forall>s. fmc_idle s \<longrightarrow> \<not> fmc_unlocked s \<longrightarrow>
        (\<exists>y. st32 c FMC_KEY0 UNLOCK_KEY1 (st32 c FMC_KEY0 UNLOCK_KEY0 s) =
          s\<lparr>regs := (regs s)(FMC_CTL0 := regs s FMC_CTL0 AND NOT FMC_CTL0_LK), inner := y\<rparr>)) \<and>
     (\<forall>s v. fmc_idle s \<longrightarrow> fmc_unlocked s \<longrightarrow> v AND FMC_CTL0_START = 0 \<longrightarrow>
        st32 c FMC_CTL0 v s = s\<lparr>regs := (regs s)(FMC_CTL0 := v)\<rparr>) \<and>
     (\<forall>s v. fmc_idle s \<longrightarrow> fmc_unlocked s \<longrightarrow>
        st32 c FMC_ADDR0 v s = s\<lparr>regs := (regs s)(FMC_ADDR0 := v)\<rparr>) \<and>
     (\<forall>s v. fmc_idle s \<longrightarrow>
        st32 c FMC_STAT0 v s = s\<lparr>regs := (regs s)(FMC_STAT0 := regs s FMC_STAT0 AND NOT (v AND 0x34))\<rparr>)"

definition chip_erases :: "'h chip \<Rightarrow> bool" where
  "chip_erases c \<longleftrightarrow> (\<forall>s. fmc_idle s \<longrightarrow> fmc_unlocked s \<longrightarrow> regs s FMC_CTL0 AND 0x77 = FMC_CTL0_PER \<longrightarrow>
     regs s FMC_WP = 0xFFFFFFFF \<longrightarrow> in_flash s (regs s FMC_ADDR0) \<longrightarrow>
     (\<exists>x y. completes c (st32 c FMC_CTL0 (regs s FMC_CTL0 OR FMC_CTL0_START) s)
        (s\<lparr>flash := erase_page (regs s FMC_ADDR0) (flash s), regs := (regs s)(FMC_STAT0 := x), inner := y\<rparr>) \<and>
        x AND 0x15 = 0))"

definition chip_programs :: "'h chip \<Rightarrow> bool" where
  "chip_programs c \<longleftrightarrow> (\<forall>s a d. fmc_idle s \<longrightarrow> fmc_unlocked s \<longrightarrow> regs s FMC_CTL0 AND 0x77 = FMC_CTL0_PG \<longrightarrow>
     regs s FMC_WP = 0xFFFFFFFF \<longrightarrow> in_flash s a \<longrightarrow> a AND 3 = 0 \<longrightarrow>
     (\<exists>x y. completes c (st32 c a d s)
        (s\<lparr>flash := (if rd32 (flash s) a = 0xFFFFFFFF then wr32 (flash s) a d else flash s),
           regs := (regs s)(FMC_STAT0 := x), inner := y\<rparr>) \<and>
        x AND 0x15 = (if rd32 (flash s) a = 0xFFFFFFFF then 0 else FMC_STAT0_PGERR)))"

definition nor_flash :: "'h chip \<Rightarrow> bool" where
  "nor_flash c \<longleftrightarrow> chip_registers c \<and> chip_erases c \<and> chip_programs c"

section \<open>Waiting for the controller\<close>

lemma bank0_loop_completes:
  assumes "(tick c ^^ Suc n) s = s'" "fmc_idle s'" "\<And>i. i < n \<Longrightarrow> \<not> fmc_idle ((tick c ^^ Suc i) s)" "n \<le> t"
  shows "fmc_bank0_ready_loop c t s = (fmc_bank0_state_get s', s')"
  using assms
proof (induction n arbitrary: s t)
  case 0
  then show ?case
    by (subst fmc_bank0_ready_loop.simps) (auto simp: Let_def fmc_idle_def fmc_bank0_state_get_def)
next
  case (Suc n)
  obtain t' where t: "t = Suc t'" using Suc.prems(4) by (cases t) auto
  have busy: "fmc_bank0_state_get (tick c s) = FMC_BUSY"
    using Suc.prems(3)[of 0] by (simp add: fmc_idle_def fmc_bank0_state_get_def)
  have "fmc_bank0_ready_loop c t' (tick c s) = (fmc_bank0_state_get s', s')"
  proof (rule Suc.IH)
    show "(tick c ^^ Suc n) (tick c s) = s'" using Suc.prems(1) by (simp add: funpow_swap1)
    show "\<not> fmc_idle ((tick c ^^ Suc i) (tick c s))" if "i < n" for i
      using Suc.prems(3)[of "Suc i"] that by (simp add: funpow_swap1)
    show "n \<le> t'" using Suc.prems(4) t by simp
  qed (rule Suc.prems(2))
  then show ?case using busy t by (subst fmc_bank0_ready_loop.simps) (simp add: Let_def)
qed

lemma ready_wait_completes:
  assumes "completes c s s'"
  shows "fmc_bank0_ready_wait c FMC_TIMEOUT_COUNT s = (fmc_bank0_state_get s', s')"
  using assms unfolding completes_def fmc_bank0_ready_wait_def by (blast intro: bank0_loop_completes)

lemma ready_wait_idle:
  assumes "chip_registers c" "fmc_idle s"
  shows "fmc_bank0_ready_wait c t s = (fmc_bank0_state_get s, s)"
proof -
  have "(tick c ^^ Suc 0) s = s" using assms by (simp add: chip_registers_def)
  then show ?thesis
    unfolding fmc_bank0_ready_wait_def by (rule bank0_loop_completes) (auto simp: assms)
qed

text \<open>The wait returns FMC_TOERR exactly when every one of its status reads finds the controller busy.\<close>

lemma bank0_loop_timeout:
  "fst (fmc_bank0_ready_loop c t s) = FMC_TOERR \<longleftrightarrow> (\<forall>i \<le> t. \<not> fmc_idle ((tick c ^^ Suc i) s))"
proof (induction t arbitrary: s)
  case 0
  show ?case
    by (subst fmc_bank0_ready_loop.simps) (auto simp: Let_def fmc_idle_def fmc_bank0_state_get_def)
next
  case (Suc t)
  have split: "(\<forall>i \<le> Suc t. \<not> fmc_idle ((tick c ^^ Suc i) s)) \<longleftrightarrow>
      \<not> fmc_idle (tick c s) \<and> (\<forall>i \<le> t. \<not> fmc_idle ((tick c ^^ Suc i) (tick c s)))"
    by (simp only: less_Suc_eq_le[symmetric] All_less_Suc2) (simp add: funpow_swap1)
  show ?case
    by (subst fmc_bank0_ready_loop.simps, subst split)
      (auto simp: Let_def Suc fmc_idle_def fmc_bank0_state_get_def)
qed

section \<open>Driver operations on a controller that behaves as documented\<close>

lemma and_submask:
  fixes x k l :: "'a :: len word"
  assumes "x AND k = 0" "l AND NOT k = 0"
  shows "x AND l = 0"
  using assms by (auto simp: bit_eq_iff bit_simps)

lemma and_submask_eq:
  fixes x k l v :: "'a :: len word"
  assumes "x AND k = v" "l AND NOT k = 0"
  shows "x AND l = v AND l"
  using assms by (auto simp: bit_eq_iff bit_simps)

lemma fmc_ready_idle: "fmc_ready s \<Longrightarrow> fmc_idle s"
  unfolding fmc_ready_def fmc_idle_def by (auto intro: and_submask[of _ "0x15"])

lemma state_get_ready: "regs s FMC_STAT0 AND 0x15 = 0 \<Longrightarrow> fmc_bank0_state_get s = FMC_READY"
  unfolding fmc_bank0_state_get_def
  using and_submask[of "regs s FMC_STAT0" "0x15"] by simp

lemma state_get_pgerr: "regs s FMC_STAT0 AND 0x15 = FMC_STAT0_PGERR \<Longrightarrow> fmc_bank0_state_get s = FMC_PGERR"
  unfolding fmc_bank0_state_get_def
  using and_submask_eq[of "regs s FMC_STAT0" "0x15" FMC_STAT0_PGERR] by simp

lemma FMC_SIZE_cong [simp]: "FMC_SIZE (s\<lparr>regs := r\<rparr>) = FMC_SIZE s" "FMC_SIZE (s\<lparr>inner := y\<rparr>) = FMC_SIZE s"
  by (simp_all add: FMC_SIZE_def)

lemma in_flash_cong [simp]: "in_flash (s\<lparr>regs := r\<rparr>) a = in_flash s a" "in_flash (s\<lparr>inner := y\<rparr>) a = in_flash s a"
  by (simp_all add: in_flash_def)

text \<open>A command bit that is set and cleared again leaves the control register as it was.\<close>

lemma cmd_bit_cancel: "x AND 0x77 = (0 :: u32) \<Longrightarrow> k AND NOT 0x77 = 0 \<Longrightarrow> (x OR k) AND NOT k = x"
  by (auto simp: bit_eq_iff bit_simps)

lemma cmd_bit_only: "x AND 0x77 = (0 :: u32) \<Longrightarrow> k AND NOT 0x77 = 0 \<Longrightarrow> (x OR k) AND 0x77 = k"
  by (auto simp: bit_eq_iff bit_simps)

lemma cmd_bit_lock: "x AND 0x80 = (0 :: u32) \<Longrightarrow> k AND NOT 0x77 = 0 \<Longrightarrow> (x OR k) AND 0x80 = 0"
proof -
  assume a: "x AND 0x80 = (0 :: u32)" "k AND NOT 0x77 = 0"
  have "k AND 0x80 = 0" using and_submask_eq[of k "NOT 0x77" 0 "0x80"] a(2) by simp
  then show ?thesis using a(1) by (simp add: bit.conj_disj_distrib2)
qed

lemma ctl0_store:
  assumes "chip_registers c" "fmc_idle s" "fmc_unlocked s" "v AND FMC_CTL0_START = 0"
  shows "st32 c FMC_CTL0 v s = s\<lparr>regs := (regs s)(FMC_CTL0 := v)\<rparr>"
  using assms unfolding chip_registers_def by blast

lemma set_command:
  assumes "chip_registers c" "fmc_ready s" "fmc_unlocked s" "k AND NOT 0x77 = 0" "k AND FMC_CTL0_START = 0"
  shows "set_bits c FMC_CTL0 k s = s\<lparr>regs := (regs s)(FMC_CTL0 := regs s FMC_CTL0 OR k)\<rparr>"
proof -
  have "regs s FMC_CTL0 AND FMC_CTL0_START = 0"
    using assms(2) by (auto simp: fmc_ready_def intro: and_submask[of _ "0x77"])
  then have "(regs s FMC_CTL0 OR k) AND FMC_CTL0_START = 0"
    using assms(5) by (simp add: bit.conj_disj_distrib2)
  then show ?thesis
    unfolding set_bits_def using assms by (intro ctl0_store) (auto simp: fmc_ready_idle)
qed

text \<open>What a driver operation leaves behind: no error, the command bits cleared, the array updated.\<close>

lemma clear_command:
  assumes "chip_registers c" "fmc_ready s" "fmc_unlocked s" "k AND NOT 0x77 = 0" "x AND FMC_STAT0_BUSY = 0"
    and t: "t = s\<lparr>flash := f, regs := (regs s)(FMC_CTL0 := regs s FMC_CTL0 OR k, FMC_ADDR0 := p, FMC_STAT0 := x), inner := y\<rparr>"
  shows "clear_bits c FMC_CTL0 k t = s\<lparr>flash := f, regs := (regs s)(FMC_ADDR0 := p, FMC_STAT0 := x), inner := y\<rparr>"
proof -
  have ctl: "regs s FMC_CTL0 AND 0x77 = 0" using assms(2) by (simp add: fmc_ready_def)
  have undo: "(regs s FMC_CTL0 OR k) AND NOT k = regs s FMC_CTL0"
    using ctl assms(4) by (rule cmd_bit_cancel)
  have start: "regs s FMC_CTL0 AND FMC_CTL0_START = 0" using ctl by (auto intro: and_submask[of _ "0x77"])
  have unl: "fmc_unlocked t"
    using assms(3) cmd_bit_lock[OF _ assms(4)] unfolding t fmc_unlocked_def by simp
  have "st32 c FMC_CTL0 (regs s FMC_CTL0) t = t\<lparr>regs := (regs t)(FMC_CTL0 := regs s FMC_CTL0)\<rparr>"
    using assms(1,5) unl start by (intro ctl0_store) (auto simp: t fmc_idle_def)
  then show ?thesis
    unfolding clear_bits_def by (auto simp: t undo fun_eq_iff intro!: mach.equality)
qed

lemma page_erase_ok:
  assumes chip: "nor_flash c" and s: "fmc_ready s" "fmc_unlocked s" "in_flash s p"
  shows "\<exists>x y. fmc_page_erase c p s = (FMC_READY,
     s\<lparr>flash := erase_page p (flash s), regs := (regs s)(FMC_ADDR0 := p, FMC_STAT0 := x), inner := y\<rparr>) \<and> x AND 0x15 = 0"
proof -
  have c: "chip_registers c" "chip_erases c" using chip by (auto simp: nor_flash_def)
  have st: "regs s FMC_STAT0 AND 0x15 = 0" "regs s FMC_CTL0 AND 0x77 = 0" "regs s FMC_WP = 0xFFFFFFFF"
    "\<not> FMC_BANK0_SIZE < FMC_SIZE s" using s(1) by (auto simp: fmc_ready_def)
  define s1 where "s1 = s\<lparr>regs := (regs s)(FMC_CTL0 := regs s FMC_CTL0 OR FMC_CTL0_PER)\<rparr>"
  define s2 where "s2 = s1\<lparr>regs := (regs s1)(FMC_ADDR0 := p)\<rparr>"
  have per: "set_bits c FMC_CTL0 FMC_CTL0_PER s = s1"
    unfolding s1_def using c s by (intro set_command) auto
  have unl: "fmc_unlocked s1" "fmc_idle s1" "fmc_unlocked s2" "fmc_idle s2"
    using s(2) fmc_ready_idle[OF s(1)] cmd_bit_lock[of "regs s FMC_CTL0" FMC_CTL0_PER]
    by (simp_all add: s1_def s2_def fmc_unlocked_def fmc_idle_def)
  have addr: "st32 c FMC_ADDR0 p s1 = s2"
    using c(1) unl unfolding chip_registers_def s2_def by blast
  obtain x y where fin: "completes c (st32 c FMC_CTL0 (regs s2 FMC_CTL0 OR FMC_CTL0_START) s2)
        (s2\<lparr>flash := erase_page p (flash s), regs := (regs s2)(FMC_STAT0 := x), inner := y\<rparr>)" "x AND 0x15 = 0"
    using c(2)[unfolded chip_erases_def, rule_format, of s2] unl st s(3) cmd_bit_only[OF st(2), of FMC_CTL0_PER]
    by (auto simp: s1_def s2_def)
  let ?t = "s2\<lparr>flash := erase_page p (flash s), regs := (regs s2)(FMC_STAT0 := x), inner := y\<rparr>"
  have wait1: "fmc_bank0_ready_wait c FMC_TIMEOUT_COUNT s = (FMC_READY, s)"
    using ready_wait_idle[OF c(1) fmc_ready_idle[OF s(1)]] state_get_ready[OF st(1)] by simp
  have wait2: "fmc_bank0_ready_wait c FMC_TIMEOUT_COUNT (set_bits c FMC_CTL0 FMC_CTL0_START s2) = (FMC_READY, ?t)"
    using ready_wait_completes[OF fin(1)] state_get_ready[of ?t] fin(2) by (simp add: set_bits_def)
  have "clear_bits c FMC_CTL0 FMC_CTL0_PER ?t =
      s\<lparr>flash := erase_page p (flash s), regs := (regs s)(FMC_ADDR0 := p, FMC_STAT0 := x), inner := y\<rparr>"
    using c(1) s(1,2) fin(2) by (intro clear_command) (auto simp: s1_def s2_def intro: and_submask[of _ "0x15"])
  then show ?thesis
    using fin(2) by (auto simp: fmc_page_erase_def fmc_page_erase_bank0_def st(4) Let_def wait1 per addr wait2)
qed

lemma word_program_result:
  assumes chip: "nor_flash c" and s: "fmc_ready s" "fmc_unlocked s" "in_flash s a" "a AND 3 = 0"
  shows "\<exists>x y. fmc_word_program c a d s = (if rd32 (flash s) a = 0xFFFFFFFF then FMC_READY else FMC_PGERR,
     s\<lparr>flash := (if rd32 (flash s) a = 0xFFFFFFFF then wr32 (flash s) a d else flash s),
       regs := (regs s)(FMC_STAT0 := x), inner := y\<rparr>) \<and>
     x AND 0x15 = (if rd32 (flash s) a = 0xFFFFFFFF then 0 else FMC_STAT0_PGERR)"
proof -
  have c: "chip_registers c" "chip_programs c" using chip by (auto simp: nor_flash_def)
  have st: "regs s FMC_STAT0 AND 0x15 = 0" "regs s FMC_CTL0 AND 0x77 = 0" "regs s FMC_WP = 0xFFFFFFFF"
    "\<not> FMC_BANK0_SIZE < FMC_SIZE s" using s(1) by (auto simp: fmc_ready_def)
  define f where "f = (if rd32 (flash s) a = 0xFFFFFFFF then wr32 (flash s) a d else flash s)"
  define s1 where "s1 = s\<lparr>regs := (regs s)(FMC_CTL0 := regs s FMC_CTL0 OR FMC_CTL0_PG)\<rparr>"
  have pg: "set_bits c FMC_CTL0 FMC_CTL0_PG s = s1"
    unfolding s1_def using c s by (intro set_command) auto
  have fl: "flash s1 = flash s" by (simp add: s1_def)
  have unl: "fmc_unlocked s1" "fmc_idle s1"
    using s(2) fmc_ready_idle[OF s(1)] cmd_bit_lock[of "regs s FMC_CTL0" FMC_CTL0_PG]
    by (simp_all add: s1_def fmc_unlocked_def fmc_idle_def)
  obtain x y where fin: "completes c (st32 c a d s1) (s1\<lparr>flash := f, regs := (regs s1)(FMC_STAT0 := x), inner := y\<rparr>)"
      "x AND 0x15 = (if rd32 (flash s) a = 0xFFFFFFFF then 0 else FMC_STAT0_PGERR)"
    using c(2)[unfolded chip_programs_def, rule_format, of s1 a d, unfolded fl] unl st s(3,4) cmd_bit_only[OF st(2), of FMC_CTL0_PG]
    by (auto simp: s1_def f_def simp del: if_split)
  let ?t = "s1\<lparr>flash := f, regs := (regs s1)(FMC_STAT0 := x), inner := y\<rparr>"
  have wait1: "fmc_bank0_ready_wait c FMC_TIMEOUT_COUNT s = (FMC_READY, s)"
    using ready_wait_idle[OF c(1) fmc_ready_idle[OF s(1)]] state_get_ready[OF st(1)] by simp
  have wait2: "fmc_bank0_ready_wait c FMC_TIMEOUT_COUNT (st32 c a d s1) =
      (if rd32 (flash s) a = 0xFFFFFFFF then FMC_READY else FMC_PGERR, ?t)"
    using ready_wait_completes[OF fin(1)] state_get_ready[of ?t] state_get_pgerr[of ?t] fin(2) by (simp split: if_splits)
  have busy: "x AND FMC_STAT0_BUSY = 0"
    using fin(2) and_submask_eq[of x "0x15" _ 1] by (auto split: if_splits)
  have "clear_bits c FMC_CTL0 FMC_CTL0_PG ?t = s\<lparr>flash := f,
      regs := (regs s)(FMC_ADDR0 := regs s FMC_ADDR0, FMC_STAT0 := x), inner := y\<rparr>"
    using c(1) s(1,2) busy by (intro clear_command) (auto simp: s1_def fun_eq_iff intro!: mach.equality)
  then show ?thesis
    using fin(2) unfolding f_def[symmetric]
    by (auto simp: fmc_word_program_def fmc_word_program_bank0_def st(4) Let_def wait1 pg wait2)
qed

section \<open>Unlocking, locking and clearing flags\<close>

lemma fmc_unlock_result:
  assumes "chip_registers c" "fmc_idle s" "FMC_SIZE s \<le> FMC_BANK0_SIZE"
  shows "\<exists>y. fmc_unlock c s = s\<lparr>regs := (regs s)(FMC_CTL0 := regs s FMC_CTL0 AND NOT FMC_CTL0_LK), inner := y\<rparr>"
proof (cases "fmc_unlocked s")
  case True
  have "regs s FMC_CTL0 AND NOT FMC_CTL0_LK = regs s FMC_CTL0"
    using True unfolding fmc_unlocked_def by (auto simp: bit_eq_iff bit_simps)
  then have "fmc_unlock c s = s\<lparr>regs := (regs s)(FMC_CTL0 := regs s FMC_CTL0 AND NOT FMC_CTL0_LK), inner := inner s\<rparr>"
    using True assms(3) by (simp add: fmc_unlock_def fmc_unlocked_def)
  then show ?thesis by blast
next
  case False
  then obtain y where "st32 c FMC_KEY0 UNLOCK_KEY1 (st32 c FMC_KEY0 UNLOCK_KEY0 s) =
      s\<lparr>regs := (regs s)(FMC_CTL0 := regs s FMC_CTL0 AND NOT FMC_CTL0_LK), inner := y\<rparr>"
    using assms(1,2) unfolding chip_registers_def by blast
  then show ?thesis using False assms(3) by (auto simp: fmc_unlock_def fmc_unlocked_def Let_def)
qed

lemma fmc_lock_result:
  assumes "chip_registers c" "fmc_ready s" "fmc_unlocked s"
  shows "fmc_lock c s = s\<lparr>regs := (regs s)(FMC_CTL0 := regs s FMC_CTL0 OR FMC_CTL0_LK)\<rparr>"
proof -
  have "regs s FMC_CTL0 AND FMC_CTL0_START = 0"
    using assms(2) by (auto simp: fmc_ready_def intro: and_submask[of _ "0x77"])
  then have "(regs s FMC_CTL0 OR FMC_CTL0_LK) AND FMC_CTL0_START = 0"
    by (simp add: bit.conj_disj_distrib2)
  then have "set_bits c FMC_CTL0 FMC_CTL0_LK s = s\<lparr>regs := (regs s)(FMC_CTL0 := regs s FMC_CTL0 OR FMC_CTL0_LK)\<rparr>"
    unfolding set_bits_def using assms by (intro ctl0_store) (auto simp: fmc_ready_idle)
  then show ?thesis using assms(2) by (auto simp: fmc_lock_def fmc_ready_def Let_def not_le[symmetric])
qed

text \<open>
  The flags are of the kind that writing 1 clears, and \<^verbatim>\<open>fmc_flag_clear\<close> writes the register's
  own value back with one more bit set: whichever flag it is given, it clears all of them.
\<close>

lemma flag_clear_result:
  assumes "chip_registers c" "fmc_idle s" "FMC_REG_VAL flag = FMC_STAT0"
  shows "\<exists>x. fmc_flag_clear c flag s = s\<lparr>regs := (regs s)(FMC_STAT0 := x)\<rparr> \<and> x AND 0x15 = 0"
proof -
  let ?k = "BIT (FMC_BIT_POS flag)"
  let ?x = "regs s FMC_STAT0 AND NOT ((regs s FMC_STAT0 OR ?k) AND 0x34)"
  have "?x AND 0x34 = 0" by (auto simp: bit_eq_iff bit_simps)
  then have errors: "?x AND 0x14 = 0" by (rule and_submask) simp
  have busy: "?x AND 1 = 0" using assms(2) unfolding fmc_idle_def by (auto simp: bit_eq_iff bit_simps)
  have "?x AND (0x14 OR 1) = 0" using errors busy by (simp only: bit.conj_disj_distrib) simp
  moreover have "fmc_flag_clear c flag s = s\<lparr>regs := (regs s)(FMC_STAT0 := ?x)\<rparr>"
    using assms unfolding fmc_flag_clear_def set_bits_def chip_registers_def by auto
  ultimately show ?thesis by auto
qed

section \<open>A controller that meets the contract\<close>

text \<open>
  The documented behaviour is consistent: a controller whose operations complete before the first
  status read has it. It is used to run the theorems on concrete inputs; its \<open>inner\<close> state says
  whether the first key was written.
\<close>

definition instant_program :: "u32 \<Rightarrow> u32 \<Rightarrow> bool mach \<Rightarrow> bool mach" where
  "instant_program a v s =
    (if rd32 (flash s) a = 0xFFFFFFFF
     then s\<lparr>flash := wr32 (flash s) a v, regs := (regs s)(FMC_STAT0 := FMC_STAT0_ENDF)\<rparr>
     else s\<lparr>regs := (regs s)(FMC_STAT0 := FMC_STAT0_PGERR)\<rparr>)"

definition instant_st32 :: "u32 \<Rightarrow> u32 \<Rightarrow> bool mach \<Rightarrow> bool mach" where
  "instant_st32 a v s =
    (if a = FMC_KEY0 then
       (if v = UNLOCK_KEY0 then s\<lparr>inner := True\<rparr>
        else if v = UNLOCK_KEY1 \<and> inner s
        then s\<lparr>regs := (regs s)(FMC_CTL0 := regs s FMC_CTL0 AND NOT FMC_CTL0_LK), inner := False\<rparr>
        else s\<lparr>inner := False\<rparr>)
     else if a = FMC_STAT0 then s\<lparr>regs := (regs s)(FMC_STAT0 := regs s FMC_STAT0 AND NOT (v AND 0x34))\<rparr>
     else if \<not> fmc_unlocked s then s
     else if a = FMC_CTL0 then
       (if v AND FMC_CTL0_START \<noteq> 0
        then s\<lparr>flash := erase_page (regs s FMC_ADDR0) (flash s), regs := (regs s)(FMC_STAT0 := FMC_STAT0_ENDF)\<rparr>
        else s\<lparr>regs := (regs s)(FMC_CTL0 := v)\<rparr>)
     else if a = FMC_ADDR0 then s\<lparr>regs := (regs s)(FMC_ADDR0 := v)\<rparr>
     else instant_program a v s)"

definition instant_chip :: "bool chip" where
  "instant_chip = \<lparr>st32 = instant_st32, st16 = (\<lambda>a v s. s), tick = (\<lambda>s. s)\<rparr>"

lemma instant_completes: "fmc_idle s \<Longrightarrow> completes instant_chip s s"
  unfolding completes_def by (rule exI[of _ 0]) (simp add: instant_chip_def)

lemma instant_registers: "chip_registers instant_chip"
  unfolding chip_registers_def by (auto simp: instant_chip_def instant_st32_def)

lemma instant_erases: "chip_erases instant_chip"
  unfolding chip_erases_def
proof (intro allI impI)
  fix s :: "bool mach"
  assume s: "fmc_idle s" "fmc_unlocked s"
  let ?t = "s\<lparr>flash := erase_page (regs s FMC_ADDR0) (flash s), regs := (regs s)(FMC_STAT0 := FMC_STAT0_ENDF), inner := inner s\<rparr>"
  have "st32 instant_chip FMC_CTL0 (regs s FMC_CTL0 OR FMC_CTL0_START) s = ?t"
    using s(2) by (simp add: instant_chip_def instant_st32_def or_and_self)
  moreover have "fmc_idle ?t" by (simp add: fmc_idle_def)
  ultimately show "\<exists>x y. completes instant_chip (st32 instant_chip FMC_CTL0 (regs s FMC_CTL0 OR FMC_CTL0_START) s)
      (s\<lparr>flash := erase_page (regs s FMC_ADDR0) (flash s), regs := (regs s)(FMC_STAT0 := x), inner := y\<rparr>) \<and> x AND 0x15 = 0"
    using instant_completes[of ?t] by (intro exI[of _ FMC_STAT0_ENDF] exI[of _ "inner s"]) simp
qed

lemma instant_programs: "chip_programs instant_chip"
  unfolding chip_programs_def
proof (intro allI impI)
  fix s :: "bool mach" and a d
  assume s: "fmc_idle s" "fmc_unlocked s" "in_flash s a"
  have "unat (rd16 (flash s) 0x1FFFF7E0) < 2 ^ 16"
    by (rule order_less_le_trans[OF unsigned_less]) simp
  then have "unat (FMC_SIZE s) < 65536"
    by (simp add: FMC_SIZE_def unsigned_ucast_eq take_bit_nat_eq_self)
  then have "unat a < 0x40000000" using s(3) by (simp add: in_flash_def)
  then have st: "st32 instant_chip a d s = instant_program a d s"
    using s(2) by (auto simp: instant_chip_def instant_st32_def)
  have "fmc_idle (instant_program a d s)" by (simp add: instant_program_def fmc_idle_def)
  note fin = instant_completes[OF this]
  show "\<exists>x y. completes instant_chip (st32 instant_chip a d s)
     (s\<lparr>flash := (if rd32 (flash s) a = 0xFFFFFFFF then wr32 (flash s) a d else flash s),
        regs := (regs s)(FMC_STAT0 := x), inner := y\<rparr>) \<and>
     x AND 0x15 = (if rd32 (flash s) a = 0xFFFFFFFF then 0 else FMC_STAT0_PGERR)"
    using fin unfolding st
    by (intro exI[of _ "if rd32 (flash s) a = 0xFFFFFFFF then FMC_STAT0_ENDF else FMC_STAT0_PGERR"] exI[of _ "inner s"])
      (auto simp: instant_program_def)
qed

lemma nor_flash_instant: "nor_flash instant_chip"
  by (simp add: nor_flash_def instant_registers instant_erases instant_programs)

text \<open>A 512 KB device after reset, all erased.\<close>

definition blank_device :: "bool mach" where
  "blank_device = \<lparr>regs = (\<lambda>a. if a = FMC_CTL0 then FMC_CTL0_LK else if a = FMC_WP then 0xFFFFFFFF else 0),
     flash = (\<lambda>a. if a = 0x1FFFF7E0 then 0 else if a = 0x1FFFF7E1 then 2 else 0xFF), inner = False\<rparr>"

lemma blank_device_size: "FMC_SIZE blank_device = 0x200"
  by (simp add: FMC_SIZE_def rd16_def blank_device_def)

lemma blank_device_ready: "fmc_ready blank_device"
  by (simp add: fmc_ready_def blank_device_size) (simp add: blank_device_def)

section \<open>Properties\<close>

text \<open>
  C40: the wait for the controller ends, at the latest with the given number of reads of the status register, and
  it reports \<^verbatim>\<open>FMC_TOERR\<close> exactly if the controller was busy at every one of them.
\<close>

theorem ready_wait_timeout:
  "fst (fmc_bank0_ready_wait c timeout s) = FMC_TOERR \<longleftrightarrow>
     (\<forall>i \<le> unat (timeout - 1). regs ((tick c ^^ Suc i) s) FMC_STAT0 AND FMC_STAT0_BUSY \<noteq> 0)"
  unfolding fmc_bank0_ready_wait_def bank0_loop_timeout by (simp add: fmc_idle_def)

theorem ready_wait_timeout_witness:
  "fst (fmc_bank0_ready_wait instant_chip 5 (blank_device\<lparr>regs := (regs blank_device)(FMC_STAT0 := FMC_STAT0_BUSY)\<rparr>)) = FMC_TOERR"
proof -
  have "(tick instant_chip ^^ Suc i) s = s" for i s by (induction i) (simp_all add: instant_chip_def)
  then show ?thesis unfolding ready_wait_timeout by simp
qed

end
