(* ===== verification/HalRom.thy ===== *)
theory HalRom
  imports Gd32_Fmc
begin

unbundle bit_operations_syntax

text \<open>
  The flash layer of the firmware: \<^verbatim>\<open>sources/common/Hardware/HAL/HAL_ROM.cpp\<close>, on the driver
  functions of \<open>Gd32_Fmc\<close>. An address held in a pointer is a natural number (C++ gives no meaning to
  a pointer that overflows); an address held in a \<^verbatim>\<open>uint\<close> is a 32-bit word. The buffer given to
  \<^verbatim>\<open>WriteData\<close> is the memory seen from the pointer, a byte for every offset.
\<close>

section \<open>Operations\<close>

abbreviation FLASH_BASE :: u32 where "FLASH_BASE \<equiv> 0x08000000"
abbreviation ADDR_BASE :: u32 where "ADDR_BASE \<equiv> 0x08000000"
abbreviation ADDR_APPLICATION :: u32 where "ADDR_APPLICATION \<equiv> 0x08000000"
abbreviation ADDR_STORAGE :: u32 where "ADDR_STORAGE \<equiv> 0x08013000"
abbreviation SIZE_PAGE :: u32 where "SIZE_PAGE \<equiv> 2048"

definition ErasePage :: "'h chip \<Rightarrow> u32 \<Rightarrow> 'h mach \<Rightarrow> 'h mach" where
  "ErasePage c num_page s =
    (let s = fmc_unlock c s;
         s = fmc_flag_clear c FMC_FLAG_BANK0_END s;
         s = fmc_flag_clear c FMC_FLAG_BANK0_WPERR s;
         s = fmc_flag_clear c FMC_FLAG_BANK0_PGERR s;
         s = snd (fmc_page_erase c (FLASH_BASE + num_page * SIZE_PAGE) s);
         s = fmc_flag_clear c FMC_FLAG_BANK0_END s;
         s = fmc_flag_clear c FMC_FLAG_BANK0_WPERR s;
         s = fmc_flag_clear c FMC_FLAG_BANK0_PGERR s
      in fmc_lock c s)"

function scan_empty :: "(u32 \<Rightarrow> u8) \<Rightarrow> nat \<Rightarrow> nat \<Rightarrow> bool" where
  "scan_empty f address end' =
    (if address < end' then
       (if rd32 f (of_nat address) \<noteq> 0xFFFFFFFF then False
        else scan_empty f (address + 4 * 4) end')
     else True)"
  by pat_completeness auto
termination by (relation "measure (\<lambda>(f, address, end'). end' - address)") auto

definition PageIsEmpty :: "u32 \<Rightarrow> 'h mach \<Rightarrow> bool" where
  "PageIsEmpty num_page s =
    (let start = unat (FLASH_BASE + num_page * SIZE_PAGE);
         end' = start + 4 * unat SIZE_PAGE
      in scan_empty (flash s) start end')"

lemma pad4_decr:
  "(x :: int) mod 4 \<noteq> 0 \<Longrightarrow> (- x - 1) mod 4 < (- x) mod 4"
  "(x :: int) mod 4 \<noteq> 0 \<Longrightarrow> 0 < (- x) mod 4"
  by presburger+

function pad4 :: "int \<Rightarrow> int" where
  "pad4 size' = (if size' mod 4 \<noteq> 0 then pad4 (size' + 1) else size')"
  by pat_completeness auto
termination by (relation "measure (\<lambda>size'. nat ((- size') mod 4))") (auto simp: pad4_decr)

definition data32 :: "(nat \<Rightarrow> u8) \<Rightarrow> nat \<Rightarrow> u32" where
  "data32 data i = ucast (data i) OR push_bit 8 (ucast (data (i + 1))) OR
     push_bit 16 (ucast (data (i + 2))) OR push_bit 24 (ucast (data (i + 3)))"

partial_function (option) write_words ::
    "'h chip \<Rightarrow> (nat \<Rightarrow> u8) \<Rightarrow> nat \<Rightarrow> u32 \<Rightarrow> u32 \<Rightarrow> 'h mach \<Rightarrow> 'h mach option" where
  "write_words c data i address end' s =
    (if address < end' then
       (let s = snd (fmc_word_program c address (data32 data i) s);
            s = fmc_flag_clear c (FMC_FLAG_BANK0_END OR FMC_FLAG_BANK0_WPERR OR FMC_FLAG_BANK0_PGERR) s
         in write_words c data (i + 4) (address + 4) end' s)
     else Some s)"

definition WriteData :: "'h chip \<Rightarrow> u32 \<Rightarrow> (nat \<Rightarrow> u8) \<Rightarrow> int \<Rightarrow> 'h mach \<Rightarrow> 'h mach option" where
  "WriteData c address data size' s =
    (let s = fmc_unlock c s;
         size' = pad4 size';
         end' = address + of_int size'
      in (case write_words c data 0 address end' s of
            None \<Rightarrow> None
          | Some s \<Rightarrow> Some (fmc_lock c s)))"

definition WriteUInt :: "'h chip \<Rightarrow> u32 \<Rightarrow> u32 \<Rightarrow> 'h mach \<Rightarrow> 'h mach option" where
  "WriteUInt c address value s =
    WriteData c address (\<lambda>i. ucast (drop_bit (8 * i) value)) 4 s"

declare scan_empty.simps [simp del]
declare pad4.simps [simp del]

lemma pad4_eq: "pad4 size' = size' + (- size') mod 4"
proof (induction size' rule: pad4.induct)
  case (1 size')
  show ?case
  proof (cases "size' mod 4 = 0")
    case True
    then show ?thesis by (subst pad4.simps) presburger
  next
    case False
    have "pad4 size' = size' + 1 + (- (size' + 1)) mod 4" using 1[OF False] False by (subst pad4.simps) simp
    also have "\<dots> = size' + (- size') mod 4" using False by presburger
    finally show ?thesis .
  qed
qed

section \<open>Abstract flash memory\<close>

text \<open>
  What a sequence of word writes does to the bytes of the array: a word that is erased takes the
  new value, a word that is not erased keeps its old one. \<open>flash_write\<close> is the result on an
  erased range.
\<close>

fun prog_words :: "(u32 \<Rightarrow> u8) \<Rightarrow> u32 \<Rightarrow> u32 list \<Rightarrow> u32 \<Rightarrow> u8" where
  "prog_words f a [] = f"
| "prog_words f a (w # ws) = prog_words (if rd32 f a = 0xFFFFFFFF then wr32 f a w else f) (a + 4) ws"

definition flash_write :: "(u32 \<Rightarrow> u8) \<Rightarrow> u32 \<Rightarrow> u8 list \<Rightarrow> u32 \<Rightarrow> u8" where
  "flash_write f a bs = (\<lambda>x. if unat a \<le> unat x \<and> unat x < unat a + length bs then bs ! (unat x - unat a) else f x)"

definition erased :: "(u32 \<Rightarrow> u8) \<Rightarrow> u32 \<Rightarrow> nat \<Rightarrow> bool" where
  "erased f a n \<longleftrightarrow> (\<forall>i < n. f (a + of_nat i) = 0xFF)"

section \<open>Operations on a controller that behaves as documented\<close>

lemma FMC_SIZE_flash:
  assumes "flash s' 0x1FFFF7E0 = flash s 0x1FFFF7E0" "flash s' 0x1FFFF7E1 = flash s 0x1FFFF7E1"
  shows "FMC_SIZE s' = FMC_SIZE s"
  using assms by (simp add: FMC_SIZE_def rd16_def)

lemma in_flash_bound:
  assumes "in_flash s a" "fmc_ready s"
  shows "0x08000000 \<le> unat a" "unat a < 0x08080000"
proof -
  have "unat (FMC_SIZE s) \<le> 0x200" using assms(2) by (simp add: fmc_ready_def word_le_nat_alt)
  then show "0x08000000 \<le> unat a" "unat a < 0x08080000"
    using assms(1) by (auto simp: in_flash_def word_le_nat_alt)
qed

text \<open>
  One round of the loop of \<^verbatim>\<open>WriteData\<close>: the word is programmed if it was erased and left alone
  otherwise, and in both cases the controller is ready for the next word.
\<close>

lemma write_word_step:
  assumes chip: "nor_flash c" and s: "fmc_ready s" "fmc_unlocked s" "in_flash s a" "a AND 3 = 0"
    and s'_def: "s' = fmc_flag_clear c (FMC_FLAG_BANK0_END OR FMC_FLAG_BANK0_WPERR OR FMC_FLAG_BANK0_PGERR)
                   (snd (fmc_word_program c a d s))"
  shows "flash s' = (if rd32 (flash s) a = 0xFFFFFFFF then wr32 (flash s) a d else flash s)"
    and "fmc_ready s'" and "fmc_unlocked s'" and "FMC_SIZE s' = FMC_SIZE s"
proof -
  let ?f = "if rd32 (flash s) a = 0xFFFFFFFF then wr32 (flash s) a d else flash s"
  obtain x y where p: "fmc_word_program c a d s = (if rd32 (flash s) a = 0xFFFFFFFF then FMC_READY else FMC_PGERR,
      s\<lparr>flash := ?f, regs := (regs s)(FMC_STAT0 := x), inner := y\<rparr>)"
    "x AND 0x15 = (if rd32 (flash s) a = 0xFFFFFFFF then 0 else FMC_STAT0_PGERR)"
    using word_program_result[OF chip s] by blast
  let ?t = "s\<lparr>flash := ?f, regs := (regs s)(FMC_STAT0 := x), inner := y\<rparr>"
  have idle: "fmc_idle ?t"
    using p(2) and_submask_eq[of x "0x15" _ 1] by (auto simp: fmc_idle_def split: if_splits)
  obtain z where z: "s' = ?t\<lparr>regs := (regs ?t)(FMC_STAT0 := z)\<rparr>" "z AND 0x15 = 0"
    using flag_clear_result[OF _ idle, of c "FMC_FLAG_BANK0_END OR FMC_FLAG_BANK0_WPERR OR FMC_FLAG_BANK0_PGERR"] chip
    unfolding s'_def p(1) by (auto simp: nor_flash_def)
  have b: "0x08000000 \<le> unat a" "unat a < 0x08080000" using in_flash_bound s(1,3) by auto
  have "(0x1FFFF7E0 :: u32) \<noteq> a + of_nat i \<and> (0x1FFFF7E1 :: u32) \<noteq> a + of_nat i" if "i < 4" for i
    using unat_plus_small[of a i] b that by auto
  from this[of 0] this[of 1] this[of 2] this[of 3]
  have size: "?f 0x1FFFF7E0 = flash s 0x1FFFF7E0" "?f 0x1FFFF7E1 = flash s 0x1FFFF7E1"
    by (auto simp: wr32_def)
  show "flash s' = ?f" by (simp add: z)
  show size': "FMC_SIZE s' = FMC_SIZE s" using size by (intro FMC_SIZE_flash) (simp_all add: z)
  show "fmc_ready s'" using s(1) z(2) size' by (simp add: fmc_ready_def) (simp add: z)
  show "fmc_unlocked s'" using s(2) by (simp add: fmc_unlocked_def z)
qed

lemma unat_and_3: "unat ((a :: u32) AND 3) = unat a mod 4"
proof -
  have "a AND 3 = take_bit 2 a" by (simp add: take_bit_eq_mask mask_eq_exp_minus_1)
  then show ?thesis by (simp only: unsigned_take_bit_eq) (simp add: take_bit_eq_mod)
qed

lemma aligned_iff: "(a :: u32) AND 3 = 0 \<longleftrightarrow> unat a mod 4 = 0"
  by (metis unat_and_3 unat_eq_0)

lemma aligned_next: "unat (a + 4) = unat a + 4 \<Longrightarrow> (a :: u32) AND 3 = 0 \<Longrightarrow> (a + 4) AND 3 = 0"
  unfolding aligned_iff by simp

lemma write_words_result:
  assumes "nor_flash c" "fmc_ready s" "fmc_unlocked s" "a AND 3 = 0"
    and "0x08000000 \<le> unat a" "unat a + 4 * n \<le> 0x08000000 + 1024 * unat (FMC_SIZE s)"
  shows "\<exists>s'. write_words c data i a (a + of_nat (4 * n)) s = Some s' \<and>
     flash s' = prog_words (flash s) a (map (\<lambda>j. data32 data (i + 4 * j)) [0..<n]) \<and>
     fmc_ready s' \<and> fmc_unlocked s' \<and> FMC_SIZE s' = FMC_SIZE s"
  using assms(2-)
proof (induction n arbitrary: s a i)
  case 0
  then show ?case by (subst write_words.simps) simp
next
  case (Suc n)
  have size: "unat (FMC_SIZE s) \<le> 0x200" using Suc.prems(1) by (simp add: fmc_ready_def word_le_nat_alt)
  have a: "in_flash s a" using Suc.prems(4,5) by (simp add: in_flash_def word_le_nat_alt)
  have next_a: "unat (a + 4) = unat a + 4"
    using unat_plus_small[of a 4] Suc.prems(5) size by simp
  have less: "a < a + of_nat (4 * Suc n)"
    using unat_plus_small[of a "4 * Suc n"] Suc.prems(5) size by (simp add: word_less_nat_alt)
  define t where "t = fmc_flag_clear c (FMC_FLAG_BANK0_END OR FMC_FLAG_BANK0_WPERR OR FMC_FLAG_BANK0_PGERR)
                   (snd (fmc_word_program c a (data32 data i) s))"
  note step = write_word_step[OF assms(1) Suc.prems(1,2) a Suc.prems(3) t_def]
  obtain s' where s': "write_words c data (i + 4) (a + 4) (a + 4 + of_nat (4 * n)) t = Some s'"
    "flash s' = prog_words (flash t) (a + 4) (map (\<lambda>j. data32 data (i + 4 + 4 * j)) [0..<n])"
    "fmc_ready s'" "fmc_unlocked s'" "FMC_SIZE s' = FMC_SIZE t"
    using Suc.IH[of t "a + 4" "i + 4"] step aligned_next[OF next_a Suc.prems(3)] next_a Suc.prems(4,5) by auto
  have "write_words c data i a (a + of_nat (4 * Suc n)) s = Some s'"
    using s'(1) less by (subst write_words.simps) (simp add: t_def Let_def algebra_simps)
  moreover have "map (\<lambda>j. data32 data (i + 4 * j)) [0..<Suc n] =
      data32 data i # map (\<lambda>j. data32 data (i + 4 + 4 * j)) [0..<n]"
    by (simp only: map_upt_Suc) (simp add: algebra_simps)
  ultimately show ?case using s' step by auto
qed

lemma pad4_nat: "pad4 (int n) = int (4 * ((n + 3) div 4))"
  unfolding pad4_eq by presburger

text \<open>
  \<^verbatim>\<open>WriteData\<close> returns, programs exactly the erased words of the range, and leaves the
  controller locked and without a pending error.
\<close>

lemma WriteData_result:
  assumes "nor_flash c" "fmc_ready s" "a AND 3 = 0" "0x08000000 \<le> unat a"
    and "unat a + 4 * ((n + 3) div 4) \<le> 0x08000000 + 1024 * unat (FMC_SIZE s)"
  shows "\<exists>s'. WriteData c a data (int n) s = Some s' \<and>
     flash s' = prog_words (flash s) a (map (\<lambda>j. data32 data (4 * j)) [0..<(n + 3) div 4]) \<and>
     fmc_ready s' \<and> \<not> fmc_unlocked s' \<and> FMC_SIZE s' = FMC_SIZE s"
proof -
  have c: "chip_registers c" using assms(1) by (simp add: nor_flash_def)
  have size: "FMC_SIZE s \<le> FMC_BANK0_SIZE" using assms(2) by (simp add: fmc_ready_def)
  obtain y where u: "fmc_unlock c s = s\<lparr>regs := (regs s)(FMC_CTL0 := regs s FMC_CTL0 AND NOT FMC_CTL0_LK), inner := y\<rparr>"
    using fmc_unlock_result[OF c fmc_ready_idle[OF assms(2)] size] by blast
  let ?u = "s\<lparr>regs := (regs s)(FMC_CTL0 := regs s FMC_CTL0 AND NOT FMC_CTL0_LK), inner := y\<rparr>"
  have "(regs s FMC_CTL0 AND NOT FMC_CTL0_LK) AND 0x77 = 0"
    using assms(2) unfolding fmc_ready_def by (auto simp: bit_eq_iff bit_simps)
  then have ru: "fmc_ready ?u" using assms(2) by (simp add: fmc_ready_def)
  have uu: "fmc_unlocked ?u" 
    unfolding fmc_unlocked_def using or_and_self(2)[of "regs s FMC_CTL0" FMC_CTL0_LK] by simp
  obtain s' where s': "write_words c data 0 a (a + of_nat (4 * ((n + 3) div 4))) ?u = Some s'"
    "flash s' = prog_words (flash ?u) a (map (\<lambda>j. data32 data (0 + 4 * j)) [0..<(n + 3) div 4])"
    "fmc_ready s'" "fmc_unlocked s'" "FMC_SIZE s' = FMC_SIZE ?u"
    using write_words_result[OF assms(1) ru uu assms(3,4), of "(n + 3) div 4" data 0] assms(5) by auto
  have l: "fmc_lock c s' = s'\<lparr>regs := (regs s')(FMC_CTL0 := regs s' FMC_CTL0 OR FMC_CTL0_LK)\<rparr>"
    using fmc_lock_result[OF c s'(3,4)] .
  have "fmc_ready (fmc_lock c s')" "\<not> fmc_unlocked (fmc_lock c s')"
    using s'(3) by (simp_all add: l fmc_ready_def fmc_unlocked_def or_and_self or_and_other)
  moreover have "WriteData c a data (int n) s = Some (fmc_lock c s')"
    using s'(1) by (simp add: WriteData_def u pad4_nat Let_def)
  ultimately show ?thesis using s' by (auto simp: l)
qed

text \<open>On an erased range the words arrive unchanged.\<close>

definition word_bytes :: "u32 \<Rightarrow> u8 list" where
  "word_bytes w = [ucast w, ucast (drop_bit 8 w), ucast (drop_bit 16 w), ucast (drop_bit 24 w)]"

lemma word_bytes_data32: "word_bytes (data32 data i) = [data i, data (i + 1), data (i + 2), data (i + 3)]"
  unfolding word_bytes_def data32_def
  by (auto simp: bit_eq_iff bit_simps dest: bit_imp_le_length)

lemma flash_write_Nil [simp]: "flash_write f a [] = f"
  by (auto simp: flash_write_def fun_eq_iff)

lemma flash_write_append:
  assumes "unat a + length xs + length ys \<le> 2 ^ 32"
  shows "flash_write (flash_write f a xs) (a + of_nat (length xs)) ys = flash_write f a (xs @ ys)"
proof (cases ys)
  case Nil
  then show ?thesis by simp
next
  case (Cons y zs)
  then have "unat (a + of_nat (length xs)) = unat a + length xs"
    using assms by (intro unat_plus_small) simp
  then show ?thesis by (auto simp: flash_write_def fun_eq_iff nth_append)
qed

lemma wr32_flash_write:
  assumes "unat a + 4 \<le> 2 ^ 32"
  shows "wr32 f a w = flash_write f a (word_bytes w)"
proof
  fix x
  have n: "unat (a + of_nat i) = unat a + i" if "i < 4" for i using assms that by (intro unat_plus_small) simp
  have e: "x = a + of_nat i \<longleftrightarrow> unat x = unat a + i" if "i < 4" for i
    using n[OF that] by (simp add: word_unat_eq_iff)
  show "wr32 f a w x = flash_write f a (word_bytes w) x"
    using e[of 0] e[of 1] e[of 2] e[of 3]
    by (auto simp: wr32_def flash_write_def word_bytes_def numeral_2_eq_2 numeral_3_eq_3 less_Suc_eq nth_Cons')
qed

lemma rd32_erased: "erased f a 4 \<Longrightarrow> rd32 f a = 0xFFFFFFFF"
proof -
  assume "erased f a 4"
  then have "f (a + of_nat i) = 0xFF" if "i < 4" for i using that by (simp add: erased_def)
  from this[of 0] this[of 1] this[of 2] this[of 3] show ?thesis by (simp add: rd32_def)
qed

lemma erased_4: "erased f a 4 \<longleftrightarrow> f a = 0xFF \<and> f (a + 1) = 0xFF \<and> f (a + 2) = 0xFF \<and> f (a + 3) = 0xFF"
  by (auto simp: erased_def numeral_eq_Suc less_Suc_eq)

lemma erased_append: "erased f a (m + n) \<longleftrightarrow> erased f a m \<and> erased f (a + of_nat m) n"
proof (intro iffI conjI)
  assume l: "erased f a (m + n)"
  show "erased f a m" using l by (simp add: erased_def)
  show "erased f (a + of_nat m) n"
    unfolding erased_def
  proof (intro allI impI)
    fix i assume "i < n"
    then show "f (a + of_nat m + of_nat i) = 0xFF"
      using l[unfolded erased_def, rule_format, of "m + i"] by (simp add: add.assoc)
  qed
next
  assume r: "erased f a m \<and> erased f (a + of_nat m) n"
  show "erased f a (m + n)"
    unfolding erased_def
  proof (intro allI impI)
    fix i assume "i < m + n"
    then show "f (a + of_nat i) = 0xFF"
      using r[unfolded erased_def, THEN conjunct1, rule_format, of i]
        r[unfolded erased_def, THEN conjunct2, rule_format, of "i - m"]
      by (cases "i < m") (auto simp: not_less of_nat_diff)
  qed
qed

lemma erased_flash_write:
  assumes "unat a + length bs + n \<le> 2 ^ 32"
  shows "erased (flash_write f a bs) (a + of_nat (length bs)) n = erased f (a + of_nat (length bs)) n"
proof -
  have "unat (a + of_nat (length bs) + of_nat i) = unat a + length bs + i" if "i < n" for i
    using unat_plus_small[of a "length bs + i"] assms that by (simp add: add.assoc)
  then show ?thesis by (auto simp: erased_def flash_write_def)
qed

lemma prog_words_erased:
  assumes "erased f a (4 * length ws)" "unat a + 4 * length ws \<le> 2 ^ 32"
  shows "prog_words f a ws = flash_write f a (concat (map word_bytes ws))"
  using assms
proof (induction ws arbitrary: f a)
  case Nil
  then show ?case by simp
next
  case (Cons w ws)
  have e: "erased f a 4" "erased f (a + 4) (4 * length ws)"
    using Cons.prems(1) erased_append[of f a 4 "4 * length ws"] by simp_all
  have step: "wr32 f a w = flash_write f a (word_bytes w)"
    using Cons.prems(2) by (intro wr32_flash_write) simp
  have len: "length (word_bytes w) = 4" by (simp add: word_bytes_def)
  have lens: "length (concat (map word_bytes ws)) = 4 * length ws"
    by (induction ws) (simp_all add: word_bytes_def)
  have "erased (flash_write f a (word_bytes w)) (a + 4) (4 * length ws)"
    using erased_flash_write[of a "word_bytes w" "4 * length ws" f] Cons.prems(2) e(2) len by simp
  moreover have "unat (a + 4) + 4 * length ws \<le> 2 ^ 32"
    using unat_plus_small[of a 4] Cons.prems(2) unat_u32_less[of "a + 4"] by (cases ws) auto
  ultimately have "prog_words (flash_write f a (word_bytes w)) (a + 4) ws =
      flash_write (flash_write f a (word_bytes w)) (a + 4) (concat (map word_bytes ws))"
    by (rule Cons.IH)
  then show ?case
    using rd32_erased[OF e(1)] step flash_write_append[of a "word_bytes w" "concat (map word_bytes ws)" f] Cons.prems(2) len lens
    by simp
qed

lemma concat_data32:
  "concat (map (\<lambda>j. word_bytes (data32 data (4 * j))) [0..<n]) = map data [0..<4 * n]"
proof (induction n)
  case (Suc n)
  have "[0..<4 * Suc n] = [0..<4 * n] @ [4 * n, 4 * n + 1, 4 * n + 2, 4 * n + 3]"
    using upt_add_eq_append[of 0 "4 * n" 4] by (simp add: upt_conv_Cons add.commute)
  then show ?case using Suc by (simp add: word_bytes_data32)
qed simp

section \<open>Erasing a page and looking for an empty one\<close>

text \<open>\<^verbatim>\<open>ErasePage\<close> clears the flags first, so it only needs an idle controller.\<close>

definition fmc_usable :: "'h mach \<Rightarrow> bool" where
  "fmc_usable s \<longleftrightarrow> fmc_idle s \<and> regs s FMC_CTL0 AND 0x77 = 0 \<and> regs s FMC_WP = 0xFFFFFFFF \<and> FMC_SIZE s \<le> 0x200"

lemma fmc_ready_usable: "fmc_ready s \<Longrightarrow> fmc_usable s"
  by (simp add: fmc_usable_def fmc_ready_idle) (simp add: fmc_ready_def)

lemma clear_three_flags:
  assumes "chip_registers c" "fmc_idle s"
  shows "\<exists>x. fmc_flag_clear c FMC_FLAG_BANK0_PGERR (fmc_flag_clear c FMC_FLAG_BANK0_WPERR
     (fmc_flag_clear c FMC_FLAG_BANK0_END s)) = s\<lparr>regs := (regs s)(FMC_STAT0 := x)\<rparr> \<and> x AND 0x15 = 0"
proof -
  have idle: "fmc_idle (s\<lparr>regs := (regs s)(FMC_STAT0 := x)\<rparr>)" if "x AND 0x15 = 0" for x
    using and_submask[OF that, of 1] by (simp add: fmc_idle_def)
  obtain x where x: "fmc_flag_clear c FMC_FLAG_BANK0_END s = s\<lparr>regs := (regs s)(FMC_STAT0 := x)\<rparr>" "x AND 0x15 = 0"
    using flag_clear_result[OF assms, of FMC_FLAG_BANK0_END] by auto
  obtain y where y: "fmc_flag_clear c FMC_FLAG_BANK0_WPERR (s\<lparr>regs := (regs s)(FMC_STAT0 := x)\<rparr>) =
      s\<lparr>regs := (regs s)(FMC_STAT0 := y)\<rparr>" "y AND 0x15 = 0"
    using flag_clear_result[OF assms(1) idle[OF x(2)], of FMC_FLAG_BANK0_WPERR] by auto
  obtain z where "fmc_flag_clear c FMC_FLAG_BANK0_PGERR (s\<lparr>regs := (regs s)(FMC_STAT0 := y)\<rparr>) =
      s\<lparr>regs := (regs s)(FMC_STAT0 := z)\<rparr>" "z AND 0x15 = 0"
    using flag_clear_result[OF assms(1) idle[OF y(2)], of FMC_FLAG_BANK0_PGERR] by auto
  then show ?thesis using x y by auto
qed

lemma same_page_iff: "drop_bit 11 (a :: u32) = drop_bit 11 p \<longleftrightarrow> unat a div 2048 = unat p div 2048"
  by (simp add: word_unat_eq_iff unat_drop_bit)

lemma erase_page_eq: "erase_page p f a = (if unat a div 2048 = unat p div 2048 then 0xFF else f a)"
  by (simp add: erase_page_def same_page_iff)

lemma ErasePage_result:
  assumes "nor_flash c" "fmc_usable s" "in_flash s (FLASH_BASE + num_page * SIZE_PAGE)"
  shows "flash (ErasePage c num_page s) = erase_page (FLASH_BASE + num_page * SIZE_PAGE) (flash s)"
    and "fmc_ready (ErasePage c num_page s)" and "\<not> fmc_unlocked (ErasePage c num_page s)"
    and "FMC_SIZE (ErasePage c num_page s) = FMC_SIZE s"
proof -
  let ?p = "FLASH_BASE + num_page * SIZE_PAGE"
  have c: "chip_registers c" using assms(1) by (simp add: nor_flash_def)
  have st: "fmc_idle s" "FMC_SIZE s \<le> FMC_BANK0_SIZE" "regs s FMC_CTL0 AND 0x77 = 0" "regs s FMC_WP = 0xFFFFFFFF"
    using assms(2) by (auto simp: fmc_usable_def)
  define s0 where "s0 y = s\<lparr>regs := (regs s)(FMC_CTL0 := regs s FMC_CTL0 AND NOT FMC_CTL0_LK), inner := y\<rparr>" for y
  define s1 where "s1 y x = (s0 y)\<lparr>regs := (regs (s0 y))(FMC_STAT0 := x)\<rparr>" for y x
  obtain y where u: "fmc_unlock c s = s0 y" using fmc_unlock_result[OF c st(1,2)] unfolding s0_def by blast
  have "fmc_idle (s0 y)" using st(1) by (simp add: fmc_idle_def s0_def)
  then obtain x where x: "fmc_flag_clear c FMC_FLAG_BANK0_PGERR (fmc_flag_clear c FMC_FLAG_BANK0_WPERR
      (fmc_flag_clear c FMC_FLAG_BANK0_END (s0 y))) = s1 y x" "x AND 0x15 = 0"
    using clear_three_flags[OF c] unfolding s1_def by blast
  have ctl: "(regs s FMC_CTL0 AND NOT FMC_CTL0_LK) AND 0x77 = 0"
    using st(3) by (auto simp: bit_eq_iff bit_simps)
  have r1: "fmc_ready (s1 y x)" "fmc_unlocked (s1 y x)" "in_flash (s1 y x) ?p"
    using st x(2) ctl assms(3) or_and_self(2)[of "regs s FMC_CTL0" FMC_CTL0_LK]
    by (simp_all add: s1_def s0_def fmc_ready_def fmc_unlocked_def)
  define s2 where "s2 v w = (s1 y x)\<lparr>flash := erase_page ?p (flash s),
      regs := (regs (s1 y x))(FMC_ADDR0 := ?p, FMC_STAT0 := v), inner := w\<rparr>" for v w
  have "flash (s1 y x) = flash s" by (simp add: s1_def s0_def)
  then obtain v w where e: "fmc_page_erase c ?p (s1 y x) = (FMC_READY, s2 v w)" "v AND 0x15 = 0"
    using page_erase_ok[OF assms(1) r1] unfolding s2_def by auto
  have "fmc_idle (s2 v w)" using and_submask[OF e(2), of 1] by (simp add: fmc_idle_def s2_def)
  then obtain z where z: "fmc_flag_clear c FMC_FLAG_BANK0_PGERR (fmc_flag_clear c FMC_FLAG_BANK0_WPERR
      (fmc_flag_clear c FMC_FLAG_BANK0_END (s2 v w))) = (s2 v w)\<lparr>regs := (regs (s2 v w))(FMC_STAT0 := z)\<rparr>" "z AND 0x15 = 0"
    using clear_three_flags[OF c] by blast
  define s3 where "s3 = (s2 v w)\<lparr>regs := (regs (s2 v w))(FMC_STAT0 := z)\<rparr>"
  have out: "ErasePage c num_page s = fmc_lock c s3"
    unfolding ErasePage_def Let_def u x(1) e(1) snd_conv z(1) s3_def ..
  have "unat ?p div 2048 < 0x1FFFF7E0 div 2048" "unat ?p div 2048 < 0x1FFFF7E1 div 2048"
    using in_flash_bound[OF r1(3,1)] by auto
  then have size: "FMC_SIZE s3 = FMC_SIZE s"
    by (intro FMC_SIZE_flash) (simp_all add: s3_def s2_def erase_page_eq)
  have r3: "fmc_ready s3" "fmc_unlocked s3"
    using r1(1,2) z(2) size by (auto simp: fmc_ready_def fmc_unlocked_def s3_def s2_def s1_def s0_def)
  note l = fmc_lock_result[OF c r3]
  show "flash (ErasePage c num_page s) = erase_page ?p (flash s)" by (simp add: out l) (simp add: s3_def s2_def)
  show "FMC_SIZE (ErasePage c num_page s) = FMC_SIZE s" using size by (simp add: out l)
  show "fmc_ready (ErasePage c num_page s)" "\<not> fmc_unlocked (ErasePage c num_page s)"
    using r3(1) by (simp_all add: out l fmc_ready_def fmc_unlocked_def or_and_self or_and_other)
qed

lemma scan_empty_iff:
  "scan_empty f a e \<longleftrightarrow> (\<forall>i. a + 16 * i < e \<longrightarrow> rd32 f (of_nat (a + 16 * i)) = 0xFFFFFFFF)"
proof (induction f a e rule: scan_empty.induct)
  case (1 f a e)
  show ?case
  proof (cases "a < e \<and> rd32 f (of_nat a) = 0xFFFFFFFF")
    case True
    have "scan_empty f a e = scan_empty f (a + 16) e" using True by (subst scan_empty.simps) simp
    also have "\<dots> \<longleftrightarrow> (\<forall>i. a + 16 + 16 * i < e \<longrightarrow> rd32 f (of_nat (a + 16 + 16 * i)) = 0xFFFFFFFF)"
      using 1 True by simp
    also have "\<dots> \<longleftrightarrow> (\<forall>i. a + 16 * Suc i < e \<longrightarrow> rd32 f (of_nat (a + 16 * Suc i)) = 0xFFFFFFFF)"
      by (simp add: add.assoc)
    also have "\<dots> \<longleftrightarrow> (\<forall>i. a + 16 * i < e \<longrightarrow> rd32 f (of_nat (a + 16 * i)) = 0xFFFFFFFF)"
      using True by (metis mult_0_right add_0_right not0_implies_Suc)
    finally show ?thesis .
  next
    case False
    then show ?thesis
    proof (cases "a < e")
      case True
      then show ?thesis using False by (subst scan_empty.simps) (auto intro!: exI[of _ 0])
    next
      case False
      then show ?thesis by (subst scan_empty.simps) simp
    qed
  qed
qed

section \<open>Properties\<close>

lemma in_area: "unat a + 4 * m \<le> 0x08000000 + 1024 * unat (FMC_SIZE s) \<Longrightarrow> fmc_ready s \<Longrightarrow> unat a + 4 * m \<le> 2 ^ 32"
  by (simp add: fmc_ready_def word_le_nat_alt)

lemma WriteData_erased:
  assumes "nor_flash c" "fmc_ready s" "a AND 3 = 0" "0x08000000 \<le> unat a"
    "unat a + 4 * ((n + 3) div 4) \<le> 0x08000000 + 1024 * unat (FMC_SIZE s)"
    "erased (flash s) a (4 * ((n + 3) div 4))"
  shows "\<exists>s'. WriteData c a data (int n) s = Some s' \<and>
     flash s' = flash_write (flash s) a (map data [0..<4 * ((n + 3) div 4)]) \<and> fmc_ready s' \<and> \<not> fmc_unlocked s'"
proof -
  let ?ws = "map (\<lambda>j. data32 data (4 * j)) [0..<(n + 3) div 4]"
  have "prog_words (flash s) a ?ws = flash_write (flash s) a (concat (map word_bytes ?ws))"
    using assms(2,5,6) in_area[OF assms(5,2)] by (intro prog_words_erased) simp_all
  also have "concat (map word_bytes ?ws) = map data [0..<4 * ((n + 3) div 4)]"
    by (simp add: map_map comp_def concat_data32)
  finally show ?thesis using WriteData_result[OF assms(1-5), of data] by auto
qed

text \<open>
  C35: \<^verbatim>\<open>WriteData\<close> on an erased range of the flash. It returns, the range holds the bytes of the
  buffer (the size rounded up to whole words, so that up to three bytes behind the buffer are
  programmed too), no other byte has changed, no error is pending and the controller is locked again.
\<close>

lemma WriteData_stores:
  assumes "nor_flash c" "fmc_ready s" "a AND 3 = 0" "0x08000000 \<le> unat a"
    "unat a + 4 * ((n + 3) div 4) \<le> 0x08000000 + 1024 * unat (FMC_SIZE s)"
    "erased (flash s) a (4 * ((n + 3) div 4))"
  shows "\<exists>s'. WriteData c a data (int n) s = Some s' \<and>
     flash s' = flash_write (flash s) a (map data [0..<4 * ((n + 3) div 4)]) \<and> fmc_ready s' \<and> \<not> fmc_unlocked s'"
  using assms by (rule WriteData_erased)

lemma blank_device_erased: "unat a + n \<le> 0x1FFFF7E0 \<Longrightarrow> erased (flash blank_device) a n"
proof -
  assume a: "unat a + n \<le> 0x1FFFF7E0"
  have "unat (a + of_nat i) < 0x1FFFF7E0" if "i < n" for i using unat_plus_small[of a i] a that by simp
  then have "a + of_nat i \<noteq> 0x1FFFF7E0 \<and> a + of_nat i \<noteq> 0x1FFFF7E1" if "i < n" for i using that by fastforce
  then show ?thesis by (simp add: erased_def blank_device_def)
qed

text \<open>
  A word that is not erased is refused by the controller with PGERR; \<^verbatim>\<open>WriteData\<close> leaves such a word
  alone and goes on with the next one. It gives \<^verbatim>\<open>fmc_flag_clear\<close> the three flag codes combined by OR,
  which names bit 7 of the status register instead of the three flags, but since the register is
  written back with one bit more and its flags are cleared by writing 1, the error does not stop the
  words that follow.
\<close>

lemma WriteData_skips_programmed_words:
  assumes "nor_flash c" "fmc_ready s" "a AND 3 = 0" "0x08000000 \<le> unat a"
    "unat a + 8 \<le> 0x08000000 + 1024 * unat (FMC_SIZE s)" "rd32 (flash s) a \<noteq> 0xFFFFFFFF" "erased (flash s) (a + 4) 4"
  shows "\<exists>s'. WriteData c a data 8 s = Some s' \<and> fmc_ready s' \<and>
     flash s' = flash_write (flash s) (a + 4) [data 4, data 5, data 6, data 7]"
proof -
  have "FMC_SIZE s \<le> 0x200" using assms(2) by (simp add: fmc_ready_def)
  then have "unat (a + 4) + 4 \<le> 2 ^ 32"
    using assms(5) unat_plus_small[of a 4] by (simp add: word_le_nat_alt)
  then have "prog_words (flash s) a [data32 data 0, data32 data 4] = flash_write (flash s) (a + 4) (word_bytes (data32 data 4))"
    using assms(6) rd32_erased[OF assms(7)] wr32_flash_write by simp
  then have "prog_words (flash s) a [data32 data 0, data32 data 4] = flash_write (flash s) (a + 4) [data 4, data 5, data 6, data 7]"
    by (simp add: word_bytes_data32)
  moreover have "map (\<lambda>j. data32 data (4 * j)) [0..<2] = [data32 data 0, data32 data 4]"
    by (simp add: numeral_2_eq_2)
  ultimately show ?thesis using WriteData_result[OF assms(1-4), of 8 data] assms(5) by auto
qed

lemma join_word_bytes:
  "ucast (ucast w :: u8) OR push_bit 8 (ucast (ucast (drop_bit 8 w) :: u8)) OR
     push_bit 16 (ucast (ucast (drop_bit 16 w) :: u8)) OR push_bit 24 (ucast (ucast (drop_bit 24 w) :: u8)) = (w :: u32)"
proof (rule bit_word_eqI)
  fix n assume "n < LENGTH(32)"
  then consider "n < 8" | "8 \<le> n" "n < 16" | "16 \<le> n" "n < 24" | "24 \<le> n" "n < 32" by fastforce
  then show "bit (ucast (ucast w :: u8) OR push_bit 8 (ucast (ucast (drop_bit 8 w) :: u8)) OR
     push_bit 16 (ucast (ucast (drop_bit 16 w) :: u8)) OR push_bit 24 (ucast (ucast (drop_bit 24 w) :: u8)) :: u32) n = bit w n"
    by cases (auto simp: bit_simps)
qed

lemma rd32_wr32: "rd32 (wr32 f a w) a = w"
  using join_word_bytes[of w] by (simp add: rd32_def wr32_def)

lemma data32_split: "data32 (\<lambda>i. ucast (drop_bit (8 * i) value)) 0 = value"
  using join_word_bytes[of "value"] by (simp add: data32_def)

text \<open>
  \<^verbatim>\<open>WriteUInt\<close> on an erased word of the flash returns, and reading the word gives the value back.
\<close>

lemma WriteUInt_read_back:
  assumes "nor_flash c" "fmc_ready s" "a AND 3 = 0" "0x08000000 \<le> unat a"
    "unat a + 4 \<le> 0x08000000 + 1024 * unat (FMC_SIZE s)" "erased (flash s) a 4"
  shows "\<exists>s'. WriteUInt c a value s = Some s' \<and> rd32 (flash s') a = value"
  using WriteData_result[OF assms(1-4), of 4 "\<lambda>i. ucast (drop_bit (8 * i) value)"] assms(5) rd32_erased[OF assms(6)]
  by (auto simp: WriteUInt_def data32_split rd32_wr32)

text \<open>
  \<^verbatim>\<open>ErasePage\<close> on a page of the flash, also when errors of earlier operations are still pending:
  every byte of the page is 0xFF afterwards, every other byte is as before, the error flags are
  clear and the controller is locked.
\<close>

lemma ErasePage_erases:
  assumes "nor_flash c" "fmc_usable s" "in_flash s (FLASH_BASE + num_page * SIZE_PAGE)"
  shows "flash (ErasePage c num_page s) a =
      (if unat a div 2048 = unat (FLASH_BASE + num_page * SIZE_PAGE) div 2048 then 0xFF else flash s a) \<and>
    fmc_ready (ErasePage c num_page s) \<and> \<not> fmc_unlocked (ErasePage c num_page s)"
  using ErasePage_result[OF assms] by (simp add: erase_page_eq)

end
