(* ===== verification/Programmer.thy ===== *)
theory Programmer
  imports HalRom
begin

unbundle bit_operations_syntax

text \<open>
  Writing a firmware image: \<^verbatim>\<open>sources/Loader/src/Hardware/Programmer.cpp\<close>. The static variables of
  the namespace are the record \<open>programmer\<close>, with the flash machine below it. A function returns
  \<open>None\<close> when it would write outside the array \<^verbatim>\<open>bytes\<close> or would not return.
\<close>

section \<open>State and operations\<close>

abbreviation SIZE_DATA_BUFFER :: nat where "SIZE_DATA_BUFFER \<equiv> 64"
abbreviation MAX_SIZE_STORAGE :: nat where "MAX_SIZE_STORAGE \<equiv> 1024 * 76"

record 'h programmer =
  rom :: "'h mach"
  written_bytes :: nat
  p_address :: u32
  num_bytes :: nat
  p_bytes :: "u8 list"

text \<open>\<^verbatim>\<open>memcpy(&bytes[i], data, n)\<close> into an array.\<close>

definition memcpy_at :: "u8 list \<Rightarrow> nat \<Rightarrow> (nat \<Rightarrow> u8) \<Rightarrow> nat \<Rightarrow> u8 list option" where
  "memcpy_at bs i data n =
    (if i + n \<le> length bs then Some (take i bs @ map data [0..<n] @ drop (i + n) bs) else None)"

definition Write :: "'h chip \<Rightarrow> (nat \<Rightarrow> u8) \<Rightarrow> nat \<Rightarrow> 'h programmer \<Rightarrow> 'h programmer option" where
  "Write c data size' p =
    (case WriteData c (p_address p) data (int size') (rom p) of
       None \<Rightarrow> None
     | Some s \<Rightarrow> Some (p\<lparr>rom := s, p_address := p_address p + of_nat size',
                       written_bytes := written_bytes p + size'\<rparr>))"

definition prepare_page :: "'h chip \<Rightarrow> u32 \<Rightarrow> nat \<Rightarrow> 'h mach \<Rightarrow> 'h mach" where
  "prepare_page c page i s =
    (if \<not> PageIsEmpty (page + of_nat i) s then ErasePage c (page + of_nat i) s else s)"

definition Prepare :: "'h chip \<Rightarrow> u32 \<Rightarrow> 'h programmer \<Rightarrow> 'h programmer" where
  "Prepare c start_address p =
    (let num_pages = MAX_SIZE_STORAGE div unat SIZE_PAGE;
         page = (start_address - ADDR_BASE) div SIZE_PAGE
      in p\<lparr>rom := fold (prepare_page c page) [0..<num_pages] (rom p),
           p_address := start_address, written_bytes := 0, num_bytes := 0\<rparr>)"

fun drop_to4 :: "nat \<Rightarrow> nat" where
  "drop_to4 need_bytes = (if need_bytes mod 4 \<noteq> 0 then drop_to4 (need_bytes - 1) else need_bytes)"

definition WriteBytes :: "'h chip \<Rightarrow> (nat \<Rightarrow> u8) \<Rightarrow> nat \<Rightarrow> 'h programmer \<Rightarrow> 'h programmer option" where
  "WriteBytes c data size' p =
    (if size' = 0 then Some p
     else
       (case memcpy_at (p_bytes p) (num_bytes p) data size' of
          None \<Rightarrow> None
        | Some bs \<Rightarrow>
            (let p = p\<lparr>p_bytes := bs, num_bytes := num_bytes p + size'\<rparr>
              in (if num_bytes p mod 4 = 0 then
                    (case Write c (nth (p_bytes p)) (num_bytes p) p of
                       None \<Rightarrow> None
                     | Some p \<Rightarrow> Some (p\<lparr>num_bytes := 0\<rparr>))
                  else if num_bytes p > 3 then
                    (let need_bytes = drop_to4 (num_bytes p);
                         delta = num_bytes p - need_bytes
                      in (case Write c (nth (p_bytes p)) need_bytes p of
                            None \<Rightarrow> None
                          | Some p \<Rightarrow>
                              (case memcpy_at (p_bytes p) 0 (\<lambda>i. p_bytes p ! (need_bytes + i)) delta of
                                 None \<Rightarrow> None
                               | Some bs \<Rightarrow> Some (p\<lparr>p_bytes := bs, num_bytes := delta\<rparr>))))
                  else Some p))))"

function fill_FF :: "u8 list \<Rightarrow> nat \<Rightarrow> (u8 list \<times> nat) option" where
  "fill_FF bs n =
    (if n mod 4 \<noteq> 0 then (if n < length bs then fill_FF (bs[n := 0xFF]) (n + 1) else None) else Some (bs, n))"
  by pat_completeness auto
termination by (relation "measure (\<lambda>(bs, n). length bs - n)") auto

definition CloseSession :: "'h chip \<Rightarrow> 'h programmer \<Rightarrow> 'h programmer option" where
  "CloseSession c p =
    (if num_bytes p \<noteq> 0 then
       (case fill_FF (p_bytes p) (num_bytes p) of
          None \<Rightarrow> None
        | Some (bs, n) \<Rightarrow> Write c (nth bs) n (p\<lparr>p_bytes := bs, num_bytes := n\<rparr>))
     else Some p)"

definition WrittenBytes :: "'h programmer \<Rightarrow> nat" where
  "WrittenBytes p = written_bytes p"

fun copy_loop :: "'h chip \<Rightarrow> u32 \<Rightarrow> nat \<Rightarrow> 'h programmer \<Rightarrow> (u32 \<times> nat \<times> 'h programmer) option" where
  "copy_loop c addr need_bytes p =
    (if SIZE_DATA_BUFFER \<le> need_bytes then
       (case WriteBytes c (\<lambda>i. flash (rom p) (addr + of_nat i)) SIZE_DATA_BUFFER p of
          None \<Rightarrow> None
        | Some p \<Rightarrow> copy_loop c (addr + of_nat SIZE_DATA_BUFFER) (need_bytes - SIZE_DATA_BUFFER) p)
     else Some (addr, need_bytes, p))"

definition CopyFirmware :: "'h chip \<Rightarrow> 'h programmer \<Rightarrow> 'h programmer option" where
  "CopyFirmware c p =
    (let need_bytes = written_bytes p;
         p = Prepare c ADDR_APPLICATION p
      in (case copy_loop c ADDR_STORAGE need_bytes p of
            None \<Rightarrow> None
          | Some (addr, need_bytes, p) \<Rightarrow>
              (if need_bytes \<noteq> 0 then WriteBytes c (\<lambda>i. flash (rom p) (addr + of_nat i)) need_bytes p
               else Some p)))"

declare drop_to4.simps [simp del]
declare fill_FF.simps [simp del]
declare copy_loop.simps [simp del]

section \<open>A writing session\<close>

text \<open>
  \<open>session a0 L f0 ws p\<close>: since the session started at \<open>a0\<close>, on a flash with contents \<open>f0\<close> whose \<open>L\<close>
  bytes from \<open>a0\<close> on were erased, exactly the bytes \<open>ws\<close> were programmed.
\<close>

definition session :: "u32 \<Rightarrow> nat \<Rightarrow> (u32 \<Rightarrow> u8) \<Rightarrow> u8 list \<Rightarrow> 'h programmer \<Rightarrow> bool" where
  "session a0 L f0 ws p \<longleftrightarrow> fmc_ready (rom p) \<and> a0 AND 3 = 0 \<and> 0x08000000 \<le> unat a0 \<and>
     unat a0 + L \<le> 0x08000000 + 1024 * unat (FMC_SIZE (rom p)) \<and> L mod 4 = 0 \<and> erased f0 a0 L \<and>
     flash (rom p) = flash_write f0 a0 ws \<and> p_address p = a0 + of_nat (length ws) \<and>
     written_bytes p = length ws \<and> length ws mod 4 = 0 \<and> length ws \<le> L \<and> length (p_bytes p) = 68"

lemma drop_to4_eq: "drop_to4 n = n - n mod 4"
proof (induction n rule: drop_to4.induct)
  case (1 n)
  show ?case
  proof (cases n)
    case 0
    then show ?thesis by (simp add: drop_to4.simps[of 0])
  next
    case (Suc k)
    show ?thesis
    proof (cases "n mod 4 = 0")
      case True
      then show ?thesis by (simp add: drop_to4.simps[of n])
    next
      case False
      then have "drop_to4 n = k - k mod 4" using 1[OF False] False Suc drop_to4.simps[of n] by simp
      moreover have "Suc k mod 4 = Suc (k mod 4)" using False Suc by (simp add: mod_Suc split: if_splits)
      ultimately show ?thesis using Suc by simp
    qed
  qed
qed

lemma map_nth_take: "n \<le> length xs \<Longrightarrow> map (nth xs) [0..<n] = take n xs"
  by (rule nth_equalityI) simp_all

lemma session_size: "session a0 L f0 ws p \<Longrightarrow> unat a0 + L \<le> 0x08080000"
proof -
  assume s: "session a0 L f0 ws p"
  then have "unat (FMC_SIZE (rom p)) \<le> 0x200" by (simp add: session_def fmc_ready_def word_le_nat_alt)
  then show ?thesis using s by (simp add: session_def)
qed

lemma Write_session:
  assumes chip: "nor_flash c" and ses: "session a0 L f0 ws p"
    and n: "n mod 4 = 0" "n \<le> length bs" "length ws + n \<le> L"
  shows "\<exists>r. Write c (nth bs) n p = Some (p\<lparr>rom := r, p_address := p_address p + of_nat n,
       written_bytes := written_bytes p + n\<rparr>) \<and>
     session a0 L f0 (ws @ take n bs) (p\<lparr>rom := r, p_address := p_address p + of_nat n,
       written_bytes := written_bytes p + n\<rparr>)"
proof -
  note ses' = ses[unfolded session_def]
  have lim: "unat a0 + L \<le> 0x08080000" using session_size[OF ses] .
  have addr: "unat (p_address p) = unat a0 + length ws"
    using ses' n(3) lim unat_plus_small[of a0 "length ws"] by simp
  have n4: "4 * ((n + 3) div 4) = n" using n(1) by presburger
  have al: "p_address p AND 3 = 0" 
    using ses' unfolding aligned_iff addr by (metis mod_add_eq mod_0 add_0)
  obtain r where r: "WriteData c (p_address p) (nth bs) (int n) (rom p) = Some r"
    "flash r = prog_words (flash (rom p)) (p_address p) (map (\<lambda>j. data32 (nth bs) (4 * j)) [0..<(n + 3) div 4])"
    "fmc_ready r" "FMC_SIZE r = FMC_SIZE (rom p)"
    using WriteData_result[OF chip _ al, of "rom p" n "nth bs"] ses' addr n(3) unfolding n4 by auto
  have e: "erased (flash (rom p)) (p_address p) n"
  proof -
    have "erased f0 a0 (length ws + n)"
      using ses' n(3) by (auto simp: erased_def)
    then have "erased f0 (a0 + of_nat (length ws)) n" using erased_append by blast
    then show ?thesis using ses' erased_flash_write[of a0 ws n f0] lim n(3) by simp
  qed
  have "flash r = flash_write (flash (rom p)) (p_address p) (map (nth bs) [0..<n])"
    unfolding r(2) using e addr lim n(3)
    by (subst prog_words_erased) (simp_all add: n4 map_map comp_def concat_data32)
  also have "\<dots> = flash_write f0 a0 (ws @ take n bs)"
    using ses' flash_write_append[of a0 ws "take n bs" f0] lim n(2,3) map_nth_take[OF n(2)] by simp
  finally have "flash r = flash_write f0 a0 (ws @ take n bs)" .
  then show ?thesis using r ses' n by (auto simp: Write_def session_def algebra_simps)
qed

text \<open>
  \<^verbatim>\<open>WriteBytes\<close> never leaves the array \<^verbatim>\<open>bytes\<close> when it is given at most
  \<^verbatim>\<open>SIZE_DATA_BUFFER\<close> bytes: at most three bytes wait there between two calls.
\<close>

lemma memcpy_at_take:
  assumes "i + n \<le> length bs"
  shows "\<exists>bs'. memcpy_at bs i data n = Some bs' \<and> length bs' = length bs \<and>
     take (i + n) bs' = take i bs @ map data [0..<n]"
  using assms by (auto simp: memcpy_at_def)

lemma WriteBytes_session:
  assumes chip: "nor_flash c" and ses: "session a0 L f0 ws p" and nb: "num_bytes p < 4"
    and size: "size' \<le> SIZE_DATA_BUFFER" "length ws + num_bytes p + size' \<le> L"
  shows "\<exists>p' ws'. WriteBytes c data size' p = Some p' \<and> session a0 L f0 ws' p' \<and> num_bytes p' < 4 \<and>
     ws' @ take (num_bytes p') (p_bytes p') = ws @ take (num_bytes p) (p_bytes p) @ map data [0..<size']"
proof (cases "size' = 0")
  case True
  then show ?thesis using ses nb by (auto simp: WriteBytes_def)
next
  case False
  let ?n = "num_bytes p + size'"
  have len: "length (p_bytes p) = 68" using ses by (simp add: session_def)
  obtain bs where bs: "memcpy_at (p_bytes p) (num_bytes p) data size' = Some bs" "length bs = 68"
    "take ?n bs = take (num_bytes p) (p_bytes p) @ map data [0..<size']"
    using memcpy_at_take[of "num_bytes p" size' "p_bytes p" data] nb size(1) len by auto
  let ?p = "p\<lparr>p_bytes := bs, num_bytes := ?n\<rparr>"
  have sp: "session a0 L f0 ws ?p" using ses bs(2) by (simp add: session_def)
  define need where "need = ?n - ?n mod 4"
  have need: "need mod 4 = 0" "need \<le> ?n" "need \<le> length bs" "length ws + need \<le> L" "?n - need < 4"
    using size nb bs(2) unfolding need_def by (auto simp: minus_mod_eq_mult_div)
  obtain r where w: "Write c (nth bs) need ?p = Some (?p\<lparr>rom := r, p_address := p_address ?p + of_nat need,
       written_bytes := written_bytes ?p + need\<rparr>)"
    "session a0 L f0 (ws @ take need bs) (?p\<lparr>rom := r, p_address := p_address ?p + of_nat need,
       written_bytes := written_bytes ?p + need\<rparr>)"
    using Write_session[OF chip sp need(1,3,4)] by blast
  let ?q = "?p\<lparr>rom := r, p_address := p_address ?p + of_nat need, written_bytes := written_bytes ?p + need\<rparr>"
  consider (all) "?n mod 4 = 0" | (part) "?n mod 4 \<noteq> 0" "?n > 3" | (wait) "?n \<le> 3" "?n mod 4 \<noteq> 0" by linarith
  then show ?thesis
  proof cases
    case all
    then have "need = ?n" by (simp add: need_def)
    then have "WriteBytes c data size' p = Some (?q\<lparr>num_bytes := 0\<rparr>)"
      using False bs(1) w(1) all by (simp add: WriteBytes_def Let_def)
    moreover have "session a0 L f0 (ws @ take need bs) (?q\<lparr>num_bytes := 0\<rparr>)"
      using w(2) unfolding session_def by auto
    ultimately show ?thesis using bs(3) \<open>need = ?n\<close> by (intro exI[of _ "?q\<lparr>num_bytes := 0\<rparr>"] exI[of _ "ws @ take need bs"]) simp
  next
    case part
    let ?d = "?n - need"
    obtain cs where cs: "memcpy_at bs 0 (\<lambda>i. bs ! (need + i)) ?d = Some cs" "length cs = 68"
      "take ?d cs = map (\<lambda>i. bs ! (need + i)) [0..<?d]"
      using memcpy_at_take[of 0 ?d bs "\<lambda>i. bs ! (need + i)"] bs(2) need(2,5) by auto
    have rest: "take need bs @ take ?d cs = take ?n bs"
      using need(2) bs(2) size(1) nb unfolding cs(3)
      by (intro nth_equalityI) (auto simp: nth_append min_def)
    let ?q' = "?q\<lparr>p_bytes := cs, num_bytes := ?d\<rparr>"
    have "WriteBytes c data size' p = Some ?q'"
      using False bs(1) w(1) part cs(1) by (simp add: WriteBytes_def Let_def drop_to4_eq need_def)
    moreover have "session a0 L f0 (ws @ take need bs) ?q'"
      using w(2) cs(2) bs(2) unfolding session_def by auto
    ultimately show ?thesis using rest bs(3) need(5)
      by (intro exI[of _ ?q'] exI[of _ "ws @ take need bs"]) simp
  next
    case wait
    then have "WriteBytes c data size' p = Some ?p" using False bs(1) by (simp add: WriteBytes_def Let_def)
    then show ?thesis using sp bs(3) wait by (intro exI[of _ ?p] exI[of _ ws]) simp
  qed
qed

lemma fill_FF_result:
  assumes "0 < n" "n < 4" "4 \<le> length bs"
  shows "\<exists>bs'. fill_FF bs n = Some (bs', 4) \<and> length bs' = length bs \<and> take 4 bs' = take n bs @ replicate (4 - n) 0xFF"
proof -
  have f4: "fill_FF xs 4 = Some (xs, 4)" for xs by (simp add: fill_FF.simps[of _ 4])
  have f3: "fill_FF xs 3 = Some (xs[3 := 0xFF], 4)" if "4 \<le> length xs" for xs
    using that by (simp add: fill_FF.simps[of _ 3] f4)
  have f2: "fill_FF xs 2 = Some (xs[2 := 0xFF, 3 := 0xFF], 4)" if "4 \<le> length xs" for xs
    using that by (simp add: fill_FF.simps[of _ 2] f3)
  have f1: "fill_FF xs 1 = Some (xs[1 := 0xFF, 2 := 0xFF, 3 := 0xFF], 4)" if "4 \<le> length xs" for xs
    using that f2[of "xs[1 := 0xFF]"] fill_FF.simps[of xs 1] by (simp add: numeral_2_eq_2)
  obtain b0 b1 b2 b3 cs where bs: "bs = b0 # b1 # b2 # b3 # cs"
    using assms(3) by (auto simp: Suc_le_length_iff numeral_eq_Suc)
  have "n = 1 \<or> n = 2 \<or> n = 3" using assms by linarith
  then show ?thesis using f1[OF assms(3)] f2[OF assms(3)] f3[OF assms(3)]
    by (elim disjE) (simp_all add: bs numeral_2_eq_2 numeral_3_eq_3)
qed

lemma CloseSession_session:
  assumes chip: "nor_flash c" and ses: "session a0 L f0 ws p" and nb: "num_bytes p < 4"
    and len: "length ws + num_bytes p \<le> L"
  shows "\<exists>p'. CloseSession c p = Some p' \<and>
     session a0 L f0 (ws @ take (num_bytes p) (p_bytes p) @ replicate ((4 - num_bytes p) mod 4) 0xFF) p'"
proof (cases "num_bytes p = 0")
  case True
  then show ?thesis using ses by (simp add: CloseSession_def)
next
  case False
  have bl: "length (p_bytes p) = 68" using ses by (simp add: session_def)
  obtain bs where bs: "fill_FF (p_bytes p) (num_bytes p) = Some (bs, 4)" "length bs = 68"
    "take 4 bs = take (num_bytes p) (p_bytes p) @ replicate (4 - num_bytes p) 0xFF"
    using fill_FF_result[of "num_bytes p" "p_bytes p"] False nb bl by auto
  have sp: "session a0 L f0 ws (p\<lparr>p_bytes := bs, num_bytes := 4\<rparr>)" using ses bs(2) by (simp add: session_def)
  have "length ws mod 4 = 0" "L mod 4 = 0" using ses by (auto simp: session_def)
  then have "length ws + 4 \<le> L" using len False by presburger
  then obtain p' where "Write c (nth bs) 4 (p\<lparr>p_bytes := bs, num_bytes := 4\<rparr>) = Some p'"
      "session a0 L f0 (ws @ take 4 bs) p'"
    using Write_session[OF chip sp, of 4 bs] bs(2) by auto
  then show ?thesis using False nb bs by (simp add: CloseSession_def)
qed

section \<open>Contract of a stream writer\<close>

text \<open>
  A client that delivers an image in pieces relies only on this: a piece of at most \<open>chunk\<close>
  elements that still fits is accepted and appended to what was accepted before.
\<close>

fun put_all :: "('d \<Rightarrow> 's \<Rightarrow> 's option) \<Rightarrow> 'd list \<Rightarrow> 's \<Rightarrow> 's option" where
  "put_all put [] s = Some s"
| "put_all put (d # ds) s = (case put d s of None \<Rightarrow> None | Some s \<Rightarrow> put_all put ds s)"

locale stream_writer =
  fixes put :: "'d list \<Rightarrow> 's \<Rightarrow> 's option"
    and content :: "'s \<Rightarrow> 'd list"
    and inv :: "'s \<Rightarrow> bool"
    and capacity :: nat
    and chunk :: nat
  assumes put_ok: "inv s \<Longrightarrow> length d \<le> chunk \<Longrightarrow> length (content s) + length d \<le> capacity \<Longrightarrow>
      \<exists>s'. put d s = Some s' \<and> inv s' \<and> content s' = content s @ d"
begin

lemma put_all_ok:
  assumes "inv s" "\<forall>d \<in> set ds. length d \<le> chunk" "length (content s) + length (concat ds) \<le> capacity"
  shows "\<exists>s'. put_all put ds s = Some s' \<and> inv s' \<and> content s' = content s @ concat ds"
  using assms
proof (induction ds arbitrary: s)
  case Nil
  then show ?case by simp
next
  case (Cons d ds)
  obtain t where t: "put d s = Some t" "inv t" "content t = content s @ d"
    using put_ok[of s d] Cons.prems by auto
  then show ?case using Cons.IH[of t] Cons.prems by auto
qed

text \<open>How the image is cut into pieces does not matter.\<close>

lemma chunking_irrelevant:
  assumes "inv s" "\<forall>d \<in> set ds. length d \<le> chunk" "\<forall>d \<in> set es. length d \<le> chunk" "concat ds = concat es"
    and "length (content s) + length (concat ds) \<le> capacity" "put_all put ds s = Some t" "put_all put es s = Some u"
  shows "content t = content u"
  using put_all_ok[OF assms(1,2,5)] put_all_ok[OF assms(1,3)] assms(4-) by auto

end

definition WriteList :: "'h chip \<Rightarrow> u8 list \<Rightarrow> 'h programmer \<Rightarrow> 'h programmer option" where
  "WriteList c d = WriteBytes c (nth d) (length d)"

definition stored :: "u32 \<Rightarrow> 'h programmer \<Rightarrow> u8 list" where
  "stored a0 p = map (\<lambda>i. flash (rom p) (a0 + of_nat i)) [0..<written_bytes p] @ take (num_bytes p) (p_bytes p)"

definition writing :: "'h chip \<Rightarrow> u32 \<Rightarrow> nat \<Rightarrow> (u32 \<Rightarrow> u8) \<Rightarrow> 'h programmer \<Rightarrow> bool" where
  "writing c a0 L f0 p \<longleftrightarrow> nor_flash c \<and> num_bytes p < 4 \<and> (\<exists>ws. session a0 L f0 ws p)"

lemma flash_write_read:
  assumes "unat a + length ws \<le> 2 ^ 32"
  shows "map (\<lambda>i. flash_write f a ws (a + of_nat i)) [0..<length ws] = ws"
proof (rule nth_equalityI)
  show "length (map (\<lambda>i. flash_write f a ws (a + of_nat i)) [0..<length ws]) = length ws" by simp
  fix i assume "i < length (map (\<lambda>i. flash_write f a ws (a + of_nat i)) [0..<length ws])"
  then have i: "i < length ws" by simp
  then have "unat (a + of_nat i) = unat a + i" using assms by (intro unat_plus_small) simp
  then show "map (\<lambda>i. flash_write f a ws (a + of_nat i)) [0..<length ws] ! i = ws ! i"
    using i by (simp add: flash_write_def)
qed

lemma session_stored:
  assumes "session a0 L f0 ws p"
  shows "stored a0 p = ws @ take (num_bytes p) (p_bytes p)"
  using assms session_size[OF assms] flash_write_read[of a0 ws f0] by (simp add: session_def stored_def)

interpretation flash_stream: stream_writer "WriteList c" "stored a0" "writing c a0 L f0" L SIZE_DATA_BUFFER
  for c :: "'h chip" and a0 L f0
proof
  fix s :: "'h programmer" and d :: "u8 list"
  assume a: "writing c a0 L f0 s" "length d \<le> SIZE_DATA_BUFFER" "length (stored a0 s) + length d \<le> L"
  then obtain ws where w: "nor_flash c" "num_bytes s < 4" "session a0 L f0 ws s" by (auto simp: writing_def)
  note st = session_stored[OF w(3)]
  have "length (p_bytes s) = 68" using w(3) by (simp add: session_def)
  then have "length ws + num_bytes s + length d \<le> L" using a(3) st w(2) by simp
  from WriteBytes_session[OF w(1,3,2) a(2) this, of "nth d"]
  obtain p' ws' where "WriteList c d s = Some p'" "session a0 L f0 ws' p'" "num_bytes p' < 4"
    "ws' @ take (num_bytes p') (p_bytes p') = stored a0 s @ d"
    by (auto simp: WriteList_def st map_nth)
  then show "\<exists>s'. WriteList c d s = Some s' \<and> writing c a0 L f0 s' \<and> stored a0 s' = stored a0 s @ d"
    using w(1) session_stored[of a0 L f0 ws' p'] by (auto simp: writing_def)
qed

section \<open>Preparing the area\<close>

lemma page_addr: "k < 0x100000 \<Longrightarrow> unat (FLASH_BASE + of_nat k * SIZE_PAGE) = (65536 + k) * 2048"
proof -
  assume k: "k < 0x100000"
  have "FLASH_BASE + of_nat k * SIZE_PAGE = (of_nat ((65536 + k) * 2048) :: u32)" by simp
  also have "unat \<dots> = (65536 + k) * 2048" using k by (subst unat_of_nat_u32) simp_all
  finally show ?thesis .
qed

lemma PageIsEmpty_iff:
  assumes "k < 0x100000"
  shows "PageIsEmpty (of_nat k) s \<longleftrightarrow>
     (\<forall>i < 512. rd32 (flash s) (of_nat ((65536 + k) * 2048 + 16 * i)) = 0xFFFFFFFF)"
  unfolding PageIsEmpty_def Let_def scan_empty_iff page_addr[OF assms] by auto

text \<open>The test looks only at the page and the three pages above it.\<close>

lemma rd32_cong:
  assumes "a mod 16 = 0" "a + 16 \<le> 2 ^ 32" "\<And>x. unat x div 16 = a div 16 \<Longrightarrow> f x = g x"
  shows "rd32 f (of_nat a) = rd32 g (of_nat a)"
proof -
  have "f (of_nat a + of_nat j) = g (of_nat a + of_nat j)" if "j < 4" for j
  proof (rule assms(3))
    have "unat (of_nat (a + j) :: u32) = a + j" using assms(2) that by (subst unat_of_nat_u32) simp_all
    moreover obtain q where "a = 16 * q" using assms(1) by auto
    ultimately show "unat (of_nat a + of_nat j :: u32) div 16 = a div 16" using that by simp
  qed
  from this[of 0] this[of 1] this[of 2] this[of 3] show ?thesis by (simp add: rd32_def)
qed

lemma PageIsEmpty_cong:
  assumes "k < 0x100000" "\<And>x. 65536 + k \<le> unat x div 2048 \<Longrightarrow> flash s x = flash t x"
  shows "PageIsEmpty (of_nat k) s = PageIsEmpty (of_nat k) t"
proof -
  have "rd32 (flash s) (of_nat ((65536 + k) * 2048 + 16 * i)) = rd32 (flash t) (of_nat ((65536 + k) * 2048 + 16 * i))"
    if "i < 512" for i
  proof (rule rd32_cong)
    have "(65536 + k) * 2048 + 16 * i = 16 * ((65536 + k) * 128 + i)" by simp
    then show "((65536 + k) * 2048 + 16 * i) mod 16 = 0" by simp
    show "(65536 + k) * 2048 + 16 * i + 16 \<le> 2 ^ 32" using assms(1) that by simp
    fix x :: u32
    assume "unat x div 16 = ((65536 + k) * 2048 + 16 * i) div 16"
    then have "unat x div 16 = (65536 + k) * 128 + i" by simp
    moreover have "unat x div 2048 = unat x div 16 div 128" by (simp add: div_mult2_eq[symmetric])
    ultimately have "65536 + k \<le> unat x div 2048" by simp
    then show "flash s x = flash t x" by (rule assms(2))
  qed
  then show ?thesis unfolding PageIsEmpty_iff[OF assms(1)] by auto
qed

lemma prepare_pages:
  assumes chip: "nor_flash c" and s: "fmc_ready s" "2 * (k0 + k) \<le> unat (FMC_SIZE s)"
  defines "s' \<equiv> fold (prepare_page c (of_nat k0)) [0..<k] s"
  shows "fmc_ready s' \<and> FMC_SIZE s' = FMC_SIZE s \<and> (\<forall>a. flash s' a =
     (if \<exists>i<k. unat a div 2048 = 65536 + k0 + i \<and> \<not> PageIsEmpty (of_nat (k0 + i)) s then 0xFF else flash s a))"
  using s(2) unfolding s'_def
proof (induction k)
  case 0
  then show ?case using s(1) by simp
next
  case (Suc k)
  define t where "t = fold (prepare_page c (of_nat k0)) [0..<k] s"
  have IH: "fmc_ready t" "FMC_SIZE t = FMC_SIZE s" "\<And>a. flash t a =
     (if \<exists>i<k. unat a div 2048 = 65536 + k0 + i \<and> \<not> PageIsEmpty (of_nat (k0 + i)) s then 0xFF else flash s a)"
    using Suc unfolding t_def by simp_all
  have "unat (FMC_SIZE s) \<le> 0x200" using s(1) by (simp add: fmc_ready_def word_le_nat_alt)
  then have small: "k0 + k < 0x100000" using Suc.prems by simp
  have same: "PageIsEmpty (of_nat (k0 + k)) t = PageIsEmpty (of_nat (k0 + k)) s"
    using small by (rule PageIsEmpty_cong) (auto simp: IH(3))
  have step: "fold (prepare_page c (of_nat k0)) [0..<Suc k] s = prepare_page c (of_nat k0) k t"
    by (simp add: t_def)
  show ?case
  proof (cases "PageIsEmpty (of_nat (k0 + k)) s")
    case True
    then have "prepare_page c (of_nat k0) k t = t" using same by (simp add: prepare_page_def)
    then show ?thesis unfolding step using IH True by (auto simp: less_Suc_eq)
  next
    case False
    let ?p = "FLASH_BASE + of_nat (k0 + k) * SIZE_PAGE"
    have p: "unat ?p = (65536 + (k0 + k)) * 2048" using small by (rule page_addr)
    have "in_flash t ?p"
      using Suc.prems p by (simp add: in_flash_def word_le_nat_alt IH(2) del: of_nat_add)
    note e = ErasePage_result[OF chip fmc_ready_usable[OF IH(1)] this]
    have "prepare_page c (of_nat k0) k t = ErasePage c (of_nat (k0 + k)) t"
      using False same by (simp add: prepare_page_def)
    moreover have "flash (ErasePage c (of_nat (k0 + k)) t) a =
        (if unat a div 2048 = 65536 + k0 + k then 0xFF else flash t a)" for a
      unfolding e(1) erase_page_eq p by simp
    ultimately show ?thesis unfolding step using e IH False by (auto simp: less_Suc_eq)
  qed
qed

text \<open>
  \<^verbatim>\<open>PageIsEmpty\<close> reads one word in four, so it can take a page for empty that is not
  (one of the properties at the end). Where it does not, \<^verbatim>\<open>Prepare\<close> opens a session on an
  erased area.
\<close>

definition blank_test_sound :: "nat \<Rightarrow> (u32 \<Rightarrow> u8) \<Rightarrow> bool" where
  "blank_test_sound k0 f \<longleftrightarrow> (\<forall>i<38. (\<forall>j<512. rd32 f (of_nat ((65536 + (k0 + i)) * 2048 + 16 * j)) = 0xFFFFFFFF) \<longrightarrow>
     (\<forall>a. unat a div 2048 = 65536 + k0 + i \<longrightarrow> f a = 0xFF))"

lemma page_of_start: "k < 0x1000 \<Longrightarrow> (FLASH_BASE + of_nat k * SIZE_PAGE - ADDR_BASE) div SIZE_PAGE = of_nat k"
proof -
  assume k: "k < 0x1000"
  have u: "unat (of_nat k * SIZE_PAGE) = k * 2048"
    using k unat_of_nat_u32[of "k * 2048"] by simp
  have "unat ((of_nat k * SIZE_PAGE) div SIZE_PAGE) = unat (of_nat k :: u32)"
    using k unat_of_nat_u32[of k] by (simp add: unat_div_distrib u)
  then show ?thesis by (simp add: word_unat_eq_iff)
qed

lemma Prepare_session:
  assumes chip: "nor_flash c" and s: "fmc_ready (rom p)" "2 * (k0 + 38) \<le> unat (FMC_SIZE (rom p))" "length (p_bytes p) = 68"
    and sound: "blank_test_sound k0 (flash (rom p))"
    and a0: "a0 = FLASH_BASE + of_nat k0 * SIZE_PAGE"
  defines "p' \<equiv> Prepare c a0 p"
  shows "session a0 MAX_SIZE_STORAGE (flash (rom p')) [] p'" and "num_bytes p' = 0"
    and "\<And>a. unat a div 2048 < 65536 + k0 \<or> 65536 + k0 + 38 \<le> unat a div 2048 \<Longrightarrow> flash (rom p') a = flash (rom p) a"
    and "FMC_SIZE (rom p') = FMC_SIZE (rom p)"
proof -
  have size: "unat (FMC_SIZE (rom p)) \<le> 0x200" using s(1) by (simp add: fmc_ready_def word_le_nat_alt)
  have small: "k0 + 38 < 0x1000" using size s(2) by simp
  have rom: "rom p' = fold (prepare_page c (of_nat k0)) [0..<38] (rom p)"
    unfolding p'_def Prepare_def Let_def a0 using page_of_start[of k0] small by simp
  note r = prepare_pages[OF chip s(1,2), folded rom]
  then have f: "fmc_ready (rom p')" "FMC_SIZE (rom p') = FMC_SIZE (rom p)" "\<And>a. flash (rom p') a =
     (if \<exists>i<38. unat a div 2048 = 65536 + k0 + i \<and> \<not> PageIsEmpty (of_nat (k0 + i)) (rom p) then 0xFF else flash (rom p) a)"
    by auto
  show "num_bytes p' = 0" by (simp add: p'_def Prepare_def Let_def)
  show "FMC_SIZE (rom p') = FMC_SIZE (rom p)" by (rule f(2))
  show "flash (rom p') a = flash (rom p) a" if "unat a div 2048 < 65536 + k0 \<or> 65536 + k0 + 38 \<le> unat a div 2048" for a
    using that f(3) by auto
  have ua: "unat a0 = (65536 + k0) * 2048" using small unfolding a0 by (intro page_addr) simp
  have ff: "flash (rom p') a = 0xFF" if "unat a div 2048 = 65536 + k0 + i" "i < 38" for a i
  proof (cases "PageIsEmpty (of_nat (k0 + i)) (rom p)")
    case True
    then have "flash (rom p) a = 0xFF"
      using sound that small unfolding blank_test_sound_def by (subst (asm) PageIsEmpty_iff) auto
    then show ?thesis by (simp add: f(3))
  next
    case False
    then show ?thesis using that f(3) by auto
  qed
  have "erased (flash (rom p')) a0 MAX_SIZE_STORAGE"
    unfolding erased_def
  proof (intro allI impI)
    fix i assume i: "i < MAX_SIZE_STORAGE"
    have "unat (a0 + of_nat i) = (65536 + k0) * 2048 + i"
      using unat_plus_small[of a0 i] i small by (simp add: ua)
    then have "unat (a0 + of_nat i) div 2048 = 65536 + k0 + i div 2048" by simp
    then show "flash (rom p') (a0 + of_nat i) = 0xFF" using i by (intro ff[of _ "i div 2048"]) auto
  qed
  then show "session a0 MAX_SIZE_STORAGE (flash (rom p')) [] p'"
    using f(1,2) s(2,3) ua unfolding session_def aligned_iff
    by (simp add: p'_def Prepare_def Let_def)
qed

text \<open>Copying one block out of the storage area, which lies above the area being written.\<close>

lemma copy_block:
  assumes chip: "nor_flash c" and ses: "session a0 L f1 ws p" "num_bytes p = 0"
    and a: "unat a0 + L \<le> unat addr" "unat addr + n \<le> 2 ^ 32"
    and n: "length ws + n \<le> L" "n \<le> 64" "n mod 4 = 0"
  shows "\<exists>p'. WriteBytes c (\<lambda>i. flash (rom p) (addr + of_nat i)) n p = Some p' \<and> num_bytes p' = 0 \<and>
     session a0 L f1 (ws @ map (\<lambda>i. f1 (addr + of_nat i)) [0..<n]) p'"
proof -
  have fl: "flash (rom p) = flash_write f1 a0 ws" "length ws \<le> L" "length ws mod 4 = 0"
    using ses(1) by (auto simp: session_def)
  have "flash (rom p) (addr + of_nat i) = f1 (addr + of_nat i)" if "i < n" for i
    using unat_plus_small[of addr i] a that fl(2) by (simp add: fl(1) flash_write_def)
  then have rd: "map (\<lambda>i. flash (rom p) (addr + of_nat i)) [0..<n] = map (\<lambda>i. f1 (addr + of_nat i)) [0..<n]" by simp
  have room: "length ws + num_bytes p + n \<le> L" "num_bytes p < 4" using ses(2) n(1) by simp_all
  obtain p' ws' where p': "WriteBytes c (\<lambda>i. flash (rom p) (addr + of_nat i)) n p = Some p'"
    "session a0 L f1 ws' p'" "num_bytes p' < 4"
    "ws' @ take (num_bytes p') (p_bytes p') = ws @ map (\<lambda>i. f1 (addr + of_nat i)) [0..<n]"
    using WriteBytes_session[OF chip ses(1) room(2) n(2) room(1), of "\<lambda>i. flash (rom p) (addr + of_nat i)"] ses(2)
    unfolding rd by auto
  have "length (p_bytes p') = 68" "length ws' mod 4 = 0" using p'(2) by (auto simp: session_def)
  moreover have "length ws' + num_bytes p' = length ws + n"
    using arg_cong[OF p'(4), of length] \<open>length (p_bytes p') = 68\<close> p'(3) by simp
  ultimately have "num_bytes p' = 0" using fl(3) n(3) p'(3) by presburger
  then show ?thesis using p' by auto
qed

lemma upt_shift: "[0..<a + b] = [0..<a] @ map ((+) a) [0..<b]"
proof -
  have "map ((+) a) [0..<b] = map (\<lambda>i. i + a) [0..<b]" by (rule map_cong) simp_all
  then show ?thesis using upt_add_eq_append[of 0 a b] map_add_upt[of a b] by (simp add: add.commute)
qed

lemma copy_loop_session:
  assumes chip: "nor_flash c" and "session a0 L f1 ws p" "num_bytes p = 0"
    and "unat a0 + L \<le> unat addr" "unat addr + (64 * k + r) < 2 ^ 32" "length ws + (64 * k + r) \<le> L" "r < 64"
  shows "\<exists>p'. copy_loop c addr (64 * k + r) p = Some (addr + of_nat (64 * k), r, p') \<and> num_bytes p' = 0 \<and>
     session a0 L f1 (ws @ map (\<lambda>i. f1 (addr + of_nat i)) [0..<64 * k]) p'"
  using assms(2-)
proof (induction k arbitrary: ws p addr)
  case 0
  then show ?case by (simp add: copy_loop.simps[of c addr r p])
next
  case (Suc k)
  obtain p1 where p1: "WriteBytes c (\<lambda>i. flash (rom p) (addr + of_nat i)) 64 p = Some p1" "num_bytes p1 = 0"
      "session a0 L f1 (ws @ map (\<lambda>i. f1 (addr + of_nat i)) [0..<64]) p1"
    using copy_block[OF chip Suc.prems(1,2,3), of 64] Suc.prems(4,5) by (auto simp del: upt_rec_numeral)
  have addr: "unat (addr + 64) = unat addr + 64" using unat_plus_small[of addr 64] Suc.prems(4) by simp
  let ?ws = "ws @ map (\<lambda>i. f1 (addr + of_nat i)) [0..<64]"
  have step: "copy_loop c addr (64 * Suc k + r) p = copy_loop c (addr + 64) (64 * k + r) p1"
    using p1(1) by (subst copy_loop.simps) (simp del: upt_rec_numeral)
  have "\<exists>p'. copy_loop c (addr + 64) (64 * k + r) p1 = Some (addr + 64 + of_nat (64 * k), r, p') \<and> num_bytes p' = 0 \<and>
      session a0 L f1 (?ws @ map (\<lambda>i. f1 (addr + 64 + of_nat i)) [0..<64 * k]) p'"
    using Suc.prems(3-) p1 addr by (intro Suc.IH) (auto simp del: upt_rec_numeral)
  moreover have "?ws @ map (\<lambda>i. f1 (addr + 64 + of_nat i)) [0..<64 * k] = ws @ map (\<lambda>i. f1 (addr + of_nat i)) [0..<64 * Suc k]"
    using upt_shift[of 64 "64 * k"] by (simp add: comp_def algebra_simps del: upt_rec_numeral)
  ultimately show ?case unfolding step by (simp add: algebra_simps del: upt_rec_numeral)
qed

lemma CopyFirmware_session:
  assumes chip: "nor_flash c" and ses: "session ADDR_STORAGE MAX_SIZE_STORAGE f0 fw p"
    and sound: "blank_test_sound 0 (flash (rom p))"
  defines "f1 \<equiv> flash (rom (Prepare c ADDR_APPLICATION p))"
  shows "\<exists>p'. CopyFirmware c p = Some p' \<and> session ADDR_APPLICATION MAX_SIZE_STORAGE f1 fw p' \<and> num_bytes p' = 0"
    and "\<And>i. i < length fw \<Longrightarrow> f1 (ADDR_STORAGE + of_nat i) = fw ! i"
proof -
  note s = ses[unfolded session_def]
  define p1 where "p1 = Prepare c ADDR_APPLICATION p"
  have pre: "fmc_ready (rom p)" "2 * (0 + 38) \<le> unat (FMC_SIZE (rom p))" "length (p_bytes p) = 68" using s by auto
  note prep = Prepare_session[OF chip pre sound, of ADDR_APPLICATION, folded p1_def, simplified]
  let ?n = "length fw"
  have n: "?n \<le> MAX_SIZE_STORAGE" "?n mod 4 = 0" "written_bytes p = ?n" using s by auto
  have stor: "unat (ADDR_STORAGE + of_nat i) = 0x08013000 + i" if "i < MAX_SIZE_STORAGE" for i
    using unat_plus_small[of ADDR_STORAGE i] that by simp
  have above: "65574 \<le> (0x08013000 + i) div 2048" for i :: nat
    using div_le_mono[where m = "0x08013000 :: nat" and n = "0x08013000 + i" and k = 2048] by simp
  have img: "f1 (ADDR_STORAGE + of_nat i) = fw ! i" if "i < ?n" for i
    using prep(3)[of "ADDR_STORAGE + of_nat i"] stor[of i] that n(1) s above[of i]
    by (simp add: f1_def p1_def flash_write_def)
  then show "\<And>i. i < length fw \<Longrightarrow> f1 (ADDR_STORAGE + of_nat i) = fw ! i" .
  define k where "k = ?n div 64"
  define r where "r = ?n mod 64"
  have nkr: "64 * k + r = ?n" "r < 64" "r mod 4 = 0" using n(2) by (auto simp: k_def r_def mod_mod_cancel)
  have "session ADDR_APPLICATION MAX_SIZE_STORAGE f1 [] p1" "num_bytes p1 = 0"
    using prep by (simp_all add: f1_def p1_def)
  then obtain p2 where p2: "copy_loop c ADDR_STORAGE ?n p1 = Some (ADDR_STORAGE + of_nat (64 * k), r, p2)" "num_bytes p2 = 0"
      "session ADDR_APPLICATION MAX_SIZE_STORAGE f1 (map (\<lambda>i. f1 (ADDR_STORAGE + of_nat i)) [0..<64 * k]) p2"
    using copy_loop_session[OF chip, of ADDR_APPLICATION MAX_SIZE_STORAGE f1 "[]" p1 ADDR_STORAGE k r] nkr n(1) by auto
  have tail: "\<exists>p'. WriteBytes c (\<lambda>i. flash (rom p2) (ADDR_STORAGE + of_nat (64 * k) + of_nat i)) r p2 = Some p' \<and>
      num_bytes p' = 0 \<and> session ADDR_APPLICATION MAX_SIZE_STORAGE f1 (map (\<lambda>i. f1 (ADDR_STORAGE + of_nat i)) [0..<64 * k] @
        map (\<lambda>i. f1 (ADDR_STORAGE + of_nat (64 * k) + of_nat i)) [0..<r]) p'"
  proof (rule copy_block[OF chip p2(3,2)])
    have "unat (ADDR_STORAGE + of_nat (64 * k)) = 0x08013000 + 64 * k"
      using unat_plus_small[of ADDR_STORAGE "64 * k"] nkr(1) n(1) by simp
    then show "unat ADDR_APPLICATION + MAX_SIZE_STORAGE \<le> unat (ADDR_STORAGE + of_nat (64 * k))"
      "unat (ADDR_STORAGE + of_nat (64 * k)) + r \<le> 2 ^ 32" using nkr n(1) by simp_all
  qed (use nkr n(1) in simp_all)
  have all: "map (\<lambda>i. f1 (ADDR_STORAGE + of_nat i)) [0..<64 * k] @
      map (\<lambda>i. f1 (ADDR_STORAGE + of_nat (64 * k) + of_nat i)) [0..<r] = fw"
  proof -
    have "map (\<lambda>i. f1 (ADDR_STORAGE + of_nat i)) [0..<64 * k] @
        map (\<lambda>i. f1 (ADDR_STORAGE + of_nat (64 * k) + of_nat i)) [0..<r] =
        map (\<lambda>i. f1 (ADDR_STORAGE + of_nat i)) [0..<64 * k + r]"
      unfolding upt_shift[of "64 * k" r] by (simp add: add.assoc)
    also have "\<dots> = fw" unfolding nkr(1) by (rule nth_equalityI) (simp_all add: img)
    finally show ?thesis .
  qed
  have "map (\<lambda>i. f1 (ADDR_STORAGE + of_nat i)) [0..<64 * k] = fw" if "r = 0" using all that by simp
  then show "\<exists>p'. CopyFirmware c p = Some p' \<and> session ADDR_APPLICATION MAX_SIZE_STORAGE f1 fw p' \<and> num_bytes p' = 0"
    using p2 tail unfolding all by (auto simp: CopyFirmware_def Let_def p1_def[symmetric] n(3))
qed

section \<open>A sufficient condition on single pages\<close>

text \<open>A page that is blank wherever \<^verbatim>\<open>PageIsEmpty\<close> looks at it is blank.\<close>

definition page_sample_sound :: "nat \<Rightarrow> (u32 \<Rightarrow> u8) \<Rightarrow> bool" where
  "page_sample_sound k f \<longleftrightarrow> (\<forall>j<128. rd32 f (of_nat ((65536 + k) * 2048 + 16 * j)) = 0xFFFFFFFF) \<longrightarrow>
     (\<forall>a. unat a div 2048 = 65536 + k \<longrightarrow> f a = 0xFF)"

lemma blank_test_soundI:
  assumes "\<And>i. i < 38 \<Longrightarrow> page_sample_sound (k0 + i) f"
  shows "blank_test_sound k0 f"
  unfolding blank_test_sound_def
proof (intro allI impI)
  fix i and a :: u32
  assume a: "i < 38" "\<forall>j<512. rd32 f (of_nat ((65536 + (k0 + i)) * 2048 + 16 * j)) = 0xFFFFFFFF"
    "unat a div 2048 = 65536 + k0 + i"
  then have "\<forall>j<128. rd32 f (of_nat ((65536 + (k0 + i)) * 2048 + 16 * j)) = 0xFFFFFFFF" by auto
  then show "f a = 0xFF" using assms[OF a(1)] a(3) unfolding page_sample_sound_def by (simp add: add.assoc)
qed

lemma page_sample_sound_cong:
  assumes "\<And>a. unat a div 2048 = 65536 + k \<Longrightarrow> f a = g a" "k < 0x1000" "page_sample_sound k g"
  shows "page_sample_sound k f"
proof -
  have "rd32 f (of_nat ((65536 + k) * 2048 + 16 * j)) = rd32 g (of_nat ((65536 + k) * 2048 + 16 * j))" if "j < 128" for j
  proof (rule rd32_cong)
    have "(65536 + k) * 2048 + 16 * j = 16 * ((65536 + k) * 128 + j)" by simp
    then show "((65536 + k) * 2048 + 16 * j) mod 16 = 0" by simp
    show "(65536 + k) * 2048 + 16 * j + 16 \<le> 2 ^ 32" using assms(2) that by simp
    fix x :: u32
    assume "unat x div 16 = ((65536 + k) * 2048 + 16 * j) div 16"
    then have "unat x div 16 = (65536 + k) * 128 + j" by simp
    moreover have "unat x div 2048 = unat x div 16 div 128" by (simp add: div_mult2_eq[symmetric])
    ultimately have "unat x div 2048 = 65536 + k" using that by simp
    then show "f x = g x" by (rule assms(1))
  qed
  then show ?thesis using assms(1,3) unfolding page_sample_sound_def by auto
qed

lemma WriteBytes_cong:
  "map data [0..<n] = map data' [0..<n] \<Longrightarrow> WriteBytes c data n p = WriteBytes c data' n p"
proof -
  assume "map data [0..<n] = map data' [0..<n]"
  then have "memcpy_at bs i data n = memcpy_at bs i data' n" for bs i by (simp only: memcpy_at_def)
  then show ?thesis by (simp only: WriteBytes_def)
qed

lemma WriteBytes_list: "map data [0..<length d] = d \<Longrightarrow> WriteBytes c data (length d) p = WriteList c d p"
  unfolding WriteList_def by (rule WriteBytes_cong) (simp add: map_nth)

text \<open>The bytes outside the area are not touched by a session.\<close>

lemma session_outside:
  assumes "session a0 L f0 ws p" "unat a < unat a0 \<or> unat a0 + L \<le> unat a"
  shows "flash (rom p) a = f0 a"
  using assms by (auto simp: session_def flash_write_def)

lemma session_read:
  assumes "session a0 L f0 ws p"
  shows "map (\<lambda>i. flash (rom p) (a0 + of_nat i)) [0..<length ws] = ws"
proof -
  have "unat a0 + length ws \<le> 2 ^ 32" using session_size[OF assms] assms by (simp add: session_def)
  then show ?thesis using flash_write_read[of a0 ws f0] assms by (simp add: session_def)
qed

section \<open>The array of the programmer\<close>

text \<open>Every operation keeps the length of \<^verbatim>\<open>bytes\<close>, on any controller.\<close>

lemma memcpy_at_length: "memcpy_at bs i data n = Some bs' \<Longrightarrow> length bs' = length bs"
  by (auto simp: memcpy_at_def split: if_splits)

lemma Write_bytes: "Write c data n p = Some p' \<Longrightarrow> p_bytes p' = p_bytes p"
  by (auto simp: Write_def split: option.splits)

lemma WriteBytes_length: "WriteBytes c data n p = Some p' \<Longrightarrow> length (p_bytes p') = length (p_bytes p)"
  by (auto simp: WriteBytes_def Let_def dest!: memcpy_at_length Write_bytes split: if_splits option.splits)

lemma fill_FF_length: "fill_FF bs n = Some (bs', n') \<Longrightarrow> length bs' = length bs"
proof (induction bs n rule: fill_FF.induct)
  case (1 bs n)
  then show ?case by (subst (asm) (2) fill_FF.simps) (auto split: if_splits)
qed

lemma CloseSession_length: "CloseSession c p = Some p' \<Longrightarrow> length (p_bytes p') = length (p_bytes p)"
  by (auto simp: CloseSession_def dest!: fill_FF_length Write_bytes split: if_splits option.splits)

lemma Prepare_length: "p_bytes (Prepare c a p) = p_bytes p"
  by (simp add: Prepare_def Let_def)

lemma copy_loop_length: "copy_loop c a n p = Some (a', n', p') \<Longrightarrow> length (p_bytes p') = length (p_bytes p)"
proof (induction c a n p rule: copy_loop.induct)
  case (1 c a n p)
  then show ?case
    by (subst (asm) (2) copy_loop.simps) (auto dest!: WriteBytes_length split: if_splits option.splits)
qed

lemma CopyFirmware_length: "CopyFirmware c p = Some p' \<Longrightarrow> length (p_bytes p') = length (p_bytes p)"
  by (auto simp: CopyFirmware_def Let_def Prepare_length dest!: copy_loop_length WriteBytes_length
      split: if_splits option.splits)

section \<open>Calls that return\<close>

text \<open>
  On any controller, whatever it does: writing ends, at most three bytes wait between two calls and the array \<^verbatim>\<open>bytes\<close> is not left.
\<close>

lemma write_words_returns: "\<exists>s'. write_words c data i a (a + of_nat (4 * m)) s = Some s'"
proof (induction m arbitrary: i a s)
  case 0
  then show ?case by (subst write_words.simps) simp
next
  case (Suc m)
  have "a + of_nat (4 * Suc m) = (a + 4) + of_nat (4 * m)" by simp
  then show ?case using Suc.IH[of "i + 4" "a + 4"] by (subst write_words.simps) (simp add: Let_def add.assoc)
qed

lemma WriteData_returns: "\<exists>s'. WriteData c a data (int n) s = Some s'"
proof -
  have "of_int (pad4 (int n)) = (of_nat (4 * ((n + 3) div 4)) :: u32)" by (simp only: pad4_nat of_int_of_nat_eq)
  then show ?thesis using write_words_returns[of c data 0 a "(n + 3) div 4" "fmc_unlock c s"]
    by (auto simp: WriteData_def Let_def)
qed

lemma Write_returns: "\<exists>r. Write c data n p = Some (p\<lparr>rom := r, p_address := p_address p + of_nat n, written_bytes := written_bytes p + n\<rparr>)"
  using WriteData_returns[of c "p_address p" data n "rom p"] by (auto simp: Write_def)

lemma WriteBytes_returns:
  assumes "length (p_bytes p) = 68" "num_bytes p < 4" "n \<le> SIZE_DATA_BUFFER"
  shows "\<exists>p'. WriteBytes c data n p = Some p' \<and> num_bytes p' < 4"
proof (cases "n = 0")
  case True
  then show ?thesis using assms(2) by (simp add: WriteBytes_def)
next
  case False
  obtain bs where bs: "memcpy_at (p_bytes p) (num_bytes p) data n = Some bs" "length bs = 68"
    using memcpy_at_take[of "num_bytes p" n "p_bytes p" data] assms by auto
  let ?p = "p\<lparr>p_bytes := bs, num_bytes := num_bytes p + n\<rparr>"
  note w = Write_returns[of c "nth bs" _ ?p]
  consider "num_bytes ?p mod 4 = 0" | "num_bytes ?p mod 4 \<noteq> 0" "num_bytes ?p > 3" | "num_bytes ?p \<le> 3" "num_bytes ?p mod 4 \<noteq> 0" by linarith
  then show ?thesis
  proof cases
    case 1
    then show ?thesis using False bs w[of "num_bytes ?p"] by (auto simp: WriteBytes_def Let_def)
  next
    case 2
    let ?n = "num_bytes ?p - num_bytes ?p mod 4"
    have d: "num_bytes ?p - ?n < 4" "num_bytes ?p - ?n \<le> 68" using mod_less_divisor[of 4 "num_bytes ?p"] by linarith+
    obtain cs where "memcpy_at bs 0 (\<lambda>i. bs ! (?n + i)) (num_bytes ?p - ?n) = Some cs"
      using memcpy_at_take[of 0 "num_bytes ?p - ?n" bs "\<lambda>i. bs ! (?n + i)"] bs(2) d(2) by auto
    then show ?thesis using False bs(1) 2 w[of ?n] d(1) by (auto simp: WriteBytes_def Let_def drop_to4_eq)
  next
    case 3
    then show ?thesis using False bs(1) by (simp add: WriteBytes_def Let_def)
  qed
qed

lemma CloseSession_returns:
  assumes "length (p_bytes p) = 68" "num_bytes p < 4"
  shows "\<exists>p'. CloseSession c p = Some p'"
proof (cases "num_bytes p = 0")
  case False
  then show ?thesis using fill_FF_result[of "num_bytes p" "p_bytes p"] assms Write_returns[of c]
    by (fastforce simp: CloseSession_def)
qed (simp add: CloseSession_def)

section \<open>Closing a session\<close>

text \<open>The image as it is stored: filled up to whole words with 0xFF.\<close>

definition padded :: "u8 list \<Rightarrow> u8 list" where
  "padded bs = bs @ replicate ((4 - length bs mod 4) mod 4) 0xFF"

lemma close_padded:
  assumes w: "writing c a0 L f0 p" "stored a0 p = ws" "length ws \<le> L"
  shows "\<exists>p'. CloseSession c p = Some p' \<and> session a0 L f0 (padded ws) p'"
proof -
  obtain vs where v: "nor_flash c" "num_bytes p < 4" "session a0 L f0 vs p"
    using w(1) by (auto simp: writing_def)
  have ws: "ws = vs @ take (num_bytes p) (p_bytes p)" using session_stored[OF v(3)] w(2) by simp
  have len: "length ws = length vs + num_bytes p" "length vs mod 4 = 0"
    using v(2,3) ws by (auto simp: session_def)
  then have "length ws mod 4 = num_bytes p" using v(2) by presburger
  then have "padded ws = vs @ take (num_bytes p) (p_bytes p) @ replicate ((4 - num_bytes p) mod 4) 0xFF"
    by (simp add: padded_def ws)
  then show ?thesis using CloseSession_session[OF v(1,3,2)] len(1) w(3) by simp
qed

section \<open>A concrete programmer\<close>

definition demo_prog :: "bool programmer" where
  "demo_prog = \<lparr>rom = blank_device, written_bytes = 0, p_address = 0, num_bytes = 0, p_bytes = replicate 68 0\<rparr>"

lemma blank_device_pages: "k < 76 \<Longrightarrow> page_sample_sound k (flash blank_device)"
proof -
  assume k: "k < 76"
  have "flash blank_device a = 0xFF" if "unat a div 2048 = 65536 + k" for a
  proof -
    have "unat (a :: u32) \<noteq> 0x1FFFF7E0" "unat a \<noteq> 0x1FFFF7E1" using that k by auto
    then show ?thesis by (auto simp: blank_device_def)
  qed
  then show ?thesis by (simp add: page_sample_sound_def)
qed


lemma demo_prog_ready: "fmc_ready (rom demo_prog)" "FMC_SIZE (rom demo_prog) = 0x200" "length (p_bytes demo_prog) = 68"
    "flash (rom demo_prog) = flash blank_device"
  by (simp_all add: demo_prog_def blank_device_ready blank_device_size)

lemma demo_sound: "k0 \<le> 38 \<Longrightarrow> blank_test_sound k0 (flash (rom demo_prog))"
  by (intro blank_test_soundI) (simp add: demo_prog_ready blank_device_pages)

lemma demo_session:
  "\<exists>f0. session ADDR_STORAGE MAX_SIZE_STORAGE f0 [] (Prepare instant_chip ADDR_STORAGE demo_prog)"
  using Prepare_session(1)[OF nor_flash_instant demo_prog_ready(1) _ demo_prog_ready(3) demo_sound, of 38 ADDR_STORAGE]
  by (auto simp: demo_prog_ready)

lemma Prepare_outside:
  assumes "nor_flash c" "fmc_ready (rom p)" "2 * (k0 + 38) \<le> unat (FMC_SIZE (rom p))" "length (p_bytes p) = 68"
    "blank_test_sound k0 (flash (rom p))" "a0 = FLASH_BASE + of_nat k0 * SIZE_PAGE"
    and a: "unat a < unat a0 \<or> unat a0 + MAX_SIZE_STORAGE \<le> unat a"
  shows "flash (rom (Prepare c a0 p)) a = flash (rom p) a"
proof (rule Prepare_session(3)[OF assms(1-6)])
  have "unat (FMC_SIZE (rom p)) \<le> 0x200" using assms(2) by (simp add: fmc_ready_def word_le_nat_alt)
  then have "unat a0 = (65536 + k0) * 2048" using assms(3) unfolding assms(6) by (intro page_addr) simp
  then show "unat a div 2048 < 65536 + k0 \<or> 65536 + k0 + 38 \<le> unat a div 2048"
    using a by (auto simp: less_mult_imp_div_less less_eq_div_iff_mult_less_eq)
qed

section \<open>Properties\<close>

text \<open>
  C5: an image is written to the flash byte by byte whatever the pieces it arrives in. After
  \<^verbatim>\<open>Prepare\<close> on an area whose pages are not wrongly taken for blank, any sequence of
  \<^verbatim>\<open>WriteBytes\<close> calls with at most 64 bytes each, in all at most 76 KB, and then
  \<^verbatim>\<open>CloseSession\<close>, return; the area then starts with the image filled up to whole words with 0xFF, the
  number of written bytes is that of the filled image, and no byte outside the area has changed.
\<close>

theorem image_is_written:
  assumes "nor_flash c" "fmc_ready (rom p)" "2 * (k0 + 38) \<le> unat (FMC_SIZE (rom p))" "length (p_bytes p) = 68"
    "\<forall>i<38. page_sample_sound (k0 + i) (flash (rom p))" "a0 = FLASH_BASE + of_nat k0 * SIZE_PAGE"
    "\<forall>d \<in> set ds. length d \<le> SIZE_DATA_BUFFER" "length (concat ds) \<le> MAX_SIZE_STORAGE"
  shows "\<exists>p1 p2. put_all (WriteList c) ds (Prepare c a0 p) = Some p1 \<and> CloseSession c p1 = Some p2 \<and>
     map (\<lambda>i. flash (rom p2) (a0 + of_nat i)) [0..<length (padded (concat ds))] = padded (concat ds) \<and>
     WrittenBytes p2 = length (padded (concat ds)) \<and>
     (\<forall>a. unat a < unat a0 \<or> unat a0 + MAX_SIZE_STORAGE \<le> unat a \<longrightarrow> flash (rom p2) a = flash (rom p) a)"
proof -
  have sound: "blank_test_sound k0 (flash (rom p))" using assms(5) by (intro blank_test_soundI) blast
  note prep = Prepare_session[OF assms(1-4) sound assms(6)]
  let ?f = "flash (rom (Prepare c a0 p))"
  have w: "writing c a0 MAX_SIZE_STORAGE ?f (Prepare c a0 p)" and e: "stored a0 (Prepare c a0 p) = []"
    using prep(1,2) assms(1) session_stored[OF prep(1)] by (auto simp: writing_def)
  from flash_stream.put_all_ok[OF w assms(7)] e assms(8)
  obtain p1 where p1: "put_all (WriteList c) ds (Prepare c a0 p) = Some p1" "writing c a0 MAX_SIZE_STORAGE ?f p1"
      "stored a0 p1 = concat ds" by auto
  obtain p2 where p2: "CloseSession c p1 = Some p2" "session a0 MAX_SIZE_STORAGE ?f (padded (concat ds)) p2"
    using close_padded[OF p1(2,3) assms(8)] by blast
  have "flash (rom p2) a = flash (rom p) a" if "unat a < unat a0 \<or> unat a0 + MAX_SIZE_STORAGE \<le> unat a" for a
    using session_outside[OF p2(2) that] Prepare_outside[OF assms(1-4) sound assms(6) that] by simp
  then show ?thesis using p1(1) p2 session_read[OF p2(2)] by (auto simp: WrittenBytes_def session_def)
qed

theorem image_is_written_witness:
  "\<exists>p1 p2. put_all (WriteList instant_chip) [[1, 2, 3], [4, 5]] (Prepare instant_chip ADDR_STORAGE demo_prog) = Some p1 \<and>
     CloseSession instant_chip p1 = Some p2 \<and>
     map (\<lambda>i. flash (rom p2) (ADDR_STORAGE + of_nat i)) [0..<8] = [1, 2, 3, 4, 5, 0xFF, 0xFF, 0xFF]"
proof -
  have s: "\<forall>i<38. page_sample_sound (38 + i) (flash (rom demo_prog))"
    by (simp add: demo_prog_ready blank_device_pages)
  have p: "padded (concat [[1, 2, 3], [4, 5]]) = [1, 2, 3, 4, 5, 0xFF, 0xFF, 0xFF]" by code_simp
  have u: "[0..<8] = [0, 1, 2, 3, 4, 5, 6, 7]" by code_simp
  show ?thesis
    using image_is_written[OF nor_flash_instant demo_prog_ready(1) _ demo_prog_ready(3) s, of ADDR_STORAGE "[[1, 2, 3], [4, 5]]"]
    unfolding p u by (auto simp: demo_prog_ready)
qed

text \<open>
  \<^verbatim>\<open>CopyFirmware\<close> copies exactly what the session stored. With the image \<open>fw\<close> in the storage area
  it returns, the application area starts with \<open>fw\<close>, the storage area and everything above it are
  as before, and the count of written bytes is again the length of the image, so that the copy can be repeated.
\<close>

lemma CopyFirmware_copies:
  assumes "nor_flash c" "session ADDR_STORAGE MAX_SIZE_STORAGE f0 fw p"
    "\<forall>k<38. page_sample_sound k (flash (rom p))"
  shows "\<exists>p'. CopyFirmware c p = Some p' \<and>
     map (\<lambda>i. flash (rom p') (ADDR_APPLICATION + of_nat i)) [0..<length fw] = fw \<and>
     (\<forall>a. unat ADDR_STORAGE \<le> unat a \<longrightarrow> flash (rom p') a = flash (rom p) a) \<and> written_bytes p' = length fw"
proof -
  have sound: "blank_test_sound 0 (flash (rom p))" using assms(3) by (intro blank_test_soundI) simp
  obtain p' where p': "CopyFirmware c p = Some p'"
      "session ADDR_APPLICATION MAX_SIZE_STORAGE (flash (rom (Prepare c ADDR_APPLICATION p))) fw p'"
    using CopyFirmware_session(1)[OF assms(1,2) sound] by blast
  have pre: "fmc_ready (rom p)" "2 * (0 + 38) \<le> unat (FMC_SIZE (rom p))" "length (p_bytes p) = 68"
    using assms(2) by (auto simp: session_def)
  have "flash (rom p') a = flash (rom p) a" if "unat ADDR_STORAGE \<le> unat a" for a
    using session_outside[OF p'(2), of a] Prepare_outside[OF assms(1) pre sound, of ADDR_APPLICATION a] that by simp
  then show ?thesis using p' session_read[OF p'(2)] by (auto simp: session_def)
qed

text \<open>
  \<^verbatim>\<open>Prepare\<close> page by page. Exactly those of the 38 pages of the area are erased that
  \<^verbatim>\<open>PageIsEmpty\<close> does not take for empty; all other bytes of the flash are kept, the area being
  written starts at the first page and nothing counts as written.
\<close>

lemma Prepare_erases:
  assumes "nor_flash c" "fmc_ready (rom p)" "2 * (k0 + 38) \<le> unat (FMC_SIZE (rom p))"
  shows "flash (rom (Prepare c (FLASH_BASE + of_nat k0 * SIZE_PAGE) p)) a =
     (if \<exists>i<38. unat a div 2048 = 65536 + k0 + i \<and> \<not> PageIsEmpty (of_nat (k0 + i)) (rom p) then 0xFF else flash (rom p) a) \<and>
     WrittenBytes (Prepare c (FLASH_BASE + of_nat k0 * SIZE_PAGE) p) = 0"
proof -
  have "unat (FMC_SIZE (rom p)) \<le> 0x200" using assms(2) by (simp add: fmc_ready_def word_le_nat_alt)
  then have "rom (Prepare c (FLASH_BASE + of_nat k0 * SIZE_PAGE) p) = fold (prepare_page c (of_nat k0)) [0..<38] (rom p)"
    using page_of_start[of k0] assms(3) by (simp add: Prepare_def Let_def)
  then show ?thesis using prepare_pages[OF assms] by (simp add: WrittenBytes_def) (simp add: Prepare_def Let_def)
qed

text \<open>
  C36: \<^verbatim>\<open>PageIsEmpty\<close> adds \<^verbatim>\<open>SIZE_PAGE\<close> and 4 to a pointer to \<^verbatim>\<open>uint\<close>, so it covers four pages and looks at
  one word in four. An area that is blank in the words it looks at is left as it is, whatever the
  other words hold, on any flash controller: \<^verbatim>\<open>Prepare\<close> may keep bytes that are not erased.
\<close>

theorem Prepare_misses_words:
  assumes "\<forall>a. unat a mod 16 < 4 \<and> 0x08013000 \<le> unat a \<and> unat a < 0x08027800 \<longrightarrow> flash (rom p) a = 0xFF"
  shows "rom (Prepare c ADDR_STORAGE p) = rom p"
proof -
  have "rd32 (flash (rom p)) (of_nat ((65536 + (38 + i)) * 2048 + 16 * j)) = 0xFFFFFFFF" if ij: "i < 38" "j < 512" for i j
  proof (rule rd32_erased)
    let ?a = "(65536 + (38 + i)) * 2048 + 16 * j"
    have u: "unat (of_nat ?a + of_nat n :: u32) = ?a + n" if "n < 4" for n
      using ij that by (subst of_nat_add[symmetric], subst unat_of_nat_u32) simp_all
    have m: "?a = 16 * ((65536 + (38 + i)) * 128 + j)" by simp
    have "flash (rom p) (of_nat ?a + of_nat n) = 0xFF" if n: "n < 4" for n
    proof -
      have "(?a + n) mod 16 < 4" unfolding m using n by (subst mod_mult_self4) simp
      moreover have "0x08013000 \<le> ?a + n" "?a + n < 0x08027800" using ij n by simp_all
      ultimately show ?thesis using assms u[OF n] by metis
    qed
    then show "erased (flash (rom p)) (of_nat ?a) 4" unfolding erased_def by blast
  qed
  then have e: "PageIsEmpty (of_nat (38 + i)) (rom p)" if "i < 38" for i
    using that by (subst PageIsEmpty_iff) auto
  have "fold (prepare_page c 38) [0..<k] (rom p) = rom p" if "k \<le> 38" for k
    using that e by (induction k) (auto simp: prepare_page_def)
  then show ?thesis by (simp add: Prepare_def Let_def)
qed

theorem Prepare_misses_words_witness:
  "flash (rom (Prepare instant_chip ADDR_STORAGE
     (demo_prog\<lparr>rom := blank_device\<lparr>flash := (flash blank_device)(0x08013004 := 0)\<rparr>\<rparr>))) 0x08013004 = 0"
proof -
  let ?p = "demo_prog\<lparr>rom := blank_device\<lparr>flash := (flash blank_device)(0x08013004 := 0)\<rparr>\<rparr>"
  have "flash (rom ?p) a = 0xFF" if "unat a mod 16 < 4" "unat a < 0x08027800" for a
  proof -
    have "a \<noteq> 0x1FFFF7E0" "a \<noteq> 0x1FFFF7E1" "a \<noteq> 0x08013004" using that by auto
    then show ?thesis by (simp add: blank_device_def)
  qed
  then have "rom (Prepare instant_chip ADDR_STORAGE ?p) = rom ?p" by (intro Prepare_misses_words) blast
  then show ?thesis by simp
qed

end
