(* ===== verification/Utils.thy ===== *)
theory Utils
  imports Prelude
begin

unbundle bit_operations_syntax

text \<open>
  Utilities of the firmware: \<^verbatim>\<open>sources/common/Utils/Math.h\<close> (the image hash and two small
  arithmetic helpers), the template \<^verbatim>\<open>Buffer\<close> of \<^verbatim>\<open>Buffer.h\<close> and \<^verbatim>\<open>StringUtils.cpp\<close>. A C string is the list of
  its characters without the terminating zero; a position in it is an index; a search that finds
  nothing (\<^verbatim>\<open>nullptr\<close>) is \<open>None\<close>.
\<close>

section \<open>Math.h\<close>

definition CircularIncrease :: "int \<Rightarrow> int \<Rightarrow> int \<Rightarrow> int" where
  "CircularIncrease value min' max' = (let result = value + 1 in if result < max' then result else min')"

definition Limitation :: "int \<Rightarrow> int \<Rightarrow> int \<Rightarrow> int" where
  "Limitation value min' max' =
    (if value < min' then min' else if value > max' then max' else value)"

definition Hash :: "u32 \<Rightarrow> u8 \<Rightarrow> u32" where
  "Hash hash byte = ucast byte + push_bit 6 hash + push_bit 16 hash - hash"

text \<open>\<^verbatim>\<open>CalculateCRC(address, size)\<close> runs over the bytes of the memory \<open>f\<close>.\<close>

fun crc_loop :: "(u32 \<Rightarrow> u8) \<Rightarrow> u32 \<Rightarrow> nat \<Rightarrow> u32 \<Rightarrow> u32" where
  "crc_loop f data 0 crc = crc"
| "crc_loop f data (Suc n) crc = crc_loop f (data + 1) n (Hash crc (f data))"

definition CalculateCRC :: "(u32 \<Rightarrow> u8) \<Rightarrow> u32 \<Rightarrow> nat \<Rightarrow> u32" where
  "CalculateCRC f address size' = crc_loop f address size' 0"

lemma crc_loop_fold: "crc_loop f a n crc = fold (\<lambda>b h. Hash h b) (map (\<lambda>i. f (a + of_nat i)) [0..<n]) crc"
proof (induction n arbitrary: a crc)
  case (Suc n)
  have "map (\<lambda>i. f (a + of_nat i)) [0..<Suc n] = f a # map (\<lambda>i. f (a + 1 + of_nat i)) [0..<n]"
    by (simp only: map_upt_Suc) (simp add: algebra_simps)
  then show ?case using Suc by simp
qed simp

lemma Hash_linear: "Hash h b = ucast b + 65599 * h"
  by (simp add: Hash_def push_bit_eq_mult algebra_simps)

text \<open>The hash is injective in its state and in the byte.\<close>

lemma Hash_inj_state: "Hash h b = Hash h' b \<longleftrightarrow> h = h'"
proof
  assume "Hash h b = Hash h' b"
  then have e: "65599 * h = 65599 * h'" by (simp add: Hash_linear)
  have one: "2390421439 * 65599 = (1 :: u32)" by simp
  have "h = 2390421439 * 65599 * h" unfolding one by simp
  also have "\<dots> = 2390421439 * 65599 * h'" using e by (simp only: mult.assoc)
  also have "\<dots> = h'" unfolding one by simp
  finally show "h = h'" .
qed simp

lemma Hash_inj_byte: "Hash h b = Hash h b' \<longleftrightarrow> b = b'"
proof
  assume "Hash h b = Hash h b'"
  then have "(ucast b :: u32) = ucast b'" by (simp add: Hash_linear)
  then have u: "bit (ucast b :: u32) n \<longleftrightarrow> bit (ucast b' :: u32) n" for n by simp
  have "bit b n \<longleftrightarrow> bit b' n" if "n < 8" for n using u[of n] that by (simp add: bit_simps)
  then show "b = b'" by (intro bit_word_eqI) simp
qed simp

lemma fold_Hash_inj: "fold (\<lambda>b h. Hash h b) bs h = fold (\<lambda>b h. Hash h b) bs h' \<longleftrightarrow> h = h'"
  by (induction bs arbitrary: h h') (simp_all add: Hash_inj_state)

section \<open>Buffer.h\<close>

text \<open>
  \<^verbatim>\<open>Buffer<capacity>\<close>: the array of \<^verbatim>\<open>capacity\<close> characters and the number of them in use. The mutex
  the class carries belongs to its users. \<^verbatim>\<open>RemoveFirst(n)\<close> with \<open>n\<close> above the size would copy
  a negative number of bytes: \<open>None\<close>.
\<close>

record buffer =
  buf_size :: nat
  buf_data :: "char list"

definition buf_Clear :: "buffer \<Rightarrow> buffer" where
  "buf_Clear b = b\<lparr>buf_size := 0\<rparr>"

definition buf_AppendData :: "nat \<Rightarrow> char list \<Rightarrow> buffer \<Rightarrow> bool \<times> buffer" where
  "buf_AppendData capacity data b =
    (if buf_size b + length data > capacity then (False, b)
     else (True, b\<lparr>buf_data := take (buf_size b) (buf_data b) @ data @ drop (buf_size b + length data) (buf_data b),
                   buf_size := buf_size b + length data\<rparr>))"

definition buf_Append :: "nat \<Rightarrow> char \<Rightarrow> buffer \<Rightarrow> bool \<times> buffer" where
  "buf_Append capacity symbol b =
    (if buf_size b < capacity
     then (True, b\<lparr>buf_data := (buf_data b)[buf_size b := symbol], buf_size := buf_size b + 1\<rparr>)
     else (False, b))"

definition buf_RemoveFirst :: "nat \<Rightarrow> buffer \<Rightarrow> buffer option" where
  "buf_RemoveFirst n b =
    (if buf_size b < n then None
     else (let size' = buf_size b - n
            in Some (b\<lparr>buf_size := size',
                       buf_data := take size' (drop n (buf_data b)) @ drop size' (buf_data b)\<rparr>)))"

definition buf_at :: "buffer \<Rightarrow> int \<Rightarrow> char" where
  "buf_at b i = (if 0 \<le> i \<and> i < int (buf_size b) then buf_data b ! nat i else CHR 0x00)"

fun symbol_loop :: "char list \<Rightarrow> nat \<Rightarrow> nat \<Rightarrow> char \<Rightarrow> bool" where
  "symbol_loop d i 0 symbol = False"
| "symbol_loop d i (Suc n) symbol = (if d ! i = symbol then True else symbol_loop d (i + 1) n symbol)"

definition buf_ConsistSymbol :: "buffer \<Rightarrow> char \<Rightarrow> bool" where
  "buf_ConsistSymbol b symbol = symbol_loop (buf_data b) 0 (buf_size b) symbol"

text \<open>Well-formedness and the abstract value, the characters in use.\<close>

definition buf_ok :: "nat \<Rightarrow> buffer \<Rightarrow> bool" where
  "buf_ok capacity b \<longleftrightarrow> length (buf_data b) = capacity \<and> buf_size b \<le> capacity"

definition buf_content :: "buffer \<Rightarrow> char list" where
  "buf_content b = take (buf_size b) (buf_data b)"

lemma symbol_loop_iff: "symbol_loop d i n c \<longleftrightarrow> (\<exists>j<n. d ! (i + j) = c)"
proof (induction n arbitrary: i)
  case (Suc n)
  have "(\<exists>j<Suc n. d ! (i + j) = c) \<longleftrightarrow> d ! i = c \<or> (\<exists>j<n. d ! (Suc i + j) = c)"
    by (simp add: Ex_less_Suc2)
  then show ?case using Suc by simp
qed simp

section \<open>Contract of a bounded character queue\<close>

text \<open>What the modem relies on: a symbol is appended at the end unless the queue is full, in which
  case nothing changes; the oldest characters are removed from the front.\<close>

locale bounded_queue =
  fixes append :: "char \<Rightarrow> 's \<Rightarrow> bool \<times> 's"
    and remove :: "nat \<Rightarrow> 's \<Rightarrow> 's option"
    and content :: "'s \<Rightarrow> char list"
    and ok :: "'s \<Rightarrow> bool"
    and capacity :: nat
  assumes ok_size: "ok s \<Longrightarrow> length (content s) \<le> capacity"
    and append_room: "ok s \<Longrightarrow> length (content s) < capacity \<Longrightarrow>
        \<exists>s'. append x s = (True, s') \<and> ok s' \<and> content s' = content s @ [x]"
    and append_full: "ok s \<Longrightarrow> length (content s) = capacity \<Longrightarrow> append x s = (False, s)"
    and remove_ok: "ok s \<Longrightarrow> n \<le> length (content s) \<Longrightarrow>
        \<exists>s'. remove n s = Some s' \<and> ok s' \<and> content s' = drop n (content s)"
begin

lemma fill:
  assumes "ok s"
  shows "\<exists>s'. fold (\<lambda>x s. snd (append x s)) xs s = s' \<and> ok s' \<and>
     content s' = take capacity (content s @ xs)"
  using assms
proof (induction xs arbitrary: s)
  case Nil
  then show ?case using ok_size[OF Nil] by simp
next
  case (Cons x xs)
  show ?case
  proof (cases "length (content s) < capacity")
    case True
    then obtain t where "append x s = (True, t)" "ok t" "content t = content s @ [x]"
      using append_room[OF Cons.prems] by blast
    then show ?thesis using Cons.IH[of t] by simp
  next
    case False
    then have full: "length (content s) = capacity" using ok_size[OF Cons.prems] by simp
    then show ?thesis using append_full[OF Cons.prems full] Cons.IH[OF Cons.prems] by simp
  qed
qed

text \<open>First in, first out: what is taken from the front is what was appended first.\<close>

lemma fifo:
  assumes "ok s" "length (content s @ xs) \<le> capacity"
  shows "\<exists>t. remove (length (content s)) (fold (\<lambda>x s. snd (append x s)) xs s) = Some t \<and> ok t \<and> content t = xs"
proof -
  let ?t = "fold (\<lambda>x s. snd (append x s)) xs s"
  have t: "ok ?t" "content ?t = content s @ xs" using fill[OF assms(1), of xs] assms(2) by simp_all
  show ?thesis using remove_ok[OF t(1), of "length (content s)"] t(2) by simp
qed

end

interpretation buf: bounded_queue "buf_Append capacity" buf_RemoveFirst buf_content "buf_ok capacity" capacity
  for capacity :: nat
proof
  fix s :: buffer and x n
  assume ok: "buf_ok capacity s"
  show "length (buf_content s) \<le> capacity" using ok by (simp add: buf_ok_def buf_content_def)
  have len: "length (buf_content s) = buf_size s" using ok by (simp add: buf_ok_def buf_content_def)
  show "\<exists>s'. buf_Append capacity x s = (True, s') \<and> buf_ok capacity s' \<and> buf_content s' = buf_content s @ [x]"
    if "length (buf_content s) < capacity"
    using ok that len by (auto simp: buf_Append_def buf_ok_def buf_content_def take_Suc_conv_app_nth)
  show "buf_Append capacity x s = (False, s)" if "length (buf_content s) = capacity"
    using that len by (simp add: buf_Append_def)
  show "\<exists>s'. buf_RemoveFirst n s = Some s' \<and> buf_ok capacity s' \<and> buf_content s' = drop n (buf_content s)"
    if "n \<le> length (buf_content s)"
    using ok that len by (auto simp: buf_RemoveFirst_def Let_def buf_ok_def buf_content_def take_drop)
qed

section \<open>StringUtils.cpp\<close>

text \<open>\<open>at s i\<close> is \<^verbatim>\<open>s[i]\<close> for a C string: its terminating zero at the end.\<close>

definition at :: "string \<Rightarrow> nat \<Rightarrow> char" where
  "at s i = (if i < length s then s ! i else CHR 0x00)"

text \<open>A list of characters that is a C string.\<close>

definition c_string :: "string \<Rightarrow> bool" where
  "c_string s \<longleftrightarrow> CHR 0x00 \<notin> set s"

text \<open>The C string at the start of an array.\<close>

definition c_str :: "char list \<Rightarrow> string" where
  "c_str cs = takeWhile (\<lambda>c. c \<noteq> CHR 0x00) cs"

lemma c_str_terminated: "CHR 0x00 \<notin> set w \<Longrightarrow> c_str (w @ CHR 0x00 # r) = w"
  by (induction w) (auto simp: c_str_def)

function su_word_loop :: "string \<Rightarrow> nat \<Rightarrow> nat \<Rightarrow> string" where
  "su_word_loop string i pos_end =
    (if i < pos_end then
       (if at string i \<noteq> CHR 0x00 then at string i # su_word_loop string (i + 1) pos_end else [])
     else [])"
  by pat_completeness auto
termination by (relation "measure (\<lambda>(string, i, pos_end). pos_end - i)") auto

definition su_GetWord :: "string \<Rightarrow> nat \<Rightarrow> nat \<Rightarrow> string" where
  "su_GetWord string pos_start pos_end = su_word_loop string pos_start pos_end"

text \<open>\<^verbatim>\<open>strstr\<close>: the offset of the first occurrence.\<close>

fun prefix_at :: "string \<Rightarrow> string \<Rightarrow> bool" where
  "prefix_at [] s = True"
| "prefix_at (c # cs) [] = False"
| "prefix_at (c # cs) (d # ds) = (c = d \<and> prefix_at cs ds)"

fun strstr :: "string \<Rightarrow> string \<Rightarrow> nat option" where
  "strstr [] sub = (if sub = [] then Some 0 else None)"
| "strstr (c # cs) sub = (if prefix_at sub (c # cs) then Some 0 else map_option Suc (strstr cs sub))"

text \<open>A pointer into the string is the offset from its start; \<open>drop n string\<close> is the string it points to.\<close>

fun find_loop :: "nat \<Rightarrow> string \<Rightarrow> string \<Rightarrow> nat \<Rightarrow> nat option" where
  "find_loop 0 string sub_string off = map_option (\<lambda>e. off + e) (strstr (drop off string) sub_string)"
| "find_loop (Suc n) string sub_string off =
    (case strstr (drop off string) sub_string of
       None \<Rightarrow> None
     | Some e \<Rightarrow> find_loop n string sub_string (off + e + length sub_string))"

definition FindSubString :: "string \<Rightarrow> string \<Rightarrow> nat \<Rightarrow> nat option" where
  "FindSubString string sub_string num = find_loop num string sub_string 0"

definition AfterSubString :: "string \<Rightarrow> string \<Rightarrow> nat \<Rightarrow> nat option" where
  "AfterSubString string sub_string num =
    map_option (\<lambda>entry. entry + length sub_string) (FindSubString string sub_string num)"

declare su_word_loop.simps [simp del]

lemma prefix_at_iff: "prefix_at sub s \<longleftrightarrow> take (length sub) s = sub"
  by (induction sub s rule: prefix_at.induct) auto

lemma strstr_Some:
  "strstr s sub = Some e \<longleftrightarrow> e \<le> length s \<and> prefix_at sub (drop e s) \<and> (\<forall>i<e. \<not> prefix_at sub (drop i s))"
proof (induction s arbitrary: e)
  case Nil
  show ?case by (cases sub) auto
next
  case (Cons c cs)
  show ?case
  proof (cases "prefix_at sub (c # cs)")
    case True
    then show ?thesis by (cases e) (auto dest: spec[of _ 0])
  next
    case False
    then show ?thesis using Cons by (cases e) (auto simp: All_less_Suc2)
  qed
qed

lemma at_nonzero: "c_string s \<Longrightarrow> at s i \<noteq> CHR 0x00 \<longleftrightarrow> i < length s"
  by (auto simp: at_def c_string_def) (metis nth_mem)

lemma su_word_loop_eq:
  assumes "c_string s"
  shows "su_word_loop s i e = take (e - i) (drop i s)"
proof (induction "e - i" arbitrary: i)
  case 0
  then show ?case by (subst su_word_loop.simps) simp
next
  case (Suc n)
  show ?case
  proof (cases "i < length s")
    case True
    have "su_word_loop s i e = s ! i # take (e - (i + 1)) (drop (i + 1) s)"
      using Suc True at_nonzero[OF assms, of i] by (subst su_word_loop.simps) (simp add: at_def)
    moreover have "e - i = Suc (e - (i + 1))" using Suc.hyps(2) by simp
    ultimately show ?thesis using True by (simp add: Cons_nth_drop_Suc[symmetric] del: Cons_nth_drop_Suc)
  next
    case False
    then show ?thesis using at_nonzero[OF assms, of i] by (subst su_word_loop.simps) simp
  qed
qed

section \<open>Numbers as text\<close>

text \<open>The conversion \<^verbatim>\<open>%d\<close> of \<^verbatim>\<open>printf\<close> and the function \<^verbatim>\<open>atoi\<close> of the C library.\<close>

definition digit :: "nat \<Rightarrow> char" where
  "digit n = char_of (48 + n)"

definition is_digit :: "char \<Rightarrow> bool" where
  "is_digit c \<longleftrightarrow> 48 \<le> (of_char c :: nat) \<and> (of_char c :: nat) \<le> 57"

fun decimal :: "nat \<Rightarrow> string" where
  "decimal n = (if n < 10 then [digit n] else decimal (n div 10) @ [digit (n mod 10)])"

definition format_d :: "int \<Rightarrow> string" where
  "format_d i = (if i < 0 then CHR ''-'' # decimal (nat (- i)) else decimal (nat i))"

fun digits_value :: "int \<Rightarrow> string \<Rightarrow> int" where
  "digits_value acc [] = acc"
| "digits_value acc (c # cs) =
    (if is_digit c then digits_value (acc * 10 + (of_char c - 48)) cs else acc)"

definition is_space :: "char \<Rightarrow> bool" where
  "is_space c \<longleftrightarrow> c = CHR '' '' \<or> (9 \<le> (of_char c :: nat) \<and> (of_char c :: nat) \<le> 13)"

definition atoi :: "string \<Rightarrow> int" where
  "atoi s =
    (case dropWhile is_space s of
       [] \<Rightarrow> 0
     | c # cs \<Rightarrow> (if c = CHR ''-'' then - digits_value 0 cs
                  else if c = CHR ''+'' then digits_value 0 cs
                  else digits_value 0 (c # cs)))"

text \<open>\<^verbatim>\<open>strtoul(s, nullptr, 10)\<close> with its saturation at \<^verbatim>\<open>ULONG_MAX\<close>.\<close>

definition strtoul :: "string \<Rightarrow> u32" where
  "strtoul s =
    (let number = (\<lambda>minus cs.
           (let v = digits_value 0 cs
             in (if 0xFFFFFFFF < v then 0xFFFFFFFF else if minus then - of_int v else of_int v)))
      in (case dropWhile is_space s of
            [] \<Rightarrow> 0
          | c # cs \<Rightarrow> (if c = CHR ''-'' then number True cs
                       else if c = CHR ''+'' then number False cs
                       else number False (c # cs))))"

declare decimal.simps [simp del]

lemma of_char_digit: "n < 10 \<Longrightarrow> (of_char (digit n) :: nat) = 48 + n"
  by (simp add: digit_def)

lemma is_digit_digit: "n < 10 \<Longrightarrow> is_digit (digit n)"
  by (simp add: is_digit_def of_char_digit)

lemma of_char_int: "(of_char c :: int) = int (of_char c)"
  by (simp only: of_nat_of_char)

lemma digits_value_append: "digits_value acc (decimal n @ cs) = digits_value (acc * 10 ^ length (decimal n) + int n) cs"
proof (induction n arbitrary: acc cs rule: decimal.induct)
  case (1 n)
  show ?case
  proof (cases "n < 10")
    case True
    then show ?thesis
      by (simp add: decimal.simps[of n] is_digit_digit of_char_digit of_char_int del: of_char_eq_iff)
  next
    case False
    have d: "decimal n = decimal (n div 10) @ [digit (n mod 10)]" using False by (simp add: decimal.simps[of n])
    have "int n = int (n div 10) * 10 + int (n mod 10)" by (simp add: zdiv_int zmod_int)
    then show ?thesis
      using 1[OF False, of acc "digit (n mod 10) # cs"]
      by (simp add: d is_digit_digit of_char_digit of_char_int algebra_simps)
  qed
qed

lemma decimal_not_Nil: "decimal n \<noteq> []"
  by (subst decimal.simps) simp

lemma decimal_digits: "c \<in> set (decimal n) \<Longrightarrow> is_digit c"
proof (induction n rule: decimal.induct)
  case (1 n)
  then show ?case by (cases "n < 10") (auto simp: decimal.simps[of n] is_digit_digit)
qed

lemma digit_not_space: "is_digit c \<Longrightarrow> \<not> is_space c \<and> c \<noteq> CHR ''-'' \<and> c \<noteq> CHR ''+''"
  by (auto simp: is_digit_def is_space_def)

text \<open>Printing a number and reading it back gives the number.\<close>

lemma atoi_decimal: "atoi (decimal n) = int n"
proof -
  obtain c cs where d: "decimal n = c # cs" using decimal_not_Nil[of n] by (cases "decimal n") auto
  then have "is_digit c" using decimal_digits[of c n] by simp
  then have "atoi (decimal n) = digits_value 0 (decimal n)"
    using digit_not_space[of c] by (simp add: atoi_def d)
  also have "\<dots> = int n" using digits_value_append[of 0 n "[]"] by simp
  finally show ?thesis .
qed

lemma decimal_length: "n < 10 ^ k \<Longrightarrow> 0 < k \<Longrightarrow> length (decimal n) \<le> k"
proof (induction k arbitrary: n)
  case (Suc k)
  show ?case
  proof (cases "n < 10")
    case True
    then show ?thesis by (subst decimal.simps) simp
  next
    case False
    then have "0 < k" using Suc.prems(1) by (cases k) auto
    moreover have "n div 10 < 10 ^ k" using Suc.prems(1) by (simp add: less_mult_imp_div_less mult.commute)
    ultimately have "length (decimal (n div 10)) \<le> k" using Suc.IH by blast
    then show ?thesis using False by (subst decimal.simps) simp
  qed
qed simp

section \<open>Properties\<close>

text \<open>
  C39: the checksum of an image detects every error in a single byte: two images that differ in exactly
  one byte have different checksums. The hash multiplies its state by 65599, which is odd and so has
  an inverse modulo \<open>2 ^ 32\<close>.
\<close>

theorem crc_detects_byte:
  assumes "k < n" "f (a + of_nat k) \<noteq> g (a + of_nat k)" "\<forall>i<n. i \<noteq> k \<longrightarrow> f (a + of_nat i) = g (a + of_nat i)"
  shows "CalculateCRC f a n \<noteq> CalculateCRC g a n"
proof -
  have s: "[0..<n] = [0..<k] @ k # [Suc k..<n]"
    using assms(1) upt_add_eq_append[of 0 k "n - k"] by (simp add: upt_conv_Cons)
  have l: "map (\<lambda>i. f (a + of_nat i)) [0..<k] = map (\<lambda>i. g (a + of_nat i)) [0..<k]"
    "map (\<lambda>i. f (a + of_nat i)) [Suc k..<n] = map (\<lambda>i. g (a + of_nat i)) [Suc k..<n]"
    using assms(1,3) by auto
  show ?thesis
    unfolding CalculateCRC_def crc_loop_fold s
    using assms(2) by (simp only: map_append list.map l fold_append fold_Cons comp_apply fold_Hash_inj Hash_inj_byte simp_thms)
qed

theorem crc_detects_byte_witness: "CalculateCRC (\<lambda>_. 0xFF) 0x08013000 76 \<noteq> CalculateCRC ((\<lambda>_. 0xFF)(0x08013005 := 0)) 0x08013000 76"
proof (rule crc_detects_byte[where k = 5])
  have "(0x08013000 :: u32) + of_nat i \<noteq> 0x08013005" if "i < 76" "i \<noteq> 5" for i
    using that unat_plus_small[of "0x08013000" i] by auto
  then show "\<forall>i<76. i \<noteq> 5 \<longrightarrow> (0xFF :: u8) = ((\<lambda>_. 0xFF)(0x08013005 := 0)) ((0x08013000 :: u32) + of_nat i)" by auto
qed simp_all

text \<open>
  \<^verbatim>\<open>Buffer\<close> as a queue. Symbols appended while there is room come out in the order they went in:
  after removing what was there before, the content is exactly what was appended, and the buffer is well formed.
\<close>

lemma buffer_fifo:
  assumes "buf_ok capacity b" "length (buf_content b @ xs) \<le> capacity"
  shows "\<exists>t. buf_RemoveFirst (length (buf_content b)) (fold (\<lambda>x b. snd (buf_Append capacity x b)) xs b) = Some t \<and>
     buf_ok capacity t \<and> buf_content t = xs"
  using assms by (rule buf.fifo)

text \<open>
  \<^verbatim>\<open>Buffer\<close> never overflows. Whatever is appended to it symbol by symbol, it keeps its form and holds
  the first \<open>capacity\<close> symbols; the ones that find it full are refused and change nothing.
\<close>

lemma buffer_bounded:
  assumes "buf_ok capacity b"
  shows "buf_ok capacity (fold (\<lambda>x b. snd (buf_Append capacity x b)) xs b) \<and>
     buf_content (fold (\<lambda>x b. snd (buf_Append capacity x b)) xs b) = take capacity (buf_content b @ xs)"
  using buf.fill[OF assms] by blast

text \<open>
  A block is appended as a whole or refused as a whole: \<^verbatim>\<open>Append(data, size)\<close> returns true exactly if
  the block fits, and has then the same effect on the content as appending its symbols one by one.
\<close>

lemma buffer_append_block:
  assumes "buf_ok capacity b"
  shows "(fst (buf_AppendData capacity data b) \<longleftrightarrow> length (buf_content b @ data) \<le> capacity) \<and>
     buf_content (snd (buf_AppendData capacity data b)) =
       (if length (buf_content b @ data) \<le> capacity
        then buf_content (fold (\<lambda>x b. snd (buf_Append capacity x b)) data b) else buf_content b)"
proof (intro conjI)
  have len: "length (buf_content b) = buf_size b" using assms by (simp add: buf_ok_def buf_content_def)
  show "fst (buf_AppendData capacity data b) \<longleftrightarrow> length (buf_content b @ data) \<le> capacity"
    using len by (simp add: buf_AppendData_def)
  show "buf_content (snd (buf_AppendData capacity data b)) =
       (if length (buf_content b @ data) \<le> capacity
        then buf_content (fold (\<lambda>x b. snd (buf_Append capacity x b)) data b) else buf_content b)"
    using buf.fill[OF assms, of data] len assms by (auto simp: buf_AppendData_def buf_content_def buf_ok_def)
qed

text \<open>The number that is printed into a command with \<^verbatim>\<open>%d\<close> is the number that \<^verbatim>\<open>atoi\<close> reads.\<close>

lemma atoi_format_d: "atoi (format_d i) = i"
proof (cases "i < 0")
  case True
  have "atoi (CHR ''-'' # cs) = - digits_value 0 cs" for cs by (simp add: atoi_def is_space_def)
  then show ?thesis using True digits_value_append[of 0 "nat (- i)" "[]"] by (simp add: format_d_def)
next
  case False
  then show ?thesis by (simp add: format_d_def atoi_decimal)
qed

text \<open>
  \<^verbatim>\<open>FindSubString\<close> with the number 0 gives the first place where the text occurs, and nothing exactly if
  it occurs nowhere; \<^verbatim>\<open>AfterSubString\<close> is the place behind it.
\<close>

lemma FindSubString_first:
  "FindSubString s sub 0 = Some e \<longleftrightarrow>
     take (length sub) (drop e s) = sub \<and> e \<le> length s \<and> (\<forall>i. i < e \<longrightarrow> take (length sub) (drop i s) \<noteq> sub)"
  by (auto simp: FindSubString_def strstr_Some prefix_at_iff)

end
