(* ===== verification/Parser.thy ===== *)
theory Parser
  imports Utils
begin

text \<open>
  The parser of modem answers: \<^verbatim>\<open>sources/common/Modem/Parser.cpp\<close>. Positions are the code's
  integer indices (the word before the first character starts at -1). The result is the string
  left in \<^verbatim>\<open>BufferParser::data\<close>, or the empty literal where the code returns that. The array has 128 characters
  (\<^verbatim>\<open>Parser.h\<close>) and the code does not check that a word fits: \<open>None\<close> is a store behind it.
\<close>

section \<open>Operations\<close>

fun NumberSymbols :: "string \<Rightarrow> char \<Rightarrow> nat" where
  "NumberSymbols [] symbol = 0"
| "NumberSymbols (c # cs) symbol = (if c = symbol then 1 else 0) + NumberSymbols cs symbol"

fun position_loop :: "nat \<Rightarrow> string \<Rightarrow> char \<Rightarrow> int \<Rightarrow> int" where
  "position_loop i [] symbol num = -1"
| "position_loop i (c # cs) symbol num =
    (if c = symbol then (if num - 1 = 0 then int i else position_loop (i + 1) cs symbol (num - 1))
     else position_loop (i + 1) cs symbol num)"

definition PositionSymbol :: "string \<Rightarrow> char \<Rightarrow> int \<Rightarrow> int" where
  "PositionSymbol string symbol num = position_loop 0 string symbol num"

text \<open>A word stored in \<^verbatim>\<open>data\<close> with the terminating zero.\<close>

definition into_data :: "string \<Rightarrow> string option" where
  "into_data w = (if length w < 128 then Some w else None)"

definition GetWordRange :: "string \<Rightarrow> int \<Rightarrow> int \<Rightarrow> string option" where
  "GetWordRange string pos_start pos_end =
    (if pos_end - pos_start \<le> 0 then Some []
     else into_data (map (\<lambda>i. at string (nat i)) [pos_start + 1..pos_end - 1]))"

fun quote_loop :: "nat \<Rightarrow> string \<Rightarrow> int \<Rightarrow> int" where
  "quote_loop i [] quote1 = -1"
| "quote_loop i (c # cs) quote1 =
    (if c = CHR 0x22 then (if quote1 = 0 then int i else quote_loop (i + 1) cs (quote1 - 1))
     else quote_loop (i + 1) cs quote1)"

definition GetWordInQuotes :: "string \<Rightarrow> int \<Rightarrow> string option" where
  "GetWordInQuotes string num =
    (let pos_quote1 = quote_loop 0 string (num * 2);
         pos_quote2 = (let q = quote_loop (nat (pos_quote1 + 1)) (drop (nat (pos_quote1 + 1)) string) 0
                        in if q = -1 then -2 else q)
      in (if pos_quote1 \<ge> 0 \<and> pos_quote2 \<ge> 0
          then into_data (map (\<lambda>i. at string (nat i)) [pos_quote1 + 1..pos_quote2 - 1])
          else Some []))"

definition is_sep :: "char \<Rightarrow> bool" where
  "is_sep c \<longleftrightarrow> c = CHR '' '' \<or> c = CHR '','' \<or> c = CHR '':'' \<or> c = CHR ''=''"

function find_word :: "string \<Rightarrow> int \<Rightarrow> nat \<Rightarrow> int \<Rightarrow> bool \<Rightarrow> int \<times> int" where
  "find_word string num p current_word in_word =
    (if current_word < num \<and> at string p \<noteq> CHR 0x00 then
       (if is_sep (at string p) then find_word string num (p + 1) current_word False
        else if \<not> in_word then
          (if current_word + 1 = num then (current_word + 1, int p - 1)
           else find_word string num (p + 1) (current_word + 1) True)
        else find_word string num (p + 1) current_word in_word)
     else (current_word, 0))"
  by pat_completeness auto
termination
  by (relation "measure (\<lambda>(string, num, p, current_word, in_word). length string - p)") (auto simp: at_def split: if_splits)

function word_end :: "string \<Rightarrow> nat \<Rightarrow> nat" where
  "word_end string p =
    (if at string p \<noteq> CHR 0x00 \<and> \<not> is_sep (at string p) then word_end string (p + 1) else p)"
  by pat_completeness auto
termination by (relation "measure (\<lambda>(string, p). length string - p)") (auto simp: at_def split: if_splits)

definition word_at :: "string \<Rightarrow> int \<Rightarrow> string option" where
  "word_at string pos_start = GetWordRange string pos_start (int (word_end string (nat (pos_start + 1))))"

definition GetWord :: "string \<Rightarrow> int \<Rightarrow> string option" where
  "GetWord string num =
    (if num = 1 then word_at string (-1)
     else
       (let (current_word, pos_start) = find_word string num 0 1 (\<not> is_sep (at string 0))
         in (if current_word \<noteq> num then Some [] else word_at string pos_start)))"

fun separators_loop :: "nat \<Rightarrow> string \<Rightarrow> nat list" where
  "separators_loop i [] = [i]"
| "separators_loop i (c # cs) =
    (if c = CHR '' '' \<or> c = CHR '','' \<or> c = CHR '':'' then i # separators_loop (i + 1) cs
     else separators_loop (i + 1) cs)"

definition NumSeparators :: "string \<Rightarrow> nat list" where
  "NumSeparators string = separators_loop 0 string"

declare find_word.simps [simp del]
declare word_end.simps [simp del]

section \<open>Words of a line\<close>

text \<open>
  The reference definition: a line is its first word, which may be empty, and then the maximal runs
  of characters that are not separators.
\<close>

abbreviation word_part :: "string \<Rightarrow> string" where "word_part \<equiv> takeWhile (\<lambda>c. \<not> is_sep c)"
abbreviation after_word :: "string \<Rightarrow> string" where "after_word \<equiv> dropWhile (\<lambda>c. \<not> is_sep c)"

function tokens :: "string \<Rightarrow> string list" where
  "tokens [] = []"
| "tokens (c # cs) = (if is_sep c then tokens cs else (c # word_part cs) # tokens (after_word cs))"
  by pat_completeness auto
termination by (relation "measure length") (auto simp: length_dropWhile_le less_Suc_eq_le)

definition line_fields :: "string \<Rightarrow> string list" where
  "line_fields s = word_part s # tokens (after_word s)"

lemma at_nth: "i < length s \<Longrightarrow> at s i = s ! i"
  by (simp add: at_def)

lemma word_end_eq:
  assumes "c_string s" "p \<le> length s"
  shows "word_end s p = p + length (word_part (drop p s))"
  using assms(2)
proof (induction "length s - p" arbitrary: p)
  case 0
  then show ?case using at_nonzero[OF assms(1), of p] by (subst word_end.simps) simp
next
  case (Suc n)
  then have p: "p < length s" by simp
  have d: "drop p s = s ! p # drop (Suc p) s" using p by (simp add: Cons_nth_drop_Suc)
  show ?case
  proof (cases "is_sep (s ! p)")
    case True
    then show ?thesis using p by (subst word_end.simps) (simp add: d at_nth)
  next
    case False
    then have "word_end s p = word_end s (p + 1)"
      using p at_nonzero[OF assms(1), of p] by (subst word_end.simps) (simp add: at_nth)
    then show ?thesis using Suc p False by (simp add: d)
  qed
qed

lemma map_at_range:
  assumes "p + n \<le> length s"
  shows "map (\<lambda>i. at s (nat i)) [int p..int (p + n) - 1] = take n (drop p s)"
  using assms by (intro nth_equalityI) (auto simp: at_def nat_add_distrib)

lemma word_at_eq:
  assumes "c_string s" "p \<le> length s"
  shows "word_at s (int p - 1) = into_data (word_part (drop p s))"
proof -
  let ?n = "length (word_part (drop p s))"
  have n: "p + ?n \<le> length s"
    using length_takeWhile_le[of "\<lambda>c. \<not> is_sep c" "drop p s"] assms(2) by simp
  have "word_at s (int p - 1) = into_data (map (\<lambda>i. at s (nat i)) [int p..int (p + ?n) - 1])"
    using word_end_eq[OF assms] by (simp add: word_at_def GetWordRange_def)
  also have "\<dots> = into_data (take ?n (drop p s))" unfolding map_at_range[OF n] ..
  also have "\<dots> = into_data (word_part (drop p s))" by (simp add: takeWhile_eq_take[symmetric])
  finally show ?thesis .
qed

definition words_ahead :: "bool \<Rightarrow> string \<Rightarrow> string list" where
  "words_ahead in_word s = (if in_word then tokens (after_word s) else tokens s)"

lemma words_ahead_Cons:
  "words_ahead iw (c # cs) = (if is_sep c then words_ahead False cs
     else if iw then words_ahead True cs else word_part (c # cs) # words_ahead True cs)"
  by (simp add: words_ahead_def)

lemma find_word_result:
  assumes "c_string s" "p \<le> length s" "cw < num"
  shows "if nat (num - cw) \<le> length (words_ahead iw (drop p s))
     then \<exists>q. find_word s num p cw iw = (num, int q - 1) \<and> q \<le> length s \<and>
            word_part (drop q s) = words_ahead iw (drop p s) ! (nat (num - cw) - 1)
     else fst (find_word s num p cw iw) < num"
  using assms(2,3)
proof (induction "length s - p" arbitrary: p cw iw)
  case 0
  then have "find_word s num p cw iw = (cw, 0)"
    using at_nonzero[OF assms(1), of p] by (subst find_word.simps) simp
  then show ?case using 0 by (simp add: words_ahead_def)
next
  case (Suc n)
  then have p: "p < length s" by simp
  have d: "drop p s = s ! p # drop (p + 1) s" using p by (simp add: Cons_nth_drop_Suc)
  have nz: "at s p \<noteq> CHR 0x00" "at s p = s ! p" using at_nonzero[OF assms(1), of p] p by (auto simp: at_nth)
  note IH = Suc.hyps(1)[of "p + 1"]
  have n: "n = length s - (p + 1)" "p + 1 \<le> length s" using Suc.hyps(2) p by simp_all
  consider (sep) "is_sep (s ! p)" | (inside) "\<not> is_sep (s ! p)" iw
    | (last) "\<not> is_sep (s ! p)" "\<not> iw" "cw + 1 = num" | (start) "\<not> is_sep (s ! p)" "\<not> iw" "cw + 1 \<noteq> num" by blast
  then show ?case
  proof cases
    case sep
    then have f: "find_word s num p cw iw = find_word s num (p + 1) cw False"
      using nz Suc.prems(2) by (subst find_word.simps) simp
    have wa: "words_ahead iw (drop p s) = words_ahead False (drop (p + 1) s)"
      using sep by (simp add: d words_ahead_Cons)
    show ?thesis using IH[OF n Suc.prems(2), of False] unfolding f wa .
  next
    case inside
    then have f: "find_word s num p cw iw = find_word s num (p + 1) cw True"
      using nz Suc.prems(2) by (subst find_word.simps) simp
    have wa: "words_ahead iw (drop p s) = words_ahead True (drop (p + 1) s)"
      using inside by (simp add: d words_ahead_Cons)
    show ?thesis using IH[OF n Suc.prems(2), of True] unfolding f wa .
  next
    case last
    then have "find_word s num p cw iw = (num, int p - 1)"
      using nz Suc.prems(2) by (subst find_word.simps) simp
    moreover have "nat (num - cw) = 1" using last(3) by simp
    ultimately show ?thesis using last p by (auto simp: d words_ahead_Cons intro!: exI[of _ p])
  next
    case start
    then have f: "find_word s num p cw iw = find_word s num (p + 1) (cw + 1) True"
      using nz Suc.prems(2) by (subst find_word.simps) simp
    have cw: "cw + 1 < num" "nat (num - cw) = Suc (nat (num - (cw + 1)))" "0 < nat (num - (cw + 1))"
      using start(3) Suc.prems(2) by auto
    have wa: "words_ahead iw (drop p s) = word_part (drop p s) # words_ahead True (drop (p + 1) s)"
      using start by (simp add: d words_ahead_Cons)
    show ?thesis using IH[OF n cw(1), of True] cw(3) unfolding f wa cw(2)
      by (simp add: nth_Cons' split: if_splits)
  qed
qed

text \<open>The \<open>num\<close>-th word, counted from 1; there is the empty string in front of the first one and past the last one.\<close>

definition nth_field :: "string \<Rightarrow> int \<Rightarrow> string" where
  "nth_field s num = (if 1 \<le> num \<and> nat num \<le> length (line_fields s) then line_fields s ! (nat num - 1) else [])"

lemma into_data_Nil [simp]: "into_data [] = Some []"
  by (simp add: into_data_def)

lemma GetWord_fields:
  assumes "c_string s"
  shows "GetWord s num = into_data (nth_field s num)"
proof -
  have first: "word_at s (-1) = into_data (word_part s)" using word_at_eq[OF assms, of 0] by simp
  have ahead: "words_ahead (\<not> is_sep (at s 0)) s = tokens (after_word s)"
    by (cases s) (simp_all add: words_ahead_def at_def)
  consider "num = 1" | "num < 1" | "1 < num" by linarith
  then show ?thesis
  proof cases
    case 1
    then show ?thesis using first by (simp add: GetWord_def nth_field_def line_fields_def)
  next
    case 2
    then have "find_word s num 0 1 (\<not> is_sep (at s 0)) = (1, 0)" by (subst find_word.simps) simp
    then show ?thesis using 2 by (simp add: GetWord_def nth_field_def)
  next
    case 3
    have k: "nat num - 1 = Suc (nat (num - 1) - 1)" "nat num = Suc (nat (num - 1))" using 3 by auto
    show ?thesis
      using find_word_result[OF assms, of 0 1 num "\<not> is_sep (at s 0)"] 3 word_at_eq[OF assms] k
      unfolding GetWord_def nth_field_def line_fields_def
      by (auto simp: ahead Let_def split: prod.splits if_splits)
  qed
qed

text \<open>A text in quotes, as the commands and the answers of the modem have it.\<close>

definition quoted :: "string \<Rightarrow> string" where
  "quoted s = CHR 0x22 # s @ [CHR 0x22]"

section \<open>Properties\<close>

text \<open>
  C38: for every C string and every number, also zero, negative ones and those past the last word, \<^verbatim>\<open>GetWord\<close> gives the word of
  the reference definition, if it fits into the array: a word of 128 or more characters is written behind its end. The separators
  are the blank, the comma, the colon and, which the comment of \<^verbatim>\<open>Parser.h\<close> does not say, the equals sign; the quotes of a word in
  quotes are kept, where the comment says that they are left out.
\<close>

theorem GetWord_is_field:
  assumes "c_string s"
  shows "GetWord s num = (if length (nth_field s num) < 128 then Some (nth_field s num) else None)"
  unfolding GetWord_fields[OF assms] into_data_def ..

theorem GetWord_is_field_witness:
  "GetWord ''+CREG: 1,5'' 3 = Some ''5'' \<and> GetWord ''+CREG: 1,5'' 4 = Some [] \<and>
   GetWord (''a='' @ quoted ''b'') 2 = Some (quoted ''b'') \<and> GetWord (replicate 128 CHR ''a'') 1 = None"
  using GetWord_is_field[of "''+CREG: 1,5''" 3] GetWord_is_field[of "''+CREG: 1,5''" 4]
    GetWord_is_field[of "''a='' @ quoted ''b''" 2] GetWord_is_field[of "replicate 128 CHR ''a''" 1]
  by (simp add: c_string_def nth_field_def line_fields_def is_sep_def quoted_def)

text \<open>A line put together from words with a separator between them.\<close>

fun join :: "char \<Rightarrow> string list \<Rightarrow> string" where
  "join sep [] = []"
| "join sep [w] = w"
| "join sep (w # v # ws) = w @ sep # join sep (v # ws)"

lemma tokens_word:
  assumes "w \<noteq> []" "\<forall>c \<in> set w. \<not> is_sep c"
  shows "tokens w = [w]"
  using assms by (cases w) (auto simp: takeWhile_eq_all_conv[THEN iffD2] dropWhile_eq_Nil_conv[THEN iffD2])

lemma tokens_word_sep:
  assumes "w \<noteq> []" "\<forall>c \<in> set w. \<not> is_sep c" "is_sep sep"
  shows "tokens (w @ sep # rest) = w # tokens rest"
proof -
  obtain c cs where w: "w = c # cs" using assms(1) by (cases w) auto
  have c: "\<not> is_sep c" "\<forall>d \<in> set cs. \<not> is_sep d" using assms(2) w by auto
  have "word_part (cs @ sep # rest) = cs" "after_word (cs @ sep # rest) = sep # rest"
    using c(2) assms(3) by (simp_all add: takeWhile_append2 dropWhile_append2)
  then show "tokens (w @ sep # rest) = w # tokens rest" using w c(1) assms(3) by simp
qed

lemma fields_tokens: "s \<noteq> [] \<Longrightarrow> \<not> is_sep (hd s) \<Longrightarrow> line_fields s = tokens s"
  by (cases s) (simp_all add: line_fields_def)

lemma tokens_join:
  assumes "is_sep sep" "\<forall>w \<in> set ws. w \<noteq> [] \<and> (\<forall>c \<in> set w. \<not> is_sep c)"
  shows "tokens (join sep ws) = ws"
  using assms by (induction sep ws rule: join.induct) (auto simp: tokens_word tokens_word_sep)

lemma join_zero: "CHR 0x00 \<in> set (join sep ws) \<Longrightarrow> sep \<noteq> CHR 0x00 \<Longrightarrow> \<exists>w \<in> set ws. CHR 0x00 \<in> set w"
  by (induction sep ws rule: join.induct) auto

text \<open>
  Printing words with a separator between them and reading them with \<^verbatim>\<open>GetWord\<close> is a round trip: the
  \<open>i\<close>-th word read is the \<open>i\<close>-th word printed if it fits into the array, and there is none past the last one.
\<close>

lemma GetWord_join:
  assumes "is_sep sep" "\<forall>w \<in> set ws. w \<noteq> [] \<and> (\<forall>c \<in> set w. \<not> is_sep c \<and> c \<noteq> CHR 0x00)" "ws \<noteq> []"
  shows "GetWord (join sep ws) (int i + 1) = into_data (if i < length ws then ws ! i else [])"
proof -
  have "sep \<noteq> CHR 0x00" using assms(1) by (auto simp: is_sep_def)
  then have c: "c_string (join sep ws)" using join_zero[of sep ws] assms(2) unfolding c_string_def by blast
  obtain w vs where ws: "ws = w # vs" using assms(3) by (cases ws) auto
  then have "join sep ws \<noteq> [] \<and> hd (join sep ws) = hd w" using assms(2) by (cases vs) auto
  then have "line_fields (join sep ws) = ws"
    using fields_tokens[of "join sep ws"] tokens_join[OF assms(1), of ws] assms(2) ws by simp
  then show ?thesis using GetWord_fields[OF c, of "int i + 1"] by (simp add: nth_field_def nat_add_distrib)
qed

lemma quote_loop_skip:
  "int (NumberSymbols s CHR 0x22) = q \<Longrightarrow> quote_loop i (s @ CHR 0x22 # rest) q = int (i + length s)"
proof (induction s arbitrary: i q)
  case (Cons c s)
  then show ?case using Cons.IH[of "if c = CHR 0x22 then q - 1 else q" "i + 1"] by auto
qed simp

text \<open>
  \<^verbatim>\<open>GetWordInQuotes\<close> finds the text between the quotes: behind a part of the line with \<open>2 * num\<close> quotes, the
  result is what stands between the next two.
\<close>

lemma GetWordInQuotes_quoted:
  assumes "NumberSymbols before CHR 0x22 = 2 * num" "CHR 0x22 \<notin> set w"
  shows "GetWordInQuotes (before @ CHR 0x22 # w @ CHR 0x22 # rest) (int num) = into_data w"
proof -
  let ?s = "before @ CHR 0x22 # w @ CHR 0x22 # rest"
  have w: "NumberSymbols w CHR 0x22 = 0" using assms(2) by (induction w) auto
  have 1: "quote_loop 0 ?s (int num * 2) = int (length before)"
    using quote_loop_skip[of before "int num * 2" 0] assms(1) by simp
  have "drop (length before + 1) ?s = w @ CHR 0x22 # rest" by simp
  then have 2: "quote_loop (length before + 1) (drop (length before + 1) ?s) 0 = int (length before + 1 + length w)"
    using quote_loop_skip[of w 0 "length before + 1" rest] w by simp
  have "map (\<lambda>i. at ?s (nat i)) [int (length before + 1)..int (length before + 1 + length w) - 1] =
      take (length w) (drop (length before + 1) ?s)"
    by (rule map_at_range) simp
  then have m: "map (\<lambda>i. at ?s (nat i)) [int (length before) + 1..int (length before) + int (length w)] = w"
    by (simp add: add.commute)
  show ?thesis
    unfolding GetWordInQuotes_def Let_def 1 using 2 m by (simp add: nat_add_distrib)
qed

end
