(* ===== verification/ReaderFTP.thy ===== *)
theory ReaderFTP
  imports Parser
begin

text \<open>
  Reading the firmware file from the modem's FTP client:
  \<^verbatim>\<open>sources/Loader/src/Modem/ReaderFTP.cpp\<close>. The namespace variables are the record \<open>reader\<close>. Every
  operation also returns the commands it transmits to the modem. \<open>None\<close> is a store outside one
  of the two arrays, which the code does not check, or outside the array of a word.
\<close>

section \<open>State and operations\<close>

record reader =
  received_command :: bool
  pointer_command :: nat
  buffer_command :: "char list"
  need_bytes :: int
  bytes_from_FTP :: int
  pointer_data :: nat
  buffer_data :: "char list"
  requested_bytes_received :: bool
  received_FTPGET_1_0 :: bool

definition ftp_Reset :: "reader \<Rightarrow> reader" where
  "ftp_Reset r = r\<lparr>pointer_command := 0, received_command := False, pointer_data := 0, need_bytes := 0,
     requested_bytes_received := False\<rparr>"

definition AT_FTPGET_2 :: "int \<Rightarrow> string" where
  "AT_FTPGET_2 n = ''AT+FTPGET=2,'' @ format_d n"

definition ReceiveBytes :: "int \<Rightarrow> reader \<Rightarrow> reader \<times> string list" where
  "ReceiveBytes n r = (let r = (ftp_Reset r)\<lparr>need_bytes := n\<rparr> in (r, [AT_FTPGET_2 (need_bytes r)]))"

text \<open>The end of a command line: the branch for the symbol 0x0a.\<close>

definition ftp_line :: "reader \<Rightarrow> (reader \<times> string list) option" where
  "ftp_line r =
    (let line = c_str (buffer_command r)
      in (case GetWord line 1 of
            None \<Rightarrow> None
          | Some first_word \<Rightarrow>
              (if first_word = ''+FTPGET'' then
                 (case GetWord line 2 of
                    None \<Rightarrow> None
                  | Some second_word \<Rightarrow>
                      (if at second_word 0 = CHR ''1'' then
                         (case GetWord line 3 of
                            None \<Rightarrow> None
                          | Some third_word \<Rightarrow>
                              (if at third_word 0 = CHR ''1''
                               then Some (r\<lparr>pointer_command := 0\<rparr>, [AT_FTPGET_2 (need_bytes r)])
                               else Some (r\<lparr>received_FTPGET_1_0 := True\<rparr>, [])))
                       else if at second_word 0 = CHR ''2'' then
                         (case GetWord line 3 of
                            None \<Rightarrow> None
                          | Some num_readed_bytes \<Rightarrow>
                              (let r = r\<lparr>bytes_from_FTP := atoi num_readed_bytes\<rparr>;
                                   r = r\<lparr>received_command := bytes_from_FTP r > 0\<rparr>
                                in (if \<not> received_command r then Some (r\<lparr>pointer_command := 0\<rparr>, []) else Some (r, []))))
                       else Some (r, [])))
               else Some (r\<lparr>received_command := False, pointer_command := 0\<rparr>, []))))"

definition AppendByte :: "char \<Rightarrow> reader \<Rightarrow> (reader \<times> string list) option" where
  "AppendByte symbol r =
    (if received_command r then
       (if pointer_data r < length (buffer_data r) then
          (let r = r\<lparr>buffer_data := (buffer_data r)[pointer_data r := symbol], pointer_data := pointer_data r + 1\<rparr>
            in (if int (pointer_data r) = bytes_from_FTP r
                then Some (r\<lparr>received_command := False, pointer_command := 0, requested_bytes_received := True\<rparr>, [])
                else Some (r, [])))
        else None)
     else if symbol = CHR 0x0D then Some (r, [])
     else if symbol = CHR 0x0A then
       (if pointer_command r \<noteq> 0 then
          (if pointer_command r < length (buffer_command r) then
             (let r = r\<lparr>buffer_command := (buffer_command r)[pointer_command r := CHR 0x00],
                        pointer_command := pointer_command r + 1\<rparr>
               in ftp_line r)
           else None)
        else Some (r, []))
     else
       (if pointer_command r < length (buffer_command r)
        then Some (r\<lparr>buffer_command := (buffer_command r)[pointer_command r := symbol],
                     pointer_command := pointer_command r + 1\<rparr>, [])
        else None))"

text \<open>A stream of symbols, as the receive interrupt delivers them.\<close>

fun AppendBytes :: "char list \<Rightarrow> reader \<Rightarrow> (reader \<times> string list) option" where
  "AppendBytes [] r = Some (r, [])"
| "AppendBytes (c # cs) r =
    (case AppendByte c r of
       None \<Rightarrow> None
     | Some (r, out) \<Rightarrow> map_option (\<lambda>(r, out'). (r, out @ out')) (AppendBytes cs r))"

definition reader_ok :: "reader \<Rightarrow> bool" where
  "reader_ok r \<longleftrightarrow> length (buffer_command r) = 32 \<and> length (buffer_data r) = 64 \<and>
     pointer_command r \<le> 32 \<and> pointer_data r \<le> 64"

section \<open>The arrays\<close>

lemma ftp_line_ok: "ftp_line r = Some (r', out) \<Longrightarrow> reader_ok r \<Longrightarrow> reader_ok r'"
  by (auto simp: ftp_line_def Let_def reader_ok_def split: option.splits if_splits)

text \<open>The words of a line fit: it has at most 32 symbols.\<close>

lemma c_str_c_string: "c_string (c_str s)"
  by (auto simp: c_string_def c_str_def dest: set_takeWhileD)

lemma tokens_length: "w \<in> set (tokens s) \<Longrightarrow> length w \<le> length s"
proof (induction s rule: tokens.induct)
  case (2 c cs)
  then show ?case
    using length_takeWhile_le[of "\<lambda>c. \<not> is_sep c" cs] length_dropWhile_le[of "\<lambda>c. \<not> is_sep c" cs]
    by (auto split: if_splits)
qed simp

lemma nth_field_length: "length (nth_field s n) \<le> length s"
proof -
  have "length w \<le> length s" if "w \<in> set (line_fields s)" for w
    using that tokens_length[of w "after_word s"] length_takeWhile_le[of "\<lambda>c. \<not> is_sep c" s]
      length_dropWhile_le[of "\<lambda>c. \<not> is_sep c" s] by (auto simp: line_fields_def)
  from this[OF nth_mem, of "nat n - 1"] show ?thesis by (auto simp: nth_field_def)
qed

lemma GetWord_short:
  assumes "c_string s" "length s < 128"
  shows "GetWord s n = Some (nth_field s n)"
  using assms nth_field_length[of s n] by (simp add: GetWord_fields into_data_def)

lemma GetWord_line: "reader_ok r \<Longrightarrow> GetWord (c_str (buffer_command r)) n = Some (nth_field (c_str (buffer_command r)) n)"
  using length_takeWhile_le[of "\<lambda>c. c \<noteq> CHR 0x00" "buffer_command r"]
  by (intro GetWord_short c_str_c_string) (simp add: reader_ok_def c_str_def)

lemma ftp_line_returns: "reader_ok r \<Longrightarrow> \<exists>x. ftp_line r = Some x"
  by (auto simp: ftp_line_def GetWord_line Let_def)

lemma AppendByte_ok: "AppendByte x r = Some (r', out) \<Longrightarrow> reader_ok r \<Longrightarrow> reader_ok r'"
proof -
  assume a: "AppendByte x r = Some (r', out)" "reader_ok r"
  let ?r = "r\<lparr>buffer_command := (buffer_command r)[pointer_command r := CHR 0x00], pointer_command := pointer_command r + 1\<rparr>"
  have "reader_ok ?r" if "pointer_command r < 32" using a(2) that by (simp add: reader_ok_def)
  then have "ftp_line ?r = Some (r', out) \<Longrightarrow> pointer_command r < 32 \<Longrightarrow> reader_ok r'" by (auto intro: ftp_line_ok)
  then show "reader_ok r'" using a unfolding AppendByte_def
    by (auto simp: Let_def reader_ok_def split: if_splits)
qed

lemma ReceiveBytes_ok: "reader_ok r \<Longrightarrow> reader_ok (fst (ReceiveBytes n r))"
  by (simp add: ReceiveBytes_def ftp_Reset_def Let_def reader_ok_def)

section \<open>Receiving a block\<close>

lemma AppendBytes_append:
  "AppendBytes (xs @ ys) r = (case AppendBytes xs r of None \<Rightarrow> None
     | Some (r, out) \<Rightarrow> map_option (\<lambda>(r, out'). (r, out @ out')) (AppendBytes ys r))"
proof (induction xs arbitrary: r)
  case Nil
  then show ?case by (cases "AppendBytes ys r") auto
next
  case (Cons x xs)
  then show ?case by (auto split: option.splits prod.splits simp: map_option_case)
qed

lemma AppendBytes_seq:
  "AppendBytes xs r = Some (r1, o1) \<Longrightarrow> AppendBytes ys r1 = Some (r2, o2) \<Longrightarrow>
   AppendBytes (xs @ ys) r = Some (r2, o1 @ o2)"
  by (simp add: AppendBytes_append)

text \<open>The symbols of a command line are collected.\<close>

lemma collect_line:
  assumes "\<not> received_command r" "CHR 0x0D \<notin> set cs" "CHR 0x0A \<notin> set cs"
    and "pointer_command r + length cs \<le> length (buffer_command r)"
  shows "AppendBytes cs r = Some (r\<lparr>buffer_command := take (pointer_command r) (buffer_command r) @ cs @
       drop (pointer_command r + length cs) (buffer_command r), pointer_command := pointer_command r + length cs\<rparr>, [])"
  using assms
proof (induction cs arbitrary: r)
  case Nil
  then show ?case by simp
next
  case (Cons c cs)
  let ?r = "r\<lparr>buffer_command := (buffer_command r)[pointer_command r := c], pointer_command := pointer_command r + 1\<rparr>"
  have "c \<noteq> CHR 0x0D" "c \<noteq> CHR 0x0A" using Cons.prems(2,3) by auto
  then have "AppendByte c r = Some (?r, [])" using Cons.prems by (simp add: AppendByte_def)
  moreover have "take (pointer_command ?r) (buffer_command ?r) = take (pointer_command r) (buffer_command r) @ [c]"
    using Cons.prems(4) by (simp add: take_Suc_conv_app_nth)
  ultimately show ?case using Cons.IH[of ?r] Cons.prems by simp
qed

text \<open>The data bytes are collected after the command.\<close>

lemma collect_data:
  assumes "received_command r" "cs \<noteq> []" "int (pointer_data r + length cs) = bytes_from_FTP r"
    and "pointer_data r + length cs \<le> length (buffer_data r)"
  shows "AppendBytes cs r = Some (r\<lparr>buffer_data := take (pointer_data r) (buffer_data r) @ cs @
       drop (pointer_data r + length cs) (buffer_data r), pointer_data := pointer_data r + length cs,
       received_command := False, pointer_command := 0, requested_bytes_received := True\<rparr>, [])"
  using assms
proof (induction cs arbitrary: r)
  case Nil
  then show ?case by simp
next
  case (Cons c cs)
  let ?r = "r\<lparr>buffer_data := (buffer_data r)[pointer_data r := c], pointer_data := pointer_data r + 1\<rparr>"
  have t: "take (pointer_data ?r) (buffer_data ?r) = take (pointer_data r) (buffer_data r) @ [c]"
    using Cons.prems(4) by (simp add: take_Suc_conv_app_nth)
  show ?case
  proof (cases "cs = []")
    case True
    then show ?thesis using Cons.prems by (simp add: AppendByte_def Let_def upd_conv_take_nth_drop)
  next
    case False
    then have "int (pointer_data r + 1) \<noteq> bytes_from_FTP r" using Cons.prems(3) by (cases cs) auto
    then have "AppendByte c r = Some (?r, [])" using Cons.prems by (simp add: AppendByte_def Let_def)
    then show ?thesis using Cons.IH[of ?r] Cons.prems False t by simp
  qed
qed

text \<open>A complete command line is stored and handed to \<open>ftp_line\<close>.\<close>

lemma receive_line:
  assumes ok: "reader_ok r" "\<not> received_command r" "pointer_command r = 0"
    and line: "line \<noteq> []" "length line < 32" "\<forall>c \<in> set line. c \<noteq> CHR 0x00 \<and> c \<noteq> CHR 0x0A \<and> c \<noteq> CHR 0x0D"
  shows "\<exists>b. AppendBytes (line @ [CHR 0x0D, CHR 0x0A]) r =
       ftp_line (r\<lparr>buffer_command := b, pointer_command := length line + 1\<rparr>) \<and> c_str b = line \<and> length b = 32"
proof -
  have pl: "CHR 0x0D \<notin> set line" "CHR 0x0A \<notin> set line" using line(3) by blast+
  define r1 where "r1 = r\<lparr>buffer_command := line @ drop (length line) (buffer_command r), pointer_command := length line\<rparr>"
  have a1: "AppendBytes line r = Some (r1, [])"
    using collect_line[OF ok(2) pl] ok(1,3) line(2) by (simp add: r1_def reader_ok_def)
  let ?b = "line @ CHR 0x00 # drop (length line + 1) (buffer_command r)"
  have b: "(buffer_command r1)[length line := CHR 0x00] = ?b"
    using ok(1) line(2) by (simp add: r1_def reader_ok_def upd_conv_take_nth_drop list_update_append drop_Suc)
  have "AppendBytes [CHR 0x0D, CHR 0x0A] r1 = ftp_line (r\<lparr>buffer_command := ?b, pointer_command := length line + 1\<rparr>)"
    using ok line(1,2) b by (simp add: AppendByte_def r1_def Let_def reader_ok_def split: prod.splits option.splits)
  then have "AppendBytes (line @ [CHR 0x0D, CHR 0x0A]) r =
      ftp_line (r\<lparr>buffer_command := ?b, pointer_command := length line + 1\<rparr>)"
    by (auto simp: AppendBytes_append a1 map_option_case split: prod.splits option.splits)
  moreover have "c_str ?b = line" using line(3) by (simp add: c_str_def takeWhile_append2)
  moreover have "length ?b = 32" using ok(1) line(2) by (simp add: reader_ok_def)
  ultimately show ?thesis by blast
qed

lemma digit_plain: "is_digit c \<Longrightarrow> \<not> is_sep c \<and> c \<noteq> CHR 0x00 \<and> c \<noteq> CHR 0x0A \<and> c \<noteq> CHR 0x0D"
  by (auto simp: is_digit_def is_sep_def)

abbreviation FTPGET_2 :: "nat \<Rightarrow> string" where "FTPGET_2 n \<equiv> ''+FTPGET: 2,'' @ decimal n"

lemma FTPGET_2_plain: "c \<in> set (FTPGET_2 n) \<Longrightarrow> c \<noteq> CHR 0x00 \<and> c \<noteq> CHR 0x0A \<and> c \<noteq> CHR 0x0D"
  using decimal_digits[of c n] digit_plain[of c] by auto

lemma fields_FTPGET_2: "line_fields (FTPGET_2 n) = [''+FTPGET'', ''2'', decimal n]"
proof -
  have "tokens (decimal n) = [decimal n]"
    using decimal_not_Nil decimal_digits digit_plain by (intro tokens_word) blast+
  then show ?thesis by (simp add: line_fields_def is_sep_def)
qed

lemma line_FTPGET_2:
  assumes "c_str (buffer_command r) = FTPGET_2 n" "0 < n" "reader_ok r"
  shows "ftp_line r = Some (r\<lparr>bytes_from_FTP := int n, received_command := True\<rparr>, [])"
proof -
  have "GetWord (FTPGET_2 n) 1 = Some ''+FTPGET''" "GetWord (FTPGET_2 n) 2 = Some ''2''" "GetWord (FTPGET_2 n) 3 = Some (decimal n)"
    using GetWord_line[OF assms(3)] unfolding assms(1) nth_field_def fields_FTPGET_2 by simp_all
  then show ?thesis
    unfolding ftp_line_def assms(1) Let_def using assms(2) by (simp add: at_def atoi_decimal)
qed

text \<open>
  The answer of the modem to \<^verbatim>\<open>AT+FTPGET=2,\<close>\<open>n\<close> is a line with the number of bytes and then the bytes. However
  many symbols of value 0x0a, 0x0d or zero are among them, the reader ends with exactly these bytes
  in \<^verbatim>\<open>buffer_data\<close>.
\<close>

lemma receive_block:
  assumes ok: "reader_ok r" "\<not> received_command r" "pointer_command r = 0" "pointer_data r = 0"
    and n: "bs \<noteq> []" "length bs \<le> 64"
  shows "\<exists>r'. AppendBytes (FTPGET_2 (length bs) @ [CHR 0x0D, CHR 0x0A] @ bs) r = Some (r', []) \<and> reader_ok r' \<and>
     requested_bytes_received r' \<and> \<not> received_command r' \<and> pointer_command r' = 0 \<and>
     pointer_data r' = length bs \<and> take (length bs) (buffer_data r') = bs \<and>
     received_FTPGET_1_0 r' = received_FTPGET_1_0 r"
proof -
  let ?line = "FTPGET_2 (length bs)"
  have len: "length ?line < 32" using decimal_length[of "length bs" 2] n(2) by simp
  have pl: "\<forall>c \<in> set ?line. c \<noteq> CHR 0x00 \<and> c \<noteq> CHR 0x0A \<and> c \<noteq> CHR 0x0D" using FTPGET_2_plain[of _ "length bs"] by blast
  obtain b where b: "AppendBytes (?line @ [CHR 0x0D, CHR 0x0A]) r =
      ftp_line (r\<lparr>buffer_command := b, pointer_command := length ?line + 1\<rparr>)" "c_str b = ?line" "length b = 32"
    using receive_line[OF ok(1-3) _ len pl] by auto
  define r1 where "r1 = r\<lparr>buffer_command := b, pointer_command := length ?line + 1,
      bytes_from_FTP := int (length bs), received_command := True\<rparr>"
  have a1: "AppendBytes (?line @ [CHR 0x0D, CHR 0x0A]) r = Some (r1, [])"
    unfolding b(1) using b(2,3) n(1) ok(1) len by (subst line_FTPGET_2) (simp_all add: r1_def reader_ok_def)
  have a2: "AppendBytes bs r1 = Some (r1\<lparr>buffer_data := bs @ drop (length bs) (buffer_data r1),
      pointer_data := length bs, received_command := False, pointer_command := 0, requested_bytes_received := True\<rparr>, [])"
    using collect_data[of r1 bs] n ok(1,4) by (simp add: r1_def reader_ok_def)
  have "AppendBytes (?line @ [CHR 0x0D, CHR 0x0A] @ bs) r = Some (r1\<lparr>buffer_data := bs @ drop (length bs) (buffer_data r1),
      pointer_data := length bs, received_command := False, pointer_command := 0, requested_bytes_received := True\<rparr>, [])"
    using AppendBytes_seq[OF a1 a2] by (simp only: append_assoc append_Nil)
  then show ?thesis
    by (intro exI conjI, assumption) (use ok(1) n(2) b(3) in \<open>simp_all add: reader_ok_def r1_def\<close>)
qed

section \<open>The end of the file\<close>

abbreviation FTPGET_1_0 :: string where "FTPGET_1_0 \<equiv> ''+FTPGET: 1,0''"

lemma line_FTPGET_1_0:
  assumes "c_str (buffer_command r) = FTPGET_1_0" "reader_ok r"
  shows "ftp_line r = Some (r\<lparr>received_FTPGET_1_0 := True\<rparr>, [])"
proof -
  have "line_fields FTPGET_1_0 = [''+FTPGET'', ''1'', ''0'']" by (simp add: line_fields_def is_sep_def)
  then have "GetWord FTPGET_1_0 1 = Some ''+FTPGET''" "GetWord FTPGET_1_0 2 = Some ''1''" "GetWord FTPGET_1_0 3 = Some ''0''"
    using GetWord_line[OF assms(2)] unfolding assms(1) nth_field_def by simp_all
  then show ?thesis unfolding ftp_line_def assms(1) Let_def by (simp add: at_def)
qed

lemma receive_end:
  assumes "reader_ok r" "\<not> received_command r" "pointer_command r = 0"
  shows "\<exists>r'. AppendBytes (FTPGET_1_0 @ [CHR 0x0D, CHR 0x0A]) r = Some (r', []) \<and> received_FTPGET_1_0 r' \<and>
     pointer_data r' = pointer_data r \<and> buffer_data r' = buffer_data r"
proof -
  obtain b where b: "AppendBytes (FTPGET_1_0 @ [CHR 0x0D, CHR 0x0A]) r =
      ftp_line (r\<lparr>buffer_command := b, pointer_command := length FTPGET_1_0 + 1\<rparr>)" "c_str b = FTPGET_1_0" "length b = 32"
    using receive_line[OF assms, of FTPGET_1_0] by auto
  have "ftp_line (r\<lparr>buffer_command := b, pointer_command := length FTPGET_1_0 + 1\<rparr>) =
      Some (r\<lparr>buffer_command := b, pointer_command := length FTPGET_1_0 + 1, received_FTPGET_1_0 := True\<rparr>, [])"
    using b(2,3) assms(1) by (subst line_FTPGET_1_0) (simp_all add: reader_ok_def)
  then show ?thesis using b(1) by (auto simp del: append_Cons append.simps)
qed

section \<open>Properties\<close>

definition new_reader :: reader where
  "new_reader = \<lparr>received_command = False, pointer_command = 0, buffer_command = replicate 32 CHR 0x00,
     need_bytes = 0, bytes_from_FTP = 0, pointer_data = 0, buffer_data = replicate 64 CHR 0x00,
     requested_bytes_received = False, received_FTPGET_1_0 = False\<rparr>"

lemma new_reader_ok: "reader_ok new_reader"
  by (simp add: new_reader_def reader_ok_def)

text \<open>Lines that the modem sends in between, which are not for the reader.\<close>

definition other_line :: "string \<Rightarrow> bool" where
  "other_line line \<longleftrightarrow> length line < 32 \<and> (\<forall>c \<in> set line. c \<noteq> CHR 0x00 \<and> c \<noteq> CHR 0x0A \<and> c \<noteq> CHR 0x0D) \<and>
     nth_field line 1 \<noteq> ''+FTPGET''"

definition sent_lines :: "string list \<Rightarrow> string" where
  "sent_lines ls = concat (map (\<lambda>l. l @ [CHR 0x0D, CHR 0x0A]) ls)"

text \<open>The reader waits for the line that announces a block.\<close>

definition awaits :: "reader \<Rightarrow> bool" where
  "awaits r \<longleftrightarrow> reader_ok r \<and> \<not> received_command r \<and> pointer_command r = 0 \<and> pointer_data r = 0 \<and> \<not> requested_bytes_received r"

lemma other_line_skipped:
  assumes "awaits r" "other_line line"
  shows "\<exists>r'. AppendBytes (line @ [CHR 0x0D, CHR 0x0A]) r = Some (r', []) \<and> awaits r'"
proof (cases "line = []")
  case True
  then show ?thesis using assms(1) by (simp add: AppendByte_def awaits_def)
next
  case False
  have r: "reader_ok r" "\<not> received_command r" "pointer_command r = 0" using assms(1) by (auto simp: awaits_def)
  have l: "length line < 32" "\<forall>c \<in> set line. c \<noteq> CHR 0x00 \<and> c \<noteq> CHR 0x0A \<and> c \<noteq> CHR 0x0D"
    using assms(2) unfolding other_line_def by blast+
  obtain b where b: "AppendBytes (line @ [CHR 0x0D, CHR 0x0A]) r =
       ftp_line (r\<lparr>buffer_command := b, pointer_command := length line + 1\<rparr>)" "c_str b = line" "length b = 32"
    using receive_line[OF r False l] by blast
  let ?r = "r\<lparr>buffer_command := b, pointer_command := length line + 1\<rparr>"
  have "reader_ok ?r" using r(1) b(3) l(1) by (simp add: reader_ok_def)
  then have "ftp_line ?r = Some (?r\<lparr>received_command := False, pointer_command := 0\<rparr>, [])"
    using GetWord_line[of ?r 1] b(2) assms(2) by (simp add: ftp_line_def other_line_def)
  then show ?thesis using b assms(1) by (auto simp: awaits_def reader_ok_def)
qed

lemma other_lines_skipped:
  "awaits r \<Longrightarrow> list_all other_line ls \<Longrightarrow> \<exists>r'. AppendBytes (sent_lines ls) r = Some (r', []) \<and> awaits r'"
proof (induction ls arbitrary: r)
  case (Cons l ls)
  obtain r1 where r1: "AppendBytes (l @ [CHR 0x0D, CHR 0x0A]) r = Some (r1, [])" "awaits r1"
    using other_line_skipped[of r l] Cons.prems by auto
  obtain r2 where r2: "AppendBytes (sent_lines ls) r1 = Some (r2, [])" "awaits r2" using Cons.IH[OF r1(2)] Cons.prems by auto
  show ?case using AppendBytes_seq[OF r1(1) r2(1)] r2(2) by (simp add: sent_lines_def)
qed (simp add: sent_lines_def)

text \<open>Once the bytes are received this stays so until the next request.\<close>

lemma received_stays:
  "AppendBytes cs r = Some (r', out) \<Longrightarrow> requested_bytes_received r \<Longrightarrow> requested_bytes_received r'"
proof (induction cs arbitrary: r out)
  case (Cons c cs)
  obtain r1 o1 o2 where a: "AppendByte c r = Some (r1, o1)" "AppendBytes cs r1 = Some (r', o2)"
    using Cons.prems(1) by (auto split: option.splits prod.splits)
  have "requested_bytes_received r1" using a(1) Cons.prems(2)
    by (auto simp: AppendByte_def ftp_line_def Let_def split: if_splits option.splits)
  then show ?case using Cons.IH a(2) by blast
qed simp

lemma collect_part:
  assumes "received_command r" "int (pointer_data r + length cs) < bytes_from_FTP r"
    and "pointer_data r + length cs \<le> length (buffer_data r)"
  shows "\<exists>b. AppendBytes cs r = Some (r\<lparr>buffer_data := b, pointer_data := pointer_data r + length cs\<rparr>, [])"
  using assms
proof (induction cs arbitrary: r)
  case Nil
  then show ?case by (intro exI[of _ "buffer_data r"]) simp
next
  case (Cons c cs)
  let ?r = "r\<lparr>buffer_data := (buffer_data r)[pointer_data r := c], pointer_data := pointer_data r + 1\<rparr>"
  have "AppendByte c r = Some (?r, [])" using Cons.prems by (simp add: AppendByte_def Let_def)
  then show ?case using Cons.IH[of ?r] Cons.prems by auto
qed

lemma AppendBytes_prefix:
  assumes "AppendBytes xs r = Some (r', [])"
  shows "\<exists>r1. AppendBytes (take k xs) r = Some (r1, []) \<and> (requested_bytes_received r1 \<longrightarrow> requested_bytes_received r')"
proof -
  obtain r1 o1 o2 where a: "AppendBytes (take k xs) r = Some (r1, o1)" "AppendBytes (drop k xs) r1 = Some (r', o2)" "o1 @ o2 = []"
    using assms AppendBytes_append[of "take k xs" "drop k xs" r]
    by (cases "AppendBytes (take k xs) r") (auto simp: map_option_case split: option.splits)
  then show ?thesis using received_stays[OF a(2)] by auto
qed

lemma announced:
  assumes "awaits r" "0 < n" "n \<le> 64"
  shows "\<exists>r'. AppendBytes (FTPGET_2 n @ [CHR 0x0D, CHR 0x0A]) r = Some (r', []) \<and> reader_ok r' \<and> received_command r' \<and>
     bytes_from_FTP r' = int n \<and> pointer_data r' = 0 \<and> \<not> requested_bytes_received r'"
proof -
  have r: "reader_ok r" "\<not> received_command r" "pointer_command r = 0" using assms(1) by (auto simp: awaits_def)
  have len: "length (FTPGET_2 n) < 32" using decimal_length[of n 2] assms(3) by simp
  have pl: "\<forall>c \<in> set (FTPGET_2 n). c \<noteq> CHR 0x00 \<and> c \<noteq> CHR 0x0A \<and> c \<noteq> CHR 0x0D" using FTPGET_2_plain[of _ n] by blast
  obtain b where b: "AppendBytes (FTPGET_2 n @ [CHR 0x0D, CHR 0x0A]) r =
      ftp_line (r\<lparr>buffer_command := b, pointer_command := length (FTPGET_2 n) + 1\<rparr>)" "c_str b = FTPGET_2 n" "length b = 32"
    using receive_line[OF r _ len pl] by auto
  let ?r = "r\<lparr>buffer_command := b, pointer_command := length (FTPGET_2 n) + 1\<rparr>"
  have ok: "reader_ok ?r" using r(1) b(3) len by (simp add: reader_ok_def)
  have "ftp_line ?r = Some (?r\<lparr>bytes_from_FTP := int n, received_command := True\<rparr>, [])"
    using b(2) assms(2) ok by (intro line_FTPGET_2) simp_all
  then show ?thesis unfolding b(1) using ok assms(1) by (auto simp: awaits_def reader_ok_def)
qed

lemma not_before_the_end:
  assumes "awaits r" "bs \<noteq> []" "length bs \<le> 64" "k < length (FTPGET_2 (length bs) @ [CHR 0x0D, CHR 0x0A] @ bs)"
  shows "\<exists>r'. AppendBytes (take k (FTPGET_2 (length bs) @ [CHR 0x0D, CHR 0x0A] @ bs)) r = Some (r', []) \<and>
     \<not> requested_bytes_received r'"
proof -
  let ?h = "FTPGET_2 (length bs) @ [CHR 0x0D, CHR 0x0A]"
  obtain r1 where r1: "AppendBytes ?h r = Some (r1, [])" "reader_ok r1" "received_command r1"
      "bytes_from_FTP r1 = int (length bs)" "pointer_data r1 = 0" "\<not> requested_bytes_received r1"
    using announced[OF assms(1), of "length bs"] assms(2,3) by auto
  have "length (butlast bs) < length bs" "length (butlast bs) \<le> 64" using assms(2,3) by (simp_all add: diff_less)
  then obtain b where b: "AppendBytes (butlast bs) r1 = Some (r1\<lparr>buffer_data := b, pointer_data := length (butlast bs)\<rparr>, [])"
    using collect_part[OF r1(3), of "butlast bs"] r1(2,4,5) by (auto simp: reader_ok_def simp del: length_butlast)
  have "?h @ bs = (?h @ butlast bs) @ [last bs]" "k \<le> length (?h @ butlast bs)" using assms(2,4) by simp_all
  then have "take k (?h @ bs) = take k (?h @ butlast bs)" by (simp only: take_append) simp
  then show ?thesis
    using AppendBytes_prefix[OF AppendBytes_seq[OF r1(1) b, unfolded append_Nil], of k] r1(6) by (simp del: append_Cons append.simps)
qed

text \<open>
  C7: a block request is answered completely, and nothing that the modem sends before spoils it. After \<^verbatim>\<open>ReceiveBytes\<close>, from any state, let the
  modem send any lines of at most 31 symbols that are not for the reader, empty ones among them, and then any 1 to 64 bytes with their announcement,
  line ends and zeros among them. No symbol is written outside an array, \<^verbatim>\<open>requested_bytes_received\<close> is set by the last byte and not
  before, \<^verbatim>\<open>buffer_data\<close> then begins with exactly these bytes, and the reader waits for the next line at the start of its array.
\<close>

theorem requested_block_received:
  assumes "reader_ok r" "list_all other_line ls" "bs \<noteq> []" "length bs \<le> 64"
    and "stream = sent_lines ls @ ''+FTPGET: 2,'' @ decimal (length bs) @ [CHR 0x0D, CHR 0x0A] @ bs"
  shows "(\<forall>k < length stream. \<exists>r'. AppendBytes (take k stream) (fst (ReceiveBytes n r)) = Some (r', []) \<and> \<not> requested_bytes_received r') \<and>
    (\<exists>r'. AppendBytes stream (fst (ReceiveBytes n r)) = Some (r', []) \<and> reader_ok r' \<and> requested_bytes_received r' \<and>
       \<not> received_command r' \<and> pointer_command r' = 0 \<and> pointer_data r' = length bs \<and> take (length bs) (buffer_data r') = bs)"
proof -
  let ?r = "fst (ReceiveBytes n r)" and ?b = "FTPGET_2 (length bs) @ [CHR 0x0D, CHR 0x0A] @ bs"
  have s: "stream = sent_lines ls @ ?b" using assms(5) by simp
  have "awaits ?r" using assms(1) by (simp add: ReceiveBytes_def ftp_Reset_def Let_def awaits_def reader_ok_def)
  then obtain r1 where r1: "AppendBytes (sent_lines ls) ?r = Some (r1, [])" "awaits r1"
    using other_lines_skipped assms(2) by blast
  have w: "reader_ok r1" "\<not> received_command r1" "pointer_command r1 = 0" "pointer_data r1 = 0" "\<not> requested_bytes_received r1"
    using r1(2) by (auto simp: awaits_def)
  obtain r2 where r2: "AppendBytes ?b r1 = Some (r2, [])" "reader_ok r2" "requested_bytes_received r2" "\<not> received_command r2"
      "pointer_command r2 = 0" "pointer_data r2 = length bs" "take (length bs) (buffer_data r2) = bs"
    using receive_block[OF w(1-4) assms(3,4)] by blast
  have "\<exists>r'. AppendBytes (take k stream) ?r = Some (r', []) \<and> \<not> requested_bytes_received r'" if k: "k < length stream" for k
  proof (cases "k \<le> length (sent_lines ls)")
    case True
    then show ?thesis using AppendBytes_prefix[OF r1(1), of k] w(5) unfolding s by auto
  next
    case False
    then have "k - length (sent_lines ls) < length ?b" using k unfolding s by (simp del: append_Cons append.simps)
    then obtain r' where "AppendBytes (take (k - length (sent_lines ls)) ?b) r1 = Some (r', [])" "\<not> requested_bytes_received r'"
      using not_before_the_end[OF r1(2) assms(3,4)] by blast
    then show ?thesis using AppendBytes_seq[OF r1(1)] False unfolding s by (simp del: append_Cons append.simps)
  qed
  then show ?thesis using AppendBytes_seq[OF r1(1) r2(1)] r2(2-) unfolding s by (simp del: append_Cons append.simps)
qed

theorem requested_block_received_witness:
  "(\<exists>r'. AppendBytes (sent_lines [[], ''+CSQ: 14,0''] @ ''+FTPGET: 2,3'' @ [CHR 0x0D, CHR 0x0A] @ [CHR 0x0A, CHR 0x00, CHR ''x''])
      (fst (ReceiveBytes 64 new_reader)) = Some (r', []) \<and> requested_bytes_received r' \<and> pointer_data r' = 3 \<and>
      take 3 (buffer_data r') = [CHR 0x0A, CHR 0x00, CHR ''x''])"
proof -
  have "other_line []" "other_line ''+CSQ: 14,0''"
    by (simp_all add: other_line_def nth_field_def line_fields_def is_sep_def)
  then have ls: "list_all other_line [[], ''+CSQ: 14,0'']" by simp
  let ?bs = "[CHR 0x0A, CHR 0x00, CHR ''x'']"
  have d: "length ?bs = 3" "decimal 3 = ''3''" by (simp_all add: decimal.simps digit_def char_of_def bit_iff_odd)
  note t = requested_block_received[OF new_reader_ok ls, of ?bs _ 64, OF _ _ refl, THEN conjunct2, unfolded d]
  have "?bs \<noteq> []" "(3::nat) \<le> 64" by simp_all
  from t[OF this] show ?thesis by (simp del: take_Suc_Cons) blast
qed

lemma AppendBytes_keep: "AppendBytes cs r = None \<Longrightarrow> AppendBytes (cs @ ds) r = None"
  by (simp add: AppendBytes_append)

text \<open>
  C37: \<^verbatim>\<open>AppendByte\<close> does not check the length of a command line. Any line of more than 32 symbols, before its
  end is seen, makes it write behind the array \<^verbatim>\<open>buffer_command\<close>.
\<close>

theorem long_line_overflows:
  assumes "reader_ok r" "\<not> received_command r" "pointer_command r = 0"
    "32 < length cs" "CHR 0x0D \<notin> set cs" "CHR 0x0A \<notin> set cs"
  shows "AppendBytes cs r = None"
proof -
  obtain xs y ys where cs: "cs = xs @ y # ys" "length xs = 32"
    using assms(4) id_take_nth_drop[of 32 cs] by (metis length_take min.absorb2 less_imp_le)
  have len: "length (buffer_command r) = 32" using assms(1) by (simp add: reader_ok_def)
  have "AppendBytes xs r = Some (r\<lparr>buffer_command := xs, pointer_command := 32\<rparr>, [])"
    using collect_line[OF assms(2), of xs] assms(3,5,6) cs len by simp
  moreover have "AppendByte y (r\<lparr>buffer_command := xs, pointer_command := 32\<rparr>) = None"
    using assms(2,5,6) cs by (auto simp: AppendByte_def)
  ultimately show ?thesis unfolding cs(1) by (simp add: AppendBytes_append)
qed

theorem long_line_overflows_witness: "AppendBytes (replicate 33 CHR ''a'') new_reader = None"
  by (rule long_line_overflows) (simp_all add: new_reader_ok, simp_all add: new_reader_def)

end
