(* ===== verification/Gd32_Rcu.thy ===== *)
theory Gd32_Rcu
  imports Prelude
begin

unbundle bit_operations_syntax

text \<open>
  Reset and clock unit: gd32f30x_rcu.c (device class GD32F30X_HD, which the firmware is built for).
\<close>

section \<open>Registers and constants\<close>

abbreviation RCU :: u32 where "RCU \<equiv> 0x40021000"
abbreviation RCU_CTL :: u32 where "RCU_CTL \<equiv> 0x40021000"
abbreviation RCU_CFG0 :: u32 where "RCU_CFG0 \<equiv> 0x40021004"
abbreviation RCU_INT :: u32 where "RCU_INT \<equiv> 0x40021008"
abbreviation RCU_BDCTL :: u32 where "RCU_BDCTL \<equiv> 0x40021020"
abbreviation RCU_RSTSCK :: u32 where "RCU_RSTSCK \<equiv> 0x40021024"
abbreviation RCU_CFG1 :: u32 where "RCU_CFG1 \<equiv> 0x4002102C"
abbreviation RCU_DSV :: u32 where "RCU_DSV \<equiv> 0x40021034"
abbreviation RCU_ADDCTL :: u32 where "RCU_ADDCTL \<equiv> 0x400210C0"
abbreviation RCU_CTL_IRC8MEN :: u32 where "RCU_CTL_IRC8MEN \<equiv> 0x1"
abbreviation RCU_CTL_IRC8MADJ :: u32 where "RCU_CTL_IRC8MADJ \<equiv> 0xF8"
abbreviation RCU_CTL_HXTALEN :: u32 where "RCU_CTL_HXTALEN \<equiv> 0x10000"
abbreviation RCU_CTL_HXTALBPS :: u32 where "RCU_CTL_HXTALBPS \<equiv> 0x40000"
abbreviation RCU_CTL_CKMEN :: u32 where "RCU_CTL_CKMEN \<equiv> 0x80000"
abbreviation RCU_CTL_PLLEN :: u32 where "RCU_CTL_PLLEN \<equiv> 0x1000000"
abbreviation RCU_CFG0_SCS :: u32 where "RCU_CFG0_SCS \<equiv> 0x3"
abbreviation RCU_CFG0_SCSS :: u32 where "RCU_CFG0_SCSS \<equiv> 0xC"
abbreviation RCU_CFG0_AHBPSC :: u32 where "RCU_CFG0_AHBPSC \<equiv> 0xF0"
abbreviation RCU_CFG0_APB1PSC :: u32 where "RCU_CFG0_APB1PSC \<equiv> 0x700"
abbreviation RCU_CFG0_APB2PSC :: u32 where "RCU_CFG0_APB2PSC \<equiv> 0x3800"
abbreviation RCU_CFG0_ADCPSC :: u32 where "RCU_CFG0_ADCPSC \<equiv> 0xC000"
abbreviation RCU_CFG0_PLLSEL :: u32 where "RCU_CFG0_PLLSEL \<equiv> 0x10000"
abbreviation RCU_CFG0_PREDV0 :: u32 where "RCU_CFG0_PREDV0 \<equiv> 0x20000"
abbreviation RCU_CFG0_PLLMF :: u32 where "RCU_CFG0_PLLMF \<equiv> 0x3C0000"
abbreviation RCU_CFG0_USBDPSC :: u32 where "RCU_CFG0_USBDPSC \<equiv> 0xC00000"
abbreviation RCU_CFG0_CKOUT0SEL :: u32 where "RCU_CFG0_CKOUT0SEL \<equiv> 0x7000000"
abbreviation RCU_CFG0_PLLMF_4 :: u32 where "RCU_CFG0_PLLMF_4 \<equiv> 0x8000000"
abbreviation RCU_CFG0_ADCPSC_2 :: u32 where "RCU_CFG0_ADCPSC_2 \<equiv> 0x10000000"
abbreviation RCU_CFG0_PLLMF_5 :: u32 where "RCU_CFG0_PLLMF_5 \<equiv> 0x40000000"
abbreviation RCU_CFG0_USBDPSC_2 :: u32 where "RCU_CFG0_USBDPSC_2 \<equiv> 0x80000000"
abbreviation RCU_BDCTL_LXTALEN :: u32 where "RCU_BDCTL_LXTALEN \<equiv> 0x1"
abbreviation RCU_BDCTL_LXTALBPS :: u32 where "RCU_BDCTL_LXTALBPS \<equiv> 0x4"
abbreviation RCU_BDCTL_LXTALDRI :: u32 where "RCU_BDCTL_LXTALDRI \<equiv> 0x18"
abbreviation RCU_BDCTL_RTCSRC :: u32 where "RCU_BDCTL_RTCSRC \<equiv> 0x300"
abbreviation RCU_BDCTL_BKPRST :: u32 where "RCU_BDCTL_BKPRST \<equiv> 0x10000"
abbreviation RCU_RSTSCK_RSTFC :: u32 where "RCU_RSTSCK_RSTFC \<equiv> 0x1000000"
abbreviation RCU_CFG1_ADCPSC_3 :: u32 where "RCU_CFG1_ADCPSC_3 \<equiv> 0x20000000"
abbreviation RCU_CFG1_PLLPRESEL :: u32 where "RCU_CFG1_PLLPRESEL \<equiv> 0x40000000"
abbreviation RCU_DSV_DSLPVS :: u32 where "RCU_DSV_DSLPVS \<equiv> 0x7"
abbreviation RCU_ADDCTL_CK48MSEL :: u32 where "RCU_ADDCTL_CK48MSEL \<equiv> 0x1"
abbreviation RCU_REG_VAL :: "u32 \<Rightarrow> u32" where
  "RCU_REG_VAL periph \<equiv> RCU + drop_bit 6 periph"
abbreviation RCU_BIT_POS :: "u32 \<Rightarrow> u32" where
  "RCU_BIT_POS val \<equiv> val AND 0x1F"
abbreviation RCU_CKADC_CKAPB2_DIV2 :: u32 where "RCU_CKADC_CKAPB2_DIV2 \<equiv> 0x0"
abbreviation RCU_CKADC_CKAPB2_DIV4 :: u32 where "RCU_CKADC_CKAPB2_DIV4 \<equiv> 0x1"
abbreviation RCU_CKADC_CKAPB2_DIV6 :: u32 where "RCU_CKADC_CKAPB2_DIV6 \<equiv> 0x2"
abbreviation RCU_CKADC_CKAPB2_DIV8 :: u32 where "RCU_CKADC_CKAPB2_DIV8 \<equiv> 0x3"
abbreviation RCU_CKADC_CKAPB2_DIV12 :: u32 where "RCU_CKADC_CKAPB2_DIV12 \<equiv> 0x5"
abbreviation RCU_CKADC_CKAPB2_DIV16 :: u32 where "RCU_CKADC_CKAPB2_DIV16 \<equiv> 0x7"
abbreviation RCU_CKADC_CKAHB_DIV5 :: u32 where "RCU_CKADC_CKAHB_DIV5 \<equiv> 0x8"
abbreviation RCU_CKADC_CKAHB_DIV6 :: u32 where "RCU_CKADC_CKAHB_DIV6 \<equiv> 0x9"
abbreviation RCU_CKADC_CKAHB_DIV10 :: u32 where "RCU_CKADC_CKAHB_DIV10 \<equiv> 0xA"
abbreviation RCU_CKADC_CKAHB_DIV20 :: u32 where "RCU_CKADC_CKAHB_DIV20 \<equiv> 0xB"
abbreviation RCU_PLLSRC_HXTAL_IRC48M :: u32 where "RCU_PLLSRC_HXTAL_IRC48M \<equiv> 0x10000"
abbreviation RCU_PREDV0_DIV2 :: u32 where "RCU_PREDV0_DIV2 \<equiv> 0x1"
abbreviation RCU_PLLPRESRC_HXTAL :: u32 where "RCU_PLLPRESRC_HXTAL \<equiv> 0x0"
abbreviation RCU_TIMER1RST :: u32 where "RCU_TIMER1RST \<equiv> 0x400"
abbreviation RCU_TIMER2RST :: u32 where "RCU_TIMER2RST \<equiv> 0x401"
abbreviation RCU_TIMER3RST :: u32 where "RCU_TIMER3RST \<equiv> 0x402"
abbreviation RCU_TIMER4RST :: u32 where "RCU_TIMER4RST \<equiv> 0x403"
abbreviation RCU_TIMER5RST :: u32 where "RCU_TIMER5RST \<equiv> 0x404"
abbreviation RCU_TIMER6RST :: u32 where "RCU_TIMER6RST \<equiv> 0x405"
abbreviation RCU_WWDGTRST :: u32 where "RCU_WWDGTRST \<equiv> 0x40B"
abbreviation RCU_SPI1RST :: u32 where "RCU_SPI1RST \<equiv> 0x40E"
abbreviation RCU_SPI2RST :: u32 where "RCU_SPI2RST \<equiv> 0x40F"
abbreviation RCU_USART1RST :: u32 where "RCU_USART1RST \<equiv> 0x411"
abbreviation RCU_USART2RST :: u32 where "RCU_USART2RST \<equiv> 0x412"
abbreviation RCU_UART3RST :: u32 where "RCU_UART3RST \<equiv> 0x413"
abbreviation RCU_UART4RST :: u32 where "RCU_UART4RST \<equiv> 0x414"
abbreviation RCU_I2C0RST :: u32 where "RCU_I2C0RST \<equiv> 0x415"
abbreviation RCU_I2C1RST :: u32 where "RCU_I2C1RST \<equiv> 0x416"
abbreviation RCU_AFRST :: u32 where "RCU_AFRST \<equiv> 0x300"
abbreviation RCU_GPIOARST :: u32 where "RCU_GPIOARST \<equiv> 0x302"
abbreviation RCU_GPIOBRST :: u32 where "RCU_GPIOBRST \<equiv> 0x303"
abbreviation RCU_GPIOCRST :: u32 where "RCU_GPIOCRST \<equiv> 0x304"
abbreviation RCU_GPIODRST :: u32 where "RCU_GPIODRST \<equiv> 0x305"
abbreviation RCU_GPIOERST :: u32 where "RCU_GPIOERST \<equiv> 0x306"
abbreviation RCU_GPIOFRST :: u32 where "RCU_GPIOFRST \<equiv> 0x307"
abbreviation RCU_GPIOGRST :: u32 where "RCU_GPIOGRST \<equiv> 0x308"
abbreviation RCU_ADC0RST :: u32 where "RCU_ADC0RST \<equiv> 0x309"
abbreviation RCU_ADC1RST :: u32 where "RCU_ADC1RST \<equiv> 0x30A"
abbreviation RCU_TIMER0RST :: u32 where "RCU_TIMER0RST \<equiv> 0x30B"
abbreviation RCU_SPI0RST :: u32 where "RCU_SPI0RST \<equiv> 0x30C"
abbreviation RCU_TIMER7RST :: u32 where "RCU_TIMER7RST \<equiv> 0x30D"
abbreviation RCU_USART0RST :: u32 where "RCU_USART0RST \<equiv> 0x30E"
abbreviation RCU_ADC2RST :: u32 where "RCU_ADC2RST \<equiv> 0x30F"
abbreviation RCU_FLAG_IRC8MSTB :: u32 where "RCU_FLAG_IRC8MSTB \<equiv> 0x1"
abbreviation RCU_FLAG_HXTALSTB :: u32 where "RCU_FLAG_HXTALSTB \<equiv> 0x11"
abbreviation RCU_FLAG_PLLSTB :: u32 where "RCU_FLAG_PLLSTB \<equiv> 0x19"
abbreviation RCU_FLAG_LXTALSTB :: u32 where "RCU_FLAG_LXTALSTB \<equiv> 0x801"
abbreviation RCU_FLAG_IRC40KSTB :: u32 where "RCU_FLAG_IRC40KSTB \<equiv> 0x901"
abbreviation RCU_FLAG_IRC48MSTB :: u32 where "RCU_FLAG_IRC48MSTB \<equiv> 0x3011"
abbreviation RCU_HXTAL :: u32 where "RCU_HXTAL \<equiv> 0x10"
abbreviation RCU_LXTAL :: u32 where "RCU_LXTAL \<equiv> 0x800"
abbreviation RCU_IRC8M :: u32 where "RCU_IRC8M \<equiv> 0x0"
abbreviation RCU_IRC48M :: u32 where "RCU_IRC48M \<equiv> 0x3010"
abbreviation RCU_IRC40K :: u32 where "RCU_IRC40K \<equiv> 0x900"
abbreviation RCU_PLL_CK :: u32 where "RCU_PLL_CK \<equiv> 0x18"
abbreviation CK_SYS :: u32 where "CK_SYS \<equiv> 0x0"
abbreviation CK_AHB :: u32 where "CK_AHB \<equiv> 0x1"
abbreviation CK_APB1 :: u32 where "CK_APB1 \<equiv> 0x2"
abbreviation CK_APB2 :: u32 where "CK_APB2 \<equiv> 0x3"
abbreviation SEL_IRC8M :: u32 where "SEL_IRC8M \<equiv> 0x0"
abbreviation SEL_HXTAL :: u32 where "SEL_HXTAL \<equiv> 0x1"
abbreviation SEL_PLL :: u32 where "SEL_PLL \<equiv> 0x2"
abbreviation OSC_STARTUP_TIMEOUT :: u32 where "OSC_STARTUP_TIMEOUT \<equiv> 0xFFFFF"
abbreviation LXTAL_STARTUP_TIMEOUT :: u32 where "LXTAL_STARTUP_TIMEOUT \<equiv> 0x3FFFFFF"
abbreviation RCU_IRC8M_ADJUST_MASK :: u32 where "RCU_IRC8M_ADJUST_MASK \<equiv> 0x1F"

section \<open>Operations\<close>

definition rcu_flag_get :: "u32 \<Rightarrow> mem \<Rightarrow> FlagStatus" where
  "rcu_flag_get flag m =
    (if (m (RCU_REG_VAL flag) AND BIT (RCU_BIT_POS flag)) \<noteq> 0 then SET else RESET)"

definition rcu_osci_wait :: "(mem \<Rightarrow> mem) \<Rightarrow> u32 \<Rightarrow> nat \<Rightarrow> mem \<Rightarrow> ErrStatus \<times> mem" where
  "rcu_osci_wait hw flag timeout m =
    (let (osci_stat, m) = poll_until timeout hw (\<lambda>m. rcu_flag_get flag m = SET) m;
         m = hw m
      in (if rcu_flag_get flag m \<noteq> RESET then (SUCCESS, m) else (ERROR, m)))"

definition rcu_osci_stab_wait :: "(mem \<Rightarrow> mem) \<Rightarrow> u32 \<Rightarrow> mem \<Rightarrow> ErrStatus \<times> mem" where
  "rcu_osci_stab_wait hw osci m =
    (if osci = RCU_HXTAL then rcu_osci_wait hw RCU_FLAG_HXTALSTB (unat HXTAL_STARTUP_TIMEOUT) m
     else if osci = RCU_LXTAL then rcu_osci_wait hw RCU_FLAG_LXTALSTB (unat LXTAL_STARTUP_TIMEOUT) m
     else if osci = RCU_IRC8M then rcu_osci_wait hw RCU_FLAG_IRC8MSTB (unat IRC8M_STARTUP_TIMEOUT) m
     else if osci = RCU_IRC48M then rcu_osci_wait hw RCU_FLAG_IRC48MSTB (unat OSC_STARTUP_TIMEOUT) m
     else if osci = RCU_IRC40K then rcu_osci_wait hw RCU_FLAG_IRC40KSTB (unat OSC_STARTUP_TIMEOUT) m
     else if osci = RCU_PLL_CK then rcu_osci_wait hw RCU_FLAG_PLLSTB (unat OSC_STARTUP_TIMEOUT) m
     else (ERROR, m))"

definition rcu_deinit :: "(mem \<Rightarrow> mem) \<Rightarrow> mem \<Rightarrow> mem" where
  "rcu_deinit hw m =
    (let m = m(RCU_CTL := m RCU_CTL OR RCU_CTL_IRC8MEN);
         m = snd (rcu_osci_stab_wait hw RCU_IRC8M m);
         m = m(RCU_CFG0 := m RCU_CFG0 AND NOT RCU_CFG0_SCS);
         m = m(RCU_CTL := m RCU_CTL AND NOT (RCU_CTL_HXTALEN OR RCU_CTL_CKMEN OR RCU_CTL_PLLEN));
         m = m(RCU_CTL := m RCU_CTL AND NOT RCU_CTL_HXTALBPS);
         m = m(RCU_CFG0 := m RCU_CFG0 AND NOT (RCU_CFG0_SCS OR RCU_CFG0_AHBPSC OR RCU_CFG0_APB1PSC OR
               RCU_CFG0_APB2PSC OR RCU_CFG0_ADCPSC OR RCU_CFG0_PLLSEL OR RCU_CFG0_PREDV0 OR
               RCU_CFG0_PLLMF OR RCU_CFG0_USBDPSC OR RCU_CFG0_CKOUT0SEL OR RCU_CFG0_PLLMF_4 OR
               RCU_CFG0_ADCPSC_2 OR RCU_CFG0_PLLMF_5 OR RCU_CFG0_USBDPSC_2));
         m = m(RCU_CTL := m RCU_CTL AND NOT (RCU_CTL_HXTALEN OR RCU_CTL_CKMEN OR RCU_CTL_PLLEN));
         m = m(RCU_CTL := m RCU_CTL AND NOT RCU_CTL_HXTALBPS);
         m = m(RCU_INT := 0x9F0000)
      in m(RCU_CFG1 := m RCU_CFG1 AND NOT (RCU_CFG1_ADCPSC_3 OR RCU_CFG1_PLLPRESEL)))"

definition rcu_periph_clock_enable :: "u32 \<Rightarrow> mem \<Rightarrow> mem" where
  "rcu_periph_clock_enable periph m =
    m(RCU_REG_VAL periph := m (RCU_REG_VAL periph) OR BIT (RCU_BIT_POS periph))"

definition rcu_periph_clock_disable :: "u32 \<Rightarrow> mem \<Rightarrow> mem" where
  "rcu_periph_clock_disable periph m =
    m(RCU_REG_VAL periph := m (RCU_REG_VAL periph) AND NOT (BIT (RCU_BIT_POS periph)))"

definition rcu_periph_clock_sleep_enable :: "u32 \<Rightarrow> mem \<Rightarrow> mem" where
  "rcu_periph_clock_sleep_enable periph m =
    m(RCU_REG_VAL periph := m (RCU_REG_VAL periph) OR BIT (RCU_BIT_POS periph))"

definition rcu_periph_clock_sleep_disable :: "u32 \<Rightarrow> mem \<Rightarrow> mem" where
  "rcu_periph_clock_sleep_disable periph m =
    m(RCU_REG_VAL periph := m (RCU_REG_VAL periph) AND NOT (BIT (RCU_BIT_POS periph)))"

definition rcu_periph_reset_enable :: "u32 \<Rightarrow> mem \<Rightarrow> mem" where
  "rcu_periph_reset_enable periph_reset m =
    m(RCU_REG_VAL periph_reset := m (RCU_REG_VAL periph_reset) OR BIT (RCU_BIT_POS periph_reset))"

definition rcu_periph_reset_disable :: "u32 \<Rightarrow> mem \<Rightarrow> mem" where
  "rcu_periph_reset_disable periph_reset m =
    m(RCU_REG_VAL periph_reset := m (RCU_REG_VAL periph_reset) AND NOT (BIT (RCU_BIT_POS periph_reset)))"

definition rcu_bkp_reset_enable :: "mem \<Rightarrow> mem" where
  "rcu_bkp_reset_enable m =
    m(RCU_BDCTL := m RCU_BDCTL OR RCU_BDCTL_BKPRST)"

definition rcu_bkp_reset_disable :: "mem \<Rightarrow> mem" where
  "rcu_bkp_reset_disable m =
    m(RCU_BDCTL := m RCU_BDCTL AND NOT RCU_BDCTL_BKPRST)"

definition rcu_system_clock_source_config :: "u32 \<Rightarrow> mem \<Rightarrow> mem" where
  "rcu_system_clock_source_config ck_sys m =
    (let reg = m RCU_CFG0;
         reg = reg AND NOT RCU_CFG0_SCS
      in m(RCU_CFG0 := reg OR ck_sys))"

definition rcu_system_clock_source_get :: "mem \<Rightarrow> u32" where
  "rcu_system_clock_source_get m =
    m RCU_CFG0 AND RCU_CFG0_SCSS"

definition rcu_ahb_clock_config :: "u32 \<Rightarrow> mem \<Rightarrow> mem" where
  "rcu_ahb_clock_config ck_ahb m =
    (let reg = m RCU_CFG0;
         reg = reg AND NOT RCU_CFG0_AHBPSC
      in m(RCU_CFG0 := reg OR ck_ahb))"

definition rcu_apb1_clock_config :: "u32 \<Rightarrow> mem \<Rightarrow> mem" where
  "rcu_apb1_clock_config ck_apb1 m =
    (let reg = m RCU_CFG0;
         reg = reg AND NOT RCU_CFG0_APB1PSC
      in m(RCU_CFG0 := reg OR ck_apb1))"

definition rcu_apb2_clock_config :: "u32 \<Rightarrow> mem \<Rightarrow> mem" where
  "rcu_apb2_clock_config ck_apb2 m =
    (let reg = m RCU_CFG0;
         reg = reg AND NOT RCU_CFG0_APB2PSC
      in m(RCU_CFG0 := reg OR ck_apb2))"

definition rcu_ckout0_config :: "u32 \<Rightarrow> mem \<Rightarrow> mem" where
  "rcu_ckout0_config ckout0_src m =
    (let reg = m RCU_CFG0;
         reg = reg AND NOT RCU_CFG0_CKOUT0SEL
      in m(RCU_CFG0 := reg OR ckout0_src))"

definition rcu_pll_config :: "u32 \<Rightarrow> u32 \<Rightarrow> mem \<Rightarrow> mem" where
  "rcu_pll_config pll_src pll_mul m =
    (let reg = m RCU_CFG0;
         reg = reg AND NOT (RCU_CFG0_PLLSEL OR RCU_CFG0_PLLMF OR RCU_CFG0_PLLMF_4 OR RCU_CFG0_PLLMF_5);
         reg = reg OR pll_src OR pll_mul
      in m(RCU_CFG0 := reg))"

definition rcu_pllpresel_config :: "u32 \<Rightarrow> mem \<Rightarrow> mem" where
  "rcu_pllpresel_config pll_presel m =
    (let reg = m RCU_CFG1;
         reg = reg AND NOT RCU_CFG1_PLLPRESEL;
         reg = reg OR pll_presel
      in m(RCU_CFG1 := reg))"

definition rcu_predv0_config :: "u32 \<Rightarrow> mem \<Rightarrow> mem" where
  "rcu_predv0_config predv0_div m =
    (let reg = m RCU_CFG0;
         reg = reg AND NOT RCU_CFG0_PREDV0;
         reg = (if predv0_div = RCU_PREDV0_DIV2 then reg OR RCU_CFG0_PREDV0 else reg)
      in m(RCU_CFG0 := reg))"

definition rcu_adc_clock_config :: "u32 \<Rightarrow> mem \<Rightarrow> mem" where
  "rcu_adc_clock_config adc_psc m =
    (let reg0 = m RCU_CFG0;
         reg0 = reg0 AND NOT (RCU_CFG0_ADCPSC_2 OR RCU_CFG0_ADCPSC);
         reg1 = m RCU_CFG1;
         reg1 = reg1 AND NOT RCU_CFG1_ADCPSC_3;
         (reg0, reg1) = (if (((adc_psc = RCU_CKADC_CKAPB2_DIV2) \<or> (adc_psc = RCU_CKADC_CKAPB2_DIV4)) \<or> (adc_psc = RCU_CKADC_CKAPB2_DIV6)) \<or> (adc_psc = RCU_CKADC_CKAPB2_DIV8) then
              (let reg0 = reg0 OR push_bit 14 adc_psc
                in (reg0, reg1))
            else if (adc_psc = RCU_CKADC_CKAPB2_DIV12) \<or> (adc_psc = RCU_CKADC_CKAPB2_DIV16) then
              (let adc_psc = adc_psc AND NOT (BIT 2);
                   reg0 = reg0 OR push_bit 14 adc_psc OR RCU_CFG0_ADCPSC_2
                in (reg0, reg1))
            else if (((adc_psc = RCU_CKADC_CKAHB_DIV5) \<or> (adc_psc = RCU_CKADC_CKAHB_DIV6)) \<or> (adc_psc = RCU_CKADC_CKAHB_DIV10)) \<or> (adc_psc = RCU_CKADC_CKAHB_DIV20) then
              (let adc_psc = adc_psc AND NOT (BITS 2 3);
                   reg0 = reg0 OR push_bit 14 adc_psc;
                   reg1 = reg1 OR RCU_CFG1_ADCPSC_3
                in (reg0, reg1))
            else
              (reg0, reg1));
         m = m(RCU_CFG0 := reg0)
      in m(RCU_CFG1 := reg1))"

definition rcu_usb_clock_config :: "u32 \<Rightarrow> mem \<Rightarrow> mem" where
  "rcu_usb_clock_config usb_psc m =
    (let reg = m RCU_CFG0;
         reg = reg AND NOT RCU_CFG0_USBDPSC
      in m(RCU_CFG0 := reg OR usb_psc))"

definition rcu_rtc_clock_config :: "u32 \<Rightarrow> mem \<Rightarrow> mem" where
  "rcu_rtc_clock_config rtc_clock_source m =
    (let reg = m RCU_BDCTL;
         reg = reg AND NOT RCU_BDCTL_RTCSRC
      in m(RCU_BDCTL := reg OR rtc_clock_source))"

definition rcu_ck48m_clock_config :: "u32 \<Rightarrow> mem \<Rightarrow> mem" where
  "rcu_ck48m_clock_config ck48m_clock_source m =
    (let reg = m RCU_ADDCTL;
         reg = reg AND NOT RCU_ADDCTL_CK48MSEL
      in m(RCU_ADDCTL := reg OR ck48m_clock_source))"

definition rcu_lxtal_drive_capability_config :: "u32 \<Rightarrow> mem \<Rightarrow> mem" where
  "rcu_lxtal_drive_capability_config lxtal_dricap m =
    (let reg = m RCU_BDCTL;
         reg = reg AND NOT RCU_BDCTL_LXTALDRI
      in m(RCU_BDCTL := reg OR lxtal_dricap))"

definition rcu_osci_on :: "u32 \<Rightarrow> mem \<Rightarrow> mem" where
  "rcu_osci_on osci m =
    m(RCU_REG_VAL osci := m (RCU_REG_VAL osci) OR BIT (RCU_BIT_POS osci))"

definition rcu_osci_off :: "u32 \<Rightarrow> mem \<Rightarrow> mem" where
  "rcu_osci_off osci m =
    m(RCU_REG_VAL osci := m (RCU_REG_VAL osci) AND NOT (BIT (RCU_BIT_POS osci)))"

definition rcu_osci_bypass_mode_enable :: "u32 \<Rightarrow> mem \<Rightarrow> mem" where
  "rcu_osci_bypass_mode_enable osci m =
    (if osci = RCU_HXTAL then
       (let reg = m RCU_CTL;
            m = m(RCU_CTL := m RCU_CTL AND NOT RCU_CTL_HXTALEN)
         in m(RCU_CTL := reg OR RCU_CTL_HXTALBPS))
     else if osci = RCU_LXTAL then
       (let reg = m RCU_BDCTL;
            m = m(RCU_BDCTL := m RCU_BDCTL AND NOT RCU_BDCTL_LXTALEN)
         in m(RCU_BDCTL := reg OR RCU_BDCTL_LXTALBPS))
     else if (((osci = RCU_IRC8M) \<or> (osci = RCU_IRC48M)) \<or> (osci = RCU_IRC40K)) \<or> (osci = RCU_PLL_CK) then
       m
     else
       m)"

definition rcu_osci_bypass_mode_disable :: "u32 \<Rightarrow> mem \<Rightarrow> mem" where
  "rcu_osci_bypass_mode_disable osci m =
    (if osci = RCU_HXTAL then
       (let reg = m RCU_CTL;
            m = m(RCU_CTL := m RCU_CTL AND NOT RCU_CTL_HXTALEN)
         in m(RCU_CTL := reg AND NOT RCU_CTL_HXTALBPS))
     else if osci = RCU_LXTAL then
       (let reg = m RCU_BDCTL;
            m = m(RCU_BDCTL := m RCU_BDCTL AND NOT RCU_BDCTL_LXTALEN)
         in m(RCU_BDCTL := reg AND NOT RCU_BDCTL_LXTALBPS))
     else if (((osci = RCU_IRC8M) \<or> (osci = RCU_IRC48M)) \<or> (osci = RCU_IRC40K)) \<or> (osci = RCU_PLL_CK) then
       m
     else
       m)"

definition rcu_irc8m_adjust_value_set :: "u32 \<Rightarrow> mem \<Rightarrow> mem" where
  "rcu_irc8m_adjust_value_set irc8m_adjval m =
    (let reg = m RCU_CTL;
         reg = reg AND NOT RCU_CTL_IRC8MADJ
      in m(RCU_CTL := reg OR push_bit 3 (irc8m_adjval AND RCU_IRC8M_ADJUST_MASK)))"

definition rcu_hxtal_clock_monitor_enable :: "mem \<Rightarrow> mem" where
  "rcu_hxtal_clock_monitor_enable m =
    m(RCU_CTL := m RCU_CTL OR RCU_CTL_CKMEN)"

definition rcu_hxtal_clock_monitor_disable :: "mem \<Rightarrow> mem" where
  "rcu_hxtal_clock_monitor_disable m =
    m(RCU_CTL := m RCU_CTL AND NOT RCU_CTL_CKMEN)"

definition rcu_deepsleep_voltage_set :: "u32 \<Rightarrow> mem \<Rightarrow> mem" where
  "rcu_deepsleep_voltage_set dsvol m =
    (let dsvol = dsvol AND RCU_DSV_DSLPVS
      in m(RCU_DSV := dsvol))"

definition rcu_clock_freq_get :: "u32 \<Rightarrow> mem \<Rightarrow> u32" where
  "rcu_clock_freq_get clock m =
    (let ck_freq = 0;
         ahb_exp = ([0, 0, 0, 0, 0, 0, 0, 0, 1, 2, 3, 4, 6, 7, 8, 9] :: u8 list);
         apb1_exp = ([0, 0, 0, 0, 1, 2, 3, 4] :: u8 list);
         apb2_exp = ([0, 0, 0, 0, 1, 2, 3, 4] :: u8 list);
         sws = GET_BITS (m RCU_CFG0) 2 3;
         cksys_freq = (if sws = SEL_IRC8M then
              IRC8M_VALUE
            else if sws = SEL_HXTAL then
              HXTAL_VALUE
            else if sws = SEL_PLL then
              (let pllsel = m RCU_CFG0 AND RCU_CFG0_PLLSEL;
                   ck_src = (if pllsel = RCU_PLLSRC_HXTAL_IRC48M then
                        (let pllpresel = m RCU_CFG1 AND RCU_CFG1_PLLPRESEL;
                             ck_src = (if pllpresel = RCU_PLLPRESRC_HXTAL then HXTAL_VALUE else IRC48M_VALUE);
                             predv0sel = m RCU_CFG0 AND RCU_CFG0_PREDV0
                          in (if predv0sel = RCU_CFG0_PREDV0 then ck_src div 2 else ck_src))
                      else
                        IRC8M_VALUE div 2);
                   pllmf = GET_BITS (m RCU_CFG0) 18 21;
                   pllmf = (if (m RCU_CFG0 AND RCU_CFG0_PLLMF_4) \<noteq> 0 then pllmf OR 0x10 else pllmf);
                   pllmf = (if (m RCU_CFG0 AND RCU_CFG0_PLLMF_5) \<noteq> 0 then pllmf OR 0x20 else pllmf);
                   pllmf = (if pllmf < 15 then
                        pllmf + 2
                      else if (pllmf \<ge> 15) \<and> (pllmf \<le> 62) then pllmf + 1 else 63)
                in ck_src * pllmf)
            else
              IRC8M_VALUE);
         idx = GET_BITS (m RCU_CFG0) 4 7;
         clk_exp = (ucast (ahb_exp ! (unat idx)) :: u32);
         ahb_freq = drop_bit (unat clk_exp) cksys_freq;
         idx = GET_BITS (m RCU_CFG0) 8 10;
         clk_exp = (ucast (apb1_exp ! (unat idx)) :: u32);
         apb1_freq = drop_bit (unat clk_exp) ahb_freq;
         idx = GET_BITS (m RCU_CFG0) 11 13;
         clk_exp = (ucast (apb2_exp ! (unat idx)) :: u32);
         apb2_freq = drop_bit (unat clk_exp) ahb_freq
      in (if clock = CK_SYS then
            cksys_freq
          else if clock = CK_AHB then
            ahb_freq
          else if clock = CK_APB1 then apb1_freq else (if clock = CK_APB2 then apb2_freq else ck_freq)))"

definition rcu_all_reset_flag_clear :: "mem \<Rightarrow> mem" where
  "rcu_all_reset_flag_clear m =
    m(RCU_RSTSCK := m RCU_RSTSCK OR RCU_RSTSCK_RSTFC)"

definition rcu_interrupt_flag_get :: "u32 \<Rightarrow> mem \<Rightarrow> FlagStatus" where
  "rcu_interrupt_flag_get int_flag m =
    (if (m (RCU_REG_VAL int_flag) AND BIT (RCU_BIT_POS int_flag)) \<noteq> 0 then
       SET
     else
       RESET)"

definition rcu_interrupt_flag_clear :: "u32 \<Rightarrow> mem \<Rightarrow> mem" where
  "rcu_interrupt_flag_clear int_flag m =
    m(RCU_REG_VAL int_flag := m (RCU_REG_VAL int_flag) OR BIT (RCU_BIT_POS int_flag))"

definition rcu_interrupt_enable :: "u32 \<Rightarrow> mem \<Rightarrow> mem" where
  "rcu_interrupt_enable interrupt m =
    m(RCU_REG_VAL interrupt := m (RCU_REG_VAL interrupt) OR BIT (RCU_BIT_POS interrupt))"

definition rcu_interrupt_disable :: "u32 \<Rightarrow> mem \<Rightarrow> mem" where
  "rcu_interrupt_disable interrupt m =
    m(RCU_REG_VAL interrupt := m (RCU_REG_VAL interrupt) AND NOT (BIT (RCU_BIT_POS interrupt)))"

section \<open>Interfaces\<close>

text \<open>The functions that set and clear one bit named by a code, and those that replace a field.\<close>

interpretation rcu_clock: reg_bit "rcu_periph_clock_enable p" "rcu_periph_clock_disable p" "RCU_REG_VAL p" "BIT (RCU_BIT_POS p)"
  for p
  by unfold_locales (simp_all add: rcu_periph_clock_enable_def rcu_periph_clock_disable_def)

interpretation rcu_reset: reg_bit "rcu_periph_reset_enable p" "rcu_periph_reset_disable p" "RCU_REG_VAL p" "BIT (RCU_BIT_POS p)"
  for p
  by unfold_locales (simp_all add: rcu_periph_reset_enable_def rcu_periph_reset_disable_def)

interpretation rcu_osci: reg_bit "rcu_osci_on p" "rcu_osci_off p" "RCU_REG_VAL p" "BIT (RCU_BIT_POS p)" for p
  by unfold_locales (simp_all add: rcu_osci_on_def rcu_osci_off_def)

interpretation rcu_sys: reg_field rcu_system_clock_source_config RCU_CFG0 RCU_CFG0_SCS
  by unfold_locales (simp_all add: rcu_system_clock_source_config_def)

interpretation rcu_ahb: reg_field rcu_ahb_clock_config RCU_CFG0 RCU_CFG0_AHBPSC
  by unfold_locales (simp_all add: rcu_ahb_clock_config_def)

interpretation rcu_apb1: reg_field rcu_apb1_clock_config RCU_CFG0 RCU_CFG0_APB1PSC
  by unfold_locales (simp_all add: rcu_apb1_clock_config_def)

interpretation rcu_apb2: reg_field rcu_apb2_clock_config RCU_CFG0 RCU_CFG0_APB2PSC
  by unfold_locales (simp_all add: rcu_apb2_clock_config_def)

interpretation rcu_rtc: reg_field rcu_rtc_clock_config RCU_BDCTL RCU_BDCTL_RTCSRC
  by unfold_locales (simp_all add: rcu_rtc_clock_config_def)

text \<open>The order in which two bus prescalers are set does not matter.\<close>

lemma bus_prescalers_commute:
  assumes "v AND NOT RCU_CFG0_APB1PSC = 0" "w AND NOT RCU_CFG0_APB2PSC = 0"
  shows "rcu_apb1_clock_config v (rcu_apb2_clock_config w m) = rcu_apb2_clock_config w (rcu_apb1_clock_config v m)"
proof -
  have "(((m RCU_CFG0 AND NOT RCU_CFG0_APB2PSC) OR w) AND NOT RCU_CFG0_APB1PSC) OR v =
      (((m RCU_CFG0 AND NOT RCU_CFG0_APB1PSC) OR v) AND NOT RCU_CFG0_APB2PSC) OR w"
    by (rule field_writes_commute[OF _ assms(2,1)]) simp
  then show ?thesis by (simp add: rcu_apb1.cfg_eq rcu_apb2.cfg_eq)
qed

section \<open>The clock tree\<close>

lemma shift_le: "drop_bit n (x :: u32) \<le> x"
  by (simp add: word_le_nat_alt unat_drop_bit)

text \<open>The multiplier of the PLL is between 2 and 63.\<close>

lemma pll_factor: "unat (if p < (15 :: u32) then p + 2 else if 15 \<le> p \<and> p \<le> 62 then p + 1 else 63) \<le> 63"
proof -
  consider "unat p < 15" | "15 \<le> unat p" "unat p \<le> 62" | "62 < unat p" by linarith
  then show ?thesis
    using unat_plus_small[of p 2] unat_plus_small[of p 1] by cases (auto simp: word_less_nat_alt word_le_nat_alt)
qed

lemma if_bound: "unat a \<le> n \<Longrightarrow> unat b \<le> n \<Longrightarrow> unat (if c then a else b) \<le> n"
  by simp

lemma mult_bound:
  "unat (a :: u32) \<le> 48000000 \<Longrightarrow> unat (b :: u32) \<le> 63 \<Longrightarrow> unat (a * b) \<le> 48000000 * 63"
proof -
  assume "unat a \<le> 48000000" "unat b \<le> 63"
  then have le: "unat a * unat b \<le> 48000000 * 63" by (rule mult_le_mono)
  then have "unat (a * b) = unat a * unat b" by (intro unat_mult_lem[THEN iffD1]) simp
  then show ?thesis using le by simp
qed

lemma sys_clock_bound: "unat (rcu_clock_freq_get CK_SYS m) \<le> 48000000 * 63"
proof -
  have half: "unat ((if c then HXTAL_VALUE else IRC48M_VALUE) div 2) \<le> 48000000" for c by simp
  show ?thesis
    unfolding rcu_clock_freq_get_def Let_def simp_thms if_True
    by (rule if_bound, simp, rule if_bound, simp, rule if_bound, rule mult_bound[OF _ pll_factor])
      (intro if_bound half, simp_all)
qed

lemma bus_clock_order:
  "rcu_clock_freq_get CK_AHB m \<le> rcu_clock_freq_get CK_SYS m"
  "rcu_clock_freq_get CK_APB1 m \<le> rcu_clock_freq_get CK_AHB m"
  "rcu_clock_freq_get CK_APB2 m \<le> rcu_clock_freq_get CK_AHB m"
proof -
  have codes: "(CK_AHB = CK_SYS) = False" "(CK_APB1 = CK_SYS) = False" "(CK_APB2 = CK_SYS) = False"
    "(CK_APB1 = CK_AHB) = False" "(CK_APB2 = CK_AHB) = False" "(CK_APB2 = CK_APB1) = False" by simp_all
  show "rcu_clock_freq_get CK_AHB m \<le> rcu_clock_freq_get CK_SYS m"
    "rcu_clock_freq_get CK_APB1 m \<le> rcu_clock_freq_get CK_AHB m"
    "rcu_clock_freq_get CK_APB2 m \<le> rcu_clock_freq_get CK_AHB m"
    unfolding rcu_clock_freq_get_def Let_def by (simp_all only: codes simp_thms if_True if_False shift_le)
qed

lemma apb1_clock_bound: "unat (rcu_clock_freq_get CK_APB1 m) \<le> 48000000 * 63"
  using sys_clock_bound[of m] bus_clock_order(1,2)[of m] unfolding word_le_nat_alt by linarith

section \<open>Properties\<close>

text \<open>
  The clock frequencies the driver computes are consistent, whatever is in the configuration registers:
  the bus clocks are at most the clock of the processor bus, which is at most the system clock, and
  the system clock is at most 63 times 48 MHz, so that the product of the PLL never wraps around.
\<close>

lemma clock_freq_bounds:
  "unat (rcu_clock_freq_get CK_SYS m) \<le> 48000000 * 63 \<and>
   rcu_clock_freq_get CK_AHB m \<le> rcu_clock_freq_get CK_SYS m \<and>
   rcu_clock_freq_get CK_APB1 m \<le> rcu_clock_freq_get CK_AHB m \<and>
   rcu_clock_freq_get CK_APB2 m \<le> rcu_clock_freq_get CK_AHB m"
  by (intro conjI sys_clock_bound bus_clock_order)

text \<open>
  The reset pulse every \<^verbatim>\<open>deinit\<close> function gives leaves no peripheral in reset: afterwards the bit of the
  peripheral is clear, every other bit of the reset register and every other register is as before.
\<close>

lemma reset_pulse_released:
  "rcu_periph_reset_disable p (rcu_periph_reset_enable p m) =
     m(RCU_REG_VAL p := m (RCU_REG_VAL p) AND NOT (BIT (RCU_BIT_POS p)))"
  unfolding rcu_reset.off_after_on by (rule rcu_reset.off_eq)

end
