(* ===== verification/Gd32_Wdg.thy ===== *)
theory Gd32_Wdg
  imports Gd32_Rcu
begin

unbundle bit_operations_syntax

text \<open>
  Watchdogs and real time clock: gd32f30x_fwdgt.c, gd32f30x_wwdgt.c and gd32f30x_rtc.c.
\<close>

section \<open>Registers and constants\<close>

abbreviation FWDGT_CTL :: u32 where "FWDGT_CTL \<equiv> 0x40003000"
abbreviation FWDGT_PSC :: u32 where "FWDGT_PSC \<equiv> 0x40003004"
abbreviation FWDGT_RLD :: u32 where "FWDGT_RLD \<equiv> 0x40003008"
abbreviation FWDGT_STAT :: u32 where "FWDGT_STAT \<equiv> 0x4000300C"
abbreviation FWDGT_STAT_PUD :: u32 where "FWDGT_STAT_PUD \<equiv> 0x1"
abbreviation FWDGT_STAT_RUD :: u32 where "FWDGT_STAT_RUD \<equiv> 0x2"
abbreviation FWDGT_WRITEACCESS_ENABLE :: u32 where "FWDGT_WRITEACCESS_ENABLE \<equiv> 0x5555"
abbreviation FWDGT_WRITEACCESS_DISABLE :: u32 where "FWDGT_WRITEACCESS_DISABLE \<equiv> 0x0"
abbreviation FWDGT_KEY_RELOAD :: u32 where "FWDGT_KEY_RELOAD \<equiv> 0xAAAA"
abbreviation FWDGT_KEY_ENABLE :: u32 where "FWDGT_KEY_ENABLE \<equiv> 0xCCCC"
abbreviation FWDGT_PSC_TIMEOUT :: u32 where "FWDGT_PSC_TIMEOUT \<equiv> 0xFFFFF"
abbreviation FWDGT_RLD_TIMEOUT :: u32 where "FWDGT_RLD_TIMEOUT \<equiv> 0xFFFFF"
abbreviation RLD_RLD :: "u32 \<Rightarrow> u32" where
  "RLD_RLD regval \<equiv> BITS 0 11 AND push_bit 0 regval"
abbreviation RTC_INTEN :: u32 where "RTC_INTEN \<equiv> 0x40002800"
abbreviation RTC_CTL :: u32 where "RTC_CTL \<equiv> 0x40002804"
abbreviation RTC_PSCH :: u32 where "RTC_PSCH \<equiv> 0x40002808"
abbreviation RTC_PSCL :: u32 where "RTC_PSCL \<equiv> 0x4000280C"
abbreviation RTC_DIVH :: u32 where "RTC_DIVH \<equiv> 0x40002810"
abbreviation RTC_DIVL :: u32 where "RTC_DIVL \<equiv> 0x40002814"
abbreviation RTC_CNTH :: u32 where "RTC_CNTH \<equiv> 0x40002818"
abbreviation RTC_CNTL :: u32 where "RTC_CNTL \<equiv> 0x4000281C"
abbreviation RTC_ALRMH :: u32 where "RTC_ALRMH \<equiv> 0x40002820"
abbreviation RTC_ALRML :: u32 where "RTC_ALRML \<equiv> 0x40002824"
abbreviation RTC_CTL_RSYNF :: u32 where "RTC_CTL_RSYNF \<equiv> 0x8"
abbreviation RTC_CTL_CMF :: u32 where "RTC_CTL_CMF \<equiv> 0x10"
abbreviation RTC_CTL_LWOFF :: u32 where "RTC_CTL_LWOFF \<equiv> 0x20"
abbreviation RTC_DIVH_DIV :: u32 where "RTC_DIVH_DIV \<equiv> 0xF"
abbreviation RTC_HIGH_VALUE :: u32 where "RTC_HIGH_VALUE \<equiv> 0xF0000"
abbreviation RTC_LOW_VALUE :: u32 where "RTC_LOW_VALUE \<equiv> 0xFFFF"
abbreviation WWDGT_CTL :: u32 where "WWDGT_CTL \<equiv> 0x40002C00"
abbreviation WWDGT_CFG :: u32 where "WWDGT_CFG \<equiv> 0x40002C04"
abbreviation WWDGT_STAT :: u32 where "WWDGT_STAT \<equiv> 0x40002C08"
abbreviation WWDGT_CTL_WDGTEN :: u32 where "WWDGT_CTL_WDGTEN \<equiv> 0x80"
abbreviation WWDGT_CFG_EWIE :: u32 where "WWDGT_CFG_EWIE \<equiv> 0x200"
abbreviation WWDGT_STAT_EWIF :: u32 where "WWDGT_STAT_EWIF \<equiv> 0x1"
abbreviation CTL_CNT :: "u32 \<Rightarrow> u32" where
  "CTL_CNT regval \<equiv> BITS 0 6 AND push_bit 0 regval"
abbreviation CFG_WIN :: "u32 \<Rightarrow> u32" where
  "CFG_WIN regval \<equiv> BITS 0 6 AND push_bit 0 regval"

section \<open>Operations\<close>

subsection \<open>gd32f30x_fwdgt.c\<close>

definition fwdgt_write_enable :: "mem \<Rightarrow> mem" where
  "fwdgt_write_enable m =
    m(FWDGT_CTL := FWDGT_WRITEACCESS_ENABLE)"

definition fwdgt_write_disable :: "mem \<Rightarrow> mem" where
  "fwdgt_write_disable m =
    m(FWDGT_CTL := FWDGT_WRITEACCESS_DISABLE)"

definition fwdgt_enable :: "mem \<Rightarrow> mem" where
  "fwdgt_enable m =
    m(FWDGT_CTL := FWDGT_KEY_ENABLE)"

definition fwdgt_prescaler_value_config :: "(mem \<Rightarrow> mem) \<Rightarrow> u16 \<Rightarrow> mem \<Rightarrow> ErrStatus \<times> mem" where
  "fwdgt_prescaler_value_config hw prescaler_value m =
    (let m = m(FWDGT_CTL := FWDGT_WRITEACCESS_ENABLE);
         (ready, m) = poll_until (unat FWDGT_PSC_TIMEOUT) hw (\<lambda>m. m FWDGT_STAT AND FWDGT_STAT_PUD = 0) m
      in (if \<not> ready then (ERROR, m)
          else (SUCCESS, m(FWDGT_PSC := (ucast prescaler_value :: u32)))))"

definition fwdgt_reload_value_config :: "(mem \<Rightarrow> mem) \<Rightarrow> u16 \<Rightarrow> mem \<Rightarrow> ErrStatus \<times> mem" where
  "fwdgt_reload_value_config hw reload_value m =
    (let m = m(FWDGT_CTL := FWDGT_WRITEACCESS_ENABLE);
         (ready, m) = poll_until (unat FWDGT_RLD_TIMEOUT) hw (\<lambda>m. m FWDGT_STAT AND FWDGT_STAT_RUD = 0) m
      in (if \<not> ready then (ERROR, m)
          else (SUCCESS, m(FWDGT_RLD := RLD_RLD (ucast reload_value)))))"

definition fwdgt_counter_reload :: "mem \<Rightarrow> mem" where
  "fwdgt_counter_reload m =
    m(FWDGT_CTL := FWDGT_KEY_RELOAD)"

definition fwdgt_config :: "(mem \<Rightarrow> mem) \<Rightarrow> u16 \<Rightarrow> u8 \<Rightarrow> mem \<Rightarrow> ErrStatus \<times> mem" where
  "fwdgt_config hw reload_value prescaler_div m =
    (let m = m(FWDGT_CTL := FWDGT_WRITEACCESS_ENABLE);
         (ready, m) = poll_until (unat FWDGT_PSC_TIMEOUT) hw (\<lambda>m. m FWDGT_STAT AND FWDGT_STAT_PUD = 0) m
      in (if \<not> ready then (ERROR, m)
          else
            (let m = m(FWDGT_PSC := (ucast prescaler_div :: u32));
                 (ready, m) = poll_until (unat FWDGT_RLD_TIMEOUT) hw (\<lambda>m. m FWDGT_STAT AND FWDGT_STAT_RUD = 0) m
              in (if \<not> ready then (ERROR, m)
                  else
                    (let m = m(FWDGT_RLD := RLD_RLD (ucast reload_value));
                         m = m(FWDGT_CTL := FWDGT_KEY_RELOAD)
                      in (SUCCESS, m))))))"

definition fwdgt_flag_get :: "u16 \<Rightarrow> mem \<Rightarrow> FlagStatus" where
  "fwdgt_flag_get flag m =
    (if (m FWDGT_STAT AND (ucast flag :: u32)) \<noteq> 0 then SET else RESET)"

subsection \<open>gd32f30x_wwdgt.c\<close>

definition wwdgt_deinit :: "mem \<Rightarrow> mem" where
  "wwdgt_deinit m =
    (let m = rcu_periph_reset_enable RCU_WWDGTRST m
      in rcu_periph_reset_disable RCU_WWDGTRST m)"

definition wwdgt_enable :: "mem \<Rightarrow> mem" where
  "wwdgt_enable m =
    m(WWDGT_CTL := m WWDGT_CTL OR WWDGT_CTL_WDGTEN)"

definition wwdgt_counter_update :: "u16 \<Rightarrow> mem \<Rightarrow> mem" where
  "wwdgt_counter_update counter_value m =
    m(WWDGT_CTL := CTL_CNT (ucast counter_value :: u32))"

definition wwdgt_config :: "u16 \<Rightarrow> u16 \<Rightarrow> u32 \<Rightarrow> mem \<Rightarrow> mem" where
  "wwdgt_config counter' window prescaler m =
    (let m = m(WWDGT_CTL := CTL_CNT (ucast counter' :: u32))
      in m(WWDGT_CFG := CFG_WIN (ucast window :: u32) OR prescaler))"

definition wwdgt_flag_get :: "mem \<Rightarrow> FlagStatus" where
  "wwdgt_flag_get m =
    (if (m WWDGT_STAT AND WWDGT_STAT_EWIF) \<noteq> 0 then SET else RESET)"

definition wwdgt_flag_clear :: "mem \<Rightarrow> mem" where
  "wwdgt_flag_clear m =
    m(WWDGT_STAT := 0)"

definition wwdgt_interrupt_enable :: "mem \<Rightarrow> mem" where
  "wwdgt_interrupt_enable m =
    m(WWDGT_CFG := m WWDGT_CFG OR WWDGT_CFG_EWIE)"

subsection \<open>gd32f30x_rtc.c\<close>

definition rtc_interrupt_enable :: "u32 \<Rightarrow> mem \<Rightarrow> mem" where
  "rtc_interrupt_enable interrupt m =
    m(RTC_INTEN := m RTC_INTEN OR interrupt)"

definition rtc_interrupt_disable :: "u32 \<Rightarrow> mem \<Rightarrow> mem" where
  "rtc_interrupt_disable interrupt m =
    m(RTC_INTEN := m RTC_INTEN AND NOT interrupt)"

definition rtc_configuration_mode_enter :: "mem \<Rightarrow> mem" where
  "rtc_configuration_mode_enter m =
    m(RTC_CTL := m RTC_CTL OR RTC_CTL_CMF)"

definition rtc_configuration_mode_exit :: "mem \<Rightarrow> mem" where
  "rtc_configuration_mode_exit m =
    m(RTC_CTL := m RTC_CTL AND NOT RTC_CTL_CMF)"

definition rtc_lwoff_wait :: "(mem \<Rightarrow> mem) \<Rightarrow> mem \<Rightarrow> mem option" where
  "rtc_lwoff_wait hw m = poll_set hw RTC_CTL RTC_CTL_LWOFF m"

definition rtc_register_sync_wait :: "(mem \<Rightarrow> mem) \<Rightarrow> mem \<Rightarrow> mem option" where
  "rtc_register_sync_wait hw m =
    (let m = m(RTC_CTL := m RTC_CTL AND NOT RTC_CTL_RSYNF)
      in poll_set hw RTC_CTL RTC_CTL_RSYNF m)"

definition rtc_counter_get :: "mem \<Rightarrow> u32" where
  "rtc_counter_get m =
    (let temp = m RTC_CNTL
      in temp OR push_bit 16 (m RTC_CNTH))"

definition rtc_counter_set :: "u32 \<Rightarrow> mem \<Rightarrow> mem" where
  "rtc_counter_set cnt m =
    (let m = rtc_configuration_mode_enter m;
         m = m(RTC_CNTH := drop_bit 16 cnt);
         m = m(RTC_CNTL := cnt AND RTC_LOW_VALUE)
      in rtc_configuration_mode_exit m)"

definition rtc_prescaler_set :: "u32 \<Rightarrow> mem \<Rightarrow> mem" where
  "rtc_prescaler_set psc m =
    (let m = rtc_configuration_mode_enter m;
         m = m(RTC_PSCH := drop_bit 16 (psc AND RTC_HIGH_VALUE));
         m = m(RTC_PSCL := psc AND RTC_LOW_VALUE)
      in rtc_configuration_mode_exit m)"

definition rtc_alarm_config :: "u32 \<Rightarrow> mem \<Rightarrow> mem" where
  "rtc_alarm_config alarm m =
    (let m = rtc_configuration_mode_enter m;
         m = m(RTC_ALRMH := drop_bit 16 alarm);
         m = m(RTC_ALRML := alarm AND RTC_LOW_VALUE)
      in rtc_configuration_mode_exit m)"

definition rtc_divider_get :: "mem \<Rightarrow> u32" where
  "rtc_divider_get m =
    (let temp = push_bit 16 (m RTC_DIVH AND RTC_DIVH_DIV)
      in temp OR m RTC_DIVL)"

definition rtc_flag_get :: "u32 \<Rightarrow> mem \<Rightarrow> FlagStatus" where
  "rtc_flag_get flag m =
    (if (m RTC_CTL AND flag) \<noteq> 0 then SET else RESET)"

definition rtc_flag_clear :: "u32 \<Rightarrow> mem \<Rightarrow> mem" where
  "rtc_flag_clear flag m =
    m(RTC_CTL := m RTC_CTL AND NOT flag)"

section \<open>Interfaces\<close>

interpretation rtc_int: reg_bit "rtc_interrupt_enable i" "rtc_interrupt_disable i" RTC_INTEN i for i
  by unfold_locales (simp_all add: rtc_interrupt_enable_def rtc_interrupt_disable_def)

interpretation rtc_cm: reg_bit rtc_configuration_mode_enter rtc_configuration_mode_exit RTC_CTL RTC_CTL_CMF
  by unfold_locales (simp_all add: rtc_configuration_mode_enter_def rtc_configuration_mode_exit_def)

section \<open>Properties\<close>

lemma split_join_16: "(cnt AND 0xFFFF) OR push_bit 16 (drop_bit 16 cnt) = (cnt :: u32)"
proof (rule bit_word_eqI)
  fix n assume "n < LENGTH(32)"
  have m: "(0xFFFF :: u32) = mask 16" by (simp add: mask_eq_exp_minus_1)
  show "bit ((cnt AND 0xFFFF) OR push_bit 16 (drop_bit 16 cnt)) n = bit cnt n"
    unfolding m using \<open>n < LENGTH(32)\<close> by (cases "n < 16") (simp_all add: bit_simps)
qed

text \<open>
  Setting the counter of the real time clock and reading it is a round trip for every 32-bit value,
  although the registers hold 16 bits each, and the clock leaves the configuration mode again with all other bits
  of its control register unchanged.
\<close>

lemma rtc_counter_round_trip:
  "rtc_counter_get (rtc_counter_set cnt m) = cnt \<and>
   rtc_counter_set cnt m RTC_CTL = m RTC_CTL AND NOT RTC_CTL_CMF"
  unfolding rtc_counter_get_def rtc_counter_set_def Let_def rtc_cm.on_eq rtc_cm.off_eq
  using split_join_16[of cnt] or_and_not_cancel(1)[of "m RTC_CTL" RTC_CTL_CMF] by simp

text \<open>The registers when the wait for the prescaler is over, and when the wait for the reload value is over.\<close>

abbreviation prescaler_wait :: "(mem \<Rightarrow> mem) \<Rightarrow> mem \<Rightarrow> bool \<times> mem" where
  "prescaler_wait hw m \<equiv> poll_until 0xFFFFF hw (\<lambda>m. m FWDGT_STAT AND FWDGT_STAT_PUD = 0) (m(FWDGT_CTL := FWDGT_WRITEACCESS_ENABLE))"

abbreviation reload_wait :: "(mem \<Rightarrow> mem) \<Rightarrow> u8 \<Rightarrow> mem \<Rightarrow> bool \<times> mem" where
  "reload_wait hw psc m \<equiv> poll_until 0xFFFFF hw (\<lambda>m. m FWDGT_STAT AND FWDGT_STAT_RUD = 0) (m(FWDGT_PSC := ucast psc))"

lemma fwdgt_config_cases:
  "fwdgt_config hw reload psc m =
     (if \<not> fst (prescaler_wait hw m) then (ERROR, snd (prescaler_wait hw m))
      else if \<not> fst (reload_wait hw psc (snd (prescaler_wait hw m))) then (ERROR, snd (reload_wait hw psc (snd (prescaler_wait hw m))))
      else (SUCCESS, (snd (reload_wait hw psc (snd (prescaler_wait hw m))))(FWDGT_RLD := RLD_RLD (ucast reload), FWDGT_CTL := FWDGT_KEY_RELOAD)))"
  unfolding fwdgt_config_def Let_def by (simp add: case_prod_unfold)

text \<open>
  \<^verbatim>\<open>fwdgt_config\<close> succeeds exactly if the watchdog reports in time that it is not busy with a new prescaler and
  then not busy with a new reload value; in that case it ends with the reload value of at most 12 bits in
  its register and has restarted the counter, so the watchdog cannot bite while it is being reconfigured. Otherwise it
  returns \<^verbatim>\<open>ERROR\<close> with the counter not restarted by it.
\<close>

lemma fwdgt_config_outcome:
  fixes m :: mem and hw :: "mem \<Rightarrow> mem" and psc :: u8
  shows "(fst (fwdgt_config hw reload psc m) = SUCCESS \<longleftrightarrow>
      (\<exists>i. 0 < i \<and> i \<le> 0xFFFFF \<and> ((hw ^^ i) (m(FWDGT_CTL := FWDGT_WRITEACCESS_ENABLE))) FWDGT_STAT AND FWDGT_STAT_PUD = 0) \<and>
      (\<exists>i. 0 < i \<and> i \<le> 0xFFFFF \<and> ((hw ^^ i) ((snd (prescaler_wait hw m))(FWDGT_PSC := ucast psc))) FWDGT_STAT AND FWDGT_STAT_RUD = 0)) \<and>
    (fst (fwdgt_config hw reload psc m) = SUCCESS \<longrightarrow>
      snd (fwdgt_config hw reload psc m) FWDGT_RLD = ucast reload AND 0xFFF \<and>
      snd (fwdgt_config hw reload psc m) FWDGT_CTL = FWDGT_KEY_RELOAD)"
proof -
  have r: "(RLD_RLD (ucast reload) :: u32) = ucast reload AND 0xFFF" by (simp add: and.commute)
  show ?thesis
    unfolding fwdgt_config_cases r
    using poll_until_iff[of "0xFFFFF" hw "\<lambda>m. m FWDGT_STAT AND FWDGT_STAT_PUD = 0"]
      poll_until_iff[of "0xFFFFF" hw "\<lambda>m. m FWDGT_STAT AND FWDGT_STAT_RUD = 0"]
    by auto
qed

end
