(* ===== verification/HalTime.thy ===== *)
theory HalTime
  imports Gd32_Wdg
begin

text \<open>
  Time and the watchdog: \<^verbatim>\<open>sources/common/Hardware/Timer.cpp\<close> and \<^verbatim>\<open>sources/common/Hardware/HAL/HAL_FWDGT.cpp\<close>.
  The millisecond counter is a 32-bit word that the tick interrupt increases, so it wraps around after 49
  days. A function that reads it once takes the value as its argument; one that waits takes the
  function \<open>clock\<close>, the value at each of its reads.
\<close>

section \<open>Time meters\<close>

record time_meter =
  time_reset :: u32
  time_response :: u32

definition meter_Reset :: "u32 \<Rightarrow> time_meter \<Rightarrow> time_meter" where
  "meter_Reset now t = t\<lparr>time_reset := now, time_response := now\<rparr>"

definition ElapsedTime :: "u32 \<Rightarrow> time_meter \<Rightarrow> u32" where
  "ElapsedTime now t = now - time_reset t"

definition SetResponseTime :: "u32 \<Rightarrow> u32 \<Rightarrow> time_meter \<Rightarrow> time_meter" where
  "SetResponseTime now time t = t\<lparr>time_response := now + time\<rparr>"

definition IsFinished :: "u32 \<Rightarrow> time_meter \<Rightarrow> bool" where
  "IsFinished now t \<longleftrightarrow> time_response t \<le> now"

section \<open>Watchdog\<close>

abbreviation FWDGT_PSC_DIV4 :: u8 where "FWDGT_PSC_DIV4 \<equiv> 0"
abbreviation FWDGT_PSC_DIV256 :: u8 where "FWDGT_PSC_DIV256 \<equiv> 6"

definition ToRunningMode :: "(mem \<Rightarrow> mem) \<Rightarrow> mem \<Rightarrow> mem" where
  "ToRunningMode hw m = snd (fwdgt_config hw 0xFFF FWDGT_PSC_DIV4 m)"

definition ToUpgradeMode :: "(mem \<Rightarrow> mem) \<Rightarrow> mem \<Rightarrow> mem" where
  "ToUpgradeMode hw m = snd (fwdgt_config hw 0xFFF FWDGT_PSC_DIV256 m)"

definition HAL_FWDGT_Init :: "(mem \<Rightarrow> mem) \<Rightarrow> mem \<Rightarrow> mem" where
  "HAL_FWDGT_Init hw m = fwdgt_enable (ToRunningMode hw m)"

definition HAL_FWDGT_Update :: "mem \<Rightarrow> mem" where
  "HAL_FWDGT_Update m = fwdgt_counter_reload m"

section \<open>Waiting\<close>

text \<open>The result of a wait is the number of reads of the counter and the state after it; \<open>None\<close> if it never ends.\<close>

partial_function (option) delay_loop :: "(nat \<Rightarrow> u32) \<Rightarrow> u32 \<Rightarrow> nat \<Rightarrow> mem \<Rightarrow> (nat \<times> mem) option" where
  "delay_loop clock time_end i m =
    (if clock i < time_end then delay_loop clock time_end (i + 1) (HAL_FWDGT_Update m) else Some (i, m))"

definition DelayMS :: "(nat \<Rightarrow> u32) \<Rightarrow> u32 \<Rightarrow> mem \<Rightarrow> (nat \<times> mem) option" where
  "DelayMS clock ms m = delay_loop clock (clock 0 + ms) 1 m"

partial_function (option) wait_loop ::
    "('s \<Rightarrow> 's option) \<Rightarrow> (nat \<Rightarrow> u32) \<Rightarrow> time_meter \<Rightarrow> u32 \<Rightarrow> nat \<Rightarrow> 's \<Rightarrow> (nat \<times> 's) option" where
  "wait_loop modem_update clock t end_time i s =
    (if ElapsedTime (clock i) t < end_time
     then (case modem_update s of None \<Rightarrow> None | Some s \<Rightarrow> wait_loop modem_update clock t end_time (i + 1) s)
     else Some (i, s))"

definition meter_Wait ::
    "('s \<Rightarrow> 's option) \<Rightarrow> (nat \<Rightarrow> u32) \<Rightarrow> time_meter \<Rightarrow> u32 \<Rightarrow> 's \<Rightarrow> (nat \<times> 's) option" where
  "meter_Wait modem_update clock t time s =
    wait_loop modem_update clock t (ElapsedTime (clock 0) t + time) 1 s"

lemma delay_loop_Some: "delay_loop clock time_end i m = Some (j, m') \<Longrightarrow> time_end \<le> clock j"
  by (rule delay_loop.raw_induct[of "\<lambda>clock time_end i m (j, m'). time_end \<le> clock j", where y = "(j, m')", unfolded split])
    (auto split: if_splits)

lemma delay_loop_ends:
  assumes "time_end \<le> clock (i + n)"
  shows "\<exists>j m'. delay_loop clock time_end i m = Some (j, m')"
  using assms
proof (induction n arbitrary: i m)
  case 0
  then show ?case by (subst delay_loop.simps) auto
next
  case (Suc n)
  then show ?case using Suc.IH[of "i + 1"] by (subst delay_loop.simps) auto
qed

lemma wrapped_sum_less:
  assumes "2 ^ 32 \<le> unat now + unat (ms :: u32)"
  shows "now + ms < now"
proof -
  have "unat (now + ms) = (unat now + unat ms) mod 2 ^ 32" by (simp add: unat_word_ariths)
  also have "\<dots> = unat now + unat ms - 2 ^ 32"
    using assms unat_u32_less[of now] unat_u32_less[of ms] by (subst le_mod_geq) simp_all
  finally show ?thesis using unat_u32_less[of ms] assms by (simp add: word_less_nat_alt)
qed

lemma sum_in_range: "unat now + unat (ms :: u32) < 2 ^ 32 \<Longrightarrow> unat (now + ms) = unat now + unat ms"
  by (rule unat_add_lem[THEN iffD1]) simp

section \<open>Properties\<close>

text \<open>
  As long as the sum of the counter and the delay fits into 32 bits, \<^verbatim>\<open>DelayMS\<close> returns as soon as the
  counter reaches the sum and never before; if the sum wraps around, it returns at the first read, without
  any delay, unless the counter has wrapped as well.
\<close>

lemma DelayMS_waits:
  shows "(unat (clock 0) + unat ms < 2 ^ 32 \<longrightarrow> DelayMS clock ms m = Some (j, m') \<longrightarrow> unat (clock 0) + unat ms \<le> unat (clock j)) \<and>
     (0 < n \<and> clock 0 + ms \<le> clock n \<longrightarrow> (\<exists>r. DelayMS clock ms m = Some r)) \<and>
     (2 ^ 32 \<le> unat (clock 0) + unat ms \<and> clock 0 \<le> clock 1 \<longrightarrow> DelayMS clock ms m = Some (1, m))"
proof (intro conjI impI)
  assume "unat (clock 0) + unat ms < 2 ^ 32" "DelayMS clock ms m = Some (j, m')"
  then show "unat (clock 0) + unat ms \<le> unat (clock j)"
    using delay_loop_Some[of clock "clock 0 + ms" 1 m j m'] sum_in_range[of "clock 0" ms]
    by (simp add: DelayMS_def word_le_nat_alt)
next
  assume "0 < n \<and> clock 0 + ms \<le> clock n"
  then show "\<exists>r. DelayMS clock ms m = Some r"
    using delay_loop_ends[of "clock 0 + ms" clock 1 "n - 1" m] unfolding DelayMS_def by auto
next
  assume a: "2 ^ 32 \<le> unat (clock 0) + unat ms \<and> clock 0 \<le> clock 1"
  have "\<not> clock 1 < clock 0 + ms" using wrapped_sum_less[of "clock 0" ms] a by auto
  then show "DelayMS clock ms m = Some (1, m)" unfolding DelayMS_def by (subst delay_loop.simps) simp
qed

text \<open>
  A time set with \<^verbatim>\<open>SetResponseTime\<close> counts as over exactly from the moment it has passed if the sum fits into
  32 bits; if the sum wraps around, it counts as over at once. \<^verbatim>\<open>ElapsedTime\<close> is right in both cases.
\<close>

lemma response_time:
  assumes "unat now \<le> unat later"
  shows "(unat now + unat time < 2 ^ 32 \<longrightarrow>
      IsFinished later (SetResponseTime now time t) = (unat time \<le> unat later - unat now)) \<and>
     (2 ^ 32 \<le> unat now + unat time \<longrightarrow> IsFinished later (SetResponseTime now time t)) \<and>
     unat (ElapsedTime later (meter_Reset now t)) = unat later - unat now"
proof (intro conjI impI)
  assume "unat now + unat time < 2 ^ 32"
  then show "IsFinished later (SetResponseTime now time t) = (unat time \<le> unat later - unat now)"
    using sum_in_range[of now time] assms by (auto simp: IsFinished_def SetResponseTime_def word_le_nat_alt)
next
  assume "2 ^ 32 \<le> unat now + unat time"
  then show "IsFinished later (SetResponseTime now time t)"
    using wrapped_sum_less[of now time] assms by (simp add: IsFinished_def SetResponseTime_def word_le_nat_alt word_less_nat_alt)
next
  show "unat (ElapsedTime later (meter_Reset now t)) = unat later - unat now"
    using assms by (simp add: ElapsedTime_def meter_Reset_def unat_sub word_le_nat_alt)
qed

end
