(* ===== verification/Loader.thy ===== *)
theory Loader
  imports Programmer ReaderFTP HalTime
begin

unbundle bit_operations_syntax

text \<open>
  The boot loader's update procedure: \<^verbatim>\<open>sources/Loader/src/Loader.cpp\<close>,
  \<^verbatim>\<open>sources/Loader/src/Modem/SIM868.cpp\<close> and \<^verbatim>\<open>sources/Loader/src/Modem/Updater.cpp\<close>.

  The static variables of these files are one record. A step is one call of \<^verbatim>\<open>SIM868::Update\<close> from the
  main loop: \<open>now\<close> is the millisecond counter during the call and \<open>answer\<close> the line received from the
  modem. The commands sent to the modem are collected in \<open>l_out\<close>. \<open>None\<close> is a store outside an
  array, of the programmer, of a word of the answer or of the signal level, or a call that does not return.
\<close>

section \<open>State of the loader\<close>

datatype upd_state = IDLE | NEED_SAPBR_3_GPRS | NEED_SAPBR_3_APN | NEED_SAPBR_3_USER | NEED_SAPBR_3_PWD
  | NEED_SAPBR_1_1 | NEED_FTPCID | NEED_FTPSERV | NEED_FTPUN | NEED_FTPPW | NEED_FTPGETPATH
  | NEED_SET_NAME_FIRMWARE | NEED_REQUEST_CONNECT | NEED_WAIT_CONNECT | GET_BYTES_VER | GET_BYTES_CRC
  | GET_BYTES_FIRMWARE | COMPLETED

datatype sim_state = START | WAIT_ATE0 | WAIT_BAUDRADE | WAIT_GSMBUSY | WAIT_CREG_INIT | WAIT_REGISTRATION
  | WAIT_IP_INITIAL | RUNNING_UPDATER

record 'h loader =
  l_state :: upd_state
  l_meter :: time_meter
  l_version :: u32
  l_source_crc :: u32
  l_crc :: u32
  l_sim :: sim_state
  l_sim_meter :: time_meter
  l_signal :: string
  l_reader :: reader
  l_prog :: "'h programmer"
  l_regs :: mem
  l_out :: "string list"

definition Transmit :: "string \<Rightarrow> 'h loader \<Rightarrow> 'h loader" where
  "Transmit msg l = l\<lparr>l_out := l_out l @ [msg]\<rparr>"

definition SIM868_Reset :: "'h loader \<Rightarrow> 'h loader" where
  "SIM868_Reset l = l\<lparr>l_sim := START\<rparr>"

definition Updater_Reset :: "'h loader \<Rightarrow> 'h loader" where
  "Updater_Reset l = l\<lparr>l_state := IDLE\<rparr>"

definition Loader_Reset :: "'h loader \<Rightarrow> 'h loader" where
  "Loader_Reset l = Updater_Reset (SIM868_Reset l)"

section \<open>Updater\<close>

definition SetState :: "u32 \<Rightarrow> upd_state \<Rightarrow> 'h loader \<Rightarrow> 'h loader" where
  "SetState now st l = l\<lparr>l_state := st, l_meter := meter_Reset now (l_meter l)\<rparr>"

definition MeterIsRunning :: "u32 \<Rightarrow> u32 \<Rightarrow> 'h loader \<Rightarrow> bool \<times> 'h loader" where
  "MeterIsRunning now time l =
    (if ElapsedTime now (l_meter l) < time then (True, l) else (False, Loader_Reset l))"

definition IsCompleted :: "'h loader \<Rightarrow> bool" where
  "IsCompleted l \<longleftrightarrow> l_state l = COMPLETED"

definition InModeReceiveDataFromFTP :: "'h loader \<Rightarrow> bool" where
  "InModeReceiveDataFromFTP l \<longleftrightarrow>
     l_state l = GET_BYTES_VER \<or> l_state l = GET_BYTES_CRC \<or> l_state l = GET_BYTES_FIRMWARE"

definition CallbackByteFromFTP :: "char \<Rightarrow> 'h loader \<Rightarrow> 'h loader option" where
  "CallbackByteFromFTP symbol l =
    (case AppendByte symbol (l_reader l) of
       None \<Rightarrow> None
     | Some (r, out) \<Rightarrow> Some (l\<lparr>l_reader := r, l_out := l_out l @ out\<rparr>))"

definition ftp_request :: "int \<Rightarrow> 'h loader \<Rightarrow> 'h loader" where
  "ftp_request n l = (case ReceiveBytes n (l_reader l) of (r, out) \<Rightarrow> l\<lparr>l_reader := r, l_out := l_out l @ out\<rparr>)"

text \<open>\<^verbatim>\<open>memcpy(&x, ReaderFTP::buffer_data, 4)\<close>, and a byte of the buffer as the programmer sees it.\<close>

definition data_byte :: "reader \<Rightarrow> nat \<Rightarrow> u8" where
  "data_byte r i = of_char (buffer_data r ! i)"

definition data_word :: "reader \<Rightarrow> u32" where
  "data_word r = data32 (data_byte r) 0"

text \<open>The cases that wait for \<^verbatim>\<open>OK\<close>, set the next state and send the next command.\<close>

definition upd_on_OK :: "u32 \<Rightarrow> u32 \<Rightarrow> string \<Rightarrow> upd_state \<Rightarrow> string \<Rightarrow> 'h loader \<Rightarrow> 'h loader" where
  "upd_on_OK now time answer st command l =
    (let (running, l) = MeterIsRunning now time l
      in (if running then (if answer = ''OK'' then Transmit command (SetState now st l) else l) else l))"

partial_function (option) copy_until :: "'h chip \<Rightarrow> u32 \<Rightarrow> nat \<Rightarrow> 'h programmer \<Rightarrow> 'h programmer option" where
  "copy_until c source_crc n p =
    (case CopyFirmware c p of
       None \<Rightarrow> None
     | Some p \<Rightarrow> (if source_crc \<noteq> CalculateCRC (flash (rom p)) ADDR_APPLICATION n
                  then copy_until c source_crc n p else Some p))"

text \<open>The case \<^verbatim>\<open>GET_BYTES_FIRMWARE\<close> after the file is complete, and for one more block.\<close>

definition finish_firmware :: "'h chip \<Rightarrow> 'h loader \<Rightarrow> 'h loader option" where
  "finish_firmware c l =
    (case WriteBytes c (data_byte (l_reader l)) (pointer_data (l_reader l)) (l_prog l) of
       None \<Rightarrow> None
     | Some p \<Rightarrow>
    (case CloseSession c p of
       None \<Rightarrow> None
     | Some p \<Rightarrow>
        (let written = WrittenBytes p;
             crc = CalculateCRC (flash (rom p)) ADDR_STORAGE written;
             l = l\<lparr>l_prog := p, l_crc := crc\<rparr>
          in (if crc = l_source_crc l then
                (case copy_until c (l_source_crc l) written p of
                   None \<Rightarrow> None
                 | Some p \<Rightarrow> Some (l\<lparr>l_prog := p, l_state := COMPLETED\<rparr>))
              else Some (Loader_Reset l)))))"

definition firmware_block :: "'h chip \<Rightarrow> u32 \<Rightarrow> 'h loader \<Rightarrow> 'h loader option" where
  "firmware_block c now l =
    (case WriteBytes c (data_byte (l_reader l)) (pointer_data (l_reader l)) (l_prog l) of
       None \<Rightarrow> None
     | Some p \<Rightarrow> Some (ftp_request (int SIZE_DATA_BUFFER) (l\<lparr>l_prog := p, l_meter := meter_Reset now (l_meter l)\<rparr>)))"

definition Updater_Update ::
    "'h chip \<Rightarrow> (mem \<Rightarrow> mem) \<Rightarrow> u32 \<Rightarrow> string \<Rightarrow> 'h loader \<Rightarrow> 'h loader option" where
  "Updater_Update c hw now answer l =
    (case l_state l of
       IDLE \<Rightarrow> Some (l\<lparr>l_state := NEED_SAPBR_3_GPRS\<rparr>)
     | NEED_SAPBR_3_GPRS \<Rightarrow>
         Some (Transmit (''AT+SAPBR=3,1,'' @ quoted ''CONTYPE'' @ '','' @ quoted ''GPRS'') (SetState now NEED_SAPBR_3_APN l))
     | NEED_SAPBR_3_APN \<Rightarrow>
         Some (upd_on_OK now 85000 answer NEED_SAPBR_3_USER
           (''AT+SAPBR=3,1,'' @ quoted ''APN'' @ '','' @ quoted ''internet'') l)
     | NEED_SAPBR_3_USER \<Rightarrow>
         Some (upd_on_OK now 85000 answer NEED_SAPBR_3_PWD (''AT+SAPBR=3,1,'' @ quoted ''USER'' @ '','' @ quoted []) l)
     | NEED_SAPBR_3_PWD \<Rightarrow>
         Some (upd_on_OK now 85000 answer NEED_SAPBR_1_1 (''AT+SAPBR=3,1,'' @ quoted ''PWD'' @ '','' @ quoted []) l)
     | NEED_SAPBR_1_1 \<Rightarrow> Some (upd_on_OK now 85000 answer NEED_FTPCID ''AT+SAPBR=1,1'' l)
     | NEED_FTPCID \<Rightarrow> Some (upd_on_OK now 85000 answer NEED_FTPSERV ''AT+FTPCID=1'' l)
     | NEED_FTPSERV \<Rightarrow>
         Some (upd_on_OK now 10000 answer NEED_FTPUN (''AT+FTPSERV='' @ quoted ''s92153gg.beget.tech'') l)
     | NEED_FTPUN \<Rightarrow> Some (upd_on_OK now 10000 answer NEED_FTPPW (''AT+FTPUN='' @ quoted ''s92153gg_1'') l)
     | NEED_FTPPW \<Rightarrow> Some (upd_on_OK now 10000 answer NEED_FTPGETPATH (''AT+FTPPW='' @ quoted ''Qwerty123!'') l)
     | NEED_FTPGETPATH \<Rightarrow>
         Some (upd_on_OK now 10000 answer NEED_SET_NAME_FIRMWARE (''AT+FTPGETPATH='' @ quoted ''/'') l)
     | NEED_SET_NAME_FIRMWARE \<Rightarrow>
         Some (upd_on_OK now 10000 answer NEED_REQUEST_CONNECT (''AT+FTPGETNAME='' @ quoted ''USKD.frm'') l)
     | NEED_REQUEST_CONNECT \<Rightarrow> Some (upd_on_OK now 10000 answer NEED_WAIT_CONNECT ''AT+FTPGET=1'' l)
     | NEED_WAIT_CONNECT \<Rightarrow>
         (let (running, l) = MeterIsRunning now 75000 l
           in (if running then
                 map_option (\<lambda>w. if w = ''+FTPGET'' then
                      (if answer = ''+FTPGET: 1,1''
                       then ftp_request 4 ((SetState now GET_BYTES_VER l)\<lparr>l_crc := 0, l_version := 0\<rparr>)
                       else if answer = ''+FTPGET: 1,77'' then l\<lparr>l_state := COMPLETED\<rparr>
                       else l)
                    else l) (GetWord answer 1)
               else Some l))
     | GET_BYTES_VER \<Rightarrow>
         (let (running, l) = MeterIsRunning now 75000 l
           in Some (if running \<and> requested_bytes_received (l_reader l)
                    then ftp_request 4 (SetState now GET_BYTES_CRC (l\<lparr>l_version := data_word (l_reader l)\<rparr>))
                    else l))
     | GET_BYTES_CRC \<Rightarrow>
         (let (running, l) = MeterIsRunning now 75000 l
           in Some (if running \<and> requested_bytes_received (l_reader l) then
                      (let l = l\<lparr>l_source_crc := data_word (l_reader l)\<rparr>;
                           l = l\<lparr>l_prog := Prepare c ADDR_STORAGE (l_prog l)\<rparr>;
                           l = SetState now GET_BYTES_FIRMWARE l;
                           l = l\<lparr>l_regs := ToUpgradeMode hw (l_regs l)\<rparr>;
                           l = ftp_request (int SIZE_DATA_BUFFER) l
                        in l\<lparr>l_reader := (l_reader l)\<lparr>received_FTPGET_1_0 := False\<rparr>\<rparr>)
                    else l))
     | GET_BYTES_FIRMWARE \<Rightarrow>
         (let (running, l) = MeterIsRunning now 75000 l
           in (if running then
                 (if received_FTPGET_1_0 (l_reader l) then finish_firmware c l
                  else if requested_bytes_received (l_reader l) then firmware_block c now l
                  else Some l)
               else Some l))
     | COMPLETED \<Rightarrow> Some l)"

section \<open>SIM868 of the loader\<close>

definition sim_Set :: "u32 \<Rightarrow> sim_state \<Rightarrow> 'h loader \<Rightarrow> 'h loader" where
  "sim_Set now st l = l\<lparr>l_sim := st, l_sim_meter := meter_Reset now (l_sim_meter l)\<rparr>"

definition sim_MeterIsRunning :: "u32 \<Rightarrow> u32 \<Rightarrow> 'h loader \<Rightarrow> bool \<times> 'h loader" where
  "sim_MeterIsRunning now time l =
    (if ElapsedTime now (l_sim_meter l) \<le> time then (True, l) else (False, Loader_Reset l))"

definition ProcessUnsolicited :: "string \<Rightarrow> 'h loader \<Rightarrow> (bool \<times> 'h loader) option" where
  "ProcessUnsolicited answer l =
    (case GetWord answer 1 of
       None \<Rightarrow> None
     | Some first_word \<Rightarrow>
         (if answer = ''CLOSED'' then Some (True, Loader_Reset l)
          else if first_word = ''+CSQ'' then
            (case GetWord answer 2 of
               None \<Rightarrow> None
             | Some w \<Rightarrow> (if length w < 16 then Some (True, l\<lparr>l_signal := w\<rparr>) else None))
          else if answer = ''SEND FAIL'' then Some (True, Loader_Reset l)
          else if answer = ''SEND OK'' then Some (True, l)
          else if first_word = ''+IPD'' then Some (False, l)
          else Some (False, l)))"

text \<open>A case that waits for a line and then takes the next state and sends a command.\<close>

definition sim_on :: "u32 \<Rightarrow> u32 \<Rightarrow> bool \<Rightarrow> sim_state \<Rightarrow> string \<Rightarrow> 'h loader \<Rightarrow> 'h loader" where
  "sim_on now time expected st command l =
    (let (running, l) = sim_MeterIsRunning now time l
      in (if running then (if expected then Transmit command (sim_Set now st l) else l) else l))"

definition registered :: "string \<Rightarrow> bool option" where
  "registered answer =
    (case GetWord answer 1 of
       None \<Rightarrow> None
     | Some first_word \<Rightarrow>
         (if first_word = ''+CREG'' then
            (case GetWord answer 2 of
               None \<Rightarrow> None
             | Some w \<Rightarrow> (let stat = (of_char (at w 0) :: u8) AND 0x0F in Some (stat = 1 \<or> stat = 5)))
          else Some False))"

definition SIM868_Update ::
    "'h chip \<Rightarrow> (mem \<Rightarrow> mem) \<Rightarrow> u32 \<Rightarrow> string \<Rightarrow> 'h loader \<Rightarrow> 'h loader option" where
  "SIM868_Update c hw now answer l =
    (case ProcessUnsolicited answer l of
       None \<Rightarrow> None
     | Some (unsolicited, l) \<Rightarrow>
         (if unsolicited then Some l
          else
            (case l_sim l of
               START \<Rightarrow> Some ((sim_Set now WAIT_ATE0 (Transmit ''ATE0'' l))\<lparr>l_signal := ''0''\<rparr>)
             | WAIT_ATE0 \<Rightarrow> Some (sim_on now 10000 (answer = ''OK'') WAIT_BAUDRADE ''AT+IPR=115200'' l)
             | WAIT_BAUDRADE \<Rightarrow> Some (sim_on now 10000 (answer = ''RDY'') WAIT_GSMBUSY ''AT+GSMBUSY=1'' l)
             | WAIT_GSMBUSY \<Rightarrow> Some (sim_on now 10000 (answer = ''OK'') WAIT_CREG_INIT ''AT+CREG=1'' l)
             | WAIT_CREG_INIT \<Rightarrow>
                 (let (running, l) = sim_MeterIsRunning now 10000 l
                   in Some (if running \<and> answer = ''OK'' then sim_Set now WAIT_REGISTRATION l else l))
             | WAIT_REGISTRATION \<Rightarrow>
                 (let (running, l) = sim_MeterIsRunning now 60000 l
                   in (if running then
                         map_option (\<lambda>r. if r then Transmit ''AT+CIPSTATUS'' (sim_Set now WAIT_IP_INITIAL l) else l)
                           (registered answer)
                       else Some l))
             | WAIT_IP_INITIAL \<Rightarrow>
                 (let (running, l) = sim_MeterIsRunning now 10000 l
                   in (if running then
                         map_option (\<lambda>w. if w = ''INITIAL'' then l\<lparr>l_sim := RUNNING_UPDATER\<rparr> else l) (GetWord answer 3)
                       else Some l))
             | RUNNING_UPDATER \<Rightarrow> Updater_Update c hw now answer l)))"

section \<open>Steps of the loader\<close>

text \<open>
  While a file is being read the receive interrupt hands every symbol to the reader
  (\<^verbatim>\<open>Modem::CallbackOnReceive\<close>, the \<^verbatim>\<open>LOADER\<close> branch); the main loop calls
  \<^verbatim>\<open>SIM868::Update\<close> with the lines received otherwise. A run is any sequence of the two. The steps relate a state to the
  next one where there is one; \<open>loader_event_stops\<close> below says which events have none.
\<close>

datatype event = Symbol char | Line u32 string

fun loader_event :: "'h chip \<Rightarrow> (mem \<Rightarrow> mem) \<Rightarrow> event \<Rightarrow> 'h loader \<Rightarrow> 'h loader option" where
  "loader_event c hw (Symbol x) l = (if InModeReceiveDataFromFTP l then CallbackByteFromFTP x l else Some l)"
| "loader_event c hw (Line now answer) l = SIM868_Update c hw now answer l"

fun loader_run :: "'h chip \<Rightarrow> (mem \<Rightarrow> mem) \<Rightarrow> event list \<Rightarrow> 'h loader \<Rightarrow> 'h loader option" where
  "loader_run c hw [] l = Some l"
| "loader_run c hw (e # es) l =
    (case loader_event c hw e l of None \<Rightarrow> None | Some l \<Rightarrow> loader_run c hw es l)"

inductive loader_step :: "'h chip \<Rightarrow> (mem \<Rightarrow> mem) \<Rightarrow> 'h loader \<Rightarrow> 'h loader \<Rightarrow> bool" for c hw where
  symbol: "InModeReceiveDataFromFTP l \<Longrightarrow> CallbackByteFromFTP x l = Some l' \<Longrightarrow> loader_step c hw l l'"
| line: "SIM868_Update c hw now answer l = Some l' \<Longrightarrow> loader_step c hw l l'"

inductive_cases loader_step_cases: "loader_step c hw l l'"

inductive reachable :: "'h chip \<Rightarrow> (mem \<Rightarrow> mem) \<Rightarrow> 'h loader \<Rightarrow> 'h loader \<Rightarrow> bool" for c hw l0 where
  start: "reachable c hw l0 l0"
| more: "reachable c hw l0 l \<Longrightarrow> loader_step c hw l l' \<Longrightarrow> reachable c hw l0 l'"

lemma loader_run_append:
  "loader_run c hw (es @ fs) l = (case loader_run c hw es l of None \<Rightarrow> None | Some l \<Rightarrow> loader_run c hw fs l)"
  by (induction es arbitrary: l) (auto split: option.splits)

lemma loader_run_reachable:
  assumes "loader_run c hw es l = Some l'" "reachable c hw l0 l"
  shows "reachable c hw l0 l'"
  using assms
proof (induction es arbitrary: l)
  case (Cons e es)
  obtain t where t: "loader_event c hw e l = Some t" "loader_run c hw es t = Some l'"
    using Cons.prems(1) by (auto split: option.splits)
  have "t = l \<or> loader_step c hw l t"
    using t(1) by (cases e) (auto split: if_splits intro: loader_step.intros)
  then show ?case using Cons.IH[OF t(2)] Cons.prems(2) reachable.more by blast
qed simp

section \<open>How a step changes the state\<close>

lemmas loader_ops = Transmit_def SetState_def Loader_Reset_def Updater_Reset_def SIM868_Reset_def sim_Set_def
  ftp_request_def ReceiveBytes_def

lemma upd_on_OK_cases:
  "upd_on_OK now time answer st cmd l =
    (if time \<le> ElapsedTime now (l_meter l) then Loader_Reset l
     else if answer = ''OK'' then Transmit cmd (SetState now st l) else l)"
  by (auto simp: upd_on_OK_def MeterIsRunning_def not_less)

lemma upd_on_OK_state: "l_state (upd_on_OK now time answer st cmd l) \<in> {st, IDLE, l_state l}"
  by (simp add: upd_on_OK_cases loader_ops)

lemma upd_on_OK_prog [simp]: "l_prog (upd_on_OK now time answer st cmd l) = l_prog l"
  by (simp add: upd_on_OK_cases loader_ops)

lemma ftp_request_simps [simp]:
  "l_state (ftp_request n l) = l_state l" "l_prog (ftp_request n l) = l_prog l" "l_sim (ftp_request n l) = l_sim l"
  "l_source_crc (ftp_request n l) = l_source_crc l"
  by (simp_all add: ftp_request_def ReceiveBytes_def Let_def)

lemma unsolicited_result:
  assumes "ProcessUnsolicited answer l = Some (b, l')"
  shows "l_prog l' = l_prog l" "l_state l' \<in> {l_state l, IDLE}" "\<not> b \<Longrightarrow> l' = l"
  using assms by (auto simp: ProcessUnsolicited_def loader_ops split: if_splits option.splits)

lemma MeterIsRunning_cases:
  "MeterIsRunning now time l = (if time \<le> ElapsedTime now (l_meter l) then (False, Loader_Reset l) else (True, l))"
  by (auto simp: MeterIsRunning_def not_less)

text \<open>A step of the loader either is a step of the updater or leaves the programmer and the progress alone.\<close>

lemma SIM868_Update_cases:
  assumes "SIM868_Update c hw now answer l = Some l'"
  shows "(l_sim l = RUNNING_UPDATER \<and> ProcessUnsolicited answer l = Some (False, l) \<and> Updater_Update c hw now answer l = Some l') \<or>
     (l_prog l' = l_prog l \<and> l_state l' \<in> {l_state l, IDLE})"
proof -
  obtain b l1 where u: "ProcessUnsolicited answer l = Some (b, l1)"
    using assms by (auto simp: SIM868_Update_def split: option.splits)
  show ?thesis
  proof (cases b)
    case True
    then show ?thesis using assms unsolicited_result[OF u] by (simp add: SIM868_Update_def u)
  next
    case False
    then have u: "ProcessUnsolicited answer l = Some (False, l)" using unsolicited_result(3)[OF u] u by simp
    show ?thesis
      using assms unfolding SIM868_Update_def u
      by (cases "l_sim l") (auto simp: sim_on_def sim_MeterIsRunning_def loader_ops split: if_splits)
  qed
qed

section \<open>The order of the states\<close>

text \<open>The states in the order in which the update passes through them.\<close>

definition upd_chain :: "upd_state list" where
  "upd_chain = [IDLE, NEED_SAPBR_3_GPRS, NEED_SAPBR_3_APN, NEED_SAPBR_3_USER, NEED_SAPBR_3_PWD, NEED_SAPBR_1_1,
     NEED_FTPCID, NEED_FTPSERV, NEED_FTPUN, NEED_FTPPW, NEED_FTPGETPATH, NEED_SET_NAME_FIRMWARE,
     NEED_REQUEST_CONNECT, NEED_WAIT_CONNECT, GET_BYTES_VER, GET_BYTES_CRC, GET_BYTES_FIRMWARE, COMPLETED]"

definition upd_succ :: "upd_state \<Rightarrow> upd_state \<Rightarrow> bool" where
  "upd_succ st st' \<longleftrightarrow> (st, st') \<in> set (zip upd_chain (tl upd_chain))"

lemma finish_firmware_state:
  "finish_firmware c l = Some l' \<Longrightarrow> l_state l' \<in> {IDLE, COMPLETED}"
  by (auto simp: finish_firmware_def Let_def loader_ops split: option.splits if_splits)

lemma firmware_block_state: "firmware_block c now l = Some l' \<Longrightarrow> l_state l' = l_state l"
  by (auto simp: firmware_block_def split: option.splits)

lemma updater_order:
  assumes "Updater_Update c hw now answer l = Some l'"
  shows "l_state l' = l_state l \<or> l_state l' = IDLE \<or> upd_succ (l_state l) (l_state l') \<or>
     (l_state l = NEED_WAIT_CONNECT \<and> l_state l' = COMPLETED \<and> answer = ''+FTPGET: 1,77'')"
proof (cases "l_state l = GET_BYTES_FIRMWARE")
  case True
  then show ?thesis
    using assms finish_firmware_state[of c l l'] firmware_block_state[of c now l l']
    by (auto simp: Updater_Update_def MeterIsRunning_cases loader_ops upd_succ_def upd_chain_def split: if_splits)
next
  case False
  then show ?thesis
    using assms upd_on_OK_state[of now _ answer _ _ l] unfolding upd_succ_def upd_chain_def
    by (cases "l_state l")
      (auto simp: Updater_Update_def MeterIsRunning_cases upd_on_OK_cases loader_ops Let_def split: if_splits)
qed

lemma copy_until_crc:
  "copy_until c src n p = Some p' \<Longrightarrow> CalculateCRC (flash (rom p')) ADDR_APPLICATION n = src"
  by (rule copy_until.raw_induct[of "\<lambda>c src n p p'. CalculateCRC (flash (rom p')) ADDR_APPLICATION n = src"])
    (auto split: option.splits if_splits)

lemma updater_keeps_prog:
  assumes "Updater_Update c hw now answer l = Some l'" "l_state l \<notin> {GET_BYTES_CRC, GET_BYTES_FIRMWARE}"
  shows "l_prog l' = l_prog l"
  using assms
  by (cases "l_state l")
    (auto simp: Updater_Update_def MeterIsRunning_cases loader_ops Let_def upd_on_OK_cases split: if_splits)

section \<open>Time limits\<close>

text \<open>How long the updater stays in a state without progress; \<open>None\<close> where it does not wait.\<close>

definition upd_limit :: "upd_state \<Rightarrow> u32 option" where
  "upd_limit st =
    (case st of
       IDLE \<Rightarrow> None | NEED_SAPBR_3_GPRS \<Rightarrow> None | COMPLETED \<Rightarrow> None
     | NEED_SAPBR_3_APN \<Rightarrow> Some 85000 | NEED_SAPBR_3_USER \<Rightarrow> Some 85000 | NEED_SAPBR_3_PWD \<Rightarrow> Some 85000
     | NEED_SAPBR_1_1 \<Rightarrow> Some 85000 | NEED_FTPCID \<Rightarrow> Some 85000
     | NEED_FTPSERV \<Rightarrow> Some 10000 | NEED_FTPUN \<Rightarrow> Some 10000 | NEED_FTPPW \<Rightarrow> Some 10000
     | NEED_FTPGETPATH \<Rightarrow> Some 10000 | NEED_SET_NAME_FIRMWARE \<Rightarrow> Some 10000 | NEED_REQUEST_CONNECT \<Rightarrow> Some 10000
     | NEED_WAIT_CONNECT \<Rightarrow> Some 75000 | GET_BYTES_VER \<Rightarrow> Some 75000 | GET_BYTES_CRC \<Rightarrow> Some 75000
     | GET_BYTES_FIRMWARE \<Rightarrow> Some 75000)"

lemma SIM868_Update_updater:
  "l_sim l = RUNNING_UPDATER \<Longrightarrow> ProcessUnsolicited answer l = Some (False, l) \<Longrightarrow>
   SIM868_Update c hw now answer l = Updater_Update c hw now answer l"
  by (simp add: SIM868_Update_def)

lemma updater_timeout:
  assumes "upd_limit (l_state l) = Some T" "T \<le> ElapsedTime now (l_meter l)"
  shows "Updater_Update c hw now answer l = Some (Loader_Reset l)"
proof -
  have "MeterIsRunning now T l = (False, Loader_Reset l)" using assms(2) by (simp add: MeterIsRunning_cases)
  then show ?thesis
    using assms by (cases "l_state l") (simp_all add: upd_limit_def Updater_Update_def upd_on_OK_def)
qed

lemma updater_completes:
  assumes "Updater_Update c hw now answer l = Some l'" "l_state l \<noteq> COMPLETED" "l_state l' = COMPLETED"
  shows "(l_state l = NEED_WAIT_CONNECT \<and> answer = ''+FTPGET: 1,77'' \<and> l_prog l' = l_prog l) \<or>
     (l_state l = GET_BYTES_FIRMWARE \<and> received_FTPGET_1_0 (l_reader l) \<and> finish_firmware c l = Some l')"
proof (cases "l_state l = GET_BYTES_FIRMWARE")
  case True
  then show ?thesis
    using assms firmware_block_state[of c now l l']
    by (auto simp: Updater_Update_def MeterIsRunning_cases loader_ops split: if_splits)
next
  case False
  then show ?thesis
    using assms
    by (cases "l_state l")
      (auto simp: Updater_Update_def MeterIsRunning_cases upd_on_OK_cases loader_ops Let_def split: if_splits)
qed

lemma finish_firmware_completes:
  assumes "finish_firmware c l = Some l'" "l_state l' = COMPLETED"
  shows "\<exists>p1 p2. WriteBytes c (data_byte (l_reader l)) (pointer_data (l_reader l)) (l_prog l) = Some p1 \<and>
     CloseSession c p1 = Some p2 \<and>
     CalculateCRC (flash (rom p2)) ADDR_STORAGE (written_bytes p2) = l_source_crc l \<and>
     CalculateCRC (flash (rom (l_prog l'))) ADDR_APPLICATION (written_bytes p2) = l_source_crc l"
  using assms copy_until_crc[of c]
  by (auto simp: finish_firmware_def Let_def loader_ops WrittenBytes_def split: option.splits if_splits)

section \<open>Well-formed states\<close>

definition loader_ok :: "'h loader \<Rightarrow> bool" where
  "loader_ok l \<longleftrightarrow> reader_ok (l_reader l) \<and> length (p_bytes (l_prog l)) = 68"

lemma copy_until_length: "copy_until c src n p = Some p' \<Longrightarrow> length (p_bytes p') = length (p_bytes p)"
  by (rule copy_until.raw_induct[of "\<lambda>c src n p p'. length (p_bytes p') = length (p_bytes p)"])
    (auto dest!: CopyFirmware_length split: option.splits if_splits)

lemma ftp_request_ok: "loader_ok l \<Longrightarrow> loader_ok (ftp_request n l)"
  using ReceiveBytes_ok[of "l_reader l" n] by (auto simp: loader_ok_def ftp_request_def split: prod.splits)

lemma finish_firmware_ok: "finish_firmware c l = Some l' \<Longrightarrow> loader_ok l \<Longrightarrow> loader_ok l'"
  by (auto simp: finish_firmware_def Let_def loader_ops loader_ok_def
      dest!: WriteBytes_length CloseSession_length copy_until_length split: option.splits if_splits)

lemma firmware_block_ok: "firmware_block c now l = Some l' \<Longrightarrow> loader_ok l \<Longrightarrow> loader_ok l'"
  by (auto simp: firmware_block_def loader_ok_def dest!: WriteBytes_length
      intro!: ftp_request_ok[unfolded loader_ok_def, THEN conjunct1] split: option.splits)

lemma loader_ok_simps [simp]:
  "loader_ok (l\<lparr>l_state := st\<rparr>) = loader_ok l" "loader_ok (l\<lparr>l_crc := x\<rparr>) = loader_ok l"
  "loader_ok (l\<lparr>l_version := x\<rparr>) = loader_ok l" "loader_ok (l\<lparr>l_source_crc := x\<rparr>) = loader_ok l"
  "loader_ok (l\<lparr>l_regs := m\<rparr>) = loader_ok l" "loader_ok (l\<lparr>l_sim := ss\<rparr>) = loader_ok l"
  "loader_ok (l\<lparr>l_signal := sg\<rparr>) = loader_ok l" "loader_ok (Transmit msg l) = loader_ok l"
  "loader_ok (SetState now st l) = loader_ok l" "loader_ok (sim_Set now ss l) = loader_ok l"
  "loader_ok (Loader_Reset l) = loader_ok l" "loader_ok (l\<lparr>l_prog := Prepare c a (l_prog l)\<rparr>) = loader_ok l"
  by (simp_all add: loader_ok_def loader_ops Prepare_length)

lemma Updater_Update_ok:
  assumes "Updater_Update c hw now answer l = Some l'" "loader_ok l"
  shows "loader_ok l'"
proof (cases "l_state l = GET_BYTES_CRC")
  case True
  let ?m = "(SetState now GET_BYTES_FIRMWARE ((l\<lparr>l_source_crc := data_word (l_reader l)\<rparr>)\<lparr>l_prog := Prepare c ADDR_STORAGE (l_prog l)\<rparr>))
      \<lparr>l_regs := ToUpgradeMode hw (l_regs l)\<rparr>"
  have "loader_ok (ftp_request 64 ?m)" using assms(2) by (intro ftp_request_ok) (simp add: loader_ok_def SetState_def Prepare_length)
  then show ?thesis
    using True assms by (auto simp: Updater_Update_def MeterIsRunning_cases Let_def loader_ok_def reader_ok_def SetState_def
        loader_ops split: if_splits)
next
  case False
  then show ?thesis
    using assms finish_firmware_ok[of c l l'] firmware_block_ok[of c now l l']
    by (cases "l_state l")
      (auto simp: Updater_Update_def MeterIsRunning_cases upd_on_OK_cases Let_def ftp_request_ok split: if_splits)
qed

lemma SIM868_Update_ok:
  assumes "SIM868_Update c hw now answer l = Some l'" "loader_ok l"
  shows "loader_ok l'"
proof -
  obtain b l1 where u: "ProcessUnsolicited answer l = Some (b, l1)"
    using assms(1) by (auto simp: SIM868_Update_def split: option.splits)
  have ok: "loader_ok l1" using u assms(2) by (auto simp: ProcessUnsolicited_def split: if_splits option.splits)
  show ?thesis
    using assms(1) ok Updater_Update_ok[of c hw now answer l1 l'] unfolding SIM868_Update_def u
    by (cases "l_sim l1") (auto simp: sim_on_def sim_MeterIsRunning_def Let_def split: if_splits)
qed

lemma loader_step_ok: "loader_step c hw l l' \<Longrightarrow> loader_ok l \<Longrightarrow> loader_ok l'"
proof (erule loader_step_cases)
  fix x assume "CallbackByteFromFTP x l = Some l'" "loader_ok l"
  then show "loader_ok l'"
    by (auto simp: CallbackByteFromFTP_def loader_ok_def dest: AppendByte_ok split: option.splits prod.splits)
qed (rule SIM868_Update_ok)

section \<open>Events that have no next state\<close>

text \<open>The words of an answer fit into the arrays that they are copied to.\<close>

definition words_fit :: "string \<Rightarrow> bool" where
  "words_fit answer \<longleftrightarrow> (\<forall>n. GetWord answer n \<noteq> None) \<and>
     (GetWord answer 1 = Some ''+CSQ'' \<longrightarrow> (\<forall>w. GetWord answer 2 = Some w \<longrightarrow> length w < 16))"

definition loader_inv :: "'h loader \<Rightarrow> bool" where
  "loader_inv l \<longleftrightarrow> loader_ok l \<and> (l_state l = GET_BYTES_FIRMWARE \<longrightarrow> num_bytes (l_prog l) < 4)"

lemma unsolicited_fits:
  assumes "words_fit answer"
  shows "ProcessUnsolicited answer l \<in> {Some (False, l), Some (True, Loader_Reset l)} \<or>
    answer \<noteq> [] \<and> (\<exists>sg. ProcessUnsolicited answer l = Some (True, l\<lparr>l_signal := sg\<rparr>))"
proof -
  have e: "GetWord [] 1 = Some []" by (subst GetWord_fields) (simp_all add: c_string_def nth_field_def line_fields_def)
  obtain w1 w2 where w: "GetWord answer 1 = Some w1" "GetWord answer 2 = Some w2" "w1 = ''+CSQ'' \<Longrightarrow> length w2 < 16"
    using assms unfolding words_fit_def by (metis not_None_eq option.inject)
  show ?thesis
  proof (cases "answer = ''CLOSED'' \<or> answer = ''SEND FAIL'' \<or> w1 \<noteq> ''+CSQ'' \<and> answer \<noteq> ''SEND OK''")
    case True
    then show ?thesis using w by (auto simp: ProcessUnsolicited_def)
  next
    case False
    then have "answer \<noteq> []" using w(1) e by auto
    moreover have "ProcessUnsolicited answer l = Some (True, l\<lparr>l_signal := if w1 = ''+CSQ'' then w2 else l_signal l\<rparr>)"
      using False w by (cases "w1 = ''+CSQ''") (auto simp: ProcessUnsolicited_def)
    ultimately show ?thesis by blast
  qed
qed

lemma finish_firmware_returns:
  assumes "loader_ok l" "num_bytes (l_prog l) < 4" "finish_firmware c l = None"
  shows "\<exists>p. copy_until c (l_source_crc l) (written_bytes p) p = None"
proof -
  obtain p1 where p1: "WriteBytes c (data_byte (l_reader l)) (pointer_data (l_reader l)) (l_prog l) = Some p1" "num_bytes p1 < 4"
    using WriteBytes_returns[of "l_prog l" "pointer_data (l_reader l)"] assms(1,2) by (auto simp: loader_ok_def reader_ok_def)
  have "length (p_bytes p1) = 68" using WriteBytes_length[OF p1(1)] assms(1) by (simp add: loader_ok_def)
  then obtain p2 where "CloseSession c p1 = Some p2" using CloseSession_returns p1(2) by blast
  then show ?thesis using assms(3) p1(1)
    by (auto simp: finish_firmware_def WrittenBytes_def Let_def split: if_splits option.splits)
qed

lemma firmware_block_inv:
  assumes "loader_inv l" "l_state l = GET_BYTES_FIRMWARE"
  shows "\<exists>l'. firmware_block c now l = Some l' \<and> num_bytes (l_prog l') < 4"
proof -
  obtain p1 where "WriteBytes c (data_byte (l_reader l)) (pointer_data (l_reader l)) (l_prog l) = Some p1" "num_bytes p1 < 4"
    using WriteBytes_returns[of "l_prog l" "pointer_data (l_reader l)"] assms by (auto simp: loader_inv_def loader_ok_def reader_ok_def)
  then show ?thesis by (simp add: firmware_block_def)
qed

lemma Updater_Update_inv:
  assumes "Updater_Update c hw now answer l = Some l'" "loader_inv l"
  shows "loader_inv l'"
proof -
  have ok: "loader_ok l'" using Updater_Update_ok[OF assms(1)] assms(2) by (simp add: loader_inv_def)
  have "num_bytes (l_prog l') < 4" if st: "l_state l' = GET_BYTES_FIRMWARE"
  proof (cases "l_state l = GET_BYTES_FIRMWARE")
    case True
    then show ?thesis
      using assms st firmware_block_inv[OF assms(2) True, of c now] finish_firmware_state[of c l l']
      by (auto simp: Updater_Update_def MeterIsRunning_cases loader_ops loader_inv_def split: if_splits)
  next
    case False
    then show ?thesis using assms st
      by (cases "l_state l")
        (auto simp: Updater_Update_def MeterIsRunning_cases upd_on_OK_cases Let_def loader_ops Prepare_def split: if_splits)
  qed
  then show ?thesis using ok by (simp add: loader_inv_def)
qed

lemma SIM868_Update_inv:
  assumes "SIM868_Update c hw now answer l = Some l'" "loader_inv l"
  shows "loader_inv l'"
  using SIM868_Update_cases[OF assms(1)]
proof (elim disjE conjE)
  show "loader_inv l'" if "Updater_Update c hw now answer l = Some l'" using Updater_Update_inv[OF that assms(2)] .
  show "loader_inv l'" if "l_prog l' = l_prog l" "l_state l' \<in> {l_state l, IDLE}"
    using that SIM868_Update_ok[OF assms(1)] assms(2) by (auto simp: loader_inv_def)
qed

lemma loader_step_inv: "loader_step c hw l l' \<Longrightarrow> loader_inv l \<Longrightarrow> loader_inv l'"
  by (frule loader_step_ok, simp add: loader_inv_def, erule loader_step_cases)
    (auto simp: CallbackByteFromFTP_def loader_inv_def dest: SIM868_Update_inv[unfolded loader_inv_def] split: option.splits prod.splits)

lemma reachable_inv: "reachable c hw l0 l \<Longrightarrow> loader_inv l0 \<Longrightarrow> loader_inv l"
  by (induction rule: reachable.induct) (auto dest: loader_step_inv)

lemma AppendByte_stops:
  "reader_ok r \<Longrightarrow> AppendByte x r = None \<Longrightarrow> (if received_command r then pointer_data r = 64 else pointer_command r = 32)"
  using ftp_line_returns[of "r\<lparr>buffer_command := (buffer_command r)[pointer_command r := CHR 0x00],
      pointer_command := pointer_command r + 1\<rparr>"]
  by (auto simp: AppendByte_def Let_def reader_ok_def split: if_splits)

lemma Updater_Update_stops:
  assumes "loader_inv l" "words_fit answer" "Updater_Update c hw now answer l = None"
  shows "l_state l = GET_BYTES_FIRMWARE \<and> received_FTPGET_1_0 (l_reader l) \<and>
    (\<exists>p. copy_until c (l_source_crc l) (written_bytes p) p = None)"
proof (cases "l_state l = GET_BYTES_FIRMWARE")
  case True
  then show ?thesis
    using assms firmware_block_inv[OF assms(1) True, of c now] finish_firmware_returns[of l c]
    by (auto simp: Updater_Update_def MeterIsRunning_cases loader_inv_def split: if_splits)
next
  case False
  have "\<exists>w. GetWord answer 1 = Some w" using assms(2) by (auto simp: words_fit_def)
  then show ?thesis using False assms(3)
    by (cases "l_state l") (auto simp: Updater_Update_def MeterIsRunning_cases Let_def split: if_splits)
qed

text \<open>
  Which events have no next state: in every reachable state they are a symbol behind the end of one of the reader's arrays, a line with a
  word that does not fit, and the end of a file when the copy never gets the right checksum.
\<close>

lemma loader_event_stops:
  assumes "reachable c hw l0 l" "loader_inv l0" "loader_event c hw e l = None"
  shows "case e of Symbol x \<Rightarrow> InModeReceiveDataFromFTP l \<and>
       (if received_command (l_reader l) then pointer_data (l_reader l) = 64 else pointer_command (l_reader l) = 32)
   | Line now answer \<Rightarrow> words_fit answer \<longrightarrow> l_state l = GET_BYTES_FIRMWARE \<and> received_FTPGET_1_0 (l_reader l) \<and>
       (\<exists>p. copy_until c (l_source_crc l) (written_bytes p) p = None)"
proof (cases e)
  case (Symbol x)
  have "reader_ok (l_reader l)" using reachable_inv[OF assms(1,2)] by (simp add: loader_inv_def loader_ok_def)
  then show ?thesis using Symbol assms(3) AppendByte_stops[of "l_reader l" x]
    by (auto simp: CallbackByteFromFTP_def split: if_splits option.splits)
next
  case (Line now answer)
  have "l_state l = GET_BYTES_FIRMWARE \<and> received_FTPGET_1_0 (l_reader l) \<and> (\<exists>p. copy_until c (l_source_crc l) (written_bytes p) p = None)"
    if fit: "words_fit answer"
  proof -
    have w: "\<exists>w. GetWord answer n = Some w" for n using fit by (auto simp: words_fit_def)
    obtain b l1 where u: "ProcessUnsolicited answer l = Some (b, l1)" using unsolicited_fits[OF fit, of l] by blast
    have "\<exists>r. registered answer = Some r" using w[of 1] w[of 2] by (auto simp: registered_def Let_def intro: exI[of _ False])
    then have "\<not> b \<and> l_sim l1 = RUNNING_UPDATER \<and> Updater_Update c hw now answer l1 = None"
      using assms(3) w[of 3] unfolding Line loader_event.simps SIM868_Update_def u
      by (cases "l_sim l1") (auto simp: sim_MeterIsRunning_def split: if_splits)
    then show ?thesis using unsolicited_result(3)[OF u] Updater_Update_stops[of l answer c hw now] reachable_inv[OF assms(1,2)] fit by simp
  qed
  then show ?thesis using Line by simp
qed

section \<open>The end of a time limit\<close>

text \<open>A line in the state of the updater after its time: it restarts, or is one of the two that are handled before.\<close>

lemma timeout_line:
  assumes "l_sim l = RUNNING_UPDATER" "upd_limit (l_state l) = Some T" "T \<le> ElapsedTime now (l_meter l)" "words_fit answer"
  shows "SIM868_Update c hw now answer l = Some (Loader_Reset l) \<or>
    answer \<noteq> [] \<and> (\<exists>sg. SIM868_Update c hw now answer l = Some (l\<lparr>l_signal := sg\<rparr>))"
  using unsolicited_fits[OF assms(4), of l] SIM868_Update_updater[OF assms(1), of answer] updater_timeout[OF assms(2,3)]
  by (auto simp: SIM868_Update_def)

lemma timeout_turn:
  assumes "l_sim l = RUNNING_UPDATER" "upd_limit (l_state l) = Some T" "T \<le> ElapsedTime now (l_meter l)" "\<forall>a \<in> set ls. words_fit a"
  shows "\<exists>k sg. 0 < k \<and> k \<le> length ls + 1 \<and>
    loader_run c hw (take k (map (Line now) (ls @ [[]]))) l = Some (Loader_Reset (l\<lparr>l_signal := sg\<rparr>))"
  using assms
proof (induction ls arbitrary: l)
  case Nil
  have "words_fit []" by (simp add: words_fit_def GetWord_fields c_string_def nth_field_def line_fields_def)
  from timeout_line[OF Nil(1-3) this, of c hw] show ?case by (intro exI[of _ 1] exI[of _ "l_signal l"]) simp
next
  case (Cons a ls)
  from timeout_line[OF Cons.prems(1-3), of a c hw] Cons.prems(4)
  consider "SIM868_Update c hw now a l = Some (Loader_Reset l)" | sg where "SIM868_Update c hw now a l = Some (l\<lparr>l_signal := sg\<rparr>)" by auto
  then show ?case
  proof cases
    case 1
    then show ?thesis by (intro exI[of _ 1] exI[of _ "l_signal l"]) simp
  next
    case 2
    obtain k sg' where "0 < k" "k \<le> length ls + 1"
        "loader_run c hw (take k (map (Line now) (ls @ [[]]))) (l\<lparr>l_signal := sg\<rparr>) = Some (Loader_Reset (l\<lparr>l_signal := sg'\<rparr>))"
      using Cons.IH[of "l\<lparr>l_signal := sg\<rparr>"] Cons.prems by auto
    then show ?thesis using 2 by (intro exI[of _ "Suc k"] exI[of _ sg']) simp
  qed
qed

end
