(* ===== verification/Download.thy ===== *)
theory Download
  imports Loader
begin

unbundle bit_operations_syntax

text \<open>
  What the loader's update procedure as a whole achieves: a run that receives an image block by block
  ends with the image in the application area. The lemmas follow the run: the symbols of an answer,
  one block, all blocks, the end of the file.
\<close>

section \<open>Symbols\<close>

lemma CallbackByte_mode: "CallbackByteFromFTP x l = Some l' \<Longrightarrow> InModeReceiveDataFromFTP l' = InModeReceiveDataFromFTP l"
  by (auto simp: CallbackByteFromFTP_def InModeReceiveDataFromFTP_def split: option.splits prod.splits)

lemma run_symbols:
  assumes "InModeReceiveDataFromFTP l" "AppendBytes cs (l_reader l) = Some (r, out)"
  shows "loader_run c hw (map Symbol cs) l = Some (l\<lparr>l_reader := r, l_out := l_out l @ out\<rparr>)"
  using assms
proof (induction cs arbitrary: l r out)
  case Nil
  then show ?case by simp
next
  case (Cons x cs)
  obtain r1 o1 o2 where a: "AppendByte x (l_reader l) = Some (r1, o1)" "AppendBytes cs r1 = Some (r, o2)" "out = o1 @ o2"
    using Cons.prems(2) by (auto split: option.splits prod.splits)
  let ?l = "l\<lparr>l_reader := r1, l_out := l_out l @ o1\<rparr>"
  have "loader_event c hw (Symbol x) l = Some ?l" using Cons.prems(1) a(1) by (simp add: CallbackByteFromFTP_def)
  moreover have "loader_run c hw (map Symbol cs) ?l = Some (?l\<lparr>l_reader := r, l_out := l_out ?l @ o2\<rparr>)"
    using Cons.IH[of ?l r o2] Cons.prems(1) a(2) by (simp add: InModeReceiveDataFromFTP_def)
  ultimately show ?case using a(3) by simp
qed

section \<open>One block\<close>

text \<open>The reader right after \<^verbatim>\<open>ReceiveBytes\<close>.\<close>

definition reader_fresh :: "reader \<Rightarrow> bool" where
  "reader_fresh r \<longleftrightarrow> reader_ok r \<and> \<not> received_command r \<and> pointer_command r = 0 \<and> pointer_data r = 0 \<and>
     \<not> requested_bytes_received r \<and> \<not> received_FTPGET_1_0 r"

text \<open>
  The loader is receiving the image: \<open>ws\<close> is what the programmer has accepted so far in an area of
  a flash with the contents \<open>f0\<close>, and \<open>t\<close> is the time of the last block.
\<close>

definition receiving :: "'h chip \<Rightarrow> (u32 \<Rightarrow> u8) \<Rightarrow> u8 list \<Rightarrow> u32 \<Rightarrow> 'h loader \<Rightarrow> bool" where
  "receiving c f0 ws t l \<longleftrightarrow> l_sim l = RUNNING_UPDATER \<and> l_state l = GET_BYTES_FIRMWARE \<and>
     writing c ADDR_STORAGE MAX_SIZE_STORAGE f0 (l_prog l) \<and> stored ADDR_STORAGE (l_prog l) = ws \<and>
     reader_fresh (l_reader l) \<and> time_reset (l_meter l) = t"

lemma unsolicited_empty: "ProcessUnsolicited [] l = Some (False, l)"
proof -
  have "GetWord [] 1 = Some []" by (subst GetWord_fields) (simp_all add: c_string_def nth_field_def line_fields_def)
  then show ?thesis by (simp add: ProcessUnsolicited_def)
qed

lemma SIM868_running:
  "l_sim l = RUNNING_UPDATER \<Longrightarrow> SIM868_Update c hw now [] l = Updater_Update c hw now [] l"
  by (simp add: SIM868_Update_def unsolicited_empty)

definition block_events :: "u32 \<times> char list \<Rightarrow> event list" where
  "block_events b = map Symbol (FTPGET_2 (length (snd b)) @ [CHR 0x0D, CHR 0x0A] @ snd b) @ [Line (fst b) []]"

lemma receive_1_block:
  assumes rec: "receiving c f0 ws t l" and bs: "bs \<noteq> []" "length bs \<le> 64" "length ws + length bs \<le> MAX_SIZE_STORAGE"
    and time: "now - t < 75000"
  shows "\<exists>l'. loader_run c hw (block_events (now, bs)) l = Some l' \<and>
     receiving c f0 (ws @ map of_char bs) now l' \<and> l_source_crc l' = l_source_crc l"
proof -
  let ?cs = "FTPGET_2 (length bs) @ [CHR 0x0D, CHR 0x0A] @ bs"
  have fresh: "reader_fresh (l_reader l)" and st: "l_sim l = RUNNING_UPDATER" "l_state l = GET_BYTES_FIRMWARE"
    using rec by (auto simp: receiving_def)
  obtain r where r: "AppendBytes ?cs (l_reader l) = Some (r, [])" "reader_ok r" "requested_bytes_received r"
      "pointer_data r = length bs" "take (length bs) (buffer_data r) = bs" "\<not> received_FTPGET_1_0 r"
    using receive_block[of "l_reader l" bs] fresh bs(1,2) by (auto simp: reader_fresh_def)
  define l1 where "l1 = l\<lparr>l_reader := r, l_out := l_out l @ []\<rparr>"
  have sym: "loader_run c hw (map Symbol ?cs) l = Some l1"
    unfolding l1_def using st r(1) by (intro run_symbols) (simp add: InModeReceiveDataFromFTP_def)
  have len: "length bs \<le> length (buffer_data r)" using r(2) bs(2) by (simp add: reader_ok_def)
  have "map (data_byte r) [0..<length bs] = map of_char (take (length bs) (buffer_data r))"
    using len by (intro nth_equalityI) (simp_all add: data_byte_def)
  then have data: "map (data_byte r) [0..<length (map of_char bs)] = (map of_char bs :: u8 list)" using r(5) by simp
  have wr: "writing c ADDR_STORAGE MAX_SIZE_STORAGE f0 (l_prog l)" "stored ADDR_STORAGE (l_prog l) = ws"
    using rec by (auto simp: receiving_def)
  obtain p where p: "WriteBytes c (data_byte r) (length bs) (l_prog l) = Some p"
      "writing c ADDR_STORAGE MAX_SIZE_STORAGE f0 p" "stored ADDR_STORAGE p = ws @ map of_char bs"
    using flash_stream.put_ok[OF wr(1), of "map of_char bs"] wr(2) bs(2,3) WriteBytes_list[OF data, of c "l_prog l"] by auto
  define l2 where "l2 = ftp_request 64 (l1\<lparr>l_prog := p, l_meter := meter_Reset now (l_meter l1)\<rparr>)"
  have "Updater_Update c hw now [] l1 = Some l2"
    using st time r(3,4,6) p(1) rec
    by (simp add: Updater_Update_def MeterIsRunning_def ElapsedTime_def firmware_block_def l1_def l2_def receiving_def)
  then have "loader_run c hw (block_events (now, bs)) l = Some l2"
    using sym st(1) SIM868_running[of l1 c hw now] unfolding block_events_def fst_conv snd_conv loader_run_append
    by (simp add: l1_def)
  moreover have "receiving c f0 (ws @ map of_char bs) now l2"
    using st p(2,3) r(2,6)
    by (simp add: receiving_def l2_def l1_def ftp_request_def ReceiveBytes_def Let_def ftp_Reset_def reader_fresh_def
        reader_ok_def meter_Reset_def)
  moreover have "l_source_crc l2 = l_source_crc l"
    by (simp add: l2_def l1_def ftp_request_def ReceiveBytes_def Let_def)
  ultimately show ?thesis by blast
qed

text \<open>All blocks of the file, each no later than 75 seconds after the one before.\<close>

fun timely :: "u32 \<Rightarrow> u32 list \<Rightarrow> bool" where
  "timely t [] = True"
| "timely t (u # us) = (u - t < 75000 \<and> timely u us)"

lemma receive_blocks:
  assumes "receiving c f0 ws t l" "\<forall>b \<in> set bs. snd b \<noteq> [] \<and> length (snd b) \<le> 64"
    and "length ws + length (concat (map snd bs)) \<le> MAX_SIZE_STORAGE" "timely t (map fst bs)"
  shows "\<exists>l'. loader_run c hw (concat (map block_events bs)) l = Some l' \<and>
     receiving c f0 (ws @ map of_char (concat (map snd bs))) (last (t # map fst bs)) l' \<and> l_source_crc l' = l_source_crc l"
  using assms
proof (induction bs arbitrary: ws t l)
  case Nil
  then show ?case by simp
next
  case (Cons b bs)
  obtain now xs where b: "b = (now, xs)" by force
  obtain l1 where l1: "loader_run c hw (block_events (now, xs)) l = Some l1"
      "receiving c f0 (ws @ map of_char xs) now l1" "l_source_crc l1 = l_source_crc l"
    using receive_1_block[OF Cons.prems(1), of xs now] Cons.prems(2-) b by auto
  obtain l2 where "loader_run c hw (concat (map block_events bs)) l1 = Some l2"
      "receiving c f0 ((ws @ map of_char xs) @ map of_char (concat (map snd bs))) (last (now # map fst bs)) l2"
      "l_source_crc l2 = l_source_crc l1"
    using Cons.IH[OF l1(2)] Cons.prems(2-) b by auto
  then show ?case using l1 b by (simp add: loader_run_append)
qed

section \<open>Start and end of the download\<close>

lemma storage_start: "ADDR_STORAGE = FLASH_BASE + of_nat 38 * SIZE_PAGE"
  by simp

lemma begin_download:
  assumes chip: "nor_flash c"
    and l: "l_sim l = RUNNING_UPDATER" "l_state l = GET_BYTES_CRC" "reader_ok (l_reader l)" "requested_bytes_received (l_reader l)"
    and p: "fmc_ready (rom (l_prog l))" "152 \<le> unat (FMC_SIZE (rom (l_prog l)))" "length (p_bytes (l_prog l)) = 68"
    and sound: "\<forall>k<76. page_sample_sound k (flash (rom (l_prog l)))"
    and time: "now - time_reset (l_meter l) < 75000"
  shows "\<exists>l' f0. SIM868_Update c hw now [] l = Some l' \<and> receiving c f0 [] now l' \<and>
     l_source_crc l' = data_word (l_reader l) \<and> (\<forall>k<38. page_sample_sound k f0)"
proof -
  define q where "q = Prepare c ADDR_STORAGE (l_prog l)"
  have "blank_test_sound 38 (flash (rom (l_prog l)))" using sound by (intro blank_test_soundI) auto
  have sz: "2 * (38 + 38) \<le> unat (FMC_SIZE (rom (l_prog l)))" using p(2) by simp
  note prep = Prepare_session[OF chip p(1) sz p(3) \<open>blank_test_sound 38 _\<close> storage_start, folded q_def]
  note ses = prep(1,2)
  have app: "page_sample_sound k (flash (rom q))" if "k < 38" for k
  proof (rule page_sample_sound_cong)
    show "flash (rom q) a = flash (rom (l_prog l)) a" if "unat a div 2048 = 65536 + k" for a
      using that \<open>k < 38\<close> by (intro prep(3)) simp
    show "k < 0x1000" "page_sample_sound k (flash (rom (l_prog l)))" using sound that by auto
  qed
  define l' where "l' = (let l = l\<lparr>l_source_crc := data_word (l_reader l)\<rparr>; l = l\<lparr>l_prog := q\<rparr>;
      l = SetState now GET_BYTES_FIRMWARE l; l = l\<lparr>l_regs := ToUpgradeMode hw (l_regs l)\<rparr>; l = ftp_request 64 l
     in l\<lparr>l_reader := (l_reader l)\<lparr>received_FTPGET_1_0 := False\<rparr>\<rparr>)"
  have "Updater_Update c hw now [] l = Some l'"
    using l time by (simp add: Updater_Update_def MeterIsRunning_def ElapsedTime_def l'_def q_def Let_def)
  moreover have "receiving c (flash (rom q)) [] now l'"
    using l ses chip session_stored[OF ses(1)]
    by (simp add: receiving_def l'_def Let_def SetState_def ftp_request_def ReceiveBytes_def ftp_Reset_def reader_fresh_def
        reader_ok_def meter_Reset_def writing_def) blast
  moreover have "l_source_crc l' = data_word (l_reader l)"
    by (simp add: l'_def Let_def SetState_def ftp_request_def ReceiveBytes_def)
  ultimately show ?thesis using SIM868_running[OF l(1)] app by auto
qed

text \<open>The checksum of an image, and the image as it is stored: filled up to whole words.\<close>

definition image_crc :: "u8 list \<Rightarrow> u32" where
  "image_crc bs = fold (\<lambda>b h. Hash h b) bs 0"

lemma session_crc:
  assumes "session a0 L f0 ws p"
  shows "CalculateCRC (flash (rom p)) a0 (written_bytes p) = image_crc ws"
  using session_read[OF assms] assms by (simp add: CalculateCRC_def crc_loop_fold image_crc_def session_def)

lemma page_of_storage: "unat a div 2048 = 65536 + k \<Longrightarrow> k < 38 \<Longrightarrow> unat a < 0x08013000"
  using div_mult_mod_eq[of "unat a" 2048] mod_less_divisor[of 2048 "unat a"] by linarith

lemma copy_until_session:
  assumes chip: "nor_flash c" and ses: "session ADDR_STORAGE MAX_SIZE_STORAGE f0 ws p"
    and sound: "\<forall>k<38. page_sample_sound k f0"
  shows "\<exists>p' f1. copy_until c (image_crc ws) (written_bytes p) p = Some p' \<and>
     session ADDR_APPLICATION MAX_SIZE_STORAGE f1 ws p'"
proof -
  have "page_sample_sound k (flash (rom p))" if "k < 38" for k
  proof (rule page_sample_sound_cong)
    show "flash (rom p) a = f0 a" if "unat a div 2048 = 65536 + k" for a
      using page_of_storage[OF that \<open>k < 38\<close>] by (intro session_outside[OF ses]) simp
    show "k < 0x1000" "page_sample_sound k f0" using sound that by auto
  qed
  then have "blank_test_sound 0 (flash (rom p))" by (intro blank_test_soundI) simp
  then obtain p' f1 where p': "CopyFirmware c p = Some p'" "session ADDR_APPLICATION MAX_SIZE_STORAGE f1 ws p'"
    using CopyFirmware_session(1)[OF chip ses] by blast
  have "written_bytes p' = written_bytes p" using p'(2) ses by (simp add: session_def)
  then have "CalculateCRC (flash (rom p')) ADDR_APPLICATION (written_bytes p) = image_crc ws"
    using session_crc[OF p'(2)] by simp
  then show ?thesis using p' by (subst copy_until.simps) auto
qed

lemma end_symbols:
  assumes "receiving c f0 ws t l"
  shows "\<exists>r. loader_run c hw (map Symbol (FTPGET_1_0 @ [CHR 0x0D, CHR 0x0A])) l = Some (l\<lparr>l_reader := r, l_out := l_out l @ []\<rparr>) \<and>
     received_FTPGET_1_0 r \<and> pointer_data r = 0"
proof -
  have fresh: "reader_fresh (l_reader l)" and st: "l_state l = GET_BYTES_FIRMWARE"
    using assms by (auto simp: receiving_def)
  obtain r where r: "AppendBytes (FTPGET_1_0 @ [CHR 0x0D, CHR 0x0A]) (l_reader l) = Some (r, [])"
      "received_FTPGET_1_0 r" "pointer_data r = 0"
    using receive_end[of "l_reader l"] fresh unfolding reader_fresh_def by auto
  have "InModeReceiveDataFromFTP l" using st by (simp add: InModeReceiveDataFromFTP_def)
  from run_symbols[OF this r(1), of c hw] show ?thesis using r(2,3) by blast
qed

lemma finish_download:
  assumes rec: "receiving c f0 ws t l" and crc: "l_source_crc l = image_crc (padded ws)"
    and sound: "\<forall>k<38. page_sample_sound k f0" and time: "now - t < 75000" and len: "length ws \<le> MAX_SIZE_STORAGE"
  shows "\<exists>l'. loader_run c hw (map Symbol (FTPGET_1_0 @ [CHR 0x0D, CHR 0x0A]) @ [Line now []]) l = Some l' \<and>
     l_state l' = COMPLETED \<and> map (\<lambda>i. flash (rom (l_prog l')) (ADDR_APPLICATION + of_nat i)) [0..<length (padded ws)] = padded ws"
proof -
  let ?cs = "FTPGET_1_0 @ [CHR 0x0D, CHR 0x0A]"
  have st: "l_sim l = RUNNING_UPDATER" "l_state l = GET_BYTES_FIRMWARE"
      and w: "writing c ADDR_STORAGE MAX_SIZE_STORAGE f0 (l_prog l)" "stored ADDR_STORAGE (l_prog l) = ws"
    using rec by (auto simp: receiving_def)
  have chip: "nor_flash c" using w(1) by (simp add: writing_def)
  obtain r where r: "loader_run c hw (map Symbol ?cs) l = Some (l\<lparr>l_reader := r, l_out := l_out l @ []\<rparr>)"
      "received_FTPGET_1_0 r" "pointer_data r = 0"
    using end_symbols[OF rec] by blast
  define l1 where "l1 = l\<lparr>l_reader := r, l_out := l_out l @ []\<rparr>"
  note sym = r(1)[folded l1_def]
  obtain p2 where p2: "CloseSession c (l_prog l) = Some p2" "session ADDR_STORAGE MAX_SIZE_STORAGE f0 (padded ws) p2"
    using close_padded[OF w len] by blast
  obtain p3 f1 where p3: "copy_until c (image_crc (padded ws)) (written_bytes p2) p2 = Some p3"
      "session ADDR_APPLICATION MAX_SIZE_STORAGE f1 (padded ws) p3"
    using copy_until_session[OF chip p2(2) sound] by blast
  have "\<exists>l'. finish_firmware c l1 = Some l' \<and> l_state l' = COMPLETED \<and> l_prog l' = p3"
    using p2(1) p3(1) session_crc[OF p2(2)] crc r(3)
    by (simp add: finish_firmware_def l1_def WriteBytes_def WrittenBytes_def Let_def)
  then obtain l' where l': "finish_firmware c l1 = Some l'" "l_state l' = COMPLETED" "l_prog l' = p3" by blast
  have "Updater_Update c hw now [] l1 = Some l'"
    using st time r(2) l'(1) rec by (simp add: Updater_Update_def MeterIsRunning_def ElapsedTime_def l1_def receiving_def)
  then have "loader_run c hw (map Symbol ?cs @ [Line now []]) l = Some l'"
    using SIM868_running[of l1 c hw now] st(1) unfolding loader_run_append sym by (simp add: l1_def)
  then show ?thesis using l' session_read[OF p3(2)] by blast
qed

text \<open>The whole transfer, from the checksum that has arrived to the end of the file.\<close>

definition download_events :: "u32 \<Rightarrow> (u32 \<times> char list) list \<Rightarrow> u32 \<Rightarrow> event list" where
  "download_events t0 blocks t1 = Line t0 [] # concat (map block_events blocks) @
     map Symbol (FTPGET_1_0 @ [CHR 0x0D, CHR 0x0A]) @ [Line t1 []]"

definition image_of :: "(u32 \<times> char list) list \<Rightarrow> u8 list" where
  "image_of blocks = map of_char (concat (map snd blocks))"

text \<open>The loader when the four bytes of the checksum have been received.\<close>

definition crc_received :: "u32 \<Rightarrow> 'h loader \<Rightarrow> bool" where
  "crc_received t l \<longleftrightarrow> l_sim l = RUNNING_UPDATER \<and> l_state l = GET_BYTES_CRC \<and> reader_ok (l_reader l) \<and>
     requested_bytes_received (l_reader l) \<and> length (p_bytes (l_prog l)) = 68 \<and>
     fmc_ready (rom (l_prog l)) \<and> 152 \<le> unat (FMC_SIZE (rom (l_prog l))) \<and> time_reset (l_meter l) = t"

lemma timely_append: "timely t (us @ [u]) \<longleftrightarrow> timely t us \<and> u - last (t # us) < 75000"
  by (induction us arbitrary: t) auto

lemma download_run:
  assumes chip: "nor_flash c" and l: "crc_received t l"
    and sound: "\<forall>k<76. page_sample_sound k (flash (rom (l_prog l)))"
    and blocks: "\<forall>b \<in> set blocks. snd b \<noteq> [] \<and> length (snd b) \<le> 64" "length (image_of blocks) \<le> MAX_SIZE_STORAGE"
    and crc: "data_word (l_reader l) = image_crc (padded (image_of blocks))"
    and time: "timely t (t0 # map fst blocks @ [t1])"
  shows "\<exists>l'. loader_run c hw (download_events t0 blocks t1) l = Some l' \<and> l_state l' = COMPLETED \<and>
     map (\<lambda>i. flash (rom (l_prog l')) (ADDR_APPLICATION + of_nat i)) [0..<length (padded (image_of blocks))] =
       padded (image_of blocks)"
proof -
  have tm: "t0 - t < 75000" "timely t0 (map fst blocks)" "t1 - last (t0 # map fst blocks) < 75000"
    using time timely_append[of t0 "map fst blocks" t1] by auto
  obtain l1 f0 where l1: "SIM868_Update c hw t0 [] l = Some l1" "receiving c f0 [] t0 l1"
      "l_source_crc l1 = data_word (l_reader l)" "\<forall>k<38. page_sample_sound k f0"
    using begin_download[OF chip, of l t0 hw] l sound tm(1) unfolding crc_received_def by blast
  obtain l2 where l2: "loader_run c hw (concat (map block_events blocks)) l1 = Some l2"
      "receiving c f0 (image_of blocks) (last (t0 # map fst blocks)) l2" "l_source_crc l2 = l_source_crc l1"
    using receive_blocks[OF l1(2) blocks(1), of hw] blocks(2) tm(2) by (auto simp: image_of_def)
  obtain l3 where l3: "loader_run c hw (map Symbol (FTPGET_1_0 @ [CHR 0x0D, CHR 0x0A]) @ [Line t1 []]) l2 = Some l3"
      "l_state l3 = COMPLETED" "map (\<lambda>i. flash (rom (l_prog l3)) (ADDR_APPLICATION + of_nat i))
        [0..<length (padded (image_of blocks))] = padded (image_of blocks)"
    using finish_download[OF l2(2) _ l1(4) tm(3) blocks(2), of hw] l2(3) l1(3) crc by auto
  have "loader_run c hw (download_events t0 blocks t1) l = Some l3"
    using l1(1) l2(1) l3(1) unfolding download_events_def by (simp add: loader_run_append del: append_Cons append.simps)
  then show ?thesis using l3(2,3) by blast
qed

section \<open>A concrete transfer\<close>

text \<open>A device with blank flash that has received the checksum of the image \<open>abcde\<close>.\<close>

definition demo_reader :: "char list \<Rightarrow> reader" where
  "demo_reader crc = \<lparr>received_command = False, pointer_command = 0, buffer_command = replicate 32 CHR 0x00,
     need_bytes = 4, bytes_from_FTP = 4, pointer_data = 4, buffer_data = crc @ replicate 60 CHR 0x00,
     requested_bytes_received = True, received_FTPGET_1_0 = False\<rparr>"

definition demo_loader :: "char list \<Rightarrow> bool loader" where
  "demo_loader crc = \<lparr>l_state = GET_BYTES_CRC, l_meter = \<lparr>time_reset = 0, time_response = 0\<rparr>, l_version = 0,
     l_source_crc = 0, l_crc = 0, l_sim = RUNNING_UPDATER, l_sim_meter = \<lparr>time_reset = 0, time_response = 0\<rparr>,
     l_signal = ''0'', l_reader = demo_reader crc, l_prog = demo_prog, l_regs = (\<lambda>_. 0), l_out = []\<rparr>"

lemma demo_crc_received: "length crc = 4 \<Longrightarrow> crc_received 0 (demo_loader crc)"
  by (simp add: crc_received_def demo_loader_def demo_reader_def demo_prog_def reader_ok_def blank_device_ready
      blank_device_size)

lemma demo_image: "image_of [(100, ''abcde'')] = [97, 98, 99, 100, 101]"
  by (simp add: image_of_def)

lemma demo_padded: "padded [97, 98, 99, 100, 101] = [97, 98, 99, 100, 101, 0xFF, 0xFF, 0xFF]"
  by code_simp

lemma demo_image_crc: "image_crc [97, 98, 99, 100, 101, 0xFF, 0xFF, 0xFF] = 0xBB636B1C"
  by (simp add: image_crc_def Hash_linear)

section \<open>Properties\<close>

lemma demo_download:
  defines "l \<equiv> demo_loader [CHR 0x1C, CHR 0x6B, CHR 0x63, CHR 0xBB]"
  shows "crc_received 0 l" "\<forall>k<76. page_sample_sound k (flash (rom (l_prog l)))"
    "data_word (l_reader l) = image_crc (padded (image_of [(100, ''abcde'')]))"
proof -
  show "crc_received 0 l" unfolding l_def by (rule demo_crc_received) simp
  show "\<forall>k<76. page_sample_sound k (flash (rom (l_prog l)))"
    using blank_device_pages by (simp add: l_def demo_loader_def demo_prog_def)
  show "data_word (l_reader l) = image_crc (padded (image_of [(100, ''abcde'')]))"
    unfolding demo_image demo_padded demo_image_crc
    by (simp add: l_def data_word_def data32_def data_byte_def demo_loader_def demo_reader_def)
qed

text \<open>
  C1: the update as a whole. The loader has received the checksum of a firmware file; the modem then
  delivers the file in blocks of 1 to 64 bytes, at most 76 KB, each within 75 seconds of the one
  before, and announces the end. If the checksum is that of the file (filled up to whole words with
  0xFF), the run ends in the state \<^verbatim>\<open>COMPLETED\<close> and the application area holds exactly the file,
  whatever bytes it contains and however it was cut into blocks. The flash controller is any that
  behaves as documented; no page of the two areas is one that \<^verbatim>\<open>PageIsEmpty\<close> wrongly takes for blank.
\<close>

theorem download_installs_image:
  assumes "nor_flash c" "crc_received t l"
    and "\<forall>k<76. page_sample_sound k (flash (rom (l_prog l)))"
    and "\<forall>b \<in> set blocks. snd b \<noteq> [] \<and> length (snd b) \<le> 64" "length (image_of blocks) \<le> MAX_SIZE_STORAGE"
    and "data_word (l_reader l) = image_crc (padded (image_of blocks))"
    and "timely t (t0 # map fst blocks @ [t1])"
  shows "\<exists>l'. loader_run c hw (download_events t0 blocks t1) l = Some l' \<and> l_state l' = COMPLETED \<and>
     map (\<lambda>i. flash (rom (l_prog l')) (ADDR_APPLICATION + of_nat i)) [0..<length (padded (image_of blocks))] =
       padded (image_of blocks)"
  using assms by (rule download_run)

theorem download_installs_image_witness:
  "\<exists>l'. loader_run instant_chip id (download_events 50 [(100, ''abcde'')] 200) (demo_loader [CHR 0x1C, CHR 0x6B, CHR 0x63, CHR 0xBB]) = Some l' \<and>
     l_state l' = COMPLETED \<and>
     flash (rom (l_prog l')) 0x08000000 = 97 \<and> flash (rom (l_prog l')) 0x08000001 = 98 \<and>
     flash (rom (l_prog l')) 0x08000002 = 99 \<and> flash (rom (l_prog l')) 0x08000003 = 100 \<and>
     flash (rom (l_prog l')) 0x08000004 = 101"
proof -
  from download_installs_image[OF nor_flash_instant demo_download(1,2) _ _ demo_download(3), of 50 200 id]
  show ?thesis unfolding demo_image demo_padded by auto
qed

text \<open>
  C3: a file whose checksum does not match is never installed. When the end of the file is announced
  and the checksum of the stored image differs from the received one, the loader starts again from
  the first state and every byte below the storage area, the application area among them, is as it was.
\<close>

theorem wrong_crc_keeps_application:
  assumes "receiving c f0 ws t l" "l_source_crc l \<noteq> image_crc (padded ws)" "now - t < 75000"
    "length ws \<le> MAX_SIZE_STORAGE"
  shows "\<exists>l'. loader_run c hw (map Symbol (FTPGET_1_0 @ [CHR 0x0D, CHR 0x0A]) @ [Line now []]) l = Some l' \<and>
     l_state l' = IDLE \<and> l_sim l' = START \<and> (\<forall>a. unat a < unat ADDR_STORAGE \<longrightarrow> flash (rom (l_prog l')) a = f0 a)"
proof -
  obtain r p2 where r: "loader_run c hw (map Symbol (FTPGET_1_0 @ [CHR 0x0D, CHR 0x0A])) l = Some (l\<lparr>l_reader := r, l_out := l_out l @ []\<rparr>)"
      "received_FTPGET_1_0 r" "pointer_data r = 0"
    and p2: "CloseSession c (l_prog l) = Some p2" "session ADDR_STORAGE MAX_SIZE_STORAGE f0 (padded ws) p2"
    using end_symbols[OF assms(1)] close_padded assms(1,4) unfolding receiving_def by blast
  let ?l = "l\<lparr>l_reader := r, l_out := l_out l @ []\<rparr>"
  have crc: "CalculateCRC (flash (rom p2)) ADDR_STORAGE (written_bytes p2) \<noteq> l_source_crc l"
    using session_crc[OF p2(2)] assms(2) by simp
  define l' where "l' = Loader_Reset (?l\<lparr>l_prog := p2, l_crc := CalculateCRC (flash (rom p2)) ADDR_STORAGE (written_bytes p2)\<rparr>)"
  have "Updater_Update c hw now [] ?l = Some l'"
    using r(2,3) p2(1) crc assms(1,3)
    by (simp add: Updater_Update_def MeterIsRunning_def ElapsedTime_def finish_firmware_def WriteBytes_def
        WrittenBytes_def Let_def receiving_def l'_def)
  then have "loader_run c hw (map Symbol (FTPGET_1_0 @ [CHR 0x0D, CHR 0x0A]) @ [Line now []]) l = Some l'"
    using r(1) SIM868_running[of ?l c hw now] assms(1) unfolding loader_run_append by (simp add: receiving_def)
  moreover have "flash (rom (l_prog l')) a = f0 a" if "unat a < unat ADDR_STORAGE" for a
    using session_outside[OF p2(2)] that by (simp add: l'_def loader_ops)
  ultimately show ?thesis by (auto simp: l'_def loader_ops)
qed

theorem wrong_crc_keeps_application_witness:
  "\<exists>l l'. SIM868_Update instant_chip id 50 [] (demo_loader [CHR 0x1C, CHR 0x6B, CHR 0x63, CHR 0xBB]) = Some l \<and>
     loader_run instant_chip id (map Symbol (FTPGET_1_0 @ [CHR 0x0D, CHR 0x0A]) @ [Line 60 []]) l = Some l' \<and>
     l_state l' = IDLE \<and> l_sim l' = START"
proof -
  let ?l0 = "demo_loader [CHR 0x1C, CHR 0x6B, CHR 0x63, CHR 0xBB]"
  obtain l f0 where l: "SIM868_Update instant_chip id 50 [] ?l0 = Some l" "receiving instant_chip f0 [] 50 l"
      "l_source_crc l = data_word (l_reader ?l0)"
    using begin_download[OF nor_flash_instant, of ?l0 50 id] demo_download(1,2) unfolding crc_received_def by auto
  have "data_word (l_reader ?l0) \<noteq> image_crc (padded [])"
    by (simp add: image_crc_def padded_def data_word_def data32_def data_byte_def demo_loader_def demo_reader_def)
  then show ?thesis using wrong_crc_keeps_application[OF l(2), of 60 id] l(1,3) by auto
qed

end
