(* ===== verification/Gd32_Gpio.thy ===== *)
theory Gd32_Gpio
  imports Gd32_Rcu
begin

unbundle bit_operations_syntax

text \<open>
  General purpose ports and the alternate function remapping: gd32f30x_gpio.c.
\<close>

section \<open>Registers and constants\<close>

abbreviation GPIOA :: u32 where "GPIOA \<equiv> 0x40010800"
abbreviation GPIOB :: u32 where "GPIOB \<equiv> 0x40010C00"
abbreviation GPIOC :: u32 where "GPIOC \<equiv> 0x40011000"
abbreviation GPIOD :: u32 where "GPIOD \<equiv> 0x40011400"
abbreviation GPIOE :: u32 where "GPIOE \<equiv> 0x40011800"
abbreviation GPIOF :: u32 where "GPIOF \<equiv> 0x40011C00"
abbreviation GPIOG :: u32 where "GPIOG \<equiv> 0x40012000"
abbreviation GPIO_CTL0 :: "u32 \<Rightarrow> u32" where
  "GPIO_CTL0 gpiox \<equiv> gpiox + 0"
abbreviation GPIO_CTL1 :: "u32 \<Rightarrow> u32" where
  "GPIO_CTL1 gpiox \<equiv> gpiox + 4"
abbreviation GPIO_ISTAT :: "u32 \<Rightarrow> u32" where
  "GPIO_ISTAT gpiox \<equiv> gpiox + 8"
abbreviation GPIO_OCTL :: "u32 \<Rightarrow> u32" where
  "GPIO_OCTL gpiox \<equiv> gpiox + 0xC"
abbreviation GPIO_BOP :: "u32 \<Rightarrow> u32" where
  "GPIO_BOP gpiox \<equiv> gpiox + 0x10"
abbreviation GPIO_BC :: "u32 \<Rightarrow> u32" where
  "GPIO_BC gpiox \<equiv> gpiox + 0x14"
abbreviation GPIO_LOCK :: "u32 \<Rightarrow> u32" where
  "GPIO_LOCK gpiox \<equiv> gpiox + 0x18"
abbreviation GPIOx_SPD :: "u32 \<Rightarrow> u32" where
  "GPIOx_SPD gpiox \<equiv> gpiox + 0x3C"
abbreviation AFIO_EC :: u32 where "AFIO_EC \<equiv> 0x40010000"
abbreviation AFIO_PCF0 :: u32 where "AFIO_PCF0 \<equiv> 0x40010004"
abbreviation AFIO_EXTISS0 :: u32 where "AFIO_EXTISS0 \<equiv> 0x40010008"
abbreviation AFIO_EXTISS1 :: u32 where "AFIO_EXTISS1 \<equiv> 0x4001000C"
abbreviation AFIO_EXTISS2 :: u32 where "AFIO_EXTISS2 \<equiv> 0x40010010"
abbreviation AFIO_EXTISS3 :: u32 where "AFIO_EXTISS3 \<equiv> 0x40010014"
abbreviation AFIO_PCF1 :: u32 where "AFIO_PCF1 \<equiv> 0x4001001C"
abbreviation AFIO_CPSCTL :: u32 where "AFIO_CPSCTL \<equiv> 0x40010020"
abbreviation AFIO_EC_PIN :: u32 where "AFIO_EC_PIN \<equiv> 0xF"
abbreviation AFIO_EC_PORT :: u32 where "AFIO_EC_PORT \<equiv> 0x70"
abbreviation AFIO_EC_EOE :: u32 where "AFIO_EC_EOE \<equiv> 0x80"
abbreviation AFIO_CPSCTL_CPS_EN :: u32 where "AFIO_CPSCTL_CPS_EN \<equiv> 0x1"
abbreviation AFIO_CPSCTL_CPS_RDY :: u32 where "AFIO_CPSCTL_CPS_RDY \<equiv> 0x100"
abbreviation GPIO_MODE_SET :: "u32 \<Rightarrow> u32 \<Rightarrow> u32" where
  "GPIO_MODE_SET n mode \<equiv> push_bit (unat (4 * n)) mode"
abbreviation GPIO_MODE_MASK :: "u32 \<Rightarrow> u32" where
  "GPIO_MODE_MASK n \<equiv> push_bit (unat (4 * n)) 0xF"
abbreviation GPIO_MODE_IPD :: u32 where "GPIO_MODE_IPD \<equiv> 0x28"
abbreviation GPIO_MODE_IPU :: u32 where "GPIO_MODE_IPU \<equiv> 0x48"
abbreviation GPIO_OSPEED_MAX :: u32 where "GPIO_OSPEED_MAX \<equiv> 0x4"
abbreviation GPIO_PIN_SOURCE_4 :: u32 where "GPIO_PIN_SOURCE_4 \<equiv> 0x4"
abbreviation GPIO_PIN_SOURCE_8 :: u32 where "GPIO_PIN_SOURCE_8 \<equiv> 0x8"
abbreviation GPIO_PIN_SOURCE_12 :: u32 where "GPIO_PIN_SOURCE_12 \<equiv> 0xC"
abbreviation AFIO_EXTI_SOURCE_MASK :: u32 where "AFIO_EXTI_SOURCE_MASK \<equiv> 0x3"
abbreviation AFIO_EXTI_SOURCE_FIELDS :: u32 where "AFIO_EXTI_SOURCE_FIELDS \<equiv> 0x4"
abbreviation LSB_16BIT_MASK :: u32 where "LSB_16BIT_MASK \<equiv> 0xFFFF"
abbreviation PCF_POSITION_MASK :: u32 where "PCF_POSITION_MASK \<equiv> 0xF0000"
abbreviation PCF_SWJCFG_MASK :: u32 where "PCF_SWJCFG_MASK \<equiv> 0xF8FFFFFF"
abbreviation PCF_LOCATION1_MASK :: u32 where "PCF_LOCATION1_MASK \<equiv> 0x200000"
abbreviation PCF_LOCATION2_MASK :: u32 where "PCF_LOCATION2_MASK \<equiv> 0x100000"
abbreviation AFIO_PCF1_FIELDS :: u32 where "AFIO_PCF1_FIELDS \<equiv> 0x80000000"

section \<open>Operations\<close>

definition gpio_deinit :: "u32 \<Rightarrow> mem \<Rightarrow> mem" where
  "gpio_deinit gpio_periph m =
    (if gpio_periph = GPIOA then
       (let m = rcu_periph_reset_enable RCU_GPIOARST m
         in rcu_periph_reset_disable RCU_GPIOARST m)
     else if gpio_periph = GPIOB then
       (let m = rcu_periph_reset_enable RCU_GPIOBRST m
         in rcu_periph_reset_disable RCU_GPIOBRST m)
     else if gpio_periph = GPIOC then
       (let m = rcu_periph_reset_enable RCU_GPIOCRST m
         in rcu_periph_reset_disable RCU_GPIOCRST m)
     else if gpio_periph = GPIOD then
       (let m = rcu_periph_reset_enable RCU_GPIODRST m
         in rcu_periph_reset_disable RCU_GPIODRST m)
     else if gpio_periph = GPIOE then
       (let m = rcu_periph_reset_enable RCU_GPIOERST m
         in rcu_periph_reset_disable RCU_GPIOERST m)
     else if gpio_periph = GPIOF then
       (let m = rcu_periph_reset_enable RCU_GPIOFRST m
         in rcu_periph_reset_disable RCU_GPIOFRST m)
     else if gpio_periph = GPIOG then
       (let m = rcu_periph_reset_enable RCU_GPIOGRST m
         in rcu_periph_reset_disable RCU_GPIOGRST m)
     else
       m)"

definition gpio_afio_deinit :: "mem \<Rightarrow> mem" where
  "gpio_afio_deinit m =
    (let m = rcu_periph_reset_enable RCU_AFRST m
      in rcu_periph_reset_disable RCU_AFRST m)"

definition gpio_init_mode :: "u32 \<Rightarrow> u32 \<Rightarrow> u32 \<Rightarrow> u32 \<Rightarrow> mem \<Rightarrow> u32 \<times> mem" where
  "gpio_init_mode gpio_periph mode speed pin m =
    (let temp_mode = mode AND 0xF
      in (if mode AND 0x10 \<noteq> 0 then
            (if speed = GPIO_OSPEED_MAX
             then (temp_mode OR 3, m(GPIOx_SPD gpio_periph := m (GPIOx_SPD gpio_periph) OR pin))
             else (temp_mode OR speed, m))
          else (temp_mode, m)))"

definition gpio_init_pull :: "u32 \<Rightarrow> u32 \<Rightarrow> nat \<Rightarrow> u32 \<Rightarrow> mem \<Rightarrow> mem" where
  "gpio_init_pull gpio_periph mode i pin m =
    (if mode = GPIO_MODE_IPD then m(GPIO_BC gpio_periph := push_bit i 1 AND pin)
     else if mode = GPIO_MODE_IPU then m(GPIO_BOP gpio_periph := push_bit i 1 AND pin)
     else m)"

definition gpio_init_ctl0 :: "u32 \<Rightarrow> u32 \<Rightarrow> u32 \<Rightarrow> u32 \<Rightarrow> nat \<Rightarrow> mem \<Rightarrow> mem" where
  "gpio_init_ctl0 gpio_periph mode temp_mode pin i m =
    (if push_bit i 1 AND pin \<noteq> 0 then
       (let reg = m (GPIO_CTL0 gpio_periph);
            reg = reg AND NOT (GPIO_MODE_MASK (of_nat i));
            reg = reg OR GPIO_MODE_SET (of_nat i) temp_mode;
            m = gpio_init_pull gpio_periph mode i pin m
         in m(GPIO_CTL0 gpio_periph := reg))
     else m)"

definition gpio_init_ctl1 :: "u32 \<Rightarrow> u32 \<Rightarrow> u32 \<Rightarrow> u32 \<Rightarrow> nat \<Rightarrow> mem \<Rightarrow> mem" where
  "gpio_init_ctl1 gpio_periph mode temp_mode pin i m =
    (if push_bit i 1 AND pin \<noteq> 0 then
       (let reg = m (GPIO_CTL1 gpio_periph);
            reg = reg AND NOT (GPIO_MODE_MASK (of_nat i - 8));
            reg = reg OR GPIO_MODE_SET (of_nat i - 8) temp_mode;
            m = gpio_init_pull gpio_periph mode i pin m
         in m(GPIO_CTL1 gpio_periph := reg))
     else m)"

definition gpio_init :: "u32 \<Rightarrow> u32 \<Rightarrow> u32 \<Rightarrow> u32 \<Rightarrow> mem \<Rightarrow> mem" where
  "gpio_init gpio_periph mode speed pin m =
    (let (temp_mode, m) = gpio_init_mode gpio_periph mode speed pin m;
         m = fold (gpio_init_ctl0 gpio_periph mode temp_mode pin) [0..<8] m
      in fold (gpio_init_ctl1 gpio_periph mode temp_mode pin) [8..<16] m)"

definition gpio_bit_set :: "u32 \<Rightarrow> u32 \<Rightarrow> mem \<Rightarrow> mem" where
  "gpio_bit_set gpio_periph pin m =
    m(GPIO_BOP gpio_periph := pin)"

definition gpio_bit_reset :: "u32 \<Rightarrow> u32 \<Rightarrow> mem \<Rightarrow> mem" where
  "gpio_bit_reset gpio_periph pin m =
    m(GPIO_BC gpio_periph := pin)"

definition gpio_bit_write :: "u32 \<Rightarrow> u32 \<Rightarrow> FlagStatus \<Rightarrow> mem \<Rightarrow> mem" where
  "gpio_bit_write gpio_periph pin bit_value m =
    (if bit_value \<noteq> RESET then
       m(GPIO_BOP gpio_periph := pin)
     else
       m(GPIO_BC gpio_periph := pin))"

definition gpio_port_write :: "u32 \<Rightarrow> u16 \<Rightarrow> mem \<Rightarrow> mem" where
  "gpio_port_write gpio_periph data m =
    m(GPIO_OCTL gpio_periph := (ucast data :: u32))"

definition gpio_input_bit_get :: "u32 \<Rightarrow> u32 \<Rightarrow> mem \<Rightarrow> FlagStatus" where
  "gpio_input_bit_get gpio_periph pin m =
    (if 0 \<noteq> (m (GPIO_ISTAT gpio_periph) AND pin) then SET else RESET)"

definition gpio_input_port_get :: "u32 \<Rightarrow> mem \<Rightarrow> u16" where
  "gpio_input_port_get gpio_periph m =
    (ucast (m (GPIO_ISTAT gpio_periph)) :: u16)"

definition gpio_output_bit_get :: "u32 \<Rightarrow> u32 \<Rightarrow> mem \<Rightarrow> FlagStatus" where
  "gpio_output_bit_get gpio_periph pin m =
    (if 0 \<noteq> (m (GPIO_OCTL gpio_periph) AND pin) then SET else RESET)"

definition gpio_output_port_get :: "u32 \<Rightarrow> mem \<Rightarrow> u16" where
  "gpio_output_port_get gpio_periph m =
    (ucast (m (GPIO_OCTL gpio_periph)) :: u16)"

definition gpio_pin_remap_config :: "u32 \<Rightarrow> ControlStatus \<Rightarrow> mem \<Rightarrow> mem" where
  "gpio_pin_remap_config remap newvalue m =
    (let remap2 = (0 :: u32);
         temp_reg = (0 :: u32);
         temp_reg = (if (remap AND 0x80000000) = 0x80000000 then m AFIO_PCF1 else m AFIO_PCF0);
         temp_mask = drop_bit 16 (remap AND PCF_POSITION_MASK);
         remap1 = remap AND LSB_16BIT_MASK;
         (temp_reg, m) = (if (PCF_LOCATION1_MASK OR PCF_LOCATION2_MASK) = (remap AND (PCF_LOCATION1_MASK OR PCF_LOCATION2_MASK)) then
              (let temp_reg = temp_reg AND PCF_SWJCFG_MASK;
                   m = m(AFIO_PCF0 := m AFIO_PCF0 AND PCF_SWJCFG_MASK)
                in (temp_reg, m))
            else if (remap AND PCF_LOCATION2_MASK) = PCF_LOCATION2_MASK then
              (let remap2 = push_bit (unat temp_mask) 3;
                   temp_reg = temp_reg AND NOT remap2;
                   temp_reg = temp_reg OR NOT PCF_SWJCFG_MASK
                in (temp_reg, m))
            else
              (let temp_reg = temp_reg AND NOT (push_bit (unat (drop_bit 21 remap * 0x10)) remap1);
                   temp_reg = temp_reg OR NOT PCF_SWJCFG_MASK
                in (temp_reg, m)));
         temp_reg = (if newvalue \<noteq> DISABLE then
              temp_reg OR push_bit (unat (drop_bit 21 remap * 0x10)) remap1
            else
              temp_reg)
      in (if (remap AND AFIO_PCF1_FIELDS) = AFIO_PCF1_FIELDS then
            m(AFIO_PCF1 := temp_reg)
          else
            m(AFIO_PCF0 := temp_reg)))"

definition gpio_exti_source_select :: "u8 \<Rightarrow> u8 \<Rightarrow> mem \<Rightarrow> mem" where
  "gpio_exti_source_select output_port output_pin m =
    (let source = push_bit (unat (AFIO_EXTI_SOURCE_FIELDS * ((ucast output_pin :: u32) AND AFIO_EXTI_SOURCE_MASK))) 0xF
      in (if GPIO_PIN_SOURCE_4 > (ucast output_pin :: u32) then
            (let m = m(AFIO_EXTISS0 := m AFIO_EXTISS0 AND NOT source)
              in m(AFIO_EXTISS0 := m AFIO_EXTISS0 OR push_bit (unat (AFIO_EXTI_SOURCE_FIELDS * ((ucast output_pin :: u32) AND AFIO_EXTI_SOURCE_MASK))) (ucast output_port :: u32)))
          else if GPIO_PIN_SOURCE_8 > (ucast output_pin :: u32) then
            (let m = m(AFIO_EXTISS1 := m AFIO_EXTISS1 AND NOT source)
              in m(AFIO_EXTISS1 := m AFIO_EXTISS1 OR push_bit (unat (AFIO_EXTI_SOURCE_FIELDS * ((ucast output_pin :: u32) AND AFIO_EXTI_SOURCE_MASK))) (ucast output_port :: u32)))
          else if GPIO_PIN_SOURCE_12 > (ucast output_pin :: u32) then
            (let m = m(AFIO_EXTISS2 := m AFIO_EXTISS2 AND NOT source)
              in m(AFIO_EXTISS2 := m AFIO_EXTISS2 OR push_bit (unat (AFIO_EXTI_SOURCE_FIELDS * ((ucast output_pin :: u32) AND AFIO_EXTI_SOURCE_MASK))) (ucast output_port :: u32)))
          else
            (let m = m(AFIO_EXTISS3 := m AFIO_EXTISS3 AND NOT source)
              in m(AFIO_EXTISS3 := m AFIO_EXTISS3 OR push_bit (unat (AFIO_EXTI_SOURCE_FIELDS * ((ucast output_pin :: u32) AND AFIO_EXTI_SOURCE_MASK))) (ucast output_port :: u32)))))"

definition gpio_event_output_config :: "u8 \<Rightarrow> u8 \<Rightarrow> mem \<Rightarrow> mem" where
  "gpio_event_output_config output_port output_pin m =
    (let reg = m AFIO_EC;
         reg = reg AND NOT (AFIO_EC_PORT OR AFIO_EC_PIN);
         reg = reg OR push_bit 4 (ucast output_port :: u32);
         reg = reg OR (ucast output_pin :: u32)
      in m(AFIO_EC := reg))"

definition gpio_event_output_enable :: "mem \<Rightarrow> mem" where
  "gpio_event_output_enable m =
    m(AFIO_EC := m AFIO_EC OR AFIO_EC_EOE)"

definition gpio_event_output_disable :: "mem \<Rightarrow> mem" where
  "gpio_event_output_disable m =
    m(AFIO_EC := m AFIO_EC AND NOT AFIO_EC_EOE)"

definition gpio_pin_lock :: "u32 \<Rightarrow> u32 \<Rightarrow> mem \<Rightarrow> mem" where
  "gpio_pin_lock gpio_periph pin m =
    (let lock = 0x10000;
         lock = lock OR pin;
         m = m(GPIO_LOCK gpio_periph := lock);
         m = m(GPIO_LOCK gpio_periph := pin);
         m = m(GPIO_LOCK gpio_periph := lock);
         lock = m (GPIO_LOCK gpio_periph);
         lock = m (GPIO_LOCK gpio_periph)
      in m)"

definition gpio_compensation_config :: "u32 \<Rightarrow> mem \<Rightarrow> mem" where
  "gpio_compensation_config compensation m =
    (let reg = m AFIO_CPSCTL;
         reg = reg AND NOT AFIO_CPSCTL_CPS_EN
      in m(AFIO_CPSCTL := reg OR compensation))"

definition gpio_compensation_flag_get :: "mem \<Rightarrow> FlagStatus" where
  "gpio_compensation_flag_get m =
    (if 0 \<noteq> (m AFIO_CPSCTL AND AFIO_CPSCTL_CPS_RDY) then SET else RESET)"

section \<open>Interfaces\<close>

interpretation gpio_event: reg_bit gpio_event_output_enable gpio_event_output_disable AFIO_EC AFIO_EC_EOE
  by unfold_locales (simp_all add: gpio_event_output_enable_def gpio_event_output_disable_def)

interpretation gpio_comp: reg_field gpio_compensation_config AFIO_CPSCTL AFIO_CPSCTL_CPS_EN
  by unfold_locales (simp_all add: gpio_compensation_config_def)

section \<open>Configuration of pins\<close>

text \<open>
  The four bits that hold the mode of pin \<open>i\<close> of a port: in \<^verbatim>\<open>GPIO_CTL0\<close> for the first eight pins, in
  \<^verbatim>\<open>GPIO_CTL1\<close> for the others.
\<close>

definition pin_mode :: "u32 \<Rightarrow> nat \<Rightarrow> mem \<Rightarrow> u32" where
  "pin_mode g i m = (if i < 8 then drop_bit (4 * i) (m (GPIO_CTL0 g)) AND 0xF
                     else drop_bit (4 * (i - 8)) (m (GPIO_CTL1 g)) AND 0xF)"

lemma u32_mask_4: "(0xF :: u32) = mask 4"
  by (simp add: mask_eq_exp_minus_1)

lemma field_update:
  fixes r t :: u32
  assumes "i < 8" "j < 8" "t AND NOT 0xF = 0"
  shows "drop_bit (4 * i) ((r AND NOT (push_bit (4 * j) 0xF)) OR push_bit (4 * j) t) AND 0xF =
     (if i = j then t else drop_bit (4 * i) r AND 0xF)"
  using field_slot[of 4 i j t r] assms by (simp only: u32_mask_4)

lemma pin_selected: "(push_bit i 1 AND (pin :: u32) \<noteq> 0) \<longleftrightarrow> bit pin i"
  by (simp add: bit_iff_and_push_bit_not_eq_0 and.commute)

lemma shift_4: "i < 8 \<Longrightarrow> unat (4 * of_nat i :: u32) = 4 * i"
  using unat_of_nat_u32[of "4 * i"] by simp

lemma pull_frame: "a \<noteq> GPIO_BC g \<Longrightarrow> a \<noteq> GPIO_BOP g \<Longrightarrow> gpio_init_pull g mode i pin m a = m a"
  by (simp add: gpio_init_pull_def)

lemma ctl0_step:
  assumes "i < 8" "t AND NOT 0xF = 0"
  shows "pin_mode g k (gpio_init_ctl0 g mode t pin i m) = (if k = i \<and> bit pin i then t else pin_mode g k m)"
proof (cases "bit pin i")
  case True
  define m' where "m' = (gpio_init_pull g mode i pin m)(GPIO_CTL0 g := (m (GPIO_CTL0 g) AND NOT (push_bit (4 * i) 0xF)) OR push_bit (4 * i) t)"
  have e: "gpio_init_ctl0 g mode t pin i m = m'"
    unfolding gpio_init_ctl0_def Let_def shift_4[OF assms(1)] m'_def by (simp only: pin_selected True if_True)
  have c: "m' (GPIO_CTL1 g) = m (GPIO_CTL1 g)"
    "m' (GPIO_CTL0 g) = (m (GPIO_CTL0 g) AND NOT (push_bit (4 * i) 0xF)) OR push_bit (4 * i) t"
    by (simp_all add: m'_def pull_frame)
  show ?thesis
  proof (cases "k < 8")
    case k: True
    show ?thesis unfolding e pin_mode_def c by (simp only: k True field_update[OF k assms] if_True simp_thms)
  next
    case k: False
    then have "k \<noteq> i" using assms(1) by auto
    then show ?thesis unfolding e pin_mode_def c by (simp only: k if_False simp_thms)
  qed
next
  case False
  then have "gpio_init_ctl0 g mode t pin i m = m" unfolding gpio_init_ctl0_def by (simp only: pin_selected if_False)
  then show ?thesis using False by simp
qed

lemma ctl1_step:
  assumes "8 \<le> i" "i < 16" "t AND NOT 0xF = 0" "k < 16"
  shows "pin_mode g k (gpio_init_ctl1 g mode t pin i m) = (if k = i \<and> bit pin i then t else pin_mode g k m)"
proof (cases "bit pin i")
  case True
  have s: "unat (4 * (of_nat i - 8) :: u32) = 4 * (i - 8)" using shift_4[of "i - 8"] assms(1,2) by simp
  define m' where "m' = (gpio_init_pull g mode i pin m)(GPIO_CTL1 g := (m (GPIO_CTL1 g) AND NOT (push_bit (4 * (i - 8)) 0xF)) OR push_bit (4 * (i - 8)) t)"
  have e: "gpio_init_ctl1 g mode t pin i m = m'"
    unfolding gpio_init_ctl1_def Let_def s m'_def by (simp only: pin_selected True if_True)
  have c: "m' (GPIO_CTL0 g) = m (GPIO_CTL0 g)"
    "m' (GPIO_CTL1 g) = (m (GPIO_CTL1 g) AND NOT (push_bit (4 * (i - 8)) 0xF)) OR push_bit (4 * (i - 8)) t"
    by (simp_all add: m'_def pull_frame)
  show ?thesis
  proof (cases "k < 8")
    case k: True
    then have "k \<noteq> i" using assms(1) by auto
    then show ?thesis unfolding e pin_mode_def c by (simp only: k if_True if_False simp_thms)
  next
    case k: False
    have ki: "k - 8 < 8" "i - 8 < 8" "k - 8 = i - 8 \<longleftrightarrow> k = i" using k assms by auto
    show ?thesis unfolding e pin_mode_def c by (simp only: k ki True field_update[OF ki(1,2) assms(3)] if_True if_False simp_thms)
  qed
next
  case False
  then have "gpio_init_ctl1 g mode t pin i m = m" unfolding gpio_init_ctl1_def by (simp only: pin_selected if_False)
  then show ?thesis using False by simp
qed

lemma ctl0_fold:
  assumes "n \<le> 8" "t AND NOT 0xF = 0"
  shows "pin_mode g k (fold (gpio_init_ctl0 g mode t pin) [0..<n] m) = (if k < n \<and> bit pin k then t else pin_mode g k m)"
  using assms(1) by (induction n) (auto simp: ctl0_step[OF _ assms(2)] less_Suc_eq)

lemma ctl1_fold:
  assumes "n \<le> 8" "t AND NOT 0xF = 0" "k < 16"
  shows "pin_mode g k (fold (gpio_init_ctl1 g mode t pin) [8..<8 + n] m) = (if 8 \<le> k \<and> k < 8 + n \<and> bit pin k then t else pin_mode g k m)"
  using assms(1)
proof (induction n)
  case (Suc n)
  have u: "[8..<8 + Suc n] = [8..<8 + n] @ [8 + n]" unfolding add_Suc_right by (rule upt_Suc_append) simp
  have "pin_mode g k (fold (gpio_init_ctl1 g mode t pin) [8..<8 + Suc n] m) =
      pin_mode g k (gpio_init_ctl1 g mode t pin (8 + n) (fold (gpio_init_ctl1 g mode t pin) [8..<8 + n] m))"
    unfolding u by simp
  also have "\<dots> = (if k = 8 + n \<and> bit pin (8 + n) then t else pin_mode g k (fold (gpio_init_ctl1 g mode t pin) [8..<8 + n] m))"
    using assms(2,3) Suc.prems by (intro ctl1_step) simp_all
  finally show ?case using Suc by (cases "k = 8 + n") auto
qed auto

section \<open>Properties\<close>

lemma init_mode_frame: "a \<noteq> GPIOx_SPD g \<Longrightarrow> snd (gpio_init_mode g mode speed pin m) a = m a"
  by (simp add: gpio_init_mode_def Let_def)

lemma init_mode_value: "fst (gpio_init_mode g mode speed pin m) =
    (if mode AND 0x10 \<noteq> 0 then (mode AND 0xF) OR (if speed = GPIO_OSPEED_MAX then 3 else speed) else mode AND 0xF)"
  by (simp add: gpio_init_mode_def Let_def)

lemma nibble_or: "x AND NOT 0xF = 0 \<Longrightarrow> y AND NOT 0xF = 0 \<Longrightarrow> (x OR y) AND NOT (0xF :: u32) = 0"
  by (simp add: bit.conj_disj_distrib2)

lemma init_pin_mode:
  assumes "k < 16" "speed AND NOT 0xF = 0"
  shows "pin_mode g k (gpio_init g mode speed pin m) =
     (if bit pin k
      then (if mode AND 0x10 \<noteq> 0 then (mode AND 0xF) OR (if speed = GPIO_OSPEED_MAX then 3 else speed) else mode AND 0xF)
      else pin_mode g k m)"
proof -
  let ?t = "fst (gpio_init_mode g mode speed pin m)" and ?m = "snd (gpio_init_mode g mode speed pin m)"
  have a: "(mode AND 0xF) AND NOT 0xF = 0" by (simp add: and.assoc)
  have t: "?t AND NOT 0xF = 0"
    unfolding init_mode_value using nibble_or[OF a assms(2)] nibble_or[OF a, of 3] a by auto
  have e: "gpio_init g mode speed pin m =
      fold (gpio_init_ctl1 g mode ?t pin) [8..<8 + 8] (fold (gpio_init_ctl0 g mode ?t pin) [0..<8] ?m)"
    by (simp add: gpio_init_def case_prod_unfold Let_def del: upt_rec_numeral upt.simps)
  have "pin_mode g k ?m = pin_mode g k m" by (simp add: pin_mode_def init_mode_frame)
  then show ?thesis
    unfolding e ctl1_fold[OF order.refl t assms(1)] ctl0_fold[OF order.refl t] using assms(1) init_mode_value[of g mode speed pin m] by auto
qed

text \<open>The registers of the port that \<^verbatim>\<open>gpio_init\<close> writes.\<close>

lemma ctl_fold_frame:
  assumes "a \<noteq> GPIO_CTL0 g" "a \<noteq> GPIO_CTL1 g" "a \<noteq> GPIO_BC g" "a \<noteq> GPIO_BOP g"
  shows "fold (gpio_init_ctl0 g mode t pin) is m a = m a" "fold (gpio_init_ctl1 g mode t pin) is m a = m a"
  using assms by (induction "is" arbitrary: m, simp_all add: gpio_init_ctl0_def gpio_init_ctl1_def Let_def pull_frame)

lemma gpio_init_frame:
  assumes "a \<noteq> GPIO_CTL0 g" "a \<noteq> GPIO_CTL1 g" "a \<noteq> GPIO_BC g" "a \<noteq> GPIO_BOP g" "a \<noteq> GPIOx_SPD g"
  shows "gpio_init g mode speed pin m a = m a"
  using assms ctl_fold_frame[OF assms(1-4)] init_mode_frame[OF assms(5)]
  by (simp add: gpio_init_def case_prod_unfold Let_def del: upt_rec_numeral upt.simps)

end
