(* ===== verification/Gd32_Exti.thy ===== *)
theory Gd32_Exti
  imports Prelude
begin

unbundle bit_operations_syntax

text \<open>
  External interrupt lines (gd32f30x_exti.c), and the interrupt controller, vector table and SysTick functions of gd32f30x_misc.c. The registers of the processor core (SCB, NVIC, SysTick) are the CMSIS addresses; the priority bytes NVIC->IP are one map entry per byte.
\<close>

section \<open>Registers and constants\<close>

abbreviation EXTI_INTEN :: u32 where "EXTI_INTEN \<equiv> 0x40010400"
abbreviation EXTI_EVEN :: u32 where "EXTI_EVEN \<equiv> 0x40010404"
abbreviation EXTI_RTEN :: u32 where "EXTI_RTEN \<equiv> 0x40010408"
abbreviation EXTI_FTEN :: u32 where "EXTI_FTEN \<equiv> 0x4001040C"
abbreviation EXTI_SWIEV :: u32 where "EXTI_SWIEV \<equiv> 0x40010410"
abbreviation EXTI_PD :: u32 where "EXTI_PD \<equiv> 0x40010414"
abbreviation EXTI_INTERRUPT :: u32 where "EXTI_INTERRUPT \<equiv> 0x0"
abbreviation EXTI_EVENT :: u32 where "EXTI_EVENT \<equiv> 0x1"
abbreviation EXTI_TRIG_RISING :: u32 where "EXTI_TRIG_RISING \<equiv> 0x0"
abbreviation EXTI_TRIG_FALLING :: u32 where "EXTI_TRIG_FALLING \<equiv> 0x1"
abbreviation EXTI_TRIG_BOTH :: u32 where "EXTI_TRIG_BOTH \<equiv> 0x2"
abbreviation NVIC_VECTTAB_OFFSET_MASK :: u32 where "NVIC_VECTTAB_OFFSET_MASK \<equiv> 0x1FFFFF80"
abbreviation NVIC_AIRCR_VECTKEY_MASK :: u32 where "NVIC_AIRCR_VECTKEY_MASK \<equiv> 0x5FA0000"
abbreviation NVIC_PRIGROUP_PRE0_SUB4 :: u32 where "NVIC_PRIGROUP_PRE0_SUB4 \<equiv> 0x700"
abbreviation NVIC_PRIGROUP_PRE1_SUB3 :: u32 where "NVIC_PRIGROUP_PRE1_SUB3 \<equiv> 0x600"
abbreviation NVIC_PRIGROUP_PRE2_SUB2 :: u32 where "NVIC_PRIGROUP_PRE2_SUB2 \<equiv> 0x500"
abbreviation NVIC_PRIGROUP_PRE3_SUB1 :: u32 where "NVIC_PRIGROUP_PRE3_SUB1 \<equiv> 0x400"
abbreviation NVIC_PRIGROUP_PRE4_SUB0 :: u32 where "NVIC_PRIGROUP_PRE4_SUB0 \<equiv> 0x300"
abbreviation SYSTICK_CLKSOURCE_HCLK_DIV8 :: u32 where "SYSTICK_CLKSOURCE_HCLK_DIV8 \<equiv> 0xFFFFFFFB"
abbreviation SYSTICK_CLKSOURCE_HCLK :: u32 where "SYSTICK_CLKSOURCE_HCLK \<equiv> 0x4"
abbreviation EXTI_REG_RESET_VALUE :: u32 where "EXTI_REG_RESET_VALUE \<equiv> 0x0"
abbreviation SCB_VTOR :: u32 where "SCB_VTOR \<equiv> 0xE000ED08"
abbreviation SCB_AIRCR :: u32 where "SCB_AIRCR \<equiv> 0xE000ED0C"
abbreviation SCB_SCR :: u32 where "SCB_SCR \<equiv> 0xE000ED10"
abbreviation SYSTICK_CTRL :: u32 where "SYSTICK_CTRL \<equiv> 0xE000E010"
abbreviation NVIC_ISER :: "u32 \<Rightarrow> u32" where "NVIC_ISER n \<equiv> 0xE000E100 + 4 * n"
abbreviation NVIC_ICER :: "u32 \<Rightarrow> u32" where "NVIC_ICER n \<equiv> 0xE000E180 + 4 * n"
abbreviation NVIC_IP :: "u32 \<Rightarrow> u32" where "NVIC_IP irq \<equiv> 0xE000E400 + irq"

section \<open>Operations\<close>

subsection \<open>gd32f30x_exti.c\<close>

definition exti_deinit :: "mem \<Rightarrow> mem" where
  "exti_deinit m =
    (let m = m(EXTI_INTEN := EXTI_REG_RESET_VALUE);
         m = m(EXTI_EVEN := EXTI_REG_RESET_VALUE);
         m = m(EXTI_RTEN := EXTI_REG_RESET_VALUE);
         m = m(EXTI_FTEN := EXTI_REG_RESET_VALUE)
      in m(EXTI_SWIEV := EXTI_REG_RESET_VALUE))"

definition exti_init :: "u32 \<Rightarrow> u32 \<Rightarrow> u32 \<Rightarrow> mem \<Rightarrow> mem" where
  "exti_init linex mode trig_type m =
    (let m = m(EXTI_INTEN := m EXTI_INTEN AND NOT linex);
         m = m(EXTI_EVEN := m EXTI_EVEN AND NOT linex);
         m = m(EXTI_RTEN := m EXTI_RTEN AND NOT linex);
         m = m(EXTI_FTEN := m EXTI_FTEN AND NOT linex);
         m = (if mode = EXTI_INTERRUPT then
              m(EXTI_INTEN := m EXTI_INTEN OR linex)
            else if mode = EXTI_EVENT then m(EXTI_EVEN := m EXTI_EVEN OR linex) else m)
      in (if trig_type = EXTI_TRIG_RISING then
            (let m = m(EXTI_RTEN := m EXTI_RTEN OR linex)
              in m(EXTI_FTEN := m EXTI_FTEN AND NOT linex))
          else if trig_type = EXTI_TRIG_FALLING then
            (let m = m(EXTI_RTEN := m EXTI_RTEN AND NOT linex)
              in m(EXTI_FTEN := m EXTI_FTEN OR linex))
          else if trig_type = EXTI_TRIG_BOTH then
            (let m = m(EXTI_RTEN := m EXTI_RTEN OR linex)
              in m(EXTI_FTEN := m EXTI_FTEN OR linex))
          else
            m))"

definition exti_interrupt_enable :: "u32 \<Rightarrow> mem \<Rightarrow> mem" where
  "exti_interrupt_enable linex m =
    m(EXTI_INTEN := m EXTI_INTEN OR linex)"

definition exti_interrupt_disable :: "u32 \<Rightarrow> mem \<Rightarrow> mem" where
  "exti_interrupt_disable linex m =
    m(EXTI_INTEN := m EXTI_INTEN AND NOT linex)"

definition exti_event_enable :: "u32 \<Rightarrow> mem \<Rightarrow> mem" where
  "exti_event_enable linex m =
    m(EXTI_EVEN := m EXTI_EVEN OR linex)"

definition exti_event_disable :: "u32 \<Rightarrow> mem \<Rightarrow> mem" where
  "exti_event_disable linex m =
    m(EXTI_EVEN := m EXTI_EVEN AND NOT linex)"

definition exti_software_interrupt_enable :: "u32 \<Rightarrow> mem \<Rightarrow> mem" where
  "exti_software_interrupt_enable linex m =
    m(EXTI_SWIEV := m EXTI_SWIEV OR linex)"

definition exti_software_interrupt_disable :: "u32 \<Rightarrow> mem \<Rightarrow> mem" where
  "exti_software_interrupt_disable linex m =
    m(EXTI_SWIEV := m EXTI_SWIEV AND NOT linex)"

definition exti_flag_get :: "u32 \<Rightarrow> mem \<Rightarrow> FlagStatus" where
  "exti_flag_get linex m =
    (if (m EXTI_PD AND linex) \<noteq> 0 then SET else RESET)"

definition exti_flag_clear :: "u32 \<Rightarrow> mem \<Rightarrow> mem" where
  "exti_flag_clear linex m =
    m(EXTI_PD := linex)"

definition exti_interrupt_flag_get :: "u32 \<Rightarrow> mem \<Rightarrow> FlagStatus" where
  "exti_interrupt_flag_get linex m =
    (if (m EXTI_PD AND linex) \<noteq> 0 then SET else RESET)"

definition exti_interrupt_flag_clear :: "u32 \<Rightarrow> mem \<Rightarrow> mem" where
  "exti_interrupt_flag_clear linex m =
    m(EXTI_PD := linex)"

subsection \<open>gd32f30x_misc.c\<close>

definition nvic_priority_group_set :: "u32 \<Rightarrow> mem \<Rightarrow> mem" where
  "nvic_priority_group_set nvic_prigroup m = m(SCB_AIRCR := NVIC_AIRCR_VECTKEY_MASK OR nvic_prigroup)"

definition nvic_temp_pre_sub :: "mem \<Rightarrow> (u32 \<times> u32) \<times> mem" where
  "nvic_temp_pre_sub m =
    (if m SCB_AIRCR AND 0x700 = NVIC_PRIGROUP_PRE0_SUB4 then ((0, 4), m)
     else if m SCB_AIRCR AND 0x700 = NVIC_PRIGROUP_PRE1_SUB3 then ((1, 3), m)
     else if m SCB_AIRCR AND 0x700 = NVIC_PRIGROUP_PRE2_SUB2 then ((2, 2), m)
     else if m SCB_AIRCR AND 0x700 = NVIC_PRIGROUP_PRE3_SUB1 then ((3, 1), m)
     else if m SCB_AIRCR AND 0x700 = NVIC_PRIGROUP_PRE4_SUB0 then ((4, 0), m)
     else ((2, 2), nvic_priority_group_set NVIC_PRIGROUP_PRE2_SUB2 m))"

definition nvic_irq_enable :: "u8 \<Rightarrow> u8 \<Rightarrow> u8 \<Rightarrow> mem \<Rightarrow> mem" where
  "nvic_irq_enable nvic_irq nvic_irq_pre_priority nvic_irq_sub_priority m =
    (let ((temp_pre, temp_sub), m) = nvic_temp_pre_sub m;
         temp_priority = push_bit (unat (4 - temp_pre)) (ucast nvic_irq_pre_priority :: u32);
         temp_priority = temp_priority OR
           ((ucast nvic_irq_sub_priority :: u32) AND drop_bit (unat (4 - temp_sub)) 0xF);
         temp_priority = push_bit 4 temp_priority;
         m = m(NVIC_IP (ucast nvic_irq) := (ucast (ucast temp_priority :: u8) :: u32))
      in m(NVIC_ISER (drop_bit 5 (ucast nvic_irq)) := push_bit (unat (nvic_irq AND 0x1F)) 1))"

definition nvic_irq_disable :: "u8 \<Rightarrow> mem \<Rightarrow> mem" where
  "nvic_irq_disable nvic_irq m =
    m(NVIC_ICER (drop_bit 5 (ucast nvic_irq)) := push_bit (unat (nvic_irq AND 0x1F)) 1)"

definition nvic_vector_table_set :: "u32 \<Rightarrow> u32 \<Rightarrow> mem \<Rightarrow> mem" where
  "nvic_vector_table_set nvic_vict_tab offset m =
    m(SCB_VTOR := nvic_vict_tab OR (offset AND NVIC_VECTTAB_OFFSET_MASK))"

definition system_lowpower_set :: "u8 \<Rightarrow> mem \<Rightarrow> mem" where
  "system_lowpower_set lowpower_mode m = m(SCB_SCR := m SCB_SCR OR (ucast lowpower_mode :: u32))"

definition system_lowpower_reset :: "u8 \<Rightarrow> mem \<Rightarrow> mem" where
  "system_lowpower_reset lowpower_mode m = m(SCB_SCR := m SCB_SCR AND NOT (ucast lowpower_mode :: u32))"

definition systick_clksource_set :: "u32 \<Rightarrow> mem \<Rightarrow> mem" where
  "systick_clksource_set systick_clksource m =
    (if systick_clksource = SYSTICK_CLKSOURCE_HCLK
     then m(SYSTICK_CTRL := m SYSTICK_CTRL OR SYSTICK_CLKSOURCE_HCLK)
     else m(SYSTICK_CTRL := m SYSTICK_CTRL AND SYSTICK_CLKSOURCE_HCLK_DIV8))"

section \<open>Interfaces\<close>

interpretation exti_int: reg_bit "exti_interrupt_enable l" "exti_interrupt_disable l" EXTI_INTEN l for l
  by unfold_locales (simp_all add: exti_interrupt_enable_def exti_interrupt_disable_def)

interpretation exti_ev: reg_bit "exti_event_enable l" "exti_event_disable l" EXTI_EVEN l for l
  by unfold_locales (simp_all add: exti_event_enable_def exti_event_disable_def)

interpretation exti_sw: reg_bit "exti_software_interrupt_enable l" "exti_software_interrupt_disable l" EXTI_SWIEV l for l
  by unfold_locales (simp_all add: exti_software_interrupt_enable_def exti_software_interrupt_disable_def)

section \<open>Properties\<close>

text \<open>
  \<^verbatim>\<open>exti_init\<close> configures one interrupt line and no other. For the line it leaves exactly the
  requested mode and edge, whatever was configured before; the bits of all other lines keep their values in
  all four registers.
\<close>

lemma exti_init_line:
  "exti_init l mode trig m EXTI_INTEN =
     (if mode = EXTI_INTERRUPT then m EXTI_INTEN OR l else m EXTI_INTEN AND NOT l) \<and>
   exti_init l mode trig m EXTI_EVEN =
     (if mode = EXTI_EVENT then m EXTI_EVEN OR l else m EXTI_EVEN AND NOT l) \<and>
   exti_init l mode trig m EXTI_RTEN =
     (if trig = EXTI_TRIG_RISING \<or> trig = EXTI_TRIG_BOTH then m EXTI_RTEN OR l else m EXTI_RTEN AND NOT l) \<and>
   exti_init l mode trig m EXTI_FTEN =
     (if trig = EXTI_TRIG_FALLING \<or> trig = EXTI_TRIG_BOTH then m EXTI_FTEN OR l else m EXTI_FTEN AND NOT l)"
proof (intro conjI)
  note d = exti_init_def Let_def
  show "exti_init l mode trig m EXTI_INTEN =
     (if mode = EXTI_INTERRUPT then m EXTI_INTEN OR l else m EXTI_INTEN AND NOT l)"
    by (cases "mode = EXTI_INTERRUPT"; cases "mode = EXTI_EVENT") (simp_all add: d or_and_not_cancel)
  show "exti_init l mode trig m EXTI_EVEN =
     (if mode = EXTI_EVENT then m EXTI_EVEN OR l else m EXTI_EVEN AND NOT l)"
    by (cases "mode = EXTI_INTERRUPT"; cases "mode = EXTI_EVENT") (simp_all add: d or_and_not_cancel)
  show "exti_init l mode trig m EXTI_RTEN =
     (if trig = EXTI_TRIG_RISING \<or> trig = EXTI_TRIG_BOTH then m EXTI_RTEN OR l else m EXTI_RTEN AND NOT l)"
    by (cases "mode = EXTI_INTERRUPT"; cases "mode = EXTI_EVENT"; cases "trig = EXTI_TRIG_RISING"; cases "trig = EXTI_TRIG_FALLING";
        cases "trig = EXTI_TRIG_BOTH") (simp_all add: d or_and_not_cancel)
  show "exti_init l mode trig m EXTI_FTEN =
     (if trig = EXTI_TRIG_FALLING \<or> trig = EXTI_TRIG_BOTH then m EXTI_FTEN OR l else m EXTI_FTEN AND NOT l)"
    by (cases "mode = EXTI_INTERRUPT"; cases "mode = EXTI_EVENT"; cases "trig = EXTI_TRIG_RISING"; cases "trig = EXTI_TRIG_FALLING";
        cases "trig = EXTI_TRIG_BOTH") (simp_all add: d or_and_not_cancel)
qed

end
