(* ===== verification/Gd32_Usart.thy ===== *)
theory Gd32_Usart
  imports Gd32_Rcu
begin

unbundle bit_operations_syntax

text \<open>
  Serial ports: gd32f30x_usart.c.
\<close>

section \<open>Registers and constants\<close>

abbreviation USART1 :: u32 where "USART1 \<equiv> 0x40004400"
abbreviation USART2 :: u32 where "USART2 \<equiv> 0x40004800"
abbreviation UART3 :: u32 where "UART3 \<equiv> 0x40004C00"
abbreviation UART4 :: u32 where "UART4 \<equiv> 0x40005000"
abbreviation USART0 :: u32 where "USART0 \<equiv> 0x40013800"
abbreviation USART_DATA :: "u32 \<Rightarrow> u32" where
  "USART_DATA usartx \<equiv> usartx + 4"
abbreviation USART_BAUD :: "u32 \<Rightarrow> u32" where
  "USART_BAUD usartx \<equiv> usartx + 8"
abbreviation USART_CTL0 :: "u32 \<Rightarrow> u32" where
  "USART_CTL0 usartx \<equiv> usartx + 0xC"
abbreviation USART_CTL1 :: "u32 \<Rightarrow> u32" where
  "USART_CTL1 usartx \<equiv> usartx + 0x10"
abbreviation USART_CTL2 :: "u32 \<Rightarrow> u32" where
  "USART_CTL2 usartx \<equiv> usartx + 0x14"
abbreviation USART_GP :: "u32 \<Rightarrow> u32" where
  "USART_GP usartx \<equiv> usartx + 0x18"
abbreviation USART_CTL3 :: "u32 \<Rightarrow> u32" where
  "USART_CTL3 usartx \<equiv> usartx + 0x80"
abbreviation USART_RT :: "u32 \<Rightarrow> u32" where
  "USART_RT usartx \<equiv> usartx + 0x84"
abbreviation USART_DATA_DATA :: u32 where "USART_DATA_DATA \<equiv> 0x1FF"
abbreviation USART_BAUD_FRADIV :: u32 where "USART_BAUD_FRADIV \<equiv> 0xF"
abbreviation USART_BAUD_INTDIV :: u32 where "USART_BAUD_INTDIV \<equiv> 0xFFF0"
abbreviation USART_CTL0_SBKCMD :: u32 where "USART_CTL0_SBKCMD \<equiv> 0x1"
abbreviation USART_CTL0_RWU :: u32 where "USART_CTL0_RWU \<equiv> 0x2"
abbreviation USART_CTL0_REN :: u32 where "USART_CTL0_REN \<equiv> 0x4"
abbreviation USART_CTL0_TEN :: u32 where "USART_CTL0_TEN \<equiv> 0x8"
abbreviation USART_CTL0_PM :: u32 where "USART_CTL0_PM \<equiv> 0x200"
abbreviation USART_CTL0_PCEN :: u32 where "USART_CTL0_PCEN \<equiv> 0x400"
abbreviation USART_CTL0_WM :: u32 where "USART_CTL0_WM \<equiv> 0x800"
abbreviation USART_CTL0_WL :: u32 where "USART_CTL0_WL \<equiv> 0x1000"
abbreviation USART_CTL0_UEN :: u32 where "USART_CTL0_UEN \<equiv> 0x2000"
abbreviation USART_CTL1_ADDR :: u32 where "USART_CTL1_ADDR \<equiv> 0xF"
abbreviation USART_CTL1_LBLEN :: u32 where "USART_CTL1_LBLEN \<equiv> 0x20"
abbreviation USART_CTL1_CLEN :: u32 where "USART_CTL1_CLEN \<equiv> 0x100"
abbreviation USART_CTL1_CPH :: u32 where "USART_CTL1_CPH \<equiv> 0x200"
abbreviation USART_CTL1_CPL :: u32 where "USART_CTL1_CPL \<equiv> 0x400"
abbreviation USART_CTL1_CKEN :: u32 where "USART_CTL1_CKEN \<equiv> 0x800"
abbreviation USART_CTL1_STB :: u32 where "USART_CTL1_STB \<equiv> 0x3000"
abbreviation USART_CTL1_LMEN :: u32 where "USART_CTL1_LMEN \<equiv> 0x4000"
abbreviation USART_CTL2_IREN :: u32 where "USART_CTL2_IREN \<equiv> 0x2"
abbreviation USART_CTL2_IRLP :: u32 where "USART_CTL2_IRLP \<equiv> 0x4"
abbreviation USART_CTL2_HDEN :: u32 where "USART_CTL2_HDEN \<equiv> 0x8"
abbreviation USART_CTL2_NKEN :: u32 where "USART_CTL2_NKEN \<equiv> 0x10"
abbreviation USART_CTL2_SCEN :: u32 where "USART_CTL2_SCEN \<equiv> 0x20"
abbreviation USART_CTL2_DENR :: u32 where "USART_CTL2_DENR \<equiv> 0x40"
abbreviation USART_CTL2_DENT :: u32 where "USART_CTL2_DENT \<equiv> 0x80"
abbreviation USART_CTL2_RTSEN :: u32 where "USART_CTL2_RTSEN \<equiv> 0x100"
abbreviation USART_CTL2_CTSEN :: u32 where "USART_CTL2_CTSEN \<equiv> 0x200"
abbreviation USART_GP_PSC :: u32 where "USART_GP_PSC \<equiv> 0xFF"
abbreviation USART_GP_GUAT :: u32 where "USART_GP_GUAT \<equiv> 0xFF00"
abbreviation USART_CTL3_RTEN :: u32 where "USART_CTL3_RTEN \<equiv> 0x1"
abbreviation USART_CTL3_SCRTNUM :: u32 where "USART_CTL3_SCRTNUM \<equiv> 0xE"
abbreviation USART_CTL3_RINV :: u32 where "USART_CTL3_RINV \<equiv> 0x100"
abbreviation USART_CTL3_TINV :: u32 where "USART_CTL3_TINV \<equiv> 0x200"
abbreviation USART_CTL3_DINV :: u32 where "USART_CTL3_DINV \<equiv> 0x400"
abbreviation USART_CTL3_MSBF :: u32 where "USART_CTL3_MSBF \<equiv> 0x800"
abbreviation USART_RT_RT :: u32 where "USART_RT_RT \<equiv> 0xFFFFFF"
abbreviation USART_RT_BL :: u32 where "USART_RT_BL \<equiv> 0xFF000000"
abbreviation USART_REG_VAL :: "u32 \<Rightarrow> u32 \<Rightarrow> u32" where
  "USART_REG_VAL usartx offset \<equiv> usartx + drop_bit 6 (offset AND 0xFFFF)"
abbreviation USART_BIT_POS :: "u32 \<Rightarrow> u32" where
  "USART_BIT_POS val \<equiv> val AND 0x1F"
abbreviation USART_REG_VAL2 :: "u32 \<Rightarrow> u32 \<Rightarrow> u32" where
  "USART_REG_VAL2 usartx offset \<equiv> usartx + drop_bit 22 offset"
abbreviation USART_BIT_POS2 :: "u32 \<Rightarrow> u32" where
  "USART_BIT_POS2 val \<equiv> drop_bit 16 (val AND 0x1F0000)"
abbreviation USART_DINV_ENABLE :: u32 where "USART_DINV_ENABLE \<equiv> 0x0"
abbreviation USART_DINV_DISABLE :: u32 where "USART_DINV_DISABLE \<equiv> 0x1"
abbreviation USART_TXPIN_ENABLE :: u32 where "USART_TXPIN_ENABLE \<equiv> 0x2"
abbreviation USART_TXPIN_DISABLE :: u32 where "USART_TXPIN_DISABLE \<equiv> 0x3"
abbreviation USART_RXPIN_ENABLE :: u32 where "USART_RXPIN_ENABLE \<equiv> 0x4"
abbreviation USART_RXPIN_DISABLE :: u32 where "USART_RXPIN_DISABLE \<equiv> 0x5"

section \<open>Operations\<close>

definition usart_deinit :: "u32 \<Rightarrow> mem \<Rightarrow> mem" where
  "usart_deinit usart_periph m =
    (if usart_periph = USART0 then
       (let m = rcu_periph_reset_enable RCU_USART0RST m
         in rcu_periph_reset_disable RCU_USART0RST m)
     else if usart_periph = USART1 then
       (let m = rcu_periph_reset_enable RCU_USART1RST m
         in rcu_periph_reset_disable RCU_USART1RST m)
     else if usart_periph = USART2 then
       (let m = rcu_periph_reset_enable RCU_USART2RST m
         in rcu_periph_reset_disable RCU_USART2RST m)
     else if usart_periph = UART3 then
       (let m = rcu_periph_reset_enable RCU_UART3RST m
         in rcu_periph_reset_disable RCU_UART3RST m)
     else if usart_periph = UART4 then
       (let m = rcu_periph_reset_enable RCU_UART4RST m
         in rcu_periph_reset_disable RCU_UART4RST m)
     else
       m)"

definition usart_baudrate_set :: "u32 \<Rightarrow> u32 \<Rightarrow> mem \<Rightarrow> mem" where
  "usart_baudrate_set usart_periph baudval m =
    (let uclk = 0;
         uclk = (if usart_periph = USART0 then
              rcu_clock_freq_get CK_APB2 m
            else if usart_periph = USART1 then
              rcu_clock_freq_get CK_APB1 m
            else if usart_periph = USART2 then
              rcu_clock_freq_get CK_APB1 m
            else if usart_periph = UART3 then
              rcu_clock_freq_get CK_APB1 m
            else if usart_periph = UART4 then rcu_clock_freq_get CK_APB1 m else uclk);
         udiv = (uclk + (baudval div 2)) div baudval;
         intdiv = udiv AND 0xFFF0;
         fradiv = udiv AND 0xF
      in m(USART_BAUD usart_periph := (USART_BAUD_FRADIV OR USART_BAUD_INTDIV) AND (intdiv OR fradiv)))"

definition usart_parity_config :: "u32 \<Rightarrow> u32 \<Rightarrow> mem \<Rightarrow> mem" where
  "usart_parity_config usart_periph paritycfg m =
    (let m = m(USART_CTL0 usart_periph := m (USART_CTL0 usart_periph) AND NOT (USART_CTL0_PM OR USART_CTL0_PCEN))
      in m(USART_CTL0 usart_periph := m (USART_CTL0 usart_periph) OR paritycfg))"

definition usart_word_length_set :: "u32 \<Rightarrow> u32 \<Rightarrow> mem \<Rightarrow> mem" where
  "usart_word_length_set usart_periph wlen m =
    (let m = m(USART_CTL0 usart_periph := m (USART_CTL0 usart_periph) AND NOT USART_CTL0_WL)
      in m(USART_CTL0 usart_periph := m (USART_CTL0 usart_periph) OR wlen))"

definition usart_stop_bit_set :: "u32 \<Rightarrow> u32 \<Rightarrow> mem \<Rightarrow> mem" where
  "usart_stop_bit_set usart_periph stblen m =
    (let m = m(USART_CTL1 usart_periph := m (USART_CTL1 usart_periph) AND NOT USART_CTL1_STB)
      in m(USART_CTL1 usart_periph := m (USART_CTL1 usart_periph) OR stblen))"

definition usart_enable :: "u32 \<Rightarrow> mem \<Rightarrow> mem" where
  "usart_enable usart_periph m =
    m(USART_CTL0 usart_periph := m (USART_CTL0 usart_periph) OR USART_CTL0_UEN)"

definition usart_disable :: "u32 \<Rightarrow> mem \<Rightarrow> mem" where
  "usart_disable usart_periph m =
    m(USART_CTL0 usart_periph := m (USART_CTL0 usart_periph) AND NOT USART_CTL0_UEN)"

definition usart_transmit_config :: "u32 \<Rightarrow> u32 \<Rightarrow> mem \<Rightarrow> mem" where
  "usart_transmit_config usart_periph txconfig m =
    (let m = m(USART_CTL0 usart_periph := m (USART_CTL0 usart_periph) AND NOT USART_CTL0_TEN)
      in m(USART_CTL0 usart_periph := m (USART_CTL0 usart_periph) OR (USART_CTL0_TEN AND txconfig)))"

definition usart_receive_config :: "u32 \<Rightarrow> u32 \<Rightarrow> mem \<Rightarrow> mem" where
  "usart_receive_config usart_periph rxconfig m =
    (let m = m(USART_CTL0 usart_periph := m (USART_CTL0 usart_periph) AND NOT USART_CTL0_REN)
      in m(USART_CTL0 usart_periph := m (USART_CTL0 usart_periph) OR (USART_CTL0_REN AND rxconfig)))"

definition usart_data_first_config :: "u32 \<Rightarrow> u32 \<Rightarrow> mem \<Rightarrow> mem" where
  "usart_data_first_config usart_periph msbf m =
    (let m = m(USART_CTL3 usart_periph := m (USART_CTL3 usart_periph) AND NOT USART_CTL3_MSBF)
      in m(USART_CTL3 usart_periph := m (USART_CTL3 usart_periph) OR msbf))"

definition usart_invert_config :: "u32 \<Rightarrow> u32 \<Rightarrow> mem \<Rightarrow> mem" where
  "usart_invert_config usart_periph invertpara m =
    (if invertpara = USART_DINV_ENABLE then
       m(USART_CTL3 usart_periph := m (USART_CTL3 usart_periph) OR USART_CTL3_DINV)
     else if invertpara = USART_TXPIN_ENABLE then
       m(USART_CTL3 usart_periph := m (USART_CTL3 usart_periph) OR USART_CTL3_TINV)
     else if invertpara = USART_RXPIN_ENABLE then
       m(USART_CTL3 usart_periph := m (USART_CTL3 usart_periph) OR USART_CTL3_RINV)
     else if invertpara = USART_DINV_DISABLE then
       m(USART_CTL3 usart_periph := m (USART_CTL3 usart_periph) AND NOT USART_CTL3_DINV)
     else if invertpara = USART_TXPIN_DISABLE then
       m(USART_CTL3 usart_periph := m (USART_CTL3 usart_periph) AND NOT USART_CTL3_TINV)
     else if invertpara = USART_RXPIN_DISABLE then
       m(USART_CTL3 usart_periph := m (USART_CTL3 usart_periph) AND NOT USART_CTL3_RINV)
     else
       m)"

definition usart_receiver_timeout_enable :: "u32 \<Rightarrow> mem \<Rightarrow> mem" where
  "usart_receiver_timeout_enable usart_periph m =
    m(USART_CTL3 usart_periph := m (USART_CTL3 usart_periph) OR USART_CTL3_RTEN)"

definition usart_receiver_timeout_disable :: "u32 \<Rightarrow> mem \<Rightarrow> mem" where
  "usart_receiver_timeout_disable usart_periph m =
    m(USART_CTL3 usart_periph := m (USART_CTL3 usart_periph) AND NOT USART_CTL3_RTEN)"

definition usart_receiver_timeout_threshold_config :: "u32 \<Rightarrow> u32 \<Rightarrow> mem \<Rightarrow> mem" where
  "usart_receiver_timeout_threshold_config usart_periph rtimeout m =
    (let m = m(USART_RT usart_periph := m (USART_RT usart_periph) AND NOT USART_RT_RT)
      in m(USART_RT usart_periph := m (USART_RT usart_periph) OR rtimeout))"

definition usart_data_transmit :: "u32 \<Rightarrow> u16 \<Rightarrow> mem \<Rightarrow> mem" where
  "usart_data_transmit usart_periph data m =
    m(USART_DATA usart_periph := USART_DATA_DATA AND (ucast data :: u32))"

definition usart_data_receive :: "u32 \<Rightarrow> mem \<Rightarrow> u16" where
  "usart_data_receive usart_periph m =
    (ucast (GET_BITS (m (USART_DATA usart_periph)) 0 8) :: u16)"

definition usart_address_config :: "u32 \<Rightarrow> u8 \<Rightarrow> mem \<Rightarrow> mem" where
  "usart_address_config usart_periph addr m =
    (let m = m(USART_CTL1 usart_periph := m (USART_CTL1 usart_periph) AND NOT USART_CTL1_ADDR)
      in m(USART_CTL1 usart_periph := m (USART_CTL1 usart_periph) OR (USART_CTL1_ADDR AND (ucast addr :: u32))))"

definition usart_mute_mode_enable :: "u32 \<Rightarrow> mem \<Rightarrow> mem" where
  "usart_mute_mode_enable usart_periph m =
    m(USART_CTL0 usart_periph := m (USART_CTL0 usart_periph) OR USART_CTL0_RWU)"

definition usart_mute_mode_disable :: "u32 \<Rightarrow> mem \<Rightarrow> mem" where
  "usart_mute_mode_disable usart_periph m =
    m(USART_CTL0 usart_periph := m (USART_CTL0 usart_periph) AND NOT USART_CTL0_RWU)"

definition usart_mute_mode_wakeup_config :: "u32 \<Rightarrow> u32 \<Rightarrow> mem \<Rightarrow> mem" where
  "usart_mute_mode_wakeup_config usart_periph wmethod m =
    (let m = m(USART_CTL0 usart_periph := m (USART_CTL0 usart_periph) AND NOT USART_CTL0_WM)
      in m(USART_CTL0 usart_periph := m (USART_CTL0 usart_periph) OR wmethod))"

definition usart_lin_mode_enable :: "u32 \<Rightarrow> mem \<Rightarrow> mem" where
  "usart_lin_mode_enable usart_periph m =
    m(USART_CTL1 usart_periph := m (USART_CTL1 usart_periph) OR USART_CTL1_LMEN)"

definition usart_lin_mode_disable :: "u32 \<Rightarrow> mem \<Rightarrow> mem" where
  "usart_lin_mode_disable usart_periph m =
    m(USART_CTL1 usart_periph := m (USART_CTL1 usart_periph) AND NOT USART_CTL1_LMEN)"

definition usart_lin_break_detection_length_config :: "u32 \<Rightarrow> u32 \<Rightarrow> mem \<Rightarrow> mem" where
  "usart_lin_break_detection_length_config usart_periph lblen m =
    (let m = m(USART_CTL1 usart_periph := m (USART_CTL1 usart_periph) AND NOT USART_CTL1_LBLEN)
      in m(USART_CTL1 usart_periph := m (USART_CTL1 usart_periph) OR (USART_CTL1_LBLEN AND lblen)))"

definition usart_send_break :: "u32 \<Rightarrow> mem \<Rightarrow> mem" where
  "usart_send_break usart_periph m =
    m(USART_CTL0 usart_periph := m (USART_CTL0 usart_periph) OR USART_CTL0_SBKCMD)"

definition usart_halfduplex_enable :: "u32 \<Rightarrow> mem \<Rightarrow> mem" where
  "usart_halfduplex_enable usart_periph m =
    m(USART_CTL2 usart_periph := m (USART_CTL2 usart_periph) OR USART_CTL2_HDEN)"

definition usart_halfduplex_disable :: "u32 \<Rightarrow> mem \<Rightarrow> mem" where
  "usart_halfduplex_disable usart_periph m =
    m(USART_CTL2 usart_periph := m (USART_CTL2 usart_periph) AND NOT USART_CTL2_HDEN)"

definition usart_synchronous_clock_enable :: "u32 \<Rightarrow> mem \<Rightarrow> mem" where
  "usart_synchronous_clock_enable usart_periph m =
    m(USART_CTL1 usart_periph := m (USART_CTL1 usart_periph) OR USART_CTL1_CKEN)"

definition usart_synchronous_clock_disable :: "u32 \<Rightarrow> mem \<Rightarrow> mem" where
  "usart_synchronous_clock_disable usart_periph m =
    m(USART_CTL1 usart_periph := m (USART_CTL1 usart_periph) AND NOT USART_CTL1_CKEN)"

definition usart_synchronous_clock_config :: "u32 \<Rightarrow> u32 \<Rightarrow> u32 \<Rightarrow> u32 \<Rightarrow> mem \<Rightarrow> mem" where
  "usart_synchronous_clock_config usart_periph clen cph cpl m =
    (let m = m(USART_CTL1 usart_periph := m (USART_CTL1 usart_periph) AND NOT (USART_CTL1_CLEN OR USART_CTL1_CPH OR USART_CTL1_CPL))
      in m(USART_CTL1 usart_periph := m (USART_CTL1 usart_periph) OR (USART_CTL1_CLEN AND clen) OR (USART_CTL1_CPH AND cph) OR (USART_CTL1_CPL AND cpl)))"

definition usart_guard_time_config :: "u32 \<Rightarrow> u8 \<Rightarrow> mem \<Rightarrow> mem" where
  "usart_guard_time_config usart_periph guat m =
    (let m = m(USART_GP usart_periph := m (USART_GP usart_periph) AND NOT USART_GP_GUAT)
      in m(USART_GP usart_periph := m (USART_GP usart_periph) OR (USART_GP_GUAT AND push_bit 8 (ucast guat :: u32))))"

definition usart_smartcard_mode_enable :: "u32 \<Rightarrow> mem \<Rightarrow> mem" where
  "usart_smartcard_mode_enable usart_periph m =
    m(USART_CTL2 usart_periph := m (USART_CTL2 usart_periph) OR USART_CTL2_SCEN)"

definition usart_smartcard_mode_disable :: "u32 \<Rightarrow> mem \<Rightarrow> mem" where
  "usart_smartcard_mode_disable usart_periph m =
    m(USART_CTL2 usart_periph := m (USART_CTL2 usart_periph) AND NOT USART_CTL2_SCEN)"

definition usart_smartcard_mode_nack_enable :: "u32 \<Rightarrow> mem \<Rightarrow> mem" where
  "usart_smartcard_mode_nack_enable usart_periph m =
    m(USART_CTL2 usart_periph := m (USART_CTL2 usart_periph) OR USART_CTL2_NKEN)"

definition usart_smartcard_mode_nack_disable :: "u32 \<Rightarrow> mem \<Rightarrow> mem" where
  "usart_smartcard_mode_nack_disable usart_periph m =
    m(USART_CTL2 usart_periph := m (USART_CTL2 usart_periph) AND NOT USART_CTL2_NKEN)"

definition usart_smartcard_autoretry_config :: "u32 \<Rightarrow> u8 \<Rightarrow> mem \<Rightarrow> mem" where
  "usart_smartcard_autoretry_config usart_periph scrtnum m =
    (let m = m(USART_CTL3 usart_periph := m (USART_CTL3 usart_periph) AND NOT USART_CTL3_SCRTNUM)
      in m(USART_CTL3 usart_periph := m (USART_CTL3 usart_periph) OR (USART_CTL3_SCRTNUM AND push_bit 1 (ucast scrtnum :: u32))))"

definition usart_block_length_config :: "u32 \<Rightarrow> u8 \<Rightarrow> mem \<Rightarrow> mem" where
  "usart_block_length_config usart_periph bl m =
    (let m = m(USART_RT usart_periph := m (USART_RT usart_periph) AND NOT USART_RT_BL)
      in m(USART_RT usart_periph := m (USART_RT usart_periph) OR (USART_RT_BL AND push_bit 24 (ucast bl :: u32))))"

definition usart_irda_mode_enable :: "u32 \<Rightarrow> mem \<Rightarrow> mem" where
  "usart_irda_mode_enable usart_periph m =
    m(USART_CTL2 usart_periph := m (USART_CTL2 usart_periph) OR USART_CTL2_IREN)"

definition usart_irda_mode_disable :: "u32 \<Rightarrow> mem \<Rightarrow> mem" where
  "usart_irda_mode_disable usart_periph m =
    m(USART_CTL2 usart_periph := m (USART_CTL2 usart_periph) AND NOT USART_CTL2_IREN)"

definition usart_prescaler_config :: "u32 \<Rightarrow> u8 \<Rightarrow> mem \<Rightarrow> mem" where
  "usart_prescaler_config usart_periph psc m =
    (let m = m(USART_GP usart_periph := m (USART_GP usart_periph) AND NOT USART_GP_PSC)
      in m(USART_GP usart_periph := m (USART_GP usart_periph) OR (ucast psc :: u32)))"

definition usart_irda_lowpower_config :: "u32 \<Rightarrow> u32 \<Rightarrow> mem \<Rightarrow> mem" where
  "usart_irda_lowpower_config usart_periph irlp m =
    (let m = m(USART_CTL2 usart_periph := m (USART_CTL2 usart_periph) AND NOT USART_CTL2_IRLP)
      in m(USART_CTL2 usart_periph := m (USART_CTL2 usart_periph) OR (USART_CTL2_IRLP AND irlp)))"

definition usart_hardware_flow_rts_config :: "u32 \<Rightarrow> u32 \<Rightarrow> mem \<Rightarrow> mem" where
  "usart_hardware_flow_rts_config usart_periph rtsconfig m =
    (let m = m(USART_CTL2 usart_periph := m (USART_CTL2 usart_periph) AND NOT USART_CTL2_RTSEN)
      in m(USART_CTL2 usart_periph := m (USART_CTL2 usart_periph) OR (USART_CTL2_RTSEN AND rtsconfig)))"

definition usart_hardware_flow_cts_config :: "u32 \<Rightarrow> u32 \<Rightarrow> mem \<Rightarrow> mem" where
  "usart_hardware_flow_cts_config usart_periph ctsconfig m =
    (let m = m(USART_CTL2 usart_periph := m (USART_CTL2 usart_periph) AND NOT USART_CTL2_CTSEN)
      in m(USART_CTL2 usart_periph := m (USART_CTL2 usart_periph) OR (USART_CTL2_CTSEN AND ctsconfig)))"

definition usart_dma_receive_config :: "u32 \<Rightarrow> u8 \<Rightarrow> mem \<Rightarrow> mem" where
  "usart_dma_receive_config usart_periph dmacmd m =
    (let m = m(USART_CTL2 usart_periph := m (USART_CTL2 usart_periph) AND NOT USART_CTL2_DENR)
      in m(USART_CTL2 usart_periph := m (USART_CTL2 usart_periph) OR (USART_CTL2_DENR AND (ucast dmacmd :: u32))))"

definition usart_dma_transmit_config :: "u32 \<Rightarrow> u8 \<Rightarrow> mem \<Rightarrow> mem" where
  "usart_dma_transmit_config usart_periph dmacmd m =
    (let m = m(USART_CTL2 usart_periph := m (USART_CTL2 usart_periph) AND NOT USART_CTL2_DENT)
      in m(USART_CTL2 usart_periph := m (USART_CTL2 usart_periph) OR (USART_CTL2_DENT AND (ucast dmacmd :: u32))))"

definition usart_flag_get :: "u32 \<Rightarrow> u32 \<Rightarrow> mem \<Rightarrow> FlagStatus" where
  "usart_flag_get usart_periph flag m =
    (if (m (USART_REG_VAL usart_periph flag) AND BIT (USART_BIT_POS flag)) \<noteq> 0 then
       SET
     else
       RESET)"

definition usart_flag_clear :: "u32 \<Rightarrow> u32 \<Rightarrow> mem \<Rightarrow> mem" where
  "usart_flag_clear usart_periph flag m =
    m(USART_REG_VAL usart_periph flag := NOT (BIT (USART_BIT_POS flag)))"

definition usart_interrupt_enable :: "u32 \<Rightarrow> u32 \<Rightarrow> mem \<Rightarrow> mem" where
  "usart_interrupt_enable usart_periph interrupt m =
    m(USART_REG_VAL usart_periph interrupt := m (USART_REG_VAL usart_periph interrupt) OR BIT (USART_BIT_POS interrupt))"

definition usart_interrupt_disable :: "u32 \<Rightarrow> u32 \<Rightarrow> mem \<Rightarrow> mem" where
  "usart_interrupt_disable usart_periph interrupt m =
    m(USART_REG_VAL usart_periph interrupt := m (USART_REG_VAL usart_periph interrupt) AND NOT (BIT (USART_BIT_POS interrupt)))"

definition usart_interrupt_flag_get :: "u32 \<Rightarrow> u32 \<Rightarrow> mem \<Rightarrow> FlagStatus" where
  "usart_interrupt_flag_get usart_periph int_flag m =
    (let intenable = m (USART_REG_VAL usart_periph int_flag) AND BIT (USART_BIT_POS int_flag);
         flagstatus = m (USART_REG_VAL2 usart_periph int_flag) AND BIT (USART_BIT_POS2 int_flag)
      in (if (flagstatus \<noteq> 0) \<and> (intenable \<noteq> 0) then SET else RESET))"

definition usart_interrupt_flag_clear :: "u32 \<Rightarrow> u32 \<Rightarrow> mem \<Rightarrow> mem" where
  "usart_interrupt_flag_clear usart_periph int_flag m =
    m(USART_REG_VAL2 usart_periph int_flag := NOT (BIT (USART_BIT_POS2 int_flag)))"

section \<open>Interfaces\<close>

interpretation usart_on: reg_bit "usart_enable p" "usart_disable p" "USART_CTL0 p" "USART_CTL0_UEN" for p
  by unfold_locales (simp_all add: usart_enable_def usart_disable_def)

interpretation usart_lin: reg_bit "usart_lin_mode_enable p" "usart_lin_mode_disable p" "USART_CTL1 p" "USART_CTL1_LMEN" for p
  by unfold_locales (simp_all add: usart_lin_mode_enable_def usart_lin_mode_disable_def)

interpretation usart_half: reg_bit "usart_halfduplex_enable p" "usart_halfduplex_disable p" "USART_CTL2 p" "USART_CTL2_HDEN" for p
  by unfold_locales (simp_all add: usart_halfduplex_enable_def usart_halfduplex_disable_def)

interpretation usart_int: reg_bit "usart_interrupt_enable p i" "usart_interrupt_disable p i" "USART_REG_VAL p i" "BIT (USART_BIT_POS i)" for p i
  by unfold_locales (simp_all add: usart_interrupt_enable_def usart_interrupt_disable_def)

interpretation usart_parity: reg_field "usart_parity_config p" "USART_CTL0 p" "USART_CTL0_PM OR USART_CTL0_PCEN" for p
  by unfold_locales (simp_all add: usart_parity_config_def Let_def)

interpretation usart_length: reg_field "usart_word_length_set p" "USART_CTL0 p" "USART_CTL0_WL" for p
  by unfold_locales (simp_all add: usart_word_length_set_def Let_def)

interpretation usart_stop: reg_field "usart_stop_bit_set p" "USART_CTL1 p" "USART_CTL1_STB" for p
  by unfold_locales (simp_all add: usart_stop_bit_set_def Let_def)

section \<open>Properties\<close>

lemma baud_mask: "unat (u :: u32) < 0x10000 \<Longrightarrow> (USART_BAUD_FRADIV OR USART_BAUD_INTDIV) AND ((u AND 0xFFF0) OR (u AND 0xF)) = u"
proof -
  assume "unat u < 0x10000"
  then have t: "take_bit 16 u = u"
    by (intro word_unat_eq_iff[THEN iffD2]) (simp add: unsigned_take_bit_eq take_bit_nat_eq_self)
  have "(USART_BAUD_FRADIV OR USART_BAUD_INTDIV) AND ((u AND 0xFFF0) OR (u AND 0xF)) = u AND (0xFFF0 OR 0xF)"
    by (simp only: bit.conj_disj_distrib[symmetric]) (simp add: and.commute and.left_commute)
  also have "\<dots> = take_bit 16 u" by (simp add: take_bit_eq_mask mask_eq_exp_minus_1)
  finally show ?thesis using t by simp
qed

lemma rounded_quotient:
  assumes "0 < (b :: nat)"
  shows "2 * \<bar>int ((f + b div 2) div b) * int b - int f\<bar> \<le> int b"
proof -
  let ?q = "(f + b div 2) div b"
  have "?q * b \<le> f + b div 2" "f + b div 2 < ?q * b + b"
    using assms div_mult_mod_eq[of "f + b div 2" b] mod_less_divisor[of b "f + b div 2"] by linarith+
  then have "int ?q * int b \<le> int f + int b div 2" "int f + int b div 2 < int ?q * int b + int b"
    by (metis of_nat_add of_nat_mult of_nat_le_iff of_nat_less_iff zdiv_int of_nat_numeral)+
  then have "2 * \<bar>x - int f\<bar> \<le> int b" if "x = int ?q * int b" for x using that by presburger
  then show ?thesis by blast
qed

text \<open>
  The divider that \<^verbatim>\<open>usart_baudrate_set\<close> programs for the modem's port is the best one: divider times baud
  rate differs from the clock of the port by at most half the baud rate, provided the divider fits its 16 bits. The
  addition that rounds the quotient does not wrap around for any setting of the clock tree.
\<close>

lemma baudrate_rounded:
  assumes "0 < unat b" "unat b \<le> 2 ^ 30" "(unat (rcu_clock_freq_get CK_APB1 m) + unat b div 2) div unat b < 0x10000"
  shows "2 * \<bar>int (unat (usart_baudrate_set UART3 b m (USART_BAUD UART3))) * int (unat b) -
     int (unat (rcu_clock_freq_get CK_APB1 m))\<bar> \<le> int (unat b)"
proof -
  let ?f = "rcu_clock_freq_get CK_APB1 m" and ?u = "(rcu_clock_freq_get CK_APB1 m + b div 2) div b"
  have h: "unat (b div 2) = unat b div 2" by (simp add: unat_div_distrib)
  have "unat ?f + unat b div 2 < 2 ^ 32" using apb1_clock_bound[of m] assms(2) by simp
  then have "unat (?f + b div 2) = unat ?f + unat b div 2"
    using unat_add_lem[of ?f "b div 2"] h by simp
  then have u: "unat ?u = (unat ?f + unat b div 2) div unat b" by (simp add: unat_div_distrib)
  have "usart_baudrate_set UART3 b m (USART_BAUD UART3) =
      (USART_BAUD_FRADIV OR USART_BAUD_INTDIV) AND ((?u AND 0xFFF0) OR (?u AND 0xF))"
    unfolding usart_baudrate_set_def Let_def by simp
  also have "\<dots> = ?u" using assms(3) u by (intro baud_mask) simp
  finally have "unat (usart_baudrate_set UART3 b m (USART_BAUD UART3)) = (unat ?f + unat b div 2) div unat b"
    using u by simp
  then show ?thesis using rounded_quotient[OF assms(1), of "unat ?f"] by simp
qed

end
