(* ===== verification/InData.thy ===== *)
theory InData
  imports Utils "HOL-Library.Sublist"
begin

text \<open>
  The input side of the modem: \<^verbatim>\<open>InData\<close> and \<^verbatim>\<open>CallbackOnReceive\<close> of
  \<^verbatim>\<open>sources/common/Modem/Modem.cpp\<close>. The receive interrupt stores symbols into \<^verbatim>\<open>main\<close>, or into
  \<^verbatim>\<open>addit\<close> while the main loop holds the mutex of \<^verbatim>\<open>main\<close>; the main loop moves them to \<^verbatim>\<open>buffer\<close> and
  splits that into lines for \<^verbatim>\<open>SIM868::Update\<close> and binary data for \<^verbatim>\<open>PBD::AppendByte\<close>. These two are
  the arguments \<open>sim\<close> and \<open>pbd\<close>, on a state of the client's own; \<open>None\<close> is a store outside an array.
  The type \<^verbatim>\<open>char\<close> is unsigned on this processor.
\<close>

section \<open>State and operations\<close>

abbreviation CAPACITY :: nat where "CAPACITY \<equiv> 2048"

record indata =
  i_main :: buffer
  i_addit :: buffer
  i_buffer :: buffer
  i_busy :: bool
  binary_bytes_left :: int

definition empty_buffer :: buffer where
  "empty_buffer = \<lparr>buf_size = 0, buf_data = replicate CAPACITY (CHR 0x00)\<rparr>"

definition empty_indata :: indata where
  "empty_indata = \<lparr>i_main = empty_buffer, i_addit = empty_buffer, i_buffer = empty_buffer, i_busy = False,
     binary_bytes_left = 0\<rparr>"

text \<open>\<^verbatim>\<open>if (!b.Append(...)) b.Clear();\<close>\<close>

definition append_or_clear :: "char list \<Rightarrow> buffer \<Rightarrow> buffer" where
  "append_or_clear data b = (let (ok, b) = buf_AppendData CAPACITY data b in if ok then b else buf_Clear b)"

definition append_symbol_or_clear :: "char \<Rightarrow> buffer \<Rightarrow> buffer" where
  "append_symbol_or_clear symbol b = (let (ok, b) = buf_Append CAPACITY symbol b in if ok then b else buf_Clear b)"

definition CallbackOnReceive :: "char \<Rightarrow> indata \<Rightarrow> indata" where
  "CallbackOnReceive symbol d =
    (if \<not> i_busy d then
       (let d = (if buf_size (i_addit d) \<noteq> 0
                 then d\<lparr>i_main := append_or_clear (buf_content (i_addit d)) (i_main d),
                        i_addit := buf_Clear (i_addit d)\<rparr>
                 else d)
         in d\<lparr>i_main := append_symbol_or_clear symbol (i_main d)\<rparr>)
     else d\<lparr>i_addit := append_symbol_or_clear symbol (i_addit d)\<rparr>)"

definition InData_Try :: "indata \<Rightarrow> indata" where
  "InData_Try d = d\<lparr>i_busy := True\<rparr>"

definition InData_Move :: "indata \<Rightarrow> indata" where
  "InData_Move d =
    (if buf_size (i_main d) \<noteq> 0
     then d\<lparr>i_buffer := append_or_clear (buf_content (i_main d)) (i_buffer d), i_main := buf_Clear (i_main d)\<rparr>
     else d)"

definition InData_Release :: "indata \<Rightarrow> indata" where
  "InData_Release d = d\<lparr>i_busy := False\<rparr>"

text \<open>\<^verbatim>\<open>while (buffer[0] < 0x20) { buffer.RemoveFirst(1); }\<close>\<close>

function strip_control :: "buffer \<Rightarrow> buffer option" where
  "strip_control b =
    (if (of_char (buf_at b 0) :: nat) < 0x20 then
       (case buf_RemoveFirst 1 b of None \<Rightarrow> None | Some b \<Rightarrow> strip_control b)
     else Some b)"
  by pat_completeness auto
termination
  by (relation "measure buf_size") (auto simp: buf_RemoveFirst_def Let_def split: if_splits)

declare strip_control.simps [simp del]

definition ipd_header :: "buffer \<Rightarrow> bool" where
  "ipd_header answer \<longleftrightarrow> buf_size answer > 5 \<and> buf_at answer 3 = CHR ''D'' \<and>
     buf_at answer (int (buf_size answer) - 1) = CHR '':'' \<and> take 4 (buf_data answer) = ''+IPD''"

definition ipd_number :: "buffer \<Rightarrow> int option" where
  "ipd_number answer =
    (let number = takeWhile (\<lambda>c. c \<noteq> CHR '':'') (drop 5 (buf_data answer))
      in (if length number < 32 then Some (sint (strtoul (c_str number))) else None))"

lemma RemoveFirst_size: "buf_RemoveFirst n b = Some b' \<Longrightarrow> n \<le> buf_size b \<and> buf_size b' = buf_size b - n"
  by (auto simp: buf_RemoveFirst_def Let_def split: if_splits)

lemma strip_control_size: "strip_control b = Some b' \<Longrightarrow> buf_size b' \<le> buf_size b"
proof (induction b rule: strip_control.induct)
  case (1 b)
  then show ?case
    by (subst (asm) (2) strip_control.simps) (fastforce split: if_splits option.splits dest: RemoveFirst_size)
qed

definition ipd_start :: "buffer \<Rightarrow> indata \<Rightarrow> indata option" where
  "ipd_start answer d =
    (case ipd_number answer of
       None \<Rightarrow> None
     | Some n \<Rightarrow>
         (case strip_control (i_buffer d) of
            None \<Rightarrow> None
          | Some b \<Rightarrow>
              (case buf_RemoveFirst (buf_size answer) b of
                 None \<Rightarrow> None
               | Some b \<Rightarrow> Some (d\<lparr>binary_bytes_left := n, i_buffer := b\<rparr>))))"

lemma ipd_start_size:
  "ipd_start answer d = Some d' \<Longrightarrow> ipd_header answer \<Longrightarrow> buf_size (i_buffer d') < buf_size (i_buffer d)"
  by (fastforce simp: ipd_start_def ipd_header_def split: option.splits dest!: RemoveFirst_size strip_control_size)

text \<open>The loop \<^verbatim>\<open>for (int i = 0; i < buffer.Size(); i++)\<close>; the result says whether \<^verbatim>\<open>answer_exist\<close>.\<close>

function scan :: "(u8 \<Rightarrow> 's \<Rightarrow> 's option) \<Rightarrow> nat \<Rightarrow> buffer \<Rightarrow> indata \<Rightarrow> 's \<Rightarrow> (bool \<times> buffer \<times> indata \<times> 's) option" where
  "scan pbd i answer d s =
    (if i < buf_size (i_buffer d) then
       (let symbol = buf_at (i_buffer d) (int i)
         in (if binary_bytes_left d \<noteq> 0 then
               (case pbd (of_char symbol) s of
                  None \<Rightarrow> None
                | Some s \<Rightarrow> scan pbd (i + 1) answer (d\<lparr>binary_bytes_left := binary_bytes_left d - 1\<rparr>) s)
             else if symbol = CHR 0x0A then scan pbd (i + 1) answer d s
             else if symbol = CHR 0x0D then
               (if buf_size answer = 0 then scan pbd (i + 1) answer d s
                else (case buf_RemoveFirst (i + 1) (i_buffer d) of
                        None \<Rightarrow> None
                      | Some b \<Rightarrow> Some (True, snd (buf_Append CAPACITY (CHR 0x00) answer), d\<lparr>i_buffer := b\<rparr>, s)))
             else if symbol = CHR ''>'' then
               (case buf_RemoveFirst (i + 1) (i_buffer d) of
                  None \<Rightarrow> None
                | Some b \<Rightarrow> Some (True, snd (buf_Append CAPACITY (CHR 0x00) (snd (buf_Append CAPACITY (CHR ''>'') answer))),
                               d\<lparr>i_buffer := b\<rparr>, s))
             else
               (let answer = snd (buf_Append CAPACITY symbol answer)
                 in (if ipd_header answer then
                       (case ipd_start answer d of
                          None \<Rightarrow> None
                        | Some d \<Rightarrow> scan pbd 0 (buf_Clear answer) d s)
                     else scan pbd (i + 1) answer d s))))
     else Some (False, answer, d, s))"
  by pat_completeness auto
termination
  by (relation "measures [\<lambda>(pbd, i, answer, d, s). buf_size (i_buffer d), \<lambda>(pbd, i, answer, d, s). buf_size (i_buffer d) - i]")
    (auto dest: ipd_start_size)

declare scan.simps [simp del]

text \<open>What a round of the loop can do, and the induction over its rounds.\<close>

lemma scan_cases:
  assumes "scan pbd i answer d s = Some r"
  obtains (stop) "r = (False, answer, d, s)"
  | (byte) s1 where "i < buf_size (i_buffer d)" "pbd (of_char (buf_at (i_buffer d) (int i))) s = Some s1"
      "scan pbd (i + 1) answer (d\<lparr>binary_bytes_left := binary_bytes_left d - 1\<rparr>) s1 = Some r"
  | (more) answer1 where "i < buf_size (i_buffer d)" "scan pbd (i + 1) answer1 d s = Some r"
  | (line) b answer1 where "i < buf_size (i_buffer d)" "buf_RemoveFirst (i + 1) (i_buffer d) = Some b"
      "r = (True, answer1, d\<lparr>i_buffer := b\<rparr>, s)"
  | (packet) answer1 d1 where "ipd_header answer1" "ipd_start answer1 d = Some d1"
      "scan pbd 0 (buf_Clear answer1) d1 s = Some r"
proof -
  note unfold = scan.simps[of pbd i answer d s]
  let ?x = "buf_at (i_buffer d) (int i)"
  let ?a = "snd (buf_Append CAPACITY ?x answer)"
  consider (stop) "\<not> i < buf_size (i_buffer d)" | (byte) "i < buf_size (i_buffer d)" "binary_bytes_left d \<noteq> 0"
    | (skip) "i < buf_size (i_buffer d)" "binary_bytes_left d = 0" "?x = CHR 0x0A \<or> ?x = CHR 0x0D \<and> buf_size answer = 0"
    | (line) "i < buf_size (i_buffer d)" "binary_bytes_left d = 0" "?x = CHR 0x0D \<and> buf_size answer \<noteq> 0 \<or> ?x = CHR ''>''"
    | (packet) "i < buf_size (i_buffer d)" "binary_bytes_left d = 0" "?x \<noteq> CHR 0x0A" "?x \<noteq> CHR 0x0D" "?x \<noteq> CHR ''>''" "ipd_header ?a"
    | (more) "i < buf_size (i_buffer d)" "binary_bytes_left d = 0" "?x \<noteq> CHR 0x0A" "?x \<noteq> CHR 0x0D" "?x \<noteq> CHR ''>''" "\<not> ipd_header ?a"
    by blast
  then show thesis
  proof cases
    case stop
    then show thesis using assms that(1) by (simp add: unfold)
  next
    case byte
    then show thesis using assms that(2) by (simp add: unfold split: option.splits)
  next
    case skip
    then have "scan pbd (i + 1) answer d s = Some r" using assms by (auto simp: unfold)
    then show thesis using that(3) skip(1) by blast
  next
    case line
    then have "\<exists>b answer1. buf_RemoveFirst (i + 1) (i_buffer d) = Some b \<and> r = (True, answer1, d\<lparr>i_buffer := b\<rparr>, s)"
      using assms by (auto simp: unfold split: option.splits)
    then show thesis using that(4) line(1) by blast
  next
    case packet
    then show thesis using assms that(5)[of ?a] by (simp add: unfold Let_def split: option.splits)
  next
    case more
    then have "scan pbd (i + 1) ?a d s = Some r" using assms by (simp add: unfold Let_def)
    then show thesis using that(3) more(1) by blast
  qed
qed

lemma scan_rounds [case_names round]:
  assumes "\<And>i answer d s. (\<And>s'. i < buf_size (i_buffer d) \<Longrightarrow>
        Q (i + 1) answer (d\<lparr>binary_bytes_left := binary_bytes_left d - 1\<rparr>) s') \<Longrightarrow>
      (\<And>answer'. i < buf_size (i_buffer d) \<Longrightarrow> Q (i + 1) answer' d s) \<Longrightarrow>
      (\<And>answer' d'. ipd_header answer' \<Longrightarrow> ipd_start answer' d = Some d' \<Longrightarrow> Q 0 (buf_Clear answer') d' s) \<Longrightarrow> Q i answer d s"
  shows "Q i answer d s"
proof (induction "(buf_size (i_buffer d), buf_size (i_buffer d) - i)" arbitrary: i answer d s
    rule: wf_induct_rule[OF wf_lex_prod[OF wf_less_than wf_less_than]])
  case less: 1
  show ?case by (rule assms) (rule less; auto dest: ipd_start_size)+
qed

lemma scan_size:
  "scan pbd i answer d s = Some (found, answer', d', s') \<Longrightarrow>
     buf_size (i_buffer d') \<le> buf_size (i_buffer d) \<and> (found \<longrightarrow> buf_size (i_buffer d') < buf_size (i_buffer d))"
proof (induction i answer d s rule: scan_rounds)
  case (round i answer d s)
  from round.prems show ?case
  proof (cases rule: scan_cases)
    case (byte s1)
    then show ?thesis using round.IH(1) by fastforce
  next
    case (more answer1)
    then show ?thesis using round.IH(2) by blast
  next
    case (packet answer1 d1)
    then show ?thesis using round.IH(3)[OF packet] ipd_start_size by fastforce
  qed (auto dest: RemoveFirst_size)
qed

text \<open>The string \<^verbatim>\<open>answer.Data()\<close>; \<open>None\<close> if there was no room for its terminating zero.\<close>

definition answer_line :: "buffer \<Rightarrow> string option" where
  "answer_line answer =
    (if CHR 0x00 \<in> set (buf_content answer) then Some (c_str (buf_content answer)) else None)"

function InData_lines ::
    "(string \<Rightarrow> 's \<Rightarrow> 's option) \<Rightarrow> (u8 \<Rightarrow> 's \<Rightarrow> 's option) \<Rightarrow> indata \<Rightarrow> 's \<Rightarrow> (indata \<times> 's) option" where
  "InData_lines sim pbd d s =
    (case scan pbd 0 empty_buffer d s of
       None \<Rightarrow> None
     | Some (answer_exist, answer, d, s) \<Rightarrow>
         (case (if answer_exist then answer_line answer else Some []) of
            None \<Rightarrow> None
          | Some line \<Rightarrow>
              (case sim line s of
                 None \<Rightarrow> None
               | Some s \<Rightarrow> (if answer_exist then InData_lines sim pbd d s else Some (d, s)))))"
  by pat_completeness auto
termination
  by (relation "measure (\<lambda>(sim, pbd, d, s). buf_size (i_buffer d))") (auto dest: scan_size)

declare InData_lines.simps [simp del]

definition InData_Update ::
    "(string \<Rightarrow> 's \<Rightarrow> 's option) \<Rightarrow> (u8 \<Rightarrow> 's \<Rightarrow> 's option) \<Rightarrow> indata \<Rightarrow> 's \<Rightarrow> (indata \<times> 's) option" where
  "InData_Update sim pbd d s =
    (let d = InData_Release (InData_Move (InData_Try d))
      in (if buf_size (i_buffer d) = 0
          then (case sim [] s of None \<Rightarrow> None | Some s \<Rightarrow> Some (d, s))
          else InData_lines sim pbd d s))"

section \<open>The buffers as lists\<close>

definition indata_ok :: "indata \<Rightarrow> bool" where
  "indata_ok d \<longleftrightarrow> buf_ok CAPACITY (i_main d) \<and> buf_ok CAPACITY (i_addit d) \<and> buf_ok CAPACITY (i_buffer d)"

abbreviation in_main :: "indata \<Rightarrow> char list" where "in_main d \<equiv> buf_content (i_main d)"
abbreviation in_addit :: "indata \<Rightarrow> char list" where "in_addit d \<equiv> buf_content (i_addit d)"
abbreviation in_buffer :: "indata \<Rightarrow> char list" where "in_buffer d \<equiv> buf_content (i_buffer d)"

lemma content_length [simp]: "buf_ok n b \<Longrightarrow> length (buf_content b) = buf_size b"
  by (simp add: buf_ok_def buf_content_def)

lemma clear_list [simp]: "buf_content (buf_Clear b) = []" "buf_ok n (buf_Clear b) \<longleftrightarrow> length (buf_data b) = n"
  by (simp_all add: buf_content_def buf_Clear_def buf_ok_def)

lemma buf_ok_data: "buf_ok n b \<Longrightarrow> length (buf_data b) = n"
  by (simp add: buf_ok_def)

lemma append_data_list:
  assumes "buf_ok n b"
  shows "buf_AppendData n data b = (False, b) \<and> n < buf_size b + length data \<or>
     (\<exists>b'. buf_AppendData n data b = (True, b') \<and> buf_ok n b' \<and> buf_content b' = buf_content b @ data \<and>
       buf_size b + length data \<le> n)"
  using assms by (auto simp: buf_AppendData_def buf_ok_def buf_content_def)

lemma append_or_clear_list:
  assumes "buf_ok CAPACITY b"
  shows "buf_ok CAPACITY (append_or_clear data b)"
    "buf_content (append_or_clear data b) = (if buf_size b + length data \<le> CAPACITY then buf_content b @ data else [])"
  using append_data_list[OF assms, of data] buf_ok_data[OF assms] by (auto simp: append_or_clear_def)

lemma append_symbol_list:
  assumes "buf_ok CAPACITY b"
  shows "buf_ok CAPACITY (append_symbol_or_clear x b)"
    "buf_content (append_symbol_or_clear x b) = (if buf_size b < CAPACITY then buf_content b @ [x] else [])"
proof -
  consider (room) "buf_size b < CAPACITY" | (full) "buf_size b = CAPACITY"
    using buf.ok_size[OF assms] assms by fastforce
  then have "buf_ok CAPACITY (append_symbol_or_clear x b) \<and>
      buf_content (append_symbol_or_clear x b) = (if buf_size b < CAPACITY then buf_content b @ [x] else [])"
  proof cases
    case room
    then show ?thesis using buf.append_room[OF assms, of x] assms by (auto simp: append_symbol_or_clear_def)
  next
    case full
    then show ?thesis
      using buf.append_full[OF assms, of x] assms buf_ok_data[OF assms] by (simp add: append_symbol_or_clear_def)
  qed
  then show "buf_ok CAPACITY (append_symbol_or_clear x b)"
    "buf_content (append_symbol_or_clear x b) = (if buf_size b < CAPACITY then buf_content b @ [x] else [])"
    by simp_all
qed

lemma size_content: "buf_ok n b \<Longrightarrow> buf_size b = length (buf_content b)"
  by simp

lemmas indata_lists = append_or_clear_list append_symbol_list buf_ok_data

section \<open>No symbol is invented, doubled or put out of order\<close>

text \<open>
  Interrupts may come between any two operations of the main loop. \<open>feed lost received moved d\<close>: after
  the symbols \<open>received\<close> came in, those in \<open>moved\<close> were handed on to \<^verbatim>\<open>buffer\<close>; \<open>lost\<close> is set when a
  buffer was full. The splitting into lines only takes symbols out of \<^verbatim>\<open>buffer\<close>.
\<close>

definition receive_room :: "indata \<Rightarrow> bool" where
  "receive_room d \<longleftrightarrow> (if i_busy d then buf_size (i_addit d) < CAPACITY
     else buf_size (i_main d) + buf_size (i_addit d) < CAPACITY)"

definition move_room :: "indata \<Rightarrow> bool" where
  "move_room d \<longleftrightarrow> buf_size (i_buffer d) + buf_size (i_main d) \<le> CAPACITY"

inductive feed :: "bool \<Rightarrow> char list \<Rightarrow> char list \<Rightarrow> indata \<Rightarrow> bool" where
  feed_start: "feed False [] [] empty_indata"
| feed_symbol: "feed lost received moved d \<Longrightarrow>
    feed (lost \<or> \<not> receive_room d) (received @ [x]) moved (CallbackOnReceive x d)"
| feed_try: "feed lost received moved d \<Longrightarrow> feed lost received moved (InData_Try d)"
| feed_move: "feed lost received moved d \<Longrightarrow> i_busy d \<Longrightarrow>
    feed (lost \<or> \<not> move_room d) received (moved @ (if move_room d then in_main d else [])) (InData_Move d)"
| feed_release: "feed lost received moved d \<Longrightarrow> feed lost received moved (InData_Release d)"
| feed_split: "feed lost received moved d \<Longrightarrow> buf_ok CAPACITY b \<Longrightarrow>
    feed lost received moved (d\<lparr>i_buffer := b, binary_bytes_left := n\<rparr>)"

lemma empty_ok: "indata_ok empty_indata"
  by (simp add: indata_ok_def empty_indata_def empty_buffer_def buf_ok_def)

lemma receive_ok: "indata_ok d \<Longrightarrow> indata_ok (CallbackOnReceive x d)"
  by (auto simp: indata_ok_def CallbackOnReceive_def Let_def indata_lists)

lemma move_ok: "indata_ok d \<Longrightarrow> indata_ok (InData_Move d)"
  by (auto simp: indata_ok_def InData_Move_def Let_def indata_lists)

lemma busy_ok [simp]: "indata_ok (InData_Try d) = indata_ok d" "indata_ok (InData_Release d) = indata_ok d"
  by (simp_all add: indata_ok_def InData_Try_def InData_Release_def)

lemma receive_lists:
  assumes "indata_ok d"
  shows "in_addit (CallbackOnReceive x d) =
      (if i_busy d \<and> receive_room d then in_addit d @ [x] else [])"
    "in_main (CallbackOnReceive x d) =
      (if i_busy d then in_main d
       else if receive_room d then in_main d @ in_addit d @ [x]
       else if buf_size (i_main d) + buf_size (i_addit d) = CAPACITY then [] else [x])"
  using assms buf.ok_size[of CAPACITY "i_main d"]
  by (auto simp: indata_ok_def CallbackOnReceive_def Let_def receive_room_def indata_lists
      size_content[of CAPACITY "append_or_clear _ _"] simp flip: length_0_conv)

lemma move_lists:
  assumes "indata_ok d"
  shows "in_main (InData_Move d) = []" "in_addit (InData_Move d) = in_addit d"
    "in_buffer (InData_Move d) = (if move_room d then in_buffer d @ in_main d else [])"
  using assms buf.ok_size[of CAPACITY "i_buffer d"]
  by (auto simp: indata_ok_def InData_Move_def move_room_def indata_lists simp flip: length_0_conv)

lemma busy_lists [simp]:
  "in_main (InData_Try d) = in_main d" "in_addit (InData_Try d) = in_addit d"
  "in_main (InData_Release d) = in_main d" "in_addit (InData_Release d) = in_addit d"
  "in_buffer (InData_Try d) = in_buffer d" "in_buffer (InData_Release d) = in_buffer d"
  by (simp_all add: InData_Try_def InData_Release_def)

lemma empty_lists [simp]: "in_main empty_indata = []" "in_addit empty_indata = []" "in_buffer empty_indata = []"
  by (simp_all add: empty_indata_def empty_buffer_def buf_content_def)

lemma feed_ok: "feed lost received moved d \<Longrightarrow> indata_ok d"
  by (induction rule: feed.induct) (simp_all add: empty_ok receive_ok move_ok, simp add: indata_ok_def)

lemma feed_subseq:
  "feed lost received moved d \<Longrightarrow> subseq (moved @ in_main d @ in_addit d) received"
proof (induction rule: feed.induct)
  case (feed_symbol lost received moved d x)
  let ?d = "CallbackOnReceive x d"
  have "subseq (in_main ?d @ in_addit ?d) (in_main d @ in_addit d @ [x])"
    by (auto simp: receive_lists[OF feed_ok[OF feed_symbol.hyps]] subseq_rev_drop_many)
  then have "subseq (moved @ in_main ?d @ in_addit ?d) ((moved @ in_main d @ in_addit d) @ [x])"
    using list_emb_append_mono[OF subseq_order.refl, of _ _ moved] by simp
  also have "subseq \<dots> (received @ [x])" using feed_symbol.IH by (rule subseq_append[THEN iffD2])
  finally show ?case .
next
  case (feed_move lost received moved d)
  have "subseq (moved @ in_addit d) (moved @ in_main d @ in_addit d)"
    by (simp add: subseq_append' subseq_drop_many)
  then show ?case using feed_move.IH subseq_order.trans
    by (auto simp: move_lists[OF feed_ok[OF feed_move.hyps(1)]])
qed simp_all

lemma feed_lossless:
  "feed lost received moved d \<Longrightarrow> \<not> lost \<Longrightarrow> moved @ in_main d @ in_addit d = received"
proof (induction rule: feed.induct)
  case (feed_symbol lost received moved d x)
  then show ?case using receive_lists[OF feed_ok[OF feed_symbol.hyps], of x] by auto
next
  case (feed_move lost received moved d)
  then show ?case using move_lists[OF feed_ok[OF feed_move.hyps(1)]] by auto
qed simp_all

section \<open>Splitting into lines\<close>

text \<open>\<open>store xs b\<close> appends the symbols one by one.\<close>

definition store :: "char list \<Rightarrow> buffer \<Rightarrow> buffer" where
  "store xs b = fold (\<lambda>x b. snd (buf_Append CAPACITY x b)) xs b"

lemma store_simps [simp]: "store [] b = b" "store (x # xs) b = store xs (snd (buf_Append CAPACITY x b))"
  by (simp_all add: store_def)

lemma store_store: "store xs (store ys b) = store (ys @ xs) b"
  by (simp add: store_def)

lemma store_list:
  assumes "buf_ok CAPACITY b" "buf_size b + length xs \<le> CAPACITY"
  shows "buf_ok CAPACITY (store xs b)" "buf_content (store xs b) = buf_content b @ xs"
  using buf.fill[OF assms(1), of xs] assms unfolding store_def by auto

definition plain :: "char \<Rightarrow> bool" where
  "plain x \<longleftrightarrow> x \<noteq> CHR 0x0A \<and> x \<noteq> CHR 0x0D \<and> x \<noteq> CHR ''>''"

definition blank :: "char \<Rightarrow> bool" where
  "blank x \<longleftrightarrow> x = CHR 0x0A \<or> x = CHR 0x0D"

lemma buf_at_content: "buf_ok n b \<Longrightarrow> i < buf_size b \<Longrightarrow> buf_at b (int i) = buf_content b ! i"
  by (simp add: buf_at_def buf_content_def)

lemma header_content:
  assumes "buf_ok CAPACITY b"
  shows "ipd_header b \<longleftrightarrow> 5 < length (buf_content b) \<and> take 4 (buf_content b) = ''+IPD'' \<and> last (buf_content b) = CHR '':''"
proof (cases "5 < buf_size b")
  case True
  have "take 4 (buf_data b) = take 4 (buf_content b)" using True by (simp add: buf_content_def)
  moreover have "buf_at b 3 = CHR ''D''" if "take 4 (buf_content b) = ''+IPD''"
    using True buf_at_content[OF assms, of 3] nth_take[of 3 4 "buf_content b"] that by simp
  moreover have "buf_at b (int (buf_size b) - 1) = last (buf_content b)"
    using True buf_at_content[OF assms, of "buf_size b - 1"] assms last_conv_nth[of "buf_content b"]
    by (simp add: of_nat_diff flip: length_0_conv)
  ultimately show ?thesis using True assms by (auto simp: ipd_header_def)
qed (use assms in \<open>simp add: ipd_header_def\<close>)

text \<open>One round of the loop for a symbol that only prolongs the answer.\<close>

lemma scan_plain:
  assumes "i < buf_size (i_buffer d)" "binary_bytes_left d = 0" "buf_at (i_buffer d) (int i) = x" "plain x"
    "\<not> ipd_header (store [x] answer)"
  shows "scan pbd i answer d s = scan pbd (i + 1) (store [x] answer) d s"
  using assms by (subst scan.simps) (simp add: plain_def Let_def)

lemma scan_blank:
  assumes "i < buf_size (i_buffer d)" "binary_bytes_left d = 0" "buf_at (i_buffer d) (int i) = x" "blank x"
    "buf_size answer = 0"
  shows "scan pbd i answer d s = scan pbd (i + 1) answer d s"
  using assms by (subst scan.simps) (auto simp: blank_def Let_def)

lemma scan_end: "buf_size (i_buffer d) \<le> i \<Longrightarrow> scan pbd i answer d s = Some (False, answer, d, s)"
  by (subst scan.simps) simp

lemma scan_blanks:
  assumes "buf_ok CAPACITY (i_buffer d)" "in_buffer d = u @ w @ rest" "binary_bytes_left d = 0" "list_all blank w"
    "buf_size answer = 0"
  shows "scan pbd (length u) answer d s = scan pbd (length (u @ w)) answer d s"
  using assms
proof (induction w arbitrary: u)
  case (Cons x w)
  have l: "length u < buf_size (i_buffer d)" using Cons.prems(1,2) size_content[of CAPACITY "i_buffer d"] by simp
  have "buf_at (i_buffer d) (int (length u)) = x"
    using buf_at_content[OF Cons.prems(1) l] Cons.prems(2) by simp
  then have "scan pbd (length u) answer d s = scan pbd (length u + 1) answer d s"
    using scan_blank[OF l Cons.prems(3) _ _ Cons.prems(5), of x] Cons.prems(4) by simp
  then show ?case using Cons.IH[of "u @ [x]"] Cons.prems by simp
qed simp

lemma scan_text:
  assumes "buf_ok CAPACITY (i_buffer d)" "in_buffer d = u @ w @ rest" "binary_bytes_left d = 0" "list_all plain w"
    "\<And>n. 0 < n \<Longrightarrow> n \<le> length w \<Longrightarrow> \<not> ipd_header (store (take n w) answer)"
  shows "scan pbd (length u) answer d s = scan pbd (length (u @ w)) (store w answer) d s"
  using assms
proof (induction w arbitrary: u answer)
  case (Cons x w)
  have l: "length u < buf_size (i_buffer d)" using Cons.prems(1,2) size_content[of CAPACITY "i_buffer d"] by simp
  have "buf_at (i_buffer d) (int (length u)) = x"
    using buf_at_content[OF Cons.prems(1) l] Cons.prems(2) by simp
  then have "scan pbd (length u) answer d s = scan pbd (length u + 1) (store [x] answer) d s"
    using scan_plain[OF l Cons.prems(3), of x answer] Cons.prems(4) Cons.prems(5)[of 1] by simp
  moreover have "\<not> ipd_header (store (take n w) (store [x] answer))" if "0 < n" "n \<le> length w" for n
    using Cons.prems(5)[of "Suc n"] that by simp
  ultimately show ?case using Cons.IH[of "u @ [x]" "store [x] answer"] Cons.prems(1-4) by simp
qed simp

definition text_line :: "string \<Rightarrow> bool" where
  "text_line w \<longleftrightarrow> list_all plain w \<and> take 4 w \<noteq> ''+IPD''"

lemma text_no_header:
  assumes "text_line w" "length w \<le> CAPACITY" "buf_ok CAPACITY answer" "buf_size answer = 0" "n \<le> length w"
  shows "\<not> ipd_header (store (take n w) answer)"
proof -
  have "buf_content answer = []" using assms(4) content_length[OF assms(3)] by simp
  then have "buf_ok CAPACITY (store (take n w) answer)" "buf_content (store (take n w) answer) = take n w"
    using store_list[of answer "take n w"] assms by simp_all
  then show ?thesis using assms(1,5) by (auto simp: header_content text_line_def min_def split: if_splits)
qed

lemma scan_text_line:
  assumes "buf_ok CAPACITY (i_buffer d)" "in_buffer d = u @ w @ rest" "binary_bytes_left d = 0" "text_line w"
    "buf_ok CAPACITY answer" "buf_size answer = 0"
  shows "scan pbd (length u) answer d s = scan pbd (length (u @ w)) (store w answer) d s"
proof (rule scan_text[OF assms(1-3)])
  have "length w \<le> CAPACITY" using buf.ok_size[OF assms(1)] assms(2) by simp
  then show "\<not> ipd_header (store (take n w) answer)" if "n \<le> length w" for n
    using text_no_header assms that by blast
qed (use assms(4) in \<open>simp add: text_line_def\<close>)

text \<open>The blanks in front of a line, the line and the symbol 0x0d after it.\<close>

lemma scan_line:
  assumes d: "indata_ok d" "binary_bytes_left d = 0" "in_buffer d = b @ w @ CHR 0x0D # rest"
    and line: "list_all blank b" "text_line w" "w \<noteq> []" "CHR 0x00 \<notin> set w"
  shows "\<exists>answer d'. scan pbd 0 empty_buffer d s = Some (True, answer, d', s) \<and> answer_line answer = Some w \<and>
     indata_ok d' \<and> in_buffer d' = rest \<and> d' = d\<lparr>i_buffer := i_buffer d'\<rparr>"
proof -
  have ok: "buf_ok CAPACITY (i_buffer d)" using d(1) by (simp add: indata_ok_def)
  have size: "buf_size (i_buffer d) = length (b @ w @ CHR 0x0D # rest)" using size_content[OF ok] d(3) by simp
  have lim: "length w + 1 \<le> CAPACITY" using buf.ok_size[OF ok] d(3) by simp
  have e: "buf_ok CAPACITY empty_buffer" "buf_size empty_buffer = 0" "buf_content empty_buffer = []"
    by (simp_all add: empty_buffer_def buf_ok_def buf_content_def)
  have st: "buf_ok CAPACITY (store w empty_buffer)" "buf_content (store w empty_buffer) = w"
    using store_list[OF e(1), of w] e lim by simp_all
  have st0: "buf_content (store [CHR 0x00] (store w empty_buffer)) = w @ [CHR 0x00]"
    using store_list(2)[OF e(1), of "w @ [CHR 0x00]"] e lim unfolding store_store by simp
  have "scan pbd 0 empty_buffer d s = scan pbd (length b) empty_buffer d s"
    using scan_blanks[OF ok _ d(2) line(1) e(2), of "[]" "w @ CHR 0x0D # rest"] d(3) by simp
  also have "\<dots> = scan pbd (length (b @ w)) (store w empty_buffer) d s"
    using scan_text_line[OF ok d(3,2) line(2) e(1,2)] .
  also have "\<dots> = (case buf_RemoveFirst (length (b @ w) + 1) (i_buffer d) of None \<Rightarrow> None
      | Some b \<Rightarrow> Some (True, store [CHR 0x00] (store w empty_buffer), d\<lparr>i_buffer := b\<rparr>, s))"
    using d(2) size buf_at_content[OF ok, of "length (b @ w)"] d(3) st size_content[OF st(1)] line(3)
    by (subst scan.simps) (simp add: nth_append split: option.split)
  finally have "scan pbd 0 empty_buffer d s = \<dots>" .
  moreover obtain c where "buf_RemoveFirst (length (b @ w) + 1) (i_buffer d) = Some c" "buf_ok CAPACITY c"
    "buf_content c = rest" using buf.remove_ok[OF ok, of "length (b @ w) + 1"] d(3) by auto
  moreover have "answer_line (store [CHR 0x00] (store w empty_buffer)) = Some w"
    using st0 line(4) by (simp add: answer_line_def c_str_terminated)
  ultimately show ?thesis using d(1) by (simp add: indata_ok_def)
qed

text \<open>A line that is not complete yet stays in \<^verbatim>\<open>buffer\<close>.\<close>

lemma scan_part:
  assumes d: "indata_ok d" "binary_bytes_left d = 0" "in_buffer d = b @ w" and line: "list_all blank b" "text_line w"
  shows "\<exists>answer. scan pbd 0 empty_buffer d s = Some (False, answer, d, s)"
proof -
  have ok: "buf_ok CAPACITY (i_buffer d)" using d(1) by (simp add: indata_ok_def)
  have e: "buf_ok CAPACITY empty_buffer" "buf_size empty_buffer = 0" by (simp_all add: empty_buffer_def buf_ok_def)
  have "scan pbd 0 empty_buffer d s = scan pbd (length b) empty_buffer d s"
    using scan_blanks[OF ok _ d(2) line(1) e(2), of "[]" w] d(3) by simp
  also have "\<dots> = scan pbd (length (b @ w)) (store w empty_buffer) d s"
    using scan_text_line[OF ok _ d(2) line(2) e, of b "[]"] d(3) by simp
  finally show ?thesis using size_content[OF ok] d(3) by (simp add: scan_end)
qed

fun each :: "('a \<Rightarrow> 's \<Rightarrow> 's option) \<Rightarrow> 'a list \<Rightarrow> 's \<Rightarrow> 's option" where
  "each f [] s = Some s"
| "each f (x # xs) s = (case f x s of None \<Rightarrow> None | Some s \<Rightarrow> each f xs s)"

lemma each_append: "each f (xs @ ys) s = (case each f xs s of None \<Rightarrow> None | Some s \<Rightarrow> each f ys s)"
  by (induction xs arbitrary: s) (auto split: option.splits)

text \<open>\<open>framed ls\<close> is a sequence of lines as the modem sends them, each after blanks and with 0x0d at its end.\<close>

definition framed :: "(string \<times> string) list \<Rightarrow> string" where
  "framed ls = concat (map (\<lambda>(b, w). b @ w @ [CHR 0x0D]) ls)"

definition line_ok :: "string \<times> string \<Rightarrow> bool" where
  "line_ok l \<longleftrightarrow> list_all blank (fst l) \<and> text_line (snd l) \<and> snd l \<noteq> [] \<and> CHR 0x00 \<notin> set (snd l)"

lemma lines_framed:
  assumes "indata_ok d" "binary_bytes_left d = 0" "in_buffer d = framed ls @ b @ w" "list_all line_ok ls"
    "list_all blank b" "text_line w"
  shows "\<exists>d'. InData_lines sim pbd d s = map_option (Pair d') (each sim (map snd ls @ [[]]) s) \<and>
     indata_ok d' \<and> in_buffer d' = b @ w \<and> d' = d\<lparr>i_buffer := i_buffer d'\<rparr>"
  using assms
proof (induction ls arbitrary: d s)
  case Nil
  then obtain answer where "scan pbd 0 empty_buffer d s = Some (False, answer, d, s)"
    using scan_part[of d b w pbd s] by (auto simp: framed_def)
  then show ?case using Nil by (subst InData_lines.simps) (auto simp: framed_def split: option.splits)
next
  case (Cons l ls)
  obtain b1 w1 where l: "l = (b1, w1)" by (cases l)
  have buf: "in_buffer d = b1 @ w1 @ CHR 0x0D # (framed ls @ b @ w)" using Cons.prems(3) by (simp add: framed_def l)
  obtain answer d1 where s1: "scan pbd 0 empty_buffer d s = Some (True, answer, d1, s)" "answer_line answer = Some w1"
    and d1: "indata_ok d1" "in_buffer d1 = framed ls @ b @ w" "d1 = d\<lparr>i_buffer := i_buffer d1\<rparr>"
    using scan_line[OF Cons.prems(1,2) buf, of pbd s] Cons.prems(4) unfolding l by (auto simp: line_ok_def)
  have left: "binary_bytes_left d1 = 0" using Cons.prems(2) by (subst d1(3)) simp
  have e: "InData_lines sim pbd d s = (case sim w1 s of None \<Rightarrow> None | Some s \<Rightarrow> InData_lines sim pbd d1 s)"
    using s1 by (subst InData_lines.simps) (simp split: option.split)
  have IH: "\<exists>d'. InData_lines sim pbd d1 t = map_option (Pair d') (each sim (map snd ls @ [[]]) t) \<and>
     indata_ok d' \<and> in_buffer d' = b @ w \<and> d' = d1\<lparr>i_buffer := i_buffer d'\<rparr>" for t
    using Cons.IH[OF d1(1) left d1(2)] Cons.prems(4-6) by simp
  have c: "d' = d1\<lparr>i_buffer := i_buffer d'\<rparr> \<Longrightarrow> d' = d\<lparr>i_buffer := i_buffer d'\<rparr>" for d'
    using d1(3) by (metis indata.surjective indata.update_convs(3))
  show ?case
  proof (cases "sim w1 s")
    case None
    then show ?thesis using e IH[of s] c by (auto simp: l)
  next
    case (Some t)
    then show ?thesis using e IH[of t] c by (auto simp: l)
  qed
qed

lemma update_start:
  assumes "indata_ok d" "move_room d"
  shows "\<exists>d1. InData_Release (InData_Move (InData_Try d)) = d1 \<and> indata_ok d1 \<and> in_buffer d1 = in_buffer d @ in_main d \<and>
     in_main d1 = [] \<and> in_addit d1 = in_addit d \<and> binary_bytes_left d1 = binary_bytes_left d \<and> \<not> i_busy d1"
proof -
  have t: "move_room (InData_Try d)" "indata_ok (InData_Try d)" "\<not> i_busy (InData_Release (InData_Move (InData_Try d)))"
    "binary_bytes_left (InData_Release (InData_Move (InData_Try d))) = binary_bytes_left d"
    using assms by (simp_all add: move_room_def InData_Try_def InData_Release_def InData_Move_def indata_ok_def)
  show ?thesis using t move_ok[OF t(2)] move_lists[OF t(2)] by simp
qed

lemma update_lines:
  assumes "indata_ok d" "move_room d" "binary_bytes_left d = 0" "in_buffer d @ in_main d = framed ls @ b @ w"
    "list_all line_ok ls" "list_all blank b" "text_line w"
  shows "\<exists>d'. InData_Update sim pbd d s = map_option (Pair d') (each sim (map snd ls @ [[]]) s) \<and>
     indata_ok d' \<and> in_buffer d' = b @ w \<and> in_main d' = [] \<and> in_addit d' = in_addit d \<and> binary_bytes_left d' = 0"
proof -
  obtain d1 where d1: "InData_Release (InData_Move (InData_Try d)) = d1" "indata_ok d1"
    "in_buffer d1 = in_buffer d @ in_main d" "in_main d1 = []" "in_addit d1 = in_addit d" "binary_bytes_left d1 = 0"
    using update_start[OF assms(1,2)] assms(3) by auto
  show ?thesis
  proof (cases "buf_size (i_buffer d1) = 0")
    case True
    then have "framed ls @ b @ w = []"
      using d1(2,3) assms(4) size_content[of CAPACITY "i_buffer d1"] by (simp add: indata_ok_def)
    then have "ls = []" "b = []" "w = []" by (cases ls, auto simp: framed_def)
    then show ?thesis using True d1 assms(4)
      by (auto simp: InData_Update_def Let_def framed_def split: option.split intro!: exI[of _ d1])
  next
    case False
    obtain d' where "InData_lines sim pbd d1 s = map_option (Pair d') (each sim (map snd ls @ [[]]) s)"
      "indata_ok d'" "in_buffer d' = b @ w" and e: "d' = d1\<lparr>i_buffer := i_buffer d'\<rparr>"
      using lines_framed[OF d1(2,6) _ assms(5-7), of sim pbd s] d1(3) assms(4) by auto
    moreover have "in_main d' = []" "in_addit d' = in_addit d" "binary_bytes_left d' = 0"
      using d1(4-6) by (subst e, simp)+
    ultimately show ?thesis using False d1(1) by (auto simp: InData_Update_def)
  qed
qed

section \<open>Binary packets\<close>

lemma strtoul_decimal:
  assumes "n < 2 ^ 31"
  shows "sint (strtoul (decimal n)) = int n"
proof -
  obtain c cs where d: "decimal n = c # cs" using decimal_not_Nil[of n] by (cases "decimal n") auto
  then have "is_digit c" using decimal_digits[of c n] by simp
  then have "strtoul (decimal n) = (if 0xFFFFFFFF < digits_value 0 (decimal n) then 0xFFFFFFFF
      else of_int (digits_value 0 (decimal n)))"
    using digit_not_space[of c] by (simp add: strtoul_def d Let_def)
  also have "\<dots> = of_nat n" using digits_value_append[of 0 n "[]"] assms by simp
  finally show ?thesis using assms by (simp add: signed_of_nat signed_take_bit_int_eq_self)
qed

lemma scan_binary:
  assumes "buf_ok CAPACITY (i_buffer d)" "in_buffer d = u @ w @ rest" "int (length w) \<le> binary_bytes_left d"
  shows "scan pbd (length u) answer d s = (case each pbd (map of_char w) s of None \<Rightarrow> None
     | Some s \<Rightarrow> scan pbd (length (u @ w)) answer (d\<lparr>binary_bytes_left := binary_bytes_left d - int (length w)\<rparr>) s)"
  using assms
proof (induction w arbitrary: u d s)
  case (Cons x w)
  let ?d = "d\<lparr>binary_bytes_left := binary_bytes_left d - 1\<rparr>"
  have l: "length u < buf_size (i_buffer d)" using Cons.prems(1,2) size_content[of CAPACITY "i_buffer d"] by simp
  have "buf_at (i_buffer d) (int (length u)) = x"
    using buf_at_content[OF Cons.prems(1) l] Cons.prems(2) by simp
  then have "scan pbd (length u) answer d s = (case pbd (of_char x) s of None \<Rightarrow> None
      | Some s \<Rightarrow> scan pbd (length u + 1) answer ?d s)"
    using l Cons.prems(3) by (subst scan.simps) simp
  moreover have "scan pbd (length (u @ [x])) answer ?d t = (case each pbd (map of_char w) t of None \<Rightarrow> None
     | Some s \<Rightarrow> scan pbd (length ((u @ [x]) @ w)) answer (?d\<lparr>binary_bytes_left := binary_bytes_left ?d - int (length w)\<rparr>) s)" for t
    using Cons.prems by (intro Cons.IH) simp_all
  ultimately show ?case by (auto split: option.split simp: algebra_simps)
qed simp

definition IPD_header :: "nat \<Rightarrow> string" where
  "IPD_header n = ''+IPD,'' @ decimal n @ '':''"

lemma strip_blanks:
  assumes "buf_ok CAPACITY b" "buf_content b = u @ x # rest" "list_all blank u" "32 \<le> (of_char x :: nat)"
  shows "\<exists>b'. strip_control b = Some b' \<and> buf_ok CAPACITY b' \<and> buf_content b' = x # rest"
  using assms
proof (induction u arbitrary: b)
  case Nil
  then have "buf_at b 0 = x" using buf_at_content[OF Nil(1), of 0] size_content[OF Nil(1)] by simp
  then show ?case using Nil by (subst strip_control.simps) simp
next
  case (Cons y u)
  have "buf_at b 0 = y" using buf_at_content[OF Cons.prems(1), of 0] size_content[OF Cons.prems(1)] Cons.prems(2) by simp
  then have "(of_char (buf_at b 0) :: nat) < 0x20" using Cons.prems(3) by (auto simp: blank_def)
  moreover obtain b1 where "buf_RemoveFirst 1 b = Some b1" "buf_ok CAPACITY b1" "buf_content b1 = u @ x # rest"
    using buf.remove_ok[OF Cons.prems(1), of 1] Cons.prems(2) by auto
  ultimately show ?case using Cons.IH[of b1] Cons.prems(3,4) by (subst strip_control.simps) simp
qed

lemma header_symbols:
  "list_all plain (''+IPD,'' @ decimal n)" "CHR '':'' \<notin> set (''+IPD,'' @ decimal n)" "CHR 0x00 \<notin> set (decimal n)"
proof -
  have d: "plain c \<and> c \<noteq> CHR '':'' \<and> c \<noteq> CHR 0x00" if "c \<in> set (decimal n)" for c
    using decimal_digits[OF that] by (auto simp: plain_def is_digit_def)
  then show "list_all plain (''+IPD,'' @ decimal n)" "CHR '':'' \<notin> set (''+IPD,'' @ decimal n)" "CHR 0x00 \<notin> set (decimal n)"
    by (auto simp: list_all_iff) (simp_all add: plain_def)
qed

lemma number_of_header:
  assumes "buf_ok CAPACITY a" "buf_content a = IPD_header n" "n < 2 ^ 31"
  shows "ipd_number a = Some (int n)"
proof -
  have "buf_data a = IPD_header n @ drop (buf_size a) (buf_data a)"
    using assms(2) append_take_drop_id[of "buf_size a" "buf_data a"] by (simp add: buf_content_def)
  from arg_cong[OF this, of "drop 5"] have "drop 5 (buf_data a) = decimal n @ CHR '':'' # drop (buf_size a) (buf_data a)"
    by (simp add: IPD_header_def)
  then have "takeWhile (\<lambda>c. c \<noteq> CHR '':'') (drop 5 (buf_data a)) = decimal n"
    using header_symbols(2)[of n] by (auto simp: takeWhile_tail takeWhile_append2)
  moreover have "c_str (decimal n) = decimal n" using header_symbols(3)[of n] by (auto simp: c_str_def takeWhile_eq_all_conv)
  moreover have "length (decimal n) < 32" using decimal_length[of n 10] assms(3) by simp
  ultimately show ?thesis using strtoul_decimal[OF assms(3)] by (simp add: ipd_number_def)
qed

lemma scan_colon:
  assumes "i < buf_size (i_buffer d)" "binary_bytes_left d = 0" "buf_at (i_buffer d) (int i) = CHR '':''"
    "ipd_header (store '':'' answer)"
  shows "scan pbd i answer d s =
     (case ipd_start (store '':'' answer) d of None \<Rightarrow> None | Some d \<Rightarrow> scan pbd 0 (buf_Clear (store '':'' answer)) d s)"
  using assms by (subst scan.simps) (simp add: Let_def split: option.split)

lemma scan_header:
  assumes d: "indata_ok d" "binary_bytes_left d = 0" "in_buffer d = b @ IPD_header n @ rest"
    and n: "list_all blank b" "n < 2 ^ 31"
  shows "\<exists>answer d'. scan pbd 0 empty_buffer d s = scan pbd 0 answer d' s \<and> buf_ok CAPACITY answer \<and> buf_size answer = 0 \<and>
     indata_ok d' \<and> in_buffer d' = rest \<and> d' = d\<lparr>i_buffer := i_buffer d', binary_bytes_left := int n\<rparr>"
proof -
  let ?w = "''+IPD,'' @ decimal n"
  have ok: "buf_ok CAPACITY (i_buffer d)" using d(1) by (simp add: indata_ok_def)
  have buf: "in_buffer d = b @ ?w @ CHR '':'' # rest" using d(3) by (simp add: IPD_header_def)
  have size: "buf_size (i_buffer d) = length (b @ ?w @ CHR '':'' # rest)" using size_content[OF ok] buf by simp
  have lim: "length (?w @ '':'') \<le> CAPACITY" using buf.ok_size[OF ok] buf by simp
  have e: "buf_ok CAPACITY empty_buffer" "buf_size empty_buffer = 0" "buf_content empty_buffer = []"
    by (simp_all add: empty_buffer_def buf_ok_def buf_content_def)
  let ?a = "store (?w @ '':'') empty_buffer"
  have a: "buf_ok CAPACITY ?a" "buf_content ?a = IPD_header n"
    using store_list[OF e(1), of "?w @ '':''"] e lim by (simp_all only: IPD_header_def) simp_all
  have no: "\<not> ipd_header (store (take k ?w) empty_buffer)" if "k \<le> length ?w" for k
  proof -
    have "?w \<noteq> []" by simp
    then have "last (take k ?w) \<noteq> CHR '':''" if "0 < k"
      using header_symbols(2)[of n] that last_in_set[of "take k ?w"] in_set_takeD[of "CHR '':''" k ?w] by fastforce
    then show ?thesis using store_list[OF e(1), of "take k ?w"] e lim that
      by (cases "k = 0") (auto simp: header_content)
  qed
  have yes: "ipd_header a" if "buf_ok CAPACITY a" "buf_content a = IPD_header n" for a
    using that decimal_not_Nil[of n] by (simp add: header_content IPD_header_def neq_Nil_conv Suc_le_eq) 
  have "scan pbd 0 empty_buffer d s = scan pbd (length b) empty_buffer d s"
    using scan_blanks[OF ok _ d(2) n(1) e(2), of "[]" "?w @ CHR '':'' # rest"] buf by simp
  also have "\<dots> = scan pbd (length (b @ ?w)) (store ?w empty_buffer) d s"
    by (rule scan_text[OF ok buf d(2) header_symbols(1)]) (rule no)
  also have "\<dots> = (case ipd_start ?a d of None \<Rightarrow> None | Some d \<Rightarrow> scan pbd 0 (buf_Clear ?a) d s)"
  proof (subst scan_colon)
    show "buf_at (i_buffer d) (int (length (b @ ?w))) = CHR '':''"
      using buf_at_content[OF ok, of "length (b @ ?w)"] buf size by (simp add: nth_append)
  qed (use size d(2) yes[OF a] in \<open>simp_all only: store_store\<close>, simp)
  finally have sc: "scan pbd 0 empty_buffer d s = \<dots>" .
  obtain b1 where b1: "strip_control (i_buffer d) = Some b1" "buf_ok CAPACITY b1" "buf_content b1 = IPD_header n @ rest"
    using strip_blanks[OF ok _ n(1), of "CHR ''+''" "tl ?w @ CHR '':'' # rest"] buf by (auto simp: IPD_header_def)
  obtain b2 where b2: "buf_RemoveFirst (buf_size ?a) b1 = Some b2" "buf_ok CAPACITY b2" "buf_content b2 = rest"
    using buf.remove_ok[OF b1(2), of "buf_size ?a"] b1(3) size_content[OF a(1)] a(2) by auto
  have "ipd_start ?a d = Some (d\<lparr>binary_bytes_left := int n, i_buffer := b2\<rparr>)"
    using number_of_header[OF a n(2)] b1(1) b2(1) by (simp add: ipd_start_def)
  then have "scan pbd 0 empty_buffer d s = scan pbd 0 (buf_Clear ?a) (d\<lparr>binary_bytes_left := int n, i_buffer := b2\<rparr>) s"
    using sc by (simp only: option.case)
  moreover have "buf_ok CAPACITY (buf_Clear ?a)" using buf_ok_data[OF a(1)] by (simp only: clear_list)
  moreover have "buf_size (buf_Clear x) = 0" for x by (simp add: buf_Clear_def)
  moreover have "indata_ok (d\<lparr>binary_bytes_left := int n, i_buffer := b2\<rparr>)" using d(1) b2(2) by (simp add: indata_ok_def)
  ultimately show ?thesis using b2(3)
    by (intro exI[of _ "buf_Clear ?a"] exI[of _ "d\<lparr>binary_bytes_left := int n, i_buffer := b2\<rparr>"] conjI) (assumption | simp)+
qed

lemma scan_binary0:
  assumes "buf_ok CAPACITY (i_buffer d)" "in_buffer d = w @ rest" "binary_bytes_left d = int n" "length w \<le> n"
  shows "scan pbd 0 answer d s = (case each pbd (map of_char w) s of None \<Rightarrow> None
     | Some s \<Rightarrow> scan pbd (length w) answer (d\<lparr>binary_bytes_left := int n - int (length w)\<rparr>) s)"
  using scan_binary[OF assms(1), of "[]" w rest pbd answer s] assms(2-4) by (simp only: append_Nil list.size of_nat_le_iff)

text \<open>A packet, or the first part of it: its bytes go to \<open>pbd\<close> and stay in \<^verbatim>\<open>buffer\<close>.\<close>

lemma scan_packet:
  assumes d: "indata_ok d" "binary_bytes_left d = 0" "in_buffer d = b @ IPD_header n @ data"
    and n: "list_all blank b" "length data \<le> n" "n < 2 ^ 31"
  shows "\<exists>answer d'. scan pbd 0 empty_buffer d s =
      map_option (\<lambda>s. (False, answer, d', s)) (each pbd (map of_char data) s) \<and>
     indata_ok d' \<and> in_buffer d' = data \<and>
     i_main d' = i_main d \<and> i_addit d' = i_addit d \<and> i_busy d' = i_busy d \<and>
     binary_bytes_left d' = int n - int (length data)"
proof -
  obtain answer d1 where s1: "scan pbd 0 empty_buffer d s = scan pbd 0 answer d1 s" and d1: "indata_ok d1"
    "in_buffer d1 = data" "d1 = d\<lparr>i_buffer := i_buffer d1, binary_bytes_left := int n\<rparr>"
    using scan_header[OF d n(1,3), of pbd s] by blast
  let ?d = "d1\<lparr>binary_bytes_left := int n - int (length data)\<rparr>"
  have ok: "buf_ok CAPACITY (i_buffer d1)" using d1(1) by (simp add: indata_ok_def)
  have left: "binary_bytes_left d1 = int n" by (subst d1(3)) simp
  have frame: "i_main d1 = i_main d" "i_addit d1 = i_addit d" "i_busy d1 = i_busy d" by (subst d1(3), simp)+
  have "scan pbd 0 answer d1 s = (case each pbd (map of_char data) s of None \<Rightarrow> None
     | Some s \<Rightarrow> scan pbd (length data) answer ?d s)"
    using scan_binary0[OF ok _ left n(2), of "[]"] d1(2) by simp
  also have "\<dots> = map_option (\<lambda>s. (False, answer, ?d, s)) (each pbd (map of_char data) s)"
    using size_content[OF ok] d1(2) by (auto simp: scan_end split: option.split)
  finally show ?thesis
    using s1 d1(1,2) frame by (intro exI[of _ answer] exI[of _ ?d]) (simp add: indata_ok_def)
qed

lemma update_packet:
  assumes "indata_ok d" "move_room d" "binary_bytes_left d = 0" "in_buffer d @ in_main d = b @ IPD_header n @ data"
    "list_all blank b" "length data \<le> n" "n < 2 ^ 31"
  shows "\<exists>d'. InData_Update sim pbd d s = (case each pbd (map of_char data) s of None \<Rightarrow> None
      | Some s \<Rightarrow> map_option (Pair d') (sim [] s)) \<and>
     indata_ok d' \<and> in_buffer d' = data \<and> in_main d' = [] \<and> in_addit d' = in_addit d \<and> \<not> i_busy d' \<and>
     binary_bytes_left d' = int n - int (length data)"
proof -
  obtain d1 where d1: "InData_Release (InData_Move (InData_Try d)) = d1" "indata_ok d1"
    "in_buffer d1 = in_buffer d @ in_main d" "in_main d1 = []" "in_addit d1 = in_addit d" "binary_bytes_left d1 = 0"
    "\<not> i_busy d1"
    using update_start[OF assms(1,2)] assms(3) by auto
  have buf: "in_buffer d1 = b @ IPD_header n @ data" using d1(3) assms(4) by simp
  have ne: "buf_size (i_buffer d1) \<noteq> 0"
    using d1(2) buf size_content[of CAPACITY "i_buffer d1"] by (simp add: indata_ok_def IPD_header_def)
  obtain answer d' where sc: "scan pbd 0 empty_buffer d1 s =
      map_option (\<lambda>s. (False, answer, d', s)) (each pbd (map of_char data) s)"
    and d': "indata_ok d'" "in_buffer d' = data"
      "i_main d' = i_main d1" "i_addit d' = i_addit d1" "i_busy d' = i_busy d1"
      "binary_bytes_left d' = int n - int (length data)"
    using scan_packet[OF d1(2,6) buf assms(5-7), of pbd s] by blast
  have "InData_Update sim pbd d s = (case each pbd (map of_char data) s of None \<Rightarrow> None
      | Some s \<Rightarrow> map_option (Pair d') (sim [] s))"
    using ne sc by (simp add: InData_Update_def d1(1) InData_lines.simps[of sim pbd d1] split: option.split)
  then show ?thesis using d' d1(4,5,7) by auto
qed

text \<open>The next call starts again at the first byte of \<^verbatim>\<open>buffer\<close>.\<close>

lemma update_rest:
  assumes "indata_ok d" "move_room d" "in_buffer d @ in_main d = data @ w" "int (length data) = binary_bytes_left d"
    "text_line w"
  shows "\<exists>d'. InData_Update sim pbd d s = (case each pbd (map of_char data) s of None \<Rightarrow> None
      | Some s \<Rightarrow> map_option (Pair d') (sim [] s)) \<and>
     indata_ok d' \<and> in_buffer d' = data @ w \<and> binary_bytes_left d' = 0"
proof -
  obtain d1 where d1: "InData_Release (InData_Move (InData_Try d)) = d1" "indata_ok d1"
    "in_buffer d1 = data @ w" "binary_bytes_left d1 = int (length data)"
    using update_start[OF assms(1,2)] assms(3,4) by auto
  have ok: "buf_ok CAPACITY (i_buffer d1)" using d1(2) by (simp add: indata_ok_def)
  let ?d = "d1\<lparr>binary_bytes_left := 0\<rparr>"
  have e: "buf_ok CAPACITY empty_buffer" "buf_size empty_buffer = 0" by (simp_all add: empty_buffer_def buf_ok_def)
  have "scan pbd 0 empty_buffer d1 s = (case each pbd (map of_char data) s of None \<Rightarrow> None
     | Some s \<Rightarrow> scan pbd (length data) empty_buffer ?d s)"
    using scan_binary0[OF ok d1(3,4) order_refl, of pbd empty_buffer s] unfolding diff_self .
  moreover have "scan pbd (length data) empty_buffer ?d t = Some (False, store w empty_buffer, ?d, t)" for t
    using scan_text_line[of ?d data w "[]", OF _ _ _ assms(5) e, of pbd t] ok d1(3) size_content[OF ok]
    by (simp add: scan_end)
  ultimately have sc: "scan pbd 0 empty_buffer d1 s =
      map_option (\<lambda>s. (False, store w empty_buffer, ?d, s)) (each pbd (map of_char data) s)"
    by (auto split: option.split)
  show ?thesis
  proof (cases "buf_size (i_buffer d1) = 0")
    case True
    then have "data = []" using d1(3) size_content[OF ok] by simp
    then show ?thesis using True d1 by (auto simp: InData_Update_def split: option.split intro!: exI[of _ d1])
  next
    case False
    then have "InData_Update sim pbd d s = (case each pbd (map of_char data) s of None \<Rightarrow> None
      | Some s \<Rightarrow> map_option (Pair ?d) (sim [] s))"
      using sc by (simp add: InData_Update_def d1(1) InData_lines.simps[of sim pbd d1] split: option.split)
    then show ?thesis using d1 by (intro exI[of _ ?d]) (auto simp: indata_ok_def)
  qed
qed

section \<open>Invariants of the client\<close>

lemma RemoveFirst_ok: "buf_RemoveFirst n b = Some b' \<Longrightarrow> buf_ok k b \<Longrightarrow> buf_ok k b'"
  by (auto simp: buf_RemoveFirst_def buf_ok_def Let_def split: if_splits)

lemma strip_control_ok: "strip_control b = Some b' \<Longrightarrow> buf_ok k b \<Longrightarrow> buf_ok k b'"
proof (induction b rule: strip_control.induct)
  case (1 b)
  then show ?case
    by (subst (asm) (2) strip_control.simps) (auto split: if_splits option.splits dest: RemoveFirst_ok)
qed

lemma ipd_start_ok: "ipd_start answer d = Some d' \<Longrightarrow> indata_ok d \<Longrightarrow> indata_ok d'"
  by (auto simp: ipd_start_def indata_ok_def split: option.splits dest: RemoveFirst_ok strip_control_ok)

lemma scan_ok: "scan pbd i answer d s = Some (found, answer', d', s') \<Longrightarrow> indata_ok d \<Longrightarrow> indata_ok d'"
proof (induction i answer d s rule: scan_rounds)
  case (round i answer d s)
  from round.prems(1) show ?case
  proof (cases rule: scan_cases)
    case (byte s1)
    then show ?thesis using round.IH(1)[of s1] round.prems(2) by (simp add: indata_ok_def)
  next
    case (more answer1)
    then show ?thesis using round.IH(2) round.prems(2) by blast
  next
    case (line b answer1)
    then show ?thesis using RemoveFirst_ok round.prems(2) by (auto simp: indata_ok_def)
  next
    case (packet answer1 d1)
    then show ?thesis using round.IH(3) ipd_start_ok round.prems(2) by blast
  qed (use round.prems in auto)
qed

lemma lines_ok: "InData_lines sim pbd d s = Some (d', s') \<Longrightarrow> indata_ok d \<Longrightarrow> indata_ok d'"
proof (induction sim pbd d s rule: InData_lines.induct)
  case (1 sim pbd d s)
  then show ?case
    by (subst (asm) (2) InData_lines.simps) (fastforce split: if_splits option.splits dest: scan_ok)
qed

lemma update_ok: "InData_Update sim pbd d s = Some (d', s') \<Longrightarrow> indata_ok d \<Longrightarrow> indata_ok d'"
  by (auto simp: InData_Update_def Let_def move_ok split: if_splits option.splits dest!: lines_ok)

lemma scan_keeps:
  assumes "scan pbd i answer d s = Some (found, answer', d', s')" "good s"
    "\<And>byte s s'. pbd byte s = Some s' \<Longrightarrow> good s \<Longrightarrow> good s'"
  shows "good s'"
  using assms(1,2)
proof (induction i answer d s rule: scan_rounds)
  case (round i answer d s)
  from round.prems(1) show ?case
  proof (cases rule: scan_cases)
    case (byte s1)
    then show ?thesis using round.IH(1) assms(3) round.prems(2) by blast
  next
    case (more answer1)
    then show ?thesis using round.IH(2) round.prems(2) by blast
  next
    case (packet answer1 d1)
    then show ?thesis using round.IH(3) round.prems(2) by blast
  qed (use round.prems in auto)
qed

lemma lines_keep:
  assumes "InData_lines sim pbd d s = Some (d', s')" "good s"
    "\<And>byte s s'. pbd byte s = Some s' \<Longrightarrow> good s \<Longrightarrow> good s'" "\<And>line s s'. sim line s = Some s' \<Longrightarrow> good s \<Longrightarrow> good s'"
  shows "good s'"
  using assms
proof (induction sim pbd d s rule: InData_lines.induct)
  case (1 sim pbd d s)
  obtain found answer d1 s1 where sc: "scan pbd 0 empty_buffer d s = Some (found, answer, d1, s1)"
    using "1.prems"(1) by (subst (asm) InData_lines.simps) (auto split: option.splits)
  have "good s1" using scan_keeps[of pbd 0 empty_buffer d s found answer d1 s1 good] sc "1.prems"(2,3) by blast
  moreover obtain line s2 where "(if found then answer_line answer else Some []) = Some line" "sim line s1 = Some s2"
    "(if found then InData_lines sim pbd d1 s2 else Some (d1, s2)) = Some (d', s')"
    using "1.prems"(1) sc by (subst (asm) InData_lines.simps) (auto split: option.splits if_splits)
  ultimately show ?case using "1.IH"[OF sc refl refl refl] "1.prems"(3,4) by (cases found) auto
qed

text \<open>
  What the input side needs from the two handlers of its client, to keep an invariant of the client: each of
  them keeps it.
\<close>

locale line_client =
  fixes sim :: "string \<Rightarrow> 's \<Rightarrow> 's option"
    and pbd :: "u8 \<Rightarrow> 's \<Rightarrow> 's option"
    and good :: "'s \<Rightarrow> bool"
  assumes sim_inv: "sim line s = Some s' \<Longrightarrow> good s \<Longrightarrow> good s'"
    and pbd_inv: "pbd byte s = Some s' \<Longrightarrow> good s \<Longrightarrow> good s'"
begin

lemma update_inv: "InData_Update sim pbd d s = Some (d', s') \<Longrightarrow> good s \<Longrightarrow> good s'"
  using lines_keep[of sim pbd _ s d' s' good] sim_inv pbd_inv
  by (auto simp: InData_Update_def Let_def split: if_splits option.splits)

end

section \<open>Properties\<close>

text \<open>
  C11: however the receive interrupt interleaves with the main loop, the symbols that were handed on to be
  split into lines, followed by those still waiting, are some of the received symbols in the order of their
  arrival, and all of them as long as no buffer was full. All buffers keep their form.
\<close>

theorem symbols_in_order:
  assumes "feed lost received moved d"
  shows "indata_ok d \<and> subseq (moved @ in_main d @ in_addit d) received \<and>
     (\<not> lost \<longrightarrow> moved @ in_main d @ in_addit d = received)"
  using feed_ok[OF assms] feed_subseq[OF assms] feed_lossless[OF assms] by blast

theorem symbols_in_order_witness:
  "\<exists>d. feed False ''ab'' ''a'' d \<and> subseq (''a'' @ in_main d @ in_addit d) ''ab''"
proof -
  let ?d1 = "InData_Try (CallbackOnReceive (CHR ''a'') empty_indata)"
  let ?d2 = "CallbackOnReceive (CHR ''b'') ?d1"
  have l0: "receive_room empty_indata" "i_busy empty_indata = False"
    by (simp_all add: receive_room_def empty_indata_def empty_buffer_def)
  have o: "indata_ok ?d1" "indata_ok ?d2" using receive_ok empty_ok by simp_all
  have l1: "in_main ?d1 = ''a''" "in_addit ?d1 = []" "i_busy ?d1"
    using receive_lists[OF empty_ok, of "CHR ''a''"] l0 by (simp_all add: InData_Try_def)
  then have r1: "receive_room ?d1" using o(1) size_content[of CAPACITY "i_addit ?d1"] by (simp add: receive_room_def indata_ok_def)
  then have l2: "in_main ?d2 = ''a''" "i_busy ?d2" "in_buffer ?d2 = []"
    using receive_lists[OF o(1), of "CHR ''b''"] l1 by (simp_all add: CallbackOnReceive_def InData_Try_def empty_indata_def empty_buffer_def buf_content_def)
  then have m2: "move_room ?d2"
    using o(2) size_content[of CAPACITY "i_main ?d2"] size_content[of CAPACITY "i_buffer ?d2"] by (simp add: move_room_def indata_ok_def)
  have "feed False [CHR ''a''] [] ?d1"
    using feed_try[OF feed_symbol[OF feed_start, of "CHR ''a''"]] l0 by simp
  from feed_symbol[OF this, of "CHR ''b''"] have "feed False ''ab'' [] ?d2" using r1 by simp
  from feed_move[OF this l2(2)] have f: "feed False ''ab'' ''a'' (InData_Move ?d2)" using m2 l2(1) by simp
  then show ?thesis using symbols_in_order[OF f] by blast
qed

text \<open>
  C12: the lines that are complete in what has been received go to \<^verbatim>\<open>SIM868::Update\<close> one by one and in order,
  without the blanks around them, then an empty line; the line that is still incomplete stays in \<^verbatim>\<open>buffer\<close>
  for the next call. The symbols in \<^verbatim>\<open>addit\<close> are not looked at, so a symbol that came while the mutex
  was held waits for the next symbol.
\<close>

theorem lines_delivered:
  assumes "indata_ok d" "move_room d" "binary_bytes_left d = 0" "in_buffer d @ in_main d = framed ls @ b @ w"
    "list_all line_ok ls" "list_all blank b" "text_line w"
  shows "\<exists>d'. InData_Update sim pbd d s = map_option (Pair d') (each sim (map snd ls @ [[]]) s) \<and>
     indata_ok d' \<and> in_buffer d' = b @ w \<and> in_main d' = [] \<and> in_addit d' = in_addit d \<and> binary_bytes_left d' = 0"
  by (rule update_lines[OF assms])

definition log_line :: "string \<Rightarrow> string list \<Rightarrow> string list option" where
  "log_line line s = Some (s @ [line])"

definition log_byte :: "u8 \<Rightarrow> u8 list \<Rightarrow> u8 list option" where
  "log_byte byte s = Some (s @ [byte])"

definition received_as :: "string \<Rightarrow> indata" where
  "received_as xs = empty_indata\<lparr>i_main := store xs empty_buffer\<rparr>"

lemma each_log: "each log_byte bs s = Some (s @ bs)" "each log_line ls t = Some (t @ ls)"
  by (induction bs arbitrary: s, simp_all add: log_byte_def) (induction ls arbitrary: t, simp_all add: log_line_def)

lemma received_as:
  assumes "length xs \<le> CAPACITY"
  shows "indata_ok (received_as xs)" "in_main (received_as xs) = xs" "in_buffer (received_as xs) = []"
    "binary_bytes_left (received_as xs) = 0" "move_room (received_as xs)"
proof -
  have e: "buf_ok CAPACITY empty_buffer" "buf_size empty_buffer = 0" "buf_content empty_buffer = []"
    by (simp_all add: empty_buffer_def buf_ok_def buf_content_def)
  note st = store_list[OF e(1), of xs]
  show "indata_ok (received_as xs)" "in_main (received_as xs) = xs" "in_buffer (received_as xs) = []"
    "binary_bytes_left (received_as xs) = 0" using assms e st
    by (simp_all add: received_as_def indata_ok_def empty_indata_def)
  then show "move_room (received_as xs)" using assms e st size_content[OF st(1)]
    by (simp add: move_room_def received_as_def empty_indata_def)
qed

theorem lines_delivered_witness:
  "\<exists>d'. InData_Update log_line (\<lambda>_. Some) (received_as (framed [([], ''OK''), ([CHR 0x0A, CHR 0x0D], ''RDY'')] @ [CHR 0x0A] @ ''+CR'')) [] =
      Some (d', [''OK'', ''RDY'', []]) \<and> in_buffer d' = CHR 0x0A # ''+CR''"
proof -
  let ?ls = "[([], ''OK''), ([CHR 0x0A, CHR 0x0D], ''RDY'')]"
  let ?xs = "framed ?ls @ [CHR 0x0A] @ ''+CR''"
  have len: "length ?xs \<le> CAPACITY" by (simp add: framed_def)
  have "in_buffer (received_as ?xs) @ in_main (received_as ?xs) = framed ?ls @ [CHR 0x0A] @ ''+CR''"
    using received_as(2,3)[OF len] by simp
  from lines_delivered[OF received_as(1,5,4)[OF len] this, of log_line "\<lambda>_. Some" "[]"]
  show ?thesis by (auto simp: line_ok_def blank_def text_line_def plain_def log_line_def)
qed

text \<open>
  C13: the bytes of a binary packet that is complete in what has been received all go to
  \<^verbatim>\<open>PBD::AppendByte\<close>, in order, and are then followed by an empty line. They are not removed from \<^verbatim>\<open>buffer\<close>.
\<close>

theorem packet_delivered:
  assumes "indata_ok d" "move_room d" "binary_bytes_left d = 0" "in_buffer d @ in_main d = b @ IPD_header n @ data"
    "list_all blank b" "length data = n" "n < 2 ^ 31"
  shows "\<exists>d'. InData_Update sim pbd d s = (case each pbd (map of_char data) s of None \<Rightarrow> None
      | Some s \<Rightarrow> map_option (Pair d') (sim [] s)) \<and>
     indata_ok d' \<and> in_buffer d' = data \<and> in_main d' = [] \<and> binary_bytes_left d' = 0"
  using update_packet[OF assms(1-5) _ assms(7), of sim pbd s] assms(6) by auto

theorem packet_delivered_witness:
  "\<exists>d'. InData_Update (\<lambda>_. Some) log_byte (received_as (IPD_header 2 @ [CHR 0x20, CHR 0x00])) [] =
      Some (d', [0x20, 0]) \<and> in_buffer d' = [CHR 0x20, CHR 0x00]"
proof -
  let ?xs = "IPD_header 2 @ [CHR 0x20, CHR 0x00]"
  have len: "length ?xs \<le> CAPACITY" by (simp add: IPD_header_def decimal.simps)
  have "in_buffer (received_as ?xs) @ in_main (received_as ?xs) = [] @ ?xs"
    using received_as(2,3)[OF len] by simp
  from packet_delivered[OF received_as(1,5,4)[OF len] this, of "\<lambda>_. Some" log_byte "[]"]
  show ?thesis by (auto simp: log_byte_def)
qed

text \<open>
  C14: a packet that arrives in two parts is not delivered as it was sent. The first call hands over the
  first part; the second call starts at the beginning of \<^verbatim>\<open>buffer\<close> again and hands over as many bytes as
  are missing, beginning with those it already gave. The end of the packet is taken for text.
\<close>

theorem split_packet_repeated:
  assumes "indata_ok d" "move_room d" "binary_bytes_left d = 0" "in_buffer d @ in_main d = IPD_header n @ data1"
    "length (data1 @ data2) = n" "n < 2 ^ 31" "buf_ok CAPACITY m" "buf_content m = data2" "n \<le> CAPACITY"
    "text_line (drop (length data2) (data1 @ data2))"
  shows "\<exists>d1 d2. InData_Update (\<lambda>_. Some) log_byte d s = Some (d1, s @ map of_char data1) \<and> in_main d1 = [] \<and>
     InData_Update (\<lambda>_. Some) log_byte (d1\<lparr>i_main := m\<rparr>) (s @ map of_char data1) =
       Some (d2, s @ map of_char data1 @ map of_char (take (length data2) (data1 @ data2)))"
proof -
  obtain d1 where d1: "InData_Update (\<lambda>_. Some) log_byte d s = Some (d1, s @ map of_char data1)" "indata_ok d1"
    "in_buffer d1 = data1" "in_main d1 = []" "binary_bytes_left d1 = int n - int (length data1)"
    using update_packet[OF assms(1-3), of "[]" n data1 "\<lambda>_. Some" log_byte s] assms(4-6) by (auto simp: each_log)
  let ?d = "d1\<lparr>i_main := m\<rparr>"
  have "indata_ok ?d" using d1(2) assms(7) by (simp add: indata_ok_def)
  moreover have "move_room ?d"
    using d1(2,3) assms(5,7-9) size_content[of CAPACITY "i_buffer d1"] size_content[OF assms(7)]
    by (simp add: move_room_def indata_ok_def)
  moreover have "in_buffer ?d @ in_main ?d = take (length data2) (data1 @ data2) @ drop (length data2) (data1 @ data2)"
    using d1(3) assms(8) by (simp only: append_take_drop_id) simp
  moreover have "int (length (take (length data2) (data1 @ data2))) = binary_bytes_left ?d"
    using d1(5) assms(5) by simp
  ultimately show ?thesis
    using update_rest[OF _ _ _ _ assms(10), of ?d "take (length data2) (data1 @ data2)" "\<lambda>_. Some" log_byte "s @ map of_char data1"]
      d1(1,4) by (auto simp: each_log)
qed

theorem split_packet_repeated_witness:
  "\<exists>d1 d2 m. InData_Update (\<lambda>_. Some) log_byte (received_as (IPD_header 4 @ ''ab'')) [] = Some (d1, map of_char ''ab'') \<and>
     InData_Update (\<lambda>_. Some) log_byte (d1\<lparr>i_main := m\<rparr>) (map of_char ''ab'') = Some (d2, map of_char ''abab'') \<and>
     buf_content m = ''cd''"
proof -
  let ?xs = "IPD_header 4 @ ''ab''"
  have len: "length ?xs \<le> CAPACITY" by (simp add: IPD_header_def decimal.simps)
  have m: "buf_ok CAPACITY (i_main (received_as ''cd''))" "buf_content (i_main (received_as ''cd'')) = ''cd''"
    using received_as(1,2)[of "''cd''"] by (simp_all add: indata_ok_def)
  have "in_buffer (received_as ?xs) @ in_main (received_as ?xs) = ?xs"
    using received_as(2,3)[OF len] by simp
  from split_packet_repeated[OF received_as(1,5,4)[OF len] this _ _ m, of "[]"]
  show ?thesis using m(2) by (auto simp: text_line_def plain_def)
qed

end
