(* ===== verification/HalPins.thy ===== *)
theory HalPins
  imports Gd32_Gpio Gd32_Exti Gd32_Usart InData
begin

unbundle bit_operations_syntax

text \<open>
  Pins and serial ports of the board: \<^verbatim>\<open>sources/common/Hardware/HAL/HAL_PINS.cpp\<close>, \<^verbatim>\<open>HAL_USART.cpp\<close> and the
  receive interrupt of \<^verbatim>\<open>HAL_IT.cpp\<close>, on the model of the vendor drivers. The board is the one that
  \<^verbatim>\<open>common_defines.h\<close> selects, \<^verbatim>\<open>HOME_VERSION\<close>.
\<close>

section \<open>Pins\<close>

abbreviation GPIO_MODE_AIN :: u32 where "GPIO_MODE_AIN \<equiv> 0"
abbreviation GPIO_MODE_IN_FLOATING :: u32 where "GPIO_MODE_IN_FLOATING \<equiv> 0x04"
abbreviation GPIO_MODE_OUT_PP :: u32 where "GPIO_MODE_OUT_PP \<equiv> 0x10"
abbreviation GPIO_MODE_AF_OD :: u32 where "GPIO_MODE_AF_OD \<equiv> 0x1C"
abbreviation GPIO_MODE_AF_PP :: u32 where "GPIO_MODE_AF_PP \<equiv> 0x18"
abbreviation GPIO_OSPEED_50MHZ :: u32 where "GPIO_OSPEED_50MHZ \<equiv> 3"
abbreviation GPIO_PIN :: "nat \<Rightarrow> u32" where "GPIO_PIN n \<equiv> push_bit n 1"

record pin =
  pin_port :: u32
  pin_bit :: u32

record pin_in = pin +
  in_mode :: u32

definition PinUSART_TX_Init :: "pin \<Rightarrow> mem \<Rightarrow> mem" where
  "PinUSART_TX_Init p m = gpio_init (pin_port p) GPIO_MODE_AF_PP GPIO_OSPEED_50MHZ (pin_bit p) m"

definition PinUSART_RX_Init :: "pin \<Rightarrow> mem \<Rightarrow> mem" where
  "PinUSART_RX_Init p m = gpio_init (pin_port p) GPIO_MODE_IN_FLOATING GPIO_OSPEED_50MHZ (pin_bit p) m"

definition PinOUT_Init :: "pin \<Rightarrow> mem \<Rightarrow> mem" where
  "PinOUT_Init p m = gpio_init (pin_port p) GPIO_MODE_OUT_PP GPIO_OSPEED_50MHZ (pin_bit p) m"

definition PinOUT_Set :: "pin \<Rightarrow> mem \<Rightarrow> mem" where
  "PinOUT_Set p m = m(GPIO_BOP (pin_port p) := pin_bit p)"

definition PinOUT_Reset :: "pin \<Rightarrow> mem \<Rightarrow> mem" where
  "PinOUT_Reset p m = m(GPIO_BC (pin_port p) := pin_bit p)"

definition PinOUT_SetState :: "pin \<Rightarrow> bool \<Rightarrow> mem \<Rightarrow> mem" where
  "PinOUT_SetState p state m = (if state then PinOUT_Set p m else PinOUT_Reset p m)"

definition PinIN_Init :: "pin_in \<Rightarrow> mem \<Rightarrow> mem" where
  "PinIN_Init p m = gpio_init (pin_port p) (in_mode p) GPIO_OSPEED_50MHZ (pin_bit p) m"

definition PinIN_DeInit :: "pin_in \<Rightarrow> mem \<Rightarrow> mem" where
  "PinIN_DeInit p m =
    (let m = gpio_init (pin_port p) GPIO_MODE_OUT_PP GPIO_OSPEED_MAX (pin_bit p) m
      in m(GPIO_BC (pin_port p) := pin_bit p))"

definition PinIN_IsLow :: "pin_in \<Rightarrow> mem \<Rightarrow> bool" where
  "PinIN_IsLow p m \<longleftrightarrow> gpio_input_bit_get (pin_port p) (pin_bit p) m = RESET"

definition PinIN_IsHi :: "pin_in \<Rightarrow> mem \<Rightarrow> bool" where
  "PinIN_IsHi p m \<longleftrightarrow> \<not> PinIN_IsLow p m"

definition PinI2C_Init :: "u32 \<Rightarrow> u32 \<Rightarrow> u32 \<Rightarrow> mem \<Rightarrow> pin \<times> mem" where
  "PinI2C_Init port' pin' mode m =
    (let p = \<lparr>pin_port = port', pin_bit = pin'\<rparr>
      in (p, gpio_init (pin_port p) mode GPIO_OSPEED_50MHZ (pin_bit p) m))"

definition PinADC_Init :: "pin \<Rightarrow> mem \<Rightarrow> mem" where
  "PinADC_Init p m = gpio_init (pin_port p) GPIO_MODE_AIN GPIO_OSPEED_MAX (pin_bit p) m"

definition pinBAT :: pin where "pinBAT = \<lparr>pin_port = GPIOA, pin_bit = GPIO_PIN 1\<rparr>"
definition pinUSART_GPRS_TX :: pin where "pinUSART_GPRS_TX = \<lparr>pin_port = GPIOC, pin_bit = GPIO_PIN 10\<rparr>"
definition pinUSART_GPRS_RX :: pin where "pinUSART_GPRS_RX = \<lparr>pin_port = GPIOC, pin_bit = GPIO_PIN 11\<rparr>"
definition pinUSART_LOG_TX :: pin where "pinUSART_LOG_TX = \<lparr>pin_port = GPIOD, pin_bit = GPIO_PIN 5\<rparr>"
definition pinUSART_LOG_RX :: pin where "pinUSART_LOG_RX = \<lparr>pin_port = GPIOD, pin_bit = GPIO_PIN 6\<rparr>"
definition pinGSM_PWR :: pin where "pinGSM_PWR = \<lparr>pin_port = GPIOD, pin_bit = GPIO_PIN 2\<rparr>"
definition pinGSM_PWRKEY :: pin where "pinGSM_PWRKEY = \<lparr>pin_port = GPIOD, pin_bit = GPIO_PIN 0\<rparr>"
definition pinGSM_STATUS :: pin_in where
  "pinGSM_STATUS = \<lparr>pin_port = GPIOD, pin_bit = GPIO_PIN 1, in_mode = GPIO_MODE_IPD\<rparr>"

section \<open>The serial port of the modem\<close>

abbreviation USART_GPRS_ADDR :: u32 where "USART_GPRS_ADDR \<equiv> UART3"
abbreviation USART_LOG_ADDR :: u32 where "USART_LOG_ADDR \<equiv> USART1"
abbreviation UART3_IRQn :: u8 where "UART3_IRQn \<equiv> 52"
abbreviation USART_PM_NONE :: u32 where "USART_PM_NONE \<equiv> 0"
abbreviation USART_WL_8BIT :: u32 where "USART_WL_8BIT \<equiv> 0"
abbreviation USART_STB_1BIT :: u32 where "USART_STB_1BIT \<equiv> 0"
abbreviation USART_RECEIVE_ENABLE :: u32 where "USART_RECEIVE_ENABLE \<equiv> 0x4"
abbreviation USART_TRANSMIT_ENABLE :: u32 where "USART_TRANSMIT_ENABLE \<equiv> 0x8"
abbreviation USART_INT_RBNE :: u32 where "USART_INT_RBNE \<equiv> push_bit 6 0xC OR 5"
abbreviation USART_FLAG_TBE :: u32 where "USART_FLAG_TBE \<equiv> 7"
abbreviation USART_INT_FLAG_RBNE :: u32 where
  "USART_INT_FLAG_RBNE \<equiv> push_bit 16 5 OR (push_bit 6 0xC OR 5)"
abbreviation GPIO_USART1_REMAP :: u32 where "GPIO_USART1_REMAP \<equiv> 0x8"

text \<open>\<^verbatim>\<open>NVIC_SetPriority\<close> of \<^verbatim>\<open>core_cm4.h\<close> for an interrupt of a peripheral.\<close>

definition NVIC_SetPriority :: "u8 \<Rightarrow> u32 \<Rightarrow> mem \<Rightarrow> mem" where
  "NVIC_SetPriority irq priority m = m(NVIC_IP (ucast irq) := push_bit (8 - 4) priority AND 0xFF)"

definition HAL_USART_GPRS_Init :: "mem \<Rightarrow> mem" where
  "HAL_USART_GPRS_Init m =
    (let m = PinUSART_TX_Init pinUSART_GPRS_TX m;
         m = PinUSART_RX_Init pinUSART_GPRS_RX m;
         m = nvic_irq_enable UART3_IRQn 1 1 m;
         m = NVIC_SetPriority UART3_IRQn 1 m;
         m = usart_deinit USART_GPRS_ADDR m;
         m = usart_baudrate_set USART_GPRS_ADDR 115200 m;
         m = usart_parity_config USART_GPRS_ADDR USART_PM_NONE m;
         m = usart_word_length_set USART_GPRS_ADDR USART_WL_8BIT m;
         m = usart_stop_bit_set USART_GPRS_ADDR USART_STB_1BIT m;
         m = usart_receive_config USART_GPRS_ADDR USART_RECEIVE_ENABLE m;
         m = usart_transmit_config USART_GPRS_ADDR USART_TRANSMIT_ENABLE m;
         m = usart_interrupt_enable USART_GPRS_ADDR USART_INT_RBNE m
      in usart_enable USART_GPRS_ADDR m)"

definition HAL_USART_GPRS_DeInit :: "mem \<Rightarrow> mem" where
  "HAL_USART_GPRS_DeInit m =
    (let m = usart_disable USART_GPRS_ADDR m;
         m = usart_interrupt_disable USART_GPRS_ADDR USART_INT_RBNE m;
         m = usart_deinit USART_GPRS_ADDR m;
         m = nvic_irq_disable UART3_IRQn m;
         m = gpio_init GPIOC GPIO_MODE_OUT_PP GPIO_OSPEED_MAX (GPIO_PIN 10) m;
         m = gpio_init GPIOC GPIO_MODE_OUT_PP GPIO_OSPEED_MAX (GPIO_PIN 11) m;
         m = m(GPIO_BC GPIOC := GPIO_PIN 10)
      in m(GPIO_BC GPIOC := GPIO_PIN 11))"

text \<open>
  \<^verbatim>\<open>while (RESET == usart_flag_get(..., USART_FLAG_TBE)) {}\<close> is the wait for bit 7 of the status register,
  which never ends if the port does not become ready: \<open>None\<close>.
\<close>

definition wait_TBE :: "(mem \<Rightarrow> mem) \<Rightarrow> u32 \<Rightarrow> mem \<Rightarrow> mem option" where
  "wait_TBE hw periph m = poll_set hw (USART_REG_VAL periph USART_FLAG_TBE) (BIT (USART_BIT_POS USART_FLAG_TBE)) m"

fun HAL_USART_GPRS_Transmit :: "(mem \<Rightarrow> mem) \<Rightarrow> u8 list \<Rightarrow> mem \<Rightarrow> mem option" where
  "HAL_USART_GPRS_Transmit hw [] m = Some m"
| "HAL_USART_GPRS_Transmit hw (b # bs) m =
    (case wait_TBE hw USART_GPRS_ADDR (usart_data_transmit USART_GPRS_ADDR (ucast b) m) of
       None \<Rightarrow> None
     | Some m \<Rightarrow> HAL_USART_GPRS_Transmit hw bs m)"

definition UART3_IRQHandler :: "mem \<Rightarrow> indata \<Rightarrow> indata" where
  "UART3_IRQHandler m d =
    (if usart_interrupt_flag_get USART_GPRS_ADDR USART_INT_FLAG_RBNE m \<noteq> RESET
     then CallbackOnReceive (char_of (unat (usart_data_receive USART_GPRS_ADDR m))) d
     else d)"

section \<open>The serial port of the log\<close>

text \<open>
  \<^verbatim>\<open>HAL::IsLayout()\<close> matters only to the other board: with \<^verbatim>\<open>HOME_VERSION\<close> the early returns are compiled out.
\<close>

definition HAL_USART_LOG_Init :: "mem \<Rightarrow> mem" where
  "HAL_USART_LOG_Init m =
    (let m = PinUSART_TX_Init pinUSART_LOG_TX m;
         m = PinUSART_RX_Init pinUSART_LOG_RX m;
         m = gpio_pin_remap_config GPIO_USART1_REMAP ENABLE m;
         m = usart_deinit USART_LOG_ADDR m;
         m = usart_baudrate_set USART_LOG_ADDR 115200 m;
         m = usart_transmit_config USART_LOG_ADDR USART_TRANSMIT_ENABLE m
      in usart_enable USART_LOG_ADDR m)"

fun log_bytes :: "(mem \<Rightarrow> mem) \<Rightarrow> string \<Rightarrow> mem \<Rightarrow> mem option" where
  "log_bytes hw [] m = Some m"
| "log_bytes hw (x # xs) m =
    (case wait_TBE hw USART_LOG_ADDR m of
       None \<Rightarrow> None
     | Some m \<Rightarrow>
         (case wait_TBE hw USART_LOG_ADDR (usart_data_transmit USART_LOG_ADDR (of_char x) m) of
            None \<Rightarrow> None
          | Some m \<Rightarrow> log_bytes hw xs m))"

definition HAL_USART_LOG_TransmitRAW :: "(mem \<Rightarrow> mem) \<Rightarrow> string \<Rightarrow> mem \<Rightarrow> mem option" where
  "HAL_USART_LOG_TransmitRAW hw message m =
    log_bytes hw (if at message 0 = CHR 0x0D \<and> at message 1 = CHR 0x0A then drop 2 message else message) m"

section \<open>Registers the serial port of the modem uses\<close>

abbreviation RCU_APB1RST :: u32 where "RCU_APB1RST \<equiv> 0x40021010"

definition gprs_regs :: "u32 set" where
  "gprs_regs = {GPIO_CTL0 GPIOC, GPIO_CTL1 GPIOC, GPIO_BC GPIOC, GPIO_BOP GPIOC, GPIOx_SPD GPIOC, SCB_AIRCR, NVIC_IP 52,
     NVIC_ISER 1, NVIC_ICER 1, RCU_APB1RST, USART_BAUD UART3, USART_CTL0 UART3, USART_CTL1 UART3}"

lemma nvic_enable_frame:
  "a \<noteq> SCB_AIRCR \<Longrightarrow> a \<noteq> NVIC_IP 52 \<Longrightarrow> a \<noteq> NVIC_ISER 1 \<Longrightarrow> nvic_irq_enable UART3_IRQn p q m a = m a"
  by (simp add: nvic_irq_enable_def nvic_temp_pre_sub_def nvic_priority_group_set_def)

lemma nvic_enable_irq: "nvic_irq_enable UART3_IRQn p q m 0xE000E104 = 0x100000"
  by (simp add: nvic_irq_enable_def nvic_temp_pre_sub_def Let_def split: prod.split)

lemma usart_deinit_frame: "a \<noteq> RCU_APB1RST \<Longrightarrow> usart_deinit UART3 m a = m a"
  by (simp add: usart_deinit_def rcu_periph_reset_enable_def rcu_periph_reset_disable_def)

lemma usart_deinit_released: "usart_deinit UART3 m RCU_APB1RST = m RCU_APB1RST AND NOT 0x80000"
proof -
  have "rcu_periph_reset_disable RCU_UART3RST (rcu_periph_reset_enable RCU_UART3RST m) = rcu_periph_reset_disable RCU_UART3RST m"
    by (rule rcu_reset.off_after_on)
  then show ?thesis by (simp add: usart_deinit_def rcu_periph_reset_disable_def)
qed

lemma baudrate_frame: "a \<noteq> USART_BAUD p \<Longrightarrow> usart_baudrate_set p baud m a = m a"
  by (simp add: usart_baudrate_set_def Let_def)

lemmas gprs_port_defs = usart_parity_config_def usart_word_length_set_def usart_stop_bit_set_def usart_receive_config_def
  usart_transmit_config_def usart_interrupt_enable_def usart_enable_def usart_disable_def usart_interrupt_disable_def
  NVIC_SetPriority_def nvic_irq_disable_def

lemma gprs_init_frame: "a \<notin> gprs_regs \<Longrightarrow> HAL_USART_GPRS_Init m a = m a"
  unfolding gprs_regs_def
  by (simp add: HAL_USART_GPRS_Init_def Let_def gprs_port_defs baudrate_frame usart_deinit_frame nvic_enable_frame
      PinUSART_TX_Init_def PinUSART_RX_Init_def pinUSART_GPRS_TX_def pinUSART_GPRS_RX_def gpio_init_frame)

lemma gprs_deinit_frame: "a \<notin> gprs_regs \<Longrightarrow> HAL_USART_GPRS_DeInit m a = m a"
  unfolding gprs_regs_def
  by (simp add: HAL_USART_GPRS_DeInit_def Let_def gprs_port_defs usart_deinit_frame gpio_init_frame)

text \<open>The mode of a pin only depends on the two control registers of its port.\<close>

lemma pin_mode_cong: "m (GPIO_CTL0 g) = m' (GPIO_CTL0 g) \<Longrightarrow> m (GPIO_CTL1 g) = m' (GPIO_CTL1 g) \<Longrightarrow> pin_mode g k m = pin_mode g k m'"
  by (simp add: pin_mode_def)

lemma clock_cong:
  "m RCU_CFG0 = m' RCU_CFG0 \<Longrightarrow> m RCU_CFG1 = m' RCU_CFG1 \<Longrightarrow> rcu_clock_freq_get c m = rcu_clock_freq_get c m'"
  by (simp only: rcu_clock_freq_get_def)

lemma baudrate_cong:
  "m RCU_CFG0 = m' RCU_CFG0 \<Longrightarrow> m RCU_CFG1 = m' RCU_CFG1 \<Longrightarrow>
     usart_baudrate_set p baud m (USART_BAUD p) = usart_baudrate_set p baud m' (USART_BAUD p)"
  using clock_cong[of m m'] by (simp only: usart_baudrate_set_def Let_def fun_upd_same)

text \<open>The part of the initialisation after the pins.\<close>

definition gprs_pins :: "mem \<Rightarrow> mem" where
  "gprs_pins m = PinUSART_RX_Init pinUSART_GPRS_RX (PinUSART_TX_Init pinUSART_GPRS_TX m)"

lemma gprs_pins_frame:
  "a \<notin> {GPIO_CTL0 GPIOC, GPIO_CTL1 GPIOC, GPIO_BC GPIOC, GPIO_BOP GPIOC, GPIOx_SPD GPIOC} \<Longrightarrow> gprs_pins m a = m a"
  by (simp add: gprs_pins_def PinUSART_TX_Init_def PinUSART_RX_Init_def pinUSART_GPRS_TX_def pinUSART_GPRS_RX_def gpio_init_frame)

lemma one_bit: "n < 32 \<Longrightarrow> bit (push_bit n 1 :: u32) k \<longleftrightarrow> k = n"
  by (auto simp: bit_simps)

lemma pin_bits: "bit (0x400 :: u32) k \<longleftrightarrow> k = 10" "bit (0x800 :: u32) k \<longleftrightarrow> k = 11" "bit (4 :: u32) k \<longleftrightarrow> k = 2"
  "bit (2 :: u32) k \<longleftrightarrow> k = 1" "bit (1 :: u32) k \<longleftrightarrow> k = 0"
  using one_bit[of 10 k] one_bit[of 11 k] one_bit[of 2 k] one_bit[of 1 k] one_bit[of 0 k] by simp_all

lemma or_absorb: "a AND NOT b = 0 \<Longrightarrow> (x AND a) OR b = (b :: u32)"
  by (auto simp: bit_eq_iff bit_simps)

lemma gprs_pins_mode:
  "k < 16 \<Longrightarrow> pin_mode GPIOC k (gprs_pins m) = (if k = 10 then 0xB else if k = 11 then 4 else pin_mode GPIOC k m)"
  by (simp add: gprs_pins_def PinUSART_TX_Init_def PinUSART_RX_Init_def pinUSART_GPRS_TX_def pinUSART_GPRS_RX_def
      init_pin_mode pin_bits del: bit_numeral_word_iff)

lemma gprs_init_unfold:
  "HAL_USART_GPRS_Init m =
    usart_enable UART3 (usart_interrupt_enable UART3 USART_INT_RBNE (usart_transmit_config UART3 USART_TRANSMIT_ENABLE
      (usart_receive_config UART3 USART_RECEIVE_ENABLE (usart_stop_bit_set UART3 USART_STB_1BIT
        (usart_word_length_set UART3 USART_WL_8BIT (usart_parity_config UART3 USART_PM_NONE (usart_baudrate_set UART3 115200
          (usart_deinit UART3 (NVIC_SetPriority UART3_IRQn 1 (nvic_irq_enable UART3_IRQn 1 1 (gprs_pins m)))))))))))"
  by (simp only: HAL_USART_GPRS_Init_def Let_def gprs_pins_def)

lemma gprs_init_pins:
  "pin_mode GPIOC k (HAL_USART_GPRS_Init m) = pin_mode GPIOC k (gprs_pins m)"
  by (rule pin_mode_cong)
    (simp_all add: gprs_init_unfold gprs_port_defs baudrate_frame usart_deinit_frame nvic_enable_frame)

lemma gprs_init_baud:
  "HAL_USART_GPRS_Init m (USART_BAUD UART3) = usart_baudrate_set UART3 115200 m (USART_BAUD UART3)"
proof -
  let ?m = "usart_deinit UART3 (NVIC_SetPriority UART3_IRQn 1 (nvic_irq_enable UART3_IRQn 1 1 (gprs_pins m)))"
  have "HAL_USART_GPRS_Init m (USART_BAUD UART3) = usart_baudrate_set UART3 115200 ?m (USART_BAUD UART3)"
    unfolding gprs_init_unfold by (simp add: gprs_port_defs)
  also have "\<dots> = usart_baudrate_set UART3 115200 m (USART_BAUD UART3)"
    by (rule baudrate_cong) (simp_all add: gprs_port_defs usart_deinit_frame nvic_enable_frame gprs_pins_frame)
  finally show ?thesis .
qed

lemma gprs_init_ctl:
  "HAL_USART_GPRS_Init m (USART_CTL0 UART3) AND 0x362C = 0x202C"
  "HAL_USART_GPRS_Init m (USART_CTL1 UART3) AND USART_CTL1_STB = 0"
  "HAL_USART_GPRS_Init m (NVIC_ISER 1) = 0x100000"
  "HAL_USART_GPRS_Init m RCU_APB1RST AND 0x80000 = 0"
  by (simp_all add: gprs_init_unfold gprs_port_defs baudrate_frame nvic_enable_irq usart_deinit_frame usart_deinit_released
      bit.conj_disj_distrib2 and.assoc or.assoc or_absorb)

section \<open>Sending\<close>

lemma wait_TBE_returns:
  assumes "\<exists>i. (hw ^^ Suc i) m (USART_REG_VAL p USART_FLAG_TBE) AND BIT (USART_BIT_POS USART_FLAG_TBE) \<noteq> 0"
  shows "\<exists>m'. wait_TBE hw p m = Some m'"
proof -
  obtain i where "(hw ^^ Suc i) m (USART_REG_VAL p USART_FLAG_TBE) AND BIT (USART_BIT_POS USART_FLAG_TBE) \<noteq> 0" using assms by blast
  from poll_set_returns[OF this] show ?thesis unfolding wait_TBE_def by blast
qed

text \<open>\<^verbatim>\<open>Transmit\<close> returns if the port becomes ready again after every byte; the loop has no time limit.\<close>

lemma transmit_returns:
  assumes "\<And>m. \<exists>i. (hw ^^ Suc i) m (USART_REG_VAL UART3 USART_FLAG_TBE) AND BIT (USART_BIT_POS USART_FLAG_TBE) \<noteq> 0"
  shows "\<exists>m'. HAL_USART_GPRS_Transmit hw bs m = Some m'"
proof (induction bs arbitrary: m)
  case (Cons b bs)
  obtain m1 where "wait_TBE hw UART3 (usart_data_transmit UART3 (ucast b) m) = Some m1"
    using wait_TBE_returns[OF assms] by blast
  then show ?case using Cons.IH[of m1] by simp
qed simp

section \<open>Properties\<close>

text \<open>
  After \<^verbatim>\<open>HAL_USART_GPRS::Init\<close> the modem's serial port is ready, whatever the registers held: PC10 is a fast
  alternate output and PC11 a floating input, the other pins of the port keep their mode; the port is
  enabled for sending, receiving and the receive interrupt, with 8 bits, no parity and one stop bit; its
  divider is the one for 115200 baud at the clock set; its reset is released and its interrupt enabled.
  Nothing but the registers of \<open>gprs_regs\<close> changes.
\<close>

lemma gprs_port_ready:
  assumes "k < 16" "a \<notin> gprs_regs"
  shows "pin_mode GPIOC k (HAL_USART_GPRS_Init m) = (if k = 10 then 0xB else if k = 11 then 4 else pin_mode GPIOC k m) \<and>
     HAL_USART_GPRS_Init m (USART_CTL0 UART3) AND
       (USART_CTL0_UEN OR USART_CTL0_WL OR USART_CTL0_PCEN OR USART_CTL0_PM OR 0x20 OR USART_CTL0_TEN OR USART_CTL0_REN) =
       (USART_CTL0_UEN OR 0x20 OR USART_CTL0_TEN OR USART_CTL0_REN) \<and>
     HAL_USART_GPRS_Init m (USART_CTL1 UART3) AND USART_CTL1_STB = 0 \<and>
     HAL_USART_GPRS_Init m (USART_BAUD UART3) = usart_baudrate_set UART3 115200 m (USART_BAUD UART3) \<and>
     HAL_USART_GPRS_Init m RCU_APB1RST AND 0x80000 = 0 \<and>
     HAL_USART_GPRS_Init m (NVIC_ISER 1) = 0x100000 \<and>
     HAL_USART_GPRS_Init m a = m a"
  using gprs_init_pins[of k m] gprs_pins_mode[OF assms(1)] gprs_init_ctl[of m] gprs_init_baud[of m] gprs_init_frame[OF assms(2), of m]
  by simp

end
