(* ===== verification/Modem.thy ===== *)
theory Modem
  imports HalPins HalTime
begin

unbundle bit_operations_syntax

text \<open>
  The power-up of the modem: \<^verbatim>\<open>sources/common/Modem/Modem.cpp\<close>. The static variables are the record \<open>modem\<close>,
  with the registers of the ports and of the serial port, and the input side of \<open>InData\<close>. The rest of the
  program, which the boot loader and the device fill in differently, is the client: its handlers \<open>sim\<close> and \<open>pbd\<close>
  work on the state of the modem, which \<^verbatim>\<open>Modem::Reset\<close> changes, and a state \<open>'s\<close> of their own; \<open>reset\<close> is what the
  state \<^verbatim>\<open>IDLE\<close> calls (\<^verbatim>\<open>SIM868::Reset\<close>, and in the device \<^verbatim>\<open>MQTT::Reset\<close>). \<open>now\<close> is the millisecond counter during the call.
\<close>

section \<open>State and operations\<close>

datatype modem_state = MODEM_IDLE | WAIT_DISCHARGE_CAPS | WAIT_HI_GSM_PG | WAIT_500_MS | WAIT_1250_MS | WAIT_5000_MS
  | HARDWARE_IS_OK

record modem =
  m_state :: modem_state
  m_meter :: time_meter
  m_regs :: mem
  m_in :: indata

abbreviation PortPG :: u32 where "PortPG \<equiv> GPIOE"

definition GSM_PG_ToOutLow :: "mem \<Rightarrow> mem" where
  "GSM_PG_ToOutLow m =
    (let m = gpio_init PortPG GPIO_MODE_OUT_PP GPIO_OSPEED_50MHZ (GPIO_PIN 2) m
      in m(GPIO_BC PortPG := GPIO_PIN 2))"

definition GSM_PG_ToInPullDown :: "mem \<Rightarrow> mem" where
  "GSM_PG_ToInPullDown m = gpio_init PortPG GPIO_MODE_IPD GPIO_OSPEED_50MHZ (GPIO_PIN 2) m"

definition GSM_PG_ReadInput :: "mem \<Rightarrow> bool" where
  "GSM_PG_ReadInput m \<longleftrightarrow> gpio_input_bit_get PortPG (GPIO_PIN 2) m = SET"

definition Modem_Init :: "modem \<Rightarrow> modem" where
  "Modem_Init md =
    (let m = PinOUT_Init pinGSM_PWR (m_regs md);
         m = PinOUT_Set pinGSM_PWR m;
         m = PinOUT_Init pinGSM_PWRKEY m;
         m = PinOUT_Reset pinGSM_PWRKEY m;
         m = PinIN_Init pinGSM_STATUS m;
         m = PinIN_DeInit pinGSM_STATUS m;
         m = HAL_USART_GPRS_Init m;
         m = HAL_USART_GPRS_DeInit m
      in md\<lparr>m_regs := m\<rparr>)"

definition Modem_Reset :: "modem_state \<Rightarrow> modem_state" where
  "Modem_Reset st = MODEM_IDLE"

definition Modem_Power :: "modem \<Rightarrow> bool" where
  "Modem_Power md \<longleftrightarrow> m_state md = HARDWARE_IS_OK"

definition Modem_Update ::
    "(string \<Rightarrow> modem_state \<times> 's \<Rightarrow> (modem_state \<times> 's) option) \<Rightarrow> (u8 \<Rightarrow> modem_state \<times> 's \<Rightarrow> (modem_state \<times> 's) option) \<Rightarrow>
     ('s \<Rightarrow> 's) \<Rightarrow> u32 \<Rightarrow> modem \<Rightarrow> 's \<Rightarrow> (modem \<times> 's) option" where
  "Modem_Update sim pbd reset now md s =
    (case m_state md of
       MODEM_IDLE \<Rightarrow>
         Some (md\<lparr>m_regs := GSM_PG_ToOutLow (PinOUT_Set pinGSM_PWR (m_regs md)), m_state := WAIT_DISCHARGE_CAPS,
                  m_meter := meter_Reset now (m_meter md)\<rparr>, reset s)
     | WAIT_DISCHARGE_CAPS \<Rightarrow>
         Some (if ElapsedTime now (m_meter md) > 3000
               then md\<lparr>m_regs := PinOUT_Reset pinGSM_PWR (GSM_PG_ToInPullDown (m_regs md)), m_state := WAIT_HI_GSM_PG,
                       m_meter := meter_Reset now (m_meter md)\<rparr>
               else md, s)
     | WAIT_HI_GSM_PG \<Rightarrow>
         (let md = (if GSM_PG_ReadInput (m_regs md)
                    then md\<lparr>m_meter := meter_Reset now (m_meter md), m_state := WAIT_500_MS,
                            m_regs := HAL_USART_GPRS_Init (PinIN_Init pinGSM_STATUS (m_regs md))\<rparr>
                    else md)
           in Some (if ElapsedTime now (m_meter md) > 100 then md\<lparr>m_state := MODEM_IDLE\<rparr> else md, s))
     | WAIT_500_MS \<Rightarrow>
         Some (if ElapsedTime now (m_meter md) > 500
               then md\<lparr>m_regs := PinOUT_Reset pinGSM_PWRKEY (m_regs md), m_meter := meter_Reset now (m_meter md),
                       m_state := WAIT_1250_MS\<rparr>
               else md, s)
     | WAIT_1250_MS \<Rightarrow>
         Some (if ElapsedTime now (m_meter md) > 1250
               then md\<lparr>m_regs := PinOUT_Set pinGSM_PWRKEY (m_regs md), m_meter := meter_Reset now (m_meter md),
                       m_state := WAIT_5000_MS\<rparr>
               else md, s)
     | WAIT_5000_MS \<Rightarrow>
         (let md = (if PinIN_IsHi pinGSM_STATUS (m_regs md)
                    then md\<lparr>m_state := HARDWARE_IS_OK, m_meter := meter_Reset now (m_meter md)\<rparr>
                    else md)
           in Some (if ElapsedTime now (m_meter md) > 5000 then md\<lparr>m_state := MODEM_IDLE\<rparr> else md, s))
     | HARDWARE_IS_OK \<Rightarrow>
         (case InData_Update sim pbd (m_in md) (m_state md, s) of
            None \<Rightarrow> None
          | Some (d, (st, s)) \<Rightarrow> Some (md\<lparr>m_in := d, m_state := st\<rparr>, s)))"

section \<open>What a client may do to the modem\<close>

text \<open>The handlers of a client leave the state of the modem or reset it, and keep an invariant of their own.\<close>

locale modem_client =
  fixes sim :: "u32 \<Rightarrow> string \<Rightarrow> modem_state \<times> 's \<Rightarrow> (modem_state \<times> 's) option"
    and pbd :: "u32 \<Rightarrow> u8 \<Rightarrow> modem_state \<times> 's \<Rightarrow> (modem_state \<times> 's) option"
    and reset :: "'s \<Rightarrow> 's"
    and good :: "'s \<Rightarrow> bool"
  assumes sim_state: "sim now line (st, s) = Some (st', s') \<Longrightarrow> good s \<Longrightarrow> good s' \<and> (st' = st \<or> st' = MODEM_IDLE)"
    and pbd_state: "pbd now byte (st, s) = Some (st', s') \<Longrightarrow> good s \<Longrightarrow> good s' \<and> (st' = st \<or> st' = MODEM_IDLE)"
    and reset_good: "good s \<Longrightarrow> good (reset s)"

sublocale modem_client \<subseteq> lines: line_client "sim now" "pbd now" "\<lambda>(st, s). st \<in> {HARDWARE_IS_OK, MODEM_IDLE} \<and> good s" for now
  by unfold_locales (use sim_state pbd_state in fastforce)+

text \<open>The states in the order of the power-up.\<close>

definition power_chain :: "modem_state list" where
  "power_chain = [MODEM_IDLE, WAIT_DISCHARGE_CAPS, WAIT_HI_GSM_PG, WAIT_500_MS, WAIT_1250_MS, WAIT_5000_MS, HARDWARE_IS_OK]"

definition power_succ :: "modem_state \<Rightarrow> modem_state \<Rightarrow> bool" where
  "power_succ st st' \<longleftrightarrow> (st, st') \<in> set (zip power_chain (tl power_chain))"

text \<open>The least time from the state \<^verbatim>\<open>IDLE\<close> to the entry into a state, in milliseconds.\<close>

definition power_min :: "modem_state \<Rightarrow> nat" where
  "power_min st = (case st of MODEM_IDLE \<Rightarrow> 0 | WAIT_DISCHARGE_CAPS \<Rightarrow> 0 | WAIT_HI_GSM_PG \<Rightarrow> 3001 | WAIT_500_MS \<Rightarrow> 3001
     | WAIT_1250_MS \<Rightarrow> 3502 | WAIT_5000_MS \<Rightarrow> 4753 | HARDWARE_IS_OK \<Rightarrow> 4753)"

text \<open>
  The level of an output pin: the port takes a one that is written to the set or to the reset register of the port into its
  output register; both are then read as zero.
\<close>

definition pin_high :: "pin \<Rightarrow> mem \<Rightarrow> bool" where
  "pin_high p m \<longleftrightarrow>
    (if m (GPIO_BOP (pin_port p)) AND pin_bit p \<noteq> 0 then True
     else if m (GPIO_BC (pin_port p)) AND pin_bit p \<noteq> 0 then False
     else m (GPIO_OCTL (pin_port p)) AND pin_bit p \<noteq> 0)"

definition pin_taken :: "pin \<Rightarrow> mem \<Rightarrow> bool" where
  "pin_taken p m \<longleftrightarrow> m (GPIO_BOP (pin_port p)) AND pin_bit p = 0 \<and> m (GPIO_BC (pin_port p)) AND pin_bit p = 0"

text \<open>
  What may happen to the registers between two calls: anything that leaves the control register of the port of GSM_PG and the levels of
  the supply and of the key as they are, which the port has then taken.
\<close>

definition between_calls :: "mem \<Rightarrow> mem \<Rightarrow> bool" where
  "between_calls m r \<longleftrightarrow> r (GPIO_CTL0 PortPG) = m (GPIO_CTL0 PortPG) \<and>
     pin_taken pinGSM_PWR r \<and> pin_high pinGSM_PWR r = pin_high pinGSM_PWR m \<and>
     pin_taken pinGSM_PWRKEY r \<and> pin_high pinGSM_PWRKEY r = pin_high pinGSM_PWRKEY m"

text \<open>
  A power-up: the call in the state \<^verbatim>\<open>IDLE\<close> at time \<open>t0\<close> and the calls after it, at times that do not go back, until
  the modem is reset. Between two calls the receive interrupt may change the input buffers.
\<close>

inductive power_run ::
    "(u32 \<Rightarrow> string \<Rightarrow> modem_state \<times> 's \<Rightarrow> (modem_state \<times> 's) option) \<Rightarrow>
     (u32 \<Rightarrow> u8 \<Rightarrow> modem_state \<times> 's \<Rightarrow> (modem_state \<times> 's) option) \<Rightarrow> ('s \<Rightarrow> 's) \<Rightarrow> nat \<Rightarrow> nat \<Rightarrow> modem \<Rightarrow> 's \<Rightarrow> bool"
  for sim pbd reset t0 where
  power_start: "m_state md = MODEM_IDLE \<Longrightarrow> pin_taken pinGSM_PWR (m_regs md) \<Longrightarrow> pin_taken pinGSM_PWRKEY (m_regs md) \<Longrightarrow>
    Modem_Update (sim (of_nat t0)) (pbd (of_nat t0)) reset (of_nat t0) md s = Some (md', s') \<Longrightarrow>
    power_run sim pbd reset t0 t0 md' s'"
| power_next: "power_run sim pbd reset t0 t md s \<Longrightarrow> m_state md \<noteq> MODEM_IDLE \<Longrightarrow> t \<le> t' \<Longrightarrow>
    between_calls (m_regs md) r \<Longrightarrow>
    Modem_Update (sim (of_nat t')) (pbd (of_nat t')) reset (of_nat t') (md\<lparr>m_regs := r, m_in := d\<rparr>) s = Some (md', s') \<Longrightarrow>
    power_run sim pbd reset t0 t' md' s'"

section \<open>Time\<close>

lemma elapsed_real:
  assumes "k < ElapsedTime (of_nat t) mt" "time_reset mt = of_nat r" "r \<le> t"
  shows "r + unat k < t"
proof -
  have "ElapsedTime (of_nat t) mt = of_nat (t - r)" using assms(2,3) by (simp add: ElapsedTime_def of_nat_diff)
  then have "unat k < unat (of_nat (t - r) :: u32)" using assms(1) by (simp add: word_less_nat_alt)
  also have "\<dots> \<le> t - r" by (simp add: unat_of_nat)
  finally show ?thesis by simp
qed

lemma elapsed_now [simp]: "ElapsedTime now (meter_Reset now mt) = 0"
  by (simp add: ElapsedTime_def meter_Reset_def)

definition timely :: "nat \<Rightarrow> nat \<Rightarrow> modem \<Rightarrow> bool" where
  "timely t0 t md \<longleftrightarrow> (\<exists>r. time_reset (m_meter md) = of_nat r \<and> r \<le> t \<and> t0 + power_min (m_state md) \<le> r)"

section \<open>The pin GSM_PG\<close>

lemma pg_out_low: "pin_mode PortPG 2 (GSM_PG_ToOutLow m) = 3"
proof -
  have "pin_mode PortPG 2 (GSM_PG_ToOutLow m) = pin_mode PortPG 2 (gpio_init PortPG GPIO_MODE_OUT_PP GPIO_OSPEED_50MHZ (GPIO_PIN 2) m)"
    by (rule pin_mode_cong) (simp_all add: GSM_PG_ToOutLow_def Let_def)
  also have "\<dots> = 3" by (subst init_pin_mode) (simp_all add: bit_simps)
  finally show ?thesis .
qed

lemma pg_in_pull_down: "pin_mode PortPG 2 (GSM_PG_ToInPullDown m) = 8"
  unfolding GSM_PG_ToInPullDown_def by (subst init_pin_mode) (simp_all add: bit_simps)

lemma pg_ctl0: "m (GPIO_CTL0 PortPG) = m' (GPIO_CTL0 PortPG) \<Longrightarrow> pin_mode PortPG 2 m = pin_mode PortPG 2 m'"
  by (simp add: pin_mode_def)

lemma pg_kept:
  "pin_mode PortPG 2 (PinOUT_Set pinGSM_PWR m) = pin_mode PortPG 2 m"
  "pin_mode PortPG 2 (PinOUT_Reset pinGSM_PWR m) = pin_mode PortPG 2 m"
  "pin_mode PortPG 2 (PinOUT_Set pinGSM_PWRKEY m) = pin_mode PortPG 2 m"
  "pin_mode PortPG 2 (PinOUT_Reset pinGSM_PWRKEY m) = pin_mode PortPG 2 m"
  "pin_mode PortPG 2 (PinIN_Init pinGSM_STATUS m) = pin_mode PortPG 2 m"
  "pin_mode PortPG 2 (HAL_USART_GPRS_Init m) = pin_mode PortPG 2 m"
  by (rule pg_ctl0, simp add: PinOUT_Set_def PinOUT_Reset_def PinIN_Init_def pinGSM_PWR_def pinGSM_PWRKEY_def pinGSM_STATUS_def
      gpio_init_frame gprs_init_frame gprs_regs_def)+

definition pg_mode :: "modem \<Rightarrow> bool" where
  "pg_mode md \<longleftrightarrow> pin_mode PortPG 2 (m_regs md) = (if m_state md = WAIT_DISCHARGE_CAPS then 3 else 8)"

section \<open>The supply and the key\<close>

text \<open>The supply is off in the first state and on from then on; the key is pressed in one state and released after it.\<close>

definition power_levels :: "modem \<Rightarrow> bool" where
  "power_levels md \<longleftrightarrow> (pin_high pinGSM_PWR (m_regs md) \<longleftrightarrow> m_state md = WAIT_DISCHARGE_CAPS) \<and>
     (m_state md = WAIT_1250_MS \<longrightarrow> \<not> pin_high pinGSM_PWRKEY (m_regs md)) \<and>
     (m_state md \<in> {WAIT_5000_MS, HARDWARE_IS_OK} \<longrightarrow> pin_high pinGSM_PWRKEY (m_regs md))"

lemma pull_fold_taken:
  assumes "pin AND q = 0" "m (GPIO_BOP g) AND q = 0" "m (GPIO_BC g) AND q = 0"
  shows "fold (gpio_init_ctl0 g mode t pin) ks m (GPIO_BOP g) AND q = 0 \<and> fold (gpio_init_ctl0 g mode t pin) ks m (GPIO_BC g) AND q = 0"
    "fold (gpio_init_ctl1 g mode t pin) ks m (GPIO_BOP g) AND q = 0 \<and> fold (gpio_init_ctl1 g mode t pin) ks m (GPIO_BC g) AND q = 0"
  using assms
  by (induction ks arbitrary: m, simp_all add: gpio_init_ctl0_def gpio_init_ctl1_def gpio_init_pull_def Let_def and.assoc)

lemma gpio_init_taken:
  assumes "pin AND q = 0" "m (GPIO_BOP g) AND q = 0" "m (GPIO_BC g) AND q = 0" "GPIOx_SPD g \<notin> {GPIO_BOP g, GPIO_BC g}"
  shows "gpio_init g mode speed pin m (GPIO_BOP g) AND q = 0" "gpio_init g mode speed pin m (GPIO_BC g) AND q = 0"
proof -
  have m: "snd (gpio_init_mode g mode speed pin m) (GPIO_BOP g) AND q = 0" "snd (gpio_init_mode g mode speed pin m) (GPIO_BC g) AND q = 0"
    using assms(2-) by (simp_all add: gpio_init_mode_def Let_def)
  note n0 = pull_fold_taken(1)[OF assms(1) m, where mode = mode and t = "fst (gpio_init_mode g mode speed pin m)" and ks = "[0..<8]"]
  show "gpio_init g mode speed pin m (GPIO_BOP g) AND q = 0" "gpio_init g mode speed pin m (GPIO_BC g) AND q = 0"
    using pull_fold_taken(2)[OF assms(1) n0[THEN conjunct1] n0[THEN conjunct2], where mode = mode and ks = "[8..<16]"]
    by (simp_all add: gpio_init_def case_prod_unfold Let_def del: upt_rec_numeral upt.simps)
qed

lemmas power_pins = pinGSM_PWR_def pinGSM_PWRKEY_def pinGSM_STATUS_def PinOUT_Set_def PinOUT_Reset_def

lemma status_pin_levels:
  assumes "p \<in> {pinGSM_PWR, pinGSM_PWRKEY}" "pin_taken p m"
  shows "pin_high p (PinIN_Init pinGSM_STATUS m) = pin_high p m"
  using assms gpio_init_taken[of "GPIO_PIN 1" "pin_bit p" m GPIOD]
  by (auto simp: pin_high_def pin_taken_def PinIN_Init_def power_pins gpio_init_frame bit_simps)

lemma other_pins_levels:
  "p \<in> {pinGSM_PWR, pinGSM_PWRKEY} \<Longrightarrow> pin_high p (HAL_USART_GPRS_Init m) = pin_high p m"
  "p \<in> {pinGSM_PWR, pinGSM_PWRKEY} \<Longrightarrow> pin_high p (GSM_PG_ToOutLow m) = pin_high p m"
  "p \<in> {pinGSM_PWR, pinGSM_PWRKEY} \<Longrightarrow> pin_high p (GSM_PG_ToInPullDown m) = pin_high p m"
  by (auto simp: pin_high_def power_pins GSM_PG_ToOutLow_def GSM_PG_ToInPullDown_def gpio_init_frame gprs_init_frame gprs_regs_def Let_def)

lemma set_levels:
  "pin_taken pinGSM_PWR m \<Longrightarrow> pin_high pinGSM_PWR (PinOUT_Set pinGSM_PWR m)"
  "pin_taken pinGSM_PWR m \<Longrightarrow> \<not> pin_high pinGSM_PWR (PinOUT_Reset pinGSM_PWR m)"
  "pin_taken pinGSM_PWRKEY m \<Longrightarrow> pin_high pinGSM_PWRKEY (PinOUT_Set pinGSM_PWRKEY m)"
  "pin_taken pinGSM_PWRKEY m \<Longrightarrow> \<not> pin_high pinGSM_PWRKEY (PinOUT_Reset pinGSM_PWRKEY m)"
  "pin_taken pinGSM_PWR m \<Longrightarrow> pin_high pinGSM_PWR (PinOUT_Set pinGSM_PWRKEY m) = pin_high pinGSM_PWR m"
  "pin_taken pinGSM_PWR m \<Longrightarrow> pin_high pinGSM_PWR (PinOUT_Reset pinGSM_PWRKEY m) = pin_high pinGSM_PWR m"
  by (simp_all add: pin_high_def pin_taken_def power_pins bit_simps)

lemma taken_pull_down:
  "pin_taken pinGSM_PWR m \<Longrightarrow> pin_taken pinGSM_PWR (GSM_PG_ToInPullDown m)"
  by (simp add: pin_taken_def power_pins GSM_PG_ToInPullDown_def gpio_init_frame)

lemmas level_simps = status_pin_levels other_pins_levels set_levels taken_pull_down

context modem_client
begin

lemma update_hardware:
  assumes "Modem_Update (sim now) (pbd now) reset now md s = Some (md', s')" "m_state md = HARDWARE_IS_OK" "good s"
  shows "m_state md' \<in> {HARDWARE_IS_OK, MODEM_IDLE} \<and> good s' \<and> m_meter md' = m_meter md \<and> m_regs md' = m_regs md"
proof -
  obtain d st where u: "InData_Update (sim now) (pbd now) (m_in md) (HARDWARE_IS_OK, s) = Some (d, (st, s'))"
    "md' = md\<lparr>m_in := d, m_state := st\<rparr>"
    using assms(1,2) by (auto simp: Modem_Update_def split: option.splits)
  have "st \<in> {HARDWARE_IS_OK, MODEM_IDLE} \<and> good s'" using lines.update_inv[OF u(1)] assms(3) by simp
  then show ?thesis using u(2) by auto
qed

lemma update_order:
  assumes "Modem_Update (sim now) (pbd now) reset now md s = Some (md', s')" "good s"
  shows "good s' \<and> (m_state md' = m_state md \<or> m_state md' = MODEM_IDLE \<or> power_succ (m_state md) (m_state md'))"
proof (cases "m_state md = HARDWARE_IS_OK")
  case True
  then show ?thesis using update_hardware[OF assms(1)] assms(2) by auto
next
  case False
  then show ?thesis using assms reset_good
    by (cases "m_state md") (auto simp: Modem_Update_def Let_def power_succ_def power_chain_def split: if_splits)
qed

lemma update_timely:
  assumes "Modem_Update (sim (of_nat t')) (pbd (of_nat t')) reset (of_nat t') md s = Some (md', s')" "good s"
    "timely t0 t md" "t \<le> t'" "m_state md \<noteq> MODEM_IDLE" "m_state md' \<noteq> MODEM_IDLE"
  shows "timely t0 t' md'"
proof -
  obtain r where r: "time_reset (m_meter md) = of_nat r" "r \<le> t'" "t0 + power_min (m_state md) \<le> r"
    using assms(3,4) by (auto simp: timely_def)
  have e: "r + unat k < t'" if "k < ElapsedTime (of_nat t') (m_meter md)" for k
    using elapsed_real[OF that r(1,2)] .
  show ?thesis
  proof (cases "m_state md = HARDWARE_IS_OK")
    case True
    then show ?thesis using update_hardware[OF assms(1)] assms(2,6) r by (auto simp: timely_def)
  next
    case False
    then have "md' = md \<or> ((\<exists>mt. m_meter md' = meter_Reset (of_nat t') mt) \<and> t0 + power_min (m_state md') \<le> t')"
      using assms(1,5,6) r e[of 3000] e[of 500] e[of 1250]
      by (cases "m_state md") (auto simp: Modem_Update_def Let_def power_min_def split: if_splits)
    then show ?thesis using r by (auto simp: timely_def meter_Reset_def)
  qed
qed

lemma run_timely:
  assumes "power_run sim pbd reset t0 t md s" "\<And>s. good s"
  shows "m_state md \<noteq> MODEM_IDLE \<longrightarrow> timely t0 t md"
  using assms(1)
proof induction
  case (power_start md s md' s')
  then show ?case by (auto simp: Modem_Update_def timely_def meter_Reset_def power_min_def)
next
  case (power_next t md s t' r d md' s')
  have "timely t0 t (md\<lparr>m_regs := r, m_in := d\<rparr>)" using power_next by (simp add: timely_def)
  then show ?case using update_timely[OF power_next.hyps(5) assms(2)] power_next.hyps by auto
qed

lemma update_pg_mode:
  assumes "Modem_Update (sim now) (pbd now) reset now md s = Some (md', s')" "good s"
    "m_state md \<noteq> MODEM_IDLE \<longrightarrow> pg_mode md" "m_state md' \<noteq> MODEM_IDLE"
  shows "pg_mode md'"
proof (cases "m_state md = HARDWARE_IS_OK")
  case True
  then show ?thesis using update_hardware[OF assms(1)] assms(2-4) by (auto simp: pg_mode_def)
next
  case False
  then show ?thesis using assms
    by (cases "m_state md") (auto simp: Modem_Update_def Let_def pg_mode_def pg_kept pg_out_low pg_in_pull_down split: if_splits)
qed

lemma run_pg_mode:
  assumes "power_run sim pbd reset t0 t md s" "\<And>s. good s"
  shows "m_state md \<noteq> MODEM_IDLE \<longrightarrow> pg_mode md"
  using assms(1)
proof induction
  case (power_start md s md' s')
  then show ?case using update_pg_mode[OF power_start.hyps(4) assms(2)] by blast
next
  case (power_next t md s t' r d md' s')
  have "pg_mode (md\<lparr>m_regs := r, m_in := d\<rparr>)"
    using power_next pg_ctl0[of r "m_regs md"] by (simp add: pg_mode_def between_calls_def)
  then show ?case using update_pg_mode[OF power_next.hyps(5) assms(2)] by auto
qed

lemma update_levels:
  assumes "Modem_Update (sim now) (pbd now) reset now md s = Some (md', s')" "good s"
    "pin_taken pinGSM_PWR (m_regs md)" "pin_taken pinGSM_PWRKEY (m_regs md)"
    "m_state md \<noteq> MODEM_IDLE \<longrightarrow> power_levels md" "m_state md' \<noteq> MODEM_IDLE"
  shows "power_levels md'"
proof (cases "m_state md = HARDWARE_IS_OK")
  case True
  then show ?thesis using update_hardware[OF assms(1)] assms(2,5,6) by (auto simp: power_levels_def)
next
  case False
  then show ?thesis using assms
    by (cases "m_state md") (auto simp: Modem_Update_def Let_def power_levels_def level_simps split: if_splits)
qed

lemma run_levels:
  assumes "power_run sim pbd reset t0 t md s" "\<And>s. good s"
  shows "m_state md \<noteq> MODEM_IDLE \<longrightarrow> power_levels md"
  using assms(1)
proof induction
  case (power_start md s md' s')
  then show ?case using update_levels[OF power_start.hyps(4) assms(2)] by blast
next
  case (power_next t md s t' r d md' s')
  have "power_levels (md\<lparr>m_regs := r, m_in := d\<rparr>)" using power_next by (simp add: power_levels_def between_calls_def)
  then show ?case using update_levels[OF power_next.hyps(5) assms(2)] power_next.hyps(4) by (simp add: between_calls_def)
qed

end

section \<open>Properties\<close>

text \<open>Calls of \<^verbatim>\<open>Modem::Update\<close>, each with the time and the change of the registers before it.\<close>

fun modem_calls ::
    "(string \<Rightarrow> modem_state \<times> 's \<Rightarrow> (modem_state \<times> 's) option) \<Rightarrow> (u8 \<Rightarrow> modem_state \<times> 's \<Rightarrow> (modem_state \<times> 's) option) \<Rightarrow>
     ('s \<Rightarrow> 's) \<Rightarrow> (u32 \<times> (mem \<Rightarrow> mem)) list \<Rightarrow> modem \<Rightarrow> 's \<Rightarrow> (modem \<times> 's) option" where
  "modem_calls sim pbd reset [] md s = Some (md, s)"
| "modem_calls sim pbd reset ((now, hw) # cs) md s =
    (case Modem_Update sim pbd reset now (md\<lparr>m_regs := hw (m_regs md)\<rparr>) s of
       None \<Rightarrow> None
     | Some (md, s) \<Rightarrow> modem_calls sim pbd reset cs md s)"

text \<open>
  The power-up succeeds with good hardware: if the supply is reported when it is looked for, the modem reports its
  status after the key was pressed, and the calls come after more than 3000, 500 and 1250 ms at the three waits, modulo
  \<open>2\<^sup>3\<^sup>2\<close>, six calls lead from \<^verbatim>\<open>IDLE\<close> to the working modem, and the client was reset on the way.
\<close>

lemma power_up_succeeds:
  assumes "3000 < t1 - t0" "500 < t3 - t2" "1250 < t4 - t3"
    "\<And>m. GSM_PG_ReadInput (h2 m)" "\<And>m. PinIN_IsHi pinGSM_STATUS (h5 m)" "m_state md = MODEM_IDLE"
  shows "\<exists>md'. modem_calls sim pbd reset [(t0, h0), (t1, h1), (t2, h2), (t3, id), (t4, id), (t5, h5)] md s = Some (md', reset s) \<and>
     m_state md' = HARDWARE_IS_OK \<and> m_in md' = m_in md"
  using assms by (simp add: Modem_Update_def ElapsedTime_def meter_Reset_def)

end
