(* ===== verification/LoaderMain.thy ===== *)
theory LoaderMain
  imports Download Modem
begin

text \<open>
  The boot loader as a whole: the main loop of \<^verbatim>\<open>sources/Loader/src/Loader.cpp\<close>, with the modem of
  \<^verbatim>\<open>Modem.cpp\<close> around the update procedure. The loader's \<^verbatim>\<open>PBD::AppendByte\<close> does nothing. The registers of the watchdog
  are part of the loader's state, those of the ports and of the serial port part of the modem's.
\<close>

section \<open>Operations\<close>

definition loader_sim ::
    "'h chip \<Rightarrow> (mem \<Rightarrow> mem) \<Rightarrow> u32 \<Rightarrow> string \<Rightarrow> modem_state \<times> 'h loader \<Rightarrow> (modem_state \<times> 'h loader) option" where
  "loader_sim c hw now answer s = map_option (Pair (fst s)) (SIM868_Update c hw now answer (snd s))"

definition PBD_AppendByte :: "u32 \<Rightarrow> u8 \<Rightarrow> modem_state \<times> 'h loader \<Rightarrow> (modem_state \<times> 'h loader) option" where
  "PBD_AppendByte now byte s = Some s"

text \<open>\<^verbatim>\<open>Modem::CallbackOnReceive\<close> as it is compiled for the loader.\<close>

definition loader_receive :: "char \<Rightarrow> modem \<times> 'h loader \<Rightarrow> (modem \<times> 'h loader) option" where
  "loader_receive symbol s =
    (if InModeReceiveDataFromFTP (snd s) then map_option (Pair (fst s)) (CallbackByteFromFTP symbol (snd s))
     else Some ((fst s)\<lparr>m_in := CallbackOnReceive symbol (m_in (fst s))\<rparr>, snd s))"

text \<open>One turn of the main loop; the first component of the result says whether it starts the application.\<close>

definition Loader_Update ::
    "'h chip \<Rightarrow> (mem \<Rightarrow> mem) \<Rightarrow> u32 \<Rightarrow> modem \<times> 'h loader \<Rightarrow> (bool \<times> modem \<times> 'h loader) option" where
  "Loader_Update c hw now s =
    (let (md, l) = s;
         l = l\<lparr>l_regs := HAL_FWDGT_Update (l_regs l)\<rparr>
      in (case Modem_Update (loader_sim c hw now) (PBD_AppendByte now) SIM868_Reset now md l of
            None \<Rightarrow> None
          | Some (md, l) \<Rightarrow> Some (IsCompleted l, md, l)))"

section \<open>The loader as a client of the modem\<close>

lemma reset_ok: "loader_ok l \<Longrightarrow> loader_ok (SIM868_Reset l)"
  by (simp add: loader_ok_def SIM868_Reset_def)

interpretation loader_client: modem_client "loader_sim c hw" PBD_AppendByte SIM868_Reset loader_ok
  for c :: "'h chip" and hw
  by unfold_locales (auto simp: loader_sim_def PBD_AppendByte_def reset_ok dest: SIM868_Update_ok)


lemma each_loader:
  "each (loader_sim c hw now) ws (st, l) = map_option (Pair st) (loader_run c hw (map (Line now) ws) l)"
  by (induction ws arbitrary: l) (auto simp: loader_sim_def split: option.splits)

section \<open>Properties\<close>

definition demo_modem :: modem where
  "demo_modem = \<lparr>m_state = HARDWARE_IS_OK, m_meter = \<lparr>time_reset = 0, time_response = 0\<rparr>, m_regs = (\<lambda>_. 0),
     m_in = empty_indata\<rparr>"

text \<open>
  C10: a turn of the main loop is a run of the update procedure: with the modem working and no binary data announced, it reloads
  the watchdog and gives the procedure the lines that are complete, in order, and then an empty line, exactly as
  the events of \<open>loader_run\<close>; the incomplete rest of the input is kept, and the application is started
  if the procedure has then completed.
\<close>

theorem loader_turn:
  assumes "m_state md = HARDWARE_IS_OK" "indata_ok (m_in md)" "move_room (m_in md)" "binary_bytes_left (m_in md) = 0"
    "in_buffer (m_in md) @ in_main (m_in md) = framed ls @ b @ w" "list_all line_ok ls" "list_all blank b" "text_line w"
  shows "\<exists>d. Loader_Update c hw now (md, l) =
      map_option (\<lambda>l'. (IsCompleted l', md\<lparr>m_in := d\<rparr>, l'))
        (loader_run c hw (map (\<lambda>x. Line now (snd x)) ls @ [Line now []]) (l\<lparr>l_regs := HAL_FWDGT_Update (l_regs l)\<rparr>)) \<and>
     in_buffer d = b @ w \<and> in_main d = []"
proof -
  let ?l = "l\<lparr>l_regs := HAL_FWDGT_Update (l_regs l)\<rparr>"
  obtain d where d: "InData_Update (loader_sim c hw now) (PBD_AppendByte now) (m_in md) (HARDWARE_IS_OK, ?l) =
      map_option (Pair d) (each (loader_sim c hw now) (map snd ls @ [[]]) (HARDWARE_IS_OK, ?l))"
    "in_buffer d = b @ w" "in_main d = []"
    using update_lines[OF assms(2-8), of "loader_sim c hw now" "PBD_AppendByte now" "(HARDWARE_IS_OK, ?l)"] by blast
  have "map (Line now) (map snd ls @ [[]]) = map (\<lambda>x. Line now (snd x)) ls @ [Line now []]" by (simp add: comp_def)
  then have "InData_Update (loader_sim c hw now) (PBD_AppendByte now) (m_in md) (HARDWARE_IS_OK, ?l) =
      map_option (Pair d \<circ> Pair HARDWARE_IS_OK) (loader_run c hw (map (\<lambda>x. Line now (snd x)) ls @ [Line now []]) ?l)"
    using d(1) by (simp add: each_loader option.map_comp comp_def)
  then have "Loader_Update c hw now (md, l) = map_option (\<lambda>l'. (IsCompleted l', md\<lparr>m_in := d\<rparr>, l'))
        (loader_run c hw (map (\<lambda>x. Line now (snd x)) ls @ [Line now []]) ?l)"
    using assms(1) by (auto simp: Loader_Update_def Modem_Update_def split: option.splits)
  then show ?thesis using d(2,3) by blast
qed

theorem loader_turn_witness:
  "\<exists>d. Loader_Update instant_chip id 5 (demo_modem\<lparr>m_in := received_as (framed [([], ''OK'')])\<rparr>, demo_loader []) =
      map_option (\<lambda>l'. (IsCompleted l', demo_modem\<lparr>m_in := d\<rparr>, l'))
        (loader_run instant_chip id [Line 5 ''OK'', Line 5 []] ((demo_loader [])\<lparr>l_regs := HAL_FWDGT_Update (l_regs (demo_loader []))\<rparr>)) \<and>
     in_buffer d = []"
proof -
  let ?xs = "framed [([], ''OK'')]"
  let ?md = "demo_modem\<lparr>m_in := received_as ?xs\<rparr>"
  have len: "length ?xs \<le> CAPACITY" by (simp add: framed_def)
  have "in_buffer (m_in ?md) @ in_main (m_in ?md) = framed [([], ''OK'')] @ [] @ []"
    using received_as(2,3)[OF len] by simp
  from loader_turn[of ?md, OF _ _ _ _ this, of instant_chip id 5 "demo_loader []"]
  show ?thesis using received_as(1,4,5)[OF len]
    by (auto simp: demo_modem_def line_ok_def text_line_def plain_def)
qed

text \<open>
  Every turn of the main loop keeps the arrays of the reader and of the programmer at their lengths with the positions
  inside, and the input buffers in form, and so does every received symbol that does not stop the program.
\<close>

lemma loader_turn_ok:
  assumes "loader_ok l" "indata_ok (m_in md)"
  shows "(Loader_Update c hw now (md, l) = Some (start, md', l') \<longrightarrow> loader_ok l' \<and> indata_ok (m_in md')) \<and>
     (loader_receive x (md, l) = Some (md2, l2) \<longrightarrow> loader_ok l2 \<and> indata_ok (m_in md2))"
proof (intro conjI impI)
  let ?l = "l\<lparr>l_regs := HAL_FWDGT_Update (l_regs l)\<rparr>"
  assume "Loader_Update c hw now (md, l) = Some (start, md', l')"
  then have u: "Modem_Update (loader_sim c hw now) (PBD_AppendByte now) SIM868_Reset now md ?l = Some (md', l')"
    by (auto simp: Loader_Update_def split: option.splits)
  show "loader_ok l'" using loader_client.update_order[OF u] assms(1) by (simp add: loader_ok_def)
  show "indata_ok (m_in md')"
    using u assms(2) update_ok by (cases "m_state md") (auto simp: Modem_Update_def Let_def split: if_splits option.splits)
next
  assume r: "loader_receive x (md, l) = Some (md2, l2)"
  show "loader_ok l2" using r assms(1) AppendByte_ok
    by (auto simp: loader_receive_def CallbackByteFromFTP_def loader_ok_def split: if_splits option.splits)
  show "indata_ok (m_in md2)" using r assms(2) receive_ok by (auto simp: loader_receive_def split: if_splits)
qed



end
