(* ===== verification/MqttRequest.thy ===== *)
theory MqttRequest
  imports Modem
begin

unbundle bit_operations_syntax

text \<open>
  The requests to the MQTT broker: \<^verbatim>\<open>sources/Device/src/Modem/MQTT/RequestMQTT.cpp\<close> and \<^verbatim>\<open>RequestMQTT.h\<close>, the sending
  functions of \<^verbatim>\<open>sources/common/Modem/SIM868_transmit.cpp\<close> and \<^verbatim>\<open>HAL::GetUID\<close>. A request object is its
  class with its strings, its state and the counter of its \<^verbatim>\<open>Dumper\<close>. What is sent to the modem is a list of bytes. The
  packets are compared with a reading function that follows the MQTT 5.0 standard.
\<close>

section \<open>Sending\<close>

definition RAW :: "string \<Rightarrow> u8 list" where
  "RAW message = map of_char message"

definition With0D :: "string \<Rightarrow> u8 list" where
  "With0D message = RAW message @ [0x0D]"

section \<open>Requests\<close>

datatype req_state = REQ_IDLE | NEED_SEND | WAIT_CONFIRM | FINISHED

datatype req_type = TYPE_CONNECT | TYPE_SUBSCRIBE | TYPE_PUBLISH

datatype req_body = CONNECT string string string | SUBSCRIBE string | PUBLISH string string string

record request =
  rq_state :: req_state
  rq_body :: req_body
  rq_counter :: int
  rq_time_send :: u32

fun body_type :: "req_body \<Rightarrow> req_type" where
  "body_type (CONNECT CID user password) = TYPE_CONNECT"
| "body_type (SUBSCRIBE topic) = TYPE_SUBSCRIBE"
| "body_type (PUBLISH topic message response) = TYPE_PUBLISH"

definition GetType :: "request \<Rightarrow> req_type" where
  "GetType r = body_type (rq_body r)"

text \<open>
  The object that the constructors leave; \<^verbatim>\<open>time_send\<close>, used only for the log, is left unset there. They set the strings by \<^verbatim>\<open>String::Set\<close>, which
  first takes \<^verbatim>\<open>strlen\<close> of the null pointer that a new \<^verbatim>\<open>String\<close> holds: \<open>nul\<close> says whether the program goes on
  after an access at address 0. Whatever length is read there, \<^verbatim>\<open>Clear\<close> leaves the null pointer alone.
\<close>

definition new_request :: "req_body \<Rightarrow> request" where
  "new_request body = \<lparr>rq_state = REQ_IDLE, rq_body = body, rq_counter = 5, rq_time_send = 0\<rparr>"

definition request_Create :: "bool \<Rightarrow> req_body \<Rightarrow> request option" where
  "request_Create nul body = (if nul then Some (new_request body) else None)"

definition request_IsFinished :: "request \<Rightarrow> bool" where
  "request_IsFinished r \<longleftrightarrow> rq_state r = FINISHED"

text \<open>A length as the code sends it, cast to \<^verbatim>\<open>uint8\<close>.\<close>

definition size8 :: "nat \<Rightarrow> u8" where
  "size8 n = of_nat n"

text \<open>\<^verbatim>\<open>BINARY_U8(11000010)\<close> is 0xC2: user name, password, clean start.\<close>

definition connect_Send :: "string \<Rightarrow> string \<Rightarrow> string \<Rightarrow> u8 list" where
  "connect_Send CID user password =
    [0x10, size8 (length ''MQTT'' + length CID + length user + length password + 18), 0x00, size8 (length ''MQTT'')] @ RAW ''MQTT'' @
    [0x05, 0xC2, 0x00, 0x3C,
     0x05, 0x11, 0x00, 0x00, 0x01, 0x2C,
     0x00, size8 (length CID)] @ RAW CID @
    [0x00, size8 (length user)] @ RAW user @
    [0x00, size8 (length password)] @ RAW password"

definition subscribe_Send :: "string \<Rightarrow> u8 list" where
  "subscribe_Send topic =
    [0x82, size8 (3 + 2 + length topic + 1), 0x00, 0x01, 0x00, 0x00, size8 (length topic)] @ RAW topic @ [0x00]"

definition publish_Send :: "string \<Rightarrow> string \<Rightarrow> string \<Rightarrow> u8 list" where
  "publish_Send topic message response =
    (if length response \<noteq> 0 then
       [0x31, size8 (2 + 1 + 3 + length topic + length message + length response), 0x00, size8 (length topic)] @ RAW topic @
       [size8 (3 + length response), 0x08, 0x00, size8 (length response)] @ RAW response @ RAW message
     else
       [0x31, size8 (3 + length topic + length message), 0x00, size8 (length topic)] @ RAW topic @ [0x00] @ RAW message)"

fun request_Send :: "req_body \<Rightarrow> u8 list" where
  "request_Send (CONNECT CID user password) = connect_Send CID user password"
| "request_Send (SUBSCRIBE topic) = subscribe_Send topic"
| "request_Send (PUBLISH topic message response) = publish_Send topic message response"

text \<open>
  The three functions \<^verbatim>\<open>ProcessAnswer\<close>: which answer confirms a request. What \<^verbatim>\<open>RequestCONNECT\<close> does then, the call of
  \<^verbatim>\<open>MQTT::Callback::OnConnect\<close>, is part of the client of the queue.
\<close>

fun confirms :: "string \<Rightarrow> req_body \<Rightarrow> bool" where
  "confirms answer (CONNECT CID user password) \<longleftrightarrow> answer = ''MQTT OK''"
| "confirms answer (SUBSCRIBE topic) \<longleftrightarrow> answer = ''SUBS OK''"
| "confirms answer (PUBLISH topic message response) \<longleftrightarrow> answer = ''PUBLISH OK''"

definition Dumper_Update :: "request \<Rightarrow> modem_state \<Rightarrow> request \<times> modem_state" where
  "Dumper_Update r st =
    (let r = r\<lparr>rq_counter := rq_counter r - 1\<rparr>
      in if rq_counter r > 0 then (r\<lparr>rq_state := REQ_IDLE\<rparr>, st) else (r, Modem_Reset st))"

section \<open>The chip's number\<close>

definition hex_digit :: "u32 \<Rightarrow> char" where
  "hex_digit d = ''0123456789ABCDEF'' ! unat (d AND 15)"

text \<open>\<^verbatim>\<open>sprintf(buffer, "%08X", w)\<close>\<close>

definition print_08X :: "u32 \<Rightarrow> string" where
  "print_08X w = map (\<lambda>i. hex_digit (drop_bit (28 - 4 * i) w)) [0..<8]"

text \<open>The twelve bytes at 0x1FFFF7E8 are the argument; the text is computed once and kept.\<close>

definition GetUID :: "u8 list \<Rightarrow> string" where
  "GetUID bytes = print_08X (CalculateCRC (\<lambda>a. bytes ! unat a) 0 12)"

section \<open>Reading a packet as the standard says\<close>

text \<open>
  MQTT 5.0: a packet is a type byte, the remaining length as a variable byte integer (seven bits a byte, the
  highest bit set on all but the last), and the rest. Strings have a two-byte length before them.
\<close>

fun read_var :: "nat \<Rightarrow> u8 list \<Rightarrow> (nat \<times> u8 list) option" where
  "read_var 0 bs = None"
| "read_var (Suc n) [] = None"
| "read_var (Suc n) (b # bs) =
    (if unat b < 128 then Some (unat b, bs)
     else (case read_var n bs of None \<Rightarrow> None | Some (v, rest) \<Rightarrow> Some (unat b - 128 + 128 * v, rest)))"

fun read_str :: "u8 list \<Rightarrow> (string \<times> u8 list) option" where
  "read_str (h # l # bs) =
    (let n = 256 * unat h + unat l
      in if n \<le> length bs then Some (map (\<lambda>b. char_of (unat b)) (take n bs), drop n bs) else None)"
| "read_str bs = None"

text \<open>The properties: their length, then the identifier and value of each one the requests use.\<close>

fun read_props :: "u8 list \<Rightarrow> (u8 list \<times> u8 list) option" where
  "read_props bs = (case read_var 4 bs of
     None \<Rightarrow> None
   | Some (n, rest) \<Rightarrow> (if n \<le> length rest then Some (take n rest, drop n rest) else None))"

definition read_connect :: "u8 list \<Rightarrow> req_body option" where
  "read_connect bs =
    (case read_str bs of
       Some (name, version # flags # k1 # k2 # bs) \<Rightarrow>
         (if name = ''MQTT'' \<and> version = 5 \<and> flags = 0xC2 then
            (case read_props bs of
               Some (props, bs) \<Rightarrow>
                 (if length props = 5 \<and> hd props = 0x11 then
                    (case read_str bs of
                       Some (CID, bs) \<Rightarrow>
                         (case read_str bs of
                            Some (user, bs) \<Rightarrow>
                              (case read_str bs of
                                 Some (password, []) \<Rightarrow> Some (CONNECT CID user password)
                               | _ \<Rightarrow> None)
                          | None \<Rightarrow> None)
                     | None \<Rightarrow> None)
                  else None)
             | None \<Rightarrow> None)
          else None)
     | _ \<Rightarrow> None)"

definition read_subscribe :: "u8 list \<Rightarrow> req_body option" where
  "read_subscribe bs =
    (case bs of
       i1 # i2 # bs \<Rightarrow>
         (case read_props bs of
            Some ([], bs) \<Rightarrow>
              (case read_str bs of
                 Some (topic, [options]) \<Rightarrow> if options = 0 then Some (SUBSCRIBE topic) else None
               | _ \<Rightarrow> None)
          | _ \<Rightarrow> None)
     | _ \<Rightarrow> None)"

definition read_publish :: "u8 list \<Rightarrow> req_body option" where
  "read_publish bs =
    (case read_str bs of
       Some (topic, bs) \<Rightarrow>
         (case read_props bs of
            Some ([], payload) \<Rightarrow> Some (PUBLISH topic (map (\<lambda>b. char_of (unat b)) payload) [])
          | Some (i # props, payload) \<Rightarrow>
              (case read_str props of
                 Some (response, []) \<Rightarrow>
                   if i = 0x08 then Some (PUBLISH topic (map (\<lambda>b. char_of (unat b)) payload) response) else None
               | _ \<Rightarrow> None)
          | None \<Rightarrow> None)
     | None \<Rightarrow> None)"

definition read_packet :: "u8 list \<Rightarrow> (req_body \<times> u8 list) option" where
  "read_packet bs =
    (case bs of
       [] \<Rightarrow> None
     | t # bs \<Rightarrow>
         (case read_var 4 bs of
            None \<Rightarrow> None
          | Some (n, bs) \<Rightarrow>
              if length bs < n then None
              else map_option (\<lambda>body. (body, drop n bs))
                (if t = 0x10 then read_connect (take n bs)
                 else if t = 0x82 then read_subscribe (take n bs)
                 else if t = 0x31 then read_publish (take n bs)
                 else None)))"

section \<open>The requests can be read back\<close>

lemma of_char_nat: "(of_char c :: u8) = of_nat (of_char c)"
  by (cases c) (simp add: of_char_def)

lemma char_of_byte [simp]: "char_of (unat (of_char c :: u8)) = c"
proof -
  have "(of_char c :: nat) < 256" by simp
  then have "unat (of_char c :: u8) = of_char c" unfolding of_char_nat by (simp add: unat_of_nat take_bit_nat_eq_self)
  then show ?thesis by simp
qed

lemma chars_of_RAW [simp]: "map (\<lambda>b. char_of (unat b)) (RAW s) = s"
  by (simp add: RAW_def comp_def)

lemma length_RAW [simp]: "length (RAW s) = length s"
  by (simp add: RAW_def)

lemma unat_size8: "n < 256 \<Longrightarrow> unat (size8 n) = n"
  by (simp add: size8_def unat_of_nat take_bit_nat_eq_self)

lemma read_str_RAW: "length s < 256 \<Longrightarrow> read_str (0 # size8 (length s) # RAW s @ rest) = Some (s, rest)"
  by (simp add: unat_size8 Let_def)

lemma read_var_size8: "n < 128 \<Longrightarrow> read_var 4 (size8 n # bs) = Some (n, bs)"
  by (simp add: unat_size8 numeral_eq_Suc)

lemma read_props_size8: "length ps < 128 \<Longrightarrow> read_props (size8 (length ps) # ps @ rest) = Some (ps, rest)"
  by (simp add: read_var_size8 del: read_var.simps)

lemmas read_parts = read_str_RAW read_props_size8

text \<open>The number of bytes behind the length byte.\<close>

fun body_size :: "req_body \<Rightarrow> nat" where
  "body_size (CONNECT CID user password) = 22 + length CID + length user + length password"
| "body_size (SUBSCRIBE topic) = 6 + length topic"
| "body_size (PUBLISH topic message response) =
    length topic + length message + (if length response \<noteq> 0 then 6 + length response else 3)"

lemma read_connect_back:
  assumes "body_size (CONNECT CID user password) < 128"
  shows "read_connect (drop 2 (connect_Send CID user password)) = Some (CONNECT CID user password)"
proof -
  have str: "read_str (0 # size8 (length s) # RAW s) = Some (s, [])" if "length s < 256" for s
    using read_str_RAW[OF that, of "[]"] by simp
  have sz: "size8 (length ''MQTT'') = 4" by (simp add: size8_def)
  have name: "read_str (0 # 4 # RAW ''MQTT'' @ rest) = Some (''MQTT'', rest)" for rest
    using read_str_RAW[of "''MQTT''" rest] unfolding sz by simp
  have props: "read_props (5 # 0x11 # a # b # c # d # rest) = Some ([0x11, a, b, c, d], rest)" for a b c d rest
    using read_props_size8[of "[0x11, a, b, c, d]" rest] by (simp add: size8_def)
  show ?thesis using assms unfolding connect_Send_def sz
    by (simp add: read_connect_def name props str read_parts del: read_str.simps read_props.simps)
qed

lemma read_subscribe_back:
  assumes "body_size (SUBSCRIBE topic) < 128"
  shows "read_subscribe (drop 2 (subscribe_Send topic)) = Some (SUBSCRIBE topic)"
proof -
  have "read_props (0 # rest) = Some ([], rest)" for rest
    using read_props_size8[of "[]" rest] by (simp add: size8_def)
  then show ?thesis using assms
    by (simp add: read_subscribe_def subscribe_Send_def read_parts del: read_str.simps read_props.simps)
qed

lemma read_publish_back:
  assumes "body_size (PUBLISH topic message response) < 128"
  shows "read_publish (drop 2 (publish_Send topic message response)) = Some (PUBLISH topic message response)"
proof (cases "response = []")
  case True
  have "read_props (0 # rest) = Some ([], rest)" for rest
    using read_props_size8[of "[]" rest] by (simp add: size8_def)
  then show ?thesis using assms True
    by (simp add: read_publish_def publish_Send_def read_parts del: read_str.simps read_props.simps)
next
  case False
  let ?ps = "0x08 # 0x00 # size8 (length response) # RAW response"
  have "read_props (size8 (3 + length response) # 0x08 # 0x00 # size8 (length response) # RAW response @ rest) = Some (?ps, rest)" for rest
    using read_props_size8[of ?ps rest] assms False by (simp add: numeral_eq_Suc del: read_props.simps)
  moreover have "read_str (0 # size8 (length response) # RAW response) = Some (response, [])"
    using read_str_RAW[of response "[]"] assms False by simp
  ultimately show ?thesis using assms False
    by (simp add: read_publish_def publish_Send_def read_parts del: read_str.simps read_props.simps)
qed

lemma Send_length: "length (request_Send b) = 2 + body_size b"
  by (cases b) (simp_all add: connect_Send_def subscribe_Send_def publish_Send_def)

lemma Send_header: "\<exists>t. request_Send b = t # size8 (body_size b) # drop 2 (request_Send b)"
  by (cases b) (auto simp: connect_Send_def subscribe_Send_def publish_Send_def algebra_simps)

lemma read_back:
  assumes "body_size b < 128"
  shows "read_packet (request_Send b @ rest) = Some (b, rest)"
proof -
  let ?d = "drop 2 (request_Send b)"
  obtain t where t: "request_Send b = t # size8 (body_size b) # ?d" using Send_header by blast
  have len: "length ?d = body_size b" by (simp add: Send_length)
  have "read_packet (t # size8 (body_size b) # ?d @ rest) = map_option (\<lambda>b. (b, rest))
    (if t = 0x10 then read_connect ?d else if t = 0x82 then read_subscribe ?d else if t = 0x31 then read_publish ?d else None)"
    using len by (simp add: read_packet_def read_var_size8[OF assms] del: read_var.simps)
  moreover have "(if t = 0x10 then read_connect ?d else if t = 0x82 then read_subscribe ?d else if t = 0x31 then read_publish ?d else None) = Some b"
    using t assms read_connect_back read_subscribe_back read_publish_back
    by (cases b) (auto simp: connect_Send_def subscribe_Send_def publish_Send_def split: if_splits)
  ultimately show ?thesis by (subst t) simp
qed

lemma Send_third: "\<exists>ds. drop 2 (request_Send b) = 0 # ds"
  by (cases b) (auto simp: connect_Send_def subscribe_Send_def publish_Send_def)

lemma read_long:
  assumes "128 \<le> body_size b" "body_size b < 256" "read_packet (request_Send b @ rest) = Some (b', rest')"
  shows "length rest' = 127 + length rest"
proof -
  obtain t where t: "request_Send b = t # size8 (body_size b) # drop 2 (request_Send b)" using Send_header by blast
  obtain ds where ds: "drop 2 (request_Send b) = 0 # ds" using Send_third by blast
  have len: "Suc (length ds) = body_size b" using ds Send_length[of b] by (metis length_Cons length_drop add_diff_cancel_left')
  have "read_var 4 (size8 (body_size b) # 0 # bs) = Some (body_size b - 128, bs)" for bs
    using assms(1,2) by (simp add: unat_size8 numeral_eq_Suc)
  then have "rest' = drop (body_size b - 128) (ds @ rest)"
    using assms(3) by (subst (asm) t) (auto simp: ds read_packet_def split: if_splits)
  then show ?thesis using len assms(1) by simp
qed

section \<open>Properties\<close>

text \<open>
  C18: a request is read back from its packet by the standard's rules, and the reading ends exactly where the packet ends, if no
  more than 127 bytes follow the length byte. A longer request, up to 255 bytes, is never read with its own end: the length is one
  byte without the continuation the standard asks for, and the reader takes 127 bytes less.
\<close>

theorem request_read_back:
  shows "(body_size b < 128 \<longrightarrow> read_packet (request_Send b @ rest) = Some (b, rest)) \<and>
     (128 \<le> body_size b \<and> body_size b < 256 \<longrightarrow> read_packet (request_Send b @ rest) = Some (b', rest') \<longrightarrow>
        length rest' = 127 + length rest)"
  using read_back read_long by blast

theorem request_read_back_witness:
  "read_packet (request_Send (SUBSCRIBE ''devices/box/1/time'') @ [7]) = Some (SUBSCRIBE ''devices/box/1/time'', [7]) \<and>
   read_packet (request_Send (PUBLISH ''t'' (replicate 130 CHR ''x'') []) @ []) \<noteq> Some (PUBLISH ''t'' (replicate 130 CHR ''x'') [], [])"
  using request_read_back[of "SUBSCRIBE ''devices/box/1/time''" "[7]"]
    request_read_back[of "PUBLISH ''t'' (replicate 130 CHR ''x'') []" "[]" "PUBLISH ''t'' (replicate 130 CHR ''x'') []" "[]"]
  by auto

end
