(* ===== verification/Mqtt.thy ===== *)
theory Mqtt
  imports MqttRequest
begin

text \<open>
  The client of the MQTT broker: \<^verbatim>\<open>sources/Device/src/Modem/MQTT/MQTT.cpp\<close>, \<^verbatim>\<open>Messages.cpp\<close> and
  \<^verbatim>\<open>RequestMQTT::Update\<close>. The requests waiting in the array \<^verbatim>\<open>requests\<close> are a list. \<^verbatim>\<open>Queue::Append\<close> waits in a
  loop over \<^verbatim>\<open>Modem::Update\<close> while the queue is full. The loop is a parameter of it: where the main loop appends a request it is
  \<^verbatim>\<open>Modem::Update\<close>; where the handlers that \<^verbatim>\<open>Modem::Update\<close> itself called append one, the wait would call it
  again from inside, which has no model here and is \<open>None\<close>, as is the use of a null pointer \<^verbatim>\<open>current\<close>. \<open>update_works\<close> shows that neither happens as long as
  the client is in order. \<open>nul\<close> says whether the program goes on after the access at address 0 that the construction of a request makes. The time, the answer and the state of
  the modem are those of the call.
\<close>

section \<open>The queue\<close>

abbreviation MAX_REQUESTS :: nat where "MAX_REQUESTS \<equiv> 2"

datatype mqtt_state = MQTT_IDLE | MQTT_RUNNING

record mqtt =
  q_requests :: "request list"
  q_current :: "request option"
  mq_connected :: bool
  mq_state :: mqtt_state
  mq_meter :: time_meter
  mq_out :: "u8 list"

definition Queue_Clear :: "mqtt \<Rightarrow> mqtt" where
  "Queue_Clear q = q\<lparr>q_current := None, q_requests := []\<rparr>"

text \<open>\<open>calls i\<close> is the \<open>i\<close>-th call of \<^verbatim>\<open>Modem::Update\<close> in the loop.\<close>

partial_function (option) append_wait :: "('s \<Rightarrow> mqtt) \<Rightarrow> (nat \<Rightarrow> 's \<Rightarrow> 's option) \<Rightarrow> nat \<Rightarrow> 's \<Rightarrow> 's option" where
  "append_wait get calls i s =
    (if length (q_requests (get s)) = MAX_REQUESTS
     then (case calls i s of None \<Rightarrow> None | Some s \<Rightarrow> append_wait get calls (i + 1) s)
     else Some s)"

lemma append_wait_inv:
  assumes "append_wait get calls i s = Some s'" "\<And>i s s'. calls i s = Some s' \<Longrightarrow> P s \<Longrightarrow> P s'" "P s"
  shows "P s' \<and> length (q_requests (get s')) \<noteq> MAX_REQUESTS"
proof -
  have "(\<forall>i s s'. calls i s = Some s' \<longrightarrow> P s \<longrightarrow> P s') \<longrightarrow> P s \<longrightarrow> P s' \<and> length (q_requests (get s')) \<noteq> MAX_REQUESTS"
    by (rule append_wait.raw_induct[of "\<lambda>get calls i s s'. (\<forall>i s s'. calls i s = Some s' \<longrightarrow> P s \<longrightarrow> P s') \<longrightarrow> P s \<longrightarrow>
          P s' \<and> length (q_requests (get s')) \<noteq> MAX_REQUESTS", OF _ assms(1)])
      (auto split: if_splits option.splits)
  then show ?thesis using assms(2,3) by blast
qed

definition Queue_Append ::
    "('s \<Rightarrow> mqtt) \<Rightarrow> ((mqtt \<Rightarrow> mqtt) \<Rightarrow> 's \<Rightarrow> 's) \<Rightarrow> (nat \<Rightarrow> 's \<Rightarrow> 's option) \<Rightarrow> request \<Rightarrow> 's \<Rightarrow> 's option" where
  "Queue_Append get upd calls r s =
    (case append_wait get calls 0 s of
       None \<Rightarrow> None
     | Some s \<Rightarrow> Some (upd (\<lambda>q. q\<lparr>q_requests := q_requests q @ [r]\<rparr>) s))"

definition Queue_Get :: "mqtt \<Rightarrow> request option \<times> mqtt" where
  "Queue_Get q = (case q_requests q of [] \<Rightarrow> (None, q) | r # rs \<Rightarrow> (Some r, q\<lparr>q_requests := rs\<rparr>))"

definition Queue_InWait :: "req_type \<Rightarrow> mqtt \<Rightarrow> bool" where
  "Queue_InWait t q \<longleftrightarrow> list_ex (\<lambda>r. GetType r = t) (q_requests q) \<or>
     (case q_current q of None \<Rightarrow> False | Some r \<Rightarrow> GetType r = t)"

text \<open>\<^verbatim>\<open>Append\<close> as the handlers call it.\<close>

definition append_inside :: "request \<Rightarrow> mqtt \<Rightarrow> mqtt option" where
  "append_inside r q = Queue_Append id id (\<lambda>_ _. None) r q"

section \<open>The client\<close>

definition connect_request :: "u8 list \<Rightarrow> req_body" where
  "connect_request uid = CONNECT (''-uskd----'' @ GetUID uid) ''mqttusr'' ''tgsdj9e5dc''"

definition time_topic :: "u8 list \<Rightarrow> string" where
  "time_topic uid = ''devices/box/'' @ GetUID uid @ ''/config/getTime''"

definition subscribe_request :: "u8 list \<Rightarrow> req_body" where
  "subscribe_request uid = SUBSCRIBE (time_topic uid)"

definition json_str :: "string \<Rightarrow> string" where
  "json_str s = CHR 0x22 # s @ [CHR 0x22]"

definition time_request :: "u8 list \<Rightarrow> req_body" where
  "time_request uid =
    (let data = ''{'' @ json_str ''serialNumber'' @ '':'' @ json_str (GetUID uid) @ ''}'';
         message = ''{'' @ json_str ''request'' @ '':'' @ json_str ''getTime'' @ '','' @ json_str ''data'' @ '':'' @ data @ ''}''
      in PUBLISH ''server/request/config'' message (time_topic uid))"

definition MQTT_Send ::
    "('s \<Rightarrow> mqtt) \<Rightarrow> ((mqtt \<Rightarrow> mqtt) \<Rightarrow> 's \<Rightarrow> 's) \<Rightarrow> (nat \<Rightarrow> 's \<Rightarrow> 's option) \<Rightarrow> request \<Rightarrow> 's \<Rightarrow> 's option" where
  "MQTT_Send get upd calls r s = (if mq_connected (get s) then Queue_Append get upd calls r s else Some s)"

definition OnConnect :: "u8 list \<Rightarrow> bool \<Rightarrow> bool \<Rightarrow> mqtt \<Rightarrow> mqtt option" where
  "OnConnect uid nul connect q =
    (let q = q\<lparr>mq_connected := connect\<rparr>
      in (case request_Create nul (subscribe_request uid) of
            None \<Rightarrow> None
          | Some r \<Rightarrow> MQTT_Send id id (\<lambda>_ _. None) r q))"

definition ProcessAnswer :: "u8 list \<Rightarrow> bool \<Rightarrow> string \<Rightarrow> req_body \<Rightarrow> mqtt \<Rightarrow> (bool \<times> mqtt) option" where
  "ProcessAnswer uid nul answer body q =
    (if confirms answer body then
       (if body_type body = TYPE_CONNECT then map_option (Pair True) (OnConnect uid nul True q) else Some (True, q))
     else Some (False, q))"

text \<open>\<^verbatim>\<open>RequestMQTT::Update\<close> on the request \<open>r\<close>.\<close>

definition request_Update ::
    "u8 list \<Rightarrow> bool \<Rightarrow> u32 \<Rightarrow> string \<Rightarrow> request \<Rightarrow> modem_state \<times> mqtt \<Rightarrow> (request \<times> modem_state \<times> mqtt) option" where
  "request_Update uid nul now answer r s =
    (let (st, q) = s
      in (case rq_state r of
            REQ_IDLE \<Rightarrow>
              Some (r\<lparr>rq_state := NEED_SEND\<rparr>, st,
                    q\<lparr>mq_out := mq_out q @ With0D ''AT+CIPSEND'', mq_meter := meter_Reset now (mq_meter q)\<rparr>)
          | NEED_SEND \<Rightarrow>
              (if ElapsedTime now (mq_meter q) > 1000 then
                 (let (r, st) = Dumper_Update r st in Some (r, st, q))
               else if answer = ''>'' then
                 Some (r\<lparr>rq_time_send := now, rq_state := WAIT_CONFIRM\<rparr>, st,
                       q\<lparr>mq_out := mq_out q @ request_Send (rq_body r) @ [0x1A],
                         mq_meter := SetResponseTime now 5000 (mq_meter q)\<rparr>)
               else Some (r, st, q))
          | WAIT_CONFIRM \<Rightarrow>
              (if IsFinished now (mq_meter q) then
                 (let (r, st) = Dumper_Update r st in Some (r, st, q))
               else
                 (case ProcessAnswer uid nul answer (rq_body r) q of
                    None \<Rightarrow> None
                  | Some (ok, q) \<Rightarrow> Some (if ok then r\<lparr>rq_state := FINISHED\<rparr> else r, st, q)))
          | FINISHED \<Rightarrow> Some (r, st, q)))"

definition MQTT_Update :: "u8 list \<Rightarrow> bool \<Rightarrow> u32 \<Rightarrow> string \<Rightarrow> modem_state \<times> mqtt \<Rightarrow> (modem_state \<times> mqtt) option" where
  "MQTT_Update uid nul now answer s =
    (let (st, q) = s
      in (case mq_state q of
            MQTT_IDLE \<Rightarrow>
              (if \<not> mq_connected q \<and> q_current q = None then
                 (case request_Create nul (connect_request uid) of
                    None \<Rightarrow> None
                  | Some r \<Rightarrow>
                      (case append_inside r q of
                         None \<Rightarrow> None
                       | Some q \<Rightarrow> (let (r, q) = Queue_Get q in Some (st, q\<lparr>q_current := r\<rparr>))))
               else
                 (let q = (if q_current q = None then (let (r, q) = Queue_Get q in q\<lparr>q_current := r\<rparr>) else q)
                   in Some (st, if q_current q \<noteq> None then q\<lparr>mq_state := MQTT_RUNNING\<rparr> else q)))
          | MQTT_RUNNING \<Rightarrow>
              (case q_current q of
                 None \<Rightarrow> None
               | Some r \<Rightarrow>
                   (case request_Update uid nul now answer r (st, q) of
                      None \<Rightarrow> None
                    | Some (r, st, q) \<Rightarrow>
                        Some (st, if request_IsFinished r then q\<lparr>q_current := None, mq_state := MQTT_IDLE\<rparr>
                                  else q\<lparr>q_current := Some r\<rparr>)))))"

definition MQTT_Reset :: "mqtt \<Rightarrow> mqtt" where
  "MQTT_Reset q = Queue_Clear (q\<lparr>mq_connected := False, mq_state := MQTT_IDLE\<rparr>)"

text \<open>\<^verbatim>\<open>MQTT::GET::Time\<close>, which the main loop calls.\<close>

definition GET_Time ::
    "u8 list \<Rightarrow> bool \<Rightarrow> ('s \<Rightarrow> mqtt) \<Rightarrow> ((mqtt \<Rightarrow> mqtt) \<Rightarrow> 's \<Rightarrow> 's) \<Rightarrow> (nat \<Rightarrow> 's \<Rightarrow> 's option) \<Rightarrow> 's \<Rightarrow> 's option" where
  "GET_Time uid nul get upd calls s =
    (case request_Create nul (time_request uid) of
       None \<Rightarrow> None
     | Some r \<Rightarrow> MQTT_Send get upd calls r s)"

section \<open>Invariant\<close>

text \<open>
  Before the broker has confirmed the connection only the connection request exists; after it none does. A request in
  the queue is one the device makes, still untouched, and a running client has a request.
\<close>

definition device_body :: "u8 list \<Rightarrow> req_body \<Rightarrow> bool" where
  "device_body uid b \<longleftrightarrow> b \<in> {connect_request uid, subscribe_request uid, time_request uid}"

definition mqtt_ok :: "u8 list \<Rightarrow> mqtt \<Rightarrow> bool" where
  "mqtt_ok uid q \<longleftrightarrow>
     length (q_requests q) \<le> MAX_REQUESTS \<and>
     (mq_state q = MQTT_RUNNING \<longrightarrow> q_current q \<noteq> None) \<and>
     (\<forall>r \<in> set (q_requests q) \<union> set_option (q_current q).
        device_body uid (rq_body r) \<and> (GetType r = TYPE_CONNECT \<longleftrightarrow> \<not> mq_connected q)) \<and>
     (\<not> mq_connected q \<longrightarrow> q_requests q = [])"

lemma Create_simps [simp]:
  "request_Create True body = Some (new_request body)" "request_Create nul body = Some r \<longleftrightarrow> nul \<and> r = new_request body"
  "request_Create nul body = None \<longleftrightarrow> \<not> nul"
  by (auto simp: request_Create_def)

lemma append_inside_room:
  "length (q_requests q) \<noteq> MAX_REQUESTS \<Longrightarrow> append_inside r q = Some (q\<lparr>q_requests := q_requests q @ [r]\<rparr>)"
  by (simp add: append_inside_def Queue_Append_def append_wait.simps)

lemma body_types [simp]:
  "body_type (connect_request uid) = TYPE_CONNECT" "body_type (subscribe_request uid) = TYPE_SUBSCRIBE"
  "body_type (time_request uid) = TYPE_PUBLISH"
  by (simp_all add: connect_request_def subscribe_request_def time_request_def)

lemma new_request_simps [simp]:
  "GetType (new_request b) = body_type b" "rq_body (new_request b) = b" "rq_state (new_request b) = REQ_IDLE" "rq_counter (new_request b) = 5"
  by (simp_all add: new_request_def GetType_def)

lemma device_bodies [simp]: "device_body uid (connect_request uid)" "device_body uid (subscribe_request uid)" "device_body uid (time_request uid)"
  by (simp_all add: device_body_def)

lemma OnConnect_room:
  "length (q_requests q) \<noteq> MAX_REQUESTS \<Longrightarrow> OnConnect uid True True q =
     Some (q\<lparr>mq_connected := True, q_requests := q_requests q @ [new_request (subscribe_request uid)]\<rparr>)"
  by (simp add: OnConnect_def MQTT_Send_def Queue_Append_def append_wait.simps)

text \<open>One call for the current request: what it may change and send.\<close>

definition sent_by :: "req_body \<Rightarrow> u8 list \<Rightarrow> u8 list \<Rightarrow> bool" where
  "sent_by b out out' \<longleftrightarrow> out' = out \<or> out' = out @ With0D ''AT+CIPSEND'' \<or> out' = out @ request_Send b @ [0x1A]"

lemma request_step:
  assumes "mqtt_ok uid q" "q_current q = Some r"
  shows "\<exists>r' st' q'. request_Update uid True now answer r (st, q) = Some (r', st', q') \<and> rq_body r' = rq_body r \<and>
    (st' = st \<or> st' = MODEM_IDLE) \<and> mq_state q' = mq_state q \<and> q_current q' = q_current q \<and>
    (mq_connected q' = mq_connected q \<and> q_requests q' = q_requests q \<or>
     rq_state r' = FINISHED \<and> \<not> mq_connected q \<and> mq_connected q' \<and> q_requests q' = [new_request (subscribe_request uid)]) \<and>
    sent_by (rq_body r) (mq_out q) (mq_out q')"
proof (cases "rq_state r")
  case WAIT_CONFIRM
  show ?thesis
  proof (cases "\<not> IsFinished now (mq_meter q) \<and> confirms answer (rq_body r) \<and> body_type (rq_body r) = TYPE_CONNECT")
    case True
    then have "\<not> mq_connected q \<and> q_requests q = []" using assms by (auto simp: mqtt_ok_def GetType_def)
    then show ?thesis using WAIT_CONFIRM True
      by (simp add: request_Update_def ProcessAnswer_def OnConnect_room sent_by_def)
  next
    case False
    then show ?thesis using WAIT_CONFIRM
      by (auto simp: request_Update_def ProcessAnswer_def Dumper_Update_def Modem_Reset_def sent_by_def Let_def)
  qed
qed (auto simp: request_Update_def Dumper_Update_def Modem_Reset_def sent_by_def Let_def)

lemma update_works:
  assumes "mqtt_ok uid q"
  shows "\<exists>st' q'. MQTT_Update uid True now answer (st, q) = Some (st', q') \<and> mqtt_ok uid q' \<and> (st' = st \<or> st' = MODEM_IDLE)"
proof (cases "mq_state q")
  case MQTT_IDLE
  show ?thesis
  proof (cases "\<not> mq_connected q \<and> q_current q = None")
    case True
    then have "q_requests q = []" using assms by (simp add: mqtt_ok_def)
    then show ?thesis using True MQTT_IDLE
      by (simp add: MQTT_Update_def append_inside_room Queue_Get_def mqtt_ok_def)
  next
    case False
    then show ?thesis using assms MQTT_IDLE
      by (cases "q_requests q"; cases "q_current q") (auto simp: MQTT_Update_def Queue_Get_def mqtt_ok_def)
  qed
next
  case MQTT_RUNNING
  then obtain r where r: "q_current q = Some r" using assms by (auto simp: mqtt_ok_def)
  from request_step[OF assms r, of now answer st] obtain r' st' q' where
    u: "request_Update uid True now answer r (st, q) = Some (r', st', q')" "rq_body r' = rq_body r" "st' = st \<or> st' = MODEM_IDLE"
      "mq_state q' = mq_state q" "q_current q' = q_current q" and
    c: "mq_connected q' = mq_connected q \<and> q_requests q' = q_requests q \<or>
     rq_state r' = FINISHED \<and> \<not> mq_connected q \<and> mq_connected q' \<and> q_requests q' = [new_request (subscribe_request uid)]"
    by blast
  from c have "mqtt_ok uid (if request_IsFinished r' then q'\<lparr>q_current := None, mq_state := MQTT_IDLE\<rparr> else q'\<lparr>q_current := Some r'\<rparr>)"
    using assms r u(2) MQTT_RUNNING by (auto simp: mqtt_ok_def GetType_def request_IsFinished_def)
  then show ?thesis using u MQTT_RUNNING r by (auto simp: MQTT_Update_def)
qed

text \<open>If address 0 cannot be read, a call that returns does what it does if it can.\<close>

lemma answer_nul:
  "OnConnect uid nul c q = Some q' \<Longrightarrow> OnConnect uid True c q = Some q'"
  "ProcessAnswer uid nul answer b q = Some r \<Longrightarrow> ProcessAnswer uid True answer b q = Some r"
  by (cases nul; simp add: OnConnect_def request_Create_def)
    (cases nul; auto simp: ProcessAnswer_def OnConnect_def request_Create_def split: if_splits)

lemma request_nul: "request_Update uid nul now answer r s = Some s' \<Longrightarrow> request_Update uid True now answer r s = Some s'"
  by (cases s; cases "rq_state r"; cases "ProcessAnswer uid nul answer (rq_body r) (snd s)")
    (auto simp: request_Update_def dest: answer_nul(2) split: if_splits)

lemma update_nul: "MQTT_Update uid nul now answer s = Some s' \<Longrightarrow> MQTT_Update uid True now answer s = Some s'"
proof (cases "mq_state (snd s)")
  case MQTT_IDLE
  moreover assume "MQTT_Update uid nul now answer s = Some s'"
  ultimately show ?thesis by (cases s; cases nul) (auto simp: MQTT_Update_def request_Create_def split: if_splits)
next
  case MQTT_RUNNING
  assume a: "MQTT_Update uid nul now answer s = Some s'"
  obtain st q where s: "s = (st, q)" by (cases s)
  obtain r x where r: "q_current q = Some r" "request_Update uid nul now answer r (st, q) = Some x"
    using a MQTT_RUNNING s by (auto simp: MQTT_Update_def split: option.splits)
  then show ?thesis using a MQTT_RUNNING request_nul[OF r(2)] by (simp add: MQTT_Update_def s)
qed

text \<open>In any state a call leaves the state of the modem or resets it.\<close>

lemma update_state:
  assumes "MQTT_Update uid nul now answer (st, q) = Some (st', q')"
  shows "st' = st \<or> st' = MODEM_IDLE"
proof -
  have r: "st1 = st \<or> st1 = MODEM_IDLE" if "request_Update uid nul now answer r (st, q1) = Some (r1, st1, q2)" for r r1 st1 q1 q2
    using that by (cases "rq_state r") (auto simp: request_Update_def Dumper_Update_def Modem_Reset_def Let_def split: if_splits option.splits)
  show ?thesis
    using assms r by (cases "mq_state q") (auto simp: MQTT_Update_def Let_def split: if_splits option.splits prod.splits)
qed

lemma reset_mqtt_ok [simp]: "mqtt_ok uid (MQTT_Reset q)"
  by (simp add: MQTT_Reset_def Queue_Clear_def mqtt_ok_def)

text \<open>What a call sends, and in which state.\<close>

lemma update_sends:
  assumes "mqtt_ok uid q" "MQTT_Update uid nul now answer (st, q) = Some (st', q')"
  shows "mq_out q' = mq_out q \<or> (\<exists>r. q_current q = Some r \<and> sent_by (rq_body r) (mq_out q) (mq_out q') \<and>
     device_body uid (rq_body r) \<and> (rq_body r = connect_request uid \<or> mq_connected q))"
proof (cases "mq_state q")
  case MQTT_IDLE
  note u = update_nul[OF assms(2)]
  have "mq_out q' = mq_out q" using assms(1) u MQTT_IDLE
    by (cases "q_requests q") (auto simp: MQTT_Update_def append_inside_room Queue_Get_def mqtt_ok_def split: if_splits)
  then show ?thesis ..
next
  case MQTT_RUNNING
  note u = update_nul[OF assms(2)]
  obtain r where r: "q_current q = Some r" using assms(1) MQTT_RUNNING by (auto simp: mqtt_ok_def)
  have "sent_by (rq_body r) (mq_out q) (mq_out q')"
    using request_step[OF assms(1) r, of now answer st] u MQTT_RUNNING r by (auto simp: MQTT_Update_def)
  moreover have "device_body uid (rq_body r) \<and> (rq_body r = connect_request uid \<or> mq_connected q)"
    using assms(1) r by (auto simp: mqtt_ok_def device_body_def GetType_def)
  ultimately show ?thesis using r by blast
qed

lemma uid_length [simp]: "length (GetUID uid) = 8"
  by (simp add: GetUID_def print_08X_def)

lemma device_body_fits: "device_body uid b \<Longrightarrow> body_size b < 128"
  by (auto simp: device_body_def connect_request_def subscribe_request_def time_request_def time_topic_def json_str_def Let_def)

section \<open>Runs\<close>

text \<open>
  What \<^verbatim>\<open>Modem::Update\<close> does to the client: calls of \<^verbatim>\<open>MQTT::Update\<close> with any answers at any time, and resets.
\<close>

inductive mqtt_step :: "u8 list \<Rightarrow> mqtt \<Rightarrow> mqtt \<Rightarrow> bool" for uid where
  step_update: "MQTT_Update uid nul now answer (st, q) = Some (st', q') \<Longrightarrow> mqtt_step uid q q'"
| step_reset: "mqtt_step uid q (MQTT_Reset q)"

inductive_cases mqtt_stepE: "mqtt_step uid q q'"

definition mqtt_start :: mqtt where
  "mqtt_start = \<lparr>q_requests = [], q_current = None, mq_connected = False, mq_state = MQTT_IDLE,
     mq_meter = \<lparr>time_reset = 0, time_response = 0\<rparr>, mq_out = []\<rparr>"

text \<open>
  The client as the device uses it. The main loop may ask for the time in any state: while the queue is full every call
  \<open>calls i\<close> of the wait is any sequence of steps. The flag \<open>lost\<close> is set when the connection was lost in such a wait, so that the request
  came into the queue of a client that is not connected, and cleared by a reset, which empties the queue.
\<close>

inductive mqtt_run :: "u8 list \<Rightarrow> bool \<Rightarrow> mqtt \<Rightarrow> bool" for uid where
  run_start: "mqtt_run uid False mqtt_start"
| run_update: "mqtt_run uid lost q \<Longrightarrow> MQTT_Update uid nul now answer (st, q) = Some (st', q') \<Longrightarrow> mqtt_run uid lost q'"
| run_reset: "mqtt_run uid lost q \<Longrightarrow> mqtt_run uid False (MQTT_Reset q)"
| run_time: "mqtt_run uid lost q \<Longrightarrow> (\<And>i s s'. calls i s = Some s' \<Longrightarrow> (mqtt_step uid)\<^sup>*\<^sup>* s s') \<Longrightarrow>
    GET_Time uid nul id id calls q = Some q' \<Longrightarrow> mqtt_run uid (lost \<or> mq_connected q \<and> \<not> mq_connected q') q'"

lemma mqtt_update_ok:
  assumes "MQTT_Update uid nul now answer (st, q) = Some (st', q')" "mqtt_ok uid q"
  shows "mqtt_ok uid q' \<and> (st' = st \<or> st' = MODEM_IDLE)"
  using update_works[OF assms(2), of now answer st] update_nul[OF assms(1)] by auto

lemma step_ok: "mqtt_step uid q q' \<Longrightarrow> mqtt_ok uid q \<Longrightarrow> mqtt_ok uid q'"
  by (elim mqtt_stepE) (auto dest: mqtt_update_ok)

lemma steps_ok: "(mqtt_step uid)\<^sup>*\<^sup>* q q' \<Longrightarrow> mqtt_ok uid q \<Longrightarrow> mqtt_ok uid q'"
  by (induction rule: rtranclp_induct) (auto intro: step_ok)

lemma start_ok: "mqtt_ok uid mqtt_start"
  by (simp add: mqtt_ok_def mqtt_start_def)

lemma time_ok:
  assumes "mqtt_ok uid q" "\<And>i s s'. calls i s = Some s' \<Longrightarrow> (mqtt_step uid)\<^sup>*\<^sup>* s s'" "GET_Time uid nul id id calls q = Some q'"
    "mq_connected q \<Longrightarrow> mq_connected q'"
  shows "mqtt_ok uid q'"
proof (cases "mq_connected q")
  case False
  then show ?thesis using assms(1,3) by (auto simp: GET_Time_def MQTT_Send_def split: option.splits)
next
  case True
  then obtain q1 where w: "append_wait id calls 0 q = Some q1" "q' = q1\<lparr>q_requests := q_requests q1 @ [new_request (time_request uid)]\<rparr>"
    using assms(3) by (auto simp: GET_Time_def MQTT_Send_def Queue_Append_def split: option.splits)
  have "mqtt_ok uid q1 \<and> length (q_requests (id q1)) \<noteq> MAX_REQUESTS"
    by (rule append_wait_inv[OF w(1)]) (use assms(1,2) steps_ok in blast)+
  then show ?thesis using assms(4)[OF True] w(2) by (auto simp: mqtt_ok_def)
qed

lemma run_ok: "mqtt_run uid lost q \<Longrightarrow> lost \<or> mqtt_ok uid q"
proof (induction rule: mqtt_run.induct)
  case (run_time lost q calls nul q')
  then show ?case using time_ok[of uid q calls nul q'] by blast
qed (auto simp: start_ok dest: mqtt_update_ok)

section \<open>Time limits\<close>

text \<open>Calls at the given times, counted without wrap-around.\<close>

fun mqtt_calls :: "u8 list \<Rightarrow> bool \<Rightarrow> (nat \<times> string) list \<Rightarrow> modem_state \<times> mqtt \<Rightarrow> (modem_state \<times> mqtt) option" where
  "mqtt_calls uid nul [] s = Some s"
| "mqtt_calls uid nul ((t, answer) # cs) s =
    (case MQTT_Update uid nul (of_nat t) answer s of None \<Rightarrow> None | Some s \<Rightarrow> mqtt_calls uid nul cs s)"

text \<open>At most \<open>g\<close> milliseconds between two calls, and the counter far enough from its end.\<close>

fun paced :: "nat \<Rightarrow> nat \<Rightarrow> (nat \<times> string) list \<Rightarrow> bool" where
  "paced g t [] \<longleftrightarrow> True"
| "paced g t ((t', answer) # cs) \<longleftrightarrow> t \<le> t' \<and> t' \<le> t + g \<and> t' + 5000 < 2 ^ 32 \<and> paced g t' cs"

text \<open>The time one attempt takes at most, and what is still to be waited for: the request is over by \<open>d\<close>.\<close>

definition attempt :: "nat \<Rightarrow> nat" where
  "attempt g = 6000 + 3 * g"

definition pending :: "nat \<Rightarrow> nat \<Rightarrow> nat \<Rightarrow> mqtt \<Rightarrow> bool" where
  "pending g d t q \<longleftrightarrow> (\<exists>r c. q_current q = Some r \<and> mq_state q = MQTT_RUNNING \<and> rq_counter r = int (Suc c) \<and>
     (case rq_state r of
        REQ_IDLE \<Rightarrow> t + attempt g + c * attempt g \<le> d
      | NEED_SEND \<Rightarrow> (\<exists>s. time_reset (mq_meter q) = of_nat s \<and> s \<le> t \<and> t \<le> s + 1000 \<and> s + 6000 + 2 * g + c * attempt g \<le> d)
      | WAIT_CONFIRM \<Rightarrow> (\<exists>e. time_response (mq_meter q) = of_nat e \<and> t < e \<and> e < 2 ^ 32 \<and> e + g + c * attempt g \<le> d)
      | FINISHED \<Rightarrow> False))"

lemma pending_in_time: "pending g d t q \<Longrightarrow> t \<le> d"
  unfolding pending_def by (elim exE conjE, case_tac "rq_state r") auto

lemma elapsed_nat: "s \<le> t \<Longrightarrow> t < 2 ^ 32 \<Longrightarrow> time_reset m = of_nat s \<Longrightarrow> (1000 < ElapsedTime (of_nat t) m) = (1000 < t - s)"
proof -
  assume a: "s \<le> t" "t < 2 ^ 32" "time_reset m = of_nat s"
  then have "ElapsedTime (of_nat t) m = of_nat (t - s)" by (simp add: ElapsedTime_def of_nat_diff)
  then have "unat (ElapsedTime (of_nat t) m) = t - s" using a(2) by (simp only:) (rule unat_of_nat_u32, simp)
  then show ?thesis by (simp add: word_less_nat_alt)
qed

lemma finished_nat: "t < 2 ^ 32 \<Longrightarrow> e < 2 ^ 32 \<Longrightarrow> time_response m = of_nat e \<Longrightarrow> IsFinished (of_nat t) m = (e \<le> t)"
  by (simp add: IsFinished_def word_le_nat_alt unat_of_nat_u32)

lemma dumped:
  assumes "q_current q = Some r" "mq_state q = MQTT_RUNNING" "rq_counter r = int (Suc c)" "t + c * attempt g \<le> d"
    "Dumper_Update r st = (r', st')"
  shows "st' = MODEM_IDLE \<or> pending g d t (q\<lparr>q_current := Some r'\<rparr>) \<and> rq_state r' \<noteq> FINISHED"
proof (cases c)
  case 0
  then show ?thesis using assms by (auto simp: Dumper_Update_def Modem_Reset_def Let_def)
next
  case (Suc n)
  then show ?thesis using assms by (auto simp: Dumper_Update_def pending_def Let_def)
qed

text \<open>One call in each of the three states of a request under way.\<close>

lemma pending_idle:
  assumes "rq_state r = REQ_IDLE" "rq_counter r = int (Suc c)" "q_current q = Some r" "mq_state q = MQTT_RUNNING"
    "t + attempt g + c * attempt g \<le> d" "t' \<le> t + g"
    "MQTT_Update uid nul (of_nat t') answer (st, q) = Some (st', q')"
  shows "pending g d t' q'"
proof -
  have "t' + 6000 + 2 * g + c * attempt g \<le> d" using assms(5,6) by (simp add: attempt_def)
  then have "\<exists>s. of_nat t' = (of_nat s :: u32) \<and> s \<le> t' \<and> t' \<le> s + 1000 \<and> s + 6000 + 2 * g + c * attempt g \<le> d"
    by (intro exI[of _ t']) simp
  then show ?thesis using assms
    by (auto simp: MQTT_Update_def request_Update_def request_IsFinished_def pending_def meter_Reset_def)
qed

lemma pending_need_send:
  assumes "rq_state r = NEED_SEND" "rq_counter r = int (Suc c)" "q_current q = Some r" "mq_state q = MQTT_RUNNING"
    "time_reset (mq_meter q) = of_nat s" "s \<le> t" "t \<le> s + 1000" "s + 6000 + 2 * g + c * attempt g \<le> d"
    "t \<le> t'" "t' \<le> t + g" "t' + 5000 < 2 ^ 32"
    "MQTT_Update uid nul (of_nat t') answer (st, q) = Some (st', q')"
  shows "st' = MODEM_IDLE \<or> pending g d t' q'"
proof (cases "1000 < t' - s")
  case True
  then have e: "1000 < ElapsedTime (of_nat t') (mq_meter q)" using elapsed_nat[of s t' "mq_meter q"] assms by simp
  obtain r' st1 where d: "Dumper_Update r st = (r', st1)" by fastforce
  have "t' + c * attempt g \<le> d" using assms by simp
  from dumped[OF assms(3,4,2) this d] show ?thesis using assms e d
    by (auto simp: MQTT_Update_def request_Update_def request_IsFinished_def)
next
  case False
  then have e: "\<not> 1000 < ElapsedTime (of_nat t') (mq_meter q)" using elapsed_nat[of s t' "mq_meter q"] assms by simp
  have w: "of_nat t' + (5000 :: u32) = of_nat (t' + 5000)" by simp
  show ?thesis
  proof (cases "answer = ''>''")
    case True
    then have "q' = q\<lparr>mq_out := mq_out q @ request_Send (rq_body r) @ [0x1A], mq_meter := SetResponseTime (of_nat t') 5000 (mq_meter q),
        q_current := Some (r\<lparr>rq_time_send := of_nat t', rq_state := WAIT_CONFIRM\<rparr>)\<rparr>"
      using assms e by (auto simp: MQTT_Update_def request_Update_def request_IsFinished_def)
    moreover have "\<exists>x. of_nat t' + (5000 :: u32) = of_nat x \<and> t' < x \<and> x < 2 ^ 32 \<and> x + g + c * attempt g \<le> d"
      using assms False w by (intro exI[of _ "t' + 5000"]) auto
    ultimately show ?thesis using assms by (simp add: pending_def SetResponseTime_def)
  next
    case False
    then have "q' = q" using assms e by (auto simp: MQTT_Update_def request_Update_def request_IsFinished_def)
    moreover have "\<exists>s. time_reset (mq_meter q) = of_nat s \<and> s \<le> t' \<and> t' \<le> s + 1000 \<and> s + 6000 + 2 * g + c * attempt g \<le> d"
      using assms \<open>\<not> 1000 < t' - s\<close> by (intro exI[of _ s]) auto
    ultimately show ?thesis using assms by (simp add: pending_def)
  qed
qed

lemma pending_wait:
  assumes "rq_state r = WAIT_CONFIRM" "rq_counter r = int (Suc c)" "q_current q = Some r" "mq_state q = MQTT_RUNNING"
    "time_response (mq_meter q) = of_nat e" "t < e" "e < 2 ^ 32" "e + g + c * attempt g \<le> d"
    "t' \<le> t + g" "t' + 5000 < 2 ^ 32"
    "MQTT_Update uid nul (of_nat t') answer (st, q) = Some (st', q')"
  shows "st' = MODEM_IDLE \<or> q_current q' = None \<or> pending g d t' q'"
proof (cases "e \<le> t'")
  case True
  then have f: "IsFinished (of_nat t') (mq_meter q)" using finished_nat[of t' e "mq_meter q"] assms by simp
  obtain r' st1 where d: "Dumper_Update r st = (r', st1)" by fastforce
  have "t' + c * attempt g \<le> d" using assms by simp
  from dumped[OF assms(3,4,2) this d] show ?thesis using assms f d
    by (auto simp: MQTT_Update_def request_Update_def request_IsFinished_def)
next
  case False
  then have f: "\<not> IsFinished (of_nat t') (mq_meter q)" using finished_nat[of t' e "mq_meter q"] assms by simp
  show ?thesis
  proof (cases "confirms answer (rq_body r)")
    case True
    then show ?thesis using assms f
      by (auto simp: MQTT_Update_def request_Update_def ProcessAnswer_def request_IsFinished_def split: option.splits if_splits)
  next
    case ans: False
    then have "q' = q" using assms f by (auto simp: MQTT_Update_def request_Update_def ProcessAnswer_def request_IsFinished_def)
    moreover have "\<exists>e. time_response (mq_meter q) = of_nat e \<and> t' < e \<and> e < 2 ^ 32 \<and> e + g + c * attempt g \<le> d"
      using assms False by (intro exI[of _ e]) auto
    ultimately show ?thesis using assms by (simp add: pending_def)
  qed
qed

lemma pending_step:
  assumes "pending g d t q" "MQTT_Update uid nul (of_nat t') answer (st, q) = Some (st', q')"
    "t \<le> t'" "t' \<le> t + g" "t' + 5000 < 2 ^ 32"
  shows "st' = MODEM_IDLE \<or> q_current q' = None \<or> pending g d t' q'"
proof -
  obtain r c where r: "q_current q = Some r" "mq_state q = MQTT_RUNNING" "rq_counter r = int (Suc c)"
    using assms(1) by (auto simp: pending_def)
  show ?thesis
  proof (cases "rq_state r")
    case REQ_IDLE
    then have "t + attempt g + c * attempt g \<le> d" using assms(1) r by (auto simp: pending_def)
    from pending_idle[OF REQ_IDLE r(3,1,2) this assms(4,2)] show ?thesis by simp
  next
    case NEED_SEND
    then obtain s where "time_reset (mq_meter q) = of_nat s" "s \<le> t" "t \<le> s + 1000" "s + 6000 + 2 * g + c * attempt g \<le> d"
      using assms(1) r by (auto simp: pending_def)
    from pending_need_send[OF NEED_SEND r(3,1,2) this assms(3,4,5,2)] show ?thesis by blast
  next
    case WAIT_CONFIRM
    then obtain e where "time_response (mq_meter q) = of_nat e" "t < e" "e < 2 ^ 32" "e + g + c * attempt g \<le> d"
      using assms(1) r by (auto simp: pending_def)
    from pending_wait[OF WAIT_CONFIRM r(3,1,2) this assms(4,5,2)] show ?thesis .
  next
    case FINISHED
    then show ?thesis using assms(1) r by (auto simp: pending_def)
  qed
qed

lemma pending_over:
  assumes "mqtt_ok uid q" "pending g d t q" "paced g t cs" "d < last (t # map fst cs)"
  shows "\<exists>n st' q'. mqtt_calls uid True (take n cs) (st, q) = Some (st', q') \<and> (st' = MODEM_IDLE \<or> q_current q' = None)"
  using assms
proof (induction cs arbitrary: t st q)
  case Nil
  then show ?case using pending_in_time by fastforce
next
  case (Cons call cs)
  obtain t' answer where call: "call = (t', answer)" by fastforce
  obtain st1 q1 where u: "MQTT_Update uid True (of_nat t') answer (st, q) = Some (st1, q1)" "mqtt_ok uid q1"
    using update_works[OF Cons.prems(1)] by metis
  show ?case
  proof (cases "st1 = MODEM_IDLE \<or> q_current q1 = None")
    case True
    then show ?thesis using u call by (intro exI[of _ 1]) simp
  next
    case False
    then have "pending g d t' q1" using pending_step[OF Cons.prems(2) u(1)] Cons.prems(3) call by auto
    then obtain n st' q' where "mqtt_calls uid True (take n cs) (st1, q1) = Some (st', q')" "st' = MODEM_IDLE \<or> q_current q' = None"
      using Cons.IH[OF u(2), of t' st1] Cons.prems(3,4) call by auto
    then show ?thesis using u call by (intro exI[of _ "Suc n"]) simp
  qed
qed

section \<open>Properties\<close>

text \<open>
  C16: the client keeps to the protocol. In every state that calls of \<^verbatim>\<open>MQTT::Update\<close>, resets and requests for the time lead to, also those that wait for
  room while \<^verbatim>\<open>Modem::Update\<close> goes on, a call of \<^verbatim>\<open>MQTT::Update\<close> returns: it neither waits for room from inside nor uses the null pointer
  \<^verbatim>\<open>current\<close>. What it sends is nothing, the command that announces a packet, or one whole packet of the current request, which a reader by the
  standard reads back; before the broker has confirmed the connection that packet is the connection request. The exception is a connection
  lost during a wait for room, until the next reset (\<open>time_request_outcome\<close>). Address 0 can be read.
\<close>

theorem mqtt_protocol:
  assumes "mqtt_run uid False q"
  shows "\<exists>st' q'. MQTT_Update uid True now answer (st, q) = Some (st', q') \<and>
     (mq_out q' = mq_out q \<or> mq_out q' = mq_out q @ With0D ''AT+CIPSEND'' \<or>
      (\<exists>b. mq_out q' = mq_out q @ request_Send b @ [0x1A] \<and> read_packet (request_Send b @ [0x1A]) = Some (b, [0x1A]) \<and>
         (b = connect_request uid \<or> mq_connected q)))"
proof -
  have ok: "mqtt_ok uid q" using run_ok[OF assms] by simp
  then obtain st' q' where u: "MQTT_Update uid True now answer (st, q) = Some (st', q')" using update_works by metis
  show ?thesis using update_sends[OF ok u] u read_back[OF device_body_fits] by (fastforce simp: sent_by_def)
qed

text \<open>The client after its first call, which makes the connection request.\<close>

definition connecting :: "u8 list \<Rightarrow> mqtt" where
  "connecting uid = mqtt_start\<lparr>q_current := Some (new_request (connect_request uid))\<rparr>"

lemma first_call: "MQTT_Update uid True now answer (st, mqtt_start) = Some (st, connecting uid)"
  by (simp add: MQTT_Update_def mqtt_start_def append_inside_room Queue_Get_def connecting_def)

theorem mqtt_protocol_witness:
  "\<exists>st' q'. MQTT_Update (replicate 12 7) True 10 ''>'' (HARDWARE_IS_OK, connecting (replicate 12 7)) = Some (st', q')"
proof -
  have "mqtt_run (replicate 12 7) False (connecting (replicate 12 7))"
    by (rule run_update[OF run_start first_call])
  from mqtt_protocol[OF this, of 10 "''>''" HARDWARE_IS_OK] show ?thesis by blast
qed

text \<open>
  C17: no request is waited for without end. If the calls come at most \<open>g\<close> ms apart, a request whose first attempt begins at
  \<open>t\<close> is confirmed, or the modem is reset, before \<open>5 \<cdot> (6000 + 3g)\<close> ms have passed, whatever the modem
  answers. The counter must not be within the last five seconds of its range, and address 0 can be read.
\<close>

theorem request_settled:
  assumes "mqtt_ok uid q" "mq_state q = MQTT_RUNNING" "q_current q = Some (new_request b)"
    "paced g t cs" "t + 5 * (6000 + 3 * g) < last (t # map fst cs)"
  shows "\<exists>n st' q'. mqtt_calls uid True (take n cs) (st, q) = Some (st', q') \<and> (st' = MODEM_IDLE \<or> q_current q' = None)"
proof (rule pending_over[OF assms(1) _ assms(4,5)])
  show "pending g (t + 5 * (6000 + 3 * g)) t q"
    using assms(2,3) unfolding pending_def by (intro exI[of _ "new_request b"] exI[of _ 4]) (simp add: attempt_def)
qed

theorem request_settled_witness:
  "\<exists>n st' q'. mqtt_calls [] True (take n [(20000, []), (40000, []), (60000, []), (80000, []), (100000, []), (120000, []), (140000, []), (160000, []),
      (180000, []), (200000, []), (220000, []), (240000, []), (260000, []), (280000, []), (300000, []), (320000, []), (340000, [])])
      (HARDWARE_IS_OK, (connecting [])\<lparr>mq_state := MQTT_RUNNING\<rparr>) = Some (st', q') \<and> (st' = MODEM_IDLE \<or> q_current q' = None)"
proof (rule request_settled[where g = 20000 and t = 0 and b = "connect_request []"])
  show "mqtt_ok [] ((connecting [])\<lparr>mq_state := MQTT_RUNNING\<rparr>)"
    by (simp add: mqtt_ok_def connecting_def mqtt_start_def)
qed (simp_all add: connecting_def)

end
