(* ===== verification/MqttResponse.thy ===== *)
theory MqttResponse
  imports Mqtt
begin

unbundle bit_operations_syntax

text \<open>
  The packets from the MQTT broker: \<^verbatim>\<open>sources/Device/src/Modem/MQTT/ResponseMQTT.cpp\<close> and the device's
  \<^verbatim>\<open>ProcessorBinaryData.cpp\<close>. \<open>None\<close> is an access outside an array or a stop of the
  program. The constructors copy the received bytes into a local array of 1024 cells and may read behind them; what the cells there hold is the argument \<open>junk\<close>.

  The functions \<^verbatim>\<open>ReadUint8\<close> and \<^verbatim>\<open>ReadUint16\<close> use the pointer \<^verbatim>\<open>len\<close> without checking it, and are called with
  \<^verbatim>\<open>nullptr\<close>, that is with the address 0. C++ gives this no meaning; what the chip does is the argument \<open>nul\<close>:
  whether the read and the write at address 0, in the flash, let the program continue. A \<open>len\<close> that is \<open>None\<close> is the null pointer.
\<close>

section \<open>Reading the buffer\<close>

record buffer_mqtt =
  bm_bytes :: "u8 list"
  bm_junk :: "nat \<Rightarrow> u8"
  bm_index :: nat

definition next_byte :: "buffer_mqtt \<Rightarrow> (u8 \<times> buffer_mqtt) option" where
  "next_byte b =
    (if bm_index b < 1024 then
       Some (if bm_index b < length (bm_bytes b) then bm_bytes b ! bm_index b else bm_junk b (bm_index b),
             b\<lparr>bm_index := bm_index b + 1\<rparr>)
     else None)"

text \<open>\<^verbatim>\<open>if (*len) *len = *len - k\<close>\<close>

definition len_minus :: "bool \<Rightarrow> int \<Rightarrow> int option \<Rightarrow> int option option" where
  "len_minus nul k len =
    (case len of
       None \<Rightarrow> if nul then Some None else None
     | Some n \<Rightarrow> Some (Some (if n \<noteq> 0 then n - k else n)))"

definition ReadUint8 :: "bool \<Rightarrow> int option \<Rightarrow> buffer_mqtt \<Rightarrow> (u8 \<times> int option \<times> buffer_mqtt) option" where
  "ReadUint8 nul len b =
    (case len_minus nul 1 len of
       None \<Rightarrow> None
     | Some len \<Rightarrow> (case next_byte b of None \<Rightarrow> None | Some (x, b) \<Rightarrow> Some (x, len, b)))"

text \<open>The cast to \<^verbatim>\<open>uint8\<close> is applied to the shifted value.\<close>

definition ReadUint16 :: "bool \<Rightarrow> int option \<Rightarrow> buffer_mqtt \<Rightarrow> (u16 \<times> int option \<times> buffer_mqtt) option" where
  "ReadUint16 nul len b =
    (case len_minus nul 2 len of
       None \<Rightarrow> None
     | Some len \<Rightarrow>
    (case next_byte b of
       None \<Rightarrow> None
     | Some (h, b) \<Rightarrow>
        (let hi_byte = ucast (ucast (push_bit 8 (ucast h :: u32)) :: u8) :: u16
          in (case next_byte b of
                None \<Rightarrow> None
              | Some (l, b) \<Rightarrow> Some (hi_byte OR ucast l, len, b)))))"

fun read_chars :: "nat \<Rightarrow> buffer_mqtt \<Rightarrow> (u8 list \<times> buffer_mqtt) option" where
  "read_chars 0 b = Some ([], b)"
| "read_chars (Suc n) b =
    (case next_byte b of
       None \<Rightarrow> None
     | Some (x, b) \<Rightarrow> (case read_chars n b of None \<Rightarrow> None | Some (xs, b) \<Rightarrow> Some (x # xs, b)))"

text \<open>\<open>room\<close> is the length of the array the string and its terminating zero go to.\<close>

definition ReadString :: "nat \<Rightarrow> int \<Rightarrow> int option \<Rightarrow> buffer_mqtt \<Rightarrow> (u8 list \<times> int option \<times> buffer_mqtt) option" where
  "ReadString room sz len b =
    (if nat sz < room then
       (case read_chars (nat sz) b of None \<Rightarrow> None | Some (xs, b) \<Rightarrow> Some (xs, map_option (\<lambda>n. n - sz) len, b))
     else None)"

definition ReadVarByte :: "int option \<Rightarrow> buffer_mqtt \<Rightarrow> (int \<times> int option \<times> buffer_mqtt) option" where
  "ReadVarByte len b =
    (case next_byte b of None \<Rightarrow> None | Some (x, b) \<Rightarrow> Some (uint x, map_option (\<lambda>n. n - 1) len, b))"

definition ReadControlPacketType :: "bool \<Rightarrow> int option \<Rightarrow> buffer_mqtt \<Rightarrow> (u8 \<times> int option \<times> buffer_mqtt) option" where
  "ReadControlPacketType nul len b = ReadUint8 nul len b"

text \<open>A property is its type and its length.\<close>

definition ReadProperty :: "bool \<Rightarrow> int option \<Rightarrow> buffer_mqtt \<Rightarrow> ((u8 \<times> u8) \<times> int option \<times> buffer_mqtt) option" where
  "ReadProperty nul len b =
    (case ReadUint8 nul len b of
       None \<Rightarrow> None
     | Some (length', len, b) \<Rightarrow>
         (case ReadUint8 nul len b of None \<Rightarrow> None | Some (type', len, b) \<Rightarrow> Some ((type', length'), len, b)))"

section \<open>Responses\<close>

abbreviation CONNACK :: u8 where "CONNACK \<equiv> 0x20"
abbreviation TYPE_PUBLISH8 :: u8 where "TYPE_PUBLISH8 \<equiv> 0x30"
abbreviation SUBACK :: u8 where "SUBACK \<equiv> 0x90"

record response =
  rs_unknown :: bool
  rs_valid :: bool
  rs_all_bytes :: int
  rs_type :: u8
  rs_reason :: u8

definition new_response :: response where
  "new_response = \<lparr>rs_unknown = False, rs_valid = False, rs_all_bytes = 0, rs_type = 0, rs_reason = 0xFF\<rparr>"

text \<open>The type byte and the length byte, which every constructor reads first.\<close>

definition read_header :: "bool \<Rightarrow> (nat \<Rightarrow> u8) \<Rightarrow> u8 list \<Rightarrow> (u8 \<times> int \<times> buffer_mqtt) option" where
  "read_header nul junk bytes =
    (case ReadControlPacketType nul None \<lparr>bm_bytes = bytes, bm_junk = junk, bm_index = 0\<rparr> of
       None \<Rightarrow> None
     | Some (type', _, b) \<Rightarrow>
         (case ReadVarByte None b of None \<Rightarrow> None | Some (rem_length, _, b) \<Rightarrow> Some (type', rem_length, b)))"

definition ResponceUNKNOWN :: "bool \<Rightarrow> (nat \<Rightarrow> u8) \<Rightarrow> u8 list \<Rightarrow> response option" where
  "ResponceUNKNOWN nul junk bytes =
    (case read_header nul junk bytes of
       None \<Rightarrow> None
     | Some (type', rem_length, b) \<Rightarrow>
         Some (new_response\<lparr>rs_type := type', rs_all_bytes := rem_length + 2, rs_valid := True, rs_unknown := True\<rparr>))"

lemma next_byte_simps: "next_byte b = Some (x, b') \<Longrightarrow> bm_index b < 1024 \<and> bm_index b' = Suc (bm_index b)"
  by (auto simp: next_byte_def split: if_splits)

lemma ReadProperty_moves:
  "ReadProperty nul len b = Some (p, len', b') \<Longrightarrow> bm_index b < bm_index b' \<and> bm_index b < 1024"
  by (auto simp: ReadProperty_def ReadUint8_def split: option.splits prod.splits dest!: next_byte_simps)

text \<open>\<open>n\<close> properties are stored already; the array has ten.\<close>

function properties_loop :: "bool \<Rightarrow> nat \<Rightarrow> int option \<Rightarrow> buffer_mqtt \<Rightarrow> (nat \<times> buffer_mqtt) option" where
  "properties_loop nul n rem_length b =
    (if rem_length = Some 0 then Some (n, b)
     else
       (case ReadProperty nul rem_length b of
          None \<Rightarrow> None
        | Some (prop, rem_length, b) \<Rightarrow> (if n < 10 then properties_loop nul (n + 1) rem_length b else None)))"
  by auto
termination
  by (relation "measure (\<lambda>(nul, n, rem_length, b). 1024 - bm_index b)") (auto dest!: ReadProperty_moves)

declare properties_loop.simps [simp del]

definition ResponseCONNECT :: "bool \<Rightarrow> (nat \<Rightarrow> u8) \<Rightarrow> u8 list \<Rightarrow> response option" where
  "ResponseCONNECT nul junk bytes =
    (case read_header nul junk bytes of
       None \<Rightarrow> None
     | Some (type', rem_length, b) \<Rightarrow>
         (let r = new_response\<lparr>rs_type := type', rs_all_bytes := rem_length + 2\<rparr>
           in if int (length bytes) \<ge> rs_all_bytes r then
                (case ReadUint8 nul (Some rem_length) b of
                   None \<Rightarrow> None
                 | Some (flags, rem_length, b) \<Rightarrow>
                (case ReadUint8 nul rem_length b of
                   None \<Rightarrow> None
                 | Some (reason, rem_length, b) \<Rightarrow>
                (case properties_loop nul 0 rem_length b of
                   None \<Rightarrow> None
                 | Some _ \<Rightarrow> Some (r\<lparr>rs_valid := True, rs_reason := reason\<rparr>))))
              else Some r))"

definition ResponseSUBSCRIBE :: "bool \<Rightarrow> (nat \<Rightarrow> u8) \<Rightarrow> u8 list \<Rightarrow> response option" where
  "ResponseSUBSCRIBE nul junk bytes =
    (case read_header nul junk bytes of
       None \<Rightarrow> None
     | Some (type', rem_length, b) \<Rightarrow>
         (let r = new_response\<lparr>rs_type := type', rs_all_bytes := rem_length + 2\<rparr>
           in if int (length bytes) \<ge> rs_all_bytes r then
                (case ReadUint16 nul None b of
                   None \<Rightarrow> None
                 | Some (pack_id, _, b) \<Rightarrow>
                (case ReadUint8 nul None b of
                   None \<Rightarrow> None
                 | Some (prop_length, _, b) \<Rightarrow>
                (case ReadUint8 nul None b of
                   None \<Rightarrow> None
                 | Some (reason, _, b) \<Rightarrow> Some (r\<lparr>rs_valid := True, rs_reason := reason\<rparr>))))
              else Some r))"

definition ResponsePUBLISH :: "bool \<Rightarrow> (nat \<Rightarrow> u8) \<Rightarrow> u8 list \<Rightarrow> response option" where
  "ResponsePUBLISH nul junk bytes =
    (case read_header nul junk bytes of
       None \<Rightarrow> None
     | Some (type', rem_length, b) \<Rightarrow>
         (let r = new_response\<lparr>rs_type := type', rs_all_bytes := rem_length + 2\<rparr>
           in if int (length bytes) \<ge> rs_all_bytes r then
                (case ReadUint16 nul (Some rem_length) b of
                   None \<Rightarrow> None
                 | Some (topic_length, rem_length, b) \<Rightarrow>
                (case ReadString 64 (uint topic_length) rem_length b of
                   None \<Rightarrow> None
                 | Some (name_topic, rem_length, b) \<Rightarrow>
                (case ReadUint8 nul rem_length b of
                   None \<Rightarrow> None
                 | Some (lenght_prop, rem_length, b) \<Rightarrow>
                (case ReadString 128 (the rem_length) rem_length b of
                   None \<Rightarrow> None
                 | Some (message, _, b) \<Rightarrow> Some (r\<lparr>rs_valid := True\<rparr>)))))
              else Some r))"

definition high_nibble :: "u8 \<Rightarrow> u8" where
  "high_nibble type' = type' AND 0xF0"

definition Create :: "bool \<Rightarrow> (nat \<Rightarrow> u8) \<Rightarrow> u8 list \<Rightarrow> response option" where
  "Create nul junk bytes =
    (if length bytes < 2 then Some new_response
     else
       (case read_header nul junk bytes of
          None \<Rightarrow> None
        | Some (type', rem_length, _) \<Rightarrow>
            (if int (length bytes) < rem_length + 2 then Some new_response
             else if high_nibble type' = CONNACK then ResponseCONNECT nul junk bytes
             else if high_nibble type' = TYPE_PUBLISH8 then ResponsePUBLISH nul junk bytes
             else if high_nibble type' = SUBACK then ResponseCONNECT nul junk bytes
             else ResponceUNKNOWN nul junk bytes)))"

text \<open>\<^verbatim>\<open>Run\<close>: whether the response is complete, its number of bytes, and the state after its effect.\<close>

definition response_Run ::
    "u8 list \<Rightarrow> bool \<Rightarrow> u32 \<Rightarrow> response \<Rightarrow> modem_state \<times> mqtt \<Rightarrow> (bool \<times> int \<times> modem_state \<times> mqtt) option" where
  "response_Run uid nul now r s =
    (let run = (\<lambda>effect. if rs_valid r
                  then map_option (\<lambda>s. (True, rs_all_bytes r, s)) effect else Some (False, 0, s))
      in (if high_nibble (rs_type r) = CONNACK then
            run (if rs_reason r = 0 then MQTT_Update uid nul now ''MQTT OK'' s else Some (Modem_Reset (fst s), snd s))
          else if high_nibble (rs_type r) = SUBACK then
            run (MQTT_Update uid nul now (if rs_reason r < 0x80 then ''SUBS OK'' else ''FALSE'') s)
          else if high_nibble (rs_type r) = TYPE_PUBLISH8 then
            run (MQTT_Update uid nul now ''PUBLISH OK'' s)
          else if rs_unknown r then run (Some s)
          else Some (False, 0, s)))"

section \<open>Binary data\<close>

definition PBD_Process :: "u8 list \<Rightarrow> bool \<Rightarrow> (nat \<Rightarrow> u8) \<Rightarrow> u32 \<Rightarrow> modem_state \<times> mqtt \<times> buffer \<Rightarrow> (modem_state \<times> mqtt \<times> buffer) option" where
  "PBD_Process uid nul junk now s =
    (let (st, q, buf) = s
      in (case Create nul junk (map of_char (buf_content buf)) of
            None \<Rightarrow> None
          | Some r \<Rightarrow>
         (case response_Run uid nul now r (st, q) of
            None \<Rightarrow> None
          | Some (done', removed_bytes, st, q) \<Rightarrow>
              (if done' then
                 (case buf_RemoveFirst (nat removed_bytes) buf of None \<Rightarrow> None | Some buf \<Rightarrow> Some (st, q, buf))
               else Some (st, q, buf)))))"

definition PBD_Append :: "u8 list \<Rightarrow> bool \<Rightarrow> (nat \<Rightarrow> u8) \<Rightarrow> u32 \<Rightarrow> u8 \<Rightarrow> modem_state \<times> mqtt \<times> buffer \<Rightarrow> (modem_state \<times> mqtt \<times> buffer) option" where
  "PBD_Append uid nul junk now byte s =
    (let (st, q, buf) = s;
         buf = snd (buf_Append 1024 (char_of (unat byte)) buf)
      in if buf_size buf \<noteq> 0 then PBD_Process uid nul junk now (st, q, buf) else Some (st, q, buf))"

section \<open>Whole packets\<close>

definition packet :: "u8 \<times> u8 list \<Rightarrow> u8 list" where
  "packet p = fst p # size8 (length (snd p)) # snd p"

text \<open>What the device is meant to do with a packet: the reason code of a CONNACK is its second byte.\<close>

definition handle :: "u8 list \<Rightarrow> bool \<Rightarrow> u32 \<Rightarrow> u8 \<times> u8 list \<Rightarrow> modem_state \<times> mqtt \<Rightarrow> (modem_state \<times> mqtt) option" where
  "handle uid nul now p s =
    (if high_nibble (fst p) = CONNACK then
       (if snd p ! 1 = 0 then MQTT_Update uid nul now ''MQTT OK'' s else Some (Modem_Reset (fst s), snd s))
     else if high_nibble (fst p) = SUBACK then MQTT_Update uid nul now (if snd p ! 1 < 0x80 then ''SUBS OK'' else ''FALSE'') s
     else if high_nibble (fst p) = TYPE_PUBLISH8 then MQTT_Update uid nul now ''PUBLISH OK'' s
     else Some s)"

text \<open>The packets that fit the arrays of the constructors.\<close>

definition packet_fits :: "u8 \<times> u8 list \<Rightarrow> bool" where
  "packet_fits p \<longleftrightarrow> length (snd p) < 256 \<and>
     (high_nibble (fst p) \<in> {CONNACK, SUBACK} \<longrightarrow> 2 \<le> length (snd p) \<and> length (snd p) \<le> 22) \<and>
     (high_nibble (fst p) = TYPE_PUBLISH8 \<longrightarrow> 2 \<le> length (snd p) \<and> unat (snd p ! 1) < 64 \<and>
        length (snd p) < unat (snd p ! 1) + 131)"

lemma read_header_packet:
  "read_header nul junk (t # n # bs) = (if nul then Some (t, uint n, \<lparr>bm_bytes = t # n # bs, bm_junk = junk, bm_index = 2\<rparr>) else None)"
  by (simp add: read_header_def ReadControlPacketType_def ReadUint8_def ReadVarByte_def next_byte_def len_minus_def)

lemma ReadProperty_step:
  assumes "0 < k" "bm_index b + 2 \<le> 1024"
  shows "\<exists>prop. ReadProperty nul (Some (int k)) b = Some (prop, Some (int (k - 2)), b\<lparr>bm_index := bm_index b + 2\<rparr>)"
  using assms by (cases "k = 1") (auto simp: ReadProperty_def ReadUint8_def len_minus_def next_byte_def of_nat_diff)

lemma properties_loop_count:
  assumes "bm_index b + 2 * ((k + 1) div 2) \<le> 1024" "n \<le> 10"
  shows "(properties_loop nul n (Some (int k)) b = None) = (20 < 2 * n + k)"
  using assms
proof (induction k arbitrary: n b rule: less_induct)
  case (less k)
  show ?case
  proof (cases "k = 0")
    case True
    then show ?thesis using less.prems by (subst properties_loop.simps) simp
  next
    case False
    then have room: "bm_index b + 2 \<le> 1024" using less.prems(1) by arith
    obtain pr where p: "ReadProperty nul (Some (int k)) b = Some (pr, Some (int (k - 2)), b\<lparr>bm_index := bm_index b + 2\<rparr>)"
      using ReadProperty_step[of k b nul] room False by auto
    have "properties_loop nul n (Some (int k)) b =
        (if n < 10 then properties_loop nul (n + 1) (Some (int (k - 2))) (b\<lparr>bm_index := bm_index b + 2\<rparr>) else None)"
      using False p by (subst properties_loop.simps) simp
    moreover have "bm_index b + 2 + 2 * ((k - 2 + 1) div 2) \<le> 1024" using less.prems(1) False by arith
    ultimately show ?thesis using less.IH[of "k - 2" "b\<lparr>bm_index := bm_index b + 2\<rparr>" "n + 1"] less.prems(2) False by auto
  qed
qed

lemma read_chars_ok: "bm_index b + n \<le> 1024 \<Longrightarrow> \<exists>xs. read_chars n b = Some (xs, b\<lparr>bm_index := bm_index b + n\<rparr>)"
proof (induction n arbitrary: b)
  case (Suc n)
  have "\<exists>xs. read_chars n (b\<lparr>bm_index := bm_index b + 1\<rparr>) = Some (xs, b\<lparr>bm_index := bm_index b + 1 + n\<rparr>)"
    using Suc.IH[of "b\<lparr>bm_index := bm_index b + 1\<rparr>"] Suc.prems by simp
  then show ?case using Suc.prems by (auto simp: next_byte_def)
qed simp

lemma ReadString_rest:
  "nat m < room \<Longrightarrow> bm_index b + nat m \<le> 1024 \<Longrightarrow> \<exists>xs b'. ReadString room m (Some m) b = Some (xs, Some 0, b')"
  using read_chars_ok[of b "nat m"] by (auto simp: ReadString_def)

lemma uint_size8: "n < 256 \<Longrightarrow> uint (size8 n) = int n"
  using unat_size8[of n] by (simp add: uint_nat)

lemma connect_response:
  assumes "2 \<le> length body" "length body < 256"
  shows "ResponseCONNECT True junk (packet (t, body)) =
     (if length body \<le> 22
      then Some (new_response\<lparr>rs_type := t, rs_all_bytes := int (length body) + 2, rs_valid := True, rs_reason := body ! 1\<rparr>)
      else None)"
proof -
  let ?b = "\<lparr>bm_bytes = packet (t, body), bm_junk = junk, bm_index = 2\<rparr>"
  have h: "read_header True junk (packet (t, body)) = Some (t, int (length body), ?b)"
    using assms(2) by (simp add: packet_def read_header_packet uint_size8)
  have r1: "ReadUint8 True (Some (int (length body))) ?b = Some (body ! 0, Some (int (length body - 1)), ?b\<lparr>bm_index := 3\<rparr>)"
    using assms(1) by (auto simp: ReadUint8_def len_minus_def next_byte_def packet_def of_nat_diff)
  have r2: "ReadUint8 True (Some (int (length body - 1))) (?b\<lparr>bm_index := 3\<rparr>) =
      Some (body ! 1, Some (int (length body - 2)), ?b\<lparr>bm_index := 4\<rparr>)"
    using assms(1) by (auto simp: ReadUint8_def len_minus_def next_byte_def packet_def of_nat_diff)
  have "(properties_loop True 0 (Some (int (length body - 2))) (?b\<lparr>bm_index := 4\<rparr>) = None) = (22 < length body)"
    using properties_loop_count[of "?b\<lparr>bm_index := 4\<rparr>" "length body - 2" 0 True] assms by auto
  then show ?thesis using h r1 r2 assms
    by (auto simp: ResponseCONNECT_def packet_def Let_def split: option.split)
qed

lemma topic_length_low: "ucast (ucast (push_bit 8 (ucast (h :: u8) :: u32)) :: u8) OR (ucast (l :: u8) :: u16) = ucast l"
  by (rule bit_word_eqI) (auto simp: bit_simps)

lemma publish_response:
  assumes "2 \<le> length body" "length body < 256" "unat (body ! 1) < 64" "length body < unat (body ! 1) + 131"
  shows "ResponsePUBLISH True junk (packet (t, body)) =
     Some (new_response\<lparr>rs_type := t, rs_all_bytes := int (length body) + 2, rs_valid := True\<rparr>)"
proof -
  let ?b = "\<lparr>bm_bytes = packet (t, body), bm_junk = junk, bm_index = 2\<rparr>"
  let ?n = "unat (body ! 1)"
  have h: "read_header True junk (packet (t, body)) = Some (t, int (length body), ?b)"
    using assms(2) by (simp add: packet_def read_header_packet uint_size8)
  have r1: "ReadUint16 True (Some (int (length body))) ?b = Some (ucast (body ! 1), Some (int (length body) - 2), ?b\<lparr>bm_index := 4\<rparr>)"
    using assms(1) by (cases body; cases "tl body") (auto simp: ReadUint16_def len_minus_def next_byte_def packet_def Let_def topic_length_low)
  have u: "uint (ucast (body ! 1) :: u16) = int ?n"
    by (simp add: uint_up_ucast is_up)
  obtain xs where r2: "ReadString 64 (uint (ucast (body ! 1) :: u16)) (Some (int (length body) - 2)) (?b\<lparr>bm_index := 4\<rparr>) =
      Some (xs, Some (int (length body) - 2 - int ?n), ?b\<lparr>bm_index := 4 + ?n\<rparr>)"
    using read_chars_ok[of "?b\<lparr>bm_index := 4\<rparr>" ?n] assms(3) unfolding u by (auto simp: ReadString_def)
  let ?m = "if length body = 2 + ?n then 0 else int (length body) - 3 - int ?n"
  have "(if int (length body) - 2 - int ?n \<noteq> 0 then int (length body) - 2 - int ?n - 1 else int (length body) - 2 - int ?n) = ?m"
    by (auto simp del: of_nat_unat)
  then obtain x where r3: "ReadUint8 True (Some (int (length body) - 2 - int ?n)) (?b\<lparr>bm_index := 4 + ?n\<rparr>) =
      Some (x, Some ?m, ?b\<lparr>bm_index := 5 + ?n\<rparr>)"
    using assms(3) by (simp add: ReadUint8_def len_minus_def next_byte_def del: of_nat_unat)
  have m: "?m < 128" using assms(4) by (simp del: of_nat_unat)
  then have "nat ?m < 128" "bm_index (?b\<lparr>bm_index := 5 + ?n\<rparr>) + nat ?m \<le> 1024" using assms(3) by simp_all
  then obtain ys b' where r4: "ReadString 128 ?m (Some ?m) (?b\<lparr>bm_index := 5 + ?n\<rparr>) = Some (ys, Some 0, b')"
    using ReadString_rest by blast
  have len: "length (packet (t, body)) = length body + 2" by (simp add: packet_def)
  show ?thesis
    unfolding ResponsePUBLISH_def h option.case prod.case Let_def
    by (simp only: r1 r2 r3 r4 len option.case prod.case option.sel) simp
qed

lemma unknown_response:
  assumes "length body < 256"
  shows "ResponceUNKNOWN True junk (packet (t, body)) =
     Some (new_response\<lparr>rs_type := t, rs_all_bytes := int (length body) + 2, rs_valid := True, rs_unknown := True\<rparr>)"
  using assms by (simp add: ResponceUNKNOWN_def packet_def read_header_packet uint_size8)

lemma create_part:
  assumes "u @ v = packet (t, body)" "v \<noteq> []" "length body < 256"
  shows "Create True junk u = Some new_response"
proof (cases "length u < 2")
  case False
  then obtain bs where u: "u = t # size8 (length body) # bs"
    using assms(1) by (cases u; cases "tl u") (auto simp: packet_def)
  then have "length bs < length body" using assms(1,2) by (auto simp: packet_def)
  then show ?thesis using u assms(3) by (simp add: Create_def read_header_packet uint_size8)
qed (simp add: Create_def)

lemma create_packet:
  assumes "length body < 256"
  shows "Create True junk (packet (t, body)) =
     (if high_nibble t = CONNACK then ResponseCONNECT True junk (packet (t, body))
      else if high_nibble t = TYPE_PUBLISH8 then ResponsePUBLISH True junk (packet (t, body))
      else if high_nibble t = SUBACK then ResponseCONNECT True junk (packet (t, body))
      else ResponceUNKNOWN True junk (packet (t, body)))"
proof -
  have "read_header True junk (packet (t, body)) = Some (t, int (length body), \<lparr>bm_bytes = packet (t, body), bm_junk = junk, bm_index = 2\<rparr>)"
    using assms by (simp add: packet_def read_header_packet uint_size8)
  moreover have "length (packet (t, body)) = length body + 2" by (simp add: packet_def)
  ultimately show ?thesis by (simp add: Create_def)
qed

lemma run_packet:
  assumes "packet_fits (t, body)"
  shows "\<exists>r. Create True junk (packet (t, body)) = Some r \<and>
     response_Run uid True now r s = map_option (\<lambda>s. (True, int (length body) + 2, s)) (handle uid True now (t, body) s)"
proof -
  have len: "length body < 256" using assms by (simp add: packet_fits_def)
  consider (con) "high_nibble t = CONNACK \<or> high_nibble t = SUBACK" | (pub) "high_nibble t = TYPE_PUBLISH8"
    | (other) "high_nibble t \<noteq> CONNACK" "high_nibble t \<noteq> SUBACK" "high_nibble t \<noteq> TYPE_PUBLISH8" by blast
  then show ?thesis
  proof cases
    case con
    then have "2 \<le> length body" "length body \<le> 22" using assms by (auto simp: packet_fits_def)
    then show ?thesis using con connect_response[of body junk t] create_packet[OF len, of junk t]
      by (auto simp: response_Run_def handle_def Let_def)
  next
    case pub
    then have "2 \<le> length body" "unat (body ! 1) < 64" "length body < unat (body ! 1) + 131" using assms by (auto simp: packet_fits_def)
    then show ?thesis using pub len publish_response[of body junk t] create_packet[OF len, of junk t]
      by (auto simp: response_Run_def handle_def Let_def)
  next
    case other
    then show ?thesis using len unknown_response[of body junk t] create_packet[OF len, of junk t]
      by (auto simp: response_Run_def handle_def Let_def)
  qed
qed

text \<open>One byte.\<close>

lemma run_new_response: "response_Run uid nul now new_response s = Some (False, 0, s)"
  by (simp add: response_Run_def new_response_def high_nibble_def)

lemma byte_char: "of_char (char_of (unat (x :: u8))) = x"
proof -
  have "unat x < 256" using unsigned_less[of x] by simp
  then have "(of_char (char_of (unat x)) :: nat) = unat x" by simp
  then show ?thesis unfolding of_char_nat by simp
qed

definition bytes_in :: "buffer \<Rightarrow> u8 list" where
  "bytes_in b = map of_char (buf_content b)"

lemma append_byte:
  assumes "buf_ok 1024 b" "length (bytes_in b) < 1024"
  shows "\<exists>b'. snd (buf_Append 1024 (char_of (unat x)) b) = b' \<and> buf_ok 1024 b' \<and> bytes_in b' = bytes_in b @ [x] \<and> buf_size b' \<noteq> 0"
proof -
  have "length (buf_content b) < 1024" using assms(2) by (simp add: bytes_in_def)
  then obtain b' where b': "buf_Append 1024 (char_of (unat x)) b = (True, b')" "buf_ok 1024 b'"
      "buf_content b' = buf_content b @ [char_of (unat x)]"
    using buf.append_room[OF assms(1)] by blast
  have "buf_size b' \<noteq> 0" using b'(3) by (cases "buf_size b' = 0") (simp_all add: buf_content_def)
  then show ?thesis using b' by (auto simp: bytes_in_def byte_char)
qed

lemma packet_length: "length (snd p) < 256 \<Longrightarrow> length (packet p) < 258"
  by (simp add: packet_def)

lemma append_part:
  assumes "buf_ok 1024 b" "length (snd p) < 256" "bytes_in b @ x # v = packet p" "v \<noteq> []"
  shows "\<exists>b'. PBD_Append uid True junk now x (st, q, b) = Some (st, q, b') \<and> buf_ok 1024 b' \<and> bytes_in b' = bytes_in b @ [x]"
proof -
  have "length (bytes_in b @ x # v) < 258" unfolding assms(3) by (rule packet_length[OF assms(2)])
  then obtain b' where b': "snd (buf_Append 1024 (char_of (unat x)) b) = b'" "buf_ok 1024 b'" "bytes_in b' = bytes_in b @ [x]"
      "buf_size b' \<noteq> 0"
    using append_byte[OF assms(1), of x] by auto
  have "Create True junk (bytes_in b @ [x]) = Some new_response"
    using create_part[of "bytes_in b @ [x]" v "fst p" "snd p"] assms(2-4) by simp
  then have "PBD_Append uid True junk now x (st, q, b) = Some (st, q, b')"
    using b' by (simp add: PBD_Append_def PBD_Process_def bytes_in_def run_new_response)
  then show ?thesis using b' by blast
qed

lemma append_parts:
  assumes "buf_ok 1024 b" "length (snd p) < 256" "bytes_in b @ w @ v = packet p" "v \<noteq> []"
  shows "\<exists>b'. each (PBD_Append uid True junk now) w (st, q, b) = Some (st, q, b') \<and> buf_ok 1024 b' \<and> bytes_in b' = bytes_in b @ w"
  using assms
proof (induction w arbitrary: b)
  case (Cons x w)
  then obtain b1 where b1: "PBD_Append uid True junk now x (st, q, b) = Some (st, q, b1)" "buf_ok 1024 b1" "bytes_in b1 = bytes_in b @ [x]"
    using append_part[OF Cons.prems(1,2), of x "w @ v" uid junk now st q] by auto
  then show ?case using Cons.IH[OF b1(2) Cons.prems(2)] Cons.prems(3,4) by simp
qed simp

lemma append_last:
  assumes "buf_ok 1024 b" "packet_fits p" "bytes_in b @ [x] = packet p"
  shows "\<exists>b'. PBD_Append uid True junk now x (st, q, b) = map_option (\<lambda>(st, q). (st, q, b')) (handle uid True now p (st, q)) \<and>
     buf_ok 1024 b' \<and> bytes_in b' = []"
proof -
  have len: "length (bytes_in b @ [x]) < 258" unfolding assms(3) using assms(2) by (intro packet_length) (simp add: packet_fits_def)
  then obtain b1 where b1: "snd (buf_Append 1024 (char_of (unat x)) b) = b1" "buf_ok 1024 b1" "bytes_in b1 = bytes_in b @ [x]"
      "buf_size b1 \<noteq> 0"
    using append_byte[OF assms(1), of x] by auto
  obtain r where r: "Create True junk (bytes_in b @ [x]) = Some r"
      "response_Run uid True now r (st, q) = map_option (\<lambda>s. (True, int (length (snd p)) + 2, s)) (handle uid True now p (st, q))"
    using run_packet[of "fst p" "snd p" junk uid now "(st, q)"] assms(2,3) by auto
  have "length (buf_content b1) = length (snd p) + 2"
    using arg_cong[OF b1(3), of length] arg_cong[OF assms(3), of length] by (simp add: bytes_in_def packet_def)
  then obtain b2 where b2: "buf_RemoveFirst (length (snd p) + 2) b1 = Some b2" "buf_ok 1024 b2" "buf_content b2 = []"
    using buf.remove_ok[OF b1(2), of "length (snd p) + 2"] by auto
  have "nat (int (length (snd p)) + 2) = length (snd p) + 2" by simp
  then have "PBD_Append uid True junk now x (st, q, b) = map_option (\<lambda>(st, q). (st, q, b2)) (handle uid True now p (st, q))"
    using b1 r b2(1) by (auto simp: PBD_Append_def PBD_Process_def bytes_in_def split: option.split)
  then show ?thesis using b2 by (auto simp: bytes_in_def)
qed

lemma append_packet:
  assumes "buf_ok 1024 b" "packet_fits p" "bytes_in b = []"
  shows "\<exists>b'. each (PBD_Append uid True junk now) (packet p) (st, q, b) = map_option (\<lambda>(st, q). (st, q, b')) (handle uid True now p (st, q)) \<and>
     buf_ok 1024 b' \<and> bytes_in b' = []"
proof -
  obtain w x where w: "packet p = w @ [x]" by (cases "packet p" rule: rev_cases) (simp_all add: packet_def)
  obtain b1 where b1: "each (PBD_Append uid True junk now) w (st, q, b) = Some (st, q, b1)" "buf_ok 1024 b1" "bytes_in b1 = w"
    using append_parts[OF assms(1), of p w "[x]" uid junk now st q] assms(2,3) w by (auto simp: packet_fits_def)
  obtain b2 where b2: "PBD_Append uid True junk now x (st, q, b1) = map_option (\<lambda>(st, q). (st, q, b2)) (handle uid True now p (st, q))"
      "buf_ok 1024 b2" "bytes_in b2 = []"
    using append_last[OF b1(2) assms(2), of x uid junk now st q] b1(3) w by auto
  then show ?thesis using b1(1) w by (auto simp: each_append split: option.splits)
qed

lemma append_packets:
  assumes "buf_ok 1024 b" "bytes_in b = []" "list_all packet_fits ps"
  shows "\<exists>b'. each (PBD_Append uid True junk now) (concat (map packet ps)) (st, q, b) =
       map_option (\<lambda>(st, q). (st, q, b')) (each (handle uid True now) ps (st, q)) \<and> buf_ok 1024 b' \<and> bytes_in b' = []"
  using assms
proof (induction ps arbitrary: b st q)
  case (Cons p ps)
  obtain b1 where b1: "each (PBD_Append uid True junk now) (packet p) (st, q, b) = map_option (\<lambda>(st, q). (st, q, b1)) (handle uid True now p (st, q))"
      "buf_ok 1024 b1" "bytes_in b1 = []"
    using append_packet[OF Cons.prems(1), of p uid junk now st q] Cons.prems(2,3) by auto
  show ?case
  proof (cases "handle uid True now p (st, q)")
    case None
    then show ?thesis using b1 by (auto simp: each_append)
  next
    case (Some s)
    then show ?thesis using Cons.IH[OF b1(2,3), of "fst s" "snd s"] Cons.prems(3) b1(1) by (cases s) (auto simp: each_append)
  qed
qed auto

section \<open>Properties\<close>

definition empty_pbd :: buffer where
  "empty_pbd = \<lparr>buf_size = 0, buf_data = replicate 1024 (CHR 0x00)\<rparr>"

lemma empty_pbd: "buf_ok 1024 empty_pbd" "bytes_in empty_pbd = []"
  by (simp_all add: empty_pbd_def buf_ok_def bytes_in_def buf_content_def)

text \<open>
  C19: the packets of the broker are taken apart as they come. Any sequence of packets that fit the arrays of the constructors, given byte by byte
  to \<^verbatim>\<open>PBD::AppendByte\<close>, has exactly the effects of the packets, each once and in order, and leaves the
  buffer empty. This is on the condition that the accesses at address 0 pass; if they stop the program, the second byte does.
\<close>

theorem packets_in_order:
  assumes "buf_ok 1024 b" "bytes_in b = []"
  shows "(list_all packet_fits ps \<longrightarrow>
      (\<exists>b'. each (PBD_Append uid True junk now) (concat (map packet ps)) (st, q, b) =
         map_option (\<lambda>(st, q). (st, q, b')) (each (handle uid True now) ps (st, q)) \<and> buf_ok 1024 b' \<and> bytes_in b' = [])) \<and>
     each (PBD_Append uid False junk now) [x, y] (st, q, b) = None"
proof (intro conjI impI)
  assume "list_all packet_fits ps"
  from append_packets[OF assms this]
  show "\<exists>b'. each (PBD_Append uid True junk now) (concat (map packet ps)) (st, q, b) =
         map_option (\<lambda>(st, q). (st, q, b')) (each (handle uid True now) ps (st, q)) \<and> buf_ok 1024 b' \<and> bytes_in b' = []" .
next
  obtain b1 where b1: "snd (buf_Append 1024 (char_of (unat x)) b) = b1" "buf_ok 1024 b1" "bytes_in b1 = [x]" "buf_size b1 \<noteq> 0"
    using append_byte[OF assms(1), of x] assms(2) by auto
  obtain b2 where b2: "snd (buf_Append 1024 (char_of (unat y)) b1) = b2" "bytes_in b2 = [x, y]" "buf_size b2 \<noteq> 0"
    using append_byte[OF b1(2), of y] b1(3) by auto
  have "PBD_Append uid False junk now x (st, q, b) = Some (st, q, b1)"
    using b1 by (simp add: PBD_Append_def PBD_Process_def Create_def run_new_response flip: bytes_in_def)
  moreover have "PBD_Append uid False junk now y (st, q, b1) = None"
    using b2 by (simp add: PBD_Append_def PBD_Process_def Create_def read_header_packet flip: bytes_in_def)
  ultimately show "each (PBD_Append uid False junk now) [x, y] (st, q, b) = None" by simp
qed

theorem packets_in_order_witness:
  "\<exists>b'. each (PBD_Append [] True (\<lambda>_. 0) 5) [0x20, 2, 0, 0, 0xD0, 0] (HARDWARE_IS_OK, mqtt_start, empty_pbd) =
     Some (HARDWARE_IS_OK, connecting [], b')"
proof -
  let ?ps = "[(0x20, [0, 0]), (0xD0, [])] :: (u8 \<times> u8 list) list"
  have "list_all packet_fits ?ps" by (simp add: packet_fits_def high_nibble_def)
  moreover have "each (handle [] True 5) ?ps (HARDWARE_IS_OK, mqtt_start) = Some (HARDWARE_IS_OK, connecting [])"
    by (simp add: handle_def high_nibble_def first_call)
  ultimately show ?thesis
    using packets_in_order[OF empty_pbd, of ?ps "[]" "\<lambda>_. 0" 5 HARDWARE_IS_OK mqtt_start]
    by (auto simp: packet_def size8_def)
qed

text \<open>
  C20: two ways in which the broker's answers are not taken for what they are. A SUBACK is read as if it were a CONNACK, so the byte taken for
  its reason code is the low byte of the packet identifier, which is 1: a refused subscription counts as accepted
  whatever its code. And a CONNACK of more than 22 bytes makes the constructor write behind its array of ten properties.
\<close>

theorem responses_misread:
  assumes "buf_ok 1024 b" "bytes_in b = []"
  shows "(\<exists>b'. each (PBD_Append uid True junk now) [0x90, 4, 0, 1, 0, code] (st, q, b) =
         map_option (\<lambda>(st, q). (st, q, b')) (MQTT_Update uid True now ''SUBS OK'' (st, q))) \<and>
     (22 < length body \<and> length body < 256 \<longrightarrow> each (PBD_Append uid True junk now) (packet (0x20, body)) (st, q, b) = None)"
proof (intro conjI impI)
  have "packet_fits (0x90, [0, 1, 0, code])" by (simp add: packet_fits_def high_nibble_def)
  moreover have "packet (0x90, [0, 1, 0, code]) = [0x90, 4, 0, 1, 0, code]" by (simp add: packet_def size8_def)
  moreover have "handle uid True now (0x90, [0, 1, 0, code]) (st, q) = MQTT_Update uid True now ''SUBS OK'' (st, q)"
    by (simp add: handle_def high_nibble_def)
  ultimately show "\<exists>b'. each (PBD_Append uid True junk now) [0x90, 4, 0, 1, 0, code] (st, q, b) =
         map_option (\<lambda>(st, q). (st, q, b')) (MQTT_Update uid True now ''SUBS OK'' (st, q))"
    using append_packet[OF assms(1), of "(0x90, [0, 1, 0, code])" uid junk now st q] assms(2) by auto
next
  assume len: "22 < length body \<and> length body < 256"
  show "each (PBD_Append uid True junk now) (packet (0x20, body)) (st, q, b) = None"
  proof -
    let ?p = "(0x20, body) :: u8 \<times> u8 list"
    obtain w x where w: "packet ?p = w @ [x]" by (cases "packet ?p" rule: rev_cases) (simp_all add: packet_def)
    obtain b1 where b1: "each (PBD_Append uid True junk now) w (st, q, b) = Some (st, q, b1)" "buf_ok 1024 b1" "bytes_in b1 = w"
      using append_parts[OF assms(1), of ?p w "[x]" uid junk now st q] assms(2) w len by auto
    have "length w < 1024" using packet_length[of ?p] w len by simp
    then obtain b2 where b2: "snd (buf_Append 1024 (char_of (unat x)) b1) = b2" "bytes_in b2 = w @ [x]" "buf_size b2 \<noteq> 0"
      using append_byte[OF b1(2), of x] b1(3) by auto
    have "Create True junk (w @ [x]) = None"
      using create_packet[of body junk "0x20"] connect_response[of body junk "0x20"] len w by (simp add: high_nibble_def)
    then have "PBD_Append uid True junk now x (st, q, b1) = None"
      using b2 by (simp add: PBD_Append_def PBD_Process_def flip: bytes_in_def)
    then show ?thesis using b1(1) w by (simp add: each_append)
  qed
qed

theorem responses_misread_witness:
  "(\<exists>s. each (PBD_Append [] True (\<lambda>_. 0) 5) [0x90, 4, 0, 1, 0, 0x87] (HARDWARE_IS_OK, mqtt_start, empty_pbd) = Some s) \<and>
   each (PBD_Append [] True (\<lambda>_. 0) 5) (packet (0x20, replicate 23 0)) (HARDWARE_IS_OK, mqtt_start, empty_pbd) = None"
  using responses_misread[OF empty_pbd, of "[]" "\<lambda>_. 0" 5 "0x87" HARDWARE_IS_OK mqtt_start "replicate 23 0"]
  by (auto simp: first_call simp del: each.simps)

end
