(* ===== verification/DeviceMain.thy ===== *)
theory DeviceMain
  imports MqttResponse Parser
begin

unbundle bit_operations_syntax

text \<open>
  The application: \<^verbatim>\<open>sources/Device/src/Modem/SIM868.cpp\<close> and the main loop of \<^verbatim>\<open>sources/Device/src/Device.cpp\<close>, as a client of
  the modem. The static variables of \<^verbatim>\<open>SIM868.cpp\<close>, \<^verbatim>\<open>Storage.cpp\<close> (the coordinates), \<^verbatim>\<open>ProcessorBinaryData.cpp\<close> and \<^verbatim>\<open>Device.cpp\<close> are the record
  \<open>device\<close>, with the client of the broker inside. A coordinate is the text that is given to \<^verbatim>\<open>atof\<close>, or
  \<open>None\<close> for the default 0. The result \<open>None\<close> of an operation is a store outside an array, as before. The display is left out.
\<close>

section \<open>SIM868\<close>

datatype dsim_state = D_START | D_WAIT_ATE0 | D_WAIT_BAUDRADE | D_WAIT_GSMBUSY | D_WAIT_CREG_INIT | D_WAIT_REGISTRATION
  | D_WAIT_IP_INITIAL | D_WAIT_CSTT | D_WAIT_IP_START | D_WAIT_CIICR | D_WAIT_IP_GPRSACT | D_WAIT_CIFSR | D_WAIT_IP_STATUS
  | D_WAIT_TCP_CONNECT | D_WAIT_CIPHEAD | D_WAIT_CGNSPWR | D_WAIT_CGNSURC | D_RUNNING_MQTT

record device =
  d_sim :: dsim_state
  d_need_reset :: bool
  d_state_meter :: time_meter
  d_meterCSQ :: time_meter
  d_signal :: string
  d_latitude :: "string option"
  d_longitude :: "string option"
  d_mqtt :: mqtt
  d_pbd :: buffer
  d_meter :: time_meter

definition send0D :: "string \<Rightarrow> device \<Rightarrow> device" where
  "send0D message d = d\<lparr>d_mqtt := (d_mqtt d)\<lparr>mq_out := mq_out (d_mqtt d) @ With0D message\<rparr>\<rparr>"

definition dsim_Set :: "u32 \<Rightarrow> dsim_state \<Rightarrow> device \<Rightarrow> device" where
  "dsim_Set now st d = d\<lparr>d_state_meter := meter_Reset now (d_state_meter d), d_sim := st\<rparr>"

definition device_MeterIsRunning :: "u32 \<Rightarrow> u32 \<Rightarrow> modem_state \<times> device \<Rightarrow> bool \<times> modem_state \<times> device" where
  "device_MeterIsRunning now time s =
    (if ElapsedTime now (d_state_meter (snd s)) \<le> time then (True, s) else (False, Modem_Reset (fst s), snd s))"

text \<open>\<^verbatim>\<open>SymbolsToFloat\<close> up to the call of \<^verbatim>\<open>atof\<close>: the text copied into an array of 32 characters.\<close>

definition SymbolsToFloat :: "string \<Rightarrow> int \<Rightarrow> int \<Rightarrow> string option" where
  "SymbolsToFloat s pos_start pos_end =
    (if nat (pos_end - pos_start) < 32 then Some (map (\<lambda>i. at s (nat i)) [pos_start..pos_end - 1]) else None)"

definition SetCoordinates :: "string option \<Rightarrow> string option \<Rightarrow> device \<Rightarrow> device" where
  "SetCoordinates latitude longitude d = d\<lparr>d_latitude := latitude, d_longitude := longitude\<rparr>"

text \<open>One coordinate of a \<^verbatim>\<open>+UGNSINF\<close> line, between two commas; the outer \<open>None\<close> is a store outside the array.\<close>

definition coordinate :: "string \<Rightarrow> int \<Rightarrow> string option option" where
  "coordinate answer n =
    (let position1 = PositionSymbol answer (CHR '','') n + 1;
         position2 = PositionSymbol answer (CHR '','') (n + 1)
      in if position2 - position1 > 1 then map_option Some (SymbolsToFloat answer position1 position2) else Some None)"

definition device_ProcessUnsolicited :: "string \<Rightarrow> modem_state \<times> device \<Rightarrow> (bool \<times> modem_state \<times> device) option" where
  "device_ProcessUnsolicited answer s =
    (if answer = [] then Some (False, s)
     else
       (case GetWord answer 1 of
          None \<Rightarrow> None
        | Some first_word \<Rightarrow>
            (if answer = ''ERROR'' then Some (True, s)
             else if answer = ''CLOSED'' then Some (True, Modem_Reset (fst s), snd s)
             else if answer = ''SEND FAIL'' then Some (True, Modem_Reset (fst s), snd s)
             else if first_word = ''+CSQ'' then
               (case GetWord answer 2 of
                  None \<Rightarrow> None
                | Some w \<Rightarrow> (if length w < 16 then Some (True, fst s, (snd s)\<lparr>d_signal := w\<rparr>) else None))
             else if first_word = ''+UGNSINF'' then
               (if NumberSymbols answer (CHR '','') > 4 then
                  (case coordinate answer 3 of
                     None \<Rightarrow> None
                   | Some latitude \<Rightarrow>
                       (case coordinate answer 4 of
                          None \<Rightarrow> None
                        | Some longitude \<Rightarrow> Some (False, fst s, SetCoordinates latitude longitude (snd s))))
                else Some (False, s))
             else if answer = ''SEND OK'' then Some (True, s)
             else Some (False, s))))"

definition device_SIM868_Reset :: "device \<Rightarrow> device" where
  "device_SIM868_Reset d = d\<lparr>d_sim := D_START\<rparr>"

text \<open>A case that waits for the answer \<open>expected\<close> and then takes the next state and sends a command.\<close>

definition dsim_on :: "u32 \<Rightarrow> u32 \<Rightarrow> bool \<Rightarrow> dsim_state \<Rightarrow> string \<Rightarrow> modem_state \<times> device \<Rightarrow> modem_state \<times> device" where
  "dsim_on now time expected st command s =
    (let (running, s) = device_MeterIsRunning now time s
      in if running then (if expected then (fst s, send0D command (dsim_Set now st (snd s))) else s) else s)"

text \<open>The same where the answer is recognised by its \<open>n\<close>-th word.\<close>

definition dsim_on_word ::
    "u32 \<Rightarrow> string \<Rightarrow> int \<Rightarrow> (string \<Rightarrow> bool) \<Rightarrow> dsim_state \<Rightarrow> string \<Rightarrow> modem_state \<times> device \<Rightarrow> (modem_state \<times> device) option" where
  "dsim_on_word now answer n expected st command s =
    (let (running, s) = device_MeterIsRunning now 10000 s
      in if running then
           (case GetWord answer n of
              None \<Rightarrow> None
            | Some w \<Rightarrow> Some (if expected w then (fst s, send0D command (dsim_Set now st (snd s))) else s))
         else Some s)"

definition dsim_registration :: "u32 \<Rightarrow> string \<Rightarrow> modem_state \<times> device \<Rightarrow> (modem_state \<times> device) option" where
  "dsim_registration now answer s =
    (let (running, s) = device_MeterIsRunning now 60000 s
      in if running then
           (case GetWord answer 1 of
              None \<Rightarrow> None
            | Some w \<Rightarrow>
                (if w = ''+CREG'' then
                   (case GetWord answer 2 of
                      None \<Rightarrow> None
                    | Some w \<Rightarrow>
                        (let stat = (of_char (at w 0) :: u8) AND 0x0F
                          in Some (if stat = 1 \<or> stat = 5
                                   then (fst s, send0D ''AT+CIPSTATUS'' (dsim_Set now D_WAIT_IP_INITIAL (snd s))) else s)))
                 else Some s))
         else Some s)"

definition dsim_tcp_connect :: "u32 \<Rightarrow> string \<Rightarrow> modem_state \<times> device \<Rightarrow> (modem_state \<times> device) option" where
  "dsim_tcp_connect now answer s =
    (let (running, s) = device_MeterIsRunning now 160000 s;
         connected = (fst s, send0D ''AT+CIPHEAD=1'' (dsim_Set now D_WAIT_CIPHEAD (snd s)))
      in if running then
           (case GetWord answer 1 of
              None \<Rightarrow> None
            | Some w \<Rightarrow>
                (if w = ''ALREADY'' then Some connected
                 else
                   (case GetWord answer 2 of
                      None \<Rightarrow> None
                    | Some w \<Rightarrow>
                        Some (if w = ''OK'' then connected
                              else if w = ''FAIL'' then (Modem_Reset (fst s), snd s)
                              else s))))
         else Some s)"

definition dsim_running :: "u8 list \<Rightarrow> bool \<Rightarrow> u32 \<Rightarrow> string \<Rightarrow> modem_state \<times> device \<Rightarrow> (modem_state \<times> device) option" where
  "dsim_running uid nul now answer s =
    (case MQTT_Update uid nul now answer (fst s, d_mqtt (snd s)) of
       None \<Rightarrow> None
     | Some (st, q) \<Rightarrow>
         (let d = (snd s)\<lparr>d_mqtt := q\<rparr>
           in Some (st, if ElapsedTime now (d_meterCSQ d) > 5000
                        then send0D ''AT+CSQ'' (d\<lparr>d_meterCSQ := meter_Reset now (d_meterCSQ d)\<rparr>) else d)))"

definition dsim_switch :: "u8 list \<Rightarrow> bool \<Rightarrow> u32 \<Rightarrow> string \<Rightarrow> modem_state \<times> device \<Rightarrow> (modem_state \<times> device) option" where
  "dsim_switch uid nul now answer s =
    (case d_sim (snd s) of
      D_START \<Rightarrow> Some (fst s, (dsim_Set now D_WAIT_ATE0 (send0D ''ATE0'' (snd s)))\<lparr>d_signal := ''0''\<rparr>)
    | D_WAIT_ATE0 \<Rightarrow> Some (dsim_on now 10000 (answer = ''OK'') D_WAIT_BAUDRADE ''AT+IPR=115200'' s)
    | D_WAIT_BAUDRADE \<Rightarrow> Some (dsim_on now 10000 (answer = ''RDY'') D_WAIT_GSMBUSY ''AT+GSMBUSY=1'' s)
    | D_WAIT_GSMBUSY \<Rightarrow> Some (dsim_on now 10000 (answer = ''OK'') D_WAIT_CREG_INIT ''AT+CREG=1'' s)
    | D_WAIT_CREG_INIT \<Rightarrow>
        (let (running, s) = device_MeterIsRunning now 10000 s
          in Some (if running \<and> answer = ''OK'' then (fst s, dsim_Set now D_WAIT_REGISTRATION (snd s)) else s))
    | D_WAIT_REGISTRATION \<Rightarrow> dsim_registration now answer s
    | D_WAIT_IP_INITIAL \<Rightarrow>
        dsim_on_word now answer 3 (\<lambda>w. w = ''INITIAL'') D_WAIT_CSTT
          (''AT+CSTT='' @ json_str ''internet'' @ '','' @ json_str [] @ '','' @ json_str []) s
    | D_WAIT_CSTT \<Rightarrow> dsim_on_word now answer 1 (\<lambda>w. w = ''OK'') D_WAIT_IP_START ''AT+CIPSTATUS'' s
    | D_WAIT_IP_START \<Rightarrow> dsim_on_word now answer 3 (\<lambda>w. w = ''START'') D_WAIT_CIICR ''AT+CIICR'' s
    | D_WAIT_CIICR \<Rightarrow> dsim_on_word now answer 1 (\<lambda>w. w = ''OK'') D_WAIT_IP_GPRSACT ''AT+CIPSTATUS'' s
    | D_WAIT_IP_GPRSACT \<Rightarrow> dsim_on_word now answer 3 (\<lambda>w. w = ''GPRSACT'') D_WAIT_CIFSR ''AT+CIFSR'' s
    | D_WAIT_CIFSR \<Rightarrow> dsim_on_word now answer 1 (\<lambda>w. w \<noteq> ''OK'') D_WAIT_IP_STATUS ''AT+CIPSTATUS'' s
    | D_WAIT_IP_STATUS \<Rightarrow>
        dsim_on_word now answer 3 (\<lambda>w. w = ''STATUS'') D_WAIT_TCP_CONNECT
          (''AT+CIPSTART='' @ json_str ''TCP'' @ '','' @ json_str ''85.143.167.242'' @ '','' @ json_str ''1883'') s
    | D_WAIT_TCP_CONNECT \<Rightarrow> dsim_tcp_connect now answer s
    | D_WAIT_CIPHEAD \<Rightarrow> Some (dsim_on now 10000 (answer = ''OK'') D_RUNNING_MQTT ''AT+CGNSPWR=1'' s)
    | D_WAIT_CGNSPWR \<Rightarrow> Some (dsim_on now 10000 (answer = ''OK'') D_WAIT_CGNSURC ''AT+CGNSURC=5'' s)
    | D_WAIT_CGNSURC \<Rightarrow>
        (let (running, s) = device_MeterIsRunning now 10000 s
          in Some (if running \<and> answer = ''OK'' then (fst s, dsim_Set now D_RUNNING_MQTT (snd s)) else s))
    | D_RUNNING_MQTT \<Rightarrow> dsim_running uid nul now answer s)"

definition device_sim :: "u8 list \<Rightarrow> bool \<Rightarrow> u32 \<Rightarrow> string \<Rightarrow> modem_state \<times> device \<Rightarrow> (modem_state \<times> device) option" where
  "device_sim uid nul now answer s =
    (case device_ProcessUnsolicited answer s of
       None \<Rightarrow> None
     | Some (unsolicited, s) \<Rightarrow>
         (if unsolicited then Some s
          else dsim_switch uid nul now answer
            (if d_need_reset (snd s) then (fst s, (snd s)\<lparr>d_need_reset := False, d_sim := D_START\<rparr>) else s)))"

text \<open>The enumeration's order in \<^verbatim>\<open>IsRegistered\<close>.\<close>

definition IsRegistered :: "device \<Rightarrow> bool" where
  "IsRegistered d \<longleftrightarrow> d_sim d \<notin> {D_START, D_WAIT_ATE0, D_WAIT_BAUDRADE, D_WAIT_GSMBUSY, D_WAIT_CREG_INIT, D_WAIT_REGISTRATION}"

section \<open>The main loop\<close>

definition device_pbd ::
    "u8 list \<Rightarrow> bool \<Rightarrow> (nat \<Rightarrow> u8) \<Rightarrow> u32 \<Rightarrow> u8 \<Rightarrow> modem_state \<times> device \<Rightarrow> (modem_state \<times> device) option" where
  "device_pbd uid nul junk now byte s =
    (case PBD_Append uid nul junk now byte (fst s, d_mqtt (snd s), d_pbd (snd s)) of
       None \<Rightarrow> None
     | Some (st, q, b) \<Rightarrow> Some (st, (snd s)\<lparr>d_mqtt := q, d_pbd := b\<rparr>))"

definition device_reset :: "device \<Rightarrow> device" where
  "device_reset d = (let d = device_SIM868_Reset d in d\<lparr>d_mqtt := MQTT_Reset (d_mqtt d)\<rparr>)"

text \<open>\<^verbatim>\<open>Modem::Update\<close> as it is compiled for the device.\<close>

definition device_modem ::
    "u8 list \<Rightarrow> bool \<Rightarrow> (nat \<Rightarrow> u8) \<Rightarrow> u32 \<Rightarrow> modem \<times> device \<Rightarrow> (modem \<times> device) option" where
  "device_modem uid nul junk now s =
    Modem_Update (device_sim uid nul now) (device_pbd uid nul junk now) device_reset now (fst s) (snd s)"

text \<open>
  One turn. The \<open>i\<close>-th call of \<^verbatim>\<open>Modem::Update\<close> while the queue is full happens at \<open>t i\<close>, after the hardware and the
  interrupts have changed the modem by \<open>hw i\<close>; \<open>now\<close> is the time at the start and \<open>now'\<close> that of the last call.
\<close>

definition dev_calls ::
    "u8 list \<Rightarrow> bool \<Rightarrow> (nat \<Rightarrow> u8) \<Rightarrow> (nat \<Rightarrow> u32) \<Rightarrow> (nat \<Rightarrow> modem \<Rightarrow> modem) \<Rightarrow> nat \<Rightarrow> modem \<times> device \<Rightarrow> (modem \<times> device) option" where
  "dev_calls uid nul junk t hw i s = device_modem uid nul junk (t i) (hw i (fst s), snd s)"

definition device_Time ::
    "u8 list \<Rightarrow> bool \<Rightarrow> (nat \<Rightarrow> u8) \<Rightarrow> (nat \<Rightarrow> u32) \<Rightarrow> (nat \<Rightarrow> modem \<Rightarrow> modem) \<Rightarrow> modem \<times> device \<Rightarrow> (modem \<times> device) option" where
  "device_Time uid nul junk t hw s =
    GET_Time uid nul (\<lambda>s. d_mqtt (snd s)) (\<lambda>f s. (fst s, (snd s)\<lparr>d_mqtt := f (d_mqtt (snd s))\<rparr>)) (dev_calls uid nul junk t hw) s"

definition Device_Update ::
    "u8 list \<Rightarrow> bool \<Rightarrow> (nat \<Rightarrow> u8) \<Rightarrow> (nat \<Rightarrow> u32) \<Rightarrow> (nat \<Rightarrow> modem \<Rightarrow> modem) \<Rightarrow> u32 \<Rightarrow> u32 \<Rightarrow> modem \<times> device \<Rightarrow> (modem \<times> device) option" where
  "Device_Update uid nul junk t hw now now' s =
    (let (md, d) = s
      in (case (if mq_connected (d_mqtt d) \<and> ElapsedTime now (d_meter d) > 1000
                then device_Time uid nul junk t hw (md, d\<lparr>d_meter := meter_Reset now (d_meter d)\<rparr>)
                else Some (md, d)) of
            None \<Rightarrow> None
          | Some s \<Rightarrow> device_modem uid nul junk now' s))"

section \<open>The device as a client of the modem\<close>

definition device_ok :: "u8 list \<Rightarrow> device \<Rightarrow> bool" where
  "device_ok uid d \<longleftrightarrow> mqtt_ok uid (d_mqtt d) \<and> buf_ok 1024 (d_pbd d)"

lemma out_ok [simp]: "mqtt_ok uid (q\<lparr>mq_out := xs\<rparr>) = mqtt_ok uid q"
  by (simp add: mqtt_ok_def)

lemma device_ok_simps [simp]:
  "device_ok uid (send0D m d) = device_ok uid d" "device_ok uid (dsim_Set now st d) = device_ok uid d"
  "device_ok uid (d\<lparr>d_signal := x\<rparr>) = device_ok uid d" "device_ok uid (SetCoordinates a b d) = device_ok uid d"
  "device_ok uid (d\<lparr>d_need_reset := y, d_sim := z\<rparr>) = device_ok uid d" "device_ok uid (d\<lparr>d_meterCSQ := m'\<rparr>) = device_ok uid d"
  "device_ok uid (d\<lparr>d_meter := m'\<rparr>) = device_ok uid d"
  by (simp_all add: device_ok_def send0D_def dsim_Set_def SetCoordinates_def)

definition keeps :: "u8 list \<Rightarrow> modem_state \<times> device \<Rightarrow> modem_state \<times> device \<Rightarrow> bool" where
  "keeps uid s s' \<longleftrightarrow> (device_ok uid (snd s) \<longrightarrow> device_ok uid (snd s')) \<and> (fst s' = fst s \<or> fst s' = MODEM_IDLE)"

lemma keeps_trans: "keeps uid s t \<Longrightarrow> keeps uid t u \<Longrightarrow> keeps uid s u"
  by (auto simp: keeps_def)

lemma meter_keeps: "keeps uid s (snd (device_MeterIsRunning now time s))"
  by (simp add: keeps_def device_MeterIsRunning_def Modem_Reset_def)

lemma unsolicited_keeps: "device_ProcessUnsolicited answer s = Some (b, s') \<Longrightarrow> keeps uid s s'"
  by (auto simp: keeps_def device_ProcessUnsolicited_def Modem_Reset_def split: if_splits option.splits)

lemma on_keeps: "keeps uid s (dsim_on now time e st c s)"
  by (auto simp: keeps_def dsim_on_def device_MeterIsRunning_def Modem_Reset_def)

lemma on_word_keeps: "dsim_on_word now answer n e st c s = Some s' \<Longrightarrow> keeps uid s s'"
  by (auto simp: keeps_def dsim_on_word_def device_MeterIsRunning_def Modem_Reset_def split: if_splits option.splits)

lemma registration_keeps: "dsim_registration now answer s = Some s' \<Longrightarrow> keeps uid s s'"
  by (auto simp: keeps_def dsim_registration_def device_MeterIsRunning_def Modem_Reset_def Let_def split: if_splits option.splits)

lemma tcp_keeps: "dsim_tcp_connect now answer s = Some s' \<Longrightarrow> keeps uid s s'"
  by (auto simp: keeps_def dsim_tcp_connect_def device_MeterIsRunning_def Modem_Reset_def Let_def split: if_splits option.splits)

lemma running_keeps:
  assumes "dsim_running uid nul now answer s = Some s'" "device_ok uid (snd s)"
  shows "keeps uid s s'"
proof -
  obtain st q where u: "MQTT_Update uid nul now answer (fst s, d_mqtt (snd s)) = Some (st, q)"
    using assms(1) by (auto simp: dsim_running_def split: option.splits)
  have "mqtt_ok uid q \<and> (st = fst s \<or> st = MODEM_IDLE)" using mqtt_update_ok[OF u] assms(2) by (simp add: device_ok_def)
  moreover have "device_ok uid ((snd s)\<lparr>d_mqtt := q\<rparr>) = (mqtt_ok uid q \<and> buf_ok 1024 (d_pbd (snd s)))" by (simp add: device_ok_def)
  ultimately show ?thesis using assms u by (auto simp: keeps_def dsim_running_def Let_def device_ok_def[of uid "snd s"] split: if_splits)
qed

lemma switch_keeps:
  assumes "dsim_switch uid nul now answer s = Some s'" "device_ok uid (snd s)"
  shows "keeps uid s s'"
proof (cases "d_sim (snd s)")
  case D_START
  then show ?thesis using assms by (auto simp: dsim_switch_def keeps_def)
next
  case D_WAIT_CREG_INIT
  then show ?thesis using assms
    by (auto simp: dsim_switch_def keeps_def device_MeterIsRunning_def Modem_Reset_def split: if_splits)
next
  case D_WAIT_CGNSURC
  then show ?thesis using assms
    by (auto simp: dsim_switch_def keeps_def device_MeterIsRunning_def Modem_Reset_def split: if_splits)
qed (use assms running_keeps in \<open>auto simp: dsim_switch_def on_keeps intro: on_word_keeps registration_keeps tcp_keeps\<close>)

lemma sim_keeps:
  assumes "device_sim uid nul now answer s = Some s'" "device_ok uid (snd s)"
  shows "keeps uid s s'"
proof -
  obtain b s1 where u: "device_ProcessUnsolicited answer s = Some (b, s1)"
    using assms(1) by (auto simp: device_sim_def split: option.splits)
  let ?s2 = "if d_need_reset (snd s1) then (fst s1, (snd s1)\<lparr>d_need_reset := False, d_sim := D_START\<rparr>) else s1"
  have 1: "keeps uid s s1" using unsolicited_keeps[OF u] .
  have 2: "keeps uid s ?s2" using 1 by (auto simp: keeps_def)
  show ?thesis
  proof (cases b)
    case True
    then show ?thesis using assms(1) u 1 by (simp add: device_sim_def)
  next
    case False
    then have "dsim_switch uid nul now answer ?s2 = Some s'" using assms(1) u by (simp add: device_sim_def)
    then show ?thesis using switch_keeps[of uid nul now answer ?s2 s'] 2 assms(2) keeps_trans[OF 2] by (simp add: keeps_def)
  qed
qed

lemma response_keeps:
  assumes "response_Run uid nul now r (st, q) = Some (b, n, st', q')" "mqtt_ok uid q"
  shows "mqtt_ok uid q' \<and> (st' = st \<or> st' = MODEM_IDLE)"
  using assms mqtt_update_ok by (fastforce simp: response_Run_def Let_def Modem_Reset_def split: if_splits)

lemma pbd_keeps:
  assumes "PBD_Append uid nul junk now byte (st, q, b) = Some (st', q', b')" "mqtt_ok uid q" "buf_ok 1024 b"
  shows "mqtt_ok uid q' \<and> buf_ok 1024 b' \<and> (st' = st \<or> st' = MODEM_IDLE)"
proof -
  let ?b = "snd (buf_Append 1024 (char_of (unat byte)) b)"
  have ok: "buf_ok 1024 ?b" using assms(3) by (auto simp: buf_ok_def buf_Append_def)
  show ?thesis using assms(1,2) ok response_keeps RemoveFirst_ok
    by (fastforce simp: PBD_Append_def PBD_Process_def Let_def split: if_splits option.splits)
qed

interpretation device_client: modem_client "device_sim uid nul" "device_pbd uid nul junk" device_reset "device_ok uid"
  for uid nul junk
proof
  fix now line st s st' s'
  assume "device_sim uid nul now line (st, s) = Some (st', s')" "device_ok uid s"
  then show "device_ok uid s' \<and> (st' = st \<or> st' = MODEM_IDLE)" using sim_keeps[of uid nul now line "(st, s)" "(st', s')"] by (simp add: keeps_def)
next
  fix now byte st s st' s'
  assume "device_pbd uid nul junk now byte (st, s) = Some (st', s')" "device_ok uid s"
  then show "device_ok uid s' \<and> (st' = st \<or> st' = MODEM_IDLE)"
    using pbd_keeps by (fastforce simp: device_pbd_def device_ok_def split: option.splits)
next
  fix s assume "device_ok uid s"
  then show "device_ok uid (device_reset s)" by (simp add: device_reset_def device_SIM868_Reset_def device_ok_def)
qed

text \<open>The buffer of the broker's packets keeps its form in any state of the client.\<close>

lemma running_buffer:
  "dsim_running uid nul now answer (st, d) = Some (st', d') \<Longrightarrow> d_pbd d' = d_pbd d \<and> (st' = st \<or> st' = MODEM_IDLE)"
  by (auto simp: dsim_running_def Let_def send0D_def dest: update_state split: option.splits if_splits)

lemmas dsim_cases = dsim_on_def dsim_on_word_def dsim_registration_def dsim_tcp_connect_def device_MeterIsRunning_def send0D_def
  dsim_Set_def Modem_Reset_def

lemma switch_buffer:
  "dsim_switch uid nul now answer (st, d) = Some (st', d') \<Longrightarrow> d_pbd d' = d_pbd d \<and> (st' = st \<or> st' = MODEM_IDLE)"
  by (cases "d_sim d") (auto simp: dsim_switch_def dsim_cases Let_def dest: running_buffer split: if_splits option.splits)

lemma sim_buffer:
  "device_sim uid nul now answer (st, d) = Some (st', d') \<Longrightarrow> d_pbd d' = d_pbd d \<and> (st' = st \<or> st' = MODEM_IDLE)"
proof -
  assume a: "device_sim uid nul now answer (st, d) = Some (st', d')"
  then obtain b st1 d1 where u: "device_ProcessUnsolicited answer (st, d) = Some (b, st1, d1)"
    by (auto simp: device_sim_def split: option.splits)
  have k: "d_pbd d1 = d_pbd d \<and> (st1 = st \<or> st1 = MODEM_IDLE)"
    using u by (auto simp: device_ProcessUnsolicited_def Modem_Reset_def SetCoordinates_def split: if_splits option.splits)
  show ?thesis
  proof (cases b)
    case True
    then show ?thesis using a u k by (simp add: device_sim_def)
  next
    case False
    then have "dsim_switch uid nul now answer (st1, if d_need_reset d1 then d1\<lparr>d_need_reset := False, d_sim := D_START\<rparr> else d1) = Some (st', d')"
      using a u by (simp add: device_sim_def split: if_splits)
    from switch_buffer[OF this] show ?thesis using k by auto
  qed
qed

lemma pbd_buffer:
  assumes "device_pbd uid nul junk now byte (st, d) = Some (st', d')" "buf_ok 1024 (d_pbd d)"
  shows "buf_ok 1024 (d_pbd d') \<and> (st' = st \<or> st' = MODEM_IDLE)"
proof -
  let ?b = "snd (buf_Append 1024 (char_of (unat byte)) (d_pbd d))"
  have ok: "buf_ok 1024 ?b" using assms(2) by (auto simp: buf_ok_def buf_Append_def)
  have r: "st1 = st \<or> st1 = MODEM_IDLE" if "response_Run uid nul now r (st, q) = Some (b, n, st1, q1)" for r q b n st1 q1
    using that update_state by (fastforce simp: response_Run_def Let_def Modem_Reset_def split: if_splits)
  show ?thesis using assms(1) ok r RemoveFirst_ok
    by (fastforce simp: device_pbd_def PBD_Append_def PBD_Process_def Let_def split: if_splits option.splits)
qed

interpretation device_buffer: modem_client "device_sim uid nul" "device_pbd uid nul junk" device_reset "\<lambda>d. buf_ok 1024 (d_pbd d)"
  for uid nul junk
  by unfold_locales (auto simp: device_reset_def device_SIM868_Reset_def dest: sim_buffer pbd_buffer)

section \<open>The request for the time\<close>

lemma modem_keeps: "device_modem uid nul junk now s = Some s' \<Longrightarrow> device_ok uid (snd s) \<Longrightarrow> device_ok uid (snd s')"
  using device_client.update_order[of uid nul now junk "fst s" "snd s" "fst s'" "snd s'"] by (simp add: device_modem_def)

lemma wait_ok:
  assumes "append_wait (\<lambda>s. d_mqtt (snd s)) (dev_calls uid nul junk t hw) i s = Some s'" "device_ok uid (snd s)"
  shows "device_ok uid (snd s') \<and> length (q_requests (d_mqtt (snd s'))) < MAX_REQUESTS"
proof -
  have "device_ok uid (snd s') \<and> length (q_requests (d_mqtt (snd s'))) \<noteq> MAX_REQUESTS"
    by (rule append_wait_inv[OF assms(1), of "\<lambda>s. device_ok uid (snd s)"]) (use assms(2) modem_keeps in \<open>auto simp: dev_calls_def\<close>)
  then show ?thesis by (auto simp: device_ok_def mqtt_ok_def)
qed

text \<open>What the queue holds after the main loop has asked for the time.\<close>

lemma time_outcome:
  assumes "device_Time uid nul junk t hw (md, d) = Some (md', d')" "device_ok uid d"
  shows "device_ok uid d' \<or> (mq_connected (d_mqtt d) \<and> length (q_requests (d_mqtt d)) = MAX_REQUESTS \<and>
     \<not> mq_connected (d_mqtt d') \<and> q_requests (d_mqtt d') = [new_request (time_request uid)])"
proof (cases "mq_connected (d_mqtt d)")
  case True
  then obtain md1 d1 where w: "append_wait (\<lambda>s. d_mqtt (snd s)) (dev_calls uid nul junk t hw) 0 (md, d) = Some (md1, d1)"
      "d' = d1\<lparr>d_mqtt := (d_mqtt d1)\<lparr>q_requests := q_requests (d_mqtt d1) @ [new_request (time_request uid)]\<rparr>\<rparr>"
    using assms(1) by (auto simp: device_Time_def GET_Time_def MQTT_Send_def Queue_Append_def split: option.splits)
  have d1: "device_ok uid d1" "length (q_requests (d_mqtt d1)) < MAX_REQUESTS" using wait_ok[OF w(1)] assms(2) by auto
  have same: "d1 = d" if "length (q_requests (d_mqtt d)) \<noteq> MAX_REQUESTS" using w(1) that by (simp add: append_wait.simps)
  show ?thesis
  proof (cases "mq_connected (d_mqtt d1)")
    case True
    then have "device_ok uid d'" using d1 w(2) by (auto simp: device_ok_def mqtt_ok_def)
    then show ?thesis ..
  next
    case False
    then have "q_requests (d_mqtt d1) = []" using d1(1) by (simp add: device_ok_def mqtt_ok_def)
    then show ?thesis using False \<open>mq_connected (d_mqtt d)\<close> same w(2) by auto
  qed
next
  case False
  then show ?thesis using assms by (auto simp: device_Time_def GET_Time_def MQTT_Send_def split: option.splits)
qed

section \<open>The dialogue with the modem\<close>

lemma device_simps [simp]:
  "d_sim (send0D m d) = d_sim d" "d_need_reset (send0D m d) = d_need_reset d" "d_state_meter (send0D m d) = d_state_meter d"
  "d_sim (dsim_Set now st d) = st" "d_need_reset (dsim_Set now st d) = d_need_reset d"
  "time_reset (d_state_meter (dsim_Set now st d)) = now"
  "mq_out (d_mqtt (send0D m d)) = mq_out (d_mqtt d) @ With0D m" "mq_out (d_mqtt (dsim_Set now st d)) = mq_out (d_mqtt d)"
  by (simp_all add: send0D_def dsim_Set_def meter_Reset_def)
















section \<open>Properties\<close>


definition new_device :: device where
  "new_device = \<lparr>d_sim = D_START, d_need_reset = False, d_state_meter = \<lparr>time_reset = 0, time_response = 0\<rparr>,
     d_meterCSQ = \<lparr>time_reset = 0, time_response = 0\<rparr>, d_signal = ''0'', d_latitude = None, d_longitude = None,
     d_mqtt = mqtt_start, d_pbd = empty_pbd, d_meter = \<lparr>time_reset = 0, time_response = 0\<rparr>\<rparr>"

lemma new_device_ok: "device_ok uid new_device"
  by (simp add: device_ok_def new_device_def start_ok empty_pbd)


text \<open>
  C22: when the main loop asks for the time, the client of the broker stays in order, with one exception: the queue was full and the connection was lost
  during the wait for room. Then the request stands alone in the queue of a client that is not connected, and the next call of
  \<^verbatim>\<open>MQTT::Update\<close> without a current request makes it the current one, before the connection request. So the broker gets a PUBLISH before the CONNECT.
\<close>

theorem time_request_outcome:
  assumes "device_ok uid d" "device_Time uid nul junk t hw (md, d) = Some (md', d')"
  shows "device_ok uid d' \<or> (length (q_requests (d_mqtt d)) = MAX_REQUESTS \<and> mq_connected (d_mqtt d) \<and> \<not> mq_connected (d_mqtt d') \<and>
     (q_current (d_mqtt d') = None \<and> mq_state (d_mqtt d') = MQTT_IDLE \<longrightarrow>
      (\<exists>q. MQTT_Update uid nul now answer (st, d_mqtt d') = Some (st, q) \<and> q_current q = Some (new_request (time_request uid)) \<and>
         q_requests q = [new_request (connect_request uid)] \<and> \<not> mq_connected q)))"
proof -
  have nul if "mq_connected (d_mqtt d)" using assms(2) that by (auto simp: device_Time_def GET_Time_def split: option.splits)
  then show ?thesis using time_outcome[OF assms(2,1)] by (auto simp: MQTT_Update_def append_inside_room Queue_Get_def)
qed

text \<open>Two requests wait, the modem has been reset; the wait runs into the reset.\<close>

definition waiting_device :: device where
  "waiting_device = new_device\<lparr>d_mqtt := mqtt_start\<lparr>mq_connected := True,
     q_requests := [new_request (time_request []), new_request (time_request [])]\<rparr>\<rparr>"

definition reset_modem :: modem where
  "reset_modem = \<lparr>m_state = MODEM_IDLE, m_meter = \<lparr>time_reset = 0, time_response = 0\<rparr>, m_regs = (\<lambda>_. 0), m_in = empty_indata\<rparr>"

theorem time_request_outcome_witness:
  "\<exists>md' d' q. device_Time [] True (\<lambda>_. 0) (\<lambda>_. 5) (\<lambda>_. id) (reset_modem, waiting_device) = Some (md', d') \<and>
     MQTT_Update [] True 9 [] (HARDWARE_IS_OK, d_mqtt d') = Some (HARDWARE_IS_OK, q) \<and> q_current q = Some (new_request (time_request [])) \<and>
     \<not> mq_connected q"
proof -
  have ok: "device_ok [] waiting_device"
    by (simp add: device_ok_def waiting_device_def mqtt_ok_def new_device_def mqtt_start_def empty_pbd)
  obtain md1 where m: "device_modem [] True (\<lambda>_. 0) 5 (reset_modem, waiting_device) = Some (md1, device_reset waiting_device)"
    by (auto simp: device_modem_def Modem_Update_def reset_modem_def)
  have "append_wait (\<lambda>s. d_mqtt (snd s)) (dev_calls [] True (\<lambda>_. 0) (\<lambda>_. 5) (\<lambda>_. id)) 0 (reset_modem, waiting_device) =
      Some (md1, device_reset waiting_device)"
    using m by (simp add: append_wait.simps[of _ _ 0] append_wait.simps[of _ _ "Suc 0"] dev_calls_def waiting_device_def device_reset_def device_SIM868_Reset_def MQTT_Reset_def Queue_Clear_def)
  then have t: "device_Time [] True (\<lambda>_. 0) (\<lambda>_. 5) (\<lambda>_. id) (reset_modem, waiting_device) =
      Some (md1, (device_reset waiting_device)\<lparr>d_mqtt := (d_mqtt (device_reset waiting_device))\<lparr>q_requests := [new_request (time_request [])]\<rparr>\<rparr>)"
    (is "_ = Some (_, ?d)")
    by (simp add: device_Time_def GET_Time_def MQTT_Send_def Queue_Append_def waiting_device_def device_reset_def device_SIM868_Reset_def
        MQTT_Reset_def Queue_Clear_def)
  have "\<not> device_ok [] ?d" "q_current (d_mqtt ?d) = None" "mq_state (d_mqtt ?d) = MQTT_IDLE"
    by (simp_all add: device_ok_def mqtt_ok_def device_reset_def device_SIM868_Reset_def MQTT_Reset_def Queue_Clear_def)
  then show ?thesis using time_request_outcome[OF ok t, of 9 "[]" HARDWARE_IS_OK] t by blast
qed

section \<open>A turn of the main loop\<close>

text \<open>
  The client is in order, unless the connection was lost while the main loop waited for room (\<open>time_request_outcome\<close>), which \<open>lost\<close> says;
  the buffer of the broker's packets has its form. \<open>lost_after\<close> is what a turn makes of the flag: a modem that starts again resets the client.
\<close>

definition device_inv :: "u8 list \<Rightarrow> bool \<Rightarrow> device \<Rightarrow> bool" where
  "device_inv uid lost d \<longleftrightarrow> (lost \<or> mqtt_ok uid (d_mqtt d)) \<and> buf_ok 1024 (d_pbd d)"

definition turn_request ::
    "u8 list \<Rightarrow> bool \<Rightarrow> (nat \<Rightarrow> u8) \<Rightarrow> (nat \<Rightarrow> u32) \<Rightarrow> (nat \<Rightarrow> modem \<Rightarrow> modem) \<Rightarrow> u32 \<Rightarrow> modem \<times> device \<Rightarrow> (modem \<times> device) option" where
  "turn_request uid nul junk t hw now s =
    (let (md, d) = s
      in if mq_connected (d_mqtt d) \<and> ElapsedTime now (d_meter d) > 1000
         then device_Time uid nul junk t hw (md, d\<lparr>d_meter := meter_Reset now (d_meter d)\<rparr>) else Some (md, d))"

definition lost_after ::
    "u8 list \<Rightarrow> bool \<Rightarrow> (nat \<Rightarrow> u8) \<Rightarrow> (nat \<Rightarrow> u32) \<Rightarrow> (nat \<Rightarrow> modem \<Rightarrow> modem) \<Rightarrow> u32 \<Rightarrow> modem \<times> device \<Rightarrow> bool \<Rightarrow> bool" where
  "lost_after uid nul junk t hw now s lost \<longleftrightarrow>
    (case turn_request uid nul junk t hw now s of
       None \<Rightarrow> lost
     | Some (md, d) \<Rightarrow> m_state md \<noteq> MODEM_IDLE \<and> (lost \<or> mq_connected (d_mqtt (snd s)) \<and> \<not> mq_connected (d_mqtt d)))"

lemma modem_buffer: "device_modem uid nul junk now s = Some s' \<Longrightarrow> buf_ok 1024 (d_pbd (snd s)) \<Longrightarrow> buf_ok 1024 (d_pbd (snd s'))"
  using device_buffer.update_order[of uid nul now junk "fst s" "snd s" "fst s'" "snd s'"] by (simp add: device_modem_def)

lemma time_buffer:
  assumes "device_Time uid nul junk t hw (md, d) = Some (md', d')" "buf_ok 1024 (d_pbd d)"
  shows "buf_ok 1024 (d_pbd d')"
proof (cases "mq_connected (d_mqtt d)")
  case True
  then obtain md1 d1 where w: "append_wait (\<lambda>s. d_mqtt (snd s)) (dev_calls uid nul junk t hw) 0 (md, d) = Some (md1, d1)" "d_pbd d' = d_pbd d1"
    using assms(1) by (auto simp: device_Time_def GET_Time_def MQTT_Send_def Queue_Append_def split: option.splits)
  have "buf_ok 1024 (d_pbd (snd (md1, d1))) \<and> length (q_requests (d_mqtt (snd (md1, d1)))) \<noteq> MAX_REQUESTS"
    by (rule append_wait_inv[OF w(1), of "\<lambda>s. buf_ok 1024 (d_pbd (snd s))"])
      (use assms(2) modem_buffer in \<open>auto simp: dev_calls_def\<close>)
  then show ?thesis using w(2) by simp
next
  case False
  then show ?thesis using assms by (auto simp: device_Time_def GET_Time_def MQTT_Send_def split: option.splits)
qed

lemma request_inv:
  assumes "turn_request uid nul junk t hw now (md, d) = Some (md', d')" "device_inv uid lost d"
  shows "device_inv uid (lost \<or> mq_connected (d_mqtt d) \<and> \<not> mq_connected (d_mqtt d')) d'"
proof (cases "mq_connected (d_mqtt d) \<and> ElapsedTime now (d_meter d) > 1000")
  case True
  then have t: "device_Time uid nul junk t hw (md, d\<lparr>d_meter := meter_Reset now (d_meter d)\<rparr>) = Some (md', d')"
    using assms(1) by (simp add: turn_request_def)
  have "buf_ok 1024 (d_pbd d')" using time_buffer[OF t] assms(2) by (simp add: device_inv_def)
  moreover have "mqtt_ok uid (d_mqtt d')" if "\<not> lost" "mq_connected (d_mqtt d')"
    using time_outcome[OF t] assms(2) that by (auto simp: device_inv_def device_ok_def)
  ultimately show ?thesis using True by (auto simp: device_inv_def)
next
  case False
  then have "d' = d" using assms(1) by (auto simp: turn_request_def)
  then show ?thesis using assms(2) by (simp add: device_inv_def)
qed

lemma modem_inv:
  assumes "device_modem uid nul junk now (md, d) = Some (md', d')" "device_inv uid lost d"
  shows "device_inv uid (m_state md \<noteq> MODEM_IDLE \<and> lost) d'"
proof -
  have b: "buf_ok 1024 (d_pbd d')" using modem_buffer[OF assms(1)] assms(2) by (simp add: device_inv_def)
  consider "m_state md = MODEM_IDLE" | "m_state md \<noteq> MODEM_IDLE" lost | "\<not> lost" by blast
  then show ?thesis
  proof cases
    case 1
    then have "d' = device_reset d" using assms(1) by (auto simp: device_modem_def Modem_Update_def)
    then show ?thesis using b by (simp add: device_inv_def device_reset_def device_SIM868_Reset_def)
  next
    case 2
    then show ?thesis using b by (simp add: device_inv_def)
  next
    case 3
    then have "device_ok uid d" using assms(2) by (simp add: device_inv_def device_ok_def)
    then show ?thesis using modem_keeps[OF assms(1)] by (simp add: device_inv_def device_ok_def)
  qed
qed

text \<open>A turn keeps this, whatever the modem receives and whether the queue is full or not.\<close>

lemma device_turn:
  assumes "device_inv uid lost d" "Device_Update uid nul junk t hw now now' (md, d) = Some (md', d')"
  shows "device_inv uid (lost_after uid nul junk t hw now (md, d) lost) d'"
proof -
  obtain md1 d1 where s: "turn_request uid nul junk t hw now (md, d) = Some (md1, d1)" "device_modem uid nul junk now' (md1, d1) = Some (md', d')"
    using assms(2) by (auto simp: Device_Update_def turn_request_def split: option.splits)
  show ?thesis using modem_inv[OF s(2) request_inv[OF s(1) assms(1)]] s(1) by (simp add: lost_after_def)
qed

end
