(* ===== verification/Gd32_I2c.thy ===== *)
theory Gd32_I2c
  imports Gd32_Rcu
begin

unbundle bit_operations_syntax

text \<open>
  I2C masters: gd32f30x_i2c.c. A call of I2C_ERROR_HANDLE, an endless loop, is the result None.
\<close>

section \<open>Registers and constants\<close>

abbreviation I2C0 :: u32 where "I2C0 \<equiv> 0x40005400"
abbreviation I2C1 :: u32 where "I2C1 \<equiv> 0x40005800"
abbreviation I2C_CTL0 :: "u32 \<Rightarrow> u32" where
  "I2C_CTL0 i2cx \<equiv> i2cx + 0"
abbreviation I2C_CTL1 :: "u32 \<Rightarrow> u32" where
  "I2C_CTL1 i2cx \<equiv> i2cx + 4"
abbreviation I2C_SADDR0 :: "u32 \<Rightarrow> u32" where
  "I2C_SADDR0 i2cx \<equiv> i2cx + 8"
abbreviation I2C_SADDR1 :: "u32 \<Rightarrow> u32" where
  "I2C_SADDR1 i2cx \<equiv> i2cx + 0xC"
abbreviation I2C_DATA :: "u32 \<Rightarrow> u32" where
  "I2C_DATA i2cx \<equiv> i2cx + 0x10"
abbreviation I2C_STAT0 :: "u32 \<Rightarrow> u32" where
  "I2C_STAT0 i2cx \<equiv> i2cx + 0x14"
abbreviation I2C_STAT1 :: "u32 \<Rightarrow> u32" where
  "I2C_STAT1 i2cx \<equiv> i2cx + 0x18"
abbreviation I2C_CKCFG :: "u32 \<Rightarrow> u32" where
  "I2C_CKCFG i2cx \<equiv> i2cx + 0x1C"
abbreviation I2C_RT :: "u32 \<Rightarrow> u32" where
  "I2C_RT i2cx \<equiv> i2cx + 0x20"
abbreviation I2C_FMPCFG :: "u32 \<Rightarrow> u32" where
  "I2C_FMPCFG i2cx \<equiv> i2cx + 0x90"
abbreviation I2C_CTL0_I2CEN :: u32 where "I2C_CTL0_I2CEN \<equiv> 0x1"
abbreviation I2C_CTL0_SMBEN :: u32 where "I2C_CTL0_SMBEN \<equiv> 0x2"
abbreviation I2C_CTL0_SMBSEL :: u32 where "I2C_CTL0_SMBSEL \<equiv> 0x8"
abbreviation I2C_CTL0_ARPEN :: u32 where "I2C_CTL0_ARPEN \<equiv> 0x10"
abbreviation I2C_CTL0_PECEN :: u32 where "I2C_CTL0_PECEN \<equiv> 0x20"
abbreviation I2C_CTL0_GCEN :: u32 where "I2C_CTL0_GCEN \<equiv> 0x40"
abbreviation I2C_CTL0_SS :: u32 where "I2C_CTL0_SS \<equiv> 0x80"
abbreviation I2C_CTL0_START :: u32 where "I2C_CTL0_START \<equiv> 0x100"
abbreviation I2C_CTL0_STOP :: u32 where "I2C_CTL0_STOP \<equiv> 0x200"
abbreviation I2C_CTL0_ACKEN :: u32 where "I2C_CTL0_ACKEN \<equiv> 0x400"
abbreviation I2C_CTL0_POAP :: u32 where "I2C_CTL0_POAP \<equiv> 0x800"
abbreviation I2C_CTL0_PECTRANS :: u32 where "I2C_CTL0_PECTRANS \<equiv> 0x1000"
abbreviation I2C_CTL0_SALT :: u32 where "I2C_CTL0_SALT \<equiv> 0x2000"
abbreviation I2C_CTL0_SRESET :: u32 where "I2C_CTL0_SRESET \<equiv> 0x8000"
abbreviation I2C_CTL1_I2CCLK :: u32 where "I2C_CTL1_I2CCLK \<equiv> 0x7F"
abbreviation I2C_CTL1_BUFIE :: u32 where "I2C_CTL1_BUFIE \<equiv> 0x400"
abbreviation I2C_CTL1_DMAON :: u32 where "I2C_CTL1_DMAON \<equiv> 0x800"
abbreviation I2C_CTL1_DMALST :: u32 where "I2C_CTL1_DMALST \<equiv> 0x1000"
abbreviation I2C_SADDR1_DUADEN :: u32 where "I2C_SADDR1_DUADEN \<equiv> 0x1"
abbreviation I2C_STAT1_PECV :: u32 where "I2C_STAT1_PECV \<equiv> 0xFF00"
abbreviation I2C_CKCFG_CLKC :: u32 where "I2C_CKCFG_CLKC \<equiv> 0xFFF"
abbreviation I2C_CKCFG_DTCY :: u32 where "I2C_CKCFG_DTCY \<equiv> 0x4000"
abbreviation I2C_CKCFG_FAST :: u32 where "I2C_CKCFG_FAST \<equiv> 0x8000"
abbreviation I2C_FMPCFG_FMPEN :: u32 where "I2C_FMPCFG_FMPEN \<equiv> 0x1"
abbreviation I2C_REG_VAL :: "u32 \<Rightarrow> u32 \<Rightarrow> u32" where
  "I2C_REG_VAL i2cx offset \<equiv> i2cx + drop_bit 6 (offset AND 0xFFFF)"
abbreviation I2C_BIT_POS :: "u32 \<Rightarrow> u32" where
  "I2C_BIT_POS val \<equiv> val AND 0x1F"
abbreviation I2C_REG_VAL2 :: "u32 \<Rightarrow> u32 \<Rightarrow> u32" where
  "I2C_REG_VAL2 i2cx offset \<equiv> i2cx + drop_bit 22 offset"
abbreviation I2C_BIT_POS2 :: "u32 \<Rightarrow> u32" where
  "I2C_BIT_POS2 val \<equiv> drop_bit 16 (val AND 0x1F0000)"
abbreviation I2C_SMBUS_HOST :: u32 where "I2C_SMBUS_HOST \<equiv> 0x8"
abbreviation I2C_RECEIVER :: u32 where "I2C_RECEIVER \<equiv> 0x1"
abbreviation I2C_TRANSMITTER :: u32 where "I2C_TRANSMITTER \<equiv> 0xFFFFFFFE"
abbreviation DATA_TRANS :: "u32 \<Rightarrow> u32" where
  "DATA_TRANS regval \<equiv> BITS 0 7 AND push_bit 0 regval"
abbreviation DATA_RECV :: "u32 \<Rightarrow> u32" where
  "DATA_RECV regval \<equiv> GET_BITS regval 0 7"
abbreviation I2C_DTCY_2 :: u32 where "I2C_DTCY_2 \<equiv> 0x0"
abbreviation I2C_FLAG_ADDSEND :: u32 where "I2C_FLAG_ADDSEND \<equiv> 0x501"
abbreviation I2C_INT_FLAG_ADDSEND :: u32 where "I2C_INT_FLAG_ADDSEND \<equiv> 0x5010109"
abbreviation I2C_INT_FLAG_RBNE :: u32 where "I2C_INT_FLAG_RBNE \<equiv> 0x5060109"
abbreviation I2C_INT_FLAG_TBE :: u32 where "I2C_INT_FLAG_TBE \<equiv> 0x5070109"
abbreviation I2CCLK_MAX :: u32 where "I2CCLK_MAX \<equiv> 0x3C"
abbreviation I2CCLK_MIN :: u32 where "I2CCLK_MIN \<equiv> 0x2"
abbreviation I2C_ADDRESS_MASK :: u32 where "I2C_ADDRESS_MASK \<equiv> 0x3FF"
abbreviation I2C_ADDRESS2_MASK :: u32 where "I2C_ADDRESS2_MASK \<equiv> 0xFE"

section \<open>Operations\<close>

definition i2c_deinit :: "u32 \<Rightarrow> mem \<Rightarrow> mem" where
  "i2c_deinit i2c_periph m =
    (if i2c_periph = I2C0 then
       (let m = rcu_periph_reset_enable RCU_I2C0RST m
         in rcu_periph_reset_disable RCU_I2C0RST m)
     else if i2c_periph = I2C1 then
       (let m = rcu_periph_reset_enable RCU_I2C1RST m
         in rcu_periph_reset_disable RCU_I2C1RST m)
     else
       m)"

definition i2c_clock_config :: "u32 \<Rightarrow> u32 \<Rightarrow> u32 \<Rightarrow> mem \<Rightarrow> mem option" where
  "i2c_clock_config i2c_periph clkspeed dutycyc m =
    (if clkspeed = 0 then
       None
     else
       (let pclk1 = rcu_clock_freq_get CK_APB1 m;
            freq = pclk1 div 1000000;
            freq = (if freq \<ge> I2CCLK_MAX then I2CCLK_MAX else freq);
            temp = m (I2C_CTL1 i2c_periph);
            temp = temp AND NOT I2C_CTL1_I2CCLK;
            temp = temp OR freq;
            m = m(I2C_CTL1 i2c_periph := temp)
         in (if 100000 \<ge> clkspeed then
               (let risetime = (pclk1 div 1000000) + 1;
                    m = (if risetime \<ge> I2CCLK_MAX then
                         m(I2C_RT i2c_periph := I2CCLK_MAX)
                       else if risetime \<le> I2CCLK_MIN then
                         m(I2C_RT i2c_periph := I2CCLK_MIN)
                       else
                         m(I2C_RT i2c_periph := risetime));
                    clkc = pclk1 div (clkspeed * 2);
                    clkc = (if clkc < 4 then 4 else clkc);
                    m = m(I2C_CKCFG i2c_periph := m (I2C_CKCFG i2c_periph) OR (I2C_CKCFG_CLKC AND clkc))
                 in Some m)
             else if 400000 \<ge> clkspeed then
               (let m = m(I2C_RT i2c_periph := ((freq * 300) div 1000) + 1);
                    (clkc, m) = (if dutycyc = I2C_DTCY_2 then
                         (let clkc = pclk1 div (clkspeed * 3);
                              m = m(I2C_CKCFG i2c_periph := m (I2C_CKCFG i2c_periph) AND NOT I2C_CKCFG_DTCY)
                           in (clkc, m))
                       else
                         (let clkc = pclk1 div (clkspeed * 25);
                              m = m(I2C_CKCFG i2c_periph := m (I2C_CKCFG i2c_periph) OR I2C_CKCFG_DTCY)
                           in (clkc, m)));
                    clkc = (if (clkc AND I2C_CKCFG_CLKC) = 0 then clkc OR 1 else clkc);
                    m = m(I2C_CKCFG i2c_periph := m (I2C_CKCFG i2c_periph) OR I2C_CKCFG_FAST);
                    m = m(I2C_CKCFG i2c_periph := m (I2C_CKCFG i2c_periph) OR clkc)
                 in Some m)
             else
               (let m = m(I2C_RT i2c_periph := ((freq * 120) div 1000) + 1);
                    (clkc, m) = (if dutycyc = I2C_DTCY_2 then
                         (let clkc = pclk1 div (clkspeed * 3);
                              m = m(I2C_CKCFG i2c_periph := m (I2C_CKCFG i2c_periph) AND NOT I2C_CKCFG_DTCY)
                           in (clkc, m))
                       else
                         (let clkc = pclk1 div (clkspeed * 25);
                              m = m(I2C_CKCFG i2c_periph := m (I2C_CKCFG i2c_periph) OR I2C_CKCFG_DTCY)
                           in (clkc, m)));
                    m = m(I2C_CKCFG i2c_periph := m (I2C_CKCFG i2c_periph) OR I2C_CKCFG_FAST);
                    m = m(I2C_CKCFG i2c_periph := m (I2C_CKCFG i2c_periph) OR clkc);
                    m = m(I2C_FMPCFG i2c_periph := I2C_FMPCFG_FMPEN)
                 in Some m))))"

definition i2c_mode_addr_config :: "u32 \<Rightarrow> u32 \<Rightarrow> u32 \<Rightarrow> u32 \<Rightarrow> mem \<Rightarrow> mem" where
  "i2c_mode_addr_config i2c_periph mode addformat addr m =
    (let ctl = m (I2C_CTL0 i2c_periph);
         ctl = ctl AND NOT I2C_CTL0_SMBEN;
         ctl = ctl OR mode;
         m = m(I2C_CTL0 i2c_periph := ctl);
         addr = addr AND I2C_ADDRESS_MASK
      in m(I2C_SADDR0 i2c_periph := addformat OR addr))"

definition i2c_smbus_type_config :: "u32 \<Rightarrow> u32 \<Rightarrow> mem \<Rightarrow> mem" where
  "i2c_smbus_type_config i2c_periph type' m =
    (if type' = I2C_SMBUS_HOST then
       m(I2C_CTL0 i2c_periph := m (I2C_CTL0 i2c_periph) OR I2C_CTL0_SMBSEL)
     else
       m(I2C_CTL0 i2c_periph := m (I2C_CTL0 i2c_periph) AND NOT I2C_CTL0_SMBSEL))"

definition i2c_ack_config :: "u32 \<Rightarrow> u32 \<Rightarrow> mem \<Rightarrow> mem" where
  "i2c_ack_config i2c_periph ack m =
    (let ctl = m (I2C_CTL0 i2c_periph);
         ctl = ctl AND NOT I2C_CTL0_ACKEN;
         ctl = ctl OR ack
      in m(I2C_CTL0 i2c_periph := ctl))"

definition i2c_ackpos_config :: "u32 \<Rightarrow> u32 \<Rightarrow> mem \<Rightarrow> mem" where
  "i2c_ackpos_config i2c_periph pos m =
    (let ctl = m (I2C_CTL0 i2c_periph);
         ctl = ctl AND NOT I2C_CTL0_POAP;
         ctl = ctl OR pos
      in m(I2C_CTL0 i2c_periph := ctl))"

definition i2c_master_addressing :: "u32 \<Rightarrow> u32 \<Rightarrow> u32 \<Rightarrow> mem \<Rightarrow> mem" where
  "i2c_master_addressing i2c_periph addr trandirection m =
    (let addr = (if trandirection = I2C_TRANSMITTER then
              addr AND I2C_TRANSMITTER
            else
              addr OR I2C_RECEIVER)
      in m(I2C_DATA i2c_periph := addr))"

definition i2c_dualaddr_enable :: "u32 \<Rightarrow> u32 \<Rightarrow> mem \<Rightarrow> mem" where
  "i2c_dualaddr_enable i2c_periph dualaddr m =
    (let dualaddr = dualaddr AND I2C_ADDRESS2_MASK
      in m(I2C_SADDR1 i2c_periph := I2C_SADDR1_DUADEN OR dualaddr))"

definition i2c_dualaddr_disable :: "u32 \<Rightarrow> mem \<Rightarrow> mem" where
  "i2c_dualaddr_disable i2c_periph m =
    m(I2C_SADDR1 i2c_periph := m (I2C_SADDR1 i2c_periph) AND NOT I2C_SADDR1_DUADEN)"

definition i2c_enable :: "u32 \<Rightarrow> mem \<Rightarrow> mem" where
  "i2c_enable i2c_periph m =
    m(I2C_CTL0 i2c_periph := m (I2C_CTL0 i2c_periph) OR I2C_CTL0_I2CEN)"

definition i2c_disable :: "u32 \<Rightarrow> mem \<Rightarrow> mem" where
  "i2c_disable i2c_periph m =
    m(I2C_CTL0 i2c_periph := m (I2C_CTL0 i2c_periph) AND NOT I2C_CTL0_I2CEN)"

definition i2c_start_on_bus :: "u32 \<Rightarrow> mem \<Rightarrow> mem" where
  "i2c_start_on_bus i2c_periph m =
    m(I2C_CTL0 i2c_periph := m (I2C_CTL0 i2c_periph) OR I2C_CTL0_START)"

definition i2c_stop_on_bus :: "u32 \<Rightarrow> mem \<Rightarrow> mem" where
  "i2c_stop_on_bus i2c_periph m =
    m(I2C_CTL0 i2c_periph := m (I2C_CTL0 i2c_periph) OR I2C_CTL0_STOP)"

definition i2c_data_transmit :: "u32 \<Rightarrow> u8 \<Rightarrow> mem \<Rightarrow> mem" where
  "i2c_data_transmit i2c_periph data m =
    m(I2C_DATA i2c_periph := DATA_TRANS (ucast data :: u32))"

definition i2c_data_receive :: "u32 \<Rightarrow> mem \<Rightarrow> u8" where
  "i2c_data_receive i2c_periph m =
    (ucast (DATA_RECV (m (I2C_DATA i2c_periph))) :: u8)"

definition i2c_dma_config :: "u32 \<Rightarrow> u32 \<Rightarrow> mem \<Rightarrow> mem" where
  "i2c_dma_config i2c_periph dmastate m =
    (let ctl = m (I2C_CTL1 i2c_periph);
         ctl = ctl AND NOT I2C_CTL1_DMAON;
         ctl = ctl OR dmastate
      in m(I2C_CTL1 i2c_periph := ctl))"

definition i2c_dma_last_transfer_config :: "u32 \<Rightarrow> u32 \<Rightarrow> mem \<Rightarrow> mem" where
  "i2c_dma_last_transfer_config i2c_periph dmalast m =
    (let ctl = m (I2C_CTL1 i2c_periph);
         ctl = ctl AND NOT I2C_CTL1_DMALST;
         ctl = ctl OR dmalast
      in m(I2C_CTL1 i2c_periph := ctl))"

definition i2c_stretch_scl_low_config :: "u32 \<Rightarrow> u32 \<Rightarrow> mem \<Rightarrow> mem" where
  "i2c_stretch_scl_low_config i2c_periph stretchpara m =
    (let ctl = m (I2C_CTL0 i2c_periph);
         ctl = ctl AND NOT I2C_CTL0_SS;
         ctl = ctl OR stretchpara
      in m(I2C_CTL0 i2c_periph := ctl))"

definition i2c_slave_response_to_gcall_config :: "u32 \<Rightarrow> u32 \<Rightarrow> mem \<Rightarrow> mem" where
  "i2c_slave_response_to_gcall_config i2c_periph gcallpara m =
    (let ctl = m (I2C_CTL0 i2c_periph);
         ctl = ctl AND NOT I2C_CTL0_GCEN;
         ctl = ctl OR gcallpara
      in m(I2C_CTL0 i2c_periph := ctl))"

definition i2c_software_reset_config :: "u32 \<Rightarrow> u32 \<Rightarrow> mem \<Rightarrow> mem" where
  "i2c_software_reset_config i2c_periph sreset m =
    (let ctl = m (I2C_CTL0 i2c_periph);
         ctl = ctl AND NOT I2C_CTL0_SRESET;
         ctl = ctl OR sreset
      in m(I2C_CTL0 i2c_periph := ctl))"

definition i2c_pec_config :: "u32 \<Rightarrow> u32 \<Rightarrow> mem \<Rightarrow> mem" where
  "i2c_pec_config i2c_periph pecstate m =
    (let ctl = m (I2C_CTL0 i2c_periph);
         ctl = ctl AND NOT I2C_CTL0_PECEN;
         ctl = ctl OR pecstate
      in m(I2C_CTL0 i2c_periph := ctl))"

definition i2c_pec_transfer_config :: "u32 \<Rightarrow> u32 \<Rightarrow> mem \<Rightarrow> mem" where
  "i2c_pec_transfer_config i2c_periph pecpara m =
    (let ctl = m (I2C_CTL0 i2c_periph);
         ctl = ctl AND NOT I2C_CTL0_PECTRANS;
         ctl = ctl OR pecpara
      in m(I2C_CTL0 i2c_periph := ctl))"

definition i2c_pec_value_get :: "u32 \<Rightarrow> mem \<Rightarrow> u8" where
  "i2c_pec_value_get i2c_periph m =
    (ucast (drop_bit 8 (m (I2C_STAT1 i2c_periph) AND I2C_STAT1_PECV)) :: u8)"

definition i2c_smbus_alert_config :: "u32 \<Rightarrow> u32 \<Rightarrow> mem \<Rightarrow> mem" where
  "i2c_smbus_alert_config i2c_periph smbuspara m =
    (let ctl = m (I2C_CTL0 i2c_periph);
         ctl = ctl AND NOT I2C_CTL0_SALT;
         ctl = ctl OR smbuspara
      in m(I2C_CTL0 i2c_periph := ctl))"

definition i2c_smbus_arp_config :: "u32 \<Rightarrow> u32 \<Rightarrow> mem \<Rightarrow> mem" where
  "i2c_smbus_arp_config i2c_periph arpstate m =
    (let ctl = m (I2C_CTL0 i2c_periph);
         ctl = ctl AND NOT I2C_CTL0_ARPEN;
         ctl = ctl OR arpstate
      in m(I2C_CTL0 i2c_periph := ctl))"

definition i2c_flag_get :: "u32 \<Rightarrow> u32 \<Rightarrow> mem \<Rightarrow> FlagStatus" where
  "i2c_flag_get i2c_periph flag m =
    (if (m (I2C_REG_VAL i2c_periph flag) AND BIT (I2C_BIT_POS flag)) \<noteq> 0 then
       SET
     else
       RESET)"

definition i2c_flag_clear :: "u32 \<Rightarrow> u32 \<Rightarrow> mem \<Rightarrow> mem" where
  "i2c_flag_clear i2c_periph flag m =
    (if flag = I2C_FLAG_ADDSEND then
       (let state0 = m (I2C_STAT0 i2c_periph);
            state1 = m (I2C_STAT1 i2c_periph)
         in m)
     else
       m(I2C_REG_VAL i2c_periph flag := m (I2C_REG_VAL i2c_periph flag) AND NOT (BIT (I2C_BIT_POS flag))))"

definition i2c_interrupt_enable :: "u32 \<Rightarrow> u32 \<Rightarrow> mem \<Rightarrow> mem" where
  "i2c_interrupt_enable i2c_periph interrupt m =
    m(I2C_REG_VAL i2c_periph interrupt := m (I2C_REG_VAL i2c_periph interrupt) OR BIT (I2C_BIT_POS interrupt))"

definition i2c_interrupt_disable :: "u32 \<Rightarrow> u32 \<Rightarrow> mem \<Rightarrow> mem" where
  "i2c_interrupt_disable i2c_periph interrupt m =
    m(I2C_REG_VAL i2c_periph interrupt := m (I2C_REG_VAL i2c_periph interrupt) AND NOT (BIT (I2C_BIT_POS interrupt)))"

definition i2c_interrupt_flag_get :: "u32 \<Rightarrow> u32 \<Rightarrow> mem \<Rightarrow> FlagStatus" where
  "i2c_interrupt_flag_get i2c_periph int_flag m =
    (let bufie = m (I2C_CTL1 i2c_periph) AND I2C_CTL1_BUFIE;
         intenable = m (I2C_REG_VAL i2c_periph int_flag) AND BIT (I2C_BIT_POS int_flag);
         flagstatus = m (I2C_REG_VAL2 i2c_periph int_flag) AND BIT (I2C_BIT_POS2 int_flag);
         intenable = (if (int_flag = I2C_INT_FLAG_RBNE) \<or> (int_flag = I2C_INT_FLAG_TBE) then
              (if (intenable \<noteq> 0) \<and> (bufie \<noteq> 0) then 1 else 0)
            else
              intenable)
      in (if (flagstatus \<noteq> 0) \<and> (intenable \<noteq> 0) then SET else RESET))"

definition i2c_interrupt_flag_clear :: "u32 \<Rightarrow> u32 \<Rightarrow> mem \<Rightarrow> mem" where
  "i2c_interrupt_flag_clear i2c_periph int_flag m =
    (if int_flag = I2C_INT_FLAG_ADDSEND then
       (let state0 = m (I2C_STAT0 i2c_periph);
            state1 = m (I2C_STAT1 i2c_periph)
         in m)
     else
       m(I2C_REG_VAL2 i2c_periph int_flag := NOT (BIT (I2C_BIT_POS2 int_flag))))"

section \<open>Interfaces\<close>

interpretation i2c_on: reg_bit "i2c_enable p" "i2c_disable p" "I2C_CTL0 p" "I2C_CTL0_I2CEN" for p
  by unfold_locales (simp_all add: i2c_enable_def i2c_disable_def)

interpretation i2c_int: reg_bit "i2c_interrupt_enable p i" "i2c_interrupt_disable p i" "I2C_REG_VAL p i" "BIT (I2C_BIT_POS i)" for p i
  by unfold_locales (simp_all only: i2c_interrupt_enable_def i2c_interrupt_disable_def fun_upd_apply simp_thms if_True if_False)

section \<open>Properties\<close>

text \<open>
  In standard mode (at most 100 kHz) \<^verbatim>\<open>i2c_clock_config\<close> adds the new divider to the register with OR and never
  clears the field: every bit of the divider that was there before is still there, so configuring a bus again
  for another speed leaves a mixture of the two dividers.
\<close>

lemma i2c_divider_not_cleared:
  assumes "i2c_clock_config p speed duty m = Some m'" "speed \<le> 100000"
  shows "m (I2C_CKCFG p) AND NOT (m' (I2C_CKCFG p)) = 0"
proof -
  have or: "x AND NOT (x OR y) = 0" for x y :: u32 by (auto simp: bit_eq_iff bit_simps)
  have sp: "100000 \<ge> speed" using assms(2) .
  have "\<exists>y. m' (I2C_CKCFG p) = m (I2C_CKCFG p) OR y"
    using assms(1) unfolding i2c_clock_config_def Let_def
    by (auto simp: sp split: if_splits)
  then show ?thesis using or by auto
qed

end
