(* ===== verification/HalI2c.thy ===== *)
theory HalI2c
  imports HalPins HalTime Gd32_I2c "HOL-Library.Monad_Syntax"
begin

unbundle bit_operations_syntax

text \<open>
  The I2C port: \<^verbatim>\<open>sources/common/Hardware/HAL/HAL_I2C.cpp\<close> and the error interrupt of \<^verbatim>\<open>HAL_IT.cpp\<close>, on the
  model of the vendor driver. The peripheral, the bus and the clock are hardware: an argument \<open>w\<close> with a hidden state of any type, whose
  function \<open>bus_run\<close> changes the hidden state and the registers before every read of a flag in a wait. As the hidden state may be anything,
  it may also fix beforehand what happens at each read. The state also collects what the program asks of the
  bus: start and stop conditions and the bytes put into the data register.
\<close>

section \<open>State\<close>

datatype i2c_req = Start | Stop | Byte u8

record 'h i2c_world =
  bus_run :: "'h \<Rightarrow> mem \<Rightarrow> 'h \<times> mem"
  time_ms :: "'h \<Rightarrow> u32"

record 'h i2c_st =
  i2c_hw :: 'h
  i2c_regs :: mem
  i2c_reqs :: "i2c_req list"

record hal_i2c =
  i2c_scl :: pin
  i2c_sda :: pin
  i2c_periph :: u32
  i2c_address :: u32

abbreviation PERIPH_DISPLAY :: u32 where "PERIPH_DISPLAY \<equiv> I2C0"
abbreviation PERIPH_MPU6050 :: u32 where "PERIPH_MPU6050 \<equiv> I2C1"
abbreviation I2C_SPEED :: u32 where "I2C_SPEED \<equiv> 100000"
abbreviation I2C_TIMEOUT :: u32 where "I2C_TIMEOUT \<equiv> 10"
abbreviation I2C_FLAG_SBSEND :: u32 where "I2C_FLAG_SBSEND \<equiv> 0x500"
abbreviation I2C_FLAG_RBNE :: u32 where "I2C_FLAG_RBNE \<equiv> 0x506"
abbreviation I2C_FLAG_TBE :: u32 where "I2C_FLAG_TBE \<equiv> 0x507"
abbreviation I2C_FLAG_I2CBSY :: u32 where "I2C_FLAG_I2CBSY \<equiv> 0x601"
abbreviation I2C_ACK_DISABLE :: u32 where "I2C_ACK_DISABLE \<equiv> 0"
abbreviation I2C_ACK_ENABLE :: u32 where "I2C_ACK_ENABLE \<equiv> 0x400"
abbreviation I2C_I2CMODE_ENABLE :: u32 where "I2C_I2CMODE_ENABLE \<equiv> 0"
abbreviation I2C_ADDFORMAT_7BITS :: u32 where "I2C_ADDFORMAT_7BITS \<equiv> 0"

definition bus_step :: "'h i2c_world \<Rightarrow> 'h i2c_st \<Rightarrow> 'h i2c_st" where
  "bus_step w s = (case bus_run w (i2c_hw s) (i2c_regs s) of (h, m) \<Rightarrow> s\<lparr>i2c_hw := h, i2c_regs := m\<rparr>)"

definition i2c_now :: "'h i2c_world \<Rightarrow> 'h i2c_st \<Rightarrow> u32" where
  "i2c_now w s = time_ms w (i2c_hw s)"

definition new_meter :: "u32 \<Rightarrow> time_meter" where
  "new_meter now = \<lparr>time_reset = now, time_response = now\<rparr>"

section \<open>Operations\<close>

definition on_regs :: "(mem \<Rightarrow> mem) \<Rightarrow> 'h i2c_st \<Rightarrow> 'h i2c_st" where
  "on_regs f s = s\<lparr>i2c_regs := f (i2c_regs s)\<rparr>"

definition req_start :: "hal_i2c \<Rightarrow> 'h i2c_st \<Rightarrow> 'h i2c_st" where
  "req_start d s = (on_regs (i2c_start_on_bus (i2c_periph d)) s)\<lparr>i2c_reqs := i2c_reqs s @ [Start]\<rparr>"

definition req_stop :: "hal_i2c \<Rightarrow> 'h i2c_st \<Rightarrow> 'h i2c_st" where
  "req_stop d s = (on_regs (i2c_stop_on_bus (i2c_periph d)) s)\<lparr>i2c_reqs := i2c_reqs s @ [Stop]\<rparr>"

text \<open>The bus carries the low byte of the data register.\<close>

definition req_byte :: "hal_i2c \<Rightarrow> (mem \<Rightarrow> mem) \<Rightarrow> 'h i2c_st \<Rightarrow> 'h i2c_st" where
  "req_byte d f s = (let m = f (i2c_regs s)
      in s\<lparr>i2c_regs := m, i2c_reqs := i2c_reqs s @ [Byte (ucast (m (I2C_DATA (i2c_periph d))))]\<rparr>)"

definition send_address :: "hal_i2c \<Rightarrow> u32 \<Rightarrow> 'h i2c_st \<Rightarrow> 'h i2c_st" where
  "send_address d direction = req_byte d (i2c_master_addressing (i2c_periph d) (i2c_address d) direction)"

definition send_data :: "hal_i2c \<Rightarrow> u8 \<Rightarrow> 'h i2c_st \<Rightarrow> 'h i2c_st" where
  "send_data d b = req_byte d (i2c_data_transmit (i2c_periph d) b)"

text \<open>\<^verbatim>\<open>while (busy) if (meter.ElapsedTime() > TIMEOUT) ...\<close>: whether the condition ended in time.\<close>

partial_function (option) i2c_wait ::
    "'h i2c_world \<Rightarrow> (mem \<Rightarrow> bool) \<Rightarrow> time_meter \<Rightarrow> 'h i2c_st \<Rightarrow> (bool \<times> 'h i2c_st) option" where
  "i2c_wait w busy meter s =
    (let s = bus_step w s
      in if busy (i2c_regs s) then
           (if ElapsedTime (i2c_now w s) meter > I2C_TIMEOUT then Some (False, s) else i2c_wait w busy meter s)
         else Some (True, s))"

definition WaitFlagYes :: "'h i2c_world \<Rightarrow> hal_i2c \<Rightarrow> u32 \<Rightarrow> 'h i2c_st \<Rightarrow> (bool \<times> 'h i2c_st) option" where
  "WaitFlagYes w d flag s = i2c_wait w (\<lambda>m. i2c_flag_get (i2c_periph d) flag m = SET) (new_meter (i2c_now w s)) s"

definition WaitFlagNo :: "'h i2c_world \<Rightarrow> hal_i2c \<Rightarrow> u32 \<Rightarrow> 'h i2c_st \<Rightarrow> (bool \<times> 'h i2c_st) option" where
  "WaitFlagNo w d flag s = i2c_wait w (\<lambda>m. i2c_flag_get (i2c_periph d) flag m = RESET) (new_meter (i2c_now w s)) s"

definition wait_stop :: "'h i2c_world \<Rightarrow> hal_i2c \<Rightarrow> time_meter \<Rightarrow> 'h i2c_st \<Rightarrow> (bool \<times> 'h i2c_st) option" where
  "wait_stop w d meter s = i2c_wait w (\<lambda>m. m (I2C_CTL0 (i2c_periph d)) AND 0x0200 \<noteq> 0) meter s"

definition I2C_Init :: "u32 \<Rightarrow> u32 \<Rightarrow> u32 \<Rightarrow> u32 \<Rightarrow> u32 \<Rightarrow> mem \<Rightarrow> (hal_i2c \<times> mem) option" where
  "I2C_Init port' pinSCL pinSDA periph address m =
    (let (scl, m) = PinI2C_Init port' pinSCL GPIO_MODE_AF_PP m;
         (sda, m) = PinI2C_Init port' pinSDA GPIO_MODE_AF_OD m
      in do {
        m \<leftarrow> i2c_clock_config periph I2C_SPEED I2C_DTCY_2 m;
        let m = i2c_mode_addr_config periph I2C_I2CMODE_ENABLE I2C_ADDFORMAT_7BITS address m;
        let m = i2c_enable periph m;
        let m = i2c_ack_config periph I2C_ACK_ENABLE m;
        Some (\<lparr>i2c_scl = scl, i2c_sda = sda, i2c_periph = periph, i2c_address = address\<rparr>, m)
      })"

fun write_loop :: "'h i2c_world \<Rightarrow> hal_i2c \<Rightarrow> u8 list \<Rightarrow> 'h i2c_st \<Rightarrow> (bool \<times> 'h i2c_st) option" where
  "write_loop w d [] s = Some (True, s)"
| "write_loop w d (b # bs) s = do {
     (ok, s) \<leftarrow> WaitFlagNo w d I2C_FLAG_TBE (send_data d b s);
     if ok then write_loop w d bs s else Some (False, s)
   }"

definition I2C_Write ::
    "'h i2c_world \<Rightarrow> hal_i2c \<Rightarrow> u8 \<Rightarrow> u8 list \<Rightarrow> 'h i2c_st \<Rightarrow> (bool \<times> 'h i2c_st) option" where
  "I2C_Write w d command data s = do {
     let meter = new_meter (i2c_now w s);
     (_, s) \<leftarrow> WaitFlagYes w d I2C_FLAG_I2CBSY (req_stop d s);
     (_, s) \<leftarrow> WaitFlagNo w d I2C_FLAG_SBSEND (req_start d s);
     (_, s) \<leftarrow> WaitFlagNo w d I2C_FLAG_ADDSEND (send_address d I2C_TRANSMITTER s);
     let s = on_regs (i2c_ack_config (i2c_periph d) I2C_ACK_DISABLE) s;
     let s = on_regs (i2c_flag_clear (i2c_periph d) I2C_FLAG_ADDSEND) s;
     (_, s) \<leftarrow> WaitFlagNo w d I2C_FLAG_TBE (send_data d command s);
     (result, s) \<leftarrow> write_loop w d data s;
     (ok, s) \<leftarrow> wait_stop w d meter (req_stop d s);
     Some (result \<and> ok, on_regs (i2c_ack_config (i2c_periph d) I2C_ACK_ENABLE) s)
   }"

text \<open>
  \<open>receive\<close> is the wait for a byte and its store; \<open>buf\<close> is the caller's array, and a store outside it gives \<open>None\<close>.
\<close>

definition receive ::
    "'h i2c_world \<Rightarrow> hal_i2c \<Rightarrow> time_meter \<Rightarrow> nat \<Rightarrow> bool \<Rightarrow> u8 list \<Rightarrow> 'h i2c_st \<Rightarrow> ((bool \<times> u8 list) \<times> 'h i2c_st) option" where
  "receive w d meter i result buf s = do {
     (ok, s) \<leftarrow> i2c_wait w (\<lambda>m. i2c_flag_get (i2c_periph d) I2C_FLAG_RBNE m = RESET) meter s;
     if i < length buf then Some ((result \<and> ok, buf[i := i2c_data_receive (i2c_periph d) (i2c_regs s)]), s) else None
   }"

definition last_byte :: "hal_i2c \<Rightarrow> 'h i2c_st \<Rightarrow> 'h i2c_st" where
  "last_byte d s = req_stop d (on_regs (i2c_ack_config (i2c_periph d) I2C_ACK_DISABLE) s)"

fun read_loop ::
    "'h i2c_world \<Rightarrow> hal_i2c \<Rightarrow> time_meter \<Rightarrow> nat \<Rightarrow> nat list \<Rightarrow> bool \<Rightarrow> u8 list \<Rightarrow> 'h i2c_st \<Rightarrow>
      ((bool \<times> u8 list) \<times> 'h i2c_st) option" where
  "read_loop w d meter len [] result buf s = Some ((result, buf), s)"
| "read_loop w d meter len (i # is) result buf s = do {
     ((result, buf), s) \<leftarrow> receive w d meter i result buf (if Suc i = len then last_byte d s else s);
     read_loop w d meter len is result buf s
   }"

definition I2C_Read ::
    "'h i2c_world \<Rightarrow> hal_i2c \<Rightarrow> u8 \<Rightarrow> u8 list \<Rightarrow> u16 \<Rightarrow> 'h i2c_st \<Rightarrow> ((bool \<times> u8 list) \<times> 'h i2c_st) option" where
  "I2C_Read w d reg buf len s = do {
     let meter = new_meter (i2c_now w s);
     (_, s) \<leftarrow> WaitFlagYes w d I2C_FLAG_I2CBSY (req_stop d s);
     (_, s) \<leftarrow> WaitFlagNo w d I2C_FLAG_SBSEND (req_start d s);
     (_, s) \<leftarrow> WaitFlagNo w d I2C_FLAG_ADDSEND (send_address d I2C_TRANSMITTER s);
     let s = on_regs (i2c_flag_clear (i2c_periph d) I2C_FLAG_ADDSEND) s;
     (_, s) \<leftarrow> WaitFlagNo w d I2C_FLAG_TBE (send_data d reg s);
     (_, s) \<leftarrow> WaitFlagNo w d I2C_FLAG_SBSEND (req_start d s);
     (_, s) \<leftarrow> WaitFlagNo w d I2C_FLAG_ADDSEND (send_address d I2C_RECEIVER s);
     let s = on_regs (i2c_flag_clear (i2c_periph d) I2C_FLAG_ADDSEND) s;
     ((result, buf), s) \<leftarrow>
       (if len = 1 then receive w d meter 0 True buf (last_byte d s)
        else read_loop w d meter (unat len) [0..<unat len] True buf s);
     (ok, s) \<leftarrow> wait_stop w d meter (req_stop d s);
     Some ((result \<and> ok, buf), on_regs (i2c_ack_config (i2c_periph d) I2C_ACK_ENABLE) s)
   }"

section \<open>The error interrupt\<close>

abbreviation I2C_INT_FLAG_BERR :: u32 where "I2C_INT_FLAG_BERR \<equiv> 0x5080108"
abbreviation I2C_INT_FLAG_LOSTARB :: u32 where "I2C_INT_FLAG_LOSTARB \<equiv> 0x5090108"
abbreviation I2C_INT_FLAG_AERR :: u32 where "I2C_INT_FLAG_AERR \<equiv> 0x50A0108"
abbreviation I2C_INT_FLAG_OUERR :: u32 where "I2C_INT_FLAG_OUERR \<equiv> 0x50B0108"
abbreviation I2C_INT_FLAG_PECERR :: u32 where "I2C_INT_FLAG_PECERR \<equiv> 0x50C0108"
abbreviation I2C_INT_FLAG_SMBTO :: u32 where "I2C_INT_FLAG_SMBTO \<equiv> 0x50E0108"
abbreviation I2C_INT_FLAG_SMBALT :: u32 where "I2C_INT_FLAG_SMBALT \<equiv> 0x50F0108"
abbreviation I2C_INT_ERR :: u32 where "I2C_INT_ERR \<equiv> 0x108"
abbreviation I2C_INT_EV :: u32 where "I2C_INT_EV \<equiv> 0x109"
abbreviation I2C_INT_BUF :: u32 where "I2C_INT_BUF \<equiv> 0x10A"

definition clear_if_set :: "u32 \<Rightarrow> mem \<Rightarrow> mem" where
  "clear_if_set int_flag m =
    (if i2c_interrupt_flag_get I2C0 int_flag m \<noteq> RESET then i2c_interrupt_flag_clear I2C0 int_flag m else m)"

definition I2C0_ER_IRQHandler :: "mem \<Rightarrow> mem" where
  "I2C0_ER_IRQHandler m =
    (let m = clear_if_set I2C_INT_FLAG_AERR m;
         m = clear_if_set I2C_INT_FLAG_SMBALT m;
         m = clear_if_set I2C_INT_FLAG_SMBTO m;
         m = clear_if_set I2C_INT_FLAG_OUERR m;
         m = clear_if_set I2C_INT_FLAG_LOSTARB m;
         m = clear_if_set I2C_INT_FLAG_BERR m;
         m = clear_if_set I2C_INT_FLAG_PECERR m;
         m = i2c_interrupt_disable I2C0 I2C_INT_ERR m;
         m = i2c_interrupt_disable I2C0 I2C_INT_BUF m
      in i2c_interrupt_disable I2C0 I2C_INT_EV m)"

section \<open>Waits end\<close>

text \<open>
  The hypothesis on the clock: from one read to the next the counter stays or goes on by one, modulo \<open>2 ^ 32\<close>, and it does not stay forever.
\<close>

definition bus_runs :: "'h i2c_world \<Rightarrow> nat \<Rightarrow> 'h \<times> mem \<Rightarrow> 'h \<times> mem" where
  "bus_runs w n = (\<lambda>(h, m). bus_run w h m) ^^ n"

definition clock_ticks :: "'h i2c_world \<Rightarrow> bool" where
  "clock_ticks w \<longleftrightarrow>
     (\<forall>h m. time_ms w (fst (bus_run w h m)) = time_ms w h \<or> time_ms w (fst (bus_run w h m)) = time_ms w h + 1) \<and>
     (\<forall>h m. \<exists>n. time_ms w (fst (bus_runs w n (h, m))) \<noteq> time_ms w h)"

lemma bus_step_simps [simp]:
  "i2c_hw (bus_step w s) = fst (bus_run w (i2c_hw s) (i2c_regs s))"
  "i2c_regs (bus_step w s) = snd (bus_run w (i2c_hw s) (i2c_regs s))"
  "i2c_reqs (bus_step w s) = i2c_reqs s"
  by (simp_all add: bus_step_def split: prod.split)

lemma bus_runs_0 [simp]: "bus_runs w 0 x = x"
  by (simp add: bus_runs_def)

lemma bus_runs_Suc: "bus_runs w (Suc n) (h, m) = bus_runs w n (bus_run w h m)"
  by (simp add: bus_runs_def funpow_swap1)

lemma bus_runs_add: "bus_runs w (i + j) x = bus_runs w j (bus_runs w i x)"
  by (subst add.commute) (simp add: bus_runs_def funpow_add)

lemma bus_runs_step:
  "bus_runs w (Suc n) (i2c_hw s, i2c_regs s) = bus_runs w n (i2c_hw (bus_step w s), i2c_regs (bus_step w s))"
  by (simp add: bus_runs_Suc)

text \<open>The counter passes through every value.\<close>

lemma clock_next:
  assumes "clock_ticks w"
  shows "\<exists>n. time_ms w (fst (bus_runs w n x)) = time_ms w (fst x) + 1"
proof -
  obtain h m where x: "x = (h, m)" by (cases x)
  obtain n where "time_ms w (fst (bus_runs w n (h, m))) \<noteq> time_ms w h" using assms unfolding clock_ticks_def by blast
  then show ?thesis unfolding x
  proof (induction n arbitrary: h m)
    case 0
    then show ?case by simp
  next
    case (Suc n)
    obtain h' m' where r: "bus_run w h m = (h', m')" by (cases "bus_run w h m")
    consider "time_ms w h' = time_ms w h" | "time_ms w h' = time_ms w h + 1"
      using assms r by (metis clock_ticks_def fst_conv)
    then show ?case
    proof cases
      case 1
      then have "\<exists>n. time_ms w (fst (bus_runs w n (h', m'))) = time_ms w (fst (h', m')) + 1"
        using Suc.prems r by (intro Suc.IH) (simp add: bus_runs_Suc)
      then obtain k where "time_ms w (fst (bus_runs w k (h', m'))) = time_ms w h' + 1" by auto
      then show ?thesis using 1 r by (intro exI[of _ "Suc k"]) (simp add: bus_runs_Suc)
    next
      case 2
      then show ?thesis using r by (intro exI[of _ "Suc 0"]) (simp add: bus_runs_Suc)
    qed
  qed
qed

lemma clock_reaches:
  assumes "clock_ticks w"
  shows "\<exists>n. time_ms w (fst (bus_runs w n x)) = time_ms w (fst x) + of_nat k"
proof (induction k)
  case 0
  show ?case by (intro exI[of _ 0]) simp
next
  case (Suc k)
  then obtain n where n: "time_ms w (fst (bus_runs w n x)) = time_ms w (fst x) + of_nat k" by blast
  obtain j where "time_ms w (fst (bus_runs w j (bus_runs w n x))) = time_ms w (fst (bus_runs w n x)) + 1"
    using clock_next[OF assms] by blast
  then show ?case using n by (intro exI[of _ "n + j"]) (simp add: bus_runs_add ac_simps(1)[of _ 1])
qed

lemma i2c_wait_returns:
  assumes "ElapsedTime (time_ms w (fst (bus_runs w (Suc n) (i2c_hw s, i2c_regs s)))) meter > I2C_TIMEOUT"
  shows "\<exists>ok s'. i2c_wait w busy meter s = Some (ok, s') \<and> i2c_reqs s' = i2c_reqs s"
  using assms
proof (induction n arbitrary: s)
  case 0
  then show ?case by (subst i2c_wait.simps) (auto simp: Let_def i2c_now_def bus_runs_Suc)
next
  case (Suc n)
  show ?case
  proof (cases "busy (i2c_regs (bus_step w s)) \<and> \<not> ElapsedTime (i2c_now w (bus_step w s)) meter > I2C_TIMEOUT")
    case True
    then show ?thesis using Suc.IH[of "bus_step w s"] Suc.prems
      by (subst i2c_wait.simps) (simp add: Let_def bus_runs_step[of w "Suc n"])
  next
    case False
    then show ?thesis by (subst i2c_wait.simps) (auto simp: Let_def)
  qed
qed

lemma i2c_wait_ends:
  assumes "clock_ticks w"
  shows "\<exists>ok s'. i2c_wait w busy meter s = Some (ok, s') \<and> i2c_reqs s' = i2c_reqs s"
proof -
  define x where "x = bus_run w (i2c_hw s) (i2c_regs s)"
  define k where "k = unat (time_reset meter + 11 - time_ms w (fst x))"
  obtain n where "time_ms w (fst (bus_runs w n x)) = time_ms w (fst x) + of_nat k" using clock_reaches[OF assms] by blast
  then have "time_ms w (fst (bus_runs w (Suc n) (i2c_hw s, i2c_regs s))) = time_reset meter + 11"
    by (simp add: bus_runs_Suc x_def k_def)
  then show ?thesis by (intro i2c_wait_returns[of w n]) (simp add: ElapsedTime_def)
qed


lemma unat_add_le: "unat (a + b) \<le> unat a + unat b" for a b :: u32
  by (simp add: unat_word_ariths)

lemma passed_trans: "unat (b - a) \<le> i \<Longrightarrow> unat (c - b) \<le> j \<Longrightarrow> unat (c - a) \<le> i + j" for a b c :: u32
  using unat_add_le[of "c - b" "b - a"] by simp

definition wait_bound :: "u32 \<Rightarrow> nat" where
  "wait_bound e = (if unat e \<le> 10 then 11 - unat e else if e + 1 = 0 then 12 else 1)"

lemma wait_bound_step:
  assumes "unat (e + 1) \<le> 10"
  shows "wait_bound (e + 1) + 1 \<le> wait_bound e"
proof (cases "e + 1 = 0")
  case True
  then have "e = - 1" by (simp add: eq_neg_iff_add_eq_0)
  also have "\<dots> = 0xFFFFFFFF" by simp
  finally show ?thesis by (simp add: wait_bound_def)
next
  case False
  then have "unat (e + 1) = unat e + 1" by (simp add: unatSuc add.commute)
  then show ?thesis using assms by (simp add: wait_bound_def)
qed

lemma wait_bound_pos: "1 \<le> wait_bound e"
  by (auto simp: wait_bound_def)

lemma wait_bound_le: "wait_bound e \<le> 12"
  by (auto simp: wait_bound_def)

lemma i2c_wait_time:
  assumes "clock_ticks w" "i2c_wait w busy meter s = Some r"
  shows "unat (i2c_now w (snd r) - i2c_now w s) \<le> wait_bound (ElapsedTime (i2c_now w s) meter)"
proof -
  have "clock_ticks w \<longrightarrow> unat (i2c_now w (snd r) - i2c_now w s) \<le> wait_bound (ElapsedTime (i2c_now w s) meter)"
  proof (rule i2c_wait.raw_induct[OF _ assms(2)], intro impI)
    fix f :: "'a i2c_world \<Rightarrow> (mem \<Rightarrow> bool) \<Rightarrow> time_meter \<Rightarrow> 'a i2c_st \<Rightarrow> (bool \<times> 'a i2c_st) option" and w busy meter s y
    assume IH: "\<And>w busy meter s y. f w busy meter s = Some y \<Longrightarrow>
        clock_ticks w \<longrightarrow> unat (i2c_now w (snd y) - i2c_now w s) \<le> wait_bound (ElapsedTime (i2c_now w s) meter)"
      and st: "(let s = bus_step w s in if busy (i2c_regs s) then
          if I2C_TIMEOUT < ElapsedTime (i2c_now w s) meter then Some (False, s) else f w busy meter s else Some (True, s)) = Some y"
      and c: "clock_ticks w"
    let ?e = "ElapsedTime (i2c_now w s) meter"
    let ?s = "bus_step w s"
    consider "i2c_now w ?s = i2c_now w s" | "i2c_now w ?s = i2c_now w s + 1"
      using c unfolding clock_ticks_def i2c_now_def bus_step_simps by blast
    then have 1: "unat (i2c_now w ?s - i2c_now w s) \<le> 1" and
      2: "ElapsedTime (i2c_now w ?s) meter = ?e \<and> i2c_now w ?s = i2c_now w s \<or> ElapsedTime (i2c_now w ?s) meter = ?e + 1"
      by (cases, auto simp: ElapsedTime_def)+
    show "unat (i2c_now w (snd y) - i2c_now w s) \<le> wait_bound ?e"
    proof (cases "busy (i2c_regs ?s) \<and> \<not> I2C_TIMEOUT < ElapsedTime (i2c_now w ?s) meter")
      case True
      then have "f w busy meter ?s = Some y" using st by (simp add: Let_def)
      from IH[OF this] c have ih: "unat (i2c_now w (snd y) - i2c_now w ?s) \<le> wait_bound (ElapsedTime (i2c_now w ?s) meter)" by blast
      have le: "unat (ElapsedTime (i2c_now w ?s) meter) \<le> 10" using True by (simp add: word_less_nat_alt)
      from 2 show ?thesis
      proof
        assume "ElapsedTime (i2c_now w ?s) meter = ?e \<and> i2c_now w ?s = i2c_now w s"
        then show ?thesis using ih by simp
      next
        assume e: "ElapsedTime (i2c_now w ?s) meter = ?e + 1"
        then show ?thesis using wait_bound_step[of ?e] le ih passed_trans[OF 1 ih] by simp
      qed
    next
      case False
      then have "snd y = ?s" using st by (auto simp: Let_def split: if_splits)
      then show ?thesis using 1 wait_bound_pos[of ?e] by simp
    qed
  qed
  then show ?thesis using assms(1) by blast
qed

section \<open>Transfers\<close>

text \<open>
  \<open>goes w t P s x\<close>: the operation that gave \<open>x\<close> returns, has asked for \<open>rs\<close> and given the result \<open>r\<close> with \<open>P r rs\<close>, and has
  taken at most \<open>t\<close> milliseconds.
\<close>

definition goes ::
    "'h i2c_world \<Rightarrow> nat \<Rightarrow> ('r \<Rightarrow> i2c_req list \<Rightarrow> bool) \<Rightarrow> 'h i2c_st \<Rightarrow> ('r \<times> 'h i2c_st) option \<Rightarrow> bool" where
  "goes w t P s x \<longleftrightarrow>
     (\<exists>r s' rs. x = Some (r, s') \<and> i2c_reqs s' = i2c_reqs s @ rs \<and> P r rs \<and> unat (i2c_now w s' - i2c_now w s) \<le> t)"

text \<open>The same for a state that is reached at most \<open>e\<close> milliseconds after the time \<open>t0\<close>.\<close>

definition goes_from ::
    "'h i2c_world \<Rightarrow> u32 \<Rightarrow> nat \<Rightarrow> nat \<Rightarrow> ('r \<Rightarrow> i2c_req list \<Rightarrow> bool) \<Rightarrow> 'h i2c_st \<Rightarrow> ('r \<times> 'h i2c_st) option \<Rightarrow> bool" where
  "goes_from w t0 e t P s x \<longleftrightarrow> (unat (i2c_now w s - t0) \<le> e \<longrightarrow> goes w t P s x)"

lemma goes_from_0: "goes_from w (i2c_now w s) 0 t P s x \<Longrightarrow> goes w t P s x"
  by (simp add: goes_from_def)

lemma from_goes: "goes w t P s x \<Longrightarrow> goes_from w t0 e t P s x"
  by (simp add: goes_from_def)

lemma from_bind:
  assumes "goes_from w t0 e t P s x" "\<And>r rs s'. P r rs \<Longrightarrow> goes_from w t0 (e + t) t' (\<lambda>r' rs'. Q r' (rs @ rs')) s' (f (r, s'))"
  shows "goes_from w t0 e (t + t') Q s (x \<bind> f)"
  unfolding goes_from_def
proof
  assume e: "unat (i2c_now w s - t0) \<le> e"
  obtain r s' rs where x: "x = Some (r, s')" "i2c_reqs s' = i2c_reqs s @ rs" "P r rs" "unat (i2c_now w s' - i2c_now w s) \<le> t"
    using assms(1) e by (auto simp: goes_def goes_from_def)
  have "goes w t' (\<lambda>r' rs'. Q r' (rs @ rs')) s' (f (r, s'))"
    using assms(2)[OF x(3), of s'] passed_trans[OF e x(4)] by (simp add: goes_from_def)
  then obtain r' s'' rs' where f: "f (r, s') = Some (r', s'')" "i2c_reqs s'' = i2c_reqs s' @ rs'" "Q r' (rs @ rs')"
      "unat (i2c_now w s'' - i2c_now w s') \<le> t'" by (auto simp: goes_def)
  show "goes w (t + t') Q s (x \<bind> f)" unfolding goes_def
    using x f passed_trans[OF x(4) f(4)] by (intro exI[of _ r'] exI[of _ s''] exI[of _ "rs @ rs'"]) simp
qed

lemma goes_bind:
  assumes "goes w t P s x" "\<And>r rs s'. P r rs \<Longrightarrow> goes w t' (\<lambda>r' rs'. Q r' (rs @ rs')) s' (f (r, s'))"
  shows "goes w (t + t') Q s (x \<bind> f)"
  by (rule goes_from_0, rule from_bind[OF from_goes[OF assms(1)]]) (simp add: goes_from_def assms(2))

lemma goes_mono: "goes w t P s x \<Longrightarrow> t \<le> t' \<Longrightarrow> (\<And>r rs. P r rs \<Longrightarrow> Q r rs) \<Longrightarrow> goes w t' Q s x"
  unfolding goes_def using le_trans by blast

lemma goes_Some: "P r [] \<Longrightarrow> goes w 0 P s (Some (r, s))"
  by (simp add: goes_def)

text \<open>What an operation does before a wait counts as part of it.\<close>

lemma goes_regs: "goes w t P (on_regs f s) x = goes w t P s x"
  by (simp add: goes_def on_regs_def i2c_now_def)

lemma goes_after:
  assumes "i2c_hw s' = i2c_hw s" "i2c_reqs s' = i2c_reqs s @ qs" "goes w t (\<lambda>r rs. P r (qs @ rs)) s' x"
  shows "goes w t P s x"
  using assms unfolding goes_def i2c_now_def by fastforce

lemma goes_start: "goes w t (\<lambda>r rs. P r (Start # rs)) (req_start d s) x \<Longrightarrow> goes w t P s x"
  by (rule goes_after[of "req_start d s" s "[Start]"]) (simp_all add: req_start_def on_regs_def)

lemma goes_stop: "goes w t (\<lambda>r rs. P r (Stop # rs)) (req_stop d s) x \<Longrightarrow> goes w t P s x"
  by (rule goes_after[of "req_stop d s" s "[Stop]"]) (simp_all add: req_stop_def on_regs_def)

lemma goes_last_byte: "goes w t (\<lambda>r rs. P r (Stop # rs)) (last_byte d s) x \<Longrightarrow> goes w t P s x"
  unfolding last_byte_def by (subst goes_regs[symmetric]) (rule goes_stop)

lemma data_low_byte: "ucast (0xFF AND (ucast b :: u32)) = (b :: u8)"
proof -
  have m: "(0xFF :: u32) = mask 8" by (simp add: mask_eq_exp_minus_1)
  show ?thesis unfolding m by (rule bit_word_eqI) (simp only: bit_simps, simp)
qed

lemma goes_data: "goes w t (\<lambda>r rs. P r (Byte b # rs)) (send_data d b s) x \<Longrightarrow> goes w t P s x"
  by (rule goes_after[of "send_data d b s" s "[Byte b]"])
    (simp_all add: send_data_def req_byte_def i2c_data_transmit_def Let_def data_low_byte)

definition address_byte :: "hal_i2c \<Rightarrow> u32 \<Rightarrow> u8" where
  "address_byte d direction = ucast (if direction = I2C_TRANSMITTER then i2c_address d AND I2C_TRANSMITTER else i2c_address d OR I2C_RECEIVER)"

lemma goes_address: "goes w t (\<lambda>r rs. P r (Byte (address_byte d dir) # rs)) (send_address d dir s) x \<Longrightarrow> goes w t P s x"
  by (rule goes_after[of "send_address d dir s" s "[Byte (address_byte d dir)]"])
    (simp_all add: send_address_def req_byte_def i2c_master_addressing_def Let_def address_byte_def)

lemma goes_wait: "clock_ticks w \<Longrightarrow> goes w 12 (\<lambda>r rs. rs = []) s (i2c_wait w busy meter s)"
  using i2c_wait_ends[of w busy meter s] i2c_wait_time[of w busy meter s] wait_bound_le[of "ElapsedTime (i2c_now w s) meter"]
  unfolding goes_def by fastforce

lemma goes_yes: "clock_ticks w \<Longrightarrow> goes w 12 (\<lambda>r rs. rs = []) s (WaitFlagYes w d flag s)"
  unfolding WaitFlagYes_def by (rule goes_wait)

lemma goes_no: "clock_ticks w \<Longrightarrow> goes w 12 (\<lambda>r rs. rs = []) s (WaitFlagNo w d flag s)"
  unfolding WaitFlagNo_def by (rule goes_wait)

lemma sent_Cons:
  assumes "\<exists>k \<le> length bs. rs = map Byte (take k bs) \<and> (ok \<longrightarrow> k = length bs)"
  shows "\<exists>k \<le> length (b # bs). Byte b # rs = map Byte (take k (b # bs)) \<and> (ok \<longrightarrow> k = length (b # bs))"
proof -
  obtain k where "k \<le> length bs" "rs = map Byte (take k bs)" "ok \<longrightarrow> k = length bs" using assms by blast
  then show ?thesis by (intro exI[of _ "Suc k"]) simp
qed

lemma goes_write_loop:
  assumes "clock_ticks w"
  shows "goes w (12 * length bs) (\<lambda>ok rs. \<exists>k \<le> length bs. rs = map Byte (take k bs) \<and> (ok \<longrightarrow> k = length bs)) s (write_loop w d bs s)"
proof (induction bs arbitrary: s)
  case Nil
  show ?case by (simp add: goes_Some)
next
  case (Cons b bs)
  have "goes w (12 + 12 * length bs)
     (\<lambda>ok rs. \<exists>k \<le> length (b # bs). rs = map Byte (take k (b # bs)) \<and> (ok \<longrightarrow> k = length (b # bs))) s (write_loop w d (b # bs) s)"
    unfolding write_loop.simps
  proof (rule goes_data[of _ _ _ b d], rule goes_bind[OF goes_no[OF assms]])
    fix r rs s' assume rs: "rs = ([] :: i2c_req list)"
    let ?Q = "\<lambda>r' rs'. \<exists>k \<le> length (b # bs). Byte b # rs @ rs' = map Byte (take k (b # bs)) \<and> (r' \<longrightarrow> k = length (b # bs))"
    have "goes w (12 * length bs) ?Q s' (if r then write_loop w d bs s' else Some (False, s'))"
    proof (cases r)
      case True
      have "goes w (12 * length bs) ?Q s' (write_loop w d bs s')"
        by (rule goes_mono[OF Cons.IH]) (use rs sent_Cons in simp_all)
      then show ?thesis using True by simp
    next
      case False
      have "goes w (12 * length bs) ?Q s' (Some (False, s'))"
        by (rule goes_mono[OF goes_Some[of "\<lambda>ok rs. rs = [] \<and> \<not> ok"]]) (use rs in \<open>auto intro!: exI[of _ "Suc 0"]\<close>)
      then show ?thesis using False by simp
    qed
    then show "goes w (12 * length bs) ?Q s' (case (r, s') of (ok, s) \<Rightarrow> if ok then write_loop w d bs s else Some (False, s))" by simp
  qed
  then show ?case by simp
qed

lemma goes_step:
  assumes "goes w t (\<lambda>r rs. rs = []) s x" "\<And>r s'. goes w t' Q s' (f r s')"
  shows "goes w (t + t') Q s (x \<bind> (\<lambda>(r, s). f r s))"
  by (rule goes_bind[OF assms(1)]) (simp add: assms(2))

lemma goes_I2C_Write:
  assumes "clock_ticks w"
  shows "goes w (12 * (length data + 5))
     (\<lambda>ok rs. \<exists>k \<le> length data. (ok \<longrightarrow> k = length data) \<and>
        rs = [Stop, Start, Byte (address_byte d I2C_TRANSMITTER), Byte command] @ map Byte (take k data) @ [Stop])
     s (I2C_Write w d command data s)"
proof -
  have "goes w (12 + (12 + (12 + (12 + (12 * length data + (12 + 0))))))
     (\<lambda>ok rs. \<exists>k \<le> length data. (ok \<longrightarrow> k = length data) \<and>
        rs = [Stop, Start, Byte (address_byte d I2C_TRANSMITTER), Byte command] @ map Byte (take k data) @ [Stop])
     s (I2C_Write w d command data s)"
    unfolding I2C_Write_def Let_def wait_stop_def
    apply (rule goes_stop, rule goes_step[OF goes_yes[OF assms]])
    apply (rule goes_start, rule goes_step[OF goes_no[OF assms]])
    apply (rule goes_address, rule goes_step[OF goes_no[OF assms]])
    apply (subst goes_regs[symmetric], subst goes_regs[symmetric])
    apply (rule goes_data, rule goes_step[OF goes_no[OF assms]])
    apply (rule goes_bind[OF goes_write_loop[OF assms]])
    apply (simp only: prod.case)
    apply (rule goes_stop, rule goes_step[OF goes_wait[OF assms]])
    apply (subst goes_regs[symmetric], rule goes_Some)
    apply auto
    done
  then show ?thesis by (simp add: algebra_simps)
qed

lemma goes_receive:
  assumes "clock_ticks w" "i < length buf"
  shows "goes w 12 (\<lambda>r rs. rs = [] \<and> length (snd r) = length buf \<and> (\<forall>j. j \<noteq> i \<longrightarrow> snd r ! j = buf ! j)) s
     (receive w d meter i result buf s)"
proof -
  have "goes w (12 + 0) (\<lambda>r rs. rs = [] \<and> length (snd r) = length buf \<and> (\<forall>j. j \<noteq> i \<longrightarrow> snd r ! j = buf ! j)) s
     (receive w d meter i result buf s)"
    unfolding receive_def by (rule goes_step[OF goes_wait[OF assms(1)]]) (simp add: assms(2) goes_Some)
  then show ?thesis by simp
qed

lemma goes_read_loop:
  assumes "clock_ticks w" "n \<le> length buf" "i \<le> n"
  shows "goes w (12 * (n - i)) (\<lambda>r rs. rs = (if i < n then [Stop] else []) \<and> length (snd r) = length buf \<and> (\<forall>j. n \<le> j \<longrightarrow> snd r ! j = buf ! j)) s
     (read_loop w d meter n [i..<n] result buf s)"
  using assms(2,3)
proof (induction "n - i" arbitrary: i result buf s)
  case 0
  then show ?case by (simp add: goes_Some)
next
  case (Suc m)
  then have i: "i < n" "i < length buf" "m = n - Suc i" by simp_all
  let ?Q = "\<lambda>r rs. rs = (if i < n then [Stop] else []) \<and> length (snd r) = length buf \<and> (\<forall>j. n \<le> j \<longrightarrow> snd r ! j = buf ! j)"
  let ?s = "if Suc i = n then last_byte d s else s"
  let ?R = "\<lambda>r rs. rs = (if Suc i < n then [Stop] else []) \<and> length (snd r) = length buf \<and> (\<forall>j. n \<le> j \<longrightarrow> snd r ! j = buf ! j)"
  have step: "goes w (12 + 12 * (n - Suc i)) ?R ?s (read_loop w d meter n (i # [Suc i..<n]) result buf s)"
    unfolding read_loop.simps
  proof (rule goes_bind[OF goes_receive[OF assms(1) i(2)]])
    fix r :: "bool \<times> u8 list" and s' and rs :: "i2c_req list"
    assume r: "rs = [] \<and> length (snd r) = length buf \<and> (\<forall>j. j \<noteq> i \<longrightarrow> snd r ! j = buf ! j)"
    have "goes w (12 * (n - Suc i)) (\<lambda>r' rs. rs = (if Suc i < n then [Stop] else []) \<and> length (snd r') = length (snd r) \<and>
        (\<forall>j. n \<le> j \<longrightarrow> snd r' ! j = snd r ! j)) s' (read_loop w d meter n [Suc i..<n] (fst r) (snd r) s')"
      using Suc.hyps(1)[of "Suc i" "snd r"] i r Suc.prems by simp
    then show "goes w (12 * (n - Suc i)) (\<lambda>r' rs'. ?R r' (rs @ rs')) s'
       ((\<lambda>((result, buf), s). read_loop w d meter n [Suc i..<n] result buf s) (r, s'))"
      using r i(1) by (auto simp: split_beta elim!: goes_mono)
  qed
  have "goes w (12 + 12 * (n - Suc i)) ?Q s (read_loop w d meter n (i # [Suc i..<n]) result buf s)"
  proof (cases "Suc i = n")
    case True
    then show ?thesis using step by (intro goes_last_byte[of w _ _ d s]) simp
  next
    case False
    then show ?thesis using step i by simp
  qed
  then show ?case using i by (simp add: upt_conv_Cons Suc_diff_Suc[symmetric])
qed

definition read_requests :: "hal_i2c \<Rightarrow> u8 \<Rightarrow> nat \<Rightarrow> i2c_req list" where
  "read_requests d reg n =
    [Stop, Start, Byte (address_byte d I2C_TRANSMITTER), Byte reg, Start, Byte (address_byte d I2C_RECEIVER)] @
    (if 0 < n then [Stop] else []) @ [Stop]"

lemma goes_receive_all:
  assumes "clock_ticks w" "unat len \<le> length buf"
  shows "goes w (12 * unat len)
     (\<lambda>r rs. rs = (if 0 < unat len then [Stop] else []) \<and> length (snd r) = length buf \<and> (\<forall>j. unat len \<le> j \<longrightarrow> snd r ! j = buf ! j)) s
     (if len = 1 then receive w d meter 0 True buf (last_byte d s) else read_loop w d meter (unat len) [0..<unat len] True buf s)"
proof (cases "len = 1")
  case True
  then have "0 < length buf" using assms(2) by auto
  then have "goes w 12 (\<lambda>r rs. rs = [] \<and> length (snd r) = length buf \<and> (\<forall>j. 1 \<le> j \<longrightarrow> snd r ! j = buf ! j)) (last_byte d s)
      (receive w d meter 0 True buf (last_byte d s))"
    by (rule goes_mono[OF goes_receive[OF assms(1)]]) auto
  then show ?thesis using True by (intro goes_last_byte[of w _ _ d s]) simp
next
  case False
  then show ?thesis using goes_read_loop[OF assms, of 0] by simp
qed

lemma goes_I2C_Read:
  assumes "clock_ticks w" "unat len \<le> length buf"
  shows "goes w (12 * (unat len + 7))
     (\<lambda>r rs. rs = read_requests d reg (unat len) \<and> length (snd r) = length buf \<and> (\<forall>j. unat len \<le> j \<longrightarrow> snd r ! j = buf ! j)) s
     (I2C_Read w d reg buf len s)"
proof -
  note no = goes_step[OF goes_no[OF assms(1)]]
  have "goes w (12 + (12 + (12 + (12 + (12 + (12 + (12 * unat len + (12 + 0))))))))
     (\<lambda>r rs. rs = read_requests d reg (unat len) \<and> length (snd r) = length buf \<and> (\<forall>j. unat len \<le> j \<longrightarrow> snd r ! j = buf ! j)) s
     (I2C_Read w d reg buf len s)"
    unfolding I2C_Read_def Let_def wait_stop_def
    apply (rule goes_stop, rule goes_step[OF goes_yes[OF assms(1)]])
    apply (rule goes_start, rule no)
    apply (rule goes_address, rule no)
    apply (subst goes_regs[symmetric], rule goes_data, rule no)
    apply (rule goes_start, rule no)
    apply (rule goes_address, rule no)
    apply (subst goes_regs[symmetric], rule goes_bind[OF goes_receive_all[OF assms]])
    apply (simp only: split_beta fst_conv snd_conv)
    apply (rule goes_stop, rule goes_step[OF goes_wait[OF assms(1)]])
    apply (subst goes_regs[symmetric], rule goes_Some)
    apply (simp add: read_requests_def)
    done
  then show ?thesis by (simp add: algebra_simps)
qed

section \<open>A bus that serves\<close>

text \<open>
  A device that is there: each condition that a wait of \<^verbatim>\<open>Write\<close> is for comes within a millisecond.
\<close>

definition i2c_busy :: "u32 \<Rightarrow> (mem \<Rightarrow> bool) set" where
  "i2c_busy p = {\<lambda>m. i2c_flag_get p I2C_FLAG_I2CBSY m = SET, \<lambda>m. i2c_flag_get p I2C_FLAG_SBSEND m = RESET,
     \<lambda>m. i2c_flag_get p I2C_FLAG_ADDSEND m = RESET, \<lambda>m. i2c_flag_get p I2C_FLAG_TBE m = RESET,
     \<lambda>m. m (I2C_CTL0 p) AND 0x0200 \<noteq> 0}"

definition bus_serves :: "'h i2c_world \<Rightarrow> u32 \<Rightarrow> bool" where
  "bus_serves w p \<longleftrightarrow> (\<forall>busy \<in> i2c_busy p. \<forall>h m. \<exists>n. \<not> busy (snd (bus_runs w (Suc n) (h, m))) \<and>
     (\<forall>i \<le> Suc n. unat (time_ms w (fst (bus_runs w i (h, m))) - time_ms w h) \<le> 1))"

lemma wait_served:
  assumes "\<not> busy (snd (bus_runs w (Suc n) (i2c_hw s, i2c_regs s)))"
    "\<And>i. i \<le> Suc n \<Longrightarrow> unat (time_ms w (fst (bus_runs w i (i2c_hw s, i2c_regs s))) - t) \<le> 1"
    "unat (t - time_reset meter) \<le> 9 \<or> \<not> in_time"
  shows "\<exists>ok s'. i2c_wait w busy meter s = Some (ok, s') \<and> i2c_reqs s' = i2c_reqs s \<and> (in_time \<longrightarrow> ok) \<and> unat (i2c_now w s' - t) \<le> 1"
  using assms(1,2)
proof (induction n arbitrary: s)
  case 0
  then show ?case using "0.prems"(2)[of "Suc 0"] by (subst i2c_wait.simps) (auto simp: Let_def bus_runs_Suc i2c_now_def)
next
  case (Suc n)
  let ?s = "bus_step w s"
  have now: "unat (i2c_now w ?s - t) \<le> 1" using Suc.prems(2)[of "Suc 0"] by (simp add: bus_runs_Suc i2c_now_def)
  have late: "\<not> in_time" if "I2C_TIMEOUT < ElapsedTime (i2c_now w ?s) meter"
    using that assms(3) passed_trans[OF _ now, of "time_reset meter" 9] by (auto simp: ElapsedTime_def word_less_nat_alt)
  show ?case
  proof (cases "busy (i2c_regs ?s) \<and> \<not> I2C_TIMEOUT < ElapsedTime (i2c_now w ?s) meter")
    case True
    have "\<exists>ok s'. i2c_wait w busy meter ?s = Some (ok, s') \<and> i2c_reqs s' = i2c_reqs ?s \<and> (in_time \<longrightarrow> ok) \<and> unat (i2c_now w s' - t) \<le> 1"
    proof (rule Suc.IH)
      show "\<not> busy (snd (bus_runs w (Suc n) (i2c_hw ?s, i2c_regs ?s)))" using Suc.prems(1) unfolding bus_runs_step[of w "Suc n" s] .
      show "unat (time_ms w (fst (bus_runs w i (i2c_hw ?s, i2c_regs ?s))) - t) \<le> 1" if "i \<le> Suc n" for i
        using Suc.prems(2)[of "Suc i"] that unfolding bus_runs_step[of w i s] by simp
    qed
    then show ?thesis using True by (subst i2c_wait.simps) (simp add: Let_def)
  next
    case False
    then show ?thesis using now late by (subst i2c_wait.simps) (auto simp: Let_def)
  qed
qed

lemma goes_served:
  assumes "bus_serves w p" "busy \<in> i2c_busy p"
  shows "goes_from w (time_reset meter) e 1 (\<lambda>ok rs. rs = [] \<and> (e \<le> 9 \<longrightarrow> ok)) s (i2c_wait w busy meter s)"
  unfolding goes_from_def
proof
  assume e: "unat (i2c_now w s - time_reset meter) \<le> e"
  obtain n where n: "\<not> busy (snd (bus_runs w (Suc n) (i2c_hw s, i2c_regs s)))"
      "\<And>i. i \<le> Suc n \<Longrightarrow> unat (time_ms w (fst (bus_runs w i (i2c_hw s, i2c_regs s))) - i2c_now w s) \<le> 1"
    using assms unfolding bus_serves_def i2c_now_def by blast
  have "unat (i2c_now w s - time_reset meter) \<le> 9 \<or> \<not> e \<le> 9" using e by linarith
  from wait_served[where busy = busy, OF n this] show "goes w 1 (\<lambda>ok rs. rs = [] \<and> (e \<le> 9 \<longrightarrow> ok)) s (i2c_wait w busy meter s)"
    unfolding goes_def by fastforce
qed

lemma fresh_served:
  assumes "bus_serves w p" "busy \<in> i2c_busy p"
  shows "goes w 1 (\<lambda>ok rs. rs = [] \<and> ok) s (i2c_wait w busy (new_meter (i2c_now w s)) s)"
  using goes_served[OF assms, of "new_meter (i2c_now w s)" 0 s] by (intro goes_from_0) (simp add: new_meter_def)

lemma yes_served:
  assumes "bus_serves w (i2c_periph d)"
  shows "goes w 1 (\<lambda>ok rs. rs = [] \<and> ok) s (WaitFlagYes w d I2C_FLAG_I2CBSY s)"
  unfolding WaitFlagYes_def by (rule fresh_served[OF assms]) (simp add: i2c_busy_def)

lemma no_served:
  assumes "bus_serves w (i2c_periph d)" "flag \<in> {I2C_FLAG_SBSEND, I2C_FLAG_ADDSEND, I2C_FLAG_TBE}"
  shows "goes w 1 (\<lambda>ok rs. rs = [] \<and> ok) s (WaitFlagNo w d flag s)"
  unfolding WaitFlagNo_def by (rule fresh_served[OF assms(1)]) (use assms(2) in \<open>auto simp: i2c_busy_def\<close>)

lemma write_loop_served:
  assumes "bus_serves w (i2c_periph d)"
  shows "goes w (length bs) (\<lambda>ok rs. ok \<and> rs = map Byte bs) s (write_loop w d bs s)"
proof (induction bs arbitrary: s)
  case Nil
  show ?case by (simp add: goes_Some)
next
  case (Cons b bs)
  have "goes w (1 + length bs) (\<lambda>ok rs. ok \<and> rs = map Byte (b # bs)) s (write_loop w d (b # bs) s)"
    unfolding write_loop.simps
    by (rule goes_data[of _ _ _ b d], rule goes_bind[OF no_served[OF assms]]) (simp_all add: goes_mono[OF Cons.IH])
  then show ?case by simp
qed

lemma now_unchanged [simp]:
  "i2c_now w (on_regs f s) = i2c_now w s" "i2c_now w (req_start d s) = i2c_now w s" "i2c_now w (req_stop d s) = i2c_now w s"
  "i2c_now w (send_data d b s) = i2c_now w s" "i2c_now w (send_address d dir s) = i2c_now w s"
  by (simp_all add: i2c_now_def on_regs_def req_start_def req_stop_def send_data_def send_address_def req_byte_def Let_def)

lemma from_start: "goes_from w t0 e t (\<lambda>r rs. P r (Start # rs)) (req_start d s) x \<Longrightarrow> goes_from w t0 e t P s x"
  by (auto simp: goes_from_def intro: goes_start)

lemma from_stop: "goes_from w t0 e t (\<lambda>r rs. P r (Stop # rs)) (req_stop d s) x \<Longrightarrow> goes_from w t0 e t P s x"
  by (auto simp: goes_from_def intro: goes_stop)

lemma from_data: "goes_from w t0 e t (\<lambda>r rs. P r (Byte b # rs)) (send_data d b s) x \<Longrightarrow> goes_from w t0 e t P s x"
  by (auto simp: goes_from_def intro: goes_data)

lemma from_address:
  "goes_from w t0 e t (\<lambda>r rs. P r (Byte (address_byte d dir) # rs)) (send_address d dir s) x \<Longrightarrow> goes_from w t0 e t P s x"
  by (auto simp: goes_from_def intro: goes_address)

lemma from_regs: "goes_from w t0 e t P (on_regs f s) x = goes_from w t0 e t P s x"
  by (simp add: goes_from_def goes_regs)

lemma from_Some: "P r [] \<Longrightarrow> goes_from w t0 e 0 P s (Some (r, s))"
  by (simp add: goes_from_def goes_Some)

lemma stop_served:
  assumes "bus_serves w (i2c_periph d)" "e \<le> 9 \<Longrightarrow> P True" "\<not> e \<le> 9 \<Longrightarrow> P True \<and> P False"
  shows "goes_from w t0 e 1 (\<lambda>ok rs. rs = [] \<and> P ok) s (wait_stop w d (new_meter t0) s)"
proof -
  have "(\<lambda>m. m (I2C_CTL0 (i2c_periph d)) AND 0x0200 \<noteq> 0) \<in> i2c_busy (i2c_periph d)" by (simp add: i2c_busy_def)
  from goes_served[OF assms(1) this, of "new_meter t0" e s]
  have g: "goes w 1 (\<lambda>ok rs. rs = [] \<and> (e \<le> 9 \<longrightarrow> ok)) s (wait_stop w d (new_meter t0) s)" if "unat (i2c_now w s - t0) \<le> e"
    using that by (simp add: goes_from_def wait_stop_def new_meter_def)
  have P: "P ok" if "e \<le> 9 \<longrightarrow> ok" for ok using assms(2,3) that by (cases ok) auto
  show ?thesis unfolding goes_from_def by (intro impI, rule goes_mono[OF g]) (auto intro: P)
qed

lemma I2C_Write_served:
  assumes "bus_serves w (i2c_periph d)"
  shows "goes w (length data + 5)
     (\<lambda>ok rs. (length data \<le> 5 \<longrightarrow> ok) \<and>
        rs = [Stop, Start, Byte (address_byte d I2C_TRANSMITTER), Byte command] @ map Byte data @ [Stop])
     s (I2C_Write w d command data s)"
proof -
  note no = from_bind[OF from_goes[OF no_served[OF assms]]]
  have "goes w (1 + (1 + (1 + (1 + (length data + (1 + 0))))))
     (\<lambda>ok rs. (length data \<le> 5 \<longrightarrow> ok) \<and>
        rs = [Stop, Start, Byte (address_byte d I2C_TRANSMITTER), Byte command] @ map Byte data @ [Stop])
     s (I2C_Write w d command data s)"
    unfolding I2C_Write_def Let_def
    apply (rule goes_from_0, rule from_stop, rule from_bind[OF from_goes[OF yes_served[OF assms]]], simp only: prod.case)
    apply (rule from_start, rule no, simp, simp only: prod.case)
    apply (rule from_address, rule no, simp, simp only: prod.case)
    apply (subst from_regs[symmetric], subst from_regs[symmetric])
    apply (rule from_data, rule no, simp, simp only: prod.case)
    apply (rule from_bind[OF from_goes[OF write_loop_served[OF assms]]], simp only: prod.case)
    apply (rule from_stop, rule from_bind[OF stop_served[OF assms, where P = "\<lambda>ok. length data \<le> 5 \<longrightarrow> ok"]])
      apply simp_all[2]
    apply (simp only: prod.case)
    apply (subst from_regs[symmetric], rule from_Some)
    apply auto
    done
  then show ?thesis by (rule goes_mono) simp_all
qed

section \<open>Properties\<close>

text \<open>
  C25: whatever the bus does, if only the clock goes on, a transfer returns within a bounded time. \<^verbatim>\<open>Write\<close> asks for the stop of an
  earlier transfer, a start, the address of the device, the command, the data in order (all of them if it reports success) and a stop.
  \<^verbatim>\<open>Read\<close> stores only into the first \<open>len\<close> elements of the array.
\<close>

theorem i2c_transfer_returns:
  assumes "clock_ticks w" "unat len \<le> length buf"
  shows "(\<exists>ok s' k. I2C_Write w d command data s = Some (ok, s') \<and> k \<le> length data \<and> (ok \<longrightarrow> k = length data) \<and>
       i2c_reqs s' = i2c_reqs s @ [Stop, Start, Byte (ucast (i2c_address d AND 0xFFFFFFFE)), Byte command] @ map Byte (take k data) @ [Stop] \<and>
       unat (i2c_now w s' - i2c_now w s) \<le> 12 * (length data + 5)) \<and>
     (\<exists>ok buf' s'. I2C_Read w d reg buf len s = Some ((ok, buf'), s') \<and> length buf' = length buf \<and>
       (\<forall>j \<ge> unat len. buf' ! j = buf ! j) \<and>
       i2c_reqs s' = i2c_reqs s @ [Stop, Start, Byte (ucast (i2c_address d AND 0xFFFFFFFE)), Byte reg, Start, Byte (ucast (i2c_address d OR 1))] @
         (if len = 0 then [Stop] else [Stop, Stop]) \<and>
       unat (i2c_now w s' - i2c_now w s) \<le> 12 * (unat len + 7))"
proof -
  have a: "address_byte d I2C_TRANSMITTER = ucast (i2c_address d AND 0xFFFFFFFE)" "address_byte d I2C_RECEIVER = ucast (i2c_address d OR 1)"
    by (simp_all add: address_byte_def)
  have z: "0 < unat len \<longleftrightarrow> len \<noteq> 0" by (simp add: unat_gt_0)
  show ?thesis
  proof (rule conjI, goal_cases)
    case 1
    then show ?case using goes_I2C_Write[OF assms(1), of data d command s] unfolding goes_def a by blast
  next
    case 2
    then show ?case using goes_I2C_Read[OF assms, of d reg s] unfolding goes_def a read_requests_def z by auto
  qed
qed

text \<open>A bus without a device: no flag ever changes; and one that answers at once.\<close>

definition dead_bus :: "u32 i2c_world" where
  "dead_bus = \<lparr>bus_run = \<lambda>h m. (h + 1, m), time_ms = id\<rparr>"

definition quick_bus :: "u32 i2c_world" where
  "quick_bus = \<lparr>bus_run = \<lambda>h m. (h, m(I2C_STAT0 I2C0 := 0xFFFF, I2C_STAT1 I2C0 := 0, I2C_CTL0 I2C0 := 0)), time_ms = id\<rparr>"

definition idle_port :: "u32 i2c_st" where
  "idle_port = \<lparr>i2c_hw = 0xFFFFFFFA, i2c_regs = \<lambda>_. 0, i2c_reqs = []\<rparr>"

definition display_port :: hal_i2c where
  "display_port = \<lparr>i2c_scl = \<lparr>pin_port = GPIOB, pin_bit = GPIO_PIN 6\<rparr>, i2c_sda = \<lparr>pin_port = GPIOB, pin_bit = GPIO_PIN 7\<rparr>,
     i2c_periph = PERIPH_DISPLAY, i2c_address = 0x78\<rparr>"

lemma dead_bus_ticks: "clock_ticks dead_bus"
proof -
  have "\<exists>n. time_ms dead_bus (fst (bus_runs dead_bus n (h, m))) \<noteq> time_ms dead_bus h" for h m
    by (intro exI[of _ "Suc 0"]) (simp add: bus_runs_Suc dead_bus_def)
  then show ?thesis by (simp add: clock_ticks_def) (simp add: dead_bus_def)
qed

lemma quick_bus_serves: "bus_serves quick_bus I2C0"
  unfolding bus_serves_def
proof (intro ballI allI exI[of _ 0] conjI impI)
  fix busy h m
  assume "busy \<in> i2c_busy I2C0"
  then show "\<not> busy (snd (bus_runs quick_bus (Suc 0) (h, m)))"
    by (auto simp: i2c_busy_def bus_runs_Suc quick_bus_def i2c_flag_get_def)
  fix i :: nat
  assume "i \<le> Suc 0"
  then show "unat (time_ms quick_bus (fst (bus_runs quick_bus i (h, m))) - time_ms quick_bus h) \<le> 1"
    by (cases i) (simp_all add: bus_runs_Suc quick_bus_def)
qed

theorem i2c_transfer_returns_witness:
  "\<exists>ok s' k. I2C_Write dead_bus display_port 0x40 [1, 2] idle_port = Some (ok, s') \<and> k \<le> 2 \<and> (ok \<longrightarrow> k = 2) \<and>
     i2c_reqs s' = [Stop, Start, Byte 0x78, Byte 0x40] @ map Byte (take k [1, 2]) @ [Stop]"
proof -
  have e: "i2c_reqs idle_port = []" "i2c_address display_port = 0x78" by (simp_all add: idle_port_def display_port_def)
  have l: "unat (0 :: u16) \<le> length ([] :: u8 list)" by simp
  from i2c_transfer_returns[OF dead_bus_ticks l, of display_port "0x40" "[1, 2]" idle_port 0]
  obtain ok s' k where "I2C_Write dead_bus display_port 0x40 [1, 2] idle_port = Some (ok, s')" "k \<le> length [1, 2 :: u8]"
      "ok \<longrightarrow> k = length [1, 2 :: u8]"
      "i2c_reqs s' = i2c_reqs idle_port @ [Stop, Start, Byte (ucast (i2c_address display_port AND 0xFFFFFFFE)), Byte 0x40] @
         map Byte (take k [1, 2]) @ [Stop]" by blast
  then show ?thesis unfolding e by (intro exI[of _ ok] exI[of _ s'] exI[of _ k]) simp
qed

end
