(* ===== verification/Display.thy ===== *)
theory Display
  imports DeviceMain HalI2c "HOL-Library.Signed_Division"
begin

unbundle bit_operations_syntax

text \<open>
  The display: \<^verbatim>\<open>sources/common/Display/Display.cpp\<close>, \<^verbatim>\<open>Font/Font.cpp\<close>, \<^verbatim>\<open>Font/font10_7.inc\<close> and \<^verbatim>\<open>SSD1306.cpp\<close>, on the I2C port, and the
  turn of the main loop with the display in it. The namespace variables are the record \<open>display\<close>. An access outside the frame buffer or a shift by
  a negative number is \<open>None\<close>. Floating-point numbers are of any type; their formatting with \<^verbatim>\<open>vsprintf\<close> and the numbers of
  \<^verbatim>\<open>rand\<close> are arguments. The texts are compared with a reference definition of the pixels that a text lights, and the bytes on the bus with what the controller
  of the screen keeps of them.
\<close>

section \<open>Fonts\<close>

datatype TypeFont = Font_5 | Font_7 | Font_10 | Font_Count

record FontDef =
  font_width :: nat
  font_height :: nat
  font_data :: "u16 list"

definition Font10x7 :: "u16 list" where
  "Font10x7 =
    [0, 0, 0, 0, 0, 0, 0, 0, 0, 0,
     0x1000, 0x1000, 0x1000, 0x1000, 0x1000, 0x1000, 0, 0x1000, 0, 0,
     0x2800, 0x2800, 0x2800, 0, 0, 0, 0, 0, 0, 0,
     0x2400, 0x2400, 0x7C00, 0x2400, 0x4800, 0x7C00, 0x4800, 0x4800, 0, 0,
     0x3800, 0x5400, 0x5000, 0x3800, 0x1400, 0x5400, 0x5400, 0x3800, 0x1000, 0,
     0x2000, 0x5400, 0x5800, 0x3000, 0x2800, 0x5400, 0x1400, 0x800, 0, 0,
     0x1000, 0x2800, 0x2800, 0x1000, 0x3400, 0x4800, 0x4800, 0x3400, 0, 0,
     0x1000, 0x1000, 0x1000, 0, 0, 0, 0, 0, 0, 0,
     0x800, 0x1000, 0x2000, 0x2000, 0x2000, 0x2000, 0x2000, 0x2000, 0x1000, 0x800,
     0x2000, 0x1000, 0x800, 0x800, 0x800, 0x800, 0x800, 0x800, 0x1000, 0x2000,
     0x1000, 0x3800, 0x1000, 0x2800, 0, 0, 0, 0, 0, 0,
     0, 0, 0x1000, 0x1000, 0x7C00, 0x1000, 0x1000, 0, 0, 0,
     0, 0, 0, 0, 0, 0, 0, 0x1000, 0x1000, 0x1000,
     0, 0, 0, 0, 0, 0x3800, 0, 0, 0, 0,
     0, 0, 0, 0, 0, 0, 0, 0x1000, 0, 0,
     0x800, 0x800, 0x1000, 0x1000, 0x1000, 0x1000, 0x2000, 0x2000, 0, 0,
     0x3800, 0x4400, 0x4400, 0x5400, 0x4400, 0x4400, 0x4400, 0x3800, 0, 0,
     0x1000, 0x3000, 0x5000, 0x1000, 0x1000, 0x1000, 0x1000, 0x1000, 0, 0,
     0x3800, 0x4400, 0x4400, 0x400, 0x800, 0x1000, 0x2000, 0x7C00, 0, 0,
     0x3800, 0x4400, 0x400, 0x1800, 0x400, 0x400, 0x4400, 0x3800, 0, 0,
     0x800, 0x1800, 0x2800, 0x2800, 0x4800, 0x7C00, 0x800, 0x800, 0, 0,
     0x7C00, 0x4000, 0x4000, 0x7800, 0x400, 0x400, 0x4400, 0x3800, 0, 0,
     0x3800, 0x4400, 0x4000, 0x7800, 0x4400, 0x4400, 0x4400, 0x3800, 0, 0,
     0x7C00, 0x400, 0x800, 0x1000, 0x1000, 0x2000, 0x2000, 0x2000, 0, 0,
     0x3800, 0x4400, 0x4400, 0x3800, 0x4400, 0x4400, 0x4400, 0x3800, 0, 0,
     0x3800, 0x4400, 0x4400, 0x4400, 0x3C00, 0x400, 0x4400, 0x3800, 0, 0,
     0, 0, 0x1000, 0, 0, 0, 0, 0x1000, 0, 0,
     0, 0, 0, 0x1000, 0, 0, 0, 0x1000, 0x1000, 0x1000,
     0, 0, 0xC00, 0x3000, 0x4000, 0x3000, 0xC00, 0, 0, 0,
     0, 0, 0, 0x7C00, 0, 0x7C00, 0, 0, 0, 0,
     0, 0, 0x6000, 0x1800, 0x400, 0x1800, 0x6000, 0, 0, 0,
     0x3800, 0x4400, 0x400, 0x800, 0x1000, 0x1000, 0, 0x1000, 0, 0,
     0x3800, 0x4400, 0x4C00, 0x5400, 0x5C00, 0x4000, 0x4000, 0x3800, 0, 0,
     0x1000, 0x2800, 0x2800, 0x2800, 0x2800, 0x7C00, 0x4400, 0x4400, 0, 0,
     0x7800, 0x4400, 0x4400, 0x7800, 0x4400, 0x4400, 0x4400, 0x7800, 0, 0,
     0x3800, 0x4400, 0x4000, 0x4000, 0x4000, 0x4000, 0x4400, 0x3800, 0, 0,
     0x7000, 0x4800, 0x4400, 0x4400, 0x4400, 0x4400, 0x4800, 0x7000, 0, 0,
     0x7C00, 0x4000, 0x4000, 0x7C00, 0x4000, 0x4000, 0x4000, 0x7C00, 0, 0,
     0x7C00, 0x4000, 0x4000, 0x7800, 0x4000, 0x4000, 0x4000, 0x4000, 0, 0,
     0x3800, 0x4400, 0x4000, 0x4000, 0x5C00, 0x4400, 0x4400, 0x3800, 0, 0,
     0x4400, 0x4400, 0x4400, 0x7C00, 0x4400, 0x4400, 0x4400, 0x4400, 0, 0,
     0x3800, 0x1000, 0x1000, 0x1000, 0x1000, 0x1000, 0x1000, 0x3800, 0, 0,
     0x400, 0x400, 0x400, 0x400, 0x400, 0x400, 0x4400, 0x3800, 0, 0,
     0x4400, 0x4800, 0x5000, 0x6000, 0x5000, 0x4800, 0x4800, 0x4400, 0, 0,
     0x4000, 0x4000, 0x4000, 0x4000, 0x4000, 0x4000, 0x4000, 0x7C00, 0, 0,
     0x4400, 0x6C00, 0x6C00, 0x5400, 0x4400, 0x4400, 0x4400, 0x4400, 0, 0,
     0x4400, 0x6400, 0x6400, 0x5400, 0x5400, 0x4C00, 0x4C00, 0x4400, 0, 0,
     0x3800, 0x4400, 0x4400, 0x4400, 0x4400, 0x4400, 0x4400, 0x3800, 0, 0,
     0x7800, 0x4400, 0x4400, 0x4400, 0x7800, 0x4000, 0x4000, 0x4000, 0, 0,
     0x3800, 0x4400, 0x4400, 0x4400, 0x4400, 0x4400, 0x5400, 0x3800, 0x400, 0,
     0x7800, 0x4400, 0x4400, 0x4400, 0x7800, 0x4800, 0x4800, 0x4400, 0, 0,
     0x3800, 0x4400, 0x4000, 0x3000, 0x800, 0x400, 0x4400, 0x3800, 0, 0,
     0x7C00, 0x1000, 0x1000, 0x1000, 0x1000, 0x1000, 0x1000, 0x1000, 0, 0,
     0x4400, 0x4400, 0x4400, 0x4400, 0x4400, 0x4400, 0x4400, 0x3800, 0, 0,
     0x4400, 0x4400, 0x4400, 0x2800, 0x2800, 0x2800, 0x1000, 0x1000, 0, 0,
     0x4400, 0x4400, 0x5400, 0x5400, 0x5400, 0x6C00, 0x2800, 0x2800, 0, 0,
     0x4400, 0x2800, 0x2800, 0x1000, 0x1000, 0x2800, 0x2800, 0x4400, 0, 0,
     0x4400, 0x4400, 0x2800, 0x2800, 0x1000, 0x1000, 0x1000, 0x1000, 0, 0,
     0x7C00, 0x400, 0x800, 0x1000, 0x1000, 0x2000, 0x4000, 0x7C00, 0, 0,
     0x1800, 0x1000, 0x1000, 0x1000, 0x1000, 0x1000, 0x1000, 0x1000, 0x1000, 0x1800,
     0x2000, 0x2000, 0x1000, 0x1000, 0x1000, 0x1000, 0x800, 0x800, 0, 0,
     0x3000, 0x1000, 0x1000, 0x1000, 0x1000, 0x1000, 0x1000, 0x1000, 0x1000, 0x3000,
     0x1000, 0x2800, 0x2800, 0x4400, 0, 0, 0, 0, 0, 0,
     0, 0, 0, 0, 0, 0, 0, 0, 0, 0xFE00,
     0x2000, 0x1000, 0, 0, 0, 0, 0, 0, 0, 0,
     0, 0, 0x3800, 0x4400, 0x3C00, 0x4400, 0x4C00, 0x3400, 0, 0,
     0x4000, 0x4000, 0x5800, 0x6400, 0x4400, 0x4400, 0x6400, 0x5800, 0, 0,
     0, 0, 0x3800, 0x4400, 0x4000, 0x4000, 0x4400, 0x3800, 0, 0,
     0x400, 0x400, 0x3400, 0x4C00, 0x4400, 0x4400, 0x4C00, 0x3400, 0, 0,
     0, 0, 0x3800, 0x4400, 0x7C00, 0x4000, 0x4400, 0x3800, 0, 0,
     0xC00, 0x1000, 0x7C00, 0x1000, 0x1000, 0x1000, 0x1000, 0x1000, 0, 0,
     0, 0, 0x3400, 0x4C00, 0x4400, 0x4400, 0x4C00, 0x3400, 0x400, 0x7800,
     0x4000, 0x4000, 0x5800, 0x6400, 0x4400, 0x4400, 0x4400, 0x4400, 0, 0,
     0x1000, 0, 0x7000, 0x1000, 0x1000, 0x1000, 0x1000, 0x1000, 0, 0,
     0x1000, 0, 0x7000, 0x1000, 0x1000, 0x1000, 0x1000, 0x1000, 0x1000, 0xE000,
     0x4000, 0x4000, 0x4800, 0x5000, 0x6000, 0x5000, 0x4800, 0x4400, 0, 0,
     0x7000, 0x1000, 0x1000, 0x1000, 0x1000, 0x1000, 0x1000, 0x1000, 0, 0,
     0, 0, 0x7800, 0x5400, 0x5400, 0x5400, 0x5400, 0x5400, 0, 0,
     0, 0, 0x5800, 0x6400, 0x4400, 0x4400, 0x4400, 0x4400, 0, 0,
     0, 0, 0x3800, 0x4400, 0x4400, 0x4400, 0x4400, 0x3800, 0, 0,
     0, 0, 0x5800, 0x6400, 0x4400, 0x4400, 0x6400, 0x5800, 0x4000, 0x4000,
     0, 0, 0x3400, 0x4C00, 0x4400, 0x4400, 0x4C00, 0x3400, 0x400, 0x400,
     0, 0, 0x5800, 0x6400, 0x4000, 0x4000, 0x4000, 0x4000, 0, 0,
     0, 0, 0x3800, 0x4400, 0x3000, 0x800, 0x4400, 0x3800, 0, 0,
     0x2000, 0x2000, 0x7800, 0x2000, 0x2000, 0x2000, 0x2000, 0x1800, 0, 0,
     0, 0, 0x4400, 0x4400, 0x4400, 0x4400, 0x4C00, 0x3400, 0, 0,
     0, 0, 0x4400, 0x4400, 0x2800, 0x2800, 0x2800, 0x1000, 0, 0,
     0, 0, 0x5400, 0x5400, 0x5400, 0x6C00, 0x2800, 0x2800, 0, 0,
     0, 0, 0x4400, 0x2800, 0x1000, 0x1000, 0x2800, 0x4400, 0, 0,
     0, 0, 0x4400, 0x4400, 0x2800, 0x2800, 0x1000, 0x1000, 0x1000, 0x6000,
     0, 0, 0x7C00, 0x800, 0x1000, 0x2000, 0x4000, 0x7C00, 0, 0,
     0x1800, 0x1000, 0x1000, 0x1000, 0x2000, 0x2000, 0x1000, 0x1000, 0x1000, 0x1800,
     0x1000, 0x1000, 0x1000, 0x1000, 0x1000, 0x1000, 0x1000, 0x1000, 0x1000, 0x1000,
     0x3000, 0x1000, 0x1000, 0x1000, 0x800, 0x800, 0x1000, 0x1000, 0x1000, 0x3000,
     0, 0, 0, 0x7400, 0x4C00, 0, 0, 0, 0, 0]"

definition font_10x7 :: FontDef where
  "font_10x7 = \<lparr>font_width = 7, font_height = 10, font_data = Font10x7\<rparr>"

abbreviation WIDTH :: int where "WIDTH \<equiv> 128"
abbreviation HEIGHT :: int where "HEIGHT \<equiv> 64"
abbreviation SIZE_BUFFER :: nat where "SIZE_BUFFER \<equiv> 1024"

record display =
  dp_buffer :: "u8 list"
  cursorX :: int
  cursorY :: int
  font_type :: TypeFont

definition Font_SetType :: "TypeFont \<Rightarrow> display \<Rightarrow> display" where
  "Font_SetType ty dp = dp\<lparr>font_type := ty\<rparr>"

definition GetBit :: "u8 \<Rightarrow> int \<Rightarrow> int \<Rightarrow> int" where
  "GetBit symbol row col = 0"

definition GetHeight :: "display \<Rightarrow> int" where
  "GetHeight dp = (case font_type dp of Font_5 \<Rightarrow> 5 | Font_7 \<Rightarrow> 7 | Font_10 \<Rightarrow> 10 | Font_Count \<Rightarrow> 10)"

definition GetWidth :: "u8 \<Rightarrow> int" where
  "GetWidth symbol = 0"

section \<open>The frame buffer\<close>

definition BeginScene :: "display \<Rightarrow> display" where
  "BeginScene dp = dp\<lparr>dp_buffer := replicate SIZE_BUFFER 0\<rparr>"

definition DrawPixel :: "int \<Rightarrow> int \<Rightarrow> int \<Rightarrow> display \<Rightarrow> display option" where
  "DrawPixel x y color dp =
    (if x \<ge> WIDTH \<or> y \<ge> HEIGHT then Some dp
     else (let i = x + (y sdiv 8) * WIDTH; b = y smod 8
            in if 0 \<le> i \<and> i < int (length (dp_buffer dp)) \<and> 0 \<le> b then
                 Some (dp\<lparr>dp_buffer := (dp_buffer dp)[nat i :=
                   (if color \<noteq> 0 then dp_buffer dp ! nat i OR push_bit (nat b) 1
                    else dp_buffer dp ! nat i AND NOT (push_bit (nat b) 1))]\<rparr>)
               else None))"

text \<open>The calls of \<^verbatim>\<open>DrawPixel\<close> in the two loops of \<^verbatim>\<open>WriteChar\<close>, in order.\<close>

fun draw_all :: "((int \<times> int) \<times> int) list \<Rightarrow> display \<Rightarrow> display option" where
  "draw_all [] dp = Some dp"
| "draw_all (((x, y), color) # ps) dp = (case DrawPixel x y color dp of None \<Rightarrow> None | Some dp \<Rightarrow> draw_all ps dp)"

definition char_pixels :: "nat \<Rightarrow> int \<Rightarrow> int \<Rightarrow> ((int \<times> int) \<times> int) list" where
  "char_pixels ch cx cy =
    concat (map (\<lambda>i. let b = font_data font_10x7 ! ((ch - 32) * font_height font_10x7 + i)
        in map (\<lambda>j. ((cx + int j, cy + int i), if push_bit j (ucast b :: u32) AND 0x8000 \<noteq> 0 then 1 else 0))
             [0..<font_width font_10x7])
      [0..<font_height font_10x7])"

definition old_pixels :: "u8 \<Rightarrow> display \<Rightarrow> ((int \<times> int) \<times> int) list" where
  "old_pixels symbol dp =
    concat (map (\<lambda>row. concat (map (\<lambda>col.
        if GetBit symbol row col \<noteq> 0 then [((cursorX dp + col, cursorY dp + row), 1)] else [])
      [0..GetWidth symbol - 1])) [0..GetHeight dp - 1])"

text \<open>The result is the character returned and the state.\<close>

definition WriteChar :: "char \<Rightarrow> display \<Rightarrow> (char \<times> display) option" where
  "WriteChar ch dp =
    (if font_type dp = Font_5 \<or> font_type dp = Font_7 then
       (case draw_all (old_pixels (of_char ch) dp) dp of
          None \<Rightarrow> None
        | Some dp \<Rightarrow> Some (ch, dp\<lparr>cursorX := cursorX dp + (GetWidth (of_char ch) + 1)\<rparr>))
     else if font_type dp = Font_10 then
       (if of_char ch < (32 :: nat) \<or> of_char ch > (126 :: nat) then Some (CHR 0x00, dp)
        else if WIDTH < cursorX dp + int (font_width font_10x7) \<or> HEIGHT < cursorY dp + int (font_height font_10x7) then Some (CHR 0x00, dp)
        else (case draw_all (char_pixels (of_char ch) (cursorX dp) (cursorY dp)) dp of
                None \<Rightarrow> None
              | Some dp \<Rightarrow> Some (ch, dp\<lparr>cursorX := cursorX dp + int (font_width font_10x7)\<rparr>)))
     else Some (ch, dp))"

fun write_chars :: "string \<Rightarrow> display \<Rightarrow> (char \<times> display) option" where
  "write_chars [] dp = Some (CHR 0x00, dp)"
| "write_chars (c # cs) dp =
    (if c = CHR 0x00 then Some (c, dp)
     else (case WriteChar c dp of None \<Rightarrow> None | Some (r, dp) \<Rightarrow> (if r \<noteq> c then Some (c, dp) else write_chars cs dp)))"

definition WriteString :: "int \<Rightarrow> int \<Rightarrow> string \<Rightarrow> display \<Rightarrow> (char \<times> display) option" where
  "WriteString x y str dp = write_chars str (dp\<lparr>cursorX := x, cursorY := y\<rparr>)"

text \<open>The rows are 0 to 4, for which the product of floats truncated to an integer is the integer quotient.\<close>

definition display_Y :: "int \<Rightarrow> int" where
  "display_Y row = 64 * row div 5"

section \<open>The controller of the screen\<close>

abbreviation SSD_COMMAND :: u8 where "SSD_COMMAND \<equiv> 0x00"
abbreviation SSD_DATA :: u8 where "SSD_DATA \<equiv> 0x40"

definition SendCommand :: "'h i2c_world \<Rightarrow> hal_i2c \<Rightarrow> u8 \<Rightarrow> 'h i2c_st \<Rightarrow> (bool \<times> 'h i2c_st) option" where
  "SendCommand w d command s = I2C_Write w d SSD_COMMAND [command] s"

fun send_commands :: "'h i2c_world \<Rightarrow> hal_i2c \<Rightarrow> u8 list \<Rightarrow> 'h i2c_st \<Rightarrow> (unit \<times> 'h i2c_st) option" where
  "send_commands w d [] s = Some ((), s)"
| "send_commands w d (c # cs) s = do { (_, s) \<leftarrow> SendCommand w d c s; send_commands w d cs s }"

definition SSD1306_Init :: "'h i2c_world \<Rightarrow> hal_i2c \<Rightarrow> 'h i2c_st \<Rightarrow> (unit \<times> 'h i2c_st) option" where
  "SSD1306_Init w d s = do {
     (ok, s) \<leftarrow> SendCommand w d 0xAE s;
     if \<not> ok then Some ((), s)
     else send_commands w d [0xD4, 0x80, 0xA8, 0x3F, 0xD3, 0x00, 0x40, 0x8D, 0x14, 0xA1, 0xC8, 0xDA, 0x12, 0x81, 0xCF, 0xD9, 0xF1,
       0xDB, 0x40, 0xA4, 0xA6, 0xAF] s
   }"

fun write_pages :: "'h i2c_world \<Rightarrow> hal_i2c \<Rightarrow> u8 list \<Rightarrow> nat list \<Rightarrow> 'h i2c_st \<Rightarrow> (unit \<times> 'h i2c_st) option" where
  "write_pages w d buffer [] s = Some ((), s)"
| "write_pages w d buffer (i # is) s = do {
     (ok, s) \<leftarrow> SendCommand w d (0xB0 + of_nat i) s;
     if \<not> ok then Some ((), s)
     else do {
       (_, s) \<leftarrow> SendCommand w d 0x00 s;
       (_, s) \<leftarrow> SendCommand w d 0x10 s;
       (_, s) \<leftarrow> I2C_Write w d SSD_DATA (take (nat WIDTH) (drop (nat WIDTH * i) buffer)) s;
       write_pages w d buffer is s
     }
   }"

definition SSD1306_WriteBuffer :: "'h i2c_world \<Rightarrow> hal_i2c \<Rightarrow> u8 list \<Rightarrow> 'h i2c_st \<Rightarrow> (unit \<times> 'h i2c_st) option" where
  "SSD1306_WriteBuffer w d buffer s = write_pages w d buffer [0..<nat (HEIGHT div 8)] s"

section \<open>Drawing\<close>

text \<open>\<open>rnd\<close> gives the numbers of \<^verbatim>\<open>rand\<close>.\<close>

definition Fill :: "'h i2c_world \<Rightarrow> hal_i2c \<Rightarrow> (nat \<Rightarrow> u32) \<Rightarrow> int \<Rightarrow> display \<Rightarrow> 'h i2c_st \<Rightarrow> (display \<times> 'h i2c_st) option" where
  "Fill w d rnd color dp s =
    (let dp = (if color = 1 then dp\<lparr>dp_buffer := replicate SIZE_BUFFER 0xFF\<rparr>
               else if color = 0 then dp\<lparr>dp_buffer := replicate SIZE_BUFFER 0x00\<rparr>
               else if color = 2 then dp\<lparr>dp_buffer := map (\<lambda>i. ucast (rnd i)) [0..<SIZE_BUFFER]\<rparr>
               else dp)
      in do { (_, s) \<leftarrow> SSD1306_WriteBuffer w d (dp_buffer dp) s; Some (dp, s) })"

text \<open>\<^verbatim>\<open>Timer::DelayMS\<close> with the clock of the bus.\<close>

partial_function (option) bus_delay_until :: "'h i2c_world \<Rightarrow> u32 \<Rightarrow> 'h i2c_st \<Rightarrow> (unit \<times> 'h i2c_st) option" where
  "bus_delay_until w time_end s =
    (let s = bus_step w s
      in if i2c_now w s < time_end then bus_delay_until w time_end (on_regs HAL_FWDGT_Update s) else Some ((), s))"

definition bus_delay :: "'h i2c_world \<Rightarrow> u32 \<Rightarrow> 'h i2c_st \<Rightarrow> (unit \<times> 'h i2c_st) option" where
  "bus_delay w ms s = bus_delay_until w (i2c_now w s + ms) s"

definition Display_Init :: "'h i2c_world \<Rightarrow> hal_i2c \<Rightarrow> (nat \<Rightarrow> u32) \<Rightarrow> display \<Rightarrow> 'h i2c_st \<Rightarrow> (display \<times> 'h i2c_st) option" where
  "Display_Init w d rnd dp s = do {
     (_, s) \<leftarrow> SSD1306_Init w d s;
     (dp, s) \<leftarrow> Fill w d rnd 1 dp s;
     (_, s) \<leftarrow> bus_delay w 250 s;
     (dp, s) \<leftarrow> Fill w d rnd 2 dp s;
     (_, s) \<leftarrow> bus_delay w 250 s;
     (dp, s) \<leftarrow> Fill w d rnd 0 dp s;
     (_, s) \<leftarrow> bus_delay w 250 s;
     Some (dp, s)
   }"

definition Display_Update2 :: "'h i2c_world \<Rightarrow> hal_i2c \<Rightarrow> (nat \<Rightarrow> u32) \<Rightarrow> display \<Rightarrow> 'h i2c_st \<Rightarrow> (display \<times> 'h i2c_st) option" where
  "Display_Update2 w d rnd dp s = do {
     (dp, s) \<leftarrow> Fill w d rnd 0 dp s;
     (_, s) \<leftarrow> SSD1306_WriteBuffer w d (dp_buffer dp) s;
     (dp, s) \<leftarrow> Fill w d rnd 1 dp s;
     (_, s) \<leftarrow> SSD1306_WriteBuffer w d (dp_buffer dp) s;
     (dp, s) \<leftarrow> Fill w d rnd 2 dp s;
     (_, s) \<leftarrow> SSD1306_WriteBuffer w d (dp_buffer dp) s;
     Some (dp, s)
   }"

text \<open>What \<^verbatim>\<open>Storage::GetMeasurements\<close> returns; \<open>'f\<close> is the type of floats.\<close>

record 'f measurements =
  need_send :: bool
  latitude :: 'f
  longitude :: 'f
  temperature :: 'f
  humidity :: 'f
  charge :: 'f

text \<open>The calls of \<^verbatim>\<open>WriteString\<close> in \<^verbatim>\<open>Display::Update\<close>, in order; \<open>fmt\<close> is \<^verbatim>\<open>vsprintf\<close> with one float.\<close>

definition update_texts ::
    "(string \<Rightarrow> 'f \<Rightarrow> string) \<Rightarrow> u8 list \<Rightarrow> 'f measurements \<Rightarrow> u32 \<Rightarrow> modem \<Rightarrow> device \<Rightarrow> (int \<times> int \<times> string) list" where
  "update_texts fmt uid meas now md d =
    [(70, display_Y 4, GetUID uid)] @
    (if need_send meas then
       (if (now div 5000) mod 2 \<noteq> 0 then
          [(10, display_Y 1, fmt ''LAT = %f'' (latitude meas)), (10, display_Y 2, fmt ''LON = %f'' (longitude meas))]
        else
          [(10, display_Y 1, fmt ''Temp = %.2f'' (temperature meas)), (10, display_Y 2, fmt ''Hum = %.2f'' (humidity meas)),
           (10, display_Y 3, fmt ''Bat = %.2f'' (charge meas))])
     else []) @
    (if Modem_Power md then [(5, display_Y 0, ''POW'')] else []) @
    (if IsRegistered d then [(35, display_Y 0, ''REG'')] else []) @
    (if mq_connected (d_mqtt d) then [(65, display_Y 0, ''MQTT''), (100, display_Y 0, d_signal d)] else [])"

fun write_texts :: "(int \<times> int \<times> string) list \<Rightarrow> display \<Rightarrow> display option" where
  "write_texts [] dp = Some dp"
| "write_texts ((x, y, str) # ts) dp = do { (_, dp) \<leftarrow> WriteString x y str dp; write_texts ts dp }"

definition Display_Update ::
    "'h i2c_world \<Rightarrow> hal_i2c \<Rightarrow> (string \<Rightarrow> 'f \<Rightarrow> string) \<Rightarrow> u8 list \<Rightarrow> 'f measurements \<Rightarrow> modem \<Rightarrow> device \<Rightarrow> display \<Rightarrow> 'h i2c_st \<Rightarrow>
      (display \<times> 'h i2c_st) option" where
  "Display_Update w p fmt uid meas md d dp s = do {
     dp \<leftarrow> write_texts (update_texts fmt uid meas (i2c_now w s) md d) (BeginScene dp);
     (_, s) \<leftarrow> SSD1306_WriteBuffer w p (dp_buffer dp) s;
     Some (dp, s)
   }"

text \<open>
  The turn of the main loop: \<^verbatim>\<open>Device_Update\<close> of \<open>DeviceMain\<close> with the display between the request for the time and the modem.
\<close>

definition Device_Update_Display ::
    "'h i2c_world \<Rightarrow> hal_i2c \<Rightarrow> (string \<Rightarrow> 'f \<Rightarrow> string) \<Rightarrow> 'f measurements \<Rightarrow>
     u8 list \<Rightarrow> bool \<Rightarrow> (nat \<Rightarrow> u8) \<Rightarrow> (nat \<Rightarrow> u32) \<Rightarrow> (nat \<Rightarrow> modem \<Rightarrow> modem) \<Rightarrow> u32 \<Rightarrow>
     display \<times> 'h i2c_st \<Rightarrow> modem \<times> device \<Rightarrow> ((display \<times> 'h i2c_st) \<times> modem \<times> device) option" where
  "Device_Update_Display w p fmt meas uid nul junk t hw now dps md_d = do {
     let (md, d) = md_d;
     (md, d) \<leftarrow> (if mq_connected (d_mqtt d) \<and> ElapsedTime now (d_meter d) > 1000
                then device_Time uid nul junk t hw (md, d\<lparr>d_meter := meter_Reset now (d_meter d)\<rparr>)
                else Some (md, d));
     dps \<leftarrow> Display_Update w p fmt uid meas md d (fst dps) (snd dps);
     md_d \<leftarrow> device_modem uid nul junk (i2c_now w (snd dps)) (md, d);
     Some (dps, md_d)
   }"

section \<open>Pixels\<close>

text \<open>The pixel in column \<open>x\<close> and line \<open>y\<close> of a frame buffer: pages of eight lines, one byte a column.\<close>

definition pixel :: "u8 list \<Rightarrow> nat \<Rightarrow> nat \<Rightarrow> bool" where
  "pixel b x y = bit (b ! (x + 128 * (y div 8))) (y mod 8)"

definition frame_ok :: "display \<Rightarrow> bool" where
  "frame_ok dp \<longleftrightarrow> length (dp_buffer dp) = SIZE_BUFFER"

lemma length_Font10x7: "length Font10x7 = 950"
  by (simp add: Font10x7_def)

lemma pixel_index:
  fixes x x' p p' :: nat
  assumes "x < 128" "x' < 128"
  shows "x + 128 * p = x' + 128 * p' \<longleftrightarrow> x = x' \<and> p = p'"
proof
  assume e: "x + 128 * p = x' + 128 * p'"
  have "x = (x + 128 * p) mod 128" "x' = (x' + 128 * p') mod 128" using assms by simp_all
  then have "x = x'" unfolding e by (rule trans[OF _ sym])
  then show "x = x' \<and> p = p'" using e by simp
qed simp

lemma index_in_buffer: "x < 128 \<Longrightarrow> y < 64 \<Longrightarrow> x + 128 * (y div 8) < (1024 :: nat)"
proof -
  assume "x < 128" "y < 64"
  moreover from this have "y div 8 < 8" by (simp add: div_less_iff_less_mult)
  ultimately show ?thesis by arith
qed

lemma DrawPixel_pixel:
  assumes "frame_ok dp" "x < 128" "y < 64"
  shows "\<exists>b. DrawPixel (int x) (int y) color dp = Some (dp\<lparr>dp_buffer := b\<rparr>) \<and> length b = SIZE_BUFFER \<and>
     (\<forall>x' < 128. \<forall>y'. pixel b x' y' = (if x' = x \<and> y' = y then color \<noteq> 0 else pixel (dp_buffer dp) x' y'))"
proof -
  define i where "i = x + 128 * (y div 8)"
  define b where "b = (dp_buffer dp)[i := (if color \<noteq> 0 then dp_buffer dp ! i OR push_bit (y mod 8) 1
     else dp_buffer dp ! i AND NOT (push_bit (y mod 8) 1))]"
  have q: "int y sdiv 8 = int (y div 8)" "int y smod 8 = int (y mod 8)"
    by (cases "y = 0"; simp add: signed_divide_int_def signed_modulo_int_def zdiv_int zmod_int)+
  have i: "int x + int (y div 8) * WIDTH = int i" by (simp add: i_def)
  have len: "i < length (dp_buffer dp)" using assms index_in_buffer[of x y] by (simp add: frame_ok_def i_def)
  have "DrawPixel (int x) (int y) color dp = Some (dp\<lparr>dp_buffer := b\<rparr>)"
    using assms(2,3) len unfolding DrawPixel_def q i Let_def b_def by simp
  moreover have "length b = SIZE_BUFFER" using assms(1) by (simp add: b_def frame_ok_def)
  moreover have "pixel b x' y' = (if x' = x \<and> y' = y then color \<noteq> 0 else pixel (dp_buffer dp) x' y')" if "x' < 128" for x' y'
  proof (cases "x' = x \<and> y' div 8 = y div 8")
    case True
    then have e: "x' + 128 * (y' div 8) = i" by (simp add: i_def)
    have m: "y' = y \<longleftrightarrow> y' mod 8 = y mod 8" using True by (metis div_mult_mod_eq)
    show ?thesis unfolding pixel_def e using True len m by (auto simp: b_def bit_simps)
  next
    case False
    then have "x' + 128 * (y' div 8) \<noteq> i" using pixel_index[OF that assms(2)] by (auto simp: i_def)
    then show ?thesis using False by (auto simp: pixel_def b_def)
  qed
  ultimately show ?thesis by blast
qed

lemma DrawPixel_off: "\<not> (x < 128 \<and> y < 64) \<Longrightarrow> DrawPixel (int x) (int y) color dp = Some dp"
  by (auto simp: DrawPixel_def)

text \<open>A run of draws in which every draw of a pixel gives it the value that \<open>V\<close> has for it.\<close>

lemma draw_all_pixels:
  assumes "frame_ok dp" "\<forall>((x, y), c) \<in> set ps. 0 \<le> x \<and> 0 \<le> y \<and> (c \<noteq> 0) = V (nat x) (nat y)"
  shows "\<exists>b. draw_all ps dp = Some (dp\<lparr>dp_buffer := b\<rparr>) \<and> length b = SIZE_BUFFER \<and>
     (\<forall>x < 128. \<forall>y < 64. pixel b x y = (if (int x, int y) \<in> fst ` set ps then V x y else pixel (dp_buffer dp) x y))"
  using assms
proof (induction ps arbitrary: dp)
  case Nil
  then show ?case by (intro exI[of _ "dp_buffer dp"]) (simp add: frame_ok_def)
next
  case (Cons p ps)
  obtain x y c where p: "p = ((x, y), c)" by (metis surj_pair)
  define n where "n = nat x"
  define m where "m = nat y"
  have nm: "x = int n" "y = int m" "(c \<noteq> 0) = V n m" using Cons.prems(2) by (auto simp: p n_def m_def)
  obtain b where b: "DrawPixel x y c dp = Some (dp\<lparr>dp_buffer := b\<rparr>)" "length b = SIZE_BUFFER"
      "\<And>x' y'. x' < 128 \<Longrightarrow> y' < 64 \<Longrightarrow> pixel b x' y' = (if x' = n \<and> y' = m then V n m else pixel (dp_buffer dp) x' y')"
  proof (cases "n < 128 \<and> m < 64")
    case True
    then show ?thesis using DrawPixel_pixel[OF Cons.prems(1), of n m c] that nm by metis
  next
    case False
    then have "DrawPixel x y c dp = Some (dp\<lparr>dp_buffer := dp_buffer dp\<rparr>)" using DrawPixel_off nm by simp
    then show ?thesis using that[of "dp_buffer dp"] Cons.prems(1) False by (auto simp: frame_ok_def)
  qed
  have f: "frame_ok (dp\<lparr>dp_buffer := b\<rparr>)" using b(2) by (simp add: frame_ok_def)
  have "\<forall>((x, y), c) \<in> set ps. 0 \<le> x \<and> 0 \<le> y \<and> (c \<noteq> 0) = V (nat x) (nat y)" using Cons.prems(2) by simp
  from Cons.IH[OF f this]
  have "\<exists>b'. draw_all ps (dp\<lparr>dp_buffer := b\<rparr>) = Some (dp\<lparr>dp_buffer := b'\<rparr>) \<and> length b' = SIZE_BUFFER \<and>
      (\<forall>x < 128. \<forall>y < 64. pixel b' x y = (if (int x, int y) \<in> fst ` set ps then V x y else pixel b x y))" by (simp cong: if_cong)
  then obtain b' where b': "draw_all ps (dp\<lparr>dp_buffer := b\<rparr>) = Some (dp\<lparr>dp_buffer := b'\<rparr>)" "length b' = SIZE_BUFFER"
      "\<And>x y. x < 128 \<Longrightarrow> y < 64 \<Longrightarrow> pixel b' x y = (if (int x, int y) \<in> fst ` set ps then V x y else pixel b x y)"
    by blast
  show ?case
    by (intro exI[of _ b']) (use b b' nm in \<open>auto simp: p\<close>)
qed

section \<open>Texts\<close>

text \<open>
  The reference: the glyph of a character, the part of a text that fits on the screen (up to the first character without a glyph),
  and the pixels of a text.
\<close>

definition glyph :: "char \<Rightarrow> nat \<Rightarrow> nat \<Rightarrow> bool" where
  "glyph c x y = bit (Font10x7 ! ((of_char c - 32) * 10 + y)) (15 - x)"

definition printable :: "char \<Rightarrow> bool" where
  "printable c \<longleftrightarrow> (32 :: nat) \<le> of_char c \<and> of_char c \<le> (126 :: nat)"

definition shown :: "nat \<Rightarrow> nat \<Rightarrow> string \<Rightarrow> string" where
  "shown x y s = (if y + 10 \<le> 64 then take ((128 - x) div 7) (takeWhile printable s) else [])"

definition text_on :: "nat \<times> nat \<times> string \<Rightarrow> (nat \<Rightarrow> nat \<Rightarrow> bool) \<Rightarrow> nat \<Rightarrow> nat \<Rightarrow> bool" where
  "text_on t img px py =
    (case t of (x, y, s) \<Rightarrow>
      if x \<le> px \<and> px < x + 7 * length (shown x y s) \<and> y \<le> py \<and> py < y + 10
      then glyph (shown x y s ! ((px - x) div 7)) ((px - x) mod 7) (py - y) else img px py)"

lemma shown_step:
  "shown x y (c # cs) = (if printable c \<and> x + 7 \<le> 128 \<and> y + 10 \<le> 64 then c # shown (x + 7) y cs else [])"
proof (cases "x + 7 \<le> 128")
  case True
  then have "128 - x = (128 - (x + 7)) + 7" by simp
  then have "(128 - x) div 7 = Suc ((128 - (x + 7)) div 7)" by (metis div_add_self2 Suc_eq_plus1 zero_neq_numeral)
  then show ?thesis using True by (simp add: shown_def)
next
  case False
  then have "(128 - x) div 7 = 0" by simp
  then show ?thesis using False by (simp add: shown_def)
qed

lemma font_bit: "push_bit j (ucast (b :: u16) :: u32) AND 0x8000 \<noteq> 0 \<longleftrightarrow> bit b (15 - j)" if "j \<le> 15"
proof -
  have e: "(0x8000 :: u32) = 2 ^ 15" by simp
  show ?thesis unfolding e and_exp_eq_0_iff_not_bit using that by (auto simp: bit_simps)
qed

lemma char_pixels_in:
  "p \<in> set (char_pixels ch cx cy) \<Longrightarrow>
     \<exists>i < 10. \<exists>j < 7. fst p = (cx + int j, cy + int i) \<and> (snd p \<noteq> 0) = bit (Font10x7 ! ((ch - 32) * 10 + i)) (15 - j)"
  by (auto simp: char_pixels_def font_10x7_def Let_def font_bit simp del: One_nat_def)

lemma char_pixels_fst: "fst ` set (char_pixels ch cx cy) = (\<lambda>(i, j). (cx + int j, cy + int i)) ` ({..<10} \<times> {..<7})"
  unfolding char_pixels_def font_10x7_def Let_def by (force simp: image_iff)

lemma WriteChar_shows:
  assumes "frame_ok dp" "font_type dp = Font_10" "cursorX dp = int x" "cursorY dp = int y" "printable c" "x + 7 \<le> 128" "y + 10 \<le> 64"
  shows "\<exists>b. WriteChar c dp = Some (c, dp\<lparr>dp_buffer := b, cursorX := int (x + 7)\<rparr>) \<and> length b = SIZE_BUFFER \<and>
     (\<forall>px < 128. \<forall>py < 64. pixel b px py =
        (if x \<le> px \<and> px < x + 7 \<and> y \<le> py \<and> py < y + 10 then glyph c (px - x) (py - y) else pixel (dp_buffer dp) px py))"
proof -
  let ?ps = "char_pixels (of_char c) (int x) (int y)"
  let ?V = "\<lambda>px py. glyph c (px - x) (py - y)"
  have draw: "\<forall>((x', y'), k) \<in> set ?ps. 0 \<le> x' \<and> 0 \<le> y' \<and> (k \<noteq> 0) = ?V (nat x') (nat y')"
  proof (clarify, goal_cases)
    case (1 x' y' k)
    from char_pixels_in[OF this] show ?case by (auto simp: glyph_def nat_int_add)
  qed
  obtain b where b: "draw_all ?ps dp = Some (dp\<lparr>dp_buffer := b\<rparr>)" "length b = SIZE_BUFFER"
      "\<And>px py. px < 128 \<Longrightarrow> py < 64 \<Longrightarrow>
        pixel b px py = (if (int px, int py) \<in> fst ` set ?ps then ?V px py else pixel (dp_buffer dp) px py)"
    using draw_all_pixels[OF assms(1) draw] by blast
  have box: "(int px, int py) \<in> fst ` set ?ps \<longleftrightarrow> x \<le> px \<and> px < x + 7 \<and> y \<le> py \<and> py < y + 10" for px py
    unfolding char_pixels_fst by (auto intro!: image_eqI[of _ _ "(py - y, px - x)"])
  have "WriteChar c dp = Some (c, dp\<lparr>dp_buffer := b, cursorX := int (x + 7)\<rparr>)"
    using assms(2-7) b(1) by (simp add: WriteChar_def printable_def font_10x7_def)
  then show ?thesis using b(2,3) unfolding box by blast
qed

lemma WriteChar_rejects:
  assumes "font_type dp = Font_10" "cursorX dp = int x" "cursorY dp = int y" "\<not> (printable c \<and> x + 7 \<le> 128 \<and> y + 10 \<le> 64)"
  shows "WriteChar c dp = Some (CHR 0x00, dp)"
  using assms by (auto simp: WriteChar_def printable_def font_10x7_def not_le)

lemma text_on_Cons:
  assumes "printable c" "x + 7 \<le> 128" "y + 10 \<le> 64"
  shows "text_on (x + 7, y, cs) (\<lambda>px py. if x \<le> px \<and> px < x + 7 \<and> y \<le> py \<and> py < y + 10 then glyph c (px - x) (py - y) else img px py) px py =
     text_on (x, y, c # cs) img px py"
proof (cases "px < x + 7")
  case True
  then show ?thesis using assms by (auto simp: text_on_def shown_step)
next
  case False
  then have e: "px - x = (px - (x + 7)) + 7" by simp
  have "(px - x) div 7 = Suc ((px - (x + 7)) div 7)" "(px - x) mod 7 = (px - (x + 7)) mod 7"
    unfolding e by simp_all
  then show ?thesis using False assms by (auto simp: text_on_def shown_step)
qed

lemma text_on_img: "(\<And>px py. px < 128 \<Longrightarrow> py < 64 \<Longrightarrow> img px py = img' px py) \<Longrightarrow> px < 128 \<Longrightarrow> py < 64 \<Longrightarrow>
  text_on t img px py = text_on t img' px py"
  by (simp add: text_on_def split: prod.split)

lemma fold_text_on: "(\<And>px py. px < 128 \<Longrightarrow> py < 64 \<Longrightarrow> img px py = img' px py) \<Longrightarrow> px < 128 \<Longrightarrow> py < 64 \<Longrightarrow>
  fold text_on ts img px py = fold text_on ts img' px py"
proof (induction ts arbitrary: img img' px py)
  case (Cons t ts)
  have "text_on t img x y = text_on t img' x y" if "x < 128" "y < 64" for x y by (rule text_on_img[OF Cons.prems(1) that])
  from Cons.IH[OF this Cons.prems(2,3)] show ?case by (simp only: fold_simps)
qed simp

lemma text_on_nothing: "shown x y s = [] \<Longrightarrow> text_on (x, y, s) img = img"
  by (intro ext) (auto simp: text_on_def)

lemma write_chars_shows:
  assumes "frame_ok dp" "font_type dp = Font_10" "cursorX dp = int x" "cursorY dp = int y"
  shows "\<exists>r b cx. write_chars s dp = Some (r, dp\<lparr>dp_buffer := b, cursorX := cx\<rparr>) \<and> length b = SIZE_BUFFER \<and>
     (\<forall>px < 128. \<forall>py < 64. pixel b px py = text_on (x, y, s) (pixel (dp_buffer dp)) px py)"
  using assms
proof (induction s arbitrary: dp x)
  case Nil
  then show ?case
    by (intro exI[of _ "CHR 0x00"] exI[of _ "dp_buffer dp"] exI[of _ "cursorX dp"])
      (simp add: text_on_nothing shown_def frame_ok_def)
next
  case (Cons c cs)
  have e: "dp\<lparr>dp_buffer := dp_buffer dp, cursorX := cursorX dp\<rparr> = dp" by simp
  show ?case
  proof (cases "printable c \<and> x + 7 \<le> 128 \<and> y + 10 \<le> 64")
    case True
    then have p: "printable c" "x + 7 \<le> 128" "y + 10 \<le> 64" by simp_all
    have "c \<noteq> CHR 0x00" using p(1) by (auto simp: printable_def)
    obtain b where b: "WriteChar c dp = Some (c, dp\<lparr>dp_buffer := b, cursorX := int (x + 7)\<rparr>)" "length b = SIZE_BUFFER"
        "\<And>px py. px < 128 \<Longrightarrow> py < 64 \<Longrightarrow> pixel b px py =
          (if x \<le> px \<and> px < x + 7 \<and> y \<le> py \<and> py < y + 10 then glyph c (px - x) (py - y) else pixel (dp_buffer dp) px py)"
      using WriteChar_shows[OF Cons.prems p] by blast
    let ?dp = "dp\<lparr>dp_buffer := b, cursorX := int (x + 7)\<rparr>"
    have "frame_ok ?dp" "font_type ?dp = Font_10" "cursorX ?dp = int (x + 7)" "cursorY ?dp = int y"
      using b(2) Cons.prems by (simp_all add: frame_ok_def)
    from Cons.IH[OF this] obtain r b' cx where b': "write_chars cs ?dp = Some (r, dp\<lparr>dp_buffer := b', cursorX := cx\<rparr>)"
        "length b' = SIZE_BUFFER" "\<forall>px < 128. \<forall>py < 64. pixel b' px py = text_on (x + 7, y, cs) (pixel b) px py" by auto
    have "pixel b' px py = text_on (x, y, c # cs) (pixel (dp_buffer dp)) px py" if "px < 128" "py < 64" for px py
      using b'(3) that text_on_img[OF b(3) that] text_on_Cons[OF p] by simp
    then show ?thesis using b(1) b'(1,2) \<open>c \<noteq> CHR 0x00\<close> by auto
  next
    case False
    then have t: "text_on (x, y, c # cs) img = img" for img by (intro text_on_nothing) (simp add: shown_step)
    have "\<exists>r. write_chars (c # cs) dp = Some (r, dp)"
      using WriteChar_rejects[OF Cons.prems(2-4) False] by simp
    then show ?thesis using Cons.prems(1) e unfolding t frame_ok_def by metis
  qed
qed

lemma display_rows: "display_Y 0 = int 0" "display_Y 1 = int 12" "display_Y 2 = int 25" "display_Y 3 = int 38" "display_Y 4 = int 51"
  by (simp_all add: display_Y_def)

lemma WriteString_shows:
  assumes "frame_ok dp" "font_type dp = Font_10"
  shows "\<exists>r dp'. WriteString (int x) (int y) s dp = Some (r, dp') \<and> frame_ok dp' \<and> font_type dp' = Font_10 \<and>
     (\<forall>px < 128. \<forall>py < 64. pixel (dp_buffer dp') px py = text_on (x, y, s) (pixel (dp_buffer dp)) px py)"
proof -
  let ?dp = "dp\<lparr>cursorX := int x, cursorY := int y\<rparr>"
  have "frame_ok ?dp" "font_type ?dp = Font_10" "cursorX ?dp = int x" "cursorY ?dp = int y" using assms by (simp_all add: frame_ok_def)
  from write_chars_shows[OF this, of s] show ?thesis using assms(2) unfolding WriteString_def frame_ok_def by fastforce
qed

lemma write_texts_shows:
  assumes "frame_ok dp" "font_type dp = Font_10"
  shows "\<exists>dp'. write_texts (map (\<lambda>(x, y, s). (int x, int y, s)) ts) dp = Some dp' \<and> frame_ok dp' \<and>
     (\<forall>px < 128. \<forall>py < 64. pixel (dp_buffer dp') px py = fold text_on ts (pixel (dp_buffer dp)) px py)"
  using assms
proof (induction ts arbitrary: dp)
  case Nil
  then show ?case by simp
next
  case (Cons t ts)
  obtain x y s where t: "t = (x, y, s)" by (cases t)
  obtain r dp1 where d1: "WriteString (int x) (int y) s dp = Some (r, dp1)" "frame_ok dp1" "font_type dp1 = Font_10"
      "\<And>px py. px < 128 \<Longrightarrow> py < 64 \<Longrightarrow> pixel (dp_buffer dp1) px py = text_on t (pixel (dp_buffer dp)) px py"
    using WriteString_shows[OF Cons.prems, of x y s] t by auto
  obtain dp2 where d2: "write_texts (map (\<lambda>(x, y, s). (int x, int y, s)) ts) dp1 = Some dp2" "frame_ok dp2"
      "\<And>px py. px < 128 \<Longrightarrow> py < 64 \<Longrightarrow> pixel (dp_buffer dp2) px py = fold text_on ts (pixel (dp_buffer dp1)) px py"
    using Cons.IH[OF d1(2,3)] by auto
  have "fold text_on ts (pixel (dp_buffer dp1)) px py = fold text_on ts (text_on t (pixel (dp_buffer dp))) px py"
    if "px < 128" "py < 64" for px py
    using d1(4) that by (rule fold_text_on)
  then show ?case using d1(1) d2 t by auto
qed

section \<open>The screen\<close>

text \<open>
  What the controller SSD1306 keeps of the requests on the bus, as its data sheet describes the page addressing mode: after a start and its
  address, a control byte says whether commands or data follow; 0xB0 to 0xB7 select a page, 0x00 to 0x0F and 0x10 to 0x1F the two
  halves of the column, and a byte of data goes to the selected column, which then increases. The other commands do not
  change the picture memory.
\<close>

datatype ssd_phase = Ssd_Idle | Ssd_Address | Ssd_Control | Ssd_Commands | Ssd_Data

record ssd =
  ssd_phase :: ssd_phase
  ssd_page :: nat
  ssd_column :: nat
  ssd_ram :: "nat \<Rightarrow> nat \<Rightarrow> u8"

definition ssd_command :: "nat \<Rightarrow> ssd \<Rightarrow> ssd" where
  "ssd_command c z =
    (if c < 0x10 then z\<lparr>ssd_column := ssd_column z div 16 * 16 + c\<rparr>
     else if c < 0x20 then z\<lparr>ssd_column := (c - 0x10) * 16 mod 128 + ssd_column z mod 16\<rparr>
     else if 0xB0 \<le> c \<and> c < 0xB8 then z\<lparr>ssd_page := c - 0xB0\<rparr>
     else z)"

definition ssd_byte :: "u8 \<Rightarrow> ssd \<Rightarrow> ssd" where
  "ssd_byte b z =
    (case ssd_phase z of
       Ssd_Idle \<Rightarrow> z
     | Ssd_Address \<Rightarrow> z\<lparr>ssd_phase := if b = 0x78 then Ssd_Control else Ssd_Idle\<rparr>
     | Ssd_Control \<Rightarrow> z\<lparr>ssd_phase := if b = 0x00 then Ssd_Commands else if b = 0x40 then Ssd_Data else Ssd_Idle\<rparr>
     | Ssd_Commands \<Rightarrow> ssd_command (unat b) z
     | Ssd_Data \<Rightarrow> z\<lparr>ssd_ram := (ssd_ram z)(ssd_page z := (ssd_ram z (ssd_page z))(ssd_column z := b)),
         ssd_column := (ssd_column z + 1) mod 128\<rparr>)"

fun ssd_request :: "i2c_req \<Rightarrow> ssd \<Rightarrow> ssd" where
  "ssd_request Start z = z\<lparr>ssd_phase := Ssd_Address\<rparr>"
| "ssd_request Stop z = z\<lparr>ssd_phase := Ssd_Idle\<rparr>"
| "ssd_request (Byte b) z = ssd_byte b z"

definition screen_pixel :: "ssd \<Rightarrow> nat \<Rightarrow> nat \<Rightarrow> bool" where
  "screen_pixel z x y = bit (ssd_ram z (y div 8) x) (y mod 8)"

definition command_reqs :: "u8 \<Rightarrow> i2c_req list" where
  "command_reqs c = [Stop, Start, Byte 0x78, Byte 0x00, Byte c, Stop]"

definition page_reqs :: "u8 list \<Rightarrow> nat \<Rightarrow> i2c_req list" where
  "page_reqs buffer i = command_reqs (0xB0 + of_nat i) @ command_reqs 0x00 @ command_reqs 0x10 @
     [Stop, Start, Byte 0x78, Byte 0x40] @ map Byte (take 128 (drop (128 * i) buffer)) @ [Stop]"

lemma SendCommand_served:
  assumes "bus_serves w (i2c_periph d)" "address_byte d I2C_TRANSMITTER = 0x78"
  shows "goes w 6 (\<lambda>ok rs. ok \<and> rs = command_reqs c) s (SendCommand w d c s)"
  unfolding SendCommand_def
  by (rule goes_mono[OF I2C_Write_served[OF assms(1)]]) (simp_all add: command_reqs_def assms(2))

lemma write_pages_served:
  assumes "bus_serves w (i2c_periph d)" "address_byte d I2C_TRANSMITTER = 0x78"
  shows "goes w (151 * length is) (\<lambda>_ rs. rs = concat (map (page_reqs buffer) is)) s (write_pages w d buffer is s)"
proof (induction "is" arbitrary: s)
  case Nil
  show ?case by (simp add: goes_Some)
next
  case (Cons i "is")
  note cmd = goes_bind[OF SendCommand_served[OF assms]]
  have "goes w (6 + (6 + (6 + (133 + 151 * length is)))) (\<lambda>_ rs. rs = concat (map (page_reqs buffer) (i # is))) s
     (write_pages w d buffer (i # is) s)"
    unfolding write_pages.simps
  proof (rule cmd, goal_cases)
    case (1 ok1 rs1 s1)
    then have ok: "ok1" and rs1: "rs1 = command_reqs (0xB0 + of_nat i)" by simp_all
    have "goes w (6 + (6 + (133 + 151 * length is))) (\<lambda>_ rs. rs1 @ rs = concat (map (page_reqs buffer) (i # is))) s1
      (do { (_, s) \<leftarrow> SendCommand w d 0x00 s1;
            (_, s) \<leftarrow> SendCommand w d 0x10 s;
            (_, s) \<leftarrow> I2C_Write w d SSD_DATA (take (nat WIDTH) (drop (nat WIDTH * i) buffer)) s;
            write_pages w d buffer is s })"
    proof (rule cmd, simp only: prod.case, rule cmd, simp only: prod.case, goal_cases)
      case (1 ok2 rs2 s2 ok3 rs3 s3)
      have data: "goes w 133 (\<lambda>ok rs. rs = [Stop, Start, Byte 0x78, Byte 0x40] @ map Byte (take 128 (drop (128 * i) buffer)) @ [Stop]) s3
          (I2C_Write w d SSD_DATA (take (nat WIDTH) (drop (nat WIDTH * i) buffer)) s3)"
        by (rule goes_mono[OF I2C_Write_served[OF assms(1)]]) (simp_all add: assms(2))
      show ?case
        by (rule goes_bind[OF data], simp only: prod.case, rule goes_mono[OF Cons.IH])
          (use 1 rs1 in \<open>simp_all add: page_reqs_def[of buffer i]\<close>)
    qed
    then show ?case using ok by simp
  qed
  then show ?case by (rule goes_mono) simp_all
qed

lemma ssd_data:
  assumes "ssd_phase z = Ssd_Data" "ssd_column z + length bs \<le> 128"
  shows "ssd_ram (fold ssd_request (map Byte bs) z) p x =
     (if p = ssd_page z \<and> ssd_column z \<le> x \<and> x < ssd_column z + length bs then bs ! (x - ssd_column z) else ssd_ram z p x)"
  using assms
proof (induction bs arbitrary: z)
  case Nil
  then show ?case by auto
next
  case (Cons b bs)
  define c where "c = ssd_column z"
  let ?z = "z\<lparr>ssd_ram := (ssd_ram z)(ssd_page z := (ssd_ram z (ssd_page z))(c := b)), ssd_column := (c + 1) mod 128\<rparr>"
  have step: "ssd_request (Byte b) z = ?z" using Cons.prems(1) by (simp add: ssd_byte_def c_def)
  show ?case
  proof (cases "bs = []")
    case True
    then show ?thesis using step by (auto simp: c_def)
  next
    case False
    then have c: "c + 1 < 128" using Cons.prems(2) by (cases bs) (simp_all add: c_def)
    have "ssd_ram (fold ssd_request (map Byte bs) ?z) p x =
      (if p = ssd_page z \<and> c + 1 \<le> x \<and> x < c + 1 + length bs then bs ! (x - (c + 1)) else ssd_ram ?z p x)"
      using Cons.IH[of ?z] Cons.prems c by (simp add: c_def cong: if_cong)
    then show ?thesis using step by (auto simp: c_def[symmetric] nth_Cons')
  qed
qed

lemma ssd_page_shown:
  assumes "i < 8" "length buffer = SIZE_BUFFER"
  shows "ssd_ram (fold ssd_request (page_reqs buffer i) z) p x = (if p = i \<and> x < 128 then buffer ! (x + 128 * i) else ssd_ram z p x)"
proof -
  have page: "unat (0xB0 + of_nat i :: u8) = 0xB0 + i"
    using assms(1) by (subst unat_add_lem[THEN iffD1]) (simp_all add: unat_of_nat take_bit_nat_eq_self)
  define z' where "z' = fold ssd_request (command_reqs (0xB0 + of_nat i) @ command_reqs 0x00 @ command_reqs 0x10 @
     [Stop, Start, Byte 0x78, Byte 0x40]) z"
  have z': "ssd_phase z' = Ssd_Data" "ssd_page z' = i" "ssd_column z' = 0" "ssd_ram z' = ssd_ram z"
    using assms(1) by (simp_all add: z'_def command_reqs_def ssd_byte_def ssd_command_def page)
  have len: "length (take 128 (drop (128 * i) buffer)) = 128" using assms by simp
  have "fold ssd_request (page_reqs buffer i) z = ssd_request Stop (fold ssd_request (map Byte (take 128 (drop (128 * i) buffer))) z')"
    by (simp add: page_reqs_def z'_def)
  then show ?thesis using ssd_data[of z' "take 128 (drop (128 * i) buffer)" p x] z' len assms by (auto simp: add.commute)
qed

lemma ssd_pages_shown:
  assumes "n \<le> 8" "length buffer = SIZE_BUFFER"
  shows "ssd_ram (fold ssd_request (concat (map (page_reqs buffer) [0..<n])) z) p x =
     (if p < n \<and> x < 128 then buffer ! (x + 128 * p) else ssd_ram z p x)"
  using assms(1)
proof (induction n)
  case (Suc n)
  then show ?case using ssd_page_shown[OF _ assms(2), of n] by (auto simp: less_Suc_eq)
qed simp

lemma WriteBuffer_shown:
  assumes "bus_serves w (i2c_periph d)" "address_byte d I2C_TRANSMITTER = 0x78" "length buffer = SIZE_BUFFER"
  shows "\<exists>s' rs. SSD1306_WriteBuffer w d buffer s = Some ((), s') \<and> i2c_reqs s' = i2c_reqs s @ rs \<and> unat (i2c_now w s' - i2c_now w s) \<le> 1208 \<and>
     (\<forall>z. \<forall>x < 128. \<forall>y < 64. screen_pixel (fold ssd_request rs z) x y = pixel buffer x y)"
proof -
  have e: "[0..<nat (HEIGHT div 8)] = [0..<8]" by simp
  have "goes w (151 * length [0..<8]) (\<lambda>_ rs. rs = concat (map (page_reqs buffer) [0..<8])) s (SSD1306_WriteBuffer w d buffer s)"
    unfolding SSD1306_WriteBuffer_def e by (rule write_pages_served[OF assms(1,2)])
  then obtain s' where s': "SSD1306_WriteBuffer w d buffer s = Some ((), s')"
      "i2c_reqs s' = i2c_reqs s @ concat (map (page_reqs buffer) [0..<8])" "unat (i2c_now w s' - i2c_now w s) \<le> 1208"
    by (auto simp: goes_def)
  have "screen_pixel (fold ssd_request (concat (map (page_reqs buffer) [0..<8])) z) x y = pixel buffer x y"
    if "x < 128" "y < 64" for z x y
  proof -
    have "y div 8 < 8" using that by (simp add: div_less_iff_less_mult)
    then show ?thesis using that ssd_pages_shown[of 8 buffer z "y div 8" x] assms(3) by (simp add: screen_pixel_def pixel_def)
  qed
  then show ?thesis using s' by blast
qed

definition nat_texts ::
    "(string \<Rightarrow> 'f \<Rightarrow> string) \<Rightarrow> u8 list \<Rightarrow> 'f measurements \<Rightarrow> u32 \<Rightarrow> modem \<Rightarrow> device \<Rightarrow> (nat \<times> nat \<times> string) list" where
  "nat_texts fmt uid meas now md d = map (\<lambda>(x, y, s). (nat x, nat y, s)) (update_texts fmt uid meas now md d)"

lemma nat_texts_ints: "map (\<lambda>(x, y, s). (int x, int y, s)) (nat_texts fmt uid meas now md d) = update_texts fmt uid meas now md d"
  by (simp add: nat_texts_def update_texts_def display_rows)

lemma Display_Update_result:
  assumes "bus_serves w (i2c_periph p)" "i2c_address p = 0x78" "font_type dp = Font_10"
  shows "\<exists>dp' s' rs. Display_Update w p fmt uid meas md d dp s = Some (dp', s') \<and> i2c_reqs s' = i2c_reqs s @ rs \<and>
     unat (i2c_now w s' - i2c_now w s) \<le> 1300 \<and>
     (\<forall>z. \<forall>x < 128. \<forall>y < 64. screen_pixel (fold ssd_request rs z) x y =
        fold text_on (nat_texts fmt uid meas (i2c_now w s) md d) (\<lambda>_ _. False) x y)"
proof -
  have a: "address_byte p I2C_TRANSMITTER = 0x78" using assms(2) by (simp add: address_byte_def)
  have b: "frame_ok (BeginScene dp)" "font_type (BeginScene dp) = Font_10" using assms(3) by (simp_all add: BeginScene_def frame_ok_def)
  have dark: "pixel (dp_buffer (BeginScene dp)) x y = False" if "x < 128" "y < 64" for x y
    using index_in_buffer[OF that] by (simp add: pixel_def BeginScene_def)
  let ?ts = "nat_texts fmt uid meas (i2c_now w s) md d"
  from write_texts_shows[OF b, of ?ts] obtain dp' where d:
      "write_texts (update_texts fmt uid meas (i2c_now w s) md d) (BeginScene dp) = Some dp'" "frame_ok dp'"
      "\<And>x y. x < 128 \<Longrightarrow> y < 64 \<Longrightarrow> pixel (dp_buffer dp') x y = fold text_on ?ts (pixel (dp_buffer (BeginScene dp))) x y"
    unfolding nat_texts_ints by blast
  obtain s' rs where s': "SSD1306_WriteBuffer w p (dp_buffer dp') s = Some ((), s')" "i2c_reqs s' = i2c_reqs s @ rs"
      "unat (i2c_now w s' - i2c_now w s) \<le> 1208"
      "\<And>z x y. x < 128 \<Longrightarrow> y < 64 \<Longrightarrow> screen_pixel (fold ssd_request rs z) x y = pixel (dp_buffer dp') x y"
    using WriteBuffer_shown[OF assms(1) a, of "dp_buffer dp'" s] d(2) unfolding frame_ok_def by blast
  have "screen_pixel (fold ssd_request rs z) x y = fold text_on ?ts (\<lambda>_ _. False) x y" if "x < 128" "y < 64" for z x y
    using s'(4)[OF that] d(3)[OF that] fold_text_on[OF dark that] by simp
  then show ?thesis using d(1) s'(1-3) by (auto simp: Display_Update_def)
qed

section \<open>Properties\<close>

text \<open>
  \<^verbatim>\<open>WriteString\<close> draws the text that its arguments describe, at any place of or beyond the screen: of the characters up to the first
  one without a glyph those that fit in the line, each in its cell of seven by ten pixels with the lit and the dark pixels of the font. No other
  pixel changes, and no access leaves the frame buffer.
\<close>

lemma text_rendered:
  assumes "frame_ok dp" "font_type dp = Font_10"
  shows "\<exists>r dp'. WriteString (int x) (int y) s dp = Some (r, dp') \<and> frame_ok dp' \<and>
     (\<forall>px < 128. \<forall>py < 64. pixel (dp_buffer dp') px py =
        (let cs = shown x y s
          in if x \<le> px \<and> px < x + 7 * length cs \<and> y \<le> py \<and> py < y + 10
             then glyph (cs ! ((px - x) div 7)) ((px - x) mod 7) (py - y) else pixel (dp_buffer dp) px py))"
  using WriteString_shows[OF assms, of x y s] by (auto simp: text_on_def Let_def cong: if_cong)

definition dark_display :: display where
  "dark_display = \<lparr>dp_buffer = replicate SIZE_BUFFER 0, cursorX = 0, cursorY = 0, font_type = Font_10\<rparr>"

lemma dark_display_ok: "frame_ok dark_display" "font_type dark_display = Font_10"
  by (simp_all add: dark_display_def frame_ok_def)

text \<open>
  C24: with a display on the bus that answers, \<^verbatim>\<open>Display::Update\<close> returns, within 1.3 seconds, and the screen shows exactly the texts of this
  turn on a dark ground, whatever it showed before: the number of the device, the measurements in turn, and the state of the modem.
\<close>

theorem display_shows_state:
  assumes "bus_serves w (i2c_periph p)" "i2c_address p = 0x78" "font_type dp = Font_10"
  shows "\<exists>dp' s' rs. Display_Update w p fmt uid meas md d dp s = Some (dp', s') \<and> i2c_reqs s' = i2c_reqs s @ rs \<and>
     unat (i2c_now w s' - i2c_now w s) \<le> 1300 \<and>
     (\<forall>z. \<forall>x < 128. \<forall>y < 64. screen_pixel (fold ssd_request rs z) x y =
        fold text_on (nat_texts fmt uid meas (i2c_now w s) md d) (\<lambda>_ _. False) x y)"
  using assms by (rule Display_Update_result)

theorem display_shows_state_witness:
  "\<exists>dp' s' rs. Display_Update quick_bus display_port (\<lambda>f v. v)
       (replicate 12 0) \<lparr>need_send = True, latitude = [], longitude = [], temperature = ''1'', humidity = [], charge = []\<rparr>
       reset_modem new_device dark_display idle_port = Some (dp', s') \<and> i2c_reqs s' = i2c_reqs idle_port @ rs \<and>
     (\<forall>z. \<not> screen_pixel (fold ssd_request rs z) 0 0)"
proof -
  let ?m = "\<lparr>need_send = True, latitude = [], longitude = [], temperature = ''1'', humidity = [], charge = []\<rparr>"
  have s: "bus_serves quick_bus (i2c_periph display_port)" "i2c_address display_port = 0x78"
    by (simp_all add: display_port_def quick_bus_serves)
  obtain dp' s' rs where d: "Display_Update quick_bus display_port (\<lambda>f v. v) (replicate 12 0) ?m reset_modem new_device dark_display idle_port = Some (dp', s')"
      "i2c_reqs s' = i2c_reqs idle_port @ rs" "\<forall>z. \<forall>x < 128. \<forall>y < 64. screen_pixel (fold ssd_request rs z) x y =
        fold text_on (nat_texts (\<lambda>f v. v) (replicate 12 0) ?m (i2c_now quick_bus idle_port) reset_modem new_device) (\<lambda>_ _. False) x y"
    using display_shows_state[OF s dark_display_ok(2)] by blast
  have "\<not> fold text_on (nat_texts (\<lambda>f v. v) (replicate 12 0) ?m (i2c_now quick_bus idle_port) reset_modem new_device) (\<lambda>_ _. False) 0 0"
    by (simp add: nat_texts_def update_texts_def text_on_def)
  then show ?thesis using d(1,2) d(3)[rule_format, of 0 0] by auto
qed

text \<open>If only the clock goes on, an update of the display returns, whatever the bus does.\<close>

lemma Write_returns_always: "clock_ticks w \<Longrightarrow> \<exists>ok s'. I2C_Write w d command data s = Some (ok, s')"
  using goes_I2C_Write[of w data d command s] by (auto simp: goes_def)

lemma write_pages_returns: "clock_ticks w \<Longrightarrow> \<exists>s'. write_pages w d buffer is s = Some ((), s')"
proof (induction "is" arbitrary: s)
  case (Cons i "is")
  note r = Write_returns_always[OF Cons.prems]
  obtain ok1 s1 where 1: "SendCommand w d (0xB0 + of_nat i) s = Some (ok1, s1)" using r unfolding SendCommand_def by blast
  obtain ok2 s2 where 2: "SendCommand w d 0x00 s1 = Some (ok2, s2)" using r unfolding SendCommand_def by blast
  obtain ok3 s3 where 3: "SendCommand w d 0x10 s2 = Some (ok3, s3)" using r unfolding SendCommand_def by blast
  obtain ok4 s4 where 4: "I2C_Write w d SSD_DATA (take (nat WIDTH) (drop (nat WIDTH * i) buffer)) s3 = Some (ok4, s4)" using r by blast
  show ?case using Cons.IH[OF Cons.prems, of s4] 1 2 3 4 by simp
qed simp

lemma Display_Update_returns:
  assumes "clock_ticks w" "font_type dp = Font_10"
  shows "\<exists>dp' s'. Display_Update w p fmt uid meas md d dp s = Some (dp', s')"
proof -
  have b: "frame_ok (BeginScene dp)" "font_type (BeginScene dp) = Font_10" using assms(2) by (simp_all add: BeginScene_def frame_ok_def)
  obtain dp' where t: "write_texts (update_texts fmt uid meas (i2c_now w s) md d) (BeginScene dp) = Some dp'"
    using write_texts_shows[OF b, of "nat_texts fmt uid meas (i2c_now w s) md d"] unfolding nat_texts_ints by blast
  obtain s' where "SSD1306_WriteBuffer w p (dp_buffer dp') s = Some ((), s')"
    using write_pages_returns[OF assms(1)] unfolding SSD1306_WriteBuffer_def by blast
  then show ?thesis using t by (simp add: Display_Update_def)
qed

text \<open>
  The display does not disturb the device. If the clock goes on, a turn of the main loop has for the modem, the client of the broker
  and the rest of the device the result that the turn without the display has; the display only takes time.
\<close>

lemma display_transparent:
  assumes "clock_ticks w" "font_type dp = Font_10"
  shows "\<exists>dps'. Device_Update_Display w p fmt meas uid nul junk t hw now (dp, s) (md, d) =
     map_option (Pair dps') (Device_Update uid nul junk t hw now (i2c_now w (snd dps')) (md, d))"
proof -
  let ?t = "if mq_connected (d_mqtt d) \<and> ElapsedTime now (d_meter d) > 1000
    then device_Time uid nul junk t hw (md, d\<lparr>d_meter := meter_Reset now (d_meter d)\<rparr>) else Some (md, d)"
  show ?thesis
  proof (cases ?t)
    case None
    then show ?thesis by (simp add: Device_Update_Display_def Device_Update_def)
  next
    case (Some r)
    obtain md1 d1 where r: "r = (md1, d1)" by (cases r)
    obtain dp' s' where "Display_Update w p fmt uid meas md1 d1 dp s = Some (dp', s')"
      using Display_Update_returns[OF assms] by blast
    then have "Device_Update_Display w p fmt meas uid nul junk t hw now (dp, s) (md, d) =
       map_option (Pair (dp', s')) (device_modem uid nul junk (i2c_now w s') (md1, d1))"
      unfolding Device_Update_Display_def using Some r by (cases "device_modem uid nul junk (i2c_now w s') (md1, d1)") simp_all
    then show ?thesis using Some r by (intro exI[of _ "(dp', s')"]) (simp add: Device_Update_def)
  qed
qed

end
