(* ===== verification/Gd32_Adc.thy ===== *)
theory Gd32_Adc
  imports Gd32_Rcu
begin

unbundle bit_operations_syntax

text \<open>
  Analog to digital converters: gd32f30x_adc.c.
\<close>

section \<open>Registers and constants\<close>

abbreviation ADC0 :: u32 where "ADC0 \<equiv> 0x40012400"
abbreviation ADC1 :: u32 where "ADC1 \<equiv> 0x40012800"
abbreviation ADC2 :: u32 where "ADC2 \<equiv> 0x40013C00"
abbreviation ADC_STAT :: "u32 \<Rightarrow> u32" where
  "ADC_STAT adcx \<equiv> adcx + 0"
abbreviation ADC_CTL0 :: "u32 \<Rightarrow> u32" where
  "ADC_CTL0 adcx \<equiv> adcx + 4"
abbreviation ADC_CTL1 :: "u32 \<Rightarrow> u32" where
  "ADC_CTL1 adcx \<equiv> adcx + 8"
abbreviation ADC_SAMPT0 :: "u32 \<Rightarrow> u32" where
  "ADC_SAMPT0 adcx \<equiv> adcx + 0xC"
abbreviation ADC_SAMPT1 :: "u32 \<Rightarrow> u32" where
  "ADC_SAMPT1 adcx \<equiv> adcx + 0x10"
abbreviation ADC_WDHT :: "u32 \<Rightarrow> u32" where
  "ADC_WDHT adcx \<equiv> adcx + 0x24"
abbreviation ADC_WDLT :: "u32 \<Rightarrow> u32" where
  "ADC_WDLT adcx \<equiv> adcx + 0x28"
abbreviation ADC_RSQ0 :: "u32 \<Rightarrow> u32" where
  "ADC_RSQ0 adcx \<equiv> adcx + 0x2C"
abbreviation ADC_RSQ1 :: "u32 \<Rightarrow> u32" where
  "ADC_RSQ1 adcx \<equiv> adcx + 0x30"
abbreviation ADC_RSQ2 :: "u32 \<Rightarrow> u32" where
  "ADC_RSQ2 adcx \<equiv> adcx + 0x34"
abbreviation ADC_ISQ :: "u32 \<Rightarrow> u32" where
  "ADC_ISQ adcx \<equiv> adcx + 0x38"
abbreviation ADC_IDATA0 :: "u32 \<Rightarrow> u32" where
  "ADC_IDATA0 adcx \<equiv> adcx + 0x3C"
abbreviation ADC_IDATA1 :: "u32 \<Rightarrow> u32" where
  "ADC_IDATA1 adcx \<equiv> adcx + 0x40"
abbreviation ADC_IDATA2 :: "u32 \<Rightarrow> u32" where
  "ADC_IDATA2 adcx \<equiv> adcx + 0x44"
abbreviation ADC_IDATA3 :: "u32 \<Rightarrow> u32" where
  "ADC_IDATA3 adcx \<equiv> adcx + 0x48"
abbreviation ADC_RDATA :: "u32 \<Rightarrow> u32" where
  "ADC_RDATA adcx \<equiv> adcx + 0x4C"
abbreviation ADC_OVSAMPCTL :: "u32 \<Rightarrow> u32" where
  "ADC_OVSAMPCTL adcx \<equiv> adcx + 0x80"
abbreviation ADC_STAT_WDE :: u32 where "ADC_STAT_WDE \<equiv> 0x1"
abbreviation ADC_STAT_EOC :: u32 where "ADC_STAT_EOC \<equiv> 0x2"
abbreviation ADC_STAT_EOIC :: u32 where "ADC_STAT_EOIC \<equiv> 0x4"
abbreviation ADC_CTL0_WDCHSEL :: u32 where "ADC_CTL0_WDCHSEL \<equiv> 0x1F"
abbreviation ADC_CTL0_EOCIE :: u32 where "ADC_CTL0_EOCIE \<equiv> 0x20"
abbreviation ADC_CTL0_WDEIE :: u32 where "ADC_CTL0_WDEIE \<equiv> 0x40"
abbreviation ADC_CTL0_EOICIE :: u32 where "ADC_CTL0_EOICIE \<equiv> 0x80"
abbreviation ADC_CTL0_WDSC :: u32 where "ADC_CTL0_WDSC \<equiv> 0x200"
abbreviation ADC_CTL0_DISRC :: u32 where "ADC_CTL0_DISRC \<equiv> 0x800"
abbreviation ADC_CTL0_DISIC :: u32 where "ADC_CTL0_DISIC \<equiv> 0x1000"
abbreviation ADC_CTL0_DISNUM :: u32 where "ADC_CTL0_DISNUM \<equiv> 0xE000"
abbreviation ADC_CTL0_SYNCM :: u32 where "ADC_CTL0_SYNCM \<equiv> 0xF0000"
abbreviation ADC_CTL0_IWDEN :: u32 where "ADC_CTL0_IWDEN \<equiv> 0x400000"
abbreviation ADC_CTL0_RWDEN :: u32 where "ADC_CTL0_RWDEN \<equiv> 0x800000"
abbreviation ADC_CTL1_ADCON :: u32 where "ADC_CTL1_ADCON \<equiv> 0x1"
abbreviation ADC_CTL1_CLB :: u32 where "ADC_CTL1_CLB \<equiv> 0x4"
abbreviation ADC_CTL1_RSTCLB :: u32 where "ADC_CTL1_RSTCLB \<equiv> 0x8"
abbreviation ADC_CTL1_DMA :: u32 where "ADC_CTL1_DMA \<equiv> 0x100"
abbreviation ADC_CTL1_DAL :: u32 where "ADC_CTL1_DAL \<equiv> 0x800"
abbreviation ADC_CTL1_ETSIC :: u32 where "ADC_CTL1_ETSIC \<equiv> 0x7000"
abbreviation ADC_CTL1_ETEIC :: u32 where "ADC_CTL1_ETEIC \<equiv> 0x8000"
abbreviation ADC_CTL1_ETSRC :: u32 where "ADC_CTL1_ETSRC \<equiv> 0xE0000"
abbreviation ADC_CTL1_ETERC :: u32 where "ADC_CTL1_ETERC \<equiv> 0x100000"
abbreviation ADC_CTL1_SWICST :: u32 where "ADC_CTL1_SWICST \<equiv> 0x200000"
abbreviation ADC_CTL1_SWRCST :: u32 where "ADC_CTL1_SWRCST \<equiv> 0x400000"
abbreviation ADC_CTL1_TSVREN :: u32 where "ADC_CTL1_TSVREN \<equiv> 0x800000"
abbreviation ADC_SAMPTX_SPTN :: u32 where "ADC_SAMPTX_SPTN \<equiv> 0x7"
abbreviation ADC_RSQX_RSQN :: u32 where "ADC_RSQX_RSQN \<equiv> 0x1F"
abbreviation ADC_RSQ0_RL :: u32 where "ADC_RSQ0_RL \<equiv> 0xF00000"
abbreviation ADC_ISQ_ISQN :: u32 where "ADC_ISQ_ISQN \<equiv> 0x1F"
abbreviation ADC_ISQ_IL :: u32 where "ADC_ISQ_IL \<equiv> 0x300000"
abbreviation ADC_OVSAMPCTL_OVSEN :: u32 where "ADC_OVSAMPCTL_OVSEN \<equiv> 0x1"
abbreviation ADC_OVSAMPCTL_OVSR :: u32 where "ADC_OVSAMPCTL_OVSR \<equiv> 0x1C"
abbreviation ADC_OVSAMPCTL_OVSS :: u32 where "ADC_OVSAMPCTL_OVSS \<equiv> 0x1E0"
abbreviation ADC_OVSAMPCTL_TOVS :: u32 where "ADC_OVSAMPCTL_TOVS \<equiv> 0x200"
abbreviation ADC_OVSAMPCTL_DRES :: u32 where "ADC_OVSAMPCTL_DRES \<equiv> 0x3000"
abbreviation CTL0_DISNUM :: "u32 \<Rightarrow> u32" where
  "CTL0_DISNUM regval \<equiv> BITS 13 15 AND push_bit 13 regval"
abbreviation ADC_SCAN_MODE :: u32 where "ADC_SCAN_MODE \<equiv> 0x100"
abbreviation ADC_INSERTED_CHANNEL_AUTO :: u32 where "ADC_INSERTED_CHANNEL_AUTO \<equiv> 0x400"
abbreviation ADC_CONTINUOUS_MODE :: u32 where "ADC_CONTINUOUS_MODE \<equiv> 0x2"
abbreviation ADC_DATAALIGN_RIGHT :: u32 where "ADC_DATAALIGN_RIGHT \<equiv> 0x0"
abbreviation IOFFX_IOFF :: "u32 \<Rightarrow> u32" where
  "IOFFX_IOFF regval \<equiv> BITS 0 11 AND push_bit 0 regval"
abbreviation WDHT_WDHT :: "u32 \<Rightarrow> u32" where
  "WDHT_WDHT regval \<equiv> BITS 0 11 AND push_bit 0 regval"
abbreviation WDLT_WDLT :: "u32 \<Rightarrow> u32" where
  "WDLT_WDLT regval \<equiv> BITS 0 11 AND push_bit 0 regval"
abbreviation RSQ0_RL :: "u32 \<Rightarrow> u32" where
  "RSQ0_RL regval \<equiv> BITS 20 23 AND push_bit 20 regval"
abbreviation ISQ_IL :: "u32 \<Rightarrow> u32" where
  "ISQ_IL regval \<equiv> BITS 20 21 AND push_bit 20 regval"
abbreviation ADC_OVERSAMPLING_ONE_CONVERT :: u32 where "ADC_OVERSAMPLING_ONE_CONVERT \<equiv> 0x200"
abbreviation ADC_REGULAR_CHANNEL :: u32 where "ADC_REGULAR_CHANNEL \<equiv> 0x1"
abbreviation ADC_INSERTED_CHANNEL :: u32 where "ADC_INSERTED_CHANNEL \<equiv> 0x2"
abbreviation ADC_REGULAR_INSERTED_CHANNEL :: u32 where "ADC_REGULAR_INSERTED_CHANNEL \<equiv> 0x3"
abbreviation ADC_INSERTED_CHANNEL_0 :: u32 where "ADC_INSERTED_CHANNEL_0 \<equiv> 0x0"
abbreviation ADC_INSERTED_CHANNEL_1 :: u32 where "ADC_INSERTED_CHANNEL_1 \<equiv> 0x1"
abbreviation ADC_INSERTED_CHANNEL_2 :: u32 where "ADC_INSERTED_CHANNEL_2 \<equiv> 0x2"
abbreviation ADC_INSERTED_CHANNEL_3 :: u32 where "ADC_INSERTED_CHANNEL_3 \<equiv> 0x3"
abbreviation ADC_INT_WDE :: u32 where "ADC_INT_WDE \<equiv> 0x1"
abbreviation ADC_INT_EOC :: u32 where "ADC_INT_EOC \<equiv> 0x2"
abbreviation ADC_INT_EOIC :: u32 where "ADC_INT_EOIC \<equiv> 0x4"
abbreviation ADC_INT_FLAG_WDE :: u32 where "ADC_INT_FLAG_WDE \<equiv> 0x1"
abbreviation ADC_INT_FLAG_EOC :: u32 where "ADC_INT_FLAG_EOC \<equiv> 0x2"
abbreviation ADC_INT_FLAG_EOIC :: u32 where "ADC_INT_FLAG_EOIC \<equiv> 0x4"

section \<open>Operations\<close>

definition adc_deinit :: "u32 \<Rightarrow> mem \<Rightarrow> mem" where
  "adc_deinit adc_periph m =
    (if adc_periph = ADC0 then
       (let m = rcu_periph_reset_enable RCU_ADC0RST m
         in rcu_periph_reset_disable RCU_ADC0RST m)
     else if adc_periph = ADC1 then
       (let m = rcu_periph_reset_enable RCU_ADC1RST m
         in rcu_periph_reset_disable RCU_ADC1RST m)
     else if adc_periph = ADC2 then
       (let m = rcu_periph_reset_enable RCU_ADC2RST m
         in rcu_periph_reset_disable RCU_ADC2RST m)
     else
       m)"

definition adc_enable :: "u32 \<Rightarrow> mem \<Rightarrow> mem" where
  "adc_enable adc_periph m =
    (if (m (ADC_CTL1 adc_periph) AND ADC_CTL1_ADCON) = 0 then
       m(ADC_CTL1 adc_periph := m (ADC_CTL1 adc_periph) OR ADC_CTL1_ADCON)
     else
       m)"

definition adc_disable :: "u32 \<Rightarrow> mem \<Rightarrow> mem" where
  "adc_disable adc_periph m =
    m(ADC_CTL1 adc_periph := m (ADC_CTL1 adc_periph) AND NOT ADC_CTL1_ADCON)"

definition adc_calibration_enable :: "(mem \<Rightarrow> mem) \<Rightarrow> u32 \<Rightarrow> mem \<Rightarrow> mem option" where
  "adc_calibration_enable hw adc_periph m =
    (let m = m(ADC_CTL1 adc_periph := m (ADC_CTL1 adc_periph) OR ADC_CTL1_RSTCLB)
      in (case poll_clear hw (ADC_CTL1 adc_periph) ADC_CTL1_RSTCLB m of
            None \<Rightarrow> None
          | Some m \<Rightarrow>
              (let m = m(ADC_CTL1 adc_periph := m (ADC_CTL1 adc_periph) OR ADC_CTL1_CLB)
                in poll_clear hw (ADC_CTL1 adc_periph) ADC_CTL1_CLB m)))"

definition adc_dma_mode_enable :: "u32 \<Rightarrow> mem \<Rightarrow> mem" where
  "adc_dma_mode_enable adc_periph m =
    m(ADC_CTL1 adc_periph := m (ADC_CTL1 adc_periph) OR ADC_CTL1_DMA)"

definition adc_dma_mode_disable :: "u32 \<Rightarrow> mem \<Rightarrow> mem" where
  "adc_dma_mode_disable adc_periph m =
    m(ADC_CTL1 adc_periph := m (ADC_CTL1 adc_periph) AND NOT ADC_CTL1_DMA)"

definition adc_tempsensor_vrefint_enable :: "mem \<Rightarrow> mem" where
  "adc_tempsensor_vrefint_enable m =
    m(ADC_CTL1 ADC0 := m (ADC_CTL1 ADC0) OR ADC_CTL1_TSVREN)"

definition adc_tempsensor_vrefint_disable :: "mem \<Rightarrow> mem" where
  "adc_tempsensor_vrefint_disable m =
    m(ADC_CTL1 ADC0 := m (ADC_CTL1 ADC0) AND NOT ADC_CTL1_TSVREN)"

definition adc_resolution_config :: "u32 \<Rightarrow> u32 \<Rightarrow> mem \<Rightarrow> mem" where
  "adc_resolution_config adc_periph resolution m =
    (let m = m(ADC_OVSAMPCTL adc_periph := m (ADC_OVSAMPCTL adc_periph) AND NOT ADC_OVSAMPCTL_DRES)
      in m(ADC_OVSAMPCTL adc_periph := m (ADC_OVSAMPCTL adc_periph) OR resolution))"

definition adc_discontinuous_mode_config :: "u32 \<Rightarrow> u8 \<Rightarrow> u8 \<Rightarrow> mem \<Rightarrow> mem" where
  "adc_discontinuous_mode_config adc_periph adc_channel_group length' m =
    (let m = m(ADC_CTL0 adc_periph := m (ADC_CTL0 adc_periph) AND NOT (ADC_CTL0_DISRC OR ADC_CTL0_DISIC))
      in (if (ucast adc_channel_group :: u32) = ADC_REGULAR_CHANNEL then
            (let m = m(ADC_CTL0 adc_periph := m (ADC_CTL0 adc_periph) AND NOT ADC_CTL0_DISNUM);
                 m = m(ADC_CTL0 adc_periph := m (ADC_CTL0 adc_periph) OR CTL0_DISNUM ((ucast length' :: u32) - 1))
              in m(ADC_CTL0 adc_periph := m (ADC_CTL0 adc_periph) OR ADC_CTL0_DISRC))
          else if (ucast adc_channel_group :: u32) = ADC_INSERTED_CHANNEL then
            m(ADC_CTL0 adc_periph := m (ADC_CTL0 adc_periph) OR ADC_CTL0_DISIC)
          else
            m))"

definition adc_mode_config :: "u32 \<Rightarrow> mem \<Rightarrow> mem" where
  "adc_mode_config mode m =
    (let m = m(ADC_CTL0 ADC0 := m (ADC_CTL0 ADC0) AND NOT ADC_CTL0_SYNCM)
      in m(ADC_CTL0 ADC0 := m (ADC_CTL0 ADC0) OR mode))"

definition adc_special_function_config :: "u32 \<Rightarrow> u32 \<Rightarrow> ControlStatus \<Rightarrow> mem \<Rightarrow> mem" where
  "adc_special_function_config adc_periph function' newvalue m =
    (if newvalue = ENABLE then
       (let m = (if (function' AND ADC_SCAN_MODE) \<noteq> 0 then
                 m(ADC_CTL0 adc_periph := m (ADC_CTL0 adc_periph) OR ADC_SCAN_MODE)
               else
                 m);
            m = (if (function' AND ADC_INSERTED_CHANNEL_AUTO) \<noteq> 0 then
                 m(ADC_CTL0 adc_periph := m (ADC_CTL0 adc_periph) OR ADC_INSERTED_CHANNEL_AUTO)
               else
                 m)
         in (if (function' AND ADC_CONTINUOUS_MODE) \<noteq> 0 then
               m(ADC_CTL1 adc_periph := m (ADC_CTL1 adc_periph) OR ADC_CONTINUOUS_MODE)
             else
               m))
     else
       (let m = (if (function' AND ADC_SCAN_MODE) \<noteq> 0 then
                 m(ADC_CTL0 adc_periph := m (ADC_CTL0 adc_periph) AND NOT ADC_SCAN_MODE)
               else
                 m);
            m = (if (function' AND ADC_INSERTED_CHANNEL_AUTO) \<noteq> 0 then
                 m(ADC_CTL0 adc_periph := m (ADC_CTL0 adc_periph) AND NOT ADC_INSERTED_CHANNEL_AUTO)
               else
                 m)
         in (if (function' AND ADC_CONTINUOUS_MODE) \<noteq> 0 then
               m(ADC_CTL1 adc_periph := m (ADC_CTL1 adc_periph) AND NOT ADC_CONTINUOUS_MODE)
             else
               m)))"

definition adc_data_alignment_config :: "u32 \<Rightarrow> u32 \<Rightarrow> mem \<Rightarrow> mem" where
  "adc_data_alignment_config adc_periph data_alignment m =
    (if data_alignment \<noteq> ADC_DATAALIGN_RIGHT then
       m(ADC_CTL1 adc_periph := m (ADC_CTL1 adc_periph) OR ADC_CTL1_DAL)
     else
       m(ADC_CTL1 adc_periph := m (ADC_CTL1 adc_periph) AND NOT ADC_CTL1_DAL))"

definition adc_channel_length_config :: "u32 \<Rightarrow> u8 \<Rightarrow> u32 \<Rightarrow> mem \<Rightarrow> mem" where
  "adc_channel_length_config adc_periph adc_channel_group length' m =
    (if (ucast adc_channel_group :: u32) = ADC_REGULAR_CHANNEL then
       (let m = m(ADC_RSQ0 adc_periph := m (ADC_RSQ0 adc_periph) AND NOT ADC_RSQ0_RL)
         in m(ADC_RSQ0 adc_periph := m (ADC_RSQ0 adc_periph) OR RSQ0_RL (length' - 1)))
     else if (ucast adc_channel_group :: u32) = ADC_INSERTED_CHANNEL then
       (let m = m(ADC_ISQ adc_periph := m (ADC_ISQ adc_periph) AND NOT ADC_ISQ_IL)
         in m(ADC_ISQ adc_periph := m (ADC_ISQ adc_periph) OR ISQ_IL (length' - 1)))
     else
       m)"

definition adc_regular_channel_config :: "u32 \<Rightarrow> u8 \<Rightarrow> u8 \<Rightarrow> u32 \<Rightarrow> mem \<Rightarrow> mem" where
  "adc_regular_channel_config adc_periph rank adc_channel sample_time m =
    (let m = (if (ucast rank :: u32) < 6 then
              (let rsq = m (ADC_RSQ2 adc_periph);
                   rsq = rsq AND NOT (push_bit (unat (5 * (ucast rank :: u32))) ADC_RSQX_RSQN);
                   rsq = rsq OR push_bit (unat (5 * (ucast rank :: u32))) (ucast adc_channel :: u32)
                in m(ADC_RSQ2 adc_periph := rsq))
            else if (ucast rank :: u32) < 12 then
              (let rsq = m (ADC_RSQ1 adc_periph);
                   rsq = rsq AND NOT (push_bit (unat (5 * ((ucast rank :: u32) - 6))) ADC_RSQX_RSQN);
                   rsq = rsq OR push_bit (unat (5 * ((ucast rank :: u32) - 6))) (ucast adc_channel :: u32)
                in m(ADC_RSQ1 adc_periph := rsq))
            else if (ucast rank :: u32) < 16 then
              (let rsq = m (ADC_RSQ0 adc_periph);
                   rsq = rsq AND NOT (push_bit (unat (5 * ((ucast rank :: u32) - 12))) ADC_RSQX_RSQN);
                   rsq = rsq OR push_bit (unat (5 * ((ucast rank :: u32) - 12))) (ucast adc_channel :: u32)
                in m(ADC_RSQ0 adc_periph := rsq))
            else
              m)
      in (if (ucast adc_channel :: u32) < 10 then
            (let sampt = m (ADC_SAMPT1 adc_periph);
                 sampt = sampt AND NOT (push_bit (unat (3 * (ucast adc_channel :: u32))) ADC_SAMPTX_SPTN);
                 sampt = sampt OR push_bit (unat (3 * (ucast adc_channel :: u32))) sample_time
              in m(ADC_SAMPT1 adc_periph := sampt))
          else if (ucast adc_channel :: u32) < 18 then
            (let sampt = m (ADC_SAMPT0 adc_periph);
                 sampt = sampt AND NOT (push_bit (unat (3 * ((ucast adc_channel :: u32) - 10))) ADC_SAMPTX_SPTN);
                 sampt = sampt OR push_bit (unat (3 * ((ucast adc_channel :: u32) - 10))) sample_time
              in m(ADC_SAMPT0 adc_periph := sampt))
          else
            m))"

definition adc_inserted_channel_config :: "u32 \<Rightarrow> u8 \<Rightarrow> u8 \<Rightarrow> u32 \<Rightarrow> mem \<Rightarrow> mem" where
  "adc_inserted_channel_config adc_periph rank adc_channel sample_time m =
    (let inserted_length = (ucast (GET_BITS (m (ADC_ISQ adc_periph)) 20 21) :: u8);
         isq = m (ADC_ISQ adc_periph);
         isq = isq AND NOT (push_bit (unat (5 * ((3 + (ucast rank :: u32)) - (ucast inserted_length :: u32)))) ADC_ISQ_ISQN);
         isq = isq OR push_bit (unat (5 * ((3 + (ucast rank :: u32)) - (ucast inserted_length :: u32)))) (ucast adc_channel :: u32);
         m = m(ADC_ISQ adc_periph := isq)
      in (if (ucast adc_channel :: u32) < 10 then
            (let sampt = m (ADC_SAMPT1 adc_periph);
                 sampt = sampt AND NOT (push_bit (unat (3 * (ucast adc_channel :: u32))) ADC_SAMPTX_SPTN);
                 sampt = sampt OR push_bit (unat (3 * (ucast adc_channel :: u32))) sample_time
              in m(ADC_SAMPT1 adc_periph := sampt))
          else if (ucast adc_channel :: u32) < 18 then
            (let sampt = m (ADC_SAMPT0 adc_periph);
                 sampt = sampt AND NOT (push_bit (unat (3 * ((ucast adc_channel :: u32) - 10))) ADC_SAMPTX_SPTN);
                 sampt = sampt OR push_bit (unat (3 * ((ucast adc_channel :: u32) - 10))) sample_time
              in m(ADC_SAMPT0 adc_periph := sampt))
          else
            m))"

definition adc_inserted_channel_offset_config :: "u32 \<Rightarrow> u8 \<Rightarrow> u16 \<Rightarrow> mem \<Rightarrow> mem" where
  "adc_inserted_channel_offset_config adc_periph inserted_channel offset m =
    (let inserted_length = (ucast (GET_BITS (m (ADC_ISQ adc_periph)) 20 21) :: u8);
         num = 3 - ((ucast inserted_length :: u32) - (ucast inserted_channel :: u32))
      in (if num \<le> 3 then
            (let num = num * 4
              in m(adc_periph + 0x14 + num := IOFFX_IOFF (ucast offset :: u32)))
          else
            m))"

definition adc_external_trigger_config :: "u32 \<Rightarrow> u8 \<Rightarrow> ControlStatus \<Rightarrow> mem \<Rightarrow> mem" where
  "adc_external_trigger_config adc_periph adc_channel_group newvalue m =
    (if newvalue = ENABLE then
       (let m = (if ((ucast adc_channel_group :: u32) AND ADC_REGULAR_CHANNEL) \<noteq> 0 then
                 m(ADC_CTL1 adc_periph := m (ADC_CTL1 adc_periph) OR ADC_CTL1_ETERC)
               else
                 m)
         in (if ((ucast adc_channel_group :: u32) AND ADC_INSERTED_CHANNEL) \<noteq> 0 then
               m(ADC_CTL1 adc_periph := m (ADC_CTL1 adc_periph) OR ADC_CTL1_ETEIC)
             else
               m))
     else
       (let m = (if ((ucast adc_channel_group :: u32) AND ADC_REGULAR_CHANNEL) \<noteq> 0 then
                 m(ADC_CTL1 adc_periph := m (ADC_CTL1 adc_periph) AND NOT ADC_CTL1_ETERC)
               else
                 m)
         in (if ((ucast adc_channel_group :: u32) AND ADC_INSERTED_CHANNEL) \<noteq> 0 then
               m(ADC_CTL1 adc_periph := m (ADC_CTL1 adc_periph) AND NOT ADC_CTL1_ETEIC)
             else
               m)))"

definition adc_external_trigger_source_config :: "u32 \<Rightarrow> u8 \<Rightarrow> u32 \<Rightarrow> mem \<Rightarrow> mem" where
  "adc_external_trigger_source_config adc_periph adc_channel_group external_trigger_source m =
    (if (ucast adc_channel_group :: u32) = ADC_REGULAR_CHANNEL then
       (let m = m(ADC_CTL1 adc_periph := m (ADC_CTL1 adc_periph) AND NOT ADC_CTL1_ETSRC)
         in m(ADC_CTL1 adc_periph := m (ADC_CTL1 adc_periph) OR external_trigger_source))
     else if (ucast adc_channel_group :: u32) = ADC_INSERTED_CHANNEL then
       (let m = m(ADC_CTL1 adc_periph := m (ADC_CTL1 adc_periph) AND NOT ADC_CTL1_ETSIC)
         in m(ADC_CTL1 adc_periph := m (ADC_CTL1 adc_periph) OR external_trigger_source))
     else
       m)"

definition adc_software_trigger_enable :: "u32 \<Rightarrow> u8 \<Rightarrow> mem \<Rightarrow> mem" where
  "adc_software_trigger_enable adc_periph adc_channel_group m =
    (let m = (if ((ucast adc_channel_group :: u32) AND ADC_REGULAR_CHANNEL) \<noteq> 0 then
              m(ADC_CTL1 adc_periph := m (ADC_CTL1 adc_periph) OR ADC_CTL1_SWRCST)
            else
              m)
      in (if ((ucast adc_channel_group :: u32) AND ADC_INSERTED_CHANNEL) \<noteq> 0 then
            m(ADC_CTL1 adc_periph := m (ADC_CTL1 adc_periph) OR ADC_CTL1_SWICST)
          else
            m))"

definition adc_regular_data_read :: "u32 \<Rightarrow> mem \<Rightarrow> u16" where
  "adc_regular_data_read adc_periph m =
    (ucast (m (ADC_RDATA adc_periph)) :: u16)"

definition adc_inserted_data_read :: "u32 \<Rightarrow> u8 \<Rightarrow> mem \<Rightarrow> u16" where
  "adc_inserted_data_read adc_periph inserted_channel m =
    (let idata = (if (ucast inserted_channel :: u32) = ADC_INSERTED_CHANNEL_0 then
              m (ADC_IDATA0 adc_periph)
            else if (ucast inserted_channel :: u32) = ADC_INSERTED_CHANNEL_1 then
              m (ADC_IDATA1 adc_periph)
            else if (ucast inserted_channel :: u32) = ADC_INSERTED_CHANNEL_2 then
              m (ADC_IDATA2 adc_periph)
            else if (ucast inserted_channel :: u32) = ADC_INSERTED_CHANNEL_3 then
              m (ADC_IDATA3 adc_periph)
            else
              0)
      in (ucast idata :: u16))"

definition adc_sync_mode_convert_value_read :: "mem \<Rightarrow> u32" where
  "adc_sync_mode_convert_value_read m =
    m (ADC_RDATA ADC0)"

definition adc_flag_get :: "u32 \<Rightarrow> u32 \<Rightarrow> mem \<Rightarrow> FlagStatus" where
  "adc_flag_get adc_periph adc_flag m =
    (let reval = RESET
      in (if (m (ADC_STAT adc_periph) AND adc_flag) \<noteq> 0 then SET else reval))"

definition adc_flag_clear :: "u32 \<Rightarrow> u32 \<Rightarrow> mem \<Rightarrow> mem" where
  "adc_flag_clear adc_periph adc_flag m =
    m(ADC_STAT adc_periph := NOT adc_flag)"

definition adc_interrupt_flag_get :: "u32 \<Rightarrow> u32 \<Rightarrow> mem \<Rightarrow> FlagStatus" where
  "adc_interrupt_flag_get adc_periph adc_interrupt m =
    (let interrupt_flag = RESET
      in (if adc_interrupt = ADC_INT_FLAG_WDE then
            (let state' = m (ADC_STAT adc_periph) AND ADC_STAT_WDE
              in (if ((m (ADC_CTL0 adc_periph) AND ADC_CTL0_WDEIE) \<noteq> 0) \<and> (state' \<noteq> 0) then
                    SET
                  else
                    interrupt_flag))
          else if adc_interrupt = ADC_INT_FLAG_EOC then
            (let state' = m (ADC_STAT adc_periph) AND ADC_STAT_EOC
              in (if ((m (ADC_CTL0 adc_periph) AND ADC_CTL0_EOCIE) \<noteq> 0) \<and> (state' \<noteq> 0) then
                    SET
                  else
                    interrupt_flag))
          else if adc_interrupt = ADC_INT_FLAG_EOIC then
            (let state' = m (ADC_STAT adc_periph) AND ADC_STAT_EOIC
              in (if ((m (ADC_CTL0 adc_periph) AND ADC_CTL0_EOICIE) \<noteq> 0) \<and> (state' \<noteq> 0) then
                    SET
                  else
                    interrupt_flag))
          else
            interrupt_flag))"

definition adc_interrupt_flag_clear :: "u32 \<Rightarrow> u32 \<Rightarrow> mem \<Rightarrow> mem" where
  "adc_interrupt_flag_clear adc_periph adc_interrupt m =
    m(ADC_STAT adc_periph := NOT adc_interrupt)"

definition adc_interrupt_enable :: "u32 \<Rightarrow> u32 \<Rightarrow> mem \<Rightarrow> mem" where
  "adc_interrupt_enable adc_periph adc_interrupt m =
    (let m = (if (adc_interrupt AND ADC_INT_WDE) \<noteq> 0 then
              m(ADC_CTL0 adc_periph := m (ADC_CTL0 adc_periph) OR ADC_CTL0_WDEIE)
            else
              m);
         m = (if (adc_interrupt AND ADC_INT_EOC) \<noteq> 0 then
              m(ADC_CTL0 adc_periph := m (ADC_CTL0 adc_periph) OR ADC_CTL0_EOCIE)
            else
              m)
      in (if (adc_interrupt AND ADC_INT_EOIC) \<noteq> 0 then
            m(ADC_CTL0 adc_periph := m (ADC_CTL0 adc_periph) OR ADC_CTL0_EOICIE)
          else
            m))"

definition adc_interrupt_disable :: "u32 \<Rightarrow> u32 \<Rightarrow> mem \<Rightarrow> mem" where
  "adc_interrupt_disable adc_periph adc_interrupt m =
    (let m = (if (adc_interrupt AND ADC_INT_WDE) \<noteq> 0 then
              m(ADC_CTL0 adc_periph := m (ADC_CTL0 adc_periph) AND NOT ADC_CTL0_WDEIE)
            else
              m);
         m = (if (adc_interrupt AND ADC_INT_EOC) \<noteq> 0 then
              m(ADC_CTL0 adc_periph := m (ADC_CTL0 adc_periph) AND NOT ADC_CTL0_EOCIE)
            else
              m)
      in (if (adc_interrupt AND ADC_INT_EOIC) \<noteq> 0 then
            m(ADC_CTL0 adc_periph := m (ADC_CTL0 adc_periph) AND NOT ADC_CTL0_EOICIE)
          else
            m))"

definition adc_watchdog_single_channel_enable :: "u32 \<Rightarrow> u8 \<Rightarrow> mem \<Rightarrow> mem" where
  "adc_watchdog_single_channel_enable adc_periph adc_channel m =
    (let m = m(ADC_CTL0 adc_periph := m (ADC_CTL0 adc_periph) AND NOT (ADC_CTL0_RWDEN OR ADC_CTL0_IWDEN OR ADC_CTL0_WDSC OR ADC_CTL0_WDCHSEL));
         m = m(ADC_CTL0 adc_periph := m (ADC_CTL0 adc_periph) OR (ucast adc_channel :: u32))
      in m(ADC_CTL0 adc_periph := m (ADC_CTL0 adc_periph) OR ADC_CTL0_RWDEN OR ADC_CTL0_IWDEN OR ADC_CTL0_WDSC))"

definition adc_watchdog_group_channel_enable :: "u32 \<Rightarrow> u8 \<Rightarrow> mem \<Rightarrow> mem" where
  "adc_watchdog_group_channel_enable adc_periph adc_channel_group m =
    (let m = m(ADC_CTL0 adc_periph := m (ADC_CTL0 adc_periph) AND NOT (ADC_CTL0_RWDEN OR ADC_CTL0_IWDEN OR ADC_CTL0_WDSC))
      in (if (ucast adc_channel_group :: u32) = ADC_REGULAR_CHANNEL then
            m(ADC_CTL0 adc_periph := m (ADC_CTL0 adc_periph) OR ADC_CTL0_RWDEN)
          else if (ucast adc_channel_group :: u32) = ADC_INSERTED_CHANNEL then
            m(ADC_CTL0 adc_periph := m (ADC_CTL0 adc_periph) OR ADC_CTL0_IWDEN)
          else if (ucast adc_channel_group :: u32) = ADC_REGULAR_INSERTED_CHANNEL then
            m(ADC_CTL0 adc_periph := m (ADC_CTL0 adc_periph) OR ADC_CTL0_RWDEN OR ADC_CTL0_IWDEN)
          else
            m))"

definition adc_watchdog_disable :: "u32 \<Rightarrow> mem \<Rightarrow> mem" where
  "adc_watchdog_disable adc_periph m =
    m(ADC_CTL0 adc_periph := m (ADC_CTL0 adc_periph) AND NOT (ADC_CTL0_RWDEN OR ADC_CTL0_IWDEN OR ADC_CTL0_WDSC OR ADC_CTL0_WDCHSEL))"

definition adc_watchdog_threshold_config :: "u32 \<Rightarrow> u16 \<Rightarrow> u16 \<Rightarrow> mem \<Rightarrow> mem" where
  "adc_watchdog_threshold_config adc_periph low_threshold high_threshold m =
    (let m = m(ADC_WDLT adc_periph := WDLT_WDLT (ucast low_threshold :: u32))
      in m(ADC_WDHT adc_periph := WDHT_WDHT (ucast high_threshold :: u32)))"

definition adc_oversample_mode_config :: "u32 \<Rightarrow> u32 \<Rightarrow> u16 \<Rightarrow> u8 \<Rightarrow> mem \<Rightarrow> mem" where
  "adc_oversample_mode_config adc_periph mode shift' ratio' m =
    (let m = (if mode = ADC_OVERSAMPLING_ONE_CONVERT then
              m(ADC_OVSAMPCTL adc_periph := m (ADC_OVSAMPCTL adc_periph) OR ADC_OVSAMPCTL_TOVS)
            else
              m(ADC_OVSAMPCTL adc_periph := m (ADC_OVSAMPCTL adc_periph) AND NOT ADC_OVSAMPCTL_TOVS));
         m = m(ADC_OVSAMPCTL adc_periph := m (ADC_OVSAMPCTL adc_periph) AND NOT (ADC_OVSAMPCTL_OVSR OR ADC_OVSAMPCTL_OVSS))
      in m(ADC_OVSAMPCTL adc_periph := m (ADC_OVSAMPCTL adc_periph) OR (ucast shift' :: u32) OR (ucast ratio' :: u32)))"

definition adc_oversample_mode_enable :: "u32 \<Rightarrow> mem \<Rightarrow> mem" where
  "adc_oversample_mode_enable adc_periph m =
    m(ADC_OVSAMPCTL adc_periph := m (ADC_OVSAMPCTL adc_periph) OR ADC_OVSAMPCTL_OVSEN)"

definition adc_oversample_mode_disable :: "u32 \<Rightarrow> mem \<Rightarrow> mem" where
  "adc_oversample_mode_disable adc_periph m =
    m(ADC_OVSAMPCTL adc_periph := m (ADC_OVSAMPCTL adc_periph) AND NOT ADC_OVSAMPCTL_OVSEN)"

section \<open>Interfaces\<close>

lemma adc_enable_eq: "adc_enable p m = m(ADC_CTL1 p := m (ADC_CTL1 p) OR ADC_CTL1_ADCON)"
proof (cases "m (ADC_CTL1 p) AND ADC_CTL1_ADCON = 0")
  case True
  then show ?thesis by (simp add: adc_enable_def)
next
  case False
  then have "m (ADC_CTL1 p) OR ADC_CTL1_ADCON = m (ADC_CTL1 p)"
    by (simp add: and_one_eq or_one_eq odd_iff_mod_2_eq_one)
  then show ?thesis by (simp add: adc_enable_def fun_upd_idem)
qed

interpretation adc_on: reg_bit "adc_enable p" "adc_disable p" "ADC_CTL1 p" ADC_CTL1_ADCON for p
  by unfold_locales (simp_all add: adc_enable_eq adc_disable_def)

interpretation adc_dma: reg_bit "adc_dma_mode_enable p" "adc_dma_mode_disable p" "ADC_CTL1 p" ADC_CTL1_DMA for p
  by unfold_locales (simp_all add: adc_dma_mode_enable_def adc_dma_mode_disable_def)

section \<open>Channel sequence\<close>

text \<open>The channel converted at a rank of the regular sequence, five bits in one of three registers.\<close>

definition regular_channel :: "u32 \<Rightarrow> nat \<Rightarrow> mem \<Rightarrow> u32" where
  "regular_channel p r m =
    (if r < 6 then drop_bit (5 * r) (m (ADC_RSQ2 p)) AND 0x1F
     else if r < 12 then drop_bit (5 * (r - 6)) (m (ADC_RSQ1 p)) AND 0x1F
     else drop_bit (5 * (r - 12)) (m (ADC_RSQ0 p)) AND 0x1F)"

lemma u32_masks: "(0x1F :: u32) = mask 5" "(0x7 :: u32) = mask 3"
  by (simp_all add: mask_eq_exp_minus_1)

lemma slot_shift: "unat x < 16 \<Longrightarrow> k \<le> unat x \<Longrightarrow> k \<le> 16 \<Longrightarrow> unat (5 * ((ucast (x :: u8) :: u32) - of_nat k)) = 5 * (unat x - k)"
proof -
  assume x: "unat x < 16" "k \<le> unat x" "k \<le> 16"
  have "(ucast x :: u32) - of_nat k = of_nat (unat x - k)" using x(2) by (simp add: of_nat_diff)
  then have "5 * ((ucast x :: u32) - of_nat k) = of_nat (5 * (unat x - k))" by simp
  then show ?thesis using x unat_of_nat_u32[of "5 * (unat x - k)"] by simp
qed

lemma channel_field: "unat (x :: u8) < 32 \<Longrightarrow> (ucast x :: u32) AND NOT (mask 5) = 0"
proof -
  assume x: "unat x < 32"
  then have "take_bit 5 x = x"
    by (intro word_unat_eq_iff[THEN iffD2]) (simp add: unsigned_take_bit_eq take_bit_nat_eq_self)
  then have "n < 5" if "bit x n" for n using that by (metis bit_take_bit_iff)
  then show ?thesis by (auto simp: bit_eq_iff bit_simps)
qed

text \<open>What the function leaves in the three registers of the sequence.\<close>

lemma sequence_0_5:
  fixes rank ch :: u8
  assumes "unat rank < 6"
  shows "adc_regular_channel_config p rank ch st m (ADC_RSQ2 p) =
      (m (ADC_RSQ2 p) AND NOT (push_bit (5 * (unat rank)) (mask 5))) OR push_bit (5 * (unat rank)) (ucast ch)"
    "adc_regular_channel_config p rank ch st m (ADC_RSQ1 p) = m (ADC_RSQ1 p)" "adc_regular_channel_config p rank ch st m (ADC_RSQ0 p) = m (ADC_RSQ0 p)"
proof -
  have s: "unat (5 * (ucast rank :: u32)) = 5 * (unat rank)"
    using slot_shift[of rank 0] assms by simp
  have lt: "(ucast rank :: u32) < 6 \<longleftrightarrow> True" "(ucast rank :: u32) < 12 \<longleftrightarrow> True" "(ucast rank :: u32) < 16 \<longleftrightarrow> True"
    using assms by (auto simp: word_less_nat_alt unat_ucast_u8)
  show "adc_regular_channel_config p rank ch st m (ADC_RSQ2 p) =
      (m (ADC_RSQ2 p) AND NOT (push_bit (5 * (unat rank)) (mask 5))) OR push_bit (5 * (unat rank)) (ucast ch)"
    "adc_regular_channel_config p rank ch st m (ADC_RSQ1 p) = m (ADC_RSQ1 p)" "adc_regular_channel_config p rank ch st m (ADC_RSQ0 p) = m (ADC_RSQ0 p)"
    unfolding adc_regular_channel_config_def Let_def lt if_True if_False s u32_masks(1) by simp_all
qed

lemma sequence_6_11:
  fixes rank ch :: u8
  assumes "6 \<le> unat rank" "unat rank < 12"
  shows "adc_regular_channel_config p rank ch st m (ADC_RSQ1 p) =
      (m (ADC_RSQ1 p) AND NOT (push_bit (5 * (unat rank - 6)) (mask 5))) OR push_bit (5 * (unat rank - 6)) (ucast ch)"
    "adc_regular_channel_config p rank ch st m (ADC_RSQ2 p) = m (ADC_RSQ2 p)" "adc_regular_channel_config p rank ch st m (ADC_RSQ0 p) = m (ADC_RSQ0 p)"
proof -
  have s: "unat (5 * ((ucast rank :: u32) - 6)) = 5 * (unat rank - 6)"
    using slot_shift[of rank 6] assms by simp
  have lt: "(ucast rank :: u32) < 6 \<longleftrightarrow> False" "(ucast rank :: u32) < 12 \<longleftrightarrow> True" "(ucast rank :: u32) < 16 \<longleftrightarrow> True"
    using assms by (auto simp: word_less_nat_alt unat_ucast_u8)
  show "adc_regular_channel_config p rank ch st m (ADC_RSQ1 p) =
      (m (ADC_RSQ1 p) AND NOT (push_bit (5 * (unat rank - 6)) (mask 5))) OR push_bit (5 * (unat rank - 6)) (ucast ch)"
    "adc_regular_channel_config p rank ch st m (ADC_RSQ2 p) = m (ADC_RSQ2 p)" "adc_regular_channel_config p rank ch st m (ADC_RSQ0 p) = m (ADC_RSQ0 p)"
    unfolding adc_regular_channel_config_def Let_def lt if_True if_False s u32_masks(1) by simp_all
qed

lemma sequence_12_15:
  fixes rank ch :: u8
  assumes "12 \<le> unat rank" "unat rank < 16"
  shows "adc_regular_channel_config p rank ch st m (ADC_RSQ0 p) =
      (m (ADC_RSQ0 p) AND NOT (push_bit (5 * (unat rank - 12)) (mask 5))) OR push_bit (5 * (unat rank - 12)) (ucast ch)"
    "adc_regular_channel_config p rank ch st m (ADC_RSQ2 p) = m (ADC_RSQ2 p)" "adc_regular_channel_config p rank ch st m (ADC_RSQ1 p) = m (ADC_RSQ1 p)"
proof -
  have s: "unat (5 * ((ucast rank :: u32) - 12)) = 5 * (unat rank - 12)"
    using slot_shift[of rank 12] assms by simp
  have lt: "(ucast rank :: u32) < 6 \<longleftrightarrow> False" "(ucast rank :: u32) < 12 \<longleftrightarrow> False" "(ucast rank :: u32) < 16 \<longleftrightarrow> True"
    using assms by (auto simp: word_less_nat_alt unat_ucast_u8)
  show "adc_regular_channel_config p rank ch st m (ADC_RSQ0 p) =
      (m (ADC_RSQ0 p) AND NOT (push_bit (5 * (unat rank - 12)) (mask 5))) OR push_bit (5 * (unat rank - 12)) (ucast ch)"
    "adc_regular_channel_config p rank ch st m (ADC_RSQ2 p) = m (ADC_RSQ2 p)" "adc_regular_channel_config p rank ch st m (ADC_RSQ1 p) = m (ADC_RSQ1 p)"
    unfolding adc_regular_channel_config_def Let_def lt if_True if_False s u32_masks(1) by simp_all
qed

section \<open>Properties\<close>

text \<open>
  \<^verbatim>\<open>adc_regular_channel_config\<close> puts the channel at its rank of the conversion sequence and leaves the other fifteen
  ranks as they are, although the sequence is spread over three registers.
\<close>

lemma regular_channel_set:
  assumes "unat rank < 16" "unat ch < 32" "r < 16"
  shows "regular_channel p r (adc_regular_channel_config p rank ch st m) =
     (if r = unat rank then ucast ch else regular_channel p r m)"
proof -
  note f = field_slot[of 5, OF _ _ channel_field[OF assms(2)]]
  note d = regular_channel_def u32_masks(1)
  consider (a) "unat rank < 6" | (b) "6 \<le> unat rank" "unat rank < 12" | (c) "12 \<le> unat rank" "unat rank < 16"
    using assms(1) by linarith
  then show ?thesis
  proof cases
    case a
    then show ?thesis unfolding d sequence_0_5[OF a] using assms(3) f[of r "unat rank"] by auto
  next
    case b
    then show ?thesis unfolding d sequence_6_11[OF b] using assms(3) f[of "r - 6" "unat rank - 6"] by auto
  next
    case c
    then show ?thesis unfolding d sequence_12_15[OF c] using assms(3) f[of "r - 12" "unat rank - 12"] by auto
  qed
qed

end
