(* ===== verification/HalInit.thy ===== *)
theory HalInit
  imports Complex_Main Display Gd32_Adc Modem
begin

unbundle bit_operations_syntax

text \<open>
  Start-up of the hardware and the battery: \<^verbatim>\<open>HAL.cpp\<close>, \<^verbatim>\<open>HAL_ADC.cpp\<close> and \<^verbatim>\<open>systick.c\<close> of \<^verbatim>\<open>sources/common/Hardware/HAL\<close>, the remaining handlers of
  \<^verbatim>\<open>HAL_IT.cpp\<close>, the jumps of \<^verbatim>\<open>Application.cpp\<close> and \<^verbatim>\<open>Bootloader.cpp\<close>, and \<^verbatim>\<open>LED.cpp\<close>, \<^verbatim>\<open>Button.cpp\<close> and \<^verbatim>\<open>GC777.cpp\<close> of the device. The voltage of the battery is
  computed with rational numbers in the place of floating-point ones. \<open>None\<close> is an endless loop.
\<close>

section \<open>The tick\<close>

abbreviation SystemCoreClock :: u32 where "SystemCoreClock \<equiv> 120000000"
abbreviation SysTick_CTRL :: u32 where "SysTick_CTRL \<equiv> 0xE000E010"
abbreviation SysTick_LOAD :: u32 where "SysTick_LOAD \<equiv> 0xE000E014"
abbreviation SysTick_VAL :: u32 where "SysTick_VAL \<equiv> 0xE000E018"
abbreviation SysTick_LOAD_RELOAD_Msk :: u32 where "SysTick_LOAD_RELOAD_Msk \<equiv> 0xFFFFFF"
abbreviation SCB_SHP11 :: u32 where "SCB_SHP11 \<equiv> 0xE000ED23"

text \<open>\<^verbatim>\<open>NVIC_SetPriority\<close> for \<^verbatim>\<open>SysTick_IRQn\<close>, whose number is negative.\<close>

definition SysTick_SetPriority :: "u32 \<Rightarrow> mem \<Rightarrow> mem" where
  "SysTick_SetPriority priority m = m(SCB_SHP11 := push_bit (8 - 4) priority AND 0xFF)"

definition SysTick_Config :: "u32 \<Rightarrow> mem \<Rightarrow> u32 \<times> mem" where
  "SysTick_Config ticks m =
    (if ticks - 1 > SysTick_LOAD_RELOAD_Msk then (1, m)
     else
       (let m = m(SysTick_LOAD := ticks - 1);
            m = SysTick_SetPriority (2 ^ 4 - 1) m;
            m = m(SysTick_VAL := 0);
            m = m(SysTick_CTRL := 0x4 OR 0x2 OR 0x1)
         in (0, m)))"

definition systick_config :: "mem \<Rightarrow> mem option" where
  "systick_config m =
    (case SysTick_Config (SystemCoreClock div 1000) m of
       (r, m) \<Rightarrow> if r \<noteq> 0 then None else Some (SysTick_SetPriority 0 m))"

record ticks =
  timer_counter :: u32
  systick_delay :: u32

definition delay_decrement :: "ticks \<Rightarrow> ticks" where
  "delay_decrement k = (if systick_delay k \<noteq> 0 then k\<lparr>systick_delay := systick_delay k - 1\<rparr> else k)"

text \<open>\<^verbatim>\<open>Button::Update\<close> only reads a pin.\<close>

definition SysTick_Handler :: "ticks \<Rightarrow> ticks" where
  "SysTick_Handler k = delay_decrement (k\<lparr>timer_counter := timer_counter k + 1\<rparr>)"

text \<open>\<open>hw\<close> is what interrupts do to the variables between two reads.\<close>

partial_function (option) delay_wait :: "(ticks \<Rightarrow> ticks) \<Rightarrow> ticks \<Rightarrow> ticks option" where
  "delay_wait hw k = (let k = hw k in if systick_delay k \<noteq> 0 then delay_wait hw k else Some k)"

definition delay_1ms :: "(ticks \<Rightarrow> ticks) \<Rightarrow> u32 \<Rightarrow> ticks \<Rightarrow> ticks option" where
  "delay_1ms hw count k = delay_wait hw (k\<lparr>systick_delay := count\<rparr>)"

section \<open>Handlers and pins\<close>

abbreviation EXTI_9 :: u32 where "EXTI_9 \<equiv> 0x200"
abbreviation EXTI5_9_IRQn :: u8 where "EXTI5_9_IRQn \<equiv> 23"
abbreviation EXTI_TRIG_RISING :: u32 where "EXTI_TRIG_RISING \<equiv> 0"

definition EXTI5_9_IRQHandler :: "mem \<Rightarrow> mem" where
  "EXTI5_9_IRQHandler m = (if exti_interrupt_flag_get EXTI_9 m \<noteq> RESET then exti_interrupt_flag_clear EXTI_9 m else m)"

definition Button_Init :: "mem \<Rightarrow> mem" where
  "Button_Init m = gpio_init GPIOC GPIO_MODE_IPU GPIO_OSPEED_50MHZ (GPIO_PIN 6) m"

definition LED_On :: "pin \<Rightarrow> mem \<Rightarrow> mem" where
  "LED_On l m = m(GPIO_BOP (pin_port l) := pin_bit l)"

definition LED_Off :: "pin \<Rightarrow> mem \<Rightarrow> mem" where
  "LED_Off l m = m(GPIO_BC (pin_port l) := pin_bit l)"

definition LED_Init :: "pin \<Rightarrow> mem \<Rightarrow> mem" where
  "LED_Init l m = LED_Off l (gpio_init (pin_port l) GPIO_MODE_OUT_PP GPIO_OSPEED_50MHZ (pin_bit l) m)"

definition pinGC777 :: pin_in where
  "pinGC777 = \<lparr>pin_port = GPIOC, pin_bit = GPIO_PIN 9, in_mode = GPIO_MODE_IN_FLOATING\<rparr>"

definition GC777_Init :: "mem \<Rightarrow> mem" where
  "GC777_Init m =
    (let m = PinIN_Init pinGC777 m;
         reg = m (GPIO_OCTL GPIOC);
         reg = reg OR push_bit 9 1;
         m = m(GPIO_OCTL GPIOC := reg);
         m = nvic_irq_enable EXTI5_9_IRQn 2 0 m;
         m = gpio_exti_source_select 2 9 m;
         m = exti_init EXTI_9 EXTI_INTERRUPT EXTI_TRIG_RISING m
      in exti_interrupt_flag_clear EXTI_9 m)"

section \<open>The battery\<close>

abbreviation ADC_FLAG_EOC :: u32 where "ADC_FLAG_EOC \<equiv> 0x2"
abbreviation ADC0_1_2_EXTTRIG_REGULAR_NONE :: u32 where "ADC0_1_2_EXTTRIG_REGULAR_NONE \<equiv> 0xE0000"
abbreviation ADC_MODE_FREE :: u32 where "ADC_MODE_FREE \<equiv> 0"
abbreviation ADC_SAMPLETIME_55POINT5 :: u32 where "ADC_SAMPLETIME_55POINT5 \<equiv> 5"
abbreviation ADC_RESOLUTION_6B :: u32 where "ADC_RESOLUTION_6B \<equiv> 0x3000"

definition HAL_ADC_Init :: "(nat \<Rightarrow> u32) \<Rightarrow> (mem \<Rightarrow> mem) \<Rightarrow> mem \<Rightarrow> mem option" where
  "HAL_ADC_Init clock hw m =
    (let m = PinADC_Init pinBAT m;
         m = adc_special_function_config ADC0 ADC_CONTINUOUS_MODE ENABLE m;
         m = adc_special_function_config ADC0 ADC_SCAN_MODE DISABLE m;
         m = adc_external_trigger_source_config ADC0 1 ADC0_1_2_EXTTRIG_REGULAR_NONE m;
         m = adc_data_alignment_config ADC0 ADC_DATAALIGN_RIGHT m;
         m = adc_mode_config ADC_MODE_FREE m;
         m = adc_channel_length_config ADC0 1 1 m;
         m = adc_regular_channel_config ADC0 0 1 ADC_SAMPLETIME_55POINT5 m;
         m = adc_external_trigger_config ADC0 1 ENABLE m;
         m = adc_resolution_config ADC0 ADC_RESOLUTION_6B m;
         m = adc_enable ADC0 m
      in do {
        (_, m) \<leftarrow> DelayMS clock 1 m;
        m \<leftarrow> adc_calibration_enable hw ADC0 m;
        Some (adc_software_trigger_enable ADC0 1 m)
      })"

definition ConversionRawToVoltageADC :: "u32 \<Rightarrow> rat" where
  "ConversionRawToVoltageADC raw = 3 / 2 ^ 12 * of_nat (unat raw)"

definition ConversionVoltageADCtoVoltageBattery :: "rat \<Rightarrow> rat" where
  "ConversionVoltageADCtoVoltageBattery adc = - (6 / 10) * adc + 436 / 100"

definition ConversionRawToVoltageBattery :: "u32 \<Rightarrow> rat" where
  "ConversionRawToVoltageBattery raw = ConversionVoltageADCtoVoltageBattery (ConversionRawToVoltageADC raw)"

definition charge_of :: "rat \<Rightarrow> rat" where
  "charge_of voltage = (if voltage \<le> 37 / 10 then 0 else if voltage \<ge> 41 / 10 then 100 else (voltage - 37 / 10) * 250)"

definition GetCharge :: "(mem \<Rightarrow> mem) \<Rightarrow> mem \<Rightarrow> (rat \<times> mem) option" where
  "GetCharge hw m = do {
     m \<leftarrow> poll_set hw (ADC_STAT ADC0) ADC_FLAG_EOC (adc_flag_clear ADC0 ADC_FLAG_EOC m);
     Some (charge_of (ConversionRawToVoltageBattery (m (ADC_RDATA ADC0))), m)
   }"

section \<open>Start and jump\<close>

text \<open>The encoded clocks of \<^verbatim>\<open>gd32f30x_rcu.h\<close>: the offset of the register and the bit.\<close>

abbreviation APB1EN_BIT :: "u32 \<Rightarrow> u32" where "APB1EN_BIT n \<equiv> push_bit 6 0x1C OR n"
abbreviation APB2EN_BIT :: "u32 \<Rightarrow> u32" where "APB2EN_BIT n \<equiv> push_bit 6 0x18 OR n"
abbreviation RCU_FLAG_FWDGTRST :: u32 where "RCU_FLAG_FWDGTRST \<equiv> push_bit 6 0x24 OR 29"

text \<open>
  GPIOA to GPIOF, ADC0, I2C0, I2C1, TIMER0, USART1, UART3, AF, TIMER5. The second result of \<open>HAL_Init\<close> is \<^verbatim>\<open>GL::_RCU_RSTSCK\<close>.
\<close>

definition init_clocks :: "u32 list" where
  "init_clocks = [APB2EN_BIT 2, APB2EN_BIT 3, APB2EN_BIT 4, APB2EN_BIT 5, APB2EN_BIT 6, APB2EN_BIT 7, APB2EN_BIT 9,
     APB1EN_BIT 21, APB1EN_BIT 22, APB2EN_BIT 11, APB1EN_BIT 17, APB1EN_BIT 19, APB2EN_BIT 0, APB1EN_BIT 4]"

definition HAL_Init :: "(nat \<Rightarrow> u32) \<Rightarrow> (mem \<Rightarrow> mem) \<Rightarrow> mem \<Rightarrow> (hal_i2c \<times> u32 \<times> mem) option" where
  "HAL_Init clock hw m = do {
     m \<leftarrow> systick_config m;
     let m = nvic_priority_group_set NVIC_PRIGROUP_PRE1_SUB3 m;
     let m = fold rcu_periph_clock_enable init_clocks m;
     let rstsck = m 0x40021024;
     let m = (if rcu_flag_get RCU_FLAG_FWDGTRST m \<noteq> RESET then rcu_all_reset_flag_clear m else m);
     let m = rcu_periph_clock_enable (APB1EN_BIT 11) m;
     let m = HAL_USART_GPRS_Init m;
     let m = HAL_USART_LOG_Init m;
     (i2cDisplay, m) \<leftarrow> I2C_Init GPIOB (GPIO_PIN 6) (GPIO_PIN 7) PERIPH_DISPLAY (push_bit 1 0x3c) m;
     m \<leftarrow> HAL_ADC_Init clock hw m;
     Some (i2cDisplay, rstsck, m)
   }"

definition HAL_DeInit :: "mem \<Rightarrow> mem" where
  "HAL_DeInit m = HAL_USART_GPRS_DeInit m"

definition HAL_ErrorHandler :: "mem \<Rightarrow> mem option" where
  "HAL_ErrorHandler m = None"

text \<open>The jump to another program: its stack pointer and its entry, and the registers that it finds.\<close>

definition run_program :: "u32 \<Rightarrow> (u32 \<Rightarrow> u32) \<Rightarrow> mem \<Rightarrow> u32 \<times> u32 \<times> mem" where
  "run_program address rom m =
    (let m = HAL_DeInit m;
         jump2app = rom (address + 4);
         msp = rom address
      in (msp, jump2app, nvic_vector_table_set address 0 m))"

definition Application_Run :: "(u32 \<Rightarrow> u32) \<Rightarrow> mem \<Rightarrow> u32 \<times> u32 \<times> mem" where
  "Application_Run = run_program 0x08000000"

definition Bootloader_Run :: "(u32 \<Rightarrow> u32) \<Rightarrow> mem \<Rightarrow> u32 \<times> u32 \<times> mem" where
  "Bootloader_Run = run_program 0x08026000"

definition Loader_Init :: "(nat \<Rightarrow> u32) \<Rightarrow> (mem \<Rightarrow> mem) \<Rightarrow> modem \<Rightarrow> modem option" where
  "Loader_Init clock hw md = do {
     (_, _, m) \<leftarrow> HAL_Init clock hw (m_regs md);
     let md = Modem_Init (md\<lparr>m_regs := m\<rparr>);
     Some (md\<lparr>m_regs := HAL_FWDGT_Init hw (m_regs md)\<rparr>)
   }"

text \<open>The initialisations of the device in \<^verbatim>\<open>Device::Init\<close>: the results are the display, the bus and the modem.\<close>

definition Device_Init ::
    "(nat \<Rightarrow> u32) \<Rightarrow> (mem \<Rightarrow> mem) \<Rightarrow> 'h i2c_world \<Rightarrow> (nat \<Rightarrow> u32) \<Rightarrow> display \<Rightarrow> 'h i2c_st \<Rightarrow> modem \<Rightarrow> (display \<times> 'h i2c_st \<times> modem) option" where
  "Device_Init clock hw w rnd dp s md = do {
     (i2cDisplay, _, m) \<leftarrow> HAL_Init clock hw (i2c_regs s);
     (dp, s) \<leftarrow> Display_Init w i2cDisplay rnd dp (s\<lparr>i2c_regs := m\<rparr>);
     let md = Modem_Init (md\<lparr>m_regs := i2c_regs s\<rparr>);
     Some (dp, s\<lparr>i2c_regs := m_regs md\<rparr>, md)
   }"

section \<open>The converter\<close>

text \<open>
  What the code relies on: from any state the two steps of the calibration and a conversion end after some number of reads of the registers, the result of a
  conversion has the bits of the selected resolution, and the converter does not change the resolution.
\<close>

definition result_limit :: "u32 \<Rightarrow> u32" where
  "result_limit dres = (if dres = 0 then 4096 else if dres = 0x1000 then 1024 else if dres = 0x2000 then 256 else 64)"

definition adc_hw :: "(mem \<Rightarrow> mem) \<Rightarrow> bool" where
  "adc_hw hw \<longleftrightarrow> (\<forall>m. hw m (ADC_OVSAMPCTL ADC0) = m (ADC_OVSAMPCTL ADC0) \<and>
     (\<exists>n. (hw ^^ Suc n) m (ADC_CTL1 ADC0) AND ADC_CTL1_RSTCLB = 0) \<and> (\<exists>n. (hw ^^ Suc n) m (ADC_CTL1 ADC0) AND ADC_CTL1_CLB = 0) \<and>
     (\<exists>n. (hw ^^ Suc n) m (ADC_STAT ADC0) AND ADC_STAT_EOC \<noteq> 0) \<and>
     (hw m (ADC_STAT ADC0) AND ADC_STAT_EOC \<noteq> 0 \<longrightarrow>
      hw m (ADC_RDATA ADC0) < result_limit (m (ADC_OVSAMPCTL ADC0) AND ADC_OVSAMPCTL_DRES)))"

text \<open>A converter that answers at the first read.\<close>

lemma adc_hw_quick:
  assumes "\<And>m. hw m (ADC_OVSAMPCTL ADC0) = m (ADC_OVSAMPCTL ADC0)" "\<And>m. hw m (ADC_CTL1 ADC0) = 0" "\<And>m. hw m (ADC_STAT ADC0) = 2"
    "\<And>m. hw m (ADC_RDATA ADC0) < 64"
  shows "adc_hw hw"
proof -
  have "hw m (ADC_RDATA ADC0) < result_limit d" for m d
    using assms(4)[of m] by (auto simp: result_limit_def word_less_nat_alt)
  then show ?thesis using assms(1-3) unfolding adc_hw_def by (intro allI conjI exI[of _ 0]) simp_all
qed

lemma adc_keeps: "adc_hw hw \<Longrightarrow> (hw ^^ n) m (ADC_OVSAMPCTL ADC0) = m (ADC_OVSAMPCTL ADC0)"
  by (induction n) (simp_all add: adc_hw_def)

lemma delay_frame: "delay_loop clock time_end i m = Some (j, m') \<Longrightarrow> a \<noteq> FWDGT_CTL \<longrightarrow> m' a = m a"
proof (rule delay_loop.raw_induct[of "\<lambda>clock time_end i m (j, m'). a \<noteq> FWDGT_CTL \<longrightarrow> m' a = m a", where y="(j, m')", unfolded split])
  fix f clock time_end i m y
  assume ih: "\<And>clock time_end i m y. f clock time_end i m = Some y \<Longrightarrow> case y of (j, m') \<Rightarrow> a \<noteq> FWDGT_CTL \<longrightarrow> m' a = m a"
    and r: "(if clock i < time_end then f clock time_end (i + 1) (HAL_FWDGT_Update m) else Some (i, m)) = Some y"
  show "case y of (j, m') \<Rightarrow> a \<noteq> FWDGT_CTL \<longrightarrow> m' a = m a"
    using r ih[of clock time_end "i + 1" "HAL_FWDGT_Update m" y]
    by (auto simp: HAL_FWDGT_Update_def fwdgt_counter_reload_def split: if_splits)
qed

lemma poll_clear_ends: "(hw ^^ Suc n) m a AND k = 0 \<Longrightarrow> \<exists>j. poll_clear hw a k m = Some ((hw ^^ Suc j) m)"
proof (induction n arbitrary: m)
  case 0
  then show ?case by (subst poll_clear.simps) (auto simp: Let_def intro: exI[of _ 0])
next
  case (Suc n)
  have "(hw ^^ Suc n) (hw m) a AND k = 0" using Suc.prems by (simp add: funpow_swap1)
  from Suc.IH[OF this] obtain j where "poll_clear hw a k (hw m) = Some ((hw ^^ Suc (Suc j)) m)" by (auto simp: funpow_swap1)
  then show ?case
    by (subst poll_clear.simps) (auto simp: Let_def intro: exI[of _ 0] exI[of _ "Suc j"])
qed

lemma calibration_ends: "adc_hw hw \<Longrightarrow> \<exists>m'. adc_calibration_enable hw ADC0 m = Some m' \<and> m' (ADC_OVSAMPCTL ADC0) = m (ADC_OVSAMPCTL ADC0)"
proof -
  assume hw: "adc_hw hw"
  let ?m1 = "m(ADC_CTL1 ADC0 := m (ADC_CTL1 ADC0) OR ADC_CTL1_RSTCLB)"
  obtain j where j: "poll_clear hw (ADC_CTL1 ADC0) ADC_CTL1_RSTCLB ?m1 = Some ((hw ^^ Suc j) ?m1)"
    using hw poll_clear_ends[where hw = hw and m = ?m1 and a = "ADC_CTL1 ADC0" and k = ADC_CTL1_RSTCLB] unfolding adc_hw_def by blast
  define m2 where "m2 = (hw ^^ Suc j) ?m1"
  let ?m3 = "m2(ADC_CTL1 ADC0 := m2 (ADC_CTL1 ADC0) OR ADC_CTL1_CLB)"
  obtain i where i: "poll_clear hw (ADC_CTL1 ADC0) ADC_CTL1_CLB ?m3 = Some ((hw ^^ Suc i) ?m3)"
    using hw poll_clear_ends[where hw = hw and m = ?m3 and a = "ADC_CTL1 ADC0" and k = ADC_CTL1_CLB] unfolding adc_hw_def by blast
  have "m2 (ADC_OVSAMPCTL ADC0) = m (ADC_OVSAMPCTL ADC0)" unfolding m2_def adc_keeps[OF hw] by simp
  then have "(hw ^^ Suc i) ?m3 (ADC_OVSAMPCTL ADC0) = m (ADC_OVSAMPCTL ADC0)" unfolding adc_keeps[OF hw] by simp
  moreover have "adc_calibration_enable hw ADC0 m = Some ((hw ^^ Suc i) ?m3)"
    using j i unfolding adc_calibration_enable_def Let_def m2_def[symmetric] by simp
  ultimately show ?thesis by blast
qed

lemma resolution_6B: "adc_resolution_config ADC0 ADC_RESOLUTION_6B m (ADC_OVSAMPCTL ADC0) AND ADC_OVSAMPCTL_DRES = ADC_OVSAMPCTL_DRES"
  by (simp add: adc_resolution_config_def or_and_self)

lemma HAL_ADC_Init_result:
  assumes "adc_hw hw" "0 < n" "clock 0 + 1 \<le> clock n"
  shows "\<exists>m'. HAL_ADC_Init clock hw m = Some m' \<and> m' (ADC_OVSAMPCTL ADC0) AND ADC_OVSAMPCTL_DRES = ADC_OVSAMPCTL_DRES"
proof -
  define m1 where "m1 = (let m = PinADC_Init pinBAT m;
         m = adc_special_function_config ADC0 ADC_CONTINUOUS_MODE ENABLE m;
         m = adc_special_function_config ADC0 ADC_SCAN_MODE DISABLE m;
         m = adc_external_trigger_source_config ADC0 1 ADC0_1_2_EXTTRIG_REGULAR_NONE m;
         m = adc_data_alignment_config ADC0 ADC_DATAALIGN_RIGHT m;
         m = adc_mode_config ADC_MODE_FREE m;
         m = adc_channel_length_config ADC0 1 1 m;
         m = adc_regular_channel_config ADC0 0 1 ADC_SAMPLETIME_55POINT5 m
      in adc_external_trigger_config ADC0 1 ENABLE m)"
  let ?m2 = "adc_enable ADC0 (adc_resolution_config ADC0 ADC_RESOLUTION_6B m1)"
  have r: "?m2 (ADC_OVSAMPCTL ADC0) AND ADC_OVSAMPCTL_DRES = ADC_OVSAMPCTL_DRES"
    using resolution_6B[of m1] by (simp add: adc_enable_def)
  obtain j m3 where d: "DelayMS clock 1 ?m2 = Some (j, m3)" using DelayMS_waits[of clock 1 ?m2 _ _ n] assms(2,3) by fastforce
  have m3: "m3 (ADC_OVSAMPCTL ADC0) = ?m2 (ADC_OVSAMPCTL ADC0)"
    using delay_frame[of clock "clock 0 + 1" 1 ?m2 j m3 "ADC_OVSAMPCTL ADC0"] d by (simp add: DelayMS_def)
  obtain m5 where c: "adc_calibration_enable hw ADC0 m3 = Some m5" "m5 (ADC_OVSAMPCTL ADC0) = m3 (ADC_OVSAMPCTL ADC0)"
    using calibration_ends[OF assms(1)] by blast
  then have "adc_software_trigger_enable ADC0 1 m5 (ADC_OVSAMPCTL ADC0) = ?m2 (ADC_OVSAMPCTL ADC0)"
    using m3 by (simp add: adc_software_trigger_enable_def Let_def)
  moreover have "HAL_ADC_Init clock hw m = Some (adc_software_trigger_enable ADC0 1 m5)"
    unfolding HAL_ADC_Init_def Let_def using d c(1) unfolding m1_def Let_def by simp
  ultimately show ?thesis using r by simp
qed

lemma charge_full:
  assumes "raw < 64"
  shows "charge_of (ConversionRawToVoltageBattery raw) = 100"
proof -
  have "unat raw \<le> 63" using assms by (simp add: word_less_nat_alt)
  then have "(of_nat (unat raw) :: rat) \<le> of_nat 63" by (simp only: of_nat_le_iff)
  then have "41 / 10 \<le> ConversionRawToVoltageBattery raw"
    by (simp add: ConversionRawToVoltageBattery_def ConversionVoltageADCtoVoltageBattery_def ConversionRawToVoltageADC_def)
  then show ?thesis by (simp add: charge_of_def)
qed

lemma I2C_Init_result: "\<exists>d m'. I2C_Init port' scl sda periph address m = Some (d, m') \<and> i2c_address d = address \<and> i2c_periph d = periph"
  by (simp add: I2C_Init_def i2c_clock_config_def PinI2C_Init_def Let_def)

lemma systick_config_result: "\<exists>m'. systick_config m = Some m'"
  by (simp add: systick_config_def SysTick_Config_def Let_def)

lemma HAL_Init_result:
  assumes "adc_hw hw" "0 < n" "clock 0 + 1 \<le> clock n"
  shows "\<exists>d rst m1. HAL_Init clock hw m = Some (d, rst, m1) \<and> i2c_address d = 0x78 \<and> i2c_periph d = I2C0 \<and>
    m1 (ADC_OVSAMPCTL ADC0) AND ADC_OVSAMPCTL_DRES = ADC_OVSAMPCTL_DRES"
proof -
  obtain m' where t: "systick_config m = Some m'" using systick_config_result by blast
  define ma where "ma = fold rcu_periph_clock_enable init_clocks (nvic_priority_group_set NVIC_PRIGROUP_PRE1_SUB3 m')"
  define mb where "mb = HAL_USART_LOG_Init (HAL_USART_GPRS_Init (rcu_periph_clock_enable (APB1EN_BIT 11)
     (if rcu_flag_get RCU_FLAG_FWDGTRST ma \<noteq> RESET then rcu_all_reset_flag_clear ma else ma)))"
  obtain d mc where i: "I2C_Init GPIOB (GPIO_PIN 6) (GPIO_PIN 7) I2C0 (push_bit 1 0x3c) mb = Some (d, mc)"
      "i2c_address d = push_bit 1 0x3c" "i2c_periph d = I2C0"
    using I2C_Init_result by blast
  obtain md where a: "HAL_ADC_Init clock hw mc = Some md" "md (ADC_OVSAMPCTL ADC0) AND ADC_OVSAMPCTL_DRES = ADC_OVSAMPCTL_DRES"
    using HAL_ADC_Init_result[OF assms] by blast
  have "HAL_Init clock hw m = Some (d, ma 0x40021024, md)"
    unfolding HAL_Init_def Let_def t Option.bind.bind_lunit ma_def[symmetric] mb_def[symmetric] i(1) prod.case a(1) ..
  then show ?thesis using i(2,3) a(2) by simp
qed

text \<open>With 6 bits the computation for 12 bits gives a full battery.\<close>

lemma GetCharge_full:
  assumes "adc_hw hw" "m (ADC_OVSAMPCTL ADC0) AND ADC_OVSAMPCTL_DRES = ADC_OVSAMPCTL_DRES"
  shows "\<exists>m'. GetCharge hw m = Some (100, m')"
proof -
  let ?m = "adc_flag_clear ADC0 ADC_FLAG_EOC m"
  obtain j where j: "poll_set hw (ADC_STAT ADC0) ADC_FLAG_EOC ?m = Some ((hw ^^ Suc j) ?m)"
      "(hw ^^ Suc j) ?m (ADC_STAT ADC0) AND ADC_STAT_EOC \<noteq> 0"
    using assms(1) poll_set_returns[where hw = hw and m = ?m and a = "ADC_STAT ADC0" and k = ADC_STAT_EOC] unfolding adc_hw_def by metis
  have "(hw ^^ j) ?m (ADC_OVSAMPCTL ADC0) = m (ADC_OVSAMPCTL ADC0)" unfolding adc_keeps[OF assms(1)] by (simp add: adc_flag_clear_def)
  then have "hw ((hw ^^ j) ?m) (ADC_RDATA ADC0) < 64"
    using assms(1)[unfolded adc_hw_def, THEN spec[of _ "(hw ^^ j) ?m"]] j(2) assms(2) by (simp add: result_limit_def)
  then show ?thesis using j(1) by (simp add: GetCharge_def charge_full)
qed

section \<open>Properties\<close>

text \<open>
  C29: the charge of the battery. If the calibration and conversions end, \<^verbatim>\<open>HAL::Init\<close> returns and leaves the converter with a resolution of 6 bits, while the computation of the voltage takes the
  result for one of 12 bits, so that \<^verbatim>\<open>GetCharge\<close> returns 100 percent whatever the battery has. The display gets the address 0x78.
\<close>

theorem charge_always_full:
  assumes "adc_hw hw" "0 < n" "clock 0 + 1 \<le> clock n"
  shows "\<exists>d rstsck m1 m2. HAL_Init clock hw m = Some (d, rstsck, m1) \<and> GetCharge hw m1 = Some (100, m2) \<and>
     i2c_periph d = I2C0 \<and> i2c_address d = 0x78 \<and> m1 (ADC_OVSAMPCTL ADC0) AND ADC_OVSAMPCTL_DRES = ADC_RESOLUTION_6B"
proof -
  obtain d rst m1 where h: "HAL_Init clock hw m = Some (d, rst, m1)" "i2c_address d = 0x78" "i2c_periph d = I2C0"
      "m1 (ADC_OVSAMPCTL ADC0) AND ADC_OVSAMPCTL_DRES = ADC_OVSAMPCTL_DRES"
    using HAL_Init_result[OF assms] by blast
  show ?thesis using GetCharge_full[where m = m1, OF assms(1) h(4)] h by auto
qed

theorem charge_always_full_witness:
  "\<exists>d rstsck m1 m2. HAL_Init (\<lambda>i. of_nat i) (\<lambda>m. m(ADC_CTL1 ADC0 := 0, ADC_STAT ADC0 := 2, ADC_RDATA ADC0 := 63)) (\<lambda>_. 0) = Some (d, rstsck, m1) \<and>
     GetCharge (\<lambda>m. m(ADC_CTL1 ADC0 := 0, ADC_STAT ADC0 := 2, ADC_RDATA ADC0 := 63)) m1 = Some (100, m2) \<and>
     i2c_periph d = I2C0 \<and> i2c_address d = 0x78 \<and> m1 (ADC_OVSAMPCTL ADC0) AND ADC_OVSAMPCTL_DRES = ADC_RESOLUTION_6B"
  by (rule charge_always_full[where n = 1]) (simp_all add: adc_hw_quick)

end
