(* ===== verification/DeviceStart.thy ===== *)
theory DeviceStart
  imports HalInit
begin

text \<open>
  The start of the device: \<^verbatim>\<open>Device::Init\<close> of \<^verbatim>\<open>sources/Device/src/Device.cpp\<close>, defined in \<open>HalInit\<close>, from the initialisation of the hardware through the test pictures of the display to
  that of the modem. The delays between the pictures reload the watchdog at every turn, so that the clock must go on whatever the registers hold.
\<close>

section \<open>Delays\<close>

fun bus_iter :: "'h i2c_world \<Rightarrow> 'h \<Rightarrow> mem list \<Rightarrow> 'h" where
  "bus_iter w h [] = h"
| "bus_iter w h (m # ms) = bus_iter w (fst (bus_run w h m)) ms"

text \<open>From one read to the next the counter stays or goes on by one, and after some number of reads it has gone on, whatever the registers hold at them.\<close>

definition clock_runs :: "'h i2c_world \<Rightarrow> bool" where
  "clock_runs w \<longleftrightarrow>
     (\<forall>h m. time_ms w (fst (bus_run w h m)) = time_ms w h \<or> time_ms w (fst (bus_run w h m)) = time_ms w h + 1) \<and>
     (\<forall>h. \<exists>n. \<forall>ms. length ms = n \<longrightarrow> time_ms w (bus_iter w h ms) \<noteq> time_ms w h)"

definition delay_returns :: "'h i2c_world \<Rightarrow> u32 \<Rightarrow> 'h i2c_st \<Rightarrow> bool" where
  "delay_returns w e s \<longleftrightarrow> (\<exists>s'. bus_delay_until w e s = Some ((), s') \<and> i2c_reqs s' = i2c_reqs s)"

lemma delay_step:
  assumes "i2c_now w (bus_step w s) < e \<Longrightarrow> delay_returns w e (on_regs HAL_FWDGT_Update (bus_step w s))"
  shows "delay_returns w e s"
  unfolding delay_returns_def
  by (subst bus_delay_until.simps) (use assms in \<open>auto simp: Let_def delay_returns_def on_regs_def\<close>)

lemma now_step: "i2c_now w (on_regs f s) = i2c_now w s" "i2c_now w (bus_step w s) = time_ms w (fst (bus_run w (i2c_hw s) (i2c_regs s)))"
  by (simp_all add: i2c_now_def on_regs_def)

lemma delay_progress:
  assumes "clock_runs w" "\<forall>ms. length ms = n \<longrightarrow> time_ms w (bus_iter w (i2c_hw s) ms) \<noteq> i2c_now w s"
    "\<And>s'. i2c_now w s' = i2c_now w s + 1 \<Longrightarrow> i2c_now w s' < e \<Longrightarrow> delay_returns w e s'"
  shows "delay_returns w e s"
  using assms(2,3)
proof (induction n arbitrary: s)
  case 0
  then show ?case using "0.prems"(1)[rule_format, of "[]"] by (simp add: i2c_now_def)
next
  case (Suc n)
  let ?s = "on_regs HAL_FWDGT_Update (bus_step w s)"
  show ?case
  proof (rule delay_step)
    assume e: "i2c_now w (bus_step w s) < e"
    consider "i2c_now w ?s = i2c_now w s" | "i2c_now w ?s = i2c_now w s + 1"
      using assms(1) unfolding clock_runs_def now_step by (auto simp: i2c_now_def)
    then show "delay_returns w e ?s"
    proof cases
      case 1
      have "\<forall>ms. length ms = n \<longrightarrow> time_ms w (bus_iter w (i2c_hw ?s) ms) \<noteq> i2c_now w ?s"
      proof (intro allI impI)
        fix ms :: "mem list" assume "length ms = n"
        then show "time_ms w (bus_iter w (i2c_hw ?s) ms) \<noteq> i2c_now w ?s"
          using Suc.prems(1)[rule_format, of "i2c_regs s # ms"] 1 by (simp add: on_regs_def)
      qed
      then show ?thesis using Suc.IH[of ?s] Suc.prems(2) 1 by simp
    next
      case 2
      then show ?thesis using Suc.prems(2) e by (simp add: now_step(1))
    qed
  qed
qed

lemma delay_runs: "clock_runs w \<Longrightarrow> i2c_now w s < e \<Longrightarrow> delay_returns w e s"
proof (induction "unat e - unat (i2c_now w s)" arbitrary: s rule: less_induct)
  case less
  obtain n where n: "\<forall>ms. length ms = n \<longrightarrow> time_ms w (bus_iter w (i2c_hw s) ms) \<noteq> i2c_now w s"
    using less.prems(1) unfolding clock_runs_def i2c_now_def by blast
  show ?case
  proof (rule delay_progress[OF less.prems(1) n])
    fix s' assume s': "i2c_now w s' = i2c_now w s + 1" "i2c_now w s' < e"
    have "i2c_now w s + 1 \<noteq> 0" using less.prems(2) s' by (metis max_word_max max_word_wrap not_le order_less_le_trans)
    then have "unat (i2c_now w s') = unat (i2c_now w s) + 1" unfolding s'(1) by (simp add: unatSuc add.commute)
    then show "delay_returns w e s'" using less.hyps[of s'] less.prems s' by (simp add: word_less_nat_alt)
  qed
qed

lemma bus_delay_returns:
  assumes "clock_runs w"
  shows "\<exists>s'. bus_delay w ms s = Some ((), s') \<and> i2c_reqs s' = i2c_reqs s"
proof -
  have "delay_returns w (i2c_now w s + ms) s" by (rule delay_step, rule delay_runs[OF assms]) (simp add: now_step)
  then show ?thesis by (simp add: delay_returns_def bus_delay_def)
qed

section \<open>The test pictures\<close>

text \<open>\<open>paints s r P\<close>: the operation returns a display with \<open>P\<close>, and the requests it adds bring the picture of the display to the screen.\<close>

definition paints :: "'h i2c_st \<Rightarrow> (display \<times> 'h i2c_st) option \<Rightarrow> (display \<Rightarrow> bool) \<Rightarrow> bool" where
  "paints s r P \<longleftrightarrow> (\<exists>dp s' rs. r = Some (dp, s') \<and> P dp \<and> i2c_reqs s' = i2c_reqs s @ rs \<and>
     (\<forall>z. \<forall>x < 128. \<forall>y < 64. screen_pixel (fold ssd_request rs z) x y = pixel (dp_buffer dp) x y))"

lemma Fill_paints:
  assumes "bus_serves w (i2c_periph d)" "address_byte d I2C_TRANSMITTER = 0x78" "color \<in> {0, 1, 2}"
  shows "paints s (Fill w d rnd color dp s) (\<lambda>dp'. font_type dp' = font_type dp \<and> (color = 0 \<longrightarrow> dp_buffer dp' = replicate SIZE_BUFFER 0))"
proof -
  define dp' where "dp' = (if color = 1 then dp\<lparr>dp_buffer := replicate SIZE_BUFFER 0xFF\<rparr>
     else if color = 0 then dp\<lparr>dp_buffer := replicate SIZE_BUFFER 0x00\<rparr>
     else if color = 2 then dp\<lparr>dp_buffer := map (\<lambda>i. ucast (rnd i)) [0..<SIZE_BUFFER]\<rparr> else dp)"
  have p: "length (dp_buffer dp') = SIZE_BUFFER" "font_type dp' = font_type dp" "color = 0 \<longrightarrow> dp_buffer dp' = replicate SIZE_BUFFER 0"
    using assms(3) by (auto simp: dp'_def)
  have "Fill w d rnd color dp s = do { (_, s) \<leftarrow> SSD1306_WriteBuffer w d (dp_buffer dp') s; Some (dp', s) }"
    by (simp add: Fill_def dp'_def Let_def)
  then show ?thesis using WriteBuffer_shown[OF assms(1,2) p(1), of s] p(2,3) unfolding paints_def by auto
qed

lemma paints_then:
  assumes "paints s r P" "\<And>dp s'. P dp \<Longrightarrow> paints s' (f (dp, s')) Q"
  shows "paints s (r \<bind> f) Q"
proof -
  obtain dp s' rs where r: "r = Some (dp, s')" "P dp" "i2c_reqs s' = i2c_reqs s @ rs" using assms(1) unfolding paints_def by blast
  from assms(2)[OF r(2), of s'] obtain dp' s'' rs' where f: "f (dp, s') = Some (dp', s'')" "Q dp'" "i2c_reqs s'' = i2c_reqs s' @ rs'"
      "\<forall>z. \<forall>x < 128. \<forall>y < 64. screen_pixel (fold ssd_request rs' z) x y = pixel (dp_buffer dp') x y"
    unfolding paints_def by blast
  show ?thesis unfolding paints_def
    by (rule exI[of _ dp'], rule exI[of _ s''], rule exI[of _ "rs @ rs'"]) (use r f in simp)
qed

lemma paints_after:
  assumes "i2c_reqs s' = i2c_reqs s @ rs" "paints s' r P"
  shows "paints s r P"
proof -
  obtain dp s'' rs' where r: "r = Some (dp, s'')" "P dp" "i2c_reqs s'' = i2c_reqs s' @ rs'"
      "\<forall>z. \<forall>x < 128. \<forall>y < 64. screen_pixel (fold ssd_request rs' z) x y = pixel (dp_buffer dp) x y"
    using assms(2) unfolding paints_def by blast
  show ?thesis unfolding paints_def
    by (rule exI[of _ dp], rule exI[of _ s''], rule exI[of _ "rs @ rs'"]) (use r assms(1) in simp)
qed

lemma paints_delay:
  assumes "clock_runs w" "\<And>s'. paints s' (f ((), s')) P"
  shows "paints s (bus_delay w ms s \<bind> f) P"
proof -
  obtain s' where "bus_delay w ms s = Some ((), s')" "i2c_reqs s' = i2c_reqs s" using bus_delay_returns[OF assms(1)] by blast
  then show ?thesis using paints_after[of s' s "[]"] assms(2)[of s'] by simp
qed

lemma send_commands_served:
  assumes "bus_serves w (i2c_periph d)" "address_byte d I2C_TRANSMITTER = 0x78"
  shows "i2c_reqs s = i2c_reqs s0 @ rs0 \<Longrightarrow> \<exists>s' rs. send_commands w d cs s = Some ((), s') \<and> i2c_reqs s' = i2c_reqs s0 @ rs"
proof (induction cs arbitrary: s rs0)
  case (Cons c cs)
  obtain ok s1 where "SendCommand w d c s = Some (ok, s1)" "i2c_reqs s1 = i2c_reqs s @ command_reqs c"
    using SendCommand_served[OF assms, of c s] by (auto simp: goes_def)
  then show ?case using Cons.IH[of s1 "rs0 @ command_reqs c"] Cons.prems by auto
qed simp

lemma SSD1306_Init_served:
  assumes "bus_serves w (i2c_periph d)" "address_byte d I2C_TRANSMITTER = 0x78"
  shows "\<exists>s' rs. SSD1306_Init w d s = Some ((), s') \<and> i2c_reqs s' = i2c_reqs s @ rs"
proof -
  obtain s1 where c: "SendCommand w d 0xAE s = Some (True, s1)" "i2c_reqs s1 = i2c_reqs s @ command_reqs 0xAE"
    using SendCommand_served[OF assms, of "0xAE" s] by (auto simp: goes_def)
  show ?thesis
    unfolding SSD1306_Init_def c(1) Option.bind.bind_lunit prod.case not_True_eq_False if_False by (rule send_commands_served[OF assms c(2)])
qed

text \<open>The last picture with only a delay after it.\<close>

lemma paints_last:
  assumes "clock_runs w" "paints s r P"
  shows "paints s (r \<bind> (\<lambda>(dp, s). bus_delay w ms s \<bind> (\<lambda>(_, s). Some (dp, s)))) P"
proof -
  obtain dp s' rs where r: "r = Some (dp, s')" "P dp" "i2c_reqs s' = i2c_reqs s @ rs"
      "\<forall>z. \<forall>x < 128. \<forall>y < 64. screen_pixel (fold ssd_request rs z) x y = pixel (dp_buffer dp) x y"
    using assms(2) unfolding paints_def by blast
  obtain s'' where "bus_delay w ms s' = Some ((), s'')" "i2c_reqs s'' = i2c_reqs s'" using bus_delay_returns[OF assms(1)] by blast
  then show ?thesis using r unfolding paints_def by auto
qed

lemma Display_Init_paints:
  assumes "bus_serves w (i2c_periph d)" "address_byte d I2C_TRANSMITTER = 0x78" "clock_runs w"
  shows "paints s (Display_Init w d rnd dp s) (\<lambda>dp'. font_type dp' = font_type dp \<and> dp_buffer dp' = replicate SIZE_BUFFER 0)"
proof -
  note fill = Fill_paints[OF assms(1,2)]
  obtain s1 rs where i: "SSD1306_Init w d s = Some ((), s1)" "i2c_reqs s1 = i2c_reqs s @ rs" using SSD1306_Init_served[OF assms(1,2)] by blast
  show ?thesis
    unfolding Display_Init_def i(1) Option.bind.bind_lunit prod.case
  proof (rule paints_after[OF i(2)], rule paints_then[OF fill], simp, simp only: prod.case, rule paints_delay[OF assms(3)], simp only: prod.case,
      rule paints_then[OF fill], simp, simp only: prod.case, rule paints_delay[OF assms(3)], simp only: prod.case, goal_cases)
    case (1 dp1 s1' s2 dp2 s3 s4)
    have "paints s4 (Fill w d rnd 0 dp2 s4) (\<lambda>dp'. font_type dp' = font_type dp \<and> dp_buffer dp' = replicate SIZE_BUFFER 0)"
      using fill[of 0 s4 rnd dp2] 1 unfolding paints_def by auto
    from paints_last[OF assms(3) this] show ?case by simp
  qed
qed

section \<open>The whole start\<close>

lemma Device_Init_dark:
  assumes "adc_hw hw" "0 < n" "clock 0 + 1 \<le> clock n" "bus_serves w I2C0" "clock_runs w"
  shows "\<exists>dp' s' md' rs. Device_Init clock hw w rnd dp s md = Some (dp', s', md') \<and> i2c_reqs s' = i2c_reqs s @ rs \<and>
     (\<forall>z. \<forall>x < 128. \<forall>y < 64. \<not> screen_pixel (fold ssd_request rs z) x y) \<and>
     dp_buffer dp' = replicate SIZE_BUFFER 0 \<and> font_type dp' = font_type dp \<and>
     m_state md' = m_state md \<and> m_in md' = m_in md \<and> i2c_regs s' = m_regs md'"
proof -
  obtain d rst m1 where h: "HAL_Init clock hw (i2c_regs s) = Some (d, rst, m1)" "i2c_address d = 0x78" "i2c_periph d = I2C0"
    using HAL_Init_result[OF assms(1-3)] by blast
  let ?s = "s\<lparr>i2c_regs := m1\<rparr>"
  have "paints ?s (Display_Init w d rnd dp ?s) (\<lambda>dp'. font_type dp' = font_type dp \<and> dp_buffer dp' = replicate SIZE_BUFFER 0)"
    by (rule Display_Init_paints) (simp_all add: h assms address_byte_def)
  then obtain dp' s' rs where p: "Display_Init w d rnd dp ?s = Some (dp', s')" "font_type dp' = font_type dp" "dp_buffer dp' = replicate SIZE_BUFFER 0"
      "i2c_reqs s' = i2c_reqs s @ rs" "\<forall>z. \<forall>x < 128. \<forall>y < 64. screen_pixel (fold ssd_request rs z) x y = pixel (dp_buffer dp') x y"
    unfolding paints_def by auto
  have "\<not> pixel (replicate SIZE_BUFFER 0) x y" if "x < 128" "y < 64" for x y using index_in_buffer[OF that] by (simp add: pixel_def)
  then have "\<forall>z. \<forall>x < 128. \<forall>y < 64. \<not> screen_pixel (fold ssd_request rs z) x y" using p(3,5) by simp
  then show ?thesis using h(1) p by (simp add: Device_Init_def Let_def Modem_Init_def)
qed

section \<open>Properties\<close>

text \<open>
  C35: the device starts. With a converter and a display that answer and a running clock, \<^verbatim>\<open>Device::Init\<close> returns; the screen is dark then, the buffer of the display is empty, and the font, the state
  and the input of the modem are as before.
\<close>

theorem device_starts:
  assumes "adc_hw hw" "0 < n" "clock 0 + 1 \<le> clock n" "bus_serves w I2C0" "clock_runs w"
  shows "\<exists>dp' s' md' rs. Device_Init clock hw w rnd dp s md = Some (dp', s', md') \<and> i2c_reqs s' = i2c_reqs s @ rs \<and>
     (\<forall>z. \<forall>x < 128. \<forall>y < 64. \<not> screen_pixel (fold ssd_request rs z) x y) \<and>
     dp_buffer dp' = replicate SIZE_BUFFER 0 \<and> font_type dp' = font_type dp \<and>
     m_state md' = m_state md \<and> m_in md' = m_in md \<and> i2c_regs s' = m_regs md'"
  using assms by (rule Device_Init_dark)

definition running_bus :: "u32 i2c_world" where
  "running_bus = \<lparr>bus_run = \<lambda>h m. (h + 1, m(I2C_STAT0 I2C0 := 0xFFFF, I2C_STAT1 I2C0 := 0, I2C_CTL0 I2C0 := 0)), time_ms = id\<rparr>"

lemma running_bus_serves: "bus_serves running_bus I2C0"
  unfolding bus_serves_def
proof (intro ballI allI exI[of _ 0] conjI impI)
  fix busy h m
  assume "busy \<in> i2c_busy I2C0"
  then show "\<not> busy (snd (bus_runs running_bus (Suc 0) (h, m)))"
    by (auto simp: i2c_busy_def bus_runs_Suc running_bus_def i2c_flag_get_def)
  fix i :: nat
  assume "i \<le> Suc 0"
  then show "unat (time_ms running_bus (fst (bus_runs running_bus i (h, m))) - time_ms running_bus h) \<le> 1"
    by (cases i) (simp_all add: bus_runs_Suc running_bus_def)
qed

lemma running_bus_clock: "clock_runs running_bus"
proof -
  have "\<exists>n. \<forall>ms. length ms = n \<longrightarrow> time_ms running_bus (bus_iter running_bus h ms) \<noteq> time_ms running_bus h" for h
    by (intro exI[of _ "Suc 0"]) (auto simp: length_Suc_conv running_bus_def)
  then show ?thesis by (simp add: clock_runs_def) (simp add: running_bus_def)
qed

theorem device_starts_witness:
  "\<exists>dp' s' md' rs. Device_Init of_nat (\<lambda>m. m(ADC_CTL1 ADC0 := 0, ADC_STAT ADC0 := 2, ADC_RDATA ADC0 := 63)) running_bus (\<lambda>_. 0) dark_display idle_port reset_modem =
       Some (dp', s', md') \<and> i2c_reqs s' = rs \<and> (\<forall>z. \<not> screen_pixel (fold ssd_request rs z) 5 5)"
proof -
  have "adc_hw (\<lambda>m. m(ADC_CTL1 ADC0 := 0, ADC_STAT ADC0 := 2, ADC_RDATA ADC0 := 63))" by (simp add: adc_hw_quick)
  from device_starts[OF this _ _ running_bus_serves running_bus_clock, where n = 1 and clock = of_nat and rnd = "\<lambda>_. 0" and dp = dark_display
      and s = idle_port and md = reset_modem]
  show ?thesis by (auto simp: idle_port_def)
qed

end
