(* ===== verification/DeviceRun.thy ===== *)
theory DeviceRun
  imports DeviceStart
begin

text \<open>
  The application as a whole: \<^verbatim>\<open>main\<close> of \<^verbatim>\<open>sources/Device/src/main.cpp\<close> calls \<^verbatim>\<open>Device::Init\<close> and then \<^verbatim>\<open>Device::Update\<close> without end, while the receive
  interrupt appends to the input of the modem. \<open>device_run\<close> is the states that this leads to.
\<close>

section \<open>The font of the display\<close>

lemma DrawPixel_font: "DrawPixel x y c dp = Some dp' \<Longrightarrow> font_type dp' = font_type dp"
  by (auto simp: DrawPixel_def Let_def split: if_splits)

lemma draw_all_font: "draw_all ps dp = Some dp' \<Longrightarrow> font_type dp' = font_type dp"
  by (induction ps dp rule: draw_all.induct) (auto split: option.splits dest: DrawPixel_font)

lemma WriteChar_font: "WriteChar c dp = Some (r, dp') \<Longrightarrow> font_type dp' = font_type dp"
  by (auto simp: WriteChar_def split: if_splits option.splits dest: draw_all_font)

lemma write_chars_font: "write_chars s dp = Some (r, dp') \<Longrightarrow> font_type dp' = font_type dp"
  by (induction s dp rule: write_chars.induct) (auto split: if_splits option.splits dest: WriteChar_font)

lemma write_texts_font: "write_texts ts dp = Some dp' \<Longrightarrow> font_type dp' = font_type dp"
  by (induction ts dp rule: write_texts.induct) (auto simp: WriteString_def split: bind_splits dest: write_chars_font)

lemma Display_Update_font: "Display_Update w p fmt uid meas md d dp s = Some (dp', s') \<Longrightarrow> font_type dp' = font_type dp"
  by (auto simp: Display_Update_def BeginScene_def split: bind_splits dest: write_texts_font)

lemma Fill_font: "Fill w d rnd color dp s = Some (dp', s') \<Longrightarrow> font_type dp' = font_type dp"
  by (auto simp: Fill_def Let_def split: bind_splits if_splits)

lemma Device_Init_font: "Device_Init clock hw w rnd dp s md = Some (dp', s', md') \<Longrightarrow> font_type dp' = font_type dp"
  by (auto simp: Device_Init_def Display_Init_def Let_def split: bind_splits dest!: Fill_font)

section \<open>The states of the application\<close>

text \<open>
  The display starts with the values of its static variables, the modem with any; \<open>p\<close> is the display's port of \<^verbatim>\<open>HAL::Init\<close>. Between two turns the
  hardware may change any register and the state of the bus. A turn may take any time, and one that asks for the time may find the queue full
  and wait. The flag \<open>lost\<close> says that the connection was lost in such a wait and the modem was not started again since.
\<close>

inductive device_run ::
    "(nat \<Rightarrow> u32) \<Rightarrow> (mem \<Rightarrow> mem) \<Rightarrow> 'h i2c_world \<Rightarrow> (string \<Rightarrow> 'f \<Rightarrow> string) \<Rightarrow> u8 list \<Rightarrow> hal_i2c \<Rightarrow> bool \<Rightarrow>
     display \<times> 'h i2c_st \<Rightarrow> modem \<times> device \<Rightarrow> bool"
  for clock hw w fmt uid p where
  start: "HAL_Init clock hw (i2c_regs s) = Some (p, rst, m) \<Longrightarrow>
    Device_Init clock hw w rnd dark_display s md = Some (dp', s', md') \<Longrightarrow> device_run clock hw w fmt uid p False (dp', s') (md', new_device)"
| receive: "device_run clock hw w fmt uid p lost dps (md, d) \<Longrightarrow>
    device_run clock hw w fmt uid p lost dps (md\<lparr>m_in := CallbackOnReceive c (m_in md)\<rparr>, d)"
| hardware: "device_run clock hw w fmt uid p lost (dp, s) (md, d) \<Longrightarrow>
    device_run clock hw w fmt uid p lost (dp, s\<lparr>i2c_hw := h, i2c_regs := r\<rparr>) (md\<lparr>m_regs := r'\<rparr>, d)"
| turn: "device_run clock hw w fmt uid p lost dps (md, d) \<Longrightarrow>
    Device_Update_Display w p fmt meas uid nul junk t irq now dps (md, d) = Some (dps', md_d) \<Longrightarrow>
    device_run clock hw w fmt uid p (lost_after uid nul junk t irq now (md, d) lost) dps' md_d"

lemma device_run_inv:
  assumes "device_run clock hw w fmt uid p lost dps md_d" "clock_ticks w"
  shows "device_inv uid lost (snd md_d) \<and> font_type (fst dps) = Font_10"
  using assms(1)
proof (induction rule: device_run.induct)
  case (start s rst m rnd md dp' s' md')
  have "device_inv uid False new_device" using new_device_ok[of uid] by (simp add: device_ok_def device_inv_def)
  then show ?case using Device_Init_font[OF start(2)] by (simp add: dark_display_def)
next
  case (turn lost dps md d meas nul junk t irq now dps' md_d)
  obtain dp s md' d' where e: "dps = (dp, s)" "md_d = (md', d')" by (cases dps, cases md_d)
  have i: "device_inv uid lost d" "font_type dp = Font_10" using turn.IH e by simp_all
  obtain dq where u: "Device_Update_Display w p fmt meas uid nul junk t irq now (dp, s) (md, d) =
      map_option (Pair dq) (Device_Update uid nul junk t irq now (i2c_now w (snd dq)) (md, d))"
    using display_transparent[OF assms(2) i(2)] by metis
  then have "Device_Update uid nul junk t irq now (i2c_now w (snd dq)) (md, d) = Some (md', d')" using turn.hyps(2) e by auto
  from device_turn[OF i(1) this] have "device_inv uid (lost_after uid nul junk t irq now (md, d) lost) d'" .
  moreover have "font_type (fst dps') = Font_10"
    using turn.hyps(2) e i(2) Display_Update_font[of w p fmt uid] by (auto simp: Device_Update_Display_def split: bind_splits)
  ultimately show ?case using e by simp
qed simp_all

section \<open>Properties\<close>

text \<open>
  C23: from its start on and whatever the modem and the bus do, the application keeps the broker's protocol and its display alive. In every state that
  \<^verbatim>\<open>main\<close> reaches, through turns that find room in the queue of requests and turns that wait for it, the next call of \<^verbatim>\<open>Display::Update\<close> returns; and so does the next
  call of \<^verbatim>\<open>MQTT::Update\<close>, which sends nothing, the announcement of a packet or one whole packet, before the connection is confirmed only the
  connection request. The exception to the second is a connection that was lost during a wait for room, until the modem is started again (\<open>time_request_outcome\<close>). The millisecond
  counter goes on, and address 0 can be read.
\<close>

theorem application_runs:
  assumes "device_run clock hw w fmt uid p lost (dp, s) (md, d)" "clock_ticks w"
  shows "(\<exists>dp' s'. Display_Update w p fmt uid meas md d dp s = Some (dp', s')) \<and>
     (\<not> lost \<longrightarrow> (\<exists>st' q'. MQTT_Update uid True now answer (m_state md, d_mqtt d) = Some (st', q') \<and>
       (mq_out q' = mq_out (d_mqtt d) \<or> mq_out q' = mq_out (d_mqtt d) @ With0D ''AT+CIPSEND'' \<or>
        (\<exists>b. mq_out q' = mq_out (d_mqtt d) @ request_Send b @ [0x1A] \<and> read_packet (request_Send b @ [0x1A]) = Some (b, [0x1A]) \<and>
           (b = connect_request uid \<or> mq_connected (d_mqtt d))))))"
proof (intro conjI impI)
  have inv: "device_inv uid lost d" "font_type dp = Font_10" using device_run_inv[OF assms] by simp_all
  show "\<exists>dp' s'. Display_Update w p fmt uid meas md d dp s = Some (dp', s')" using Display_Update_returns[OF assms(2) inv(2)] .
  assume "\<not> lost"
  then have q: "mqtt_ok uid (d_mqtt d)" using inv(1) by (simp add: device_inv_def)
  then obtain st' q' where u: "MQTT_Update uid True now answer (m_state md, d_mqtt d) = Some (st', q')" using update_works by metis
  show "\<exists>st' q'. MQTT_Update uid True now answer (m_state md, d_mqtt d) = Some (st', q') \<and>
       (mq_out q' = mq_out (d_mqtt d) \<or> mq_out q' = mq_out (d_mqtt d) @ With0D ''AT+CIPSEND'' \<or>
        (\<exists>b. mq_out q' = mq_out (d_mqtt d) @ request_Send b @ [0x1A] \<and> read_packet (request_Send b @ [0x1A]) = Some (b, [0x1A]) \<and>
           (b = connect_request uid \<or> mq_connected (d_mqtt d))))"
    using update_sends[OF q u] u read_back[OF device_body_fits] by (fastforce simp: sent_by_def)
qed

abbreviation quick_converter :: "mem \<Rightarrow> mem" where
  "quick_converter \<equiv> \<lambda>m. m(ADC_CTL1 ADC0 := 0, ADC_STAT ADC0 := 2, ADC_RDATA ADC0 := 63)"

lemma running_bus_ticks: "clock_ticks running_bus"
proof -
  have "\<exists>n. time_ms running_bus (fst (bus_runs running_bus n (h, m))) \<noteq> time_ms running_bus h" for h m
    by (intro exI[of _ "Suc 0"]) (simp add: bus_runs_Suc running_bus_def)
  then show ?thesis by (simp add: clock_ticks_def) (simp add: running_bus_def)
qed

lemma device_on:
  "\<exists>p dp s md. device_run of_nat quick_converter running_bus (\<lambda>s _. s) [] p False (dp, s) (md\<lparr>m_in := CallbackOnReceive (CHR ''R'') (m_in md)\<rparr>, new_device)"
proof -
  have a: "adc_hw quick_converter" by (simp add: adc_hw_quick)
  obtain p rst m where h: "HAL_Init of_nat quick_converter (i2c_regs idle_port) = Some (p, rst, m)"
    using HAL_Init_result[OF a, of 1 of_nat "i2c_regs idle_port"] by auto
  obtain dp s md where "Device_Init of_nat quick_converter running_bus (\<lambda>_. 0) dark_display idle_port reset_modem = Some (dp, s, md)"
    using Device_Init_dark[OF a _ _ running_bus_serves running_bus_clock, where n = 1 and clock = of_nat and rnd = "\<lambda>_. 0" and dp = dark_display
      and s = idle_port and md = reset_modem] by auto
  from device_run.receive[OF device_run.start[OF h this]] show ?thesis by blast
qed

theorem application_runs_witness:
  "\<exists>p dp s md. device_run of_nat quick_converter running_bus (\<lambda>s (_ :: unit). s) [] p False (dp, s) (md, new_device) \<and>
     (\<exists>st' q'. MQTT_Update [] True 7 ''>'' (m_state md, d_mqtt new_device) = Some (st', q'))"
proof -
  obtain p dp s md where r: "device_run of_nat quick_converter running_bus (\<lambda>s (_ :: unit). s) [] p False (dp, s) (md, new_device)"
    using device_on by blast
  from application_runs[OF r running_bus_ticks, where now = 7 and answer = "''>''"]
  have "\<exists>st' q'. MQTT_Update [] True 7 ''>'' (m_state md, d_mqtt new_device) = Some (st', q')" by blast
  with r show ?thesis by blast
qed

end
