(* ===== verification/Dht22.thy ===== *)
theory Dht22
  imports HalPins HalTime MqttRequest
begin

unbundle bit_operations_syntax

text \<open>
  The sensor of temperature and humidity: \<^verbatim>\<open>sources/Device/src/Modules/DHT22/DHT22.cpp\<close>. \<open>line i\<close> is the level of the data line at the \<open>i\<close>-th
  reading of a measurement, and \<open>clock\<close> the counter of milliseconds at the reads of the delay. A measured value is an integer in tenths of its unit: the
  multiplication of the received number by \<^verbatim>\<open>0.1f\<close> is left out. Whether interrupts are enabled is part of the state.
\<close>

section \<open>State\<close>

datatype DHT_type = DHT11 | DHT22

record DHT_sensor =
  DHT_Port :: u32
  DHT_Pin :: u32
  dht_type :: DHT_type
  lastPollingTime :: u32
  lastTemp :: int
  lastHum :: int

record DataDHT =
  dht_temperature :: int
  dht_humidity :: int

abbreviation DHT_TIMEOUT :: nat where "DHT_TIMEOUT \<equiv> 10000"
abbreviation DHT_POLLING_INTERVAL_DHT11 :: u32 where "DHT_POLLING_INTERVAL_DHT11 \<equiv> 2000"
abbreviation DHT_POLLING_INTERVAL_DHT22 :: u32 where "DHT_POLLING_INTERVAL_DHT22 \<equiv> 1000"
abbreviation GPIO_MODE_OUT_OD :: u32 where "GPIO_MODE_OUT_OD \<equiv> 0x14"

section \<open>Operations\<close>

definition lineDown :: "DHT_sensor \<Rightarrow> mem \<Rightarrow> mem" where
  "lineDown s m = m(GPIO_BC (DHT_Port s) := DHT_Pin s)"

definition lineUp :: "DHT_sensor \<Rightarrow> mem \<Rightarrow> mem" where
  "lineUp s m = m(GPIO_BOP (DHT_Port s) := DHT_Pin s)"

definition goToOutput :: "DHT_sensor \<Rightarrow> mem \<Rightarrow> mem" where
  "goToOutput s m = gpio_init (DHT_Port s) GPIO_MODE_OUT_OD GPIO_OSPEED_50MHZ (DHT_Pin s) (lineUp s m)"

definition goToInput :: "DHT_sensor \<Rightarrow> mem \<Rightarrow> mem" where
  "goToInput s m = gpio_init (DHT_Port s) GPIO_MODE_IPU GPIO_OSPEED_50MHZ (DHT_Pin s) m"

text \<open>The wait for the end of a level, and whether it ended before the time-out; the second component is the number of the next reading.\<close>

function wait_line :: "(nat \<Rightarrow> bool) \<Rightarrow> bool \<Rightarrow> nat \<Rightarrow> nat \<Rightarrow> bool \<times> nat" where
  "wait_line line lvl timeout i =
    (if line i = lvl then (if timeout + 1 > DHT_TIMEOUT then (False, i + 1) else wait_line line lvl (timeout + 1) (i + 1))
     else (True, i + 1))"
  by pat_completeness auto
termination by (relation "measure (\<lambda>(line, lvl, timeout, i). DHT_TIMEOUT - timeout)") auto

text \<open>The number of readings of a level, at most 65535.\<close>

function count_line :: "(nat \<Rightarrow> bool) \<Rightarrow> bool \<Rightarrow> u16 \<Rightarrow> nat \<Rightarrow> u16 \<times> nat" where
  "count_line line lvl t i = (if line i = lvl \<and> t \<noteq> 65535 then count_line line lvl (t + 1) (i + 1) else (t, i + 1))"
  by pat_completeness auto
termination
proof (relation "measure (\<lambda>(line, lvl, t, i). 65535 - unat t)", goal_cases)
  case (2 line lvl t i)
  have "(- 1 :: u16) = 65535" by simp
  then have "t + 1 \<noteq> 0" using 2 by (auto simp: eq_neg_iff_add_eq_0[symmetric])
  then have "unat (t + 1) = unat t + 1" by (simp add: unatSuc add.commute)
  moreover have "unat (t + 1) < 65536" using unsigned_less[of "t + 1"] by simp
  ultimately show ?case by simp
qed simp

fun byte_loop :: "(nat \<Rightarrow> bool) \<Rightarrow> nat list \<Rightarrow> u8 \<Rightarrow> nat \<Rightarrow> u8 \<times> nat" where
  "byte_loop line [] raw i = (raw, i)"
| "byte_loop line (b # bs) raw i =
    (let (lT, i) = count_line line False 0 i;
         (hT, i) = count_line line True 0 i
      in byte_loop line bs (if hT > lT then raw OR push_bit b 1 else raw) i)"

fun raw_loop :: "(nat \<Rightarrow> bool) \<Rightarrow> nat \<Rightarrow> nat \<Rightarrow> u8 list \<times> nat" where
  "raw_loop line 0 i = ([], i)"
| "raw_loop line (Suc a) i =
    (let (b, i) = byte_loop line (rev [0..<8]) 0 i; (bs, i) = raw_loop line a i in (b # bs, i))"

definition word16 :: "u8 \<Rightarrow> u8 \<Rightarrow> int" where
  "word16 a b = int (unat a) * 256 + int (unat b)"

definition decode :: "DHT_type \<Rightarrow> u8 list \<Rightarrow> DataDHT \<Rightarrow> DataDHT" where
  "decode ty raw data =
    (if raw ! 0 + raw ! 1 + raw ! 2 + raw ! 3 = raw ! 4 then
       (case ty of
          DHT22 \<Rightarrow> \<lparr>dht_temperature =
              (if raw ! 2 AND push_bit 7 1 = 0 then word16 (raw ! 2) (raw ! 3)
               else - word16 (raw ! 2 AND NOT (push_bit 7 1)) (raw ! 3)),
            dht_humidity = word16 (raw ! 0) (raw ! 1)\<rparr>
        | DHT11 \<Rightarrow> \<lparr>dht_temperature = 10 * int (unat (raw ! 2)), dht_humidity = 10 * int (unat (raw ! 0))\<rparr>)
     else data)"

definition default_data :: DataDHT where
  "default_data = \<lparr>dht_temperature = 220, dht_humidity = 660\<rparr>"

text \<open>
  The readings after the line is released; the results are the data and the sensor. Interrupts are disabled in between and enabled before
  every return: \<open>True\<close> in the result.
\<close>

definition exchange :: "(nat \<Rightarrow> bool) \<Rightarrow> DHT_sensor \<Rightarrow> DataDHT \<times> DHT_sensor \<times> bool" where
  "exchange line s =
    (let irq = False;
         (ok, i) = wait_line line True 0 0
      in if \<not> ok then (let irq = True in (default_data, s\<lparr>lastHum := 660, lastTemp := 220\<rparr>, irq))
         else
    (let (ok, i) = wait_line line False 0 i
      in if \<not> ok then (let irq = True in (default_data, s\<lparr>lastHum := 660, lastTemp := 220\<rparr>, irq))
         else
    (let (ok, i) = wait_line line True 0 i
      in if \<not> ok then (let irq = True in (default_data, s, irq))
         else
    (let (raw, i) = raw_loop line 5 i;
         irq = True;
         data = decode (dht_type s) raw default_data
      in (data, s\<lparr>lastHum := dht_humidity data, lastTemp := dht_temperature data\<rparr>, irq)))))"

text \<open>\<open>now\<close> and \<open>now'\<close> are the two readings of the counter before the delay.\<close>

definition DHT_getData ::
    "(nat \<Rightarrow> bool) \<Rightarrow> (nat \<Rightarrow> u32) \<Rightarrow> u32 \<Rightarrow> u32 \<Rightarrow> DHT_sensor \<Rightarrow> bool \<times> mem \<Rightarrow> (DataDHT \<times> DHT_sensor \<times> bool \<times> mem) option" where
  "DHT_getData line clock now now' s irq_m =
    (let (irq, m) = irq_m;
         pollingInterval = (if dht_type s = DHT11 then DHT_POLLING_INTERVAL_DHT11 else DHT_POLLING_INTERVAL_DHT22)
      in if now - lastPollingTime s < pollingInterval \<and> lastPollingTime s \<noteq> 0 then
           Some (\<lparr>dht_temperature = lastTemp s, dht_humidity = lastHum s\<rparr>, s, irq, m)
         else
           (let s = s\<lparr>lastPollingTime := now' + 1\<rparr>;
                m = goToOutput s m;
                m = lineDown s m
             in case DelayMS clock 18 m of
                  None \<Rightarrow> None
                | Some (_, m) \<Rightarrow>
                    (let m = lineUp s m;
                         m = goToInput s m;
                         (data, s, irq) = exchange line s
                      in Some (data, s, irq, m))))"

definition GetMeasuremets ::
    "u8 list \<Rightarrow> (nat \<Rightarrow> bool) \<Rightarrow> (nat \<Rightarrow> u32) \<Rightarrow> u32 \<Rightarrow> u32 \<Rightarrow> DHT_sensor \<Rightarrow> bool \<times> mem \<Rightarrow> (DataDHT \<times> DHT_sensor \<times> bool \<times> mem) option" where
  "GetMeasuremets uid line clock now now' sensor irq_m =
    (if GetUID uid = ''F95562E2'' then Some (default_data, sensor, irq_m) else DHT_getData line clock now now' sensor irq_m)"

text \<open>The static variable of \<^verbatim>\<open>GetMeasuremets\<close>.\<close>

definition dht_sensor :: DHT_sensor where
  "dht_sensor = \<lparr>DHT_Port = GPIOB, DHT_Pin = GPIO_PIN 6, dht_type = DHT22, lastPollingTime = 0, lastTemp = 0, lastHum = 0\<rparr>"

declare wait_line.simps [simp del]
declare count_line.simps [simp del]

section \<open>Reading the line\<close>

lemma wait_line_ends:
  assumes "\<forall>j < n. line (i + j) = lvl" "line (i + n) \<noteq> lvl" "timeout + n \<le> DHT_TIMEOUT"
  shows "wait_line line lvl timeout i = (True, i + n + 1)"
  using assms
proof (induction n arbitrary: i timeout)
  case 0
  then show ?case by (subst wait_line.simps) simp
next
  case (Suc n)
  have "line i = lvl" using Suc.prems(1) by auto
  moreover have "wait_line line lvl (timeout + 1) (i + 1) = (True, i + 1 + n + 1)"
    using Suc.prems by (intro Suc.IH) auto
  ultimately show ?case using Suc.prems(3) by (subst wait_line.simps) simp
qed

lemma count_line_run:
  assumes "\<forall>j < n. line (i + j) = lvl" "line (i + n) \<noteq> lvl" "unat t + n < 65535"
  shows "count_line line lvl t i = (t + of_nat n, i + n + 1)"
  using assms
proof (induction n arbitrary: i t)
  case 0
  then show ?case by (subst count_line.simps) simp
next
  case (Suc n)
  have t: "t \<noteq> 65535" "line i = lvl" using Suc.prems by auto
  have "unat (t + 1) = unat t + 1" using Suc.prems(3) by (subst unat_add_lem[THEN iffD1]) simp_all
  then have "count_line line lvl (t + 1) (i + 1) = (t + 1 + of_nat n, i + 1 + n + 1)"
    using Suc.prems by (intro Suc.IH) auto
  then show ?case using t by (subst count_line.simps) (simp add: add.assoc)
qed

text \<open>
  From reading \<open>i\<close> on the line shows the pulses \<open>ps\<close>: after each rising or falling edge, which ends the count before it, a low level of \<open>l\<close> and
  a high level of \<open>h\<close> further readings.
\<close>

fun pulses :: "(nat \<Rightarrow> bool) \<Rightarrow> nat \<Rightarrow> (nat \<times> nat) list \<Rightarrow> bool" where
  "pulses line i [] \<longleftrightarrow> True"
| "pulses line i ((l, h) # ps) \<longleftrightarrow> (\<forall>j < l. \<not> line (i + j)) \<and> line (i + l) \<and> (\<forall>j < h. line (i + l + 1 + j)) \<and> \<not> line (i + l + 1 + h) \<and>
     l < 65535 \<and> h < 65535 \<and> pulses line (i + l + 1 + h + 1) ps"

definition pulses_end :: "nat \<Rightarrow> (nat \<times> nat) list \<Rightarrow> nat" where
  "pulses_end i ps = i + sum_list (map (\<lambda>(l, h). l + 1 + h + 1) ps)"

lemma pulses_end_simps [simp]: "pulses_end i [] = i" "pulses_end i ((l, h) # ps) = pulses_end (i + l + 1 + h + 1) ps"
  by (simp_all add: pulses_end_def)

lemma pulses_append: "pulses line i (ps @ qs) \<longleftrightarrow> pulses line i ps \<and> pulses line (pulses_end i ps) qs"
  by (induction ps arbitrary: i) auto

lemma unat_of_nat_u16: "n < 65536 \<Longrightarrow> unat (of_nat n :: u16) = n"
  by (simp add: unat_of_nat take_bit_nat_eq_self)

lemma byte_loop_bits:
  assumes "pulses line i ps" "list_all2 (\<lambda>b p. (fst p < snd p) = bit v b) bs ps"
  shows "\<exists>raw'. byte_loop line bs raw i = (raw', pulses_end i ps) \<and> (\<forall>k < 8. bit raw' k \<longleftrightarrow> bit raw k \<or> k \<in> set bs \<and> bit v k)"
  using assms
proof (induction bs arbitrary: raw i ps)
  case Nil
  then show ?case by simp
next
  case (Cons b bs)
  obtain l h qs where ps: "ps = (l, h) # qs" "(l < h) = bit v b" "list_all2 (\<lambda>b p. (fst p < snd p) = bit v b) bs qs"
    using Cons.prems(2) by (auto simp: list_all2_Cons1)
  have low: "count_line line False 0 i = (of_nat l, i + l + 1)" using Cons.prems(1) ps(1) count_line_run[of l line i False 0] by simp
  have high: "count_line line True 0 (i + l + 1) = (of_nat h, i + l + 1 + h + 1)"
    using Cons.prems(1) ps(1) count_line_run[of h line "i + l + 1" True 0] by simp
  have cmp: "(of_nat l :: u16) < of_nat h \<longleftrightarrow> bit v b"
    using Cons.prems(1) ps(1,2) by (simp add: word_less_nat_alt unat_of_nat_u16)
  have "pulses line (i + l + 1 + h + 1) qs" using Cons.prems(1) ps(1) by simp
  from Cons.IH[OF this ps(3), of "if bit v b then raw OR push_bit b 1 else raw"]
  obtain raw' where "byte_loop line bs (if bit v b then raw OR push_bit b 1 else raw) (i + l + 1 + h + 1) = (raw', pulses_end i ps)"
      "\<forall>k < 8. bit raw' k \<longleftrightarrow> bit (if bit v b then raw OR push_bit b 1 else raw) k \<or> k \<in> set bs \<and> bit v k"
    using ps(1) by auto
  then show ?case using low high cmp by (intro exI[of _ raw']) (auto simp: bit_simps)
qed

definition byte_bits :: "u8 \<Rightarrow> bool list" where
  "byte_bits v = map (bit v) (rev [0..<8])"

definition pulse_bit :: "nat \<times> nat \<Rightarrow> bool" where
  "pulse_bit p \<longleftrightarrow> fst p < snd p"

lemma byte_received:
  assumes "pulses line i ps" "map pulse_bit ps = byte_bits v"
  shows "byte_loop line (rev [0..<8]) 0 i = (v, pulses_end i ps)"
proof -
  have l: "length ps = 8" using arg_cong[OF assms(2), of length] by (simp add: byte_bits_def)
  have "(fst (ps ! n) < snd (ps ! n)) = bit v (rev [0..<8] ! n)" if "n < 8" for n
    using arg_cong[OF assms(2), of "\<lambda>xs. xs ! n"] that l by (simp add: byte_bits_def pulse_bit_def nth_map del: upt_rec_numeral)
  then have "list_all2 (\<lambda>b p. (fst p < snd p) = bit v b) (rev [0..<8]) ps" using l by (simp add: list_all2_conv_all_nth)
  from byte_loop_bits[OF assms(1) this, of 0] obtain raw' where r: "byte_loop line (rev [0..<8]) 0 i = (raw', pulses_end i ps)"
      "\<forall>k < 8. bit raw' k \<longleftrightarrow> bit v k" by (auto simp del: upt_rec_numeral)
  then have "raw' = v" by (intro bit_word_eqI) simp
  then show ?thesis using r(1) by simp
qed

lemma raw_received:
  assumes "pulses line i (concat pss)" "map (map pulse_bit) pss = map byte_bits vs"
  shows "raw_loop line (length vs) i = (vs, pulses_end i (concat pss))"
  using assms
proof (induction vs arbitrary: i pss)
  case Nil
  then show ?case by simp
next
  case (Cons v vs)
  obtain ps qss where p: "pss = ps # qss" "map pulse_bit ps = byte_bits v" "map (map pulse_bit) qss = map byte_bits vs"
    using Cons.prems(2) by (cases pss) auto
  have "byte_loop line (rev [0..<8]) 0 i = (v, pulses_end i ps)" using Cons.prems(1) p by (intro byte_received) (simp_all add: pulses_append)
  moreover have "raw_loop line (length vs) (pulses_end i ps) = (vs, pulses_end (pulses_end i ps) (concat qss))"
    using Cons.prems(1) p by (intro Cons.IH) (simp_all add: pulses_append)
  moreover have "pulses_end (pulses_end i ps) (concat qss) = pulses_end i (concat pss)" by (simp add: p(1) pulses_end_def)
  ultimately show ?case by (simp del: upt_rec_numeral)
qed

section \<open>A measurement\<close>

text \<open>The sensor answers: the line is high, low and high again for \<open>n1\<close>, \<open>n2\<close> and \<open>n3\<close> readings, then come the pulses.\<close>

definition answers :: "(nat \<Rightarrow> bool) \<Rightarrow> nat \<Rightarrow> nat \<Rightarrow> nat \<Rightarrow> (nat \<times> nat) list \<Rightarrow> bool" where
  "answers line n1 n2 n3 ps \<longleftrightarrow> n1 \<le> DHT_TIMEOUT \<and> n2 \<le> DHT_TIMEOUT \<and> n3 \<le> DHT_TIMEOUT \<and>
     (\<forall>j < n1. line j) \<and> \<not> line n1 \<and> (\<forall>j < n2. \<not> line (n1 + 1 + j)) \<and> line (n1 + 1 + n2) \<and>
     (\<forall>j < n3. line (n1 + 1 + n2 + 1 + j)) \<and> \<not> line (n1 + 1 + n2 + 1 + n3) \<and> pulses line (n1 + 1 + n2 + 1 + n3 + 1) ps"

lemma exchange_received:
  assumes "answers line n1 n2 n3 (concat pss)" "map (map pulse_bit) pss = map byte_bits vs" "length vs = 5"
  shows "exchange line s = (let data = decode (dht_type s) vs default_data
     in (data, s\<lparr>lastHum := dht_humidity data, lastTemp := dht_temperature data\<rparr>, True))"
proof -
  have "wait_line line True 0 0 = (True, n1 + 1)" using assms(1) wait_line_ends[of n1 line 0 True 0] by (simp add: answers_def)
  moreover have "wait_line line False 0 (n1 + 1) = (True, n1 + 1 + n2 + 1)"
    using assms(1) wait_line_ends[of n2 line "n1 + 1" False 0] by (simp add: answers_def)
  moreover have "wait_line line True 0 (n1 + 1 + n2 + 1) = (True, n1 + 1 + n2 + 1 + n3 + 1)"
    using assms(1) wait_line_ends[of n3 line "n1 + 1 + n2 + 1" True 0] by (simp add: answers_def)
  moreover have "raw_loop line 5 (n1 + 1 + n2 + 1 + n3 + 1) = (vs, pulses_end (n1 + 1 + n2 + 1 + n3 + 1) (concat pss))"
    using assms raw_received[of line _ pss vs] by (simp add: answers_def)
  ultimately show ?thesis by (simp add: exchange_def Let_def)
qed

text \<open>The frame in which a DHT22 sends a temperature and a humidity, in tenths: sign and magnitude, and the sum of the bytes.\<close>

definition dht_frame :: "int \<Rightarrow> nat \<Rightarrow> u8 list" where
  "dht_frame t h =
    (let a = of_nat (h div 256); b = of_nat (h mod 256);
         c = of_nat (nat \<bar>t\<bar> div 256 + (if t < 0 then 128 else 0)); d = of_nat (nat \<bar>t\<bar> mod 256)
      in [a, b, c, d, a + b + c + d])"

lemma unat_of_nat_u8: "n < 256 \<Longrightarrow> unat (of_nat n :: u8) = n"
  by (simp add: unat_of_nat take_bit_nat_eq_self)

lemma high_bit:
  assumes "n < 128"
  shows "(of_nat n :: u8) AND push_bit 7 1 = 0" "(of_nat (n + 128) :: u8) AND push_bit 7 1 \<noteq> 0"
    "(of_nat (n + 128) :: u8) AND NOT (push_bit 7 1) = of_nat n"
proof -
  have e: "(push_bit 7 1 :: u8) = 2 ^ 7" by simp
  have lt: "\<not> bit (of_nat n :: u8) k" if "7 \<le> k" for k
  proof -
    have "n < 2 ^ k" using assms that power_increasing[of 7 k "2 :: nat"] by simp
    then have "\<not> bit n k" by (simp add: bit_iff_odd)
    then show ?thesis by (simp add: bit_of_nat_iff)
  qed
  have sum: "(of_nat (n + 128) :: u8) = of_nat n OR push_bit 7 1"
  proof -
    have "(of_nat (n + 128) :: u8) = of_nat n + push_bit 7 1" by simp
    also have "\<dots> = of_nat n OR push_bit 7 1"
      unfolding e by (rule disjunctive_add) (use lt in \<open>auto simp only: bit_exp_iff\<close>)
    finally show ?thesis .
  qed
  show "(of_nat n :: u8) AND push_bit 7 1 = 0" unfolding e and_exp_eq_0_iff_not_bit using lt by simp
  show "(of_nat (n + 128) :: u8) AND push_bit 7 1 \<noteq> 0" unfolding e and_exp_eq_0_iff_not_bit sum by (simp add: bit_simps)
  show "(of_nat (n + 128) :: u8) AND NOT (push_bit 7 1) = of_nat n"
    unfolding sum e by (rule bit_word_eqI) (use lt in \<open>auto simp only: bit_and_iff bit_or_iff bit_not_iff bit_exp_iff possible_bit_word\<close>)
qed

lemma word16_split:
  assumes "k < 65536"
  shows "word16 (of_nat (k div 256)) (of_nat (k mod 256)) = int k"
proof -
  have "k div 256 < 256" using assms by (simp add: div_less_iff_less_mult)
  then have "word16 (of_nat (k div 256)) (of_nat (k mod 256)) = int (k div 256) * int 256 + int (k mod 256)"
    unfolding word16_def by (simp only: unat_of_nat_u8 mod_less_divisor of_nat_numeral zero_less_numeral)
  also have "\<dots> = int k" unfolding of_nat_mult[symmetric] of_nat_add[symmetric] by (simp only: div_mult_mod_eq)
  finally show ?thesis .
qed

lemma decode_frame:
  assumes "\<bar>t\<bar> < 32768" "h < 65536"
  shows "decode DHT22 (dht_frame t h) data = \<lparr>dht_temperature = t, dht_humidity = int h\<rparr>"
proof -
  define n where "n = nat \<bar>t\<bar>"
  have n: "n < 32768" "int n = \<bar>t\<bar>" using assms(1) by (simp_all add: n_def nat_less_iff)
  have d: "n div 256 < 128" using n(1) by (simp add: div_less_iff_less_mult)
  have w: "word16 (of_nat (h div 256)) (of_nat (h mod 256)) = int h" "word16 (of_nat (n div 256)) (of_nat (n mod 256)) = int n"
    using assms(2) n(1) by (simp_all only: word16_split)
  show ?thesis
  proof (cases "t < 0")
    case True
    then have f: "dht_frame t h = (let a = of_nat (h div 256); b = of_nat (h mod 256); c = of_nat (n div 256 + 128); d = of_nat (n mod 256)
        in [a, b, c, d, a + b + c + d])" by (simp add: dht_frame_def n_def)
    show ?thesis unfolding f decode_def Let_def using w n(2) high_bit[OF d] True by simp
  next
    case False
    then have f: "dht_frame t h = (let a = of_nat (h div 256); b = of_nat (h mod 256); c = of_nat (n div 256); d = of_nat (n mod 256)
        in [a, b, c, d, a + b + c + d])" by (simp add: dht_frame_def n_def)
    show ?thesis unfolding f decode_def Let_def using w n(2) high_bit[OF d] False by simp
  qed
qed

lemma getData_result:
  assumes "answers line n1 n2 n3 (concat pss)" "map (map pulse_bit) pss = map byte_bits vs" "length vs = 5"
    "dht_type s = DHT22" "lastPollingTime s = 0 \<or> 1000 \<le> now - lastPollingTime s" "0 < n" "clock 0 + 18 \<le> clock n"
  shows "(\<forall>t h. \<bar>t\<bar> < 32768 \<and> h < 65536 \<and> vs = dht_frame t h \<longrightarrow>
       (\<exists>m'. DHT_getData line clock now now' s (irq, m) = Some (\<lparr>dht_temperature = t, dht_humidity = int h\<rparr>,
          s\<lparr>lastPollingTime := now' + 1, lastTemp := t, lastHum := int h\<rparr>, True, m'))) \<and>
     (vs ! 0 + vs ! 1 + vs ! 2 + vs ! 3 \<noteq> vs ! 4 \<longrightarrow>
       (\<exists>m'. DHT_getData line clock now now' s (irq, m) = Some (default_data,
          s\<lparr>lastPollingTime := now' + 1, lastTemp := 220, lastHum := 660\<rparr>, True, m')))"
proof -
  let ?s = "s\<lparr>lastPollingTime := now' + 1\<rparr>"
  have "\<exists>r. DelayMS clock 18 m0 = Some r" for m0 using DelayMS_waits[of clock 18 m0 _ _ n] assms(6,7) by blast
  then obtain j m1 where d: "DelayMS clock 18 (lineDown ?s (goToOutput ?s m)) = Some (j, m1)" by fastforce
  have poll: "\<not> (now - lastPollingTime s < 1000 \<and> lastPollingTime s \<noteq> 0)" using assms(5) by auto
  have e: "DHT_getData line clock now now' s (irq, m) =
     (case exchange line ?s of (data, s, irq) \<Rightarrow> Some (data, s, irq, goToInput ?s (lineUp ?s m1)))"
    unfolding DHT_getData_def using poll assms(4) d by (auto simp: Let_def split: prod.split)
  have x: "exchange line ?s = (let data = decode DHT22 vs default_data
     in (data, ?s\<lparr>lastHum := dht_humidity data, lastTemp := dht_temperature data\<rparr>, True))"
    using exchange_received[OF assms(1-3), of ?s] assms(4) by simp
  show ?thesis unfolding e x Let_def prod.case
    by (auto simp: decode_frame decode_def[of DHT22 vs] default_data_def)
qed

section \<open>Properties\<close>

text \<open>
  C27: a measurement. If the sensor answers in time and sends the frame of a temperature and a humidity, a one as a pulse that is high for longer than it
  was low before and a zero as one that is not, \<^verbatim>\<open>DHT_getData\<close> returns exactly these two values and keeps them; if the sum at the end of the frame is wrong, it
  returns the default of 22 degrees and 66 percent. In both cases interrupts are enabled afterwards.
\<close>

theorem dht_measures:
  assumes "answers line n1 n2 n3 (concat pss)" "map (map pulse_bit) pss = map byte_bits vs" "length vs = 5"
    "dht_type s = DHT22" "lastPollingTime s = 0 \<or> 1000 \<le> now - lastPollingTime s" "0 < n" "clock 0 + 18 \<le> clock n"
  shows "(\<forall>t h. \<bar>t\<bar> < 32768 \<and> h < 65536 \<and> vs = dht_frame t h \<longrightarrow>
       (\<exists>m'. DHT_getData line clock now now' s (irq, m) = Some (\<lparr>dht_temperature = t, dht_humidity = int h\<rparr>,
          s\<lparr>lastPollingTime := now' + 1, lastTemp := t, lastHum := int h\<rparr>, True, m'))) \<and>
     (vs ! 0 + vs ! 1 + vs ! 2 + vs ! 3 \<noteq> vs ! 4 \<longrightarrow>
       (\<exists>m'. DHT_getData line clock now now' s (irq, m) = Some (default_data,
          s\<lparr>lastPollingTime := now' + 1, lastTemp := 220, lastHum := 660\<rparr>, True, m')))"
  by (rule getData_result[OF assms])

text \<open>A line that changes its level at every reading: forty zeros.\<close>

lemma odd_pulses: "odd i \<Longrightarrow> pulses odd i (replicate n (0, 0))"
  by (induction n arbitrary: i) simp_all

lemma zeros_sent:
  defines "pss \<equiv> replicate 5 (replicate 8 (0 :: nat, 0 :: nat))"
  shows "answers odd 0 0 0 (concat pss)" "map (map pulse_bit) pss = map byte_bits (dht_frame 0 0)"
proof -
  have c: "concat pss = replicate 40 (0, 0)" by (simp add: pss_def numeral_eq_Suc)
  show "answers odd 0 0 0 (concat pss)" unfolding c by (simp add: answers_def odd_pulses)
  have "replicate 5 (0 :: u8) = [0, 0, 0, 0, 0]" by (simp add: numeral_eq_Suc)
  then have f: "dht_frame 0 0 = replicate 5 0" by (simp add: dht_frame_def)
  have "map pulse_bit (replicate 8 (0, 0)) = byte_bits 0"
    by (intro nth_equalityI) (simp_all add: byte_bits_def pulse_bit_def)
  then show "map (map pulse_bit) pss = map byte_bits (dht_frame 0 0)" unfolding f pss_def by (simp only: map_replicate)
qed

lemma new_sensor: "dht_type dht_sensor = DHT22" "lastPollingTime dht_sensor = 0 \<or> 1000 \<le> now - lastPollingTime dht_sensor"
  by (simp_all add: dht_sensor_def)

lemma zeros_measured: "\<exists>r. DHT_getData odd of_nat 5 6 dht_sensor (irq, m) = Some r"
proof -
  have l: "length (dht_frame 0 0) = 5" by (simp add: dht_frame_def Let_def)
  have z: "(of_nat 0 :: u32) + 18 \<le> of_nat 18" "0 < (18 :: nat)" by simp_all
  have "\<bar>0 :: int\<bar> < 32768 \<and> (0 :: nat) < 65536 \<and> dht_frame 0 0 = dht_frame 0 0" by simp
  from getData_result[OF zeros_sent l new_sensor z(2) z(1), THEN conjunct1, THEN spec, of 0, THEN spec, of 0, THEN mp, OF this]
  show ?thesis by blast
qed

theorem dht_measures_witness:
  "\<exists>m'. DHT_getData odd of_nat 5 6 dht_sensor (True, \<lambda>_. 0) =
     Some (\<lparr>dht_temperature = 0, dht_humidity = 0\<rparr>, dht_sensor\<lparr>lastPollingTime := 7, lastTemp := 0, lastHum := 0\<rparr>, True, m')"
proof -
  have l: "length (dht_frame 0 0) = 5" by (simp add: dht_frame_def Let_def)
  have z: "(of_nat 0 :: u32) + 18 \<le> of_nat 18" "0 < (18 :: nat)" by simp_all
  note d = dht_measures[OF zeros_sent l new_sensor z(2) z(1), THEN conjunct1, THEN spec, of 0, THEN spec, of 0, of 5 6 True "\<lambda>_. 0"]
  have "\<bar>0 :: int\<bar> < 32768 \<and> (0 :: nat) < 65536 \<and> dht_frame 0 0 = dht_frame 0 0" by simp
  from d[THEN mp, OF this] show ?thesis by simp
qed

end
