(* ===== verification/DateTime.thy ===== *)
theory DateTime
  imports Utils HalTime "HOL-Library.Product_Lexorder"
begin

text \<open>
  Date and time: \<^verbatim>\<open>sources/common/Hardware/HAL/HAL_RTC.cpp\<close> and \<^verbatim>\<open>PackedTime\<close> of \<^verbatim>\<open>HAL.h\<close>. The bit-fields of \<^verbatim>\<open>PackedTime\<close> are
  words of their width. \<^verbatim>\<open>mktime\<close> and \<^verbatim>\<open>localtime\<close> of the C library work in UTC with the seconds since 1970, and \<^verbatim>\<open>time_t\<close> is an unsigned 32-bit
  number. The floating-point numbers of the calibration are of any type; the two expressions over them are arguments.
\<close>

section \<open>The calendar of the C library\<close>

record tm =
  tm_sec :: int
  tm_min :: int
  tm_hour :: int
  tm_mday :: int
  tm_mon :: int
  tm_year :: int

definition leap :: "int \<Rightarrow> bool" where
  "leap y \<longleftrightarrow> y mod 4 = 0 \<and> y mod 100 \<noteq> 0 \<or> y mod 400 = 0"

definition year_days :: "int \<Rightarrow> nat" where
  "year_days y = (if leap y then 366 else 365)"

definition month_days :: "int \<Rightarrow> nat \<Rightarrow> nat" where
  "month_days y m = (if m = 1 then (if leap y then 29 else 28) else if m \<in> {3, 5, 8, 10} then 30 else 31)"

text \<open>Days from the beginning of 1970 to that of a year, and from the beginning of a year to that of a month.\<close>

definition days_before_year :: "int \<Rightarrow> int" where
  "days_before_year y = 365 * (y - 1970) + (y - 1) div 4 - (y - 1) div 100 + (y - 1) div 400 - 477"

definition days_before_month :: "int \<Rightarrow> nat \<Rightarrow> nat" where
  "days_before_month y m = sum_list (map (month_days y) [0..<m])"

definition mktime :: "tm \<Rightarrow> u32" where
  "mktime t =
    (let y = tm_year t + 1900 + tm_mon t div 12;
         m = nat (tm_mon t mod 12);
         days = days_before_year y + int (days_before_month y m) + tm_mday t - 1
      in of_int (((days * 24 + tm_hour t) * 60 + tm_min t) * 60 + tm_sec t))"

function find_year :: "nat \<Rightarrow> int \<Rightarrow> int \<times> nat" where
  "find_year days y = (if days < year_days y then (y, days) else find_year (days - year_days y) (y + 1))"
  by pat_completeness auto
termination by (relation "measure fst") (auto simp: year_days_def split: if_splits)

function find_month :: "int \<Rightarrow> nat \<Rightarrow> nat \<Rightarrow> nat \<times> nat" where
  "find_month y days m = (if 11 \<le> m \<or> days < month_days y m then (m, days) else find_month y (days - month_days y m) (m + 1))"
  by pat_completeness auto
termination by (relation "measure (\<lambda>(y, days, m). 11 - m)") auto

definition localtime :: "u32 \<Rightarrow> tm" where
  "localtime secs =
    (let n = unat secs;
         (y, d) = find_year (n div 86400) 1970;
         (m, d) = find_month y d 0
      in \<lparr>tm_sec = int (n mod 60), tm_min = int (n div 60 mod 60), tm_hour = int (n div 3600 mod 24),
          tm_mday = int d + 1, tm_mon = int m, tm_year = y - 1900\<rparr>)"

section \<open>Packed time\<close>

record PackedTime =
  pt_year :: "6 word"
  pt_month :: "4 word"
  pt_day :: "5 word"
  pt_hours :: "5 word"
  pt_minutes :: "6 word"
  pt_seconds :: "6 word"

definition ToSecs :: "PackedTime \<Rightarrow> u32" where
  "ToSecs p = mktime \<lparr>tm_sec = uint (pt_seconds p), tm_min = uint (pt_minutes p), tm_hour = uint (pt_hours p),
     tm_mday = uint (pt_day p), tm_mon = uint (pt_month p) - 1, tm_year = uint (pt_year p) + 2000 - 1900\<rparr>"

definition FromTime :: "tm \<Rightarrow> PackedTime" where
  "FromTime t = \<lparr>pt_year = of_int (tm_year t - 100), pt_month = of_int (tm_mon t + 1), pt_day = of_int (tm_mday t),
     pt_hours = of_int (tm_hour t), pt_minutes = of_int (tm_min t), pt_seconds = of_int (tm_sec t)\<rparr>"

definition FromSecs :: "u32 \<Rightarrow> PackedTime" where
  "FromSecs secs = FromTime (localtime secs)"

text \<open>The conversion \<^verbatim>\<open>%0ku\<close> of \<^verbatim>\<open>printf\<close>.\<close>

definition format_0u :: "nat \<Rightarrow> nat \<Rightarrow> string" where
  "format_0u k n = replicate (k - length (decimal n)) (CHR ''0'') @ decimal n"

definition PackedTime_ToString :: "PackedTime \<Rightarrow> string" where
  "PackedTime_ToString p =
    format_0u 4 (unat (pt_year p) + 2000) @ ''-'' @ format_0u 2 (unat (pt_month p)) @ ''-'' @ format_0u 2 (unat (pt_day p)) @ ''T'' @
    format_0u 2 (unat (pt_hours p)) @ '':'' @ format_0u 2 (unat (pt_minutes p)) @ '':'' @ format_0u 2 (unat (pt_seconds p)) @ ''.000Z''"

section \<open>The clock\<close>

record StructTime =
  st_counter :: u32
  st_unix :: u32

record 'f rtc =
  time_counter_set :: u32
  time_unix_set :: u32
  time_first :: StructTime
  time_last :: StructTime
  koeff :: 'f
  is_set :: bool

text \<open>\<open>quot\<close> is the quotient of the two differences, the first divided by 1000.\<close>

definition Calibrator_Append :: "(u32 \<Rightarrow> u32 \<Rightarrow> 'f) \<Rightarrow> u32 \<Rightarrow> u32 \<Rightarrow> 'f rtc \<Rightarrow> 'f rtc" where
  "Calibrator_Append quot now time_unix r =
    (if st_counter (time_first r) = 0 then
       r\<lparr>time_first := \<lparr>st_counter = now, st_unix = time_unix\<rparr>, time_counter_set := now, time_unix_set := time_unix\<rparr>
     else
       r\<lparr>time_last := \<lparr>st_counter = now, st_unix = time_unix\<rparr>,
         koeff := quot (now - st_counter (time_first r)) (time_unix - st_unix (time_first r))\<rparr>)"

definition parse_time :: "string \<Rightarrow> tm" where
  "parse_time string =
    \<lparr>tm_sec = atoi (su_GetWord string 17 19), tm_min = atoi (su_GetWord string 14 16), tm_hour = atoi (su_GetWord string 11 13),
     tm_mday = atoi (su_GetWord string 8 10), tm_mon = atoi (su_GetWord string 5 7) - 1, tm_year = atoi (su_GetWord string 0 4) - 1900\<rparr>"

definition SetDateTime :: "(u32 \<Rightarrow> u32 \<Rightarrow> 'f) \<Rightarrow> u32 \<Rightarrow> string \<Rightarrow> 'f rtc \<Rightarrow> 'f rtc" where
  "SetDateTime quot now string r =
    (let time_now = parse_time string; r = r\<lparr>is_set := True\<rparr>
      in Calibrator_Append quot now (mktime time_now) r)"

text \<open>
  \<open>result\<close> says whether the caller passed a pointer for the result; \<open>nul\<close> whether a store at address 0 is without effect. \<open>secs\<close> is
  the difference divided by 1000 and by the coefficient, cut to an integer.
\<close>

definition GetPackedTime :: "(u32 \<Rightarrow> 'f \<Rightarrow> u32) \<Rightarrow> bool \<Rightarrow> bool \<Rightarrow> u32 \<Rightarrow> 'f rtc \<Rightarrow> (bool \<times> PackedTime) option" where
  "GetPackedTime secs nul result now r =
    (if result \<or> nul then
       (let time_unix_now = time_unix_set r + secs (now - time_counter_set r) (koeff r)
         in Some (is_set r, FromTime (localtime time_unix_now)))
     else None)"

definition TimeIsExist :: "'f rtc \<Rightarrow> bool" where
  "TimeIsExist r = is_set r"

declare find_year.simps [simp del]
declare find_month.simps [simp del]

section \<open>Years and months\<close>

lemma days_next_year: "days_before_year (y + 1) = days_before_year y + int (year_days y)"
proof -
  have d: "y div k = (y - 1) div k + (if y mod k = 0 then 1 else 0)" if "0 < k" for k :: int
  proof -
    have "y = (y div k) * k + y mod k" by simp
    then have "y - 1 = (y div k) * k + (y mod k - 1)" by simp
    then have "(y - 1) div k = y div k + (y mod k - 1) div k" using that by (metis add.commute div_mult_self1 order_less_irrefl)
    moreover have "(y mod k - 1) div k = (if y mod k = 0 then -1 else 0)"
    proof (cases "y mod k = 0")
      case True
      then show ?thesis using that by (simp add: div_eq_minus1)
    next
      case False
      then have "0 \<le> y mod k - 1" "y mod k - 1 < k" using pos_mod_bound[OF that, of y] pos_mod_sign[OF that, of y] by linarith+
      then show ?thesis using False by (simp add: div_pos_pos_trivial)
    qed
    ultimately show ?thesis by simp
  qed
  define A B C where "A = (y - 1) div 4" and "B = (y - 1) div 100" and "C = (y - 1) div 400"
  define a b c where "a \<longleftrightarrow> y mod 4 = 0" and "b \<longleftrightarrow> y mod 100 = 0" and "c \<longleftrightarrow> y mod 400 = 0"
  have "y div 4 = A + (if a then 1 else 0)" "y div 100 = B + (if b then 1 else 0)" "y div 400 = C + (if c then 1 else 0)"
    using d[of 4] d[of 100] d[of 400] by (simp_all only: A_def B_def C_def a_def b_def c_def zero_less_numeral)
  then have "days_before_year (y + 1) = 365 * (y + 1 - 1970) + (A + (if a then 1 else 0)) - (B + (if b then 1 else 0)) + (C + (if c then 1 else 0)) - 477"
    unfolding days_before_year_def by (simp only: add_diff_cancel_right')
  moreover have "days_before_year y = 365 * (y - 1970) + A - B + C - 477" by (simp only: days_before_year_def A_def B_def C_def)
  moreover have "b \<longrightarrow> a" using mod_mod_cancel[of 4 100 y] by (auto simp: a_def b_def)
  moreover have "c \<longrightarrow> b" using mod_mod_cancel[of 100 400 y] by (auto simp: b_def c_def)
  moreover have "int (year_days y) = (if a \<and> \<not> b \<or> c then 366 else 365)" by (simp add: year_days_def leap_def a_def b_def c_def)
  ultimately show ?thesis by (cases a; cases b; cases c) simp_all
qed

lemma days_1970: "days_before_year 1970 = 0"
  by (simp add: days_before_year_def)

lemma days_next_month: "days_before_month y (Suc m) = days_before_month y m + month_days y m"
  by (simp add: days_before_month_def)

lemma days_all_months: "days_before_month y 12 = year_days y"
  by (simp add: days_before_month_def year_days_def month_days_def upt_rec)

lemma days_before_month_mono: "m \<le> m' \<Longrightarrow> days_before_month y m \<le> days_before_month y m'"
  by (induction m' rule: dec_induct) (simp_all add: days_next_month)

lemma days_before_year_mono: "y \<le> y' \<Longrightarrow> days_before_year y \<le> days_before_year y'"
  by (induction y' rule: int_ge_induct) (simp_all add: days_next_year)

text \<open>A day of the year \<open>y\<close>, \<open>d\<close> days after its beginning.\<close>

lemma find_year_found:
  assumes "d < year_days y" "y0 \<le> y" "int n = days_before_year y + int d - days_before_year y0"
  shows "find_year n y0 = (y, d)"
  using assms
proof (induction "nat (y - y0)" arbitrary: n y0)
  case 0
  then show ?case by (subst find_year.simps) simp
next
  case (Suc k)
  then have "days_before_year (y0 + 1) \<le> days_before_year y" by (intro days_before_year_mono) simp
  then have "year_days y0 \<le> n" using Suc.prems(3) by (simp add: days_next_year)
  moreover have "find_year (n - year_days y0) (y0 + 1) = (y, d)"
    using Suc calculation by (intro Suc.hyps(1)) (simp_all add: days_next_year of_nat_diff)
  ultimately show ?case by (subst find_year.simps) simp
qed

lemma find_month_found:
  assumes "d < month_days y m" "m \<le> 11" "m0 \<le> m" "n + days_before_month y m0 = days_before_month y m + d"
  shows "find_month y n m0 = (m, d)"
  using assms
proof (induction "m - m0" arbitrary: n m0)
  case 0
  then show ?case by (subst find_month.simps) simp
next
  case (Suc k)
  then have "days_before_month y (Suc m0) \<le> days_before_month y m" by (intro days_before_month_mono) simp
  then have "month_days y m0 \<le> n" using Suc.prems(4) by (simp add: days_next_month)
  moreover have "find_month y (n - month_days y m0) (m0 + 1) = (m, d)"
    using Suc calculation by (intro Suc.hyps(1)) (simp_all add: days_next_month)
  moreover have "\<not> 11 \<le> m0" using Suc.hyps(2) Suc.prems(2) by arith
  ultimately show ?case by (subst find_month.simps) simp
qed

section \<open>Dates\<close>

text \<open>A date in the calendar, from 2000 to 2063, and its number of days and of seconds.\<close>

definition date_ok :: "PackedTime \<Rightarrow> bool" where
  "date_ok p \<longleftrightarrow> 1 \<le> unat (pt_month p) \<and> unat (pt_month p) \<le> 12 \<and> 1 \<le> unat (pt_day p) \<and>
     unat (pt_day p) \<le> month_days (2000 + int (unat (pt_year p))) (unat (pt_month p) - 1) \<and>
     unat (pt_hours p) < 24 \<and> unat (pt_minutes p) < 60 \<and> unat (pt_seconds p) < 60"

definition date_year :: "PackedTime \<Rightarrow> int" where
  "date_year p = 2000 + int (unat (pt_year p))"

definition date_yday :: "PackedTime \<Rightarrow> nat" where
  "date_yday p = days_before_month (date_year p) (unat (pt_month p) - 1) + (unat (pt_day p) - 1)"

definition date_days :: "PackedTime \<Rightarrow> nat" where
  "date_days p = nat (days_before_year (date_year p)) + date_yday p"

definition date_secs :: "PackedTime \<Rightarrow> nat" where
  "date_secs p = ((date_days p * 24 + unat (pt_hours p)) * 60 + unat (pt_minutes p)) * 60 + unat (pt_seconds p)"

lemma date_year_range: "2000 \<le> date_year p \<and> date_year p \<le> 2063"
proof -
  have "unat (pt_year p) < 64" using unsigned_less[of "pt_year p"] by simp
  then have "int (unat (pt_year p)) < int 64" by (simp only: of_nat_less_iff)
  then show ?thesis unfolding date_year_def by linarith
qed

lemma days_of_year: "10957 \<le> days_before_year (date_year p) \<and> days_before_year (date_year p) \<le> 33968"
proof -
  have "days_before_year 2000 = 10957" "days_before_year 2063 = 33968" by (simp_all add: days_before_year_def)
  then show ?thesis using days_before_year_mono[of 2000 "date_year p"] days_before_year_mono[of "date_year p" 2063] date_year_range[of p] by simp
qed

lemma yday_in_year: "date_ok p \<Longrightarrow> date_yday p < year_days (date_year p)"
proof -
  assume p: "date_ok p"
  let ?m = "unat (pt_month p) - 1"
  have "1 \<le> unat (pt_day p)" "unat (pt_day p) \<le> month_days (date_year p) ?m" using p unfolding date_ok_def date_year_def by blast+
  then have "date_yday p < days_before_month (date_year p) (Suc ?m)" unfolding date_yday_def days_next_month by linarith
  also have "\<dots> \<le> days_before_month (date_year p) 12" using p by (intro days_before_month_mono) (simp add: date_ok_def)
  finally show ?thesis by (simp add: days_all_months)
qed

lemma date_days_less: "date_ok p \<Longrightarrow> date_days p < 34334"
  using yday_in_year[of p] days_of_year[of p] by (auto simp: date_days_def year_days_def split: if_splits)

lemma date_secs_less: "date_ok p \<Longrightarrow> date_secs p < 2 ^ 32"
  using date_days_less[of p] by (simp add: date_secs_def date_ok_def)

lemma unat_ToSecs:
  assumes "date_ok p"
  shows "unat (ToSecs p) = date_secs p"
proof -
  have m: "(uint (pt_month p) - 1) div 12 = 0" "nat ((uint (pt_month p) - 1) mod 12) = unat (pt_month p) - 1"
    using assms by (simp_all add: date_ok_def uint_nat del: of_nat_unat)
  have y: "uint (pt_year p) + 2000 - 1900 + 1900 = date_year p" by (simp add: date_year_def uint_nat del: of_nat_unat)
  have "days_before_year (date_year p) + int (days_before_month (date_year p) (unat (pt_month p) - 1)) + uint (pt_day p) - 1 = int (date_days p)"
    using assms days_of_year[of p] by (simp add: date_days_def date_yday_def date_ok_def uint_nat of_nat_diff del: of_nat_unat)
  then have "ToSecs p = of_int (int (date_secs p))"
    unfolding ToSecs_def mktime_def tm.simps m y Let_def add_0_right by (simp add: date_secs_def uint_nat del: of_nat_unat)
  then show ?thesis using date_secs_less[OF assms] by (simp add: unat_of_nat_u32)
qed

lemma place_mod: "b < n \<Longrightarrow> (a * n + b) mod n = b" for a b n :: nat
  by simp

lemma localtime_date:
  assumes "date_ok p"
  shows "localtime (ToSecs p) = \<lparr>tm_sec = int (unat (pt_seconds p)), tm_min = int (unat (pt_minutes p)), tm_hour = int (unat (pt_hours p)),
     tm_mday = int (unat (pt_day p)), tm_mon = int (unat (pt_month p)) - 1, tm_year = date_year p - 1900\<rparr>"
proof -
  have r: "unat (pt_hours p) < 24" "unat (pt_minutes p) < 60" "unat (pt_seconds p) < 60" "1 \<le> unat (pt_month p)" "unat (pt_month p) \<le> 12"
    "1 \<le> unat (pt_day p)" "unat (pt_day p) - 1 < month_days (date_year p) (unat (pt_month p) - 1)"
    using assms by (auto simp: date_ok_def date_year_def)
  have q1: "date_secs p div 60 = (date_days p * 24 + unat (pt_hours p)) * 60 + unat (pt_minutes p)" using r by (simp add: date_secs_def)
  have q2: "date_secs p div 3600 = date_days p * 24 + unat (pt_hours p)"
  proof -
    have "date_secs p div 3600 = date_secs p div 60 div 60" by (simp add: div_mult2_eq[symmetric])
    then show ?thesis using r by (simp add: q1)
  qed
  have q3: "date_secs p div 86400 = date_days p"
  proof -
    have "date_secs p div 86400 = date_secs p div 3600 div 24" by (simp add: div_mult2_eq[symmetric])
    then show ?thesis using r by (simp add: q2)
  qed
  have y: "find_year (date_days p) 1970 = (date_year p, date_yday p)"
    using yday_in_year[OF assms] days_of_year[of p] date_year_range[of p] by (intro find_year_found) (simp_all add: days_1970 date_days_def)
  have m: "find_month (date_year p) (date_yday p) 0 = (unat (pt_month p) - 1, unat (pt_day p) - 1)"
    using r by (intro find_month_found) (simp_all add: date_yday_def days_before_month_def)
  have "date_secs p mod 60 = unat (pt_seconds p)" "date_secs p div 60 mod 60 = unat (pt_minutes p)" "date_secs p div 3600 mod 24 = unat (pt_hours p)"
    using r unfolding q1 q2 by (simp_all only: date_secs_def place_mod)
  then show ?thesis unfolding localtime_def unat_ToSecs[OF assms] Let_def q3 y m prod.case using r(4,6) by (simp add: of_nat_diff)
qed

lemma FromTime_date:
  "FromTime \<lparr>tm_sec = int (unat (pt_seconds p)), tm_min = int (unat (pt_minutes p)), tm_hour = int (unat (pt_hours p)),
     tm_mday = int (unat (pt_day p)), tm_mon = int (unat (pt_month p)) - 1, tm_year = date_year p - 1900\<rparr> = p" for p :: PackedTime
  by (cases p) (simp add: FromTime_def date_year_def)

lemma FromSecs_ToSecs: "date_ok p \<Longrightarrow> FromSecs (ToSecs p) = p"
  by (simp add: FromSecs_def localtime_date FromTime_date del: of_nat_unat)

text \<open>Numbers written with a smaller last place.\<close>

lemma place_less:
  fixes a a' b b' n :: nat
  assumes "b < n" "b' < n"
  shows "a * n + b < a' * n + b' \<longleftrightarrow> (a, b) < (a', b')"
proof (cases a a' rule: linorder_cases)
  case less
  then have "Suc a * n \<le> a' * n" by (intro mult_le_mono1) simp
  then show ?thesis using assms less by simp
next
  case equal
  then show ?thesis by simp
next
  case greater
  then have "Suc a' * n \<le> a * n" by (intro mult_le_mono1) simp
  then show ?thesis using assms greater by simp
qed

lemma place_less_eq:
  fixes a a' b b' n :: nat
  assumes "b < n" "b' < n"
  shows "a * n + b < a' * n + b' \<longleftrightarrow> a < a' \<or> a = a' \<and> b < b'" "a * n + b = a' * n + b' \<longleftrightarrow> a = a' \<and> b = b'"
  using place_less[OF assms, of a a'] place_less[OF assms(2,1), of a' a] by (auto simp: le_less)

lemma year_earlier:
  assumes "date_ok p" "date_year p < date_year q"
  shows "date_days p < date_days q"
proof -
  have "days_before_year (date_year p) + int (year_days (date_year p)) \<le> days_before_year (date_year q)"
    using days_before_year_mono[of "date_year p + 1" "date_year q"] assms(2) by (simp add: days_next_year)
  then show ?thesis using yday_in_year[OF assms(1)] days_of_year[of p] unfolding date_days_def by arith
qed

lemma month_earlier:
  assumes "date_ok p" "1 \<le> unat (pt_month q)" "date_year p = date_year q" "unat (pt_month p) < unat (pt_month q)"
  shows "date_days p < date_days q"
proof -
  let ?m = "unat (pt_month p) - 1"
  have m: "1 \<le> unat (pt_month p)" and "1 \<le> unat (pt_day p)" "unat (pt_day p) \<le> month_days (date_year p) ?m"
    using assms(1) unfolding date_ok_def date_year_def by blast+
  then have "date_yday p < days_before_month (date_year p) (Suc ?m)" unfolding date_yday_def days_next_month by linarith
  also have "\<dots> \<le> days_before_month (date_year p) (unat (pt_month q) - 1)" using assms(4) m by (intro days_before_month_mono) simp
  finally show ?thesis using assms(3) by (simp add: date_days_def date_yday_def)
qed

lemma day_earlier:
  assumes "date_ok p" "date_year p = date_year q" "unat (pt_month p) = unat (pt_month q)" "unat (pt_day p) < unat (pt_day q)"
  shows "date_days p < date_days q"
proof -
  have "1 \<le> unat (pt_day p)" using assms(1) unfolding date_ok_def by blast
  then show ?thesis using assms(2-4) by (simp add: date_days_def date_yday_def)
qed

text \<open>The fields in the order of their weight.\<close>

definition date_key :: "PackedTime \<Rightarrow> nat \<times> nat \<times> nat \<times> nat \<times> nat \<times> nat" where
  "date_key p = (unat (pt_year p), unat (pt_month p), unat (pt_day p), unat (pt_hours p), unat (pt_minutes p), unat (pt_seconds p))"

definition day_key :: "PackedTime \<Rightarrow> nat \<times> nat \<times> nat" where
  "day_key p = (unat (pt_year p), unat (pt_month p), unat (pt_day p))"

lemma days_less_if:
  assumes "date_ok p" "date_ok q" "day_key p < day_key q"
  shows "date_days p < date_days q"
proof -
  consider "unat (pt_year p) < unat (pt_year q)" | "unat (pt_year p) = unat (pt_year q)" "unat (pt_month p) < unat (pt_month q)"
    | "unat (pt_year p) = unat (pt_year q)" "unat (pt_month p) = unat (pt_month q)" "unat (pt_day p) < unat (pt_day q)"
    using assms(3) by (auto simp: day_key_def le_less)
  then show ?thesis
  proof cases
    case 1
    then have "int (unat (pt_year p)) < int (unat (pt_year q))" by (simp only: of_nat_less_iff)
    then show ?thesis using assms(1) unfolding date_year_def[abs_def] by (intro year_earlier) (simp_all only: date_year_def add_less_cancel_left)
  next
    case 2
    then show ?thesis using assms by (intro month_earlier) (auto simp: date_ok_def date_year_def)
  next
    case 3
    then show ?thesis using assms by (intro day_earlier) (simp_all add: date_year_def)
  qed
qed

lemma days_less_iff:
  assumes "date_ok p" "date_ok q"
  shows "date_days p < date_days q \<longleftrightarrow> day_key p < day_key q" "date_days p = date_days q \<longleftrightarrow> day_key p = day_key q"
proof -
  have same: "date_days p = date_days q" if "day_key p = day_key q"
    using that by (simp add: day_key_def date_days_def date_yday_def date_year_def)
  show "date_days p < date_days q \<longleftrightarrow> day_key p < day_key q"
    using days_less_if[OF assms] days_less_if[OF assms(2,1)] same by (cases "day_key p" "day_key q" rule: linorder_cases) auto
  show "date_days p = date_days q \<longleftrightarrow> day_key p = day_key q"
    using days_less_if[OF assms] days_less_if[OF assms(2,1)] same by (cases "day_key p" "day_key q" rule: linorder_cases) auto
qed

lemma date_secs_less_iff:
  assumes "date_ok p" "date_ok q"
  shows "date_secs p < date_secs q \<longleftrightarrow> date_key p < date_key q"
proof -
  have "unat (pt_hours p) < 24" "unat (pt_minutes p) < 60" "unat (pt_seconds p) < 60"
    "unat (pt_hours q) < 24" "unat (pt_minutes q) < 60" "unat (pt_seconds q) < 60"
    using assms unfolding date_ok_def by blast+
  note r = this
  have "date_secs p < date_secs q \<longleftrightarrow> date_days p < date_days q \<or> date_days p = date_days q \<and>
      (unat (pt_hours p), unat (pt_minutes p), unat (pt_seconds p)) < (unat (pt_hours q), unat (pt_minutes q), unat (pt_seconds q))"
    unfolding date_secs_def using r by (auto simp only: place_less_eq less_prod_simp le_less)
  then show ?thesis unfolding days_less_iff[OF assms] by (auto simp: day_key_def date_key_def le_less)
qed

section \<open>Dates as text\<close>

lemma format_0u_length: "n < 10 ^ k \<Longrightarrow> 0 < k \<Longrightarrow> length (format_0u k n) = k"
  using decimal_length[of n k] by (simp add: format_0u_def)

lemma zeros_value: "digits_value 0 (replicate j (CHR ''0'') @ cs) = digits_value 0 cs"
  by (induction j) (simp_all add: is_digit_def)

lemma format_0u_digits: "c \<in> set (format_0u k n) \<Longrightarrow> is_digit c"
  using decimal_digits[of c n] by (auto simp: format_0u_def is_digit_def)

lemma atoi_format_0u: "atoi (format_0u k n) = int n"
proof -
  obtain c cs where d: "format_0u k n = c # cs" using decimal_not_Nil[of n] by (cases "format_0u k n") (auto simp: format_0u_def)
  then have "is_digit c" using format_0u_digits[of c k n] by simp
  then have "atoi (format_0u k n) = digits_value 0 (format_0u k n)" using digit_not_space[of c] by (simp add: atoi_def d)
  also have "\<dots> = int n" using digits_value_append[of 0 n "[]"] by (simp add: format_0u_def zeros_value)
  finally show ?thesis .
qed

text \<open>A text with the fields of a date at their places, and anything behind them.\<close>

lemma parse_fields:
  assumes "length Y = 4" "length M = 2" "length D = 2" "length H = 2" "length N = 2" "length S = 2"
    "c_string (Y @ ''-'' @ M @ ''-'' @ D @ ''T'' @ H @ '':'' @ N @ '':'' @ S @ rest)"
  shows "parse_time (Y @ ''-'' @ M @ ''-'' @ D @ ''T'' @ H @ '':'' @ N @ '':'' @ S @ rest) =
     \<lparr>tm_sec = atoi S, tm_min = atoi N, tm_hour = atoi H, tm_mday = atoi D, tm_mon = atoi M - 1, tm_year = atoi Y - 1900\<rparr>"
  unfolding parse_time_def su_GetWord_def su_word_loop_eq[OF assms(7)] using assms(1-6) by simp

definition date_text :: "PackedTime \<Rightarrow> string" where
  "date_text p =
    format_0u 4 (unat (pt_year p) + 2000) @ ''-'' @ format_0u 2 (unat (pt_month p)) @ ''-'' @ format_0u 2 (unat (pt_day p)) @ ''T'' @
    format_0u 2 (unat (pt_hours p)) @ '':'' @ format_0u 2 (unat (pt_minutes p)) @ '':'' @ format_0u 2 (unat (pt_seconds p))"

lemma ToString_date_text: "PackedTime_ToString p = date_text p @ ''.000Z''"
  by (simp add: PackedTime_ToString_def date_text_def)

lemma no_zero_0u: "CHR 0x00 \<notin> set (format_0u k n)"
proof
  assume "CHR 0x00 \<in> set (format_0u k n)"
  then have "is_digit (CHR 0x00)" by (rule format_0u_digits)
  then show False by (simp add: is_digit_def)
qed

lemma field_ranges:
  "unat (pt_year p) < 64" "unat (pt_month p) < 16" "unat (pt_day p) < 32" "unat (pt_hours p) < 32" "unat (pt_minutes p) < 64" "unat (pt_seconds p) < 64"
proof -
  show "unat (pt_year p) < 64" using unsigned_less[of "pt_year p"] by simp
  show "unat (pt_month p) < 16" using unsigned_less[of "pt_month p"] by simp
  show "unat (pt_day p) < 32" using unsigned_less[of "pt_day p"] by simp
  show "unat (pt_hours p) < 32" using unsigned_less[of "pt_hours p"] by simp
  show "unat (pt_minutes p) < 64" using unsigned_less[of "pt_minutes p"] by simp
  show "unat (pt_seconds p) < 64" using unsigned_less[of "pt_seconds p"] by simp
qed

lemma field_lengths:
  "length (format_0u 4 (unat (pt_year p) + 2000)) = 4" "length (format_0u 2 (unat (pt_month p))) = 2"
  "length (format_0u 2 (unat (pt_day p))) = 2" "length (format_0u 2 (unat (pt_hours p))) = 2"
  "length (format_0u 2 (unat (pt_minutes p))) = 2" "length (format_0u 2 (unat (pt_seconds p))) = 2"
  using field_ranges[of p] by (simp_all add: format_0u_length)

lemma parse_date_text:
  assumes "date_ok p" "c_string rest"
  shows "mktime (parse_time (date_text p @ rest)) = ToSecs p"
proof -
  have "parse_time (date_text p @ rest) = \<lparr>tm_sec = uint (pt_seconds p), tm_min = uint (pt_minutes p), tm_hour = uint (pt_hours p),
     tm_mday = uint (pt_day p), tm_mon = uint (pt_month p) - 1, tm_year = uint (pt_year p) + 2000 - 1900\<rparr>"
    unfolding date_text_def append_assoc using assms(2)
    by (subst parse_fields) (use field_lengths no_zero_0u in \<open>simp_all add: c_string_def atoi_format_0u\<close>)
  then show ?thesis by (simp only: ToSecs_def)
qed

section \<open>Properties\<close>

text \<open>
  C32: packed dates from 2000 to 2063. The conversion into seconds and back gives the date again, and the numbers of seconds are ordered as the dates
  are, so that the record with the least number is the oldest. The seconds count from 1970, not from 2000.
\<close>

theorem packed_time_seconds:
  assumes "date_ok p" "date_ok q"
  shows "FromSecs (ToSecs p) = p \<and> (ToSecs p < ToSecs q \<longleftrightarrow> date_key p < date_key q) \<and> 946684800 \<le> ToSecs p"
proof (intro conjI)
  show "FromSecs (ToSecs p) = p" using FromSecs_ToSecs[OF assms(1)] .
  show "ToSecs p < ToSecs q \<longleftrightarrow> date_key p < date_key q"
    using date_secs_less_iff[OF assms] by (simp add: word_less_nat_alt unat_ToSecs assms)
  have "10957 \<le> date_days p" using days_of_year[of p] unfolding date_days_def by arith
  then show "946684800 \<le> ToSecs p" by (simp add: word_le_nat_alt unat_ToSecs assms(1) date_secs_def)
qed

definition some_date :: PackedTime where
  "some_date = \<lparr>pt_year = 24, pt_month = 2, pt_day = 29, pt_hours = 23, pt_minutes = 59, pt_seconds = 59\<rparr>"

lemma some_date_ok: "date_ok some_date"
  by (simp add: date_ok_def some_date_def month_days_def leap_def)

theorem packed_time_seconds_witness:
  "FromSecs (ToSecs some_date) = some_date \<and> ToSecs some_date < ToSecs (some_date\<lparr>pt_month := 3, pt_day := 1\<rparr>)"
proof -
  have "date_ok (some_date\<lparr>pt_month := 3, pt_day := 1\<rparr>)" by (simp add: date_ok_def some_date_def month_days_def)
  from packed_time_seconds[OF some_date_ok this] show ?thesis by (simp add: date_key_def some_date_def)
qed

text \<open>
  C33: a date received as text is the date that the clock shows. After the first \<^verbatim>\<open>SetDateTime\<close>, with a text that begins with a date as
  \<^verbatim>\<open>ToString\<close> prints it, \<^verbatim>\<open>GetPackedTime\<close> returns this date at the same reading of the counter, whatever follows in the text. Called without a pointer it stops the
  program where address 0 cannot be written.
\<close>

theorem date_set_and_read:
  assumes "date_ok p" "c_string rest" "st_counter (time_first r) = 0" "secs 0 (koeff r) = 0"
  shows "GetPackedTime secs nul True now (SetDateTime quot now (take 19 (PackedTime_ToString p) @ rest) r) = Some (True, p) \<and>
     GetPackedTime secs False False now r = None"
proof -
  have "length (date_text p) = 19" by (simp add: date_text_def field_lengths)
  then have "take 19 (PackedTime_ToString p) = date_text p" by (simp add: ToString_date_text)
  then have "time_unix_set (SetDateTime quot now (take 19 (PackedTime_ToString p) @ rest) r) = ToSecs p"
    using assms by (simp add: SetDateTime_def Calibrator_Append_def parse_date_text)
  moreover have "FromTime (localtime (ToSecs p)) = p" using FromSecs_ToSecs[OF assms(1)] by (simp add: FromSecs_def)
  ultimately show ?thesis
    using assms(3,4) by (simp add: GetPackedTime_def SetDateTime_def Calibrator_Append_def Let_def)
qed

definition new_rtc :: "unit rtc" where
  "new_rtc = \<lparr>time_counter_set = 0, time_unix_set = 0, time_first = \<lparr>st_counter = 0, st_unix = 0\<rparr>,
     time_last = \<lparr>st_counter = 0, st_unix = 0\<rparr>, koeff = (), is_set = False\<rparr>"

theorem date_set_and_read_witness:
  "GetPackedTime (\<lambda>d _. d div 1000) False True 7000
     (SetDateTime (\<lambda>_ _. ()) 7000 (take 19 (PackedTime_ToString some_date) @ ''.8621486+00:00'') new_rtc) = Some (True, some_date)"
  using date_set_and_read[OF some_date_ok, of "''.8621486+00:00''" new_rtc "\<lambda>d _. d div 1000"]
  by (simp add: c_string_def new_rtc_def)

end
