(* ===== verification/Storage.thy ===== *)
theory Storage
  imports HalInit Dht22 DateTime
begin

unbundle bit_operations_syntax

text \<open>
  The measurements of the device: \<^verbatim>\<open>sources/Device/src/Storage/Storage.cpp\<close> and \<^verbatim>\<open>Storage.h\<close>, on the sensor, the battery and the clock. Rational numbers
  stand for floats. The conversion of a float to \<^verbatim>\<open>uint8\<close> cuts the fraction off and has no defined value if the result does not fit: \<open>None\<close>. The functions of
  \<^verbatim>\<open>Sender.cpp\<close> have empty bodies, and the text of an alert goes nowhere, so that only its being empty matters.
\<close>

section \<open>State\<close>

record ConfigField =
  cf_min :: rat
  cf_max :: rat
  cf_deviation :: rat

record Config =
  report_time :: u32
  check_time :: u32
  config_temperature :: ConfigField
  config_humidiy :: ConfigField

record Measurements =
  meas_time_secs :: u32
  meas_latitude :: rat
  meas_longitude :: rat
  meas_radiosity :: rat
  meas_charge :: u8
  meas_temperature :: u8
  meas_humidity :: u8

record storage =
  sg_config :: Config
  sg_meas :: Measurements
  sg_need_send :: bool
  sg_meter :: time_meter
  meter_alerts :: time_meter

text \<open>\<^verbatim>\<open>(uint8)(x + 0.5f)\<close>, as in \<^verbatim>\<open>SetTemperature\<close>, \<^verbatim>\<open>SetHumidity\<close> and \<^verbatim>\<open>SetCharge\<close>.\<close>

definition to_uint8 :: "rat \<Rightarrow> u8 option" where
  "to_uint8 x = (let v = x + 1 / 2 in if - 1 < v \<and> v < 256 then Some (if v < 0 then 0 else of_int \<lfloor>v\<rfloor>) else None)"

definition SetTemperature :: "rat \<Rightarrow> Measurements \<Rightarrow> Measurements option" where
  "SetTemperature x m = map_option (\<lambda>v. m\<lparr>meas_temperature := v\<rparr>) (to_uint8 x)"

definition SetHumidity :: "rat \<Rightarrow> Measurements \<Rightarrow> Measurements option" where
  "SetHumidity x m = map_option (\<lambda>v. m\<lparr>meas_humidity := v\<rparr>) (to_uint8 x)"

definition SetCharge :: "rat \<Rightarrow> Measurements \<Rightarrow> Measurements option" where
  "SetCharge x m = map_option (\<lambda>v. m\<lparr>meas_charge := v\<rparr>) (to_uint8 x)"

section \<open>Operations\<close>

definition outside :: "u8 \<Rightarrow> ConfigField \<Rightarrow> bool" where
  "outside v f \<longleftrightarrow> of_nat (unat v) < cf_min f \<or> of_nat (unat v) > cf_max f"

text \<open>\<open>now\<close> and \<open>now'\<close> are the readings of the counter in \<^verbatim>\<open>ElapsedTime\<close> and in \<^verbatim>\<open>Reset\<close>.\<close>

definition SendIncidence :: "u32 \<Rightarrow> u32 \<Rightarrow> storage \<Rightarrow> storage" where
  "SendIncidence now now' s =
    (let message = outside (meas_temperature (sg_meas s)) (config_temperature (sg_config s)) \<or>
                   outside (meas_humidity (sg_meas s)) (config_humidiy (sg_config s))
      in if message \<and> ElapsedTime now (meter_alerts s) > 3 * 60 * 1000
         then s\<lparr>meter_alerts := meter_Reset now' (meter_alerts s)\<rparr> else s)"

text \<open>
  \<open>t i\<close> is the \<open>i\<close>-th reading of the counter outside the delay of the sensor, whose readings are \<open>clock\<close>. \<open>line\<close> is the line of the sensor, \<open>hw\<close> what the converter
  does, and \<open>secs\<close> and \<open>nul\<close> are as in \<^verbatim>\<open>GetPackedTime\<close>: the second call passes no pointer.
\<close>

definition Storage_Update ::
    "u8 list \<Rightarrow> (nat \<Rightarrow> bool) \<Rightarrow> (nat \<Rightarrow> u32) \<Rightarrow> (mem \<Rightarrow> mem) \<Rightarrow> (u32 \<Rightarrow> 'f \<Rightarrow> u32) \<Rightarrow> bool \<Rightarrow> (nat \<Rightarrow> u32) \<Rightarrow> 'f rtc \<Rightarrow>
     storage \<times> DHT_sensor \<times> bool \<times> mem \<Rightarrow> (storage \<times> DHT_sensor \<times> bool \<times> mem) option" where
  "Storage_Update uid line clock hw secs nul t r st =
    (let (s, sensor, irq, m) = st;
         s = SendIncidence (t 0) (t 1) s
      in if IsFinished (t 2) (sg_meter s) then do {
           (result, _) \<leftarrow> GetPackedTime secs nul True (t 3) r;
           if \<not> result then Some (s, sensor, irq, m)
           else do {
             let s = s\<lparr>sg_meter := SetResponseTime (t 4) 20000 (sg_meter s), sg_need_send := True\<rparr>;
             (dataDHT, sensor, irq, m) \<leftarrow> GetMeasuremets uid line clock (t 5) (t 6) sensor (irq, m);
             meas \<leftarrow> SetTemperature (of_int (dht_temperature dataDHT) / 10) (sg_meas s);
             meas \<leftarrow> SetHumidity (of_int (dht_humidity dataDHT) / 10) meas;
             (charge, m) \<leftarrow> GetCharge hw m;
             meas \<leftarrow> SetCharge charge meas;
             (_, time) \<leftarrow> GetPackedTime secs nul False (t 7) r;
             Some (s\<lparr>sg_meas := meas\<lparr>meas_time_secs := ToSecs time\<rparr>\<rparr>, sensor, irq, m)
           }
         }
         else Some (s, sensor, irq, m))"

definition GetMeasurements :: "storage \<Rightarrow> rat measurements" where
  "GetMeasurements s =
    (let m = sg_meas s
      in \<lparr>need_send = sg_need_send s, latitude = meas_latitude m, longitude = meas_longitude m, temperature = of_nat (unat (meas_temperature m)),
          humidity = of_nat (unat (meas_humidity m)), charge = of_nat (unat (meas_charge m))\<rparr>)"

definition SetConfig :: "Config \<Rightarrow> storage \<Rightarrow> storage" where
  "SetConfig c s =
    (let c = (if report_time c = 180 then c\<lparr>report_time := 20\<rparr> else c);
         c = (if check_time c = 60 then c\<lparr>check_time := 10\<rparr> else c);
         c = c\<lparr>report_time := report_time c * 1000\<rparr>;
         c = c\<lparr>check_time := check_time c * 1000\<rparr>
      in s\<lparr>sg_config := c\<rparr>)"

section \<open>Rounding\<close>

lemma to_uint8_tenths:
  "to_uint8 (of_int k / 10) = (if k \<le> - 15 \<or> 2555 \<le> k then None else Some (of_int (max 0 ((k + 5) div 10))))"
proof -
  define v where "v = (of_int k / 10 + 1 / 2 :: rat)"
  have v: "v = of_int (k + 5) / of_int 10" by (simp add: v_def field_simps)
  have f: "\<lfloor>v\<rfloor> = (k + 5) div 10" unfolding v by (rule floor_divide_of_int_eq)
  have r: "- 1 < v \<longleftrightarrow> - 15 < k" "v < 256 \<longleftrightarrow> k < 2555" "v < 0 \<longleftrightarrow> k < - 5"
    unfolding v by (auto simp: field_simps)
  show ?thesis
    unfolding to_uint8_def Let_def v_def[symmetric] r f by (auto simp: max_def)
qed

lemma charge_of_clamp: "charge_of v = max 0 (min 100 (250 * (v - 37 / 10)))"
  by (auto simp: charge_of_def min_def max_def)

lemma charge_of_range: "0 \<le> charge_of v \<and> charge_of v \<le> 100"
  by (simp add: charge_of_def)

lemma to_uint8_charge: "\<exists>c. to_uint8 (charge_of v) = Some c \<and> int (unat c) = \<lfloor>charge_of v + 1 / 2\<rfloor>"
proof -
  define x where "x = charge_of v + 1 / 2"
  have x: "0 < x" "x < 101" using charge_of_range[of v] by (simp_all add: x_def)
  then have f: "0 \<le> \<lfloor>x\<rfloor>" "\<lfloor>x\<rfloor> \<le> 100" by (simp_all add: floor_le_iff)
  have "int (unat (of_int \<lfloor>x\<rfloor> :: u8)) = \<lfloor>x\<rfloor>" using f by (simp add: uint_word_of_int_eq take_bit_int_eq_self)
  then show ?thesis unfolding to_uint8_def Let_def x_def[symmetric] using x by auto
qed

text \<open>The charge in percent for a result of the converter: 3.7 V is empty, 4.1 V is full.\<close>

lemma charge_of_raw: "charge_of (ConversionRawToVoltageBattery raw) = max 0 (min 100 (165 - 450 * of_nat (unat raw) / 4096))"
proof -
  have "250 * (ConversionRawToVoltageBattery raw - 37 / 10) = 165 - 450 * of_nat (unat raw) / 4096"
    by (simp add: ConversionRawToVoltageBattery_def ConversionVoltageADCtoVoltageBattery_def ConversionRawToVoltageADC_def)
  then show ?thesis by (simp only: charge_of_clamp)
qed

lemma GetCharge_ends:
  assumes "\<And>m. \<exists>n. (hw ^^ Suc n) m (ADC_STAT ADC0) AND ADC_STAT_EOC \<noteq> 0"
  shows "\<exists>m'. GetCharge hw m = Some (charge_of (ConversionRawToVoltageBattery (m' (ADC_RDATA ADC0))), m') \<and> m' (ADC_STAT ADC0) AND ADC_STAT_EOC \<noteq> 0 \<and>
     (\<exists>k m0. m' = (hw ^^ Suc k) m0)"
proof -
  let ?m = "adc_flag_clear ADC0 ADC_FLAG_EOC m"
  obtain j where j: "poll_set hw (ADC_STAT ADC0) ADC_FLAG_EOC ?m = Some ((hw ^^ Suc j) ?m)" "(hw ^^ Suc j) ?m (ADC_STAT ADC0) AND ADC_STAT_EOC \<noteq> 0"
    using assms[of ?m] poll_set_returns[where hw = hw and m = ?m and a = "ADC_STAT ADC0" and k = ADC_STAT_EOC] by metis
  have "\<exists>k m0. (hw ^^ Suc j) ?m = (hw ^^ Suc k) m0" by blast
  then show ?thesis using j by (auto simp: GetCharge_def simp del: funpow.simps)
qed

lemma hum_rounded: "(of_int ((int h + 5) div 10) :: u8) = of_nat ((h + 5) div 10)"
proof -
  have "(int h + 5) div 10 = int ((h + 5) div 10)" by (simp add: zdiv_int)
  then show ?thesis by (simp only: of_int_of_nat_eq)
qed

lemma int_of_small: "0 \<le> k \<Longrightarrow> k < 256 \<Longrightarrow> int (unat (of_int k :: u8)) = k"
  by (simp add: uint_word_of_int_eq take_bit_int_eq_self)

section \<open>The pin of the sensor\<close>

lemma pin6_bits: "bit (0x40 :: u32) 6" "\<not> bit (0x80 :: u32) 6"
  using one_bit[of 6 6] one_bit[of 7 6] by simp_all

lemma i2c_pins:
  assumes "I2C_Init GPIOB (GPIO_PIN 6) (GPIO_PIN 7) I2C0 address m = Some (d, m')"
  shows "pin_mode GPIOB 6 m' = 0xB"
proof -
  let ?g = "gpio_init GPIOB GPIO_MODE_AF_OD GPIO_OSPEED_50MHZ (GPIO_PIN 7) (gpio_init GPIOB GPIO_MODE_AF_PP GPIO_OSPEED_50MHZ (GPIO_PIN 6) m)"
  have f: "m' (GPIO_CTL0 GPIOB) = ?g (GPIO_CTL0 GPIOB)" "m' (GPIO_CTL1 GPIOB) = ?g (GPIO_CTL1 GPIOB)"
    using assms by (auto simp: I2C_Init_def PinI2C_Init_def Let_def i2c_clock_config_def i2c_mode_addr_config_def i2c_enable_def i2c_ack_config_def)
  have "pin_mode GPIOB 6 m' = pin_mode GPIOB 6 ?g" using f by (rule pin_mode_cong)
  then show ?thesis by (simp add: init_pin_mode pin6_bits del: bit_numeral_word_iff)
qed

section \<open>Properties\<close>

text \<open>
  C26: a measurement is stored. When the time for it has come, the clock is set and the sensor sends a temperature of \<open>t\<close> and a humidity of \<open>h\<close> tenths, \<^verbatim>\<open>Storage::Update\<close> stores both
  rounded to whole units, the charge in percent that the result of a finished conversion of the battery stands for (165 - 450 / 4096 of the result, between 0 and 100), rounded to whole
  percents, and the time of the clock, and keeps the coordinates; the next measurement is due 20 s later. The time is stored in seconds since 1970, though \<^verbatim>\<open>Storage.h\<close> says since 2000. The
  board must not be the one with the number F95562E2, for which \<^verbatim>\<open>HAL::IsLayout\<close> replaces the sensor by constants, and conversions must end. A temperature of \<open>-1.5\<close> degrees or less has no
  value as a \<^verbatim>\<open>uint8\<close>, and one above it and below zero is stored as 0. Where address 0 cannot be written the second call of \<^verbatim>\<open>GetPackedTime\<close> stops the program.
\<close>

theorem measurement_stored:
  assumes "IsFinished (rd 2) (sg_meter s)" "is_set r" "GetUID uid \<noteq> ''F95562E2''"
    "answers line n1 n2 n3 (concat pss)" "map (map pulse_bit) pss = map byte_bits (dht_frame t h)"
    "\<bar>t\<bar> \<le> 1250" "h \<le> 1000" "dht_type sensor = DHT22" "lastPollingTime sensor = 0 \<or> 1000 \<le> rd 5 - lastPollingTime sensor"
    "0 < n" "clock 0 + 18 \<le> clock n" "\<forall>m. \<exists>k. (hw ^^ Suc k) m (ADC_STAT ADC0) AND ADC_STAT_EOC \<noteq> 0"
  shows "(nul \<and> - 15 < t \<longrightarrow> (\<exists>s' sensor' m'. Storage_Update uid line clock hw secs nul rd r (s, sensor, irq, m) = Some (s', sensor', True, m') \<and>
        int (unat (meas_temperature (sg_meas s'))) = max 0 ((t + 5) div 10) \<and> unat (meas_humidity (sg_meas s')) = (h + 5) div 10 \<and>
        (\<exists>k m0. m' = (hw ^^ Suc k) m0) \<and> m' (ADC_STAT ADC0) AND ADC_STAT_EOC \<noteq> 0 \<and>
        int (unat (meas_charge (sg_meas s'))) = \<lfloor>max 0 (min 100 (165 - 450 * of_nat (unat (m' (ADC_RDATA ADC0))) / 4096)) + 1 / 2 :: rat\<rfloor> \<and>
        meas_time_secs (sg_meas s') = ToSecs (FromSecs (time_unix_set r + secs (rd 7 - time_counter_set r) (koeff r))) \<and>
        meas_latitude (sg_meas s') = meas_latitude (sg_meas s) \<and> meas_longitude (sg_meas s') = meas_longitude (sg_meas s) \<and>
        sg_need_send s' \<and> time_response (sg_meter s') = rd 4 + 20000)) \<and>
     (\<not> nul \<or> t \<le> - 15 \<longrightarrow> Storage_Update uid line clock hw secs nul rd r (s, sensor, irq, m) = None)"
proof -
  define s1 where "s1 = (SendIncidence (rd 0) (rd 1) s)\<lparr>sg_meter := SetResponseTime (rd 4) 20000 (sg_meter s), sg_need_send := True\<rparr>"
  have i: "sg_meter (SendIncidence (rd 0) (rd 1) s) = sg_meter s" "sg_meas s1 = sg_meas s" "sg_need_send s1" "time_response (sg_meter s1) = rd 4 + 20000"
    by (simp_all add: s1_def SendIncidence_def Let_def SetResponseTime_def)
  have "length (dht_frame t h) = 5" by (simp add: dht_frame_def Let_def)
  from getData_result[OF assms(4,5) this assms(8-11), THEN conjunct1, rule_format, of t h "rd 6" irq m] assms(6,7)
  obtain sensor' m1 where d: "GetMeasuremets uid line clock (rd 5) (rd 6) sensor (irq, m) = Some (\<lparr>dht_temperature = t, dht_humidity = int h\<rparr>, sensor', True, m1)"
    using assms(3) by (auto simp: GetMeasuremets_def)
  obtain m2 where c: "GetCharge hw m1 = Some (charge_of (ConversionRawToVoltageBattery (m2 (ADC_RDATA ADC0))), m2)"
    and eoc: "m2 (ADC_STAT ADC0) AND ADC_STAT_EOC \<noteq> 0" "\<exists>k m0. m2 = (hw ^^ Suc k) m0" using GetCharge_ends[of hw m1] assms(12) by blast
  define v where "v = ConversionRawToVoltageBattery (m2 (ADC_RDATA ADC0))"
  obtain q where q: "to_uint8 (charge_of v) = Some q" "int (unat q) = \<lfloor>charge_of v + 1 / 2\<rfloor>" using to_uint8_charge by blast
  have u: "Storage_Update uid line clock hw secs nul rd r (s, sensor, irq, m) = do {
             meas \<leftarrow> SetTemperature (of_int t / 10) (sg_meas s);
             meas \<leftarrow> SetHumidity (of_int (int h) / 10) meas;
             meas \<leftarrow> SetCharge (charge_of v) meas;
             (_, time) \<leftarrow> GetPackedTime secs nul False (rd 7) r;
             Some (s1\<lparr>sg_meas := meas\<lparr>meas_time_secs := ToSecs time\<rparr>\<rparr>, sensor', True, m2)
           }"
    using assms(1,2) i d c by (simp add: Storage_Update_def GetPackedTime_def Let_def s1_def v_def)
  have h: "to_uint8 (of_int (int h) / 10) = Some (of_nat ((h + 5) div 10))"
    unfolding to_uint8_tenths using assms(7) by (simp add: max_def hum_rounded)
  have n: "GetPackedTime secs False False (rd 7) r = None" "GetPackedTime secs True False (rd 7) r =
      Some (True, FromSecs (time_unix_set r + secs (rd 7 - time_counter_set r) (koeff r)))"
    using assms(2) by (simp_all add: GetPackedTime_def FromSecs_def Let_def)
  note sets = SetTemperature_def SetHumidity_def SetCharge_def
  show ?thesis
  proof (cases "t \<le> - 15")
    case True
    then have "to_uint8 (of_int t / 10) = None" by (simp add: to_uint8_tenths)
    then show ?thesis using True by (simp add: u sets)
  next
    case False
    then have t: "to_uint8 (of_int t / 10) = Some (of_int (max 0 ((t + 5) div 10)))" using assms(6) by (simp add: to_uint8_tenths)
    have e: "Storage_Update uid line clock hw secs nul rd r (s, sensor, irq, m) = do {
        (_, time) \<leftarrow> GetPackedTime secs nul False (rd 7) r;
        Some (s1\<lparr>sg_meas := (sg_meas s)\<lparr>meas_temperature := of_int (max 0 ((t + 5) div 10)), meas_humidity := of_nat ((h + 5) div 10), meas_charge := q,
          meas_time_secs := ToSecs time\<rparr>\<rparr>, sensor', True, m2) }"
      unfolding u sets t h q(1) by simp
    have w: "int (unat (of_int (max 0 ((t + 5) div 10)) :: u8)) = max 0 ((t + 5) div 10)" "unat (of_nat ((h + 5) div 10) :: u8) = (h + 5) div 10"
      using assms(6,7) by (auto intro!: int_of_small simp: unat_of_nat_u8 div_less_iff_less_mult simp del: of_nat_unat uint_word_of_int)
    show ?thesis using False i q(2)[unfolded v_def charge_of_raw] w e n eoc by (cases nul) (simp_all del: funpow.simps)
  qed
qed

text \<open>A new device with a clock that was set, and a sensor that sends zeros.\<close>

definition new_storage :: storage where
  "new_storage = \<lparr>sg_config = \<lparr>report_time = 0, check_time = 0, config_temperature = \<lparr>cf_min = 0, cf_max = 0, cf_deviation = 0\<rparr>,
       config_humidiy = \<lparr>cf_min = 0, cf_max = 0, cf_deviation = 0\<rparr>\<rparr>,
     sg_meas = \<lparr>meas_time_secs = 0, meas_latitude = 0, meas_longitude = 0, meas_radiosity = 0, meas_charge = 0, meas_temperature = 0, meas_humidity = 0\<rparr>,
     sg_need_send = False, sg_meter = \<lparr>time_reset = 0, time_response = 0\<rparr>, meter_alerts = \<lparr>time_reset = 0, time_response = 0\<rparr>\<rparr>"

lemma zero_uid: "GetUID (replicate 12 0) = ''00000000''"
  by code_simp

theorem measurement_stored_witness:
  "\<exists>s' sensor' m'. Storage_Update (replicate 12 0) odd of_nat (\<lambda>m. m(ADC_STAT ADC0 := 2, ADC_RDATA ADC0 := 1000)) (\<lambda>d _. d div 1000) True (\<lambda>_. 5000) (new_rtc\<lparr>is_set := True\<rparr>)
     (new_storage, dht_sensor, True, \<lambda>_. 0) = Some (s', sensor', True, m') \<and>
   unat (meas_humidity (sg_meas s')) = 0 \<and> unat (meas_charge (sg_meas s')) = 55 \<and> time_response (sg_meter s') = 25000"
proof -
  let ?hw = "\<lambda>m :: mem. m(ADC_STAT ADC0 := 2, ADC_RDATA ADC0 := 1000)"
  have u: "IsFinished 5000 (sg_meter new_storage)" "is_set (new_rtc\<lparr>is_set := True\<rparr>)" "GetUID (replicate 12 0) \<noteq> ''F95562E2''"
    by (simp_all add: IsFinished_def new_storage_def zero_uid)
  have z: "\<bar>0 :: int\<bar> \<le> 1250" "(0 :: nat) \<le> 1000" "0 < (18 :: nat)" "(of_nat 0 :: u32) + 18 \<le> of_nat 18"
    by simp_all
  have z5: "\<forall>m. \<exists>k. (?hw ^^ Suc k) m (ADC_STAT ADC0) AND ADC_STAT_EOC \<noteq> 0" by (intro allI exI[of _ 0]) simp
  note d = measurement_stored[where rd = "\<lambda>_. 5000" and s = new_storage and clock = of_nat and hw = ?hw and sensor = dht_sensor, OF u zeros_sent z(1,2) new_sensor z(3,4) z5]
  have lt: "True \<and> - 15 < (0 :: int)" by simp
  obtain s' sensor' m' where s: "Storage_Update (replicate 12 0) odd of_nat ?hw (\<lambda>d _. d div 1000) True (\<lambda>_. 5000) (new_rtc\<lparr>is_set := True\<rparr>)
      (new_storage, dht_sensor, True, \<lambda>_. 0) = Some (s', sensor', True, m')"
      "unat (meas_humidity (sg_meas s')) = (0 + 5) div 10" "time_response (sg_meter s') = 5000 + 20000"
    and c: "int (unat (meas_charge (sg_meas s'))) = \<lfloor>max 0 (min 100 (165 - 450 * of_nat (unat (m' (ADC_RDATA ADC0))) / 4096)) + 1 / 2 :: rat\<rfloor>"
    and h: "\<exists>k m0. m' = (?hw ^^ Suc k) m0"
    using mp[OF conjunct1[OF d[where nul = True and secs = "\<lambda>d _. d div 1000" and irq = True and m = "\<lambda>_. 0"]] lt]
    by (elim exE conjE) (rule that, assumption, assumption, assumption, assumption, intro exI)
  have r: "m' (ADC_RDATA ADC0) = 1000" using h by auto
  have f: "\<lfloor>max 0 (min 100 (165 - 450 * of_nat (unat (1000 :: u32)) / 4096)) + 1 / 2 :: rat\<rfloor> = 55" by (rule floor_unique) simp_all
  have "unat (meas_charge (sg_meas s')) = 55" using c unfolding r f by linarith
  then show ?thesis using s by simp
qed

text \<open>
  C28: the sensor and the display share a pin. \<^verbatim>\<open>HAL::Init\<close> makes pin 6 of port B the clock output of the bus of the display; a measurement of \<^verbatim>\<open>DHT::GetMeasuremets\<close> takes the same pin
  for its data line and leaves it as an input with a pull-up, so that the bus has no clock afterwards.
\<close>

theorem sensor_takes_display_pin:
  assumes "I2C_Init GPIOB (GPIO_PIN 6) (GPIO_PIN 7) I2C0 address m0 = Some (d, m)"
    "DHT_getData line clock now now' dht_sensor (irq, m) = Some (data, s', irq', m')"
  shows "pin_mode GPIOB 6 m = 0xB \<and> pin_mode GPIOB 6 m' = 8"
proof -
  obtain k where "m' = goToInput (dht_sensor\<lparr>lastPollingTime := now' + 1\<rparr>) k"
    using assms(2) by (auto simp: DHT_getData_def new_sensor dht_sensor_def Let_def split: option.splits prod.splits)
  then show ?thesis using i2c_pins[OF assms(1)] by (simp add: goToInput_def dht_sensor_def init_pin_mode pin6_bits del: bit_numeral_word_iff)
qed
theorem sensor_takes_display_pin_witness:
  "\<exists>d m data s' irq' m'. I2C_Init GPIOB (GPIO_PIN 6) (GPIO_PIN 7) I2C0 0x78 (\<lambda>_. 0) = Some (d, m) \<and>
     DHT_getData odd of_nat 5 6 dht_sensor (True, m) = Some (data, s', irq', m') \<and> pin_mode GPIOB 6 m' = 8"
proof -
  obtain d m where i: "I2C_Init GPIOB (GPIO_PIN 6) (GPIO_PIN 7) I2C0 0x78 (\<lambda>_. 0) = Some (d, m)"
    using I2C_Init_result[of GPIOB "GPIO_PIN 6" "GPIO_PIN 7" I2C0 "0x78" "\<lambda>_. 0"] by blast
  have "\<exists>r. DHT_getData odd of_nat 5 6 dht_sensor (True, m) = Some r" by (rule zeros_measured)
  then obtain data s' irq' m' where g: "DHT_getData odd of_nat 5 6 dht_sensor (True, m) = Some (data, s', irq', m')" by (metis prod_cases4)
  show ?thesis using sensor_takes_display_pin[OF i g] i g by blast
qed

end
