(* ===== verification/ConfigParser.thy ===== *)
theory ConfigParser
  imports DeviceMain Storage
begin

text \<open>
  \<^verbatim>\<open>Parser::ParseConfigField\<close> (\<^verbatim>\<open>sources/common/Modem/Parser.cpp\<close>): the limits of one quantity from a message of the broker. The returned
  pointer is an offset into the string, \<open>None\<close> the null pointer; the fields read before a missing one are set. The outer \<open>None\<close> is a word
  longer than the array of \<^verbatim>\<open>BufferParser\<close>.
\<close>

section \<open>The operation\<close>

definition ToUINT :: "string \<Rightarrow> u32" where
  "ToUINT data = of_int (atoi data)"

text \<open>The number behind \<open>sub\<close>, and where it stands: the step that the code repeats for each of the three names.\<close>

definition number_after :: "string \<Rightarrow> nat \<Rightarrow> string \<Rightarrow> (nat \<times> rat) option option" where
  "number_after string entry sub =
    (case AfterSubString (drop entry string) sub 0 of
       None \<Rightarrow> Some None
     | Some e \<Rightarrow>
         (case GetWord (drop (entry + e) string) 1 of
            None \<Rightarrow> None
          | Some w \<Rightarrow> Some (Some (entry + e, of_nat (unat (ToUINT w))))))"

definition key_max :: string where "key_max = ''max'' @ [CHR 0x22] @ '':''"
definition key_min :: string where "key_min = ''min'' @ [CHR 0x22] @ '':''"
definition key_deviation :: string where "key_deviation = ''deviation'' @ [CHR 0x22] @ '':''"

definition ParseConfigField :: "string \<Rightarrow> string \<Rightarrow> ConfigField \<Rightarrow> (nat option \<times> ConfigField) option" where
  "ParseConfigField string name field =
    (case AfterSubString string name 0 of
       None \<Rightarrow> Some (None, field)
     | Some entry \<Rightarrow>
         (case number_after string entry key_max of
            None \<Rightarrow> None
          | Some None \<Rightarrow> Some (None, field)
          | Some (Some (entry, v)) \<Rightarrow>
              (let field = field\<lparr>cf_max := v\<rparr>
                in (case number_after string entry key_min of
                      None \<Rightarrow> None
                    | Some None \<Rightarrow> Some (None, field)
                    | Some (Some (entry, v)) \<Rightarrow>
                        (let field = field\<lparr>cf_min := v\<rparr>
                          in (case number_after string entry key_deviation of
                                None \<Rightarrow> None
                              | Some None \<Rightarrow> Some (None, field)
                              | Some (Some (entry, v)) \<Rightarrow> Some (Some entry, field\<lparr>cf_deviation := v\<rparr>)))))))"

section \<open>Searching\<close>

lemma strstr_skip: "c \<notin> set xs \<Longrightarrow> strstr (xs @ ys) (c # cs) = map_option (\<lambda>e. length xs + e) (strstr ys (c # cs))"
  by (cases "strstr ys (c # cs)"; induction xs; auto)

lemma AfterSubString_0: "AfterSubString s sub 0 = map_option (\<lambda>e. e + length sub) (strstr s sub)"
  by (auto simp: AfterSubString_def FindSubString_def option.map_comp o_def option.map_ident)

lemma after_skip: "c \<notin> set xs \<Longrightarrow> AfterSubString (xs @ ys) (c # cs) 0 = map_option (\<lambda>e. length xs + e) (AfterSubString ys (c # cs) 0)"
  by (simp add: AfterSubString_0 strstr_skip option.map_comp o_def add.assoc)

lemma after_here: "AfterSubString (sub @ ys) sub 0 = Some (length sub)"
proof -
  have "prefix_at sub (sub @ ys)" by (simp add: prefix_at_iff)
  then have "strstr (sub @ ys) sub = Some 0" by (cases "sub @ ys") (auto simp: AfterSubString_0)
  then show ?thesis by (simp add: AfterSubString_0)
qed

section \<open>Numbers with text behind them\<close>

lemma atoi_followed:
  assumes "\<And>c cs. r = c # cs \<Longrightarrow> \<not> is_digit c"
  shows "atoi (format_d i @ r) = i"
proof -
  have stop: "digits_value v r = v" for v using assms by (cases r) auto
  have v: "digits_value 0 (decimal n @ r) = int n" for n by (simp add: digits_value_append stop)
  show ?thesis
  proof (cases "i < 0")
    case True
    have "atoi (CHR ''-'' # cs) = - digits_value 0 cs" for cs by (simp add: atoi_def is_space_def)
    then show ?thesis using True v by (simp add: format_d_def)
  next
    case False
    obtain c cs where d: "decimal (nat i) = c # cs" using decimal_not_Nil by (cases "decimal (nat i)") auto
    then have "is_digit c" using decimal_digits[of c "nat i"] by simp
    then have "atoi (c # cs @ r) = digits_value 0 (c # cs @ r)" using digit_not_space[of c] by (simp add: atoi_def)
    then show ?thesis using False v[of "nat i"] d by (simp add: format_d_def)
  qed
qed

lemma digit_no_sep: "is_digit c \<or> c = CHR ''-'' \<Longrightarrow> \<not> is_sep c"
  by (auto simp: is_digit_def is_sep_def)

lemma format_d_chars: "c \<in> set (format_d i) \<Longrightarrow> is_digit c \<or> c = CHR ''-''"
  by (auto simp: format_d_def dest: decimal_digits split: if_splits)

lemma format_d_short: "- 2147483648 \<le> i \<Longrightarrow> i < 2147483648 \<Longrightarrow> length (format_d i) \<le> 11"
proof -
  assume "- 2147483648 \<le> i" "i < 2147483648"
  then have "nat i < 10 ^ 10" "nat (- i) < 10 ^ 10" by (simp_all add: nat_less_iff)
  then show ?thesis using decimal_length[of "nat i" 10] decimal_length[of "nat (- i)" 10] by (simp add: format_d_def)
qed

lemma first_word: "c_string s \<Longrightarrow> GetWord s 1 = into_data (word_part s)"
  by (simp add: GetWord_fields nth_field_def line_fields_def)

abbreviation int32 :: "int \<Rightarrow> bool" where "int32 i \<equiv> - 2147483648 \<le> i \<and> i < 2147483648"

text \<open>The step on a key, a number and what follows it.\<close>

lemma number_found:
  assumes "drop entry string = xs @ key @ format_d i @ r" "key \<noteq> []" "hd key \<notin> set xs" "c_string (format_d i @ r)" "int32 i"
    "\<And>c cs. r = c # cs \<Longrightarrow> \<not> is_digit c" "length (word_part r) < 117"
  shows "number_after string entry key = Some (Some (entry + length (xs @ key), of_nat (unat (of_int i :: u32)))) \<and>
     drop (entry + length (xs @ key)) string = format_d i @ r"
proof
  have a: "AfterSubString (drop entry string) key 0 = Some (length (xs @ key))"
    unfolding assms(1)
    using after_skip[OF assms(3), of "key @ format_d i @ r" "tl key"] after_here[of key "format_d i @ r"] assms(2,3) by (cases key) auto
  have "drop (entry + length (xs @ key)) string = drop (length (xs @ key)) (drop entry string)" by (simp add: add.commute)
  also have "\<dots> = format_d i @ r" unfolding assms(1) by simp
  finally show d: "drop (entry + length (xs @ key)) string = format_d i @ r" .
  have w: "word_part (format_d i @ r) = format_d i @ word_part r"
    using digit_no_sep[OF format_d_chars] by (simp add: takeWhile_append2)
  have "atoi (format_d i @ word_part r) = i" using assms(6) by (intro atoi_followed) (cases r; auto split: if_splits)
  moreover have "length (format_d i @ word_part r) < 128" using format_d_short[of i] assms(5,7) by simp
  ultimately show "number_after string entry key = Some (Some (entry + length (xs @ key), of_nat (unat (of_int i :: u32))))"
    unfolding number_after_def a option.case d first_word[OF assms(4)] w into_data_def Let_def ToUINT_def by simp
qed

section \<open>Properties\<close>

abbreviation quote :: char where "quote \<equiv> CHR 0x22"

text \<open>The object that the broker sends for one quantity, from the end of its name on.\<close>

definition after_min :: "int \<Rightarrow> string \<Rightarrow> string" where
  "after_min c tail = '','' @ [quote] @ key_deviation @ format_d c @ ''}'' @ tail"

definition after_max :: "int \<Rightarrow> int \<Rightarrow> string \<Rightarrow> string" where
  "after_max b c tail = '','' @ [quote] @ key_min @ format_d b @ after_min c tail"

definition limits_text :: "int \<Rightarrow> int \<Rightarrow> int \<Rightarrow> string \<Rightarrow> string" where
  "limits_text a b c tail = [quote] @ '':{'' @ [quote] @ key_max @ format_d a @ after_max b c tail"

text \<open>
  The three numbers of such an object are read in order and the pointer returned stands on the last one. They are converted to \<^verbatim>\<open>uint\<close> on
  the way, so a negative limit becomes a number near \<open>2 ^ 32\<close>.
\<close>

lemma config_field_read:
  assumes "AfterSubString (before @ name @ limits_text a b c tail) name 0 = Some (length (before @ name))"
    "c_string tail" "int32 a" "int32 b" "int32 c" "length (word_part tail) < 116"
  shows "\<exists>entry. ParseConfigField (before @ name @ limits_text a b c tail) name field =
     Some (Some entry, field\<lparr>cf_max := of_nat (unat (of_int a :: u32)), cf_min := of_nat (unat (of_int b :: u32)),
       cf_deviation := of_nat (unat (of_int c :: u32))\<rparr>)"
proof -
  let ?s = "before @ name @ limits_text a b c tail"
  have nz: "CHR 0x00 \<notin> set (format_d i)" for i using format_d_chars[of "CHR 0x00" i] by (auto simp: is_digit_def)
  have t: "c_string (format_d a @ after_max b c tail)" "c_string (format_d b @ after_min c tail)" "c_string (format_d c @ ''}'' @ tail)"
    using assms(2) nz by (simp_all add: c_string_def after_max_def after_min_def key_min_def key_deviation_def)
  have d: "CHR ''d'' \<notin> set (format_d b @ '','' @ [quote])" "CHR ''m'' \<notin> set (format_d a @ '','' @ [quote])"
    using format_d_chars[of "CHR ''d''" b] format_d_chars[of "CHR ''m''" a] by (auto simp: is_digit_def)
  have f: "drop (length (before @ name)) ?s = ([quote] @ '':{'' @ [quote]) @ key_max @ format_d a @ after_max b c tail"
    by (simp add: limits_text_def)
  note k = key_max_def key_min_def key_deviation_def
  have n1: "number_after ?s (length (before @ name)) key_max =
      Some (Some (length (before @ name) + length (([quote] @ '':{'' @ [quote]) @ key_max), of_nat (unat (of_int a :: u32)))) \<and>
      drop (length (before @ name) + length (([quote] @ '':{'' @ [quote]) @ key_max)) ?s = format_d a @ after_max b c tail" (is "_ = Some (Some (?e1, _)) \<and> _")
    by (rule number_found[OF f _ _ t(1) assms(3)]) (simp_all add: k after_max_def is_sep_def is_digit_def)
  then have f2: "drop ?e1 ?s = (format_d a @ '','' @ [quote]) @ key_min @ format_d b @ after_min c tail" by (simp add: after_max_def)
  have n2: "number_after ?s ?e1 key_min =
      Some (Some (?e1 + length ((format_d a @ '','' @ [quote]) @ key_min), of_nat (unat (of_int b :: u32)))) \<and>
      drop (?e1 + length ((format_d a @ '','' @ [quote]) @ key_min)) ?s = format_d b @ after_min c tail" (is "_ = Some (Some (?e2, _)) \<and> _")
    by (rule number_found[OF f2 _ _ t(2) assms(4)]) (use d in \<open>simp_all add: k after_min_def is_sep_def is_digit_def\<close>)
  then have f3: "drop ?e2 ?s = (format_d b @ '','' @ [quote]) @ key_deviation @ format_d c @ ''}'' @ tail" by (simp add: after_min_def)
  have n3: "number_after ?s ?e2 key_deviation =
      Some (Some (?e2 + length ((format_d b @ '','' @ [quote]) @ key_deviation), of_nat (unat (of_int c :: u32)))) \<and>
      drop (?e2 + length ((format_d b @ '','' @ [quote]) @ key_deviation)) ?s = format_d c @ ''}'' @ tail"
    by (rule number_found[OF f3 _ _ t(3) assms(5)]) (use d assms(6) in \<open>simp_all add: k is_sep_def is_digit_def\<close>)
  show ?thesis
    unfolding ParseConfigField_def assms(1) option.case using n1 n2 n3 by (simp only: option.case prod.case Let_def) simp
qed

end
