(* ===== verification/MemoryStorage.thy ===== *)
theory MemoryStorage
  imports HalRom Utils
begin

unbundle bit_operations_syntax

text \<open>
  The storage of measurements in flash: \<^verbatim>\<open>sources/Device/src/Storage/MemoryStorage.cpp\<close>. The area between
  \<^verbatim>\<open>BEGIN\<close> and \<^verbatim>\<open>END\<close> is an array of 2048 records of 28 bytes: the measurements (time, three floats, three bytes and a
  byte of padding), the checksum at offset 20 and the control field at offset 24. A pointer is a natural number, as in \<open>HalRom\<close>; the null
  pointer is \<open>None\<close>. A loop that has no end, or ends only when a pointer runs out of the address space (where the language promises nothing), gives \<open>None\<close>. A copy into the flash with \<^verbatim>\<open>memcpy\<close>
  is a sequence of word stores, whose effect is the controller's.
\<close>

section \<open>Records\<close>

abbreviation BEGIN :: nat where "BEGIN \<equiv> 0x08032000"
abbreviation END :: nat where "END \<equiv> 0x08040000"
abbreviation SIZE_DATA :: nat where "SIZE_DATA \<equiv> 28"

text \<open>\<^verbatim>\<open>IsEmpty\<close> increments \<^verbatim>\<open>end\<close>, not \<^verbatim>\<open>address\<close>.\<close>

partial_function (option) empty_loop :: "(u32 \<Rightarrow> u8) \<Rightarrow> nat \<Rightarrow> nat \<Rightarrow> bool option" where
  "empty_loop f address end' =
    (if address < end' then
       (if f (of_nat address) \<noteq> 0xFF then Some False else empty_loop f address (end' + 1))
     else Some True)"

definition IsEmpty :: "(u32 \<Rightarrow> u8) \<Rightarrow> nat \<Rightarrow> bool option" where
  "IsEmpty f this = empty_loop f this (this + SIZE_DATA)"

definition rec_CalculateCRC :: "(u32 \<Rightarrow> u8) \<Rightarrow> nat \<Rightarrow> u32" where
  "rec_CalculateCRC f this = CalculateCRC f (of_nat this) (SIZE_DATA - 4 - 4)"

definition IsValid :: "(u32 \<Rightarrow> u8) \<Rightarrow> nat \<Rightarrow> bool" where
  "IsValid f this \<longleftrightarrow>
     (if rd32 f (of_nat this) = 0xFFFFFFFF then True
      else rd32 f (of_nat this + 20) = rec_CalculateCRC f this \<and> f (of_nat this + 24) = 0x00 \<and> f (of_nat this + 25) = 0x7E)"

definition GetTimeSecs :: "(u32 \<Rightarrow> u8) \<Rightarrow> nat \<Rightarrow> u32" where
  "GetTimeSecs f this = rd32 f (of_nat this)"

definition rec_Erase :: "'h chip \<Rightarrow> nat \<Rightarrow> 'h mach \<Rightarrow> 'h mach option" where
  "rec_Erase c this s = WriteUInt c (of_nat this) 0 s"

definition IsErased :: "(u32 \<Rightarrow> u8) \<Rightarrow> nat \<Rightarrow> bool" where
  "IsErased f this \<longleftrightarrow> rd32 f (of_nat this) = 0"

text \<open>\<open>data\<close> is the record in memory; the result says whether it is in the flash afterwards.\<close>

definition rec_Write :: "'h chip \<Rightarrow> (nat \<Rightarrow> u8) \<Rightarrow> u32 \<Rightarrow> 'h mach \<Rightarrow> (bool \<times> 'h mach) option" where
  "rec_Write c data address s =
    (case WriteData c address data (int SIZE_DATA) s of
       None \<Rightarrow> None
     | Some s \<Rightarrow> Some (list_all (\<lambda>i. data i = flash s (address + of_nat i)) [0..<SIZE_DATA], s))"

text \<open>
  \<^verbatim>\<open>Read\<close> copies the object to the address, not the record at the address into the object, and then judges the object.
\<close>

definition rec_Read :: "'h chip \<Rightarrow> (nat \<Rightarrow> u8) \<Rightarrow> u32 \<Rightarrow> 'h mach \<Rightarrow> bool \<times> 'h mach" where
  "rec_Read c data address s =
    (let this = (\<lambda>a. data (unat a));
         s = fold (\<lambda>i. st32 c (address + of_nat (4 * i)) (rd32 this (of_nat (4 * i)))) [0..<SIZE_DATA div 4] s
      in (rec_CalculateCRC this 0 = rd32 this 20 \<and> rd32 this 24 = 0, s))"

definition Data_Erase :: "'h chip \<Rightarrow> nat \<Rightarrow> 'h mach \<Rightarrow> 'h mach option" where
  "Data_Erase c data s = rec_Erase c data s"

definition MemoryStorage_Write :: "'h chip \<Rightarrow> u32 \<Rightarrow> u32 \<Rightarrow> 'h mach \<Rightarrow> 'h mach option" where
  "MemoryStorage_Write c address value s = WriteData c address (\<lambda>i. ucast (drop_bit (8 * i) value)) 4 s"

section \<open>The array\<close>

function init_loop :: "'h chip \<Rightarrow> nat \<Rightarrow> 'h mach \<Rightarrow> 'h mach option" where
  "init_loop c address s =
    (if address < END then
       (case IsEmpty (flash s) address of
          None \<Rightarrow> None
        | Some True \<Rightarrow> init_loop c (address + SIZE_DATA) s
        | Some False \<Rightarrow>
            (if \<not> IsValid (flash s) address then
               (case rec_Erase c address s of None \<Rightarrow> None | Some s \<Rightarrow> init_loop c (address + SIZE_DATA) s)
             else init_loop c (address + SIZE_DATA) s))
     else Some s)"
  by pat_completeness auto
termination by (relation "measure (\<lambda>(c, address, s). END - address)") auto

definition MemoryStorage_Init :: "'h chip \<Rightarrow> 'h mach \<Rightarrow> 'h mach option" where
  "MemoryStorage_Init c s = init_loop c BEGIN s"

function first_empty :: "(u32 \<Rightarrow> u8) \<Rightarrow> nat \<Rightarrow> nat option option" where
  "first_empty f data =
    (if data < END then
       (case IsEmpty f data of
          None \<Rightarrow> None
        | Some b \<Rightarrow> (if data \<noteq> 0 \<and> b then Some (Some data) else first_empty f (data + SIZE_DATA)))
     else Some None)"
  by pat_completeness auto
termination by (relation "measure (\<lambda>(f, data). END - data)") auto

definition FindFirstEmpty :: "(u32 \<Rightarrow> u8) \<Rightarrow> nat option option" where
  "FindFirstEmpty f = first_empty f BEGIN"

definition EraseFull :: "'h chip \<Rightarrow> 'h mach \<Rightarrow> 'h mach" where
  "EraseFull c s =
    (let start_page = (BEGIN - unat ADDR_BASE) div unat SIZE_PAGE;
         end_page = (END - unat ADDR_BASE) div unat SIZE_PAGE
      in fold (\<lambda>page. ErasePage c (of_nat page)) [start_page..<end_page] s)"

definition Data_Append :: "'h chip \<Rightarrow> (nat \<Rightarrow> u8) \<Rightarrow> 'h mach \<Rightarrow> 'h mach option" where
  "Data_Append c data s =
    (case FindFirstEmpty (flash s) of
       None \<Rightarrow> None
     | Some address \<Rightarrow>
         (let (address, s) = (case address of Some a \<Rightarrow> (a, s) | None \<Rightarrow> (BEGIN, EraseFull c s))
           in map_option snd (rec_Write c data (of_nat address) s)))"

function oldest_loop :: "(u32 \<Rightarrow> u8) \<Rightarrow> nat \<Rightarrow> nat option \<Rightarrow> nat option" where
  "oldest_loop f data result =
    (if data < END then
       oldest_loop f (data + SIZE_DATA)
         (if IsValid f data then
            (case result of
               None \<Rightarrow> Some data
             | Some r \<Rightarrow> (if GetTimeSecs f data < GetTimeSecs f r then Some data else result))
          else result)
     else result)"
  by pat_completeness auto
termination by (relation "measure (\<lambda>(f, data, result). END - data)") auto

definition GetOldest :: "(u32 \<Rightarrow> u8) \<Rightarrow> nat option" where
  "GetOldest f = oldest_loop f BEGIN None"

declare init_loop.simps [simp del]
declare first_empty.simps [simp del]
declare oldest_loop.simps [simp del]

text \<open>What \<^verbatim>\<open>IsValid\<close> accepts as a written record \<^verbatim>\<open>Read\<close> refuses: the one asks for 0x7E in the control field, the other for 0.\<close>

lemma Read_refuses_valid:
  assumes "IsValid (\<lambda>a. data (unat a)) 0" "rd32 (\<lambda>a. data (unat a)) 0 \<noteq> 0xFFFFFFFF"
  shows "\<not> fst (rec_Read c data address s)"
proof -
  have "data 25 = 0x7E" using assms by (simp add: IsValid_def)
  then have "bit (rd32 (\<lambda>a. data (unat a)) 24) 9" by (simp add: rd32_def bit_or_iff bit_push_bit_iff bit_ucast_iff bit_numeral_rec)
  then show ?thesis by (auto simp: rec_Read_def Let_def)
qed

section \<open>Looking for an empty record\<close>

lemma empty_loop_result: "empty_loop f a e = Some b \<Longrightarrow> a < e \<Longrightarrow> f (of_nat a) \<noteq> 0xFF"
  by (rule empty_loop.raw_induct[of "\<lambda>f a e b. a < e \<longrightarrow> f (of_nat a) \<noteq> 0xFF", rule_format]) (auto split: if_splits)

lemma IsEmpty_eq: "IsEmpty f this = (if f (of_nat this) \<noteq> 0xFF then Some False else None)"
proof (cases "f (of_nat this) = 0xFF")
  case True
  then show ?thesis using empty_loop_result[of f this "this + SIZE_DATA"] by (cases "IsEmpty f this") (auto simp: IsEmpty_def)
next
  case False
  then show ?thesis by (simp add: IsEmpty_def empty_loop.simps)
qed

text \<open>The addresses of the records.\<close>

definition records_from :: "nat \<Rightarrow> nat list" where
  "records_from a = map (\<lambda>i. a + SIZE_DATA * i) [0..<(END - a + 27) div SIZE_DATA]"

abbreviation records :: "nat list" where
  "records \<equiv> records_from BEGIN"

lemma div_step: "28 \<le> m \<Longrightarrow> m div 28 = Suc ((m - 28) div (28 :: nat))"
  by (rule le_div_geq) simp

lemma records_simps: "records_from a = (if a < END then a # records_from (a + SIZE_DATA) else [])"
proof (cases "a < END")
  case True
  define e where "e = END"
  have "(e - a + 27) div SIZE_DATA = Suc ((e - (a + SIZE_DATA) + 27) div SIZE_DATA)"
  proof -
    have "28 \<le> e - a + 27" using True unfolding e_def by arith
    from div_step[OF this] have d: "(e - a + 27) div 28 = Suc ((e - a + 27 - 28) div 28)" .
    show ?thesis
    proof (cases "a + SIZE_DATA \<le> e")
      case True
      then have "e - a + 27 - 28 = e - (a + SIZE_DATA) + 27" by arith
      then show ?thesis using d by (simp only:)
    next
      case False
      then have "(e - a + 27 - 28) div 28 = 0" "(e - (a + SIZE_DATA) + 27) div 28 = 0" by (auto intro: div_less)
      then show ?thesis using d by (simp only:)
    qed
  qed
  then have "records_from a = map (\<lambda>i. a + SIZE_DATA * i) [0..<Suc ((e - (a + SIZE_DATA) + 27) div SIZE_DATA)]"
    unfolding records_from_def e_def by (rule arg_cong)
  also have "\<dots> = a # records_from (a + SIZE_DATA)"
    unfolding records_from_def map_upt_Suc e_def[symmetric] by (simp add: add.assoc)
  finally show ?thesis using True by simp
next
  case False
  then show ?thesis by (simp add: records_from_def)
qed

lemma first_empty_eq:
  "first_empty f a = (if \<exists>r \<in> set (records_from a). f (of_nat r) = 0xFF then None else Some None)"
proof (induction f a rule: first_empty.induct)
  case (1 f a)
  show ?case
  proof (cases "a < END")
    case True
    then show ?thesis using 1 by (subst first_empty.simps, subst records_simps) (auto simp: IsEmpty_eq)
  next
    case False
    then show ?thesis by (subst first_empty.simps, subst records_simps) simp
  qed
qed

section \<open>Erasing the area\<close>

lemma page_address:
  assumes "k \<le> 65536"
  shows "unat (FLASH_BASE + of_nat k * SIZE_PAGE) = 0x08000000 + 2048 * k"
proof -
  have e: "(of_nat k * SIZE_PAGE :: u32) = of_nat (2048 * k)" by (simp add: mult.commute)
  show ?thesis unfolding e by (subst unat_plus_small) (use assms in simp_all)
qed

lemma erase_pages:
  assumes "nor_flash c" "fmc_ready s" "2 * (k0 + n) \<le> unat (FMC_SIZE s)"
  shows "fmc_ready (fold (\<lambda>page. ErasePage c (of_nat page)) [k0..<k0 + n] s) \<and>
     FMC_SIZE (fold (\<lambda>page. ErasePage c (of_nat page)) [k0..<k0 + n] s) = FMC_SIZE s \<and>
     (\<forall>a. flash (fold (\<lambda>page. ErasePage c (of_nat page)) [k0..<k0 + n] s) a =
        (if 65536 + k0 \<le> unat a div 2048 \<and> unat a div 2048 < 65536 + k0 + n then 0xFF else flash s a))"
  using assms(3)
proof (induction n)
  case 0
  then show ?case using assms(2) by (auto simp del: div_greater_zero_iff)
next
  case (Suc n)
  define t where "t = fold (\<lambda>page. ErasePage c (of_nat page)) [k0..<k0 + n] s"
  have t: "fmc_ready t" "FMC_SIZE t = FMC_SIZE s"
    "\<And>a. flash t a = (if 65536 + k0 \<le> unat a div 2048 \<and> unat a div 2048 < 65536 + k0 + n then 0xFF else flash s a)"
    using Suc unfolding t_def by simp_all
  have size: "unat (FMC_SIZE s) \<le> 512" using assms(2) by (simp add: fmc_ready_def word_le_nat_alt)
  then have page: "unat (FLASH_BASE + of_nat (k0 + n) * SIZE_PAGE) = 0x08000000 + 2048 * (k0 + n)"
    using Suc.prems by (intro page_address) simp
  then have "in_flash t (FLASH_BASE + of_nat (k0 + n) * SIZE_PAGE)"
    using Suc.prems t(2) by (simp add: in_flash_def word_le_nat_alt)
  note e = ErasePage_result[OF assms(1) fmc_ready_usable[OF t(1)] this]
  have "flash (ErasePage c (of_nat (k0 + n)) t) a =
      (if 65536 + k0 \<le> unat a div 2048 \<and> unat a div 2048 < 65536 + k0 + Suc n then 0xFF else flash s a)" for a
    unfolding e(1) erase_page_eq page t(3) by auto
  then show ?case using e(2,4) t(2) by (simp add: t_def)
qed

lemma EraseFull_result:
  assumes "nor_flash c" "fmc_ready s" "256 \<le> unat (FMC_SIZE s)"
  shows "fmc_ready (EraseFull c s)" "FMC_SIZE (EraseFull c s) = FMC_SIZE s"
    "flash (EraseFull c s) a = (if BEGIN \<le> unat a \<and> unat a < END then 0xFF else flash s a)"
proof -
  have e: "EraseFull c s = fold (\<lambda>page. ErasePage c (of_nat page)) [100..<100 + 28] s"
    by (simp add: EraseFull_def)
  note r = erase_pages[OF assms(1,2), of 100 28]
  show "fmc_ready (EraseFull c s)" "FMC_SIZE (EraseFull c s) = FMC_SIZE s"
    using r assms(3) unfolding e by simp_all
  have "(65536 + 100 \<le> unat a div 2048 \<and> unat a div 2048 < 65536 + 100 + 28) = (BEGIN \<le> unat a \<and> unat a < END)"
    by (auto simp: less_eq_div_iff_mult_less_eq div_less_iff_less_mult)
  then show "flash (EraseFull c s) a = (if BEGIN \<le> unat a \<and> unat a < END then 0xFF else flash s a)"
    using r assms(3) unfolding e by simp
qed

lemma append_full:
  assumes "nor_flash c" "fmc_ready s" "256 \<le> unat (FMC_SIZE s)" "\<forall>r \<in> set records. flash s (of_nat r) \<noteq> 0xFF"
  shows "\<exists>s'. Data_Append c data s = Some s' \<and> fmc_ready s' \<and> \<not> fmc_unlocked s' \<and>
     flash s' = flash_write (flash (EraseFull c s)) (of_nat BEGIN) (map data [0..<SIZE_DATA])"
proof -
  let ?s = "EraseFull c s"
  have b: "unat (of_nat BEGIN :: u32) = BEGIN" by simp
  have "flash ?s (of_nat BEGIN + of_nat i) = 0xFF" if "i < 28" for i
  proof -
    have "unat (of_nat BEGIN + of_nat i :: u32) = BEGIN + i" using that unat_plus_small[of "of_nat BEGIN" i] b by simp
    then show ?thesis using that EraseFull_result(3)[OF assms(1-3)] by simp
  qed
  then have er: "erased (flash ?s) (of_nat BEGIN) (4 * ((28 + 3) div 4))" by (simp add: erased_def)
  have "FindFirstEmpty (flash s) = Some None" using assms(4) by (auto simp: FindFirstEmpty_def first_empty_eq)
  moreover obtain s' where "WriteData c (of_nat BEGIN) data (int 28) ?s = Some s'"
      "flash s' = flash_write (flash ?s) (of_nat BEGIN) (map data [0..<4 * ((28 + 3) div 4)])" "fmc_ready s'" "\<not> fmc_unlocked s'"
    using WriteData_erased[OF assms(1) EraseFull_result(1)[OF assms(1-3)] _ _ _ er, of data] assms(3)
      EraseFull_result(2)[OF assms(1-3)] by auto
  ultimately show ?thesis by (auto simp: Data_Append_def rec_Write_def)
qed

section \<open>The oldest record\<close>

definition older :: "(u32 \<Rightarrow> u8) \<Rightarrow> nat \<Rightarrow> nat option \<Rightarrow> nat option" where
  "older f data result =
    (if IsValid f data then
       (case result of
          None \<Rightarrow> Some data
        | Some r \<Rightarrow> (if GetTimeSecs f data < GetTimeSecs f r then Some data else result))
     else result)"

lemma oldest_loop_fold: "oldest_loop f a r = fold (older f) (records_from a) r"
proof (induction f a r rule: oldest_loop.induct)
  case (1 f a r)
  then show ?case unfolding older_def[symmetric] by (subst oldest_loop.simps, subst records_simps) (simp add: older_def[symmetric])
qed

lemma arg_min_skip: "f r \<le> f x \<Longrightarrow> arg_min_list f (r # x # ys) = arg_min_list f (r # ys)" for f :: "'a \<Rightarrow> 'b :: linorder"
  by (cases ys) (auto simp: Let_def)

lemma arg_min_replace: "f x < f r \<Longrightarrow> arg_min_list f (r # x # ys) = arg_min_list f (x # ys)" for f :: "'a \<Rightarrow> 'b :: linorder"
proof -
  assume a: "f x < f r"
  have "f (arg_min_list f (x # ys)) \<le> f x" by (subst f_arg_min_list_f) auto
  then show ?thesis using a by (auto simp: Let_def)
qed

definition oldest_of :: "(u32 \<Rightarrow> u8) \<Rightarrow> nat list \<Rightarrow> nat option" where
  "oldest_of f xs = (if xs = [] then None else Some (arg_min_list (GetTimeSecs f) xs))"

lemma fold_older: "fold (older f) xs r = oldest_of f (case r of None \<Rightarrow> filter (IsValid f) xs | Some x \<Rightarrow> x # filter (IsValid f) xs)"
proof (induction xs arbitrary: r)
  case Nil
  then show ?case by (simp add: oldest_of_def split: option.split)
next
  case (Cons x xs)
  show ?case
  proof (cases r)
    case None
    then show ?thesis using Cons by (simp add: older_def)
  next
    case (Some y)
    then show ?thesis using Cons
      by (auto simp: older_def oldest_of_def arg_min_skip arg_min_replace not_less simp del: arg_min_list.simps)
  qed
qed

section \<open>Properties\<close>

text \<open>
  C30: \<^verbatim>\<open>GetOldest\<close> returns the first of the records with the least time among those that \<^verbatim>\<open>IsValid\<close> accepts, and the null
  pointer if there is none. It accepts an erased record, whose time is the greatest one.
\<close>

theorem GetOldest_is_oldest:
  "GetOldest f = (let valid = filter (IsValid f) records in if valid = [] then None else Some (arg_min_list (GetTimeSecs f) valid))"
  by (simp add: GetOldest_def oldest_loop_fold fold_older oldest_of_def)

text \<open>
  C31: \<^verbatim>\<open>Append\<close> never finds an empty record. On a record that begins with 0xFF \<^verbatim>\<open>IsEmpty\<close> only moves the end pointer further and
  further, so with such a record \<^verbatim>\<open>Append\<close> does not return. If no record does, the whole area is erased and holds nothing but the new record afterwards; no
  byte outside the area changes.
\<close>

theorem append_outcome:
  assumes "nor_flash c" "fmc_ready s" "256 \<le> unat (FMC_SIZE s)"
  shows "((\<exists>r \<in> set records. flash s (of_nat r) = 0xFF) \<longrightarrow> Data_Append c data s = None) \<and>
     ((\<forall>r \<in> set records. flash s (of_nat r) \<noteq> 0xFF) \<longrightarrow>
       (\<exists>s'. Data_Append c data s = Some s' \<and>
          (\<forall>a. flash s' a = (if BEGIN \<le> unat a \<and> unat a < BEGIN + SIZE_DATA then data (unat a - BEGIN)
             else if BEGIN \<le> unat a \<and> unat a < END then 0xFF else flash s a))))"
proof (intro conjI impI)
  assume "\<exists>r \<in> set records. flash s (of_nat r) = 0xFF"
  then show "Data_Append c data s = None" by (auto simp: Data_Append_def FindFirstEmpty_def first_empty_eq)
next
  assume a: "\<forall>r \<in> set records. flash s (of_nat r) \<noteq> 0xFF"
  have "unat (of_nat BEGIN :: u32) = BEGIN" by simp
  then show "\<exists>s'. Data_Append c data s = Some s' \<and>
          (\<forall>a. flash s' a = (if BEGIN \<le> unat a \<and> unat a < BEGIN + SIZE_DATA then data (unat a - BEGIN)
             else if BEGIN \<le> unat a \<and> unat a < END then 0xFF else flash s a))"
    using append_full[OF assms a, of data] EraseFull_result(3)[OF assms] by (auto simp: flash_write_def)
qed

lemma record_in_area: "r \<in> set records \<Longrightarrow> unat (of_nat r :: u32) = r \<and> BEGIN \<le> r \<and> r < END"
proof -
  assume "r \<in> set records"
  then have "BEGIN \<le> r \<and> r < END" by (auto simp: records_from_def)
  then show ?thesis by (simp add: unat_of_nat_u32)
qed

definition full_storage :: "bool mach" where
  "full_storage = blank_device\<lparr>flash := \<lambda>a. if BEGIN \<le> unat a \<and> unat a < END then 0 else flash blank_device a\<rparr>"

theorem append_outcome_witness:
  "Data_Append instant_chip (\<lambda>_. 1) blank_device = None \<and>
   (\<exists>s'. Data_Append instant_chip (\<lambda>_. 1) full_storage = Some s' \<and> flash s' 0x08032000 = 1 \<and> flash s' 0x0803201C = 0xFF)"
proof
  have "BEGIN \<in> set records" by (subst records_simps) simp
  moreover have "flash blank_device (of_nat BEGIN) = 0xFF" by (simp add: blank_device_def)
  ultimately have "\<exists>r \<in> set records. flash blank_device (of_nat r) = 0xFF" by blast
  then show "Data_Append instant_chip (\<lambda>_. 1) blank_device = None"
    using append_outcome[OF nor_flash_instant blank_device_ready, of "\<lambda>_. 1"] by (simp add: blank_device_size)
next
  have size: "FMC_SIZE full_storage = 0x200"
    using blank_device_size by (simp add: FMC_SIZE_def rd16_def full_storage_def)
  have ready: "fmc_ready full_storage" using blank_device_ready by (simp add: fmc_ready_def size) (simp add: full_storage_def)
  have "\<forall>r \<in> set records. flash full_storage (of_nat r) \<noteq> 0xFF" using record_in_area by (simp add: full_storage_def)
  then obtain s' where "Data_Append instant_chip (\<lambda>_. 1) full_storage = Some s'"
      "\<And>a. flash s' a = (if BEGIN \<le> unat a \<and> unat a < BEGIN + SIZE_DATA then 1
             else if BEGIN \<le> unat a \<and> unat a < END then 0xFF else flash full_storage a)"
    using append_outcome[OF nor_flash_instant ready, of "\<lambda>_. 1"] size by auto
  then show "\<exists>s'. Data_Append instant_chip (\<lambda>_. 1) full_storage = Some s' \<and> flash s' 0x08032000 = 1 \<and> flash s' 0x0803201C = 0xFF"
    by simp
qed

end
