(* ===== verification/SystemClock.thy ===== *)
theory SystemClock
  imports HalInit
begin

unbundle bit_operations_syntax

text \<open>
  The clocks before \<^verbatim>\<open>main\<close>: \<^verbatim>\<open>system_gd32f30x.c\<close> of \<^verbatim>\<open>sources/Device/src/Hardware/CMSIS\<close>, which is the same file in the loader, as it is compiled with
  \<^verbatim>\<open>__SYSTEM_CLOCK_120M_PLL_HXTAL\<close>. The oscillators, the loop of the PLL and the power unit answer through \<open>hw\<close> between two reads of their registers. A wait that does not end
  is \<open>None\<close>; the delay loops of \<^verbatim>\<open>RCU_MODIFY\<close> change no register.
\<close>

section \<open>Registers\<close>

abbreviation RCU_APB1EN :: u32 where "RCU_APB1EN \<equiv> 0x4002101C"
abbreviation PMU_CTL :: u32 where "PMU_CTL \<equiv> 0x40007000"
abbreviation PMU_CS :: u32 where "PMU_CS \<equiv> 0x40007004"
abbreviation SCB_CPACR :: u32 where "SCB_CPACR \<equiv> 0xE000ED88"
abbreviation RCU_CTL_IRC8MSTB :: u32 where "RCU_CTL_IRC8MSTB \<equiv> 0x2"
abbreviation RCU_CTL_HXTALSTB :: u32 where "RCU_CTL_HXTALSTB \<equiv> 0x20000"
abbreviation RCU_CTL_PLLSTB :: u32 where "RCU_CTL_PLLSTB \<equiv> 0x2000000"
abbreviation RCU_APB1EN_PMUEN :: u32 where "RCU_APB1EN_PMUEN \<equiv> 0x10000000"
abbreviation PMU_CTL_LDOVS :: u32 where "PMU_CTL_LDOVS \<equiv> 0xC000"
abbreviation PMU_CTL_HDEN :: u32 where "PMU_CTL_HDEN \<equiv> 0x10000"
abbreviation PMU_CTL_HDS :: u32 where "PMU_CTL_HDS \<equiv> 0x20000"
abbreviation PMU_CS_HDRF :: u32 where "PMU_CS_HDRF \<equiv> 0x10000"
abbreviation PMU_CS_HDSRF :: u32 where "PMU_CS_HDSRF \<equiv> 0x20000"
abbreviation RCU_AHB_CKSYS_DIV1 :: u32 where "RCU_AHB_CKSYS_DIV1 \<equiv> 0"
abbreviation RCU_AHB_CKSYS_DIV2 :: u32 where "RCU_AHB_CKSYS_DIV2 \<equiv> 0x80"
abbreviation RCU_AHB_CKSYS_DIV4 :: u32 where "RCU_AHB_CKSYS_DIV4 \<equiv> 0x90"
abbreviation RCU_APB2_CKAHB_DIV1 :: u32 where "RCU_APB2_CKAHB_DIV1 \<equiv> 0"
abbreviation RCU_APB1_CKAHB_DIV2 :: u32 where "RCU_APB1_CKAHB_DIV2 \<equiv> 0x400"
abbreviation RCU_PLL_MUL17 :: u32 where "RCU_PLL_MUL17 \<equiv> 0x8000000"
abbreviation RCU_CKSYSSRC_PLL :: u32 where "RCU_CKSYSSRC_PLL \<equiv> 2"
abbreviation RCU_SCSS_PLL :: u32 where "RCU_SCSS_PLL \<equiv> 8"

section \<open>Operations\<close>

definition RCU_MODIFY :: "u32 \<Rightarrow> mem \<Rightarrow> mem" where
  "RCU_MODIFY delay m =
    (if delay \<noteq> 0 then
       (let m = m(RCU_CFG0 := m RCU_CFG0 OR RCU_AHB_CKSYS_DIV2)
         in m(RCU_CFG0 := m RCU_CFG0 OR RCU_AHB_CKSYS_DIV4))
     else m)"

definition hxtal_start :: "(mem \<Rightarrow> mem) \<Rightarrow> mem \<Rightarrow> mem option" where
  "hxtal_start hw m =
    (let m = m(RCU_CTL := m RCU_CTL OR RCU_CTL_HXTALEN);
         m = snd (poll_until (unat HXTAL_STARTUP_TIMEOUT) hw (\<lambda>m. m RCU_CTL AND RCU_CTL_HXTALSTB \<noteq> 0) m);
         m = hw m
      in if m RCU_CTL AND RCU_CTL_HXTALSTB = 0 then None else Some m)"

definition pll_config :: "mem \<Rightarrow> mem" where
  "pll_config m =
    (let m = m(RCU_APB1EN := m RCU_APB1EN OR RCU_APB1EN_PMUEN);
         m = m(PMU_CTL := m PMU_CTL OR PMU_CTL_LDOVS);
         m = m(RCU_CFG0 := m RCU_CFG0 OR RCU_AHB_CKSYS_DIV1);
         m = m(RCU_CFG0 := m RCU_CFG0 OR RCU_APB2_CKAHB_DIV1);
         m = m(RCU_CFG0 := m RCU_CFG0 OR RCU_APB1_CKAHB_DIV2);
         m = m(RCU_CFG0 := m RCU_CFG0 AND NOT (RCU_CFG0_PLLSEL OR RCU_CFG0_PREDV0));
         m = m(RCU_CFG0 := m RCU_CFG0 OR (RCU_PLLSRC_HXTAL_IRC48M OR RCU_CFG0_PREDV0));
         m = m(RCU_CFG0 := m RCU_CFG0 AND NOT (RCU_CFG0_PLLMF OR RCU_CFG0_PLLMF_4 OR RCU_CFG0_PLLMF_5));
         m = m(RCU_CFG0 := m RCU_CFG0 OR RCU_PLL_MUL17)
      in m(RCU_CTL := m RCU_CTL OR RCU_CTL_PLLEN))"

definition system_clock_120m_hxtal :: "(mem \<Rightarrow> mem) \<Rightarrow> mem \<Rightarrow> mem option" where
  "system_clock_120m_hxtal hw m = do {
     m \<leftarrow> hxtal_start hw m;
     m \<leftarrow> poll_set hw RCU_CTL RCU_CTL_PLLSTB (pll_config m);
     m \<leftarrow> poll_set hw PMU_CS PMU_CS_HDRF (m(PMU_CTL := m PMU_CTL OR PMU_CTL_HDEN));
     m \<leftarrow> poll_set hw PMU_CS PMU_CS_HDSRF (m(PMU_CTL := m PMU_CTL OR PMU_CTL_HDS));
     let m = m(RCU_CFG0 := m RCU_CFG0 AND NOT RCU_CFG0_SCS);
     let m = m(RCU_CFG0 := m RCU_CFG0 OR RCU_CKSYSSRC_PLL);
     poll_set hw RCU_CFG0 RCU_SCSS_PLL m
   }"

definition system_clock_config :: "(mem \<Rightarrow> mem) \<Rightarrow> mem \<Rightarrow> mem option" where
  "system_clock_config hw m = system_clock_120m_hxtal hw m"

definition SystemInit :: "(mem \<Rightarrow> mem) \<Rightarrow> mem \<Rightarrow> mem option" where
  "SystemInit hw m = do {
     let m = m(SCB_CPACR := m SCB_CPACR OR (push_bit 20 3 OR push_bit 22 3));
     let m = m(RCU_CTL := m RCU_CTL OR RCU_CTL_IRC8MEN);
     m \<leftarrow> poll_set hw RCU_CTL RCU_CTL_IRC8MSTB m;
     let m = RCU_MODIFY 0x50 m;
     let m = m(RCU_CFG0 := m RCU_CFG0 AND NOT RCU_CFG0_SCS);
     let m = m(RCU_CTL := m RCU_CTL AND NOT (RCU_CTL_PLLEN OR RCU_CTL_CKMEN OR RCU_CTL_HXTALEN));
     let m = m(RCU_INT := 0x9F0000);
     let m = m(RCU_CTL := m RCU_CTL AND NOT RCU_CTL_HXTALBPS);
     let m = m(RCU_CFG0 := 0);
     let m = m(RCU_CFG1 := 0);
     system_clock_config hw m
   }"

text \<open>The new value of \<^verbatim>\<open>SystemCoreClock\<close>.\<close>

definition SystemCoreClockUpdate :: "mem \<Rightarrow> u32" where
  "SystemCoreClockUpdate m =
    (let sws = GET_BITS (m RCU_CFG0) 2 3;
         clock = (if sws = SEL_IRC8M then IRC8M_VALUE
           else if sws = SEL_HXTAL then HXTAL_VALUE
           else if sws = SEL_PLL then
             (let pllsel = m RCU_CFG0 AND RCU_CFG0_PLLSEL;
                  ck_src = (if pllsel = RCU_PLLSRC_HXTAL_IRC48M then
                     (let pllpresel = m RCU_CFG1 AND RCU_CFG1_PLLPRESEL;
                          ck_src = (if pllpresel = RCU_PLLPRESRC_HXTAL then HXTAL_VALUE else IRC48M_VALUE);
                          predv0sel = m RCU_CFG0 AND RCU_CFG0_PREDV0
                       in if predv0sel = RCU_CFG0_PREDV0 then ck_src div 2 else ck_src)
                   else IRC8M_VALUE div 2);
                  pllmf = GET_BITS (m RCU_CFG0) 18 21;
                  pllmf = (if m RCU_CFG0 AND RCU_CFG0_PLLMF_4 \<noteq> 0 then pllmf OR 0x10 else pllmf);
                  pllmf = (if m RCU_CFG0 AND RCU_CFG0_PLLMF_5 \<noteq> 0 then pllmf OR 0x20 else pllmf);
                  pllmf = (if pllmf \<ge> 15 then pllmf + 1 else pllmf + 2);
                  pllmf = (if pllmf > 61 then 63 else pllmf)
               in ck_src * pllmf)
           else IRC8M_VALUE);
         idx = GET_BITS (m RCU_CFG0) 4 7;
         clk_exp = ([0, 0, 0, 0, 0, 0, 0, 0, 1, 2, 3, 4, 6, 7, 8, 9] :: nat list) ! unat idx
      in drop_bit clk_exp clock)"

section \<open>The two calculations of the clock\<close>

text \<open>
  \<^verbatim>\<open>SystemCoreClockUpdate\<close> and the driver's \<^verbatim>\<open>rcu_clock_freq_get\<close> read the same registers. They agree on every setting but one: the
  factor code 61 is 62 for the driver and 63 here.
\<close>

definition pll_code :: "mem \<Rightarrow> u32" where
  "pll_code m =
    (let p = GET_BITS (m RCU_CFG0) 18 21;
         p = (if m RCU_CFG0 AND RCU_CFG0_PLLMF_4 \<noteq> 0 then p OR 0x10 else p)
      in if m RCU_CFG0 AND RCU_CFG0_PLLMF_5 \<noteq> 0 then p OR 0x20 else p)"

lemma small_masks: "bit (63 :: u32) n \<longleftrightarrow> n < 6" "bit (15 :: u32) n \<longleftrightarrow> n < 4" "bit (16 :: u32) n \<longleftrightarrow> n = 4" "bit (32 :: u32) n \<longleftrightarrow> n = 5"
proof -
  have e: "(63 :: u32) = mask 6" "(15 :: u32) = mask 4" "(16 :: u32) = push_bit 4 1" "(32 :: u32) = push_bit 5 1"
    by (simp_all add: mask_eq_exp_minus_1)
  show "bit (63 :: u32) n \<longleftrightarrow> n < 6" unfolding e(1) bit_mask_iff by auto
  show "bit (15 :: u32) n \<longleftrightarrow> n < 4" unfolding e(2) bit_mask_iff by auto
  show "bit (16 :: u32) n \<longleftrightarrow> n = 4" unfolding e(3) bit_push_bit_iff bit_1_iff by auto
  show "bit (32 :: u32) n \<longleftrightarrow> n = 5" unfolding e(4) bit_push_bit_iff bit_1_iff by auto
qed

lemma pll_code_bound: "pll_code m \<le> 63"
proof -
  have "pll_code m AND 63 = pll_code m"
    by (rule bit_word_eqI) (auto simp: pll_code_def Let_def bit_simps small_masks simp del: bit_numeral_word_iff)
  then show ?thesis by (metis word_and_le1)
qed

lemma same_factor:
  assumes "p \<le> 63" "p \<noteq> (61 :: u32)"
  shows "(let q = (if p \<ge> 15 then p + 1 else p + 2) in if q > 61 then 63 else q) =
     (if p < 15 then p + 2 else if p \<ge> 15 \<and> p \<le> 62 then p + 1 else 63)"
proof -
  have b: "unat p \<le> 63" "unat p \<noteq> 61" using assms by (simp_all add: word_le_nat_alt word_unat_eq_iff)
  then have "unat (p + 1) = unat p + 1" "unat (p + 2) = unat p + 2" by (simp_all add: unat_word_ariths)
  then show ?thesis using b unfolding Let_def by (auto simp: word_le_nat_alt word_less_nat_alt word_unat_eq_iff not_le)
qed

lemma same_exponent:
  assumes "i < 16"
  shows "([0, 0, 0, 0, 0, 0, 0, 0, 1, 2, 3, 4, 6, 7, 8, 9] :: nat list) ! i =
     unat (ucast (([0, 0, 0, 0, 0, 0, 0, 0, 1, 2, 3, 4, 6, 7, 8, 9] :: u8 list) ! i) :: u32)"
proof -
  have "i \<in> set [0..<16]" using assms by simp
  moreover have "\<forall>i \<in> set [0..<16]. ([0, 0, 0, 0, 0, 0, 0, 0, 1, 2, 3, 4, 6, 7, 8, 9] :: nat list) ! i =
     unat (ucast (([0, 0, 0, 0, 0, 0, 0, 0, 1, 2, 3, 4, 6, 7, 8, 9] :: u8 list) ! i) :: u32)"
    by (simp add: upt_rec)
  ultimately show ?thesis by blast
qed

lemma clock_update_agrees:
  assumes "pll_code m \<noteq> 61"
  shows "SystemCoreClockUpdate m = rcu_clock_freq_get CK_AHB m"
proof -
  have i: "unat (GET_BITS (m RCU_CFG0) 4 7) < 16"
  proof -
    have "GET_BITS (m RCU_CFG0) 4 7 AND 15 = GET_BITS (m RCU_CFG0) 4 7"
      by (rule bit_word_eqI) (auto simp: bit_simps small_masks simp del: bit_numeral_word_iff)
    then have "GET_BITS (m RCU_CFG0) 4 7 \<le> 15" by (metis word_and_le1)
    then show ?thesis by (simp add: word_le_nat_alt)
  qed
  note f = same_factor[OF pll_code_bound assms, unfolded Let_def]
  show ?thesis
    unfolding SystemCoreClockUpdate_def rcu_clock_freq_get_def Let_def same_exponent[OF i]
      pll_code_def[of m, unfolded Let_def, symmetric] f
    by simp
qed

section \<open>The hardware\<close>

text \<open>
  What the code relies on, after the manual of the chip: an oscillator or the PLL that is switched on becomes stable and then stays so, the crystal within the time-out; the power unit
  reports the mode that is requested; the clock that is selected becomes the clock in use. The hardware changes only status bits.
\<close>

definition clock_hw :: "(mem \<Rightarrow> mem) \<Rightarrow> bool" where
  "clock_hw hw \<longleftrightarrow>
     (\<forall>m. hw m RCU_CTL AND RCU_CTL_HXTALEN = m RCU_CTL AND RCU_CTL_HXTALEN \<and> hw m RCU_CFG0 AND NOT RCU_CFG0_SCSS = m RCU_CFG0 AND NOT RCU_CFG0_SCSS \<and>
        hw m RCU_CFG0 AND RCU_CFG0_SCSS \<noteq> RCU_CFG0_SCSS \<and> hw m RCU_CFG1 = m RCU_CFG1) \<and>
     (\<forall>m. m RCU_CTL AND RCU_CTL_IRC8MEN \<noteq> 0 \<longrightarrow> (\<exists>i. (hw ^^ Suc i) m RCU_CTL AND RCU_CTL_IRC8MSTB \<noteq> 0)) \<and>
     (\<forall>m. m RCU_CTL AND RCU_CTL_HXTALEN \<noteq> 0 \<longrightarrow> (\<exists>i < 65535. (hw ^^ Suc i) m RCU_CTL AND RCU_CTL_HXTALSTB \<noteq> 0)) \<and>
     (\<forall>m. m RCU_CTL AND RCU_CTL_HXTALEN \<noteq> 0 \<longrightarrow> m RCU_CTL AND RCU_CTL_HXTALSTB \<noteq> 0 \<longrightarrow> hw m RCU_CTL AND RCU_CTL_HXTALSTB \<noteq> 0) \<and>
     (\<forall>m. m RCU_CTL AND RCU_CTL_PLLEN \<noteq> 0 \<longrightarrow> (\<exists>i. (hw ^^ Suc i) m RCU_CTL AND RCU_CTL_PLLSTB \<noteq> 0)) \<and>
     (\<forall>m. m PMU_CTL AND PMU_CTL_HDEN \<noteq> 0 \<longrightarrow> (\<exists>i. (hw ^^ Suc i) m PMU_CS AND PMU_CS_HDRF \<noteq> 0)) \<and>
     (\<forall>m. m PMU_CTL AND PMU_CTL_HDS \<noteq> 0 \<longrightarrow> (\<exists>i. (hw ^^ Suc i) m PMU_CS AND PMU_CS_HDSRF \<noteq> 0)) \<and>
     (\<forall>m. m RCU_CFG0 AND RCU_CFG0_SCS = 2 \<longrightarrow> (\<exists>i. (hw ^^ Suc i) m RCU_CFG0 AND RCU_SCSS_PLL \<noteq> 0))"

lemma clock_hwD:
  assumes "clock_hw hw"
  shows "hw m RCU_CTL AND RCU_CTL_HXTALEN = m RCU_CTL AND RCU_CTL_HXTALEN"
    "hw m RCU_CFG0 AND RCU_CFG0_SCSS \<noteq> RCU_CFG0_SCSS"
    "m RCU_CTL AND RCU_CTL_IRC8MEN \<noteq> 0 \<Longrightarrow> \<exists>i. (hw ^^ Suc i) m RCU_CTL AND RCU_CTL_IRC8MSTB \<noteq> 0"
    "m RCU_CTL AND RCU_CTL_HXTALEN \<noteq> 0 \<Longrightarrow> \<exists>i < 65535. (hw ^^ Suc i) m RCU_CTL AND RCU_CTL_HXTALSTB \<noteq> 0"
    "m RCU_CTL AND RCU_CTL_HXTALEN \<noteq> 0 \<Longrightarrow> m RCU_CTL AND RCU_CTL_HXTALSTB \<noteq> 0 \<Longrightarrow> hw m RCU_CTL AND RCU_CTL_HXTALSTB \<noteq> 0"
    "m RCU_CTL AND RCU_CTL_PLLEN \<noteq> 0 \<Longrightarrow> \<exists>i. (hw ^^ Suc i) m RCU_CTL AND RCU_CTL_PLLSTB \<noteq> 0"
    "m PMU_CTL AND PMU_CTL_HDEN \<noteq> 0 \<Longrightarrow> \<exists>i. (hw ^^ Suc i) m PMU_CS AND PMU_CS_HDRF \<noteq> 0"
    "m PMU_CTL AND PMU_CTL_HDS \<noteq> 0 \<Longrightarrow> \<exists>i. (hw ^^ Suc i) m PMU_CS AND PMU_CS_HDSRF \<noteq> 0"
    "m RCU_CFG0 AND RCU_CFG0_SCS = 2 \<Longrightarrow> \<exists>i. (hw ^^ Suc i) m RCU_CFG0 AND RCU_SCSS_PLL \<noteq> 0"
proof -
  note c = assms[unfolded clock_hw_def]
  show "hw m RCU_CTL AND RCU_CTL_HXTALEN = m RCU_CTL AND RCU_CTL_HXTALEN" "hw m RCU_CFG0 AND RCU_CFG0_SCSS \<noteq> RCU_CFG0_SCSS"
    using spec[OF c[THEN conjunct1], of m] by blast+
qed (use assms[unfolded clock_hw_def] in \<open>blast+\<close>)

text \<open>The configuration, apart from the status of the switch.\<close>

definition configured :: "u32 \<Rightarrow> mem \<Rightarrow> bool" where
  "configured v m \<longleftrightarrow> m RCU_CFG0 AND NOT RCU_CFG0_SCSS = v \<and> m RCU_CFG1 = 0"

lemma hw_configured: "clock_hw hw \<Longrightarrow> configured v m \<Longrightarrow> configured v (hw m)"
  by (simp add: clock_hw_def configured_def)

lemma poll_set_settles:
  assumes "\<exists>i. (hw ^^ Suc i) m a AND k \<noteq> 0" "\<And>m. P m \<Longrightarrow> P (hw m)" "P m"
  shows "\<exists>m' m0. poll_set hw a k m = Some m' \<and> m' a AND k \<noteq> 0 \<and> P m' \<and> m' = hw m0"
proof -
  have keep: "P ((hw ^^ n) m)" for n by (induction n) (simp_all add: assms(2,3))
  obtain i where "(hw ^^ Suc i) m a AND k \<noteq> 0" using assms(1) by blast
  from poll_set_returns[OF this] obtain j where "poll_set hw a k m = Some ((hw ^^ Suc j) m)" "(hw ^^ Suc j) m a AND k \<noteq> 0" by blast
  then show ?thesis using keep[of "Suc j"] by (intro exI[of _ "(hw ^^ Suc j) m"] exI[of _ "(hw ^^ j) m"]) simp
qed

lemma clock_settles:
  assumes "clock_hw hw" "\<exists>i. (hw ^^ Suc i) m a AND k \<noteq> 0" "configured v m"
  shows "\<exists>m' m0. poll_set hw a k m = Some m' \<and> m' a AND k \<noteq> 0 \<and> configured v m' \<and> m' = hw m0"
  using assms(2) hw_configured[OF assms(1)] assms(3) by (rule poll_set_settles)

lemma HXTAL_reads: "unat HXTAL_STARTUP_TIMEOUT = 65535"
  by simp

lemma hxtal_start_result:
  assumes "clock_hw hw" "configured v m"
  shows "\<exists>m'. hxtal_start hw m = Some m' \<and> configured v m'"
proof -
  let ?m = "m(RCU_CTL := m RCU_CTL OR RCU_CTL_HXTALEN)" and ?ready = "\<lambda>m. m RCU_CTL AND RCU_CTL_HXTALSTB \<noteq> 0"
  let ?P = "\<lambda>m. configured v m \<and> m RCU_CTL AND RCU_CTL_HXTALEN \<noteq> 0"
  have en: "(m RCU_CTL OR RCU_CTL_HXTALEN) AND RCU_CTL_HXTALEN = RCU_CTL_HXTALEN" by (rule or_and_self)
  have P: "?P ?m" using assms(2) en by (simp add: configured_def)
  obtain ok m1 where p: "poll_until (unat HXTAL_STARTUP_TIMEOUT) hw ?ready ?m = (ok, m1)" by fastforce
  obtain i where "i < 65535" "?ready ((hw ^^ Suc i) ?m)"
    using clock_hwD(4)[where m = ?m, OF assms(1) conjunct2[OF P]] by blast
  then have "fst (poll_until (unat HXTAL_STARTUP_TIMEOUT) hw ?ready ?m)"
    unfolding poll_until_iff using HXTAL_reads by (intro exI[of _ "Suc i"]) (simp only: zero_less_Suc Suc_le_eq simp_thms)
  then have "poll_until (unat HXTAL_STARTUP_TIMEOUT) hw ?ready ?m = (True, m1)" unfolding p by (simp only: fst_conv simp_thms)
  then have r: "?ready m1" by (rule poll_until_ready)
  have e: "hw m RCU_CTL AND RCU_CTL_HXTALEN = m RCU_CTL AND RCU_CTL_HXTALEN" for m by (rule clock_hwD(1)[OF assms(1)])
  have step: "?P (hw m)" if "?P m" for m using that hw_configured[OF assms(1)] unfolding e by blast
  have k: "?P m1" using poll_until_keeps[of ?P hw ?m "unat HXTAL_STARTUP_TIMEOUT" ?ready, OF step P] unfolding p snd_conv .
  have "?ready (hw m1)" by (rule clock_hwD(5)[where m = m1, OF assms(1) conjunct2[OF k] r])
  then have "hxtal_start hw m = Some (hw m1)" unfolding hxtal_start_def Let_def p snd_conv by (simp only: if_False simp_thms)
  then show ?thesis using hw_configured[OF assms(1)] conjunct1[OF k] by blast
qed

lemma and_rest: "x AND NOT k = 0 \<Longrightarrow> x = x AND (k :: u32)"
  by (auto simp: bit_eq_iff bit_simps)

lemma pll_config_result:
  assumes "configured 0 m"
  shows "configured 0x8030400 (pll_config m)"
proof -
  define x where "x = m RCU_CFG0"
  have "((((((x AND 0xC) OR 0x400) AND NOT 0x30000) OR 0x30000) AND NOT 0x483C0000) OR 0x8000000) AND NOT 0xC = (0x8030400 :: u32)"
    by (simp add: bit.conj_disj_distrib2 and.assoc)
  moreover have "x AND 0xC = x" using assms and_rest[of x "0xC"] by (simp add: configured_def x_def)
  ultimately show ?thesis using assms by (simp add: configured_def pll_config_def x_def)
qed

lemma select_pll:
  assumes "configured 0x8030400 m"
  defines "m1 \<equiv> m(RCU_CFG0 := m RCU_CFG0 AND NOT RCU_CFG0_SCS)"
  defines "m2 \<equiv> m1(RCU_CFG0 := m1 RCU_CFG0 OR RCU_CKSYSSRC_PLL)"
  shows "configured 0x8030402 m2" "m2 RCU_CFG0 AND RCU_CFG0_SCS = 2"
proof -
  define x where "x = m RCU_CFG0"
  have x: "x AND NOT 0xC = 0x8030400" using assms(1) by (simp add: configured_def x_def)
  have e: "m2 RCU_CFG0 = (x AND NOT 3) OR 2" by (simp add: m1_def m2_def x_def)
  have "((x AND NOT 3) OR 2) AND NOT 0xC = ((x AND NOT 3) AND NOT 0xC) OR (2 AND NOT 0xC)" by (rule bit.conj_disj_distrib2)
  also have "\<dots> = ((x AND NOT 0xC) AND NOT 3) OR (2 AND NOT 0xC)" by (simp only: ac_simps)
  also have "\<dots> = 0x8030402" unfolding x by simp
  finally show "configured 0x8030402 m2" using assms(1) e by (simp add: configured_def m1_def m2_def)
  show "m2 RCU_CFG0 AND RCU_CFG0_SCS = 2" unfolding e by (simp add: bit.conj_disj_distrib2 and.assoc)
qed

lemma one_bit_and: "(x :: u32) AND 8 = (if bit x 3 then 8 else 0)" "x AND 4 = (if bit x 2 then 4 else 0)"
proof -
  have b: "bit (8 :: u32) n \<longleftrightarrow> n = 3" "bit (4 :: u32) n \<longleftrightarrow> n = 2" for n using one_bit[of 3 n] one_bit[of 2 n] by simp_all
  show "x AND 8 = (if bit x 3 then 8 else 0)" "x AND 4 = (if bit x 2 then 4 else 0)"
    by (auto intro!: bit_word_eqI simp: bit_and_iff b simp del: bit_numeral_word_iff)
qed

lemma in_use:
  assumes "x AND NOT 0xC = (v :: u32)" "x AND 8 \<noteq> 0" "x AND 0xC \<noteq> 0xC"
  shows "x = v OR 8"
proof -
  have c: "(0xC :: u32) = 8 OR 4" by simp
  have "x AND 0xC = (x AND 8) OR (x AND 4)" unfolding c by (rule bit.conj_disj_distrib)
  then have "x AND 0xC = 8" using assms(2,3) by (simp add: one_bit_and split: if_splits)
  moreover have "x = (x AND NOT 0xC) OR (x AND 0xC)" unfolding bit.conj_disj_distrib[symmetric] by simp
  ultimately show ?thesis using assms(1) by simp
qed

lemma system_clock_result:
  assumes "clock_hw hw" "configured 0 m"
  shows "\<exists>m'. system_clock_120m_hxtal hw m = Some m' \<and> m' RCU_CFG0 = 0x803040A \<and> m' RCU_CFG1 = 0"
proof -
  note settles = clock_settles[OF assms(1)]
  have frame: "configured v (m(a := x))" if "configured v m" "a = PMU_CTL" for v m a x using that by (simp add: configured_def)
  obtain m1 where m1: "hxtal_start hw m = Some m1" "configured 0 m1" using hxtal_start_result[OF assms] by blast
  have "pll_config m1 RCU_CTL AND RCU_CTL_PLLEN \<noteq> 0" by (simp add: pll_config_def or_and_self)
  then have "\<exists>i. (hw ^^ Suc i) (pll_config m1) RCU_CTL AND RCU_CTL_PLLSTB \<noteq> 0" by (rule clock_hwD(6)[OF assms(1)])
  from settles[OF this pll_config_result[OF m1(2)]]
  obtain m2 where m2: "poll_set hw RCU_CTL RCU_CTL_PLLSTB (pll_config m1) = Some m2" "configured 0x8030400 m2" by blast
  let ?m3 = "m2(PMU_CTL := m2 PMU_CTL OR PMU_CTL_HDEN)"
  have "\<exists>i. (hw ^^ Suc i) ?m3 PMU_CS AND PMU_CS_HDRF \<noteq> 0" by (rule clock_hwD(7)[OF assms(1)]) (simp add: or_and_self)
  from settles[OF this frame[OF m2(2) refl]]
  obtain m3 where m3: "poll_set hw PMU_CS PMU_CS_HDRF ?m3 = Some m3" "configured 0x8030400 m3" by blast
  let ?m4 = "m3(PMU_CTL := m3 PMU_CTL OR PMU_CTL_HDS)"
  have "\<exists>i. (hw ^^ Suc i) ?m4 PMU_CS AND PMU_CS_HDSRF \<noteq> 0" by (rule clock_hwD(8)[OF assms(1)]) (simp add: or_and_self)
  from settles[OF this frame[OF m3(2) refl]]
  obtain m4 where m4: "poll_set hw PMU_CS PMU_CS_HDSRF ?m4 = Some m4" "configured 0x8030400 m4" by blast
  let ?m5 = "m4(RCU_CFG0 := m4 RCU_CFG0 AND NOT RCU_CFG0_SCS)"
  let ?m6 = "?m5(RCU_CFG0 := ?m5 RCU_CFG0 OR RCU_CKSYSSRC_PLL)"
  have "\<exists>i. (hw ^^ Suc i) ?m6 RCU_CFG0 AND RCU_SCSS_PLL \<noteq> 0" by (rule clock_hwD(9)[where m = ?m6, OF assms(1) select_pll(2)[OF m4(2)]])
  from settles[OF this select_pll(1)[OF m4(2)]]
  obtain m6 k where m6: "poll_set hw RCU_CFG0 RCU_SCSS_PLL ?m6 = Some m6" "configured 0x8030402 m6" "m6 RCU_CFG0 AND 8 \<noteq> 0" "m6 = hw k" by blast
  have "m6 RCU_CFG0 AND RCU_CFG0_SCSS \<noteq> RCU_CFG0_SCSS" unfolding m6(4) by (rule clock_hwD(2)[OF assms(1)])
  then have "m6 RCU_CFG0 = 0x803040A" using in_use[of "m6 RCU_CFG0" "0x8030402"] m6(2,3) by (simp add: configured_def)
  moreover have "system_clock_120m_hxtal hw m = Some m6"
    unfolding system_clock_120m_hxtal_def m1(1) m2(1) m3(1) m4(1) Let_def Option.bind.bind_lunit using m6(1) .
  ultimately show ?thesis using m6(2) by (simp add: configured_def)
qed

lemma SystemInit_result:
  assumes "clock_hw hw"
  shows "\<exists>m'. SystemInit hw m = Some m' \<and> m' RCU_CFG0 = 0x803040A \<and> m' RCU_CFG1 = 0"
proof -
  let ?m = "m(SCB_CPACR := m SCB_CPACR OR (push_bit 20 3 OR push_bit 22 3))"
  let ?m0 = "?m(RCU_CTL := ?m RCU_CTL OR RCU_CTL_IRC8MEN)"
  have "\<exists>i. (hw ^^ Suc i) ?m0 RCU_CTL AND RCU_CTL_IRC8MSTB \<noteq> 0" by (rule clock_hwD(3)[OF assms]) (simp add: or_and_self)
  then obtain m1 where m1: "poll_set hw RCU_CTL RCU_CTL_IRC8MSTB ?m0 = Some m1" using poll_set_settles[of hw ?m0 _ _ "\<lambda>_. True"] by blast
  have "configured 0 (k(RCU_CFG0 := 0, RCU_CFG1 := 0))" for k by (simp add: configured_def)
  then show ?thesis
    unfolding SystemInit_def Let_def m1 Option.bind.bind_lunit system_clock_config_def by (intro system_clock_result[OF assms])
qed

section \<open>Properties\<close>

text \<open>
  C34: the clocks are not the ones that the rest of the program counts with. With a crystal of 14.7456 MHz, halved and multiplied by 17, \<^verbatim>\<open>SystemInit\<close> returns with a system clock of 125337600 Hz, above the
  120 MHz of the chip; the driver and \<^verbatim>\<open>SystemCoreClockUpdate\<close>, which is not called, agree on it. \<^verbatim>\<open>systick_config\<close>, which counts with the initial 120000000 of \<^verbatim>\<open>SystemCoreClock\<close>, then sets
  ticks of exactly 120000 cycles where a millisecond has 125337 and more: a tick lasts 120000000 / 125337600 of a millisecond, 4.26 percent less than one. The port of the modem gets exactly its rate.
\<close>

theorem clock_too_fast:
  assumes "clock_hw hw"
  shows "\<exists>m'. SystemInit hw m = Some m' \<and> rcu_clock_freq_get CK_SYS m' = 125337600 \<and> rcu_clock_freq_get CK_AHB m' = 125337600 \<and>
     rcu_clock_freq_get CK_APB2 m' = 125337600 \<and> rcu_clock_freq_get CK_APB1 m' = 62668800 \<and> SystemCoreClockUpdate m' = 125337600 \<and>
     115200 * HAL_USART_GPRS_Init m' (USART_BAUD UART3) = rcu_clock_freq_get CK_APB1 m' \<and>
     (\<exists>m2. systick_config m' = Some m2 \<and> unat (m2 SysTick_LOAD) + 1 = 120000 \<and> 1000 * (unat (m2 SysTick_LOAD) + 1) = unat SystemCoreClock \<and>
       1000 * (unat (m2 SysTick_LOAD) + 1) < unat (rcu_clock_freq_get CK_AHB m') \<and>
       (957 / 1000 :: rat) < 1000 * of_nat (unat (m2 SysTick_LOAD) + 1) / of_nat (unat (rcu_clock_freq_get CK_AHB m')) \<and>
       1000 * of_nat (unat (m2 SysTick_LOAD) + 1) / of_nat (unat (rcu_clock_freq_get CK_AHB m')) < (958 / 1000 :: rat))"
proof -
  obtain m' where m': "SystemInit hw m = Some m'" "m' RCU_CFG0 = 0x803040A" "m' RCU_CFG1 = 0" using SystemInit_result[OF assms] by blast
  have f: "rcu_clock_freq_get CK_SYS m' = 125337600" "rcu_clock_freq_get CK_AHB m' = 125337600" "rcu_clock_freq_get CK_APB2 m' = 125337600"
      "rcu_clock_freq_get CK_APB1 m' = 62668800" "SystemCoreClockUpdate m' = 125337600"
    by (simp_all add: rcu_clock_freq_get_def SystemCoreClockUpdate_def Let_def m'(2,3))
  have b: "HAL_USART_GPRS_Init m' (USART_BAUD UART3) = 544" unfolding gprs_init_baud by (simp add: usart_baudrate_set_def f(4))
  have "\<exists>m2. systick_config m' = Some m2 \<and> m2 SysTick_LOAD = 119999"
    by (simp add: systick_config_def SysTick_Config_def SysTick_SetPriority_def Let_def)
  then show ?thesis using m'(1) f b by auto
qed

text \<open>Hardware that answers at once.\<close>

definition quick_clock :: "mem \<Rightarrow> mem" where
  "quick_clock m = m(RCU_CTL := m RCU_CTL OR 0x2020002, PMU_CS := 0x30000,
     RCU_CFG0 := (m RCU_CFG0 AND NOT RCU_CFG0_SCSS) OR (if m RCU_CFG0 AND RCU_CFG0_SCS = 2 then 8 else 0))"

lemma quick_clock_hw: "clock_hw quick_clock"
proof -
  have now: "\<exists>i. (quick_clock ^^ Suc i) m a AND k \<noteq> 0" if "quick_clock m a AND k \<noteq> 0" for m a k using that by (intro exI[of _ 0]) simp
  have early: "\<exists>i < 65535. (quick_clock ^^ Suc i) m a AND k \<noteq> 0" if "quick_clock m a AND k \<noteq> 0" for m a k using that by (intro exI[of _ 0]) simp
  show ?thesis
    unfolding clock_hw_def
    by (intro conjI allI impI now early)
      (simp_all add: quick_clock_def bit.conj_disj_distrib2 and.assoc)
qed

theorem clock_too_fast_witness:
  "\<exists>m'. SystemInit quick_clock (\<lambda>_. 0) = Some m' \<and> rcu_clock_freq_get CK_SYS m' = 125337600"
  using clock_too_fast[OF quick_clock_hw, of "\<lambda>_. 0"] by blast

end
