(* ===== verification/SerialText.thy ===== *)
theory SerialText
  imports MqttRequest
begin

text \<open>
  Formatted text and the two serial ports: \<^verbatim>\<open>SIM868_transmit.cpp\<close> down to the port, \<^verbatim>\<open>HAL_USART_GPRS::Transmit\<close> for strings and
  \<^verbatim>\<open>HAL_USART_LOG::Transmit\<close> (\<^verbatim>\<open>HAL_USART.cpp\<close>), the log (\<^verbatim>\<open>sources/common/Utils/Log.cpp\<close>) and the class \<^verbatim>\<open>String\<close>
  (\<^verbatim>\<open>sources/common/Utils/String.h\<close>). \<open>vsprintf\<close> is the function of the C library for the conversions that the program uses. \<open>None\<close> is a call without a
  defined result: a conversion without a fitting argument, a text longer than its array, or a port that never becomes ready.
\<close>

section \<open>Formatting\<close>

text \<open>An argument: a 32-bit number, a string, or a floating-point number, of which only the text of \<^verbatim>\<open>%f\<close> matters.\<close>

datatype arg = Num u32 | Str string | Flt string

fun hex_digits :: "nat \<Rightarrow> string" where
  "hex_digits n = (if n < 16 then [] else hex_digits (n div 16)) @ [''0123456789ABCDEF'' ! (n mod 16)]"

declare hex_digits.simps [simp del]

definition pad_text :: "bool \<Rightarrow> nat \<Rightarrow> string \<Rightarrow> string" where
  "pad_text zero width s =
    (case s of
       CHR ''-'' # ds \<Rightarrow> (if zero then CHR ''-'' # replicate (width - length s) (CHR ''0'') @ ds
                          else replicate (width - length s) (CHR '' '') @ s)
     | _ \<Rightarrow> replicate (width - length s) (if zero then CHR ''0'' else CHR '' '') @ s)"

definition conversion :: "bool \<Rightarrow> nat \<Rightarrow> char \<Rightarrow> arg \<Rightarrow> string option" where
  "conversion zero width c a =
    (case a of
       Num w \<Rightarrow>
         (if c = CHR ''d'' then Some (pad_text zero width (format_d (sint w)))
          else if c = CHR ''u'' then Some (pad_text zero width (decimal (unat w)))
          else if c = CHR ''X'' then Some (pad_text zero width (hex_digits (unat w)))
          else if c = CHR ''c'' \<and> \<not> zero then Some (pad_text False width [char_of (unat w)])
          else None)
     | Str s \<Rightarrow> (if c = CHR ''s'' \<and> \<not> zero then Some (replicate (width - length s) (CHR '' '') @ s) else None)
     | Flt s \<Rightarrow> (if c = CHR ''f'' then Some (pad_text zero width s) else None))"

text \<open>The third argument is \<open>Some (zero, width)\<close> behind a \<^verbatim>\<open>%\<close> sign.\<close>

fun format_loop :: "string \<Rightarrow> arg list \<Rightarrow> (bool \<times> nat) option \<Rightarrow> string option" where
  "format_loop [] args None = Some []"
| "format_loop [] args (Some _) = None"
| "format_loop (c # cs) args None =
    (if c = CHR ''%'' then format_loop cs args (Some (False, 0)) else map_option ((#) c) (format_loop cs args None))"
| "format_loop (c # cs) args (Some (zero, width)) =
    (if is_digit c then
       (if c = CHR ''0'' \<and> width = 0 then format_loop cs args (Some (True, 0))
        else format_loop cs args (Some (zero, 10 * width + (of_char c - 48))))
     else if c = CHR ''%'' then
       (if zero \<or> width \<noteq> 0 then None else map_option ((#) c) (format_loop cs args None))
     else
       (case args of
          [] \<Rightarrow> None
        | a # as \<Rightarrow>
            (case conversion zero width c a of
               None \<Rightarrow> None
             | Some t \<Rightarrow> map_option ((@) t) (format_loop cs as None))))"

definition vsprintf :: "string \<Rightarrow> arg list \<Rightarrow> string option" where
  "vsprintf format args = format_loop format args None"

text \<open>Formatting into an array of \<open>n\<close> characters; what is read from it ends at the first zero.\<close>

definition print_into :: "nat \<Rightarrow> string \<Rightarrow> arg list \<Rightarrow> string option" where
  "print_into n format args =
    (case vsprintf format args of
       None \<Rightarrow> None
     | Some t \<Rightarrow> (if length t < n then Some (c_str t) else None))"

section \<open>The port of the modem\<close>

definition HAL_USART_GPRS_Transmit_string :: "(mem \<Rightarrow> mem) \<Rightarrow> string \<Rightarrow> mem \<Rightarrow> mem option" where
  "HAL_USART_GPRS_Transmit_string hw message m = HAL_USART_GPRS_Transmit hw (map of_char message) m"

definition Transmit_With0D :: "(mem \<Rightarrow> mem) \<Rightarrow> string \<Rightarrow> mem \<Rightarrow> mem option" where
  "Transmit_With0D hw message m =
    (case HAL_USART_GPRS_Transmit_string hw message m of
       None \<Rightarrow> None
     | Some m \<Rightarrow> HAL_USART_GPRS_Transmit_string hw [CHR 0x0D] m)"

definition Transmit_RAW :: "(mem \<Rightarrow> mem) \<Rightarrow> string \<Rightarrow> mem \<Rightarrow> mem option" where
  "Transmit_RAW hw message m = HAL_USART_GPRS_Transmit_string hw message m"

definition Transmit_UINT8 :: "(mem \<Rightarrow> mem) \<Rightarrow> u8 \<Rightarrow> mem \<Rightarrow> mem option" where
  "Transmit_UINT8 hw byte m = HAL_USART_GPRS_Transmit hw [byte] m"

definition Transmit_Format :: "(mem \<Rightarrow> mem) \<Rightarrow> string \<Rightarrow> arg \<Rightarrow> mem \<Rightarrow> mem option" where
  "Transmit_Format hw format param m =
    (case print_into 64 format [param] of None \<Rightarrow> None | Some buffer \<Rightarrow> Transmit_With0D hw buffer m)"

section \<open>The log\<close>

definition HAL_USART_LOG_Transmit :: "(mem \<Rightarrow> mem) \<Rightarrow> string \<Rightarrow> arg list \<Rightarrow> mem \<Rightarrow> mem option" where
  "HAL_USART_LOG_Transmit hw format args m =
    (case print_into 2048 format args of
       None \<Rightarrow> None
     | Some message \<Rightarrow>
         (let size = length message in
          if size < 2 \<or> (message ! (size - 2) \<noteq> CHR 0x0D \<and> message ! (size - 1) \<noteq> CHR 0x0A) then
            (if size + 2 < 2048 then HAL_USART_LOG_TransmitRAW hw (message @ [CHR 0x0D, CHR 0x0A]) m else None)
          else HAL_USART_LOG_TransmitRAW hw message m))"

definition Log_Write :: "(mem \<Rightarrow> mem) \<Rightarrow> string \<Rightarrow> arg list \<Rightarrow> mem \<Rightarrow> mem option" where
  "Log_Write hw format args m =
    (case print_into 256 format args of
       None \<Rightarrow> None
     | Some message \<Rightarrow>
         (case print_into 300 (''%s'' @ [CHR 0x0D, CHR 0x0A]) [Str message] of
            None \<Rightarrow> None
          | Some buffer \<Rightarrow> HAL_USART_LOG_TransmitRAW hw buffer m))"

text \<open>The first component of the state is the static \<^verbatim>\<open>counter\<close>.\<close>

definition trace_gap :: string where
  "trace_gap = replicate 34 (CHR '' '')"

definition trace_format :: string where
  "trace_format = ''%d : %s'' @ trace_gap @ ''%s:%d''"

definition Log_WriteTrace :: "(mem \<Rightarrow> mem) \<Rightarrow> string \<Rightarrow> u32 \<Rightarrow> string \<Rightarrow> arg list \<Rightarrow> u32 \<times> mem \<Rightarrow> (u32 \<times> mem) option" where
  "Log_WriteTrace hw file line format args s =
    (case print_into 256 format args of
       None \<Rightarrow> None
     | Some message \<Rightarrow>
         (case print_into 512 trace_format [Num (fst s), Str message, Str file, Num line] of
            None \<Rightarrow> None
          | Some buffer \<Rightarrow> map_option (Pair (fst s + 1)) (HAL_USART_LOG_Transmit hw buffer [] (snd s))))"

definition Log_Error :: "(mem \<Rightarrow> mem) \<Rightarrow> string \<Rightarrow> u32 \<Rightarrow> string \<Rightarrow> arg list \<Rightarrow> mem \<Rightarrow> mem option" where
  "Log_Error hw file line format args m =
    (case print_into 256 format args of
       None \<Rightarrow> None
     | Some message \<Rightarrow>
         (case print_into 300 (''                !!! ERROR !!! %s : %s:%d'' @ [CHR 0x0D, CHR 0x0A]) [Str message, Str file, Num line] of
            None \<Rightarrow> None
          | Some buffer \<Rightarrow> HAL_USART_LOG_TransmitRAW hw buffer m))"

section \<open>Strings\<close>

text \<open>
  A \<^verbatim>\<open>String\<close> is its text, or \<open>None\<close> for the null pointer. \<open>nul\<close> is what \<^verbatim>\<open>strlen\<close> reads at address 0, \<open>None\<close> if such a read stops
  the program.
\<close>

definition String_Size :: "string option \<Rightarrow> string option \<Rightarrow> nat option" where
  "String_Size nul buffer = map_option length (case buffer of None \<Rightarrow> nul | Some b \<Rightarrow> Some b)"

definition String_Clear :: "string option \<Rightarrow> string option" where
  "String_Clear buffer = None"

definition String_Set :: "string option \<Rightarrow> string \<Rightarrow> string option \<Rightarrow> string option option" where
  "String_Set nul string buffer =
    (case String_Size nul buffer of
       None \<Rightarrow> None
     | Some n \<Rightarrow> (let buffer = (if n \<noteq> 0 then String_Clear buffer else buffer) in Some (Some string)))"

definition String_format :: "string option \<Rightarrow> string \<Rightarrow> arg list \<Rightarrow> string option option" where
  "String_format nul format args =
    (case print_into 2048 format args of None \<Rightarrow> None | Some data \<Rightarrow> String_Set nul data None)"

section \<open>Laws of the formatting\<close>

lemma letters_no_digits [simp]:
  "\<not> is_digit (CHR ''d'')" "\<not> is_digit (CHR ''u'')" "\<not> is_digit (CHR ''s'')" "\<not> is_digit (CHR ''X'')" "\<not> is_digit (CHR ''c'')"
  "\<not> is_digit (CHR ''f'')" "\<not> is_digit (CHR ''%'')" "\<not> is_digit (CHR 0x00)" "\<not> is_digit (CHR 0x0A)" "\<not> is_digit (CHR 0x0D)"
  by (simp_all add: is_digit_def)

lemma pad_text_0 [simp]: "pad_text z 0 s = s"
  by (cases s) (auto simp: pad_text_def split: char.splits list.splits bool.splits)

lemma conversions [simp]:
  "conversion False 0 (CHR ''d'') (Num w) = Some (format_d (sint w))" "conversion False 0 (CHR ''u'') (Num w) = Some (decimal (unat w))"
  "conversion False 0 (CHR ''s'') (Str t) = Some t"
  by (simp_all add: conversion_def)

lemma format_literal [simp]:
  "CHR ''%'' \<notin> set s \<Longrightarrow> format_loop (s @ cs) args None = map_option ((@) s) (format_loop cs args None)"
proof (induction s)
  case (Cons c s)
  then show ?case by (cases "format_loop cs args None") auto
next
  case Nil
  then show ?case by (cases "format_loop cs args None") auto
qed

lemma format_plain: "CHR ''%'' \<notin> set s \<Longrightarrow> format_loop s args None = Some s"
  using format_literal[of s "[]" args] by simp

text \<open>A conversion without an argument has no result, wherever it stands.\<close>

lemma format_missing:
  assumes "CHR ''%'' \<notin> set s" "c \<in> {CHR ''d'', CHR ''u'', CHR ''s'', CHR ''X'', CHR ''c'', CHR ''f''}"
  shows "format_loop (s @ CHR ''%'' # c # cs) [] None = None"
  using assms by auto

lemma c_str_append: "CHR 0x00 \<notin> set s \<Longrightarrow> c_str (s @ r) = s @ c_str r"
  by (induction s) (auto simp: c_str_def)

lemma c_str_id: "CHR 0x00 \<notin> set s \<Longrightarrow> c_str s = s"
  by (auto simp: c_str_def takeWhile_eq_all_conv)

lemma no_zero_in_c_str: "CHR 0x00 \<notin> set (c_str s)"
  by (auto simp: c_str_def dest: set_takeWhileD)

lemma print_into_c_string: "print_into n format args = Some t \<Longrightarrow> CHR 0x00 \<notin> set t \<and> length t < n"
  using length_takeWhile_le[of "\<lambda>c. c \<noteq> CHR 0x00"]
  by (auto simp: print_into_def no_zero_in_c_str c_str_def intro: le_less_trans dest: set_takeWhileD split: option.splits if_splits)

lemma format_d_symbols: "c \<in> set (format_d i) \<Longrightarrow> is_digit c \<or> c = CHR ''-''"
  by (auto simp: format_d_def dest: decimal_digits split: if_splits)

lemma format_d_not: "\<not> is_digit c \<Longrightarrow> c \<noteq> CHR ''-'' \<Longrightarrow> c \<notin> set (format_d i)"
  using format_d_symbols by blast

lemma format_d_not_Nil: "format_d i \<noteq> []"
  by (simp add: format_d_def decimal_not_Nil)

section \<open>The bytes that go to the modem\<close>

lemma transmit_append:
  "HAL_USART_GPRS_Transmit hw (xs @ ys) m =
    (case HAL_USART_GPRS_Transmit hw xs m of None \<Rightarrow> None | Some m \<Rightarrow> HAL_USART_GPRS_Transmit hw ys m)"
  by (induction xs arbitrary: m) (auto split: option.split)

text \<open>
  The theories of the two programs collect the bytes of \<open>With0D\<close> and \<open>RAW\<close>; they are the ones that go through the data register of the
  port, one by one. A command with one parameter is the command with the text of the parameter in its place, as long as it fits the array of 64
  characters.
\<close>

lemma With0D_port: "Transmit_With0D hw message m = HAL_USART_GPRS_Transmit hw (With0D message) m"
  by (simp add: Transmit_With0D_def HAL_USART_GPRS_Transmit_string_def With0D_def RAW_def transmit_append
      split: option.split)

lemma RAW_port: "Transmit_RAW hw message m = HAL_USART_GPRS_Transmit hw (RAW message) m"
  by (simp add: Transmit_RAW_def HAL_USART_GPRS_Transmit_string_def RAW_def)

lemma command_sent:
  assumes "CHR ''%'' \<notin> set cmd" "CHR ''%'' \<notin> set rest" "c_string (cmd @ p @ rest)" "length (cmd @ p @ rest) < 64"
  shows "Transmit_Format hw (cmd @ ''%s'' @ rest) (Str p) m = HAL_USART_GPRS_Transmit hw (With0D (cmd @ p @ rest)) m"
  using assms by (simp add: Transmit_Format_def print_into_def vsprintf_def format_plain c_str_id c_string_def With0D_port)

lemma number_command_sent:
  assumes "CHR ''%'' \<notin> set cmd" "c_string cmd" "length (cmd @ format_d (sint n)) < 64"
  shows "Transmit_Format hw (cmd @ ''%d'') (Num n) m = HAL_USART_GPRS_Transmit hw (With0D (cmd @ format_d (sint n))) m"
  using assms format_d_not[of "CHR 0x00" "sint n"]
  by (simp add: Transmit_Format_def print_into_def vsprintf_def c_str_id c_string_def With0D_port)

section \<open>The lines of the log\<close>

lemma log_line_end:
  assumes "print_into 2048 format args = Some t" "length t + 2 < 2048"
  shows "HAL_USART_LOG_Transmit hw format args m =
     (let ended = 2 \<le> length t \<and> (t ! (length t - 2) = CHR 0x0D \<or> t ! (length t - 1) = CHR 0x0A)
       in HAL_USART_LOG_TransmitRAW hw (if ended then t else t @ [CHR 0x0D, CHR 0x0A]) m)"
  using assms by (auto simp: HAL_USART_LOG_Transmit_def Let_def)

lemma raw_starts: "c \<noteq> CHR 0x0D \<Longrightarrow> HAL_USART_LOG_TransmitRAW hw (c # cs) m = log_bytes hw (c # cs) m"
  by (simp add: HAL_USART_LOG_TransmitRAW_def at_def)

definition trace_text :: "u32 \<Rightarrow> string \<Rightarrow> string \<Rightarrow> u32 \<Rightarrow> string" where
  "trace_text n t file line = format_d (sint n) @ '' : '' @ t @ trace_gap @ file @ '':'' @ format_d (sint line)"

lemma gap_plain: "CHR ''%'' \<notin> set trace_gap" "CHR 0x00 \<notin> set trace_gap"
  by (simp_all add: trace_gap_def)

lemma trace_printed:
  "vsprintf trace_format [Num n, Str t, Str file, Num line] = Some (trace_text n t file line)"
  by (simp add: vsprintf_def trace_format_def trace_text_def gap_plain)

lemma trace_buffer:
  assumes "CHR 0x00 \<notin> set t" "c_string file" "length (trace_text n t file line) < 512"
  shows "print_into 512 trace_format [Num n, Str t, Str file, Num line] = Some (trace_text n t file line)"
proof -
  have "CHR 0x00 \<notin> set (trace_text n t file line)"
    using assms gap_plain format_d_not[of "CHR 0x00"] by (simp add: trace_text_def c_string_def)
  then show ?thesis using assms(3) by (simp add: print_into_def c_str_id trace_printed)
qed

text \<open>
  \<^verbatim>\<open>WriteTrace\<close> hands its finished line to \<^verbatim>\<open>HAL_USART_LOG::Transmit\<close> as a format. Without a percent sign in the message and the name of the file
  the line is sent as it is, with the line end added; with a conversion in the message there is no argument for it and the result is undefined.
\<close>

lemma trace_line:
  assumes "print_into 256 format args = Some t" "c_string file" "length (trace_text n t file line) < 512"
    "CHR ''%'' \<notin> set t" "CHR ''%'' \<notin> set file"
  shows "Log_WriteTrace hw file line format args (n, m) =
     map_option (Pair (n + 1)) (log_bytes hw (trace_text n t file line @ [CHR 0x0D, CHR 0x0A]) m)"
proof -
  let ?t = "trace_text n t file line"
  have z: "CHR 0x00 \<notin> set t" using print_into_c_string[OF assms(1)] by simp
  note b = trace_buffer[OF z assms(2,3)]
  have nz: "CHR 0x00 \<notin> set ?t" using print_into_c_string[OF b] by simp
  have np: "CHR ''%'' \<notin> set ?t"
    using assms(4,5) gap_plain format_d_not[of "CHR ''%''"] by (simp add: trace_text_def)
  have p: "print_into 2048 ?t [] = Some ?t" using assms(3) nz np by (simp add: print_into_def vsprintf_def format_plain c_str_id)
  obtain c cs where c: "?t = c # cs" "c \<noteq> CHR 0x0D"
  proof (cases "format_d (sint n)")
    case (Cons c cs)
    then have "c \<noteq> CHR 0x0D" using format_d_not[of "CHR 0x0D" "sint n"] by auto
    with Cons that show ?thesis by (simp add: trace_text_def)
  qed (simp add: format_d_not_Nil)
  obtain ds d where d: "format_d (sint line) = ds @ [d]" using format_d_not_Nil[of "sint line"] by (cases "format_d (sint line)" rule: rev_cases) auto
  have "CHR 0x0D \<notin> set (ds @ [d])" "CHR 0x0A \<notin> set (ds @ [d])"
    using format_d_not[of "CHR 0x0D" "sint line"] format_d_not[of "CHR 0x0A" "sint line"] unfolding d[symmetric] by simp_all
  then have "\<not> (2 \<le> length ?t \<and> (?t ! (length ?t - 2) = CHR 0x0D \<or> ?t ! (length ?t - 1) = CHR 0x0A))"
    by (cases ds rule: rev_cases) (auto simp: trace_text_def d nth_append)
  then have "HAL_USART_LOG_Transmit hw ?t [] m = HAL_USART_LOG_TransmitRAW hw (?t @ [CHR 0x0D, CHR 0x0A]) m"
    using assms(3) log_line_end[OF p, of hw m] unfolding Let_def by auto
  also have "\<dots> = log_bytes hw (?t @ [CHR 0x0D, CHR 0x0A]) m" unfolding c(1) append_Cons by (rule raw_starts[OF c(2)])
  finally show ?thesis unfolding Log_WriteTrace_def by (simp add: assms(1) b)
qed

lemma trace_percent:
  assumes "print_into 256 format args = Some (s @ CHR ''%'' # c # cs)" "CHR ''%'' \<notin> set s"
    "c \<in> {CHR ''d'', CHR ''u'', CHR ''s'', CHR ''X'', CHR ''c'', CHR ''f''}"
  shows "Log_WriteTrace hw file line format args (n, m) = None"
proof -
  let ?t = "s @ CHR ''%'' # c # cs" and ?s = "format_d (sint n) @ '' : '' @ s"
  let ?r = "trace_gap @ file @ '':'' @ format_d (sint line)"
  have z: "CHR 0x00 \<notin> set ?t" using print_into_c_string[OF assms(1)] by blast
  then have "CHR 0x00 \<notin> set (?s @ CHR ''%'' # c # cs)" using format_d_not[of "CHR 0x00"] by simp
  then have b: "c_str (trace_text n ?t file line) = ?s @ CHR ''%'' # c # cs @ c_str ?r"
    using c_str_append[of "?s @ CHR ''%'' # c # cs" ?r] by (simp add: trace_text_def)
  have "CHR ''%'' \<notin> set ?s" using assms(2) format_d_not[of "CHR ''%''"] by simp
  from format_missing[OF this assms(3), of "cs @ c_str ?r"]
  have "HAL_USART_LOG_Transmit hw (c_str (trace_text n ?t file line)) [] m = None"
    by (simp only: HAL_USART_LOG_Transmit_def print_into_def vsprintf_def b append_assoc option.case)
  then show ?thesis by (simp add: Log_WriteTrace_def assms(1) print_into_def[of 512] trace_printed)
qed

section \<open>Strings\<close>

text \<open>\<^verbatim>\<open>Set\<close> asks for the size of the old text first. For a new object that is a read at address 0, so the constructor needs that to be possible.\<close>

lemma String_constructed:
  assumes "print_into 2048 format args = Some t"
  shows "String_format nul format args = (if nul = None then None else Some (Some t))"
  using assms by (auto simp: String_format_def String_Set_def String_Size_def split: option.split)

end
