(* ===== verification/Gd32_Dma.thy ===== *)
theory Gd32_Dma
  imports Prelude
begin

unbundle bit_operations_syntax

text \<open>
  Direct memory access: gd32f30x_dma.c. DMA_WRONG_HANDLE, an endless loop, is the result None.
\<close>

section \<open>Registers and constants\<close>

abbreviation DMA1 :: u32 where "DMA1 \<equiv> 0x40020400"
abbreviation DMA_INTF :: "u32 \<Rightarrow> u32" where
  "DMA_INTF dmax \<equiv> dmax + 0"
abbreviation DMA_INTC :: "u32 \<Rightarrow> u32" where
  "DMA_INTC dmax \<equiv> dmax + 4"
abbreviation DMA_CHXCTL_CHEN :: u32 where "DMA_CHXCTL_CHEN \<equiv> 0x1"
abbreviation DMA_CHXCTL_FTFIE :: u32 where "DMA_CHXCTL_FTFIE \<equiv> 0x2"
abbreviation DMA_CHXCTL_HTFIE :: u32 where "DMA_CHXCTL_HTFIE \<equiv> 0x4"
abbreviation DMA_CHXCTL_ERRIE :: u32 where "DMA_CHXCTL_ERRIE \<equiv> 0x8"
abbreviation DMA_CHXCTL_DIR :: u32 where "DMA_CHXCTL_DIR \<equiv> 0x10"
abbreviation DMA_CHXCTL_CMEN :: u32 where "DMA_CHXCTL_CMEN \<equiv> 0x20"
abbreviation DMA_CHXCTL_PNAGA :: u32 where "DMA_CHXCTL_PNAGA \<equiv> 0x40"
abbreviation DMA_CHXCTL_MNAGA :: u32 where "DMA_CHXCTL_MNAGA \<equiv> 0x80"
abbreviation DMA_CHXCTL_PWIDTH :: u32 where "DMA_CHXCTL_PWIDTH \<equiv> 0x300"
abbreviation DMA_CHXCTL_MWIDTH :: u32 where "DMA_CHXCTL_MWIDTH \<equiv> 0xC00"
abbreviation DMA_CHXCTL_PRIO :: u32 where "DMA_CHXCTL_PRIO \<equiv> 0x3000"
abbreviation DMA_CHXCTL_M2M :: u32 where "DMA_CHXCTL_M2M \<equiv> 0x4000"
abbreviation DMA_FLAG_ADD :: "u32 \<Rightarrow> u32 \<Rightarrow> u32" where
  "DMA_FLAG_ADD flag shift' \<equiv> push_bit (unat (shift' * 4)) flag"
abbreviation DMA_CHCTL :: "u32 \<Rightarrow> u32 \<Rightarrow> u32" where
  "DMA_CHCTL dma channel \<equiv> dma + 8 + (0x14 * channel)"
abbreviation DMA_CHCNT :: "u32 \<Rightarrow> u32 \<Rightarrow> u32" where
  "DMA_CHCNT dma channel \<equiv> dma + 0xC + (0x14 * channel)"
abbreviation DMA_CHPADDR :: "u32 \<Rightarrow> u32 \<Rightarrow> u32" where
  "DMA_CHPADDR dma channel \<equiv> dma + 0x10 + (0x14 * channel)"
abbreviation DMA_CHMADDR :: "u32 \<Rightarrow> u32 \<Rightarrow> u32" where
  "DMA_CHMADDR dma channel \<equiv> dma + 0x14 + (0x14 * channel)"
abbreviation DMA_CHCTL_RESET_VALUE :: u32 where "DMA_CHCTL_RESET_VALUE \<equiv> 0x0"
abbreviation DMA_CHCNT_RESET_VALUE :: u32 where "DMA_CHCNT_RESET_VALUE \<equiv> 0x0"
abbreviation DMA_CHPADDR_RESET_VALUE :: u32 where "DMA_CHPADDR_RESET_VALUE \<equiv> 0x0"
abbreviation DMA_CHMADDR_RESET_VALUE :: u32 where "DMA_CHMADDR_RESET_VALUE \<equiv> 0x0"
abbreviation DMA_CHINTF_RESET_VALUE :: u32 where "DMA_CHINTF_RESET_VALUE \<equiv> 0xF"
abbreviation DMA_INT_FLAG_FTF :: u32 where "DMA_INT_FLAG_FTF \<equiv> 0x2"
abbreviation DMA_INT_FLAG_HTF :: u32 where "DMA_INT_FLAG_HTF \<equiv> 0x4"
abbreviation DMA_INT_FLAG_ERR :: u32 where "DMA_INT_FLAG_ERR \<equiv> 0x8"
abbreviation DMA_PERIPHERAL_TO_MEMORY :: u32 where "DMA_PERIPHERAL_TO_MEMORY \<equiv> 0x0"
abbreviation DMA_PERIPH_INCREASE_DISABLE :: u32 where "DMA_PERIPH_INCREASE_DISABLE \<equiv> 0x0"
abbreviation DMA_PERIPH_INCREASE_ENABLE :: u32 where "DMA_PERIPH_INCREASE_ENABLE \<equiv> 0x1"
abbreviation DMA_MEMORY_INCREASE_DISABLE :: u32 where "DMA_MEMORY_INCREASE_DISABLE \<equiv> 0x0"
abbreviation DMA_MEMORY_INCREASE_ENABLE :: u32 where "DMA_MEMORY_INCREASE_ENABLE \<equiv> 0x1"
abbreviation DMA_PRIORITY_LOW :: u32 where "DMA_PRIORITY_LOW \<equiv> 0x0"
abbreviation DMA_CHANNEL_CNT_MASK :: u32 where "DMA_CHANNEL_CNT_MASK \<equiv> 0xFFFF"
abbreviation DMA_CH4 :: u32 where "DMA_CH4 \<equiv> 0x4"

section \<open>Operations\<close>

record dma_parameter_struct =
  dma_periph_addr :: u32
  dma_periph_width :: u32
  dma_memory_addr :: u32
  dma_memory_width :: u32
  dma_number :: u32
  dma_priority :: u32
  dma_periph_inc :: u8
  dma_memory_inc :: u8
  dma_direction :: u8

definition dma_periph_and_channel_check :: "u32 \<Rightarrow> u32 \<Rightarrow> ErrStatus" where
  "dma_periph_and_channel_check dma_periph channelx =
    (let val = SUCCESS
      in (if dma_periph = DMA1 then (if channelx > DMA_CH4 then ERROR else val) else val))"

definition dma_deinit :: "u32 \<Rightarrow> u32 \<Rightarrow> mem \<Rightarrow> mem option" where
  "dma_deinit dma_periph channelx m =
    (if dma_periph_and_channel_check dma_periph channelx = ERROR then
       None
     else
       (let m = m(DMA_CHCTL dma_periph channelx := m (DMA_CHCTL dma_periph channelx) AND NOT DMA_CHXCTL_CHEN);
            m = m(DMA_CHCTL dma_periph channelx := DMA_CHCTL_RESET_VALUE);
            m = m(DMA_CHCNT dma_periph channelx := DMA_CHCNT_RESET_VALUE);
            m = m(DMA_CHPADDR dma_periph channelx := DMA_CHPADDR_RESET_VALUE);
            m = m(DMA_CHMADDR dma_periph channelx := DMA_CHMADDR_RESET_VALUE);
            m = m(DMA_INTC dma_periph := m (DMA_INTC dma_periph) OR DMA_FLAG_ADD DMA_CHINTF_RESET_VALUE channelx)
         in Some m))"

definition dma_struct_para_init :: "dma_parameter_struct option \<Rightarrow> dma_parameter_struct option" where
  "dma_struct_para_init init_struct =
    (case init_struct of
       None \<Rightarrow> None
     | Some s \<Rightarrow> Some (s\<lparr>dma_periph_addr := 0, dma_periph_width := 0, dma_periph_inc := ucast DMA_PERIPH_INCREASE_DISABLE,
         dma_memory_addr := 0, dma_memory_width := 0, dma_memory_inc := ucast DMA_MEMORY_INCREASE_DISABLE,
         dma_number := 0, dma_direction := ucast DMA_PERIPHERAL_TO_MEMORY, dma_priority := DMA_PRIORITY_LOW\<rparr>))"

definition dma_init :: "u32 \<Rightarrow> u32 \<Rightarrow> dma_parameter_struct \<Rightarrow> mem \<Rightarrow> mem option" where
  "dma_init dma_periph channelx init_struct m =
    (if dma_periph_and_channel_check dma_periph channelx = ERROR then
       None
     else
       (let m = m(DMA_CHPADDR dma_periph channelx := dma_periph_addr init_struct);
            m = m(DMA_CHMADDR dma_periph channelx := dma_memory_addr init_struct);
            m = m(DMA_CHCNT dma_periph channelx := dma_number init_struct AND DMA_CHANNEL_CNT_MASK);
            ctl = m (DMA_CHCTL dma_periph channelx);
            ctl = ctl AND NOT (DMA_CHXCTL_PWIDTH OR DMA_CHXCTL_MWIDTH OR DMA_CHXCTL_PRIO);
            ctl = ctl OR dma_periph_width init_struct OR dma_memory_width init_struct OR dma_priority init_struct;
            m = m(DMA_CHCTL dma_periph channelx := ctl);
            m = (if (ucast (dma_periph_inc init_struct) :: u32) = DMA_PERIPH_INCREASE_ENABLE then
                 m(DMA_CHCTL dma_periph channelx := m (DMA_CHCTL dma_periph channelx) OR DMA_CHXCTL_PNAGA)
               else
                 m(DMA_CHCTL dma_periph channelx := m (DMA_CHCTL dma_periph channelx) AND NOT DMA_CHXCTL_PNAGA));
            m = (if (ucast (dma_memory_inc init_struct) :: u32) = DMA_MEMORY_INCREASE_ENABLE then
                 m(DMA_CHCTL dma_periph channelx := m (DMA_CHCTL dma_periph channelx) OR DMA_CHXCTL_MNAGA)
               else
                 m(DMA_CHCTL dma_periph channelx := m (DMA_CHCTL dma_periph channelx) AND NOT DMA_CHXCTL_MNAGA))
         in (if (ucast (dma_direction init_struct) :: u32) = DMA_PERIPHERAL_TO_MEMORY then
               (let m = m(DMA_CHCTL dma_periph channelx := m (DMA_CHCTL dma_periph channelx) AND NOT DMA_CHXCTL_DIR)
                 in Some m)
             else
               (let m = m(DMA_CHCTL dma_periph channelx := m (DMA_CHCTL dma_periph channelx) OR DMA_CHXCTL_DIR)
                 in Some m))))"

definition dma_circulation_enable :: "u32 \<Rightarrow> u32 \<Rightarrow> mem \<Rightarrow> mem option" where
  "dma_circulation_enable dma_periph channelx m =
    (if dma_periph_and_channel_check dma_periph channelx = ERROR then
       None
     else
       (let m = m(DMA_CHCTL dma_periph channelx := m (DMA_CHCTL dma_periph channelx) OR DMA_CHXCTL_CMEN)
         in Some m))"

definition dma_circulation_disable :: "u32 \<Rightarrow> u32 \<Rightarrow> mem \<Rightarrow> mem option" where
  "dma_circulation_disable dma_periph channelx m =
    (if dma_periph_and_channel_check dma_periph channelx = ERROR then
       None
     else
       (let m = m(DMA_CHCTL dma_periph channelx := m (DMA_CHCTL dma_periph channelx) AND NOT DMA_CHXCTL_CMEN)
         in Some m))"

definition dma_memory_to_memory_enable :: "u32 \<Rightarrow> u32 \<Rightarrow> mem \<Rightarrow> mem option" where
  "dma_memory_to_memory_enable dma_periph channelx m =
    (if dma_periph_and_channel_check dma_periph channelx = ERROR then
       None
     else
       (let m = m(DMA_CHCTL dma_periph channelx := m (DMA_CHCTL dma_periph channelx) OR DMA_CHXCTL_M2M)
         in Some m))"

definition dma_memory_to_memory_disable :: "u32 \<Rightarrow> u32 \<Rightarrow> mem \<Rightarrow> mem option" where
  "dma_memory_to_memory_disable dma_periph channelx m =
    (if dma_periph_and_channel_check dma_periph channelx = ERROR then
       None
     else
       (let m = m(DMA_CHCTL dma_periph channelx := m (DMA_CHCTL dma_periph channelx) AND NOT DMA_CHXCTL_M2M)
         in Some m))"

definition dma_channel_enable :: "u32 \<Rightarrow> u32 \<Rightarrow> mem \<Rightarrow> mem option" where
  "dma_channel_enable dma_periph channelx m =
    (if dma_periph_and_channel_check dma_periph channelx = ERROR then
       None
     else
       (let m = m(DMA_CHCTL dma_periph channelx := m (DMA_CHCTL dma_periph channelx) OR DMA_CHXCTL_CHEN)
         in Some m))"

definition dma_channel_disable :: "u32 \<Rightarrow> u32 \<Rightarrow> mem \<Rightarrow> mem option" where
  "dma_channel_disable dma_periph channelx m =
    (if dma_periph_and_channel_check dma_periph channelx = ERROR then
       None
     else
       (let m = m(DMA_CHCTL dma_periph channelx := m (DMA_CHCTL dma_periph channelx) AND NOT DMA_CHXCTL_CHEN)
         in Some m))"

definition dma_periph_address_config :: "u32 \<Rightarrow> u32 \<Rightarrow> u32 \<Rightarrow> mem \<Rightarrow> mem option" where
  "dma_periph_address_config dma_periph channelx address m =
    (if dma_periph_and_channel_check dma_periph channelx = ERROR then
       None
     else
       (let m = m(DMA_CHPADDR dma_periph channelx := address)
         in Some m))"

definition dma_memory_address_config :: "u32 \<Rightarrow> u32 \<Rightarrow> u32 \<Rightarrow> mem \<Rightarrow> mem option" where
  "dma_memory_address_config dma_periph channelx address m =
    (if dma_periph_and_channel_check dma_periph channelx = ERROR then
       None
     else
       (let m = m(DMA_CHMADDR dma_periph channelx := address)
         in Some m))"

definition dma_transfer_number_config :: "u32 \<Rightarrow> u32 \<Rightarrow> u32 \<Rightarrow> mem \<Rightarrow> mem option" where
  "dma_transfer_number_config dma_periph channelx number' m =
    (if dma_periph_and_channel_check dma_periph channelx = ERROR then
       None
     else
       (let m = m(DMA_CHCNT dma_periph channelx := number' AND DMA_CHANNEL_CNT_MASK)
         in Some m))"

definition dma_transfer_number_get :: "u32 \<Rightarrow> u32 \<Rightarrow> mem \<Rightarrow> u32 option" where
  "dma_transfer_number_get dma_periph channelx m =
    (if dma_periph_and_channel_check dma_periph channelx = ERROR then
       None
     else
       Some (m (DMA_CHCNT dma_periph channelx)))"

definition dma_priority_config :: "u32 \<Rightarrow> u32 \<Rightarrow> u32 \<Rightarrow> mem \<Rightarrow> mem option" where
  "dma_priority_config dma_periph channelx priority m =
    (if dma_periph_and_channel_check dma_periph channelx = ERROR then
       None
     else
       (let ctl = m (DMA_CHCTL dma_periph channelx);
            ctl = ctl AND NOT DMA_CHXCTL_PRIO;
            ctl = ctl OR priority;
            m = m(DMA_CHCTL dma_periph channelx := ctl)
         in Some m))"

definition dma_memory_width_config :: "u32 \<Rightarrow> u32 \<Rightarrow> u32 \<Rightarrow> mem \<Rightarrow> mem option" where
  "dma_memory_width_config dma_periph channelx mwidth m =
    (if dma_periph_and_channel_check dma_periph channelx = ERROR then
       None
     else
       (let ctl = m (DMA_CHCTL dma_periph channelx);
            ctl = ctl AND NOT DMA_CHXCTL_MWIDTH;
            ctl = ctl OR mwidth;
            m = m(DMA_CHCTL dma_periph channelx := ctl)
         in Some m))"

definition dma_periph_width_config :: "u32 \<Rightarrow> u32 \<Rightarrow> u32 \<Rightarrow> mem \<Rightarrow> mem option" where
  "dma_periph_width_config dma_periph channelx pwidth m =
    (if dma_periph_and_channel_check dma_periph channelx = ERROR then
       None
     else
       (let ctl = m (DMA_CHCTL dma_periph channelx);
            ctl = ctl AND NOT DMA_CHXCTL_PWIDTH;
            ctl = ctl OR pwidth;
            m = m(DMA_CHCTL dma_periph channelx := ctl)
         in Some m))"

definition dma_memory_increase_enable :: "u32 \<Rightarrow> u32 \<Rightarrow> mem \<Rightarrow> mem option" where
  "dma_memory_increase_enable dma_periph channelx m =
    (if dma_periph_and_channel_check dma_periph channelx = ERROR then
       None
     else
       (let m = m(DMA_CHCTL dma_periph channelx := m (DMA_CHCTL dma_periph channelx) OR DMA_CHXCTL_MNAGA)
         in Some m))"

definition dma_memory_increase_disable :: "u32 \<Rightarrow> u32 \<Rightarrow> mem \<Rightarrow> mem option" where
  "dma_memory_increase_disable dma_periph channelx m =
    (if dma_periph_and_channel_check dma_periph channelx = ERROR then
       None
     else
       (let m = m(DMA_CHCTL dma_periph channelx := m (DMA_CHCTL dma_periph channelx) AND NOT DMA_CHXCTL_MNAGA)
         in Some m))"

definition dma_periph_increase_enable :: "u32 \<Rightarrow> u32 \<Rightarrow> mem \<Rightarrow> mem option" where
  "dma_periph_increase_enable dma_periph channelx m =
    (if dma_periph_and_channel_check dma_periph channelx = ERROR then
       None
     else
       (let m = m(DMA_CHCTL dma_periph channelx := m (DMA_CHCTL dma_periph channelx) OR DMA_CHXCTL_PNAGA)
         in Some m))"

definition dma_periph_increase_disable :: "u32 \<Rightarrow> u32 \<Rightarrow> mem \<Rightarrow> mem option" where
  "dma_periph_increase_disable dma_periph channelx m =
    (if dma_periph_and_channel_check dma_periph channelx = ERROR then
       None
     else
       (let m = m(DMA_CHCTL dma_periph channelx := m (DMA_CHCTL dma_periph channelx) AND NOT DMA_CHXCTL_PNAGA)
         in Some m))"

definition dma_transfer_direction_config :: "u32 \<Rightarrow> u32 \<Rightarrow> u32 \<Rightarrow> mem \<Rightarrow> mem option" where
  "dma_transfer_direction_config dma_periph channelx direction m =
    (if dma_periph_and_channel_check dma_periph channelx = ERROR then
       None
     else if direction = DMA_PERIPHERAL_TO_MEMORY then
       (let m = m(DMA_CHCTL dma_periph channelx := m (DMA_CHCTL dma_periph channelx) AND NOT DMA_CHXCTL_DIR)
         in Some m)
     else
       (let m = m(DMA_CHCTL dma_periph channelx := m (DMA_CHCTL dma_periph channelx) OR DMA_CHXCTL_DIR)
         in Some m))"

definition dma_flag_get :: "u32 \<Rightarrow> u32 \<Rightarrow> u32 \<Rightarrow> mem \<Rightarrow> FlagStatus" where
  "dma_flag_get dma_periph channelx flag m =
    (if (m (DMA_INTF dma_periph) AND DMA_FLAG_ADD flag channelx) \<noteq> 0 then
       SET
     else
       RESET)"

definition dma_flag_clear :: "u32 \<Rightarrow> u32 \<Rightarrow> u32 \<Rightarrow> mem \<Rightarrow> mem" where
  "dma_flag_clear dma_periph channelx flag m =
    m(DMA_INTC dma_periph := m (DMA_INTC dma_periph) OR DMA_FLAG_ADD flag channelx)"

definition dma_interrupt_flag_get :: "u32 \<Rightarrow> u32 \<Rightarrow> u32 \<Rightarrow> mem \<Rightarrow> FlagStatus option" where
  "dma_interrupt_flag_get dma_periph channelx flag m =
    (let interrupt_enable = (0 :: u32);
         interrupt_flag = (0 :: u32)
      in (if flag = DMA_INT_FLAG_FTF then
            (let interrupt_flag = m (DMA_INTF dma_periph) AND DMA_FLAG_ADD flag channelx;
                 interrupt_enable = m (DMA_CHCTL dma_periph channelx) AND DMA_CHXCTL_FTFIE
              in (if (interrupt_flag \<noteq> 0) \<and> (interrupt_enable \<noteq> 0) then
                    Some SET
                  else
                    Some RESET))
          else if flag = DMA_INT_FLAG_HTF then
            (let interrupt_flag = m (DMA_INTF dma_periph) AND DMA_FLAG_ADD flag channelx;
                 interrupt_enable = m (DMA_CHCTL dma_periph channelx) AND DMA_CHXCTL_HTFIE
              in (if (interrupt_flag \<noteq> 0) \<and> (interrupt_enable \<noteq> 0) then
                    Some SET
                  else
                    Some RESET))
          else if flag = DMA_INT_FLAG_ERR then
            (let interrupt_flag = m (DMA_INTF dma_periph) AND DMA_FLAG_ADD flag channelx;
                 interrupt_enable = m (DMA_CHCTL dma_periph channelx) AND DMA_CHXCTL_ERRIE
              in (if (interrupt_flag \<noteq> 0) \<and> (interrupt_enable \<noteq> 0) then
                    Some SET
                  else
                    Some RESET))
          else
            None))"

definition dma_interrupt_flag_clear :: "u32 \<Rightarrow> u32 \<Rightarrow> u32 \<Rightarrow> mem \<Rightarrow> mem" where
  "dma_interrupt_flag_clear dma_periph channelx flag m =
    m(DMA_INTC dma_periph := m (DMA_INTC dma_periph) OR DMA_FLAG_ADD flag channelx)"

definition dma_interrupt_enable :: "u32 \<Rightarrow> u32 \<Rightarrow> u32 \<Rightarrow> mem \<Rightarrow> mem option" where
  "dma_interrupt_enable dma_periph channelx source m =
    (if dma_periph_and_channel_check dma_periph channelx = ERROR then
       None
     else
       (let m = m(DMA_CHCTL dma_periph channelx := m (DMA_CHCTL dma_periph channelx) OR source)
         in Some m))"

definition dma_interrupt_disable :: "u32 \<Rightarrow> u32 \<Rightarrow> u32 \<Rightarrow> mem \<Rightarrow> mem option" where
  "dma_interrupt_disable dma_periph channelx source m =
    (if dma_periph_and_channel_check dma_periph channelx = ERROR then
       None
     else
       (let m = m(DMA_CHCTL dma_periph channelx := m (DMA_CHCTL dma_periph channelx) AND NOT source)
         in Some m))"

section \<open>Properties\<close>

text \<open>
  \<^verbatim>\<open>dma_init\<close> on an existing channel programs the addresses, the count and the direction of that channel and writes
  no register but the four of the channel; on a channel that the second controller does not have, the driver stops in its
  error loop.
\<close>

lemma dma_init_channel:
  "(dma_init p ch s m = None \<longleftrightarrow> p = DMA1 \<and> ch > DMA_CH4) \<and>
   (case dma_init p ch s m of None \<Rightarrow> True
    | Some m' \<Rightarrow> m' (DMA_CHPADDR p ch) = dma_periph_addr s \<and> m' (DMA_CHMADDR p ch) = dma_memory_addr s \<and>
        m' (DMA_CHCNT p ch) = dma_number s AND 0xFFFF \<and>
        (m' (DMA_CHCTL p ch) AND DMA_CHXCTL_DIR = 0 \<longleftrightarrow> dma_direction s = 0) \<and>
        (\<forall>a. a \<noteq> DMA_CHPADDR p ch \<and> a \<noteq> DMA_CHMADDR p ch \<and> a \<noteq> DMA_CHCNT p ch \<and> a \<noteq> DMA_CHCTL p ch \<longrightarrow> m' a = m a))"
proof (cases "p = DMA1 \<and> ch > DMA_CH4")
  case True
  then have "dma_init p ch s m = None" by (simp add: dma_init_def dma_periph_and_channel_check_def)
  then show ?thesis using True by simp
next
  case False
  then have ok: "dma_periph_and_channel_check p ch \<noteq> ERROR" by (auto simp: dma_periph_and_channel_check_def)
  have dir: "(ucast (dma_direction s) :: u32) = DMA_PERIPHERAL_TO_MEMORY \<longleftrightarrow> dma_direction s = 0"
    by (simp add: word_unat_eq_iff unat_ucast_u8)
  show ?thesis using ok False unfolding dma_init_def Let_def dir by (auto simp: or_and_self and.assoc)
qed

end
