(* ===== verification/Gd32_Spi.thy ===== *)
theory Gd32_Spi
  imports Gd32_Rcu
begin

unbundle bit_operations_syntax

text \<open>
  SPI and I2S: gd32f30x_spi.c.
\<close>

section \<open>Registers and constants\<close>

abbreviation SPI0 :: u32 where "SPI0 \<equiv> 0x40013000"
abbreviation SPI1 :: u32 where "SPI1 \<equiv> 0x40003800"
abbreviation SPI2 :: u32 where "SPI2 \<equiv> 0x40003C00"
abbreviation SPI_CTL0 :: "u32 \<Rightarrow> u32" where
  "SPI_CTL0 spix \<equiv> spix + 0"
abbreviation SPI_CTL1 :: "u32 \<Rightarrow> u32" where
  "SPI_CTL1 spix \<equiv> spix + 4"
abbreviation SPI_STAT :: "u32 \<Rightarrow> u32" where
  "SPI_STAT spix \<equiv> spix + 8"
abbreviation SPI_DATA :: "u32 \<Rightarrow> u32" where
  "SPI_DATA spix \<equiv> spix + 0xC"
abbreviation SPI_CRCPOLY :: "u32 \<Rightarrow> u32" where
  "SPI_CRCPOLY spix \<equiv> spix + 0x10"
abbreviation SPI_RCRC :: "u32 \<Rightarrow> u32" where
  "SPI_RCRC spix \<equiv> spix + 0x14"
abbreviation SPI_TCRC :: "u32 \<Rightarrow> u32" where
  "SPI_TCRC spix \<equiv> spix + 0x18"
abbreviation SPI_I2SCTL :: "u32 \<Rightarrow> u32" where
  "SPI_I2SCTL spix \<equiv> spix + 0x1C"
abbreviation SPI_I2SPSC :: "u32 \<Rightarrow> u32" where
  "SPI_I2SPSC spix \<equiv> spix + 0x20"
abbreviation SPI_QCTL :: "u32 \<Rightarrow> u32" where
  "SPI_QCTL spix \<equiv> spix + 0x80"
abbreviation SPI_CTL0_SPIEN :: u32 where "SPI_CTL0_SPIEN \<equiv> 0x40"
abbreviation SPI_CTL0_SWNSS :: u32 where "SPI_CTL0_SWNSS \<equiv> 0x100"
abbreviation SPI_CTL0_FF16 :: u32 where "SPI_CTL0_FF16 \<equiv> 0x800"
abbreviation SPI_CTL0_CRCNT :: u32 where "SPI_CTL0_CRCNT \<equiv> 0x1000"
abbreviation SPI_CTL0_CRCEN :: u32 where "SPI_CTL0_CRCEN \<equiv> 0x2000"
abbreviation SPI_CTL1_DMAREN :: u32 where "SPI_CTL1_DMAREN \<equiv> 0x1"
abbreviation SPI_CTL1_DMATEN :: u32 where "SPI_CTL1_DMATEN \<equiv> 0x2"
abbreviation SPI_CTL1_NSSDRV :: u32 where "SPI_CTL1_NSSDRV \<equiv> 0x4"
abbreviation SPI_CTL1_NSSP :: u32 where "SPI_CTL1_NSSP \<equiv> 0x8"
abbreviation SPI_CTL1_TMOD :: u32 where "SPI_CTL1_TMOD \<equiv> 0x10"
abbreviation SPI_CTL1_ERRIE :: u32 where "SPI_CTL1_ERRIE \<equiv> 0x20"
abbreviation SPI_CTL1_RBNEIE :: u32 where "SPI_CTL1_RBNEIE \<equiv> 0x40"
abbreviation SPI_CTL1_TBEIE :: u32 where "SPI_CTL1_TBEIE \<equiv> 0x80"
abbreviation SPI_STAT_RBNE :: u32 where "SPI_STAT_RBNE \<equiv> 0x1"
abbreviation SPI_STAT_TBE :: u32 where "SPI_STAT_TBE \<equiv> 0x2"
abbreviation SPI_STAT_TXURERR :: u32 where "SPI_STAT_TXURERR \<equiv> 0x8"
abbreviation SPI_STAT_CRCERR :: u32 where "SPI_STAT_CRCERR \<equiv> 0x10"
abbreviation SPI_STAT_CONFERR :: u32 where "SPI_STAT_CONFERR \<equiv> 0x20"
abbreviation SPI_STAT_RXORERR :: u32 where "SPI_STAT_RXORERR \<equiv> 0x40"
abbreviation SPI_STAT_FERR :: u32 where "SPI_STAT_FERR \<equiv> 0x100"
abbreviation SPI_I2SCTL_CHLEN :: u32 where "SPI_I2SCTL_CHLEN \<equiv> 0x1"
abbreviation SPI_I2SCTL_DTLEN :: u32 where "SPI_I2SCTL_DTLEN \<equiv> 0x6"
abbreviation SPI_I2SCTL_I2SEN :: u32 where "SPI_I2SCTL_I2SEN \<equiv> 0x400"
abbreviation SPI_I2SCTL_I2SSEL :: u32 where "SPI_I2SCTL_I2SSEL \<equiv> 0x800"
abbreviation SPI_QCTL_QMOD :: u32 where "SPI_QCTL_QMOD \<equiv> 0x1"
abbreviation SPI_QCTL_QRD :: u32 where "SPI_QCTL_QRD \<equiv> 0x2"
abbreviation SPI_QCTL_IO23_DRV :: u32 where "SPI_QCTL_IO23_DRV \<equiv> 0x4"
abbreviation SPI_SLAVE :: u32 where "SPI_SLAVE \<equiv> 0x0"
abbreviation SPI_BIDIRECTIONAL_TRANSMIT :: u32 where "SPI_BIDIRECTIONAL_TRANSMIT \<equiv> 0x4000"
abbreviation SPI_BIDIRECTIONAL_RECEIVE :: u32 where "SPI_BIDIRECTIONAL_RECEIVE \<equiv> 0xFFFFBFFF"
abbreviation SPI_TRANSMODE_FULLDUPLEX :: u32 where "SPI_TRANSMODE_FULLDUPLEX \<equiv> 0x0"
abbreviation SPI_FRAMESIZE_8BIT :: u32 where "SPI_FRAMESIZE_8BIT \<equiv> 0x0"
abbreviation SPI_NSS_HARD :: u32 where "SPI_NSS_HARD \<equiv> 0x0"
abbreviation SPI_ENDIAN_MSB :: u32 where "SPI_ENDIAN_MSB \<equiv> 0x0"
abbreviation SPI_CK_PL_LOW_PH_1EDGE :: u32 where "SPI_CK_PL_LOW_PH_1EDGE \<equiv> 0x0"
abbreviation SPI_PSC_2 :: u32 where "SPI_PSC_2 \<equiv> 0x0"
abbreviation I2S_FRAMEFORMAT_DT16B_CH16B :: u32 where "I2S_FRAMEFORMAT_DT16B_CH16B \<equiv> 0x0"
abbreviation I2S_MCKOUT_ENABLE :: u32 where "I2S_MCKOUT_ENABLE \<equiv> 0x200"
abbreviation SPI_DMA_TRANSMIT :: u32 where "SPI_DMA_TRANSMIT \<equiv> 0x0"
abbreviation SPI_CRC_TX :: u32 where "SPI_CRC_TX \<equiv> 0x0"
abbreviation SPI_I2S_INT_TBE :: u32 where "SPI_I2S_INT_TBE \<equiv> 0x0"
abbreviation SPI_I2S_INT_RBNE :: u32 where "SPI_I2S_INT_RBNE \<equiv> 0x1"
abbreviation SPI_I2S_INT_ERR :: u32 where "SPI_I2S_INT_ERR \<equiv> 0x2"
abbreviation SPI_I2S_INT_FLAG_TBE :: u32 where "SPI_I2S_INT_FLAG_TBE \<equiv> 0x0"
abbreviation SPI_I2S_INT_FLAG_RBNE :: u32 where "SPI_I2S_INT_FLAG_RBNE \<equiv> 0x1"
abbreviation SPI_I2S_INT_FLAG_RXORERR :: u32 where "SPI_I2S_INT_FLAG_RXORERR \<equiv> 0x2"
abbreviation SPI_INT_FLAG_CONFERR :: u32 where "SPI_INT_FLAG_CONFERR \<equiv> 0x3"
abbreviation SPI_INT_FLAG_CRCERR :: u32 where "SPI_INT_FLAG_CRCERR \<equiv> 0x4"
abbreviation I2S_INT_FLAG_TXURERR :: u32 where "I2S_INT_FLAG_TXURERR \<equiv> 0x5"
abbreviation SPI_I2S_INT_FLAG_FERR :: u32 where "SPI_I2S_INT_FLAG_FERR \<equiv> 0x6"
abbreviation SPI_FLAG_CRCERR :: u32 where "SPI_FLAG_CRCERR \<equiv> 0x10"
abbreviation SPI_INIT_MASK :: u32 where "SPI_INIT_MASK \<equiv> 0x3040"
abbreviation I2S_INIT_MASK :: u32 where "I2S_INIT_MASK \<equiv> 0xF047"
abbreviation SPI_I2SPSC_DEFAULT_VALUE :: u32 where "SPI_I2SPSC_DEFAULT_VALUE \<equiv> 0x2"

section \<open>Operations\<close>

record spi_parameter_struct =
  spi_device_mode :: u32
  spi_trans_mode :: u32
  spi_frame_size :: u32
  spi_nss :: u32
  spi_endian :: u32
  spi_clock_polarity_phase :: u32
  spi_prescale :: u32

definition spi_i2s_deinit :: "u32 \<Rightarrow> mem \<Rightarrow> mem" where
  "spi_i2s_deinit spi_periph m =
    (if spi_periph = SPI0 then
       (let m = rcu_periph_reset_enable RCU_SPI0RST m
         in rcu_periph_reset_disable RCU_SPI0RST m)
     else if spi_periph = SPI1 then
       (let m = rcu_periph_reset_enable RCU_SPI1RST m
         in rcu_periph_reset_disable RCU_SPI1RST m)
     else if spi_periph = SPI2 then
       (let m = rcu_periph_reset_enable RCU_SPI2RST m
         in rcu_periph_reset_disable RCU_SPI2RST m)
     else
       m)"

definition spi_struct_para_init :: "spi_parameter_struct \<Rightarrow> spi_parameter_struct" where
  "spi_struct_para_init spi_struct =
    (let spi_struct = spi_struct\<lparr>spi_device_mode := SPI_SLAVE\<rparr>;
         spi_struct = spi_struct\<lparr>spi_trans_mode := SPI_TRANSMODE_FULLDUPLEX\<rparr>;
         spi_struct = spi_struct\<lparr>spi_frame_size := SPI_FRAMESIZE_8BIT\<rparr>;
         spi_struct = spi_struct\<lparr>spi_nss := SPI_NSS_HARD\<rparr>;
         spi_struct = spi_struct\<lparr>spi_clock_polarity_phase := SPI_CK_PL_LOW_PH_1EDGE\<rparr>;
         spi_struct = spi_struct\<lparr>spi_prescale := SPI_PSC_2\<rparr>
      in spi_struct\<lparr>spi_endian := SPI_ENDIAN_MSB\<rparr>)"

definition spi_init :: "u32 \<Rightarrow> spi_parameter_struct \<Rightarrow> mem \<Rightarrow> mem" where
  "spi_init spi_periph spi_struct m =
    (let reg = m (SPI_CTL0 spi_periph);
         reg = reg AND SPI_INIT_MASK;
         reg = reg OR spi_device_mode spi_struct;
         reg = reg OR spi_trans_mode spi_struct;
         reg = reg OR spi_frame_size spi_struct;
         reg = reg OR spi_nss spi_struct;
         reg = reg OR spi_endian spi_struct;
         reg = reg OR spi_clock_polarity_phase spi_struct;
         reg = reg OR spi_prescale spi_struct;
         m = m(SPI_CTL0 spi_periph := reg)
      in m(SPI_I2SCTL spi_periph := m (SPI_I2SCTL spi_periph) AND NOT SPI_I2SCTL_I2SSEL))"

definition spi_enable :: "u32 \<Rightarrow> mem \<Rightarrow> mem" where
  "spi_enable spi_periph m =
    m(SPI_CTL0 spi_periph := m (SPI_CTL0 spi_periph) OR SPI_CTL0_SPIEN)"

definition spi_disable :: "u32 \<Rightarrow> mem \<Rightarrow> mem" where
  "spi_disable spi_periph m =
    m(SPI_CTL0 spi_periph := m (SPI_CTL0 spi_periph) AND NOT SPI_CTL0_SPIEN)"

definition i2s_init :: "u32 \<Rightarrow> u32 \<Rightarrow> u32 \<Rightarrow> u32 \<Rightarrow> mem \<Rightarrow> mem" where
  "i2s_init spi_periph i2s_mode i2s_standard i2s_ckpl m =
    (let reg = m (SPI_I2SCTL spi_periph);
         reg = reg AND I2S_INIT_MASK;
         reg = reg OR SPI_I2SCTL_I2SSEL;
         reg = reg OR i2s_mode;
         reg = reg OR i2s_standard;
         reg = reg OR i2s_ckpl
      in m(SPI_I2SCTL spi_periph := reg))"

definition i2s_psc_config :: "u32 \<Rightarrow> u32 \<Rightarrow> u32 \<Rightarrow> u32 \<Rightarrow> mem \<Rightarrow> mem option" where
  "i2s_psc_config spi_periph i2s_audiosample i2s_frameformat i2s_mckout m =
    (let clks = (0 :: u32)
      in (if i2s_audiosample = 0 then
            None
          else
            (let m = m(SPI_I2SPSC spi_periph := SPI_I2SPSC_DEFAULT_VALUE);
                 i2sclock = rcu_clock_freq_get CK_SYS m;
                 clks = (if i2s_mckout = I2S_MCKOUT_ENABLE then
                      ((i2sclock div 256) * 10) div i2s_audiosample
                    else if i2s_frameformat = I2S_FRAMEFORMAT_DT16B_CH16B then
                      ((i2sclock div 32) * 10) div i2s_audiosample
                    else
                      ((i2sclock div 64) * 10) div i2s_audiosample);
                 clks = (clks + 5) div 10;
                 i2sof = clks AND 1;
                 i2sdiv = (clks - i2sof) div 2;
                 i2sof = push_bit 8 i2sof;
                 (i2sdiv, i2sof) = (if (i2sdiv < 2) \<or> (i2sdiv > 255) then
                      (let i2sdiv = 2;
                           i2sof = 0
                        in (i2sdiv, i2sof))
                    else
                      (i2sdiv, i2sof));
                 m = m(SPI_I2SPSC spi_periph := i2sdiv OR i2sof OR i2s_mckout);
                 m = m(SPI_I2SCTL spi_periph := m (SPI_I2SCTL spi_periph) AND NOT (SPI_I2SCTL_DTLEN OR SPI_I2SCTL_CHLEN));
                 m = m(SPI_I2SCTL spi_periph := m (SPI_I2SCTL spi_periph) OR i2s_frameformat)
              in Some m)))"

definition i2s_enable :: "u32 \<Rightarrow> mem \<Rightarrow> mem" where
  "i2s_enable spi_periph m =
    m(SPI_I2SCTL spi_periph := m (SPI_I2SCTL spi_periph) OR SPI_I2SCTL_I2SEN)"

definition i2s_disable :: "u32 \<Rightarrow> mem \<Rightarrow> mem" where
  "i2s_disable spi_periph m =
    m(SPI_I2SCTL spi_periph := m (SPI_I2SCTL spi_periph) AND NOT SPI_I2SCTL_I2SEN)"

definition spi_nss_output_enable :: "u32 \<Rightarrow> mem \<Rightarrow> mem" where
  "spi_nss_output_enable spi_periph m =
    m(SPI_CTL1 spi_periph := m (SPI_CTL1 spi_periph) OR SPI_CTL1_NSSDRV)"

definition spi_nss_output_disable :: "u32 \<Rightarrow> mem \<Rightarrow> mem" where
  "spi_nss_output_disable spi_periph m =
    m(SPI_CTL1 spi_periph := m (SPI_CTL1 spi_periph) AND NOT SPI_CTL1_NSSDRV)"

definition spi_nss_internal_high :: "u32 \<Rightarrow> mem \<Rightarrow> mem" where
  "spi_nss_internal_high spi_periph m =
    m(SPI_CTL0 spi_periph := m (SPI_CTL0 spi_periph) OR SPI_CTL0_SWNSS)"

definition spi_nss_internal_low :: "u32 \<Rightarrow> mem \<Rightarrow> mem" where
  "spi_nss_internal_low spi_periph m =
    m(SPI_CTL0 spi_periph := m (SPI_CTL0 spi_periph) AND NOT SPI_CTL0_SWNSS)"

definition spi_dma_enable :: "u32 \<Rightarrow> u8 \<Rightarrow> mem \<Rightarrow> mem" where
  "spi_dma_enable spi_periph dma m =
    (if (ucast dma :: u32) = SPI_DMA_TRANSMIT then
       m(SPI_CTL1 spi_periph := m (SPI_CTL1 spi_periph) OR SPI_CTL1_DMATEN)
     else
       m(SPI_CTL1 spi_periph := m (SPI_CTL1 spi_periph) OR SPI_CTL1_DMAREN))"

definition spi_dma_disable :: "u32 \<Rightarrow> u8 \<Rightarrow> mem \<Rightarrow> mem" where
  "spi_dma_disable spi_periph dma m =
    (if (ucast dma :: u32) = SPI_DMA_TRANSMIT then
       m(SPI_CTL1 spi_periph := m (SPI_CTL1 spi_periph) AND NOT SPI_CTL1_DMATEN)
     else
       m(SPI_CTL1 spi_periph := m (SPI_CTL1 spi_periph) AND NOT SPI_CTL1_DMAREN))"

definition spi_i2s_data_frame_format_config :: "u32 \<Rightarrow> u16 \<Rightarrow> mem \<Rightarrow> mem" where
  "spi_i2s_data_frame_format_config spi_periph frame_format m =
    (let m = m(SPI_CTL0 spi_periph := m (SPI_CTL0 spi_periph) AND NOT SPI_CTL0_FF16)
      in m(SPI_CTL0 spi_periph := m (SPI_CTL0 spi_periph) OR (ucast frame_format :: u32)))"

definition spi_i2s_data_transmit :: "u32 \<Rightarrow> u16 \<Rightarrow> mem \<Rightarrow> mem" where
  "spi_i2s_data_transmit spi_periph data m =
    m(SPI_DATA spi_periph := (ucast data :: u32))"

definition spi_i2s_data_receive :: "u32 \<Rightarrow> mem \<Rightarrow> u16" where
  "spi_i2s_data_receive spi_periph m =
    (ucast (m (SPI_DATA spi_periph)) :: u16)"

definition spi_bidirectional_transfer_config :: "u32 \<Rightarrow> u32 \<Rightarrow> mem \<Rightarrow> mem" where
  "spi_bidirectional_transfer_config spi_periph transfer_direction m =
    (if transfer_direction = SPI_BIDIRECTIONAL_TRANSMIT then
       m(SPI_CTL0 spi_periph := m (SPI_CTL0 spi_periph) OR SPI_BIDIRECTIONAL_TRANSMIT)
     else
       m(SPI_CTL0 spi_periph := m (SPI_CTL0 spi_periph) AND SPI_BIDIRECTIONAL_RECEIVE))"

definition spi_i2s_format_error_clear :: "u32 \<Rightarrow> u32 \<Rightarrow> mem \<Rightarrow> mem" where
  "spi_i2s_format_error_clear spi_periph flag m =
    m(SPI_STAT spi_periph := NOT flag)"

definition spi_crc_polynomial_set :: "u32 \<Rightarrow> u16 \<Rightarrow> mem \<Rightarrow> mem" where
  "spi_crc_polynomial_set spi_periph crc_poly m =
    m(SPI_CRCPOLY spi_periph := (ucast crc_poly :: u32))"

definition spi_crc_polynomial_get :: "u32 \<Rightarrow> mem \<Rightarrow> u16" where
  "spi_crc_polynomial_get spi_periph m =
    (ucast (m (SPI_CRCPOLY spi_periph)) :: u16)"

definition spi_crc_on :: "u32 \<Rightarrow> mem \<Rightarrow> mem" where
  "spi_crc_on spi_periph m =
    m(SPI_CTL0 spi_periph := m (SPI_CTL0 spi_periph) OR SPI_CTL0_CRCEN)"

definition spi_crc_off :: "u32 \<Rightarrow> mem \<Rightarrow> mem" where
  "spi_crc_off spi_periph m =
    m(SPI_CTL0 spi_periph := m (SPI_CTL0 spi_periph) AND NOT SPI_CTL0_CRCEN)"

definition spi_crc_next :: "u32 \<Rightarrow> mem \<Rightarrow> mem" where
  "spi_crc_next spi_periph m =
    m(SPI_CTL0 spi_periph := m (SPI_CTL0 spi_periph) OR SPI_CTL0_CRCNT)"

definition spi_crc_get :: "u32 \<Rightarrow> u8 \<Rightarrow> mem \<Rightarrow> u16" where
  "spi_crc_get spi_periph crc m =
    (if (ucast crc :: u32) = SPI_CRC_TX then
       (ucast (m (SPI_TCRC spi_periph)) :: u16)
     else
       (ucast (m (SPI_RCRC spi_periph)) :: u16))"

definition spi_crc_error_clear :: "u32 \<Rightarrow> mem \<Rightarrow> mem" where
  "spi_crc_error_clear spi_periph m =
    m(SPI_STAT spi_periph := NOT SPI_FLAG_CRCERR)"

definition spi_ti_mode_enable :: "u32 \<Rightarrow> mem \<Rightarrow> mem" where
  "spi_ti_mode_enable spi_periph m =
    m(SPI_CTL1 spi_periph := m (SPI_CTL1 spi_periph) OR SPI_CTL1_TMOD)"

definition spi_ti_mode_disable :: "u32 \<Rightarrow> mem \<Rightarrow> mem" where
  "spi_ti_mode_disable spi_periph m =
    m(SPI_CTL1 spi_periph := m (SPI_CTL1 spi_periph) AND NOT SPI_CTL1_TMOD)"

definition spi_nssp_mode_enable :: "u32 \<Rightarrow> mem \<Rightarrow> mem" where
  "spi_nssp_mode_enable spi_periph m =
    m(SPI_CTL1 spi_periph := m (SPI_CTL1 spi_periph) OR SPI_CTL1_NSSP)"

definition spi_nssp_mode_disable :: "u32 \<Rightarrow> mem \<Rightarrow> mem" where
  "spi_nssp_mode_disable spi_periph m =
    m(SPI_CTL1 spi_periph := m (SPI_CTL1 spi_periph) AND NOT SPI_CTL1_NSSP)"

definition spi_quad_enable :: "u32 \<Rightarrow> mem \<Rightarrow> mem" where
  "spi_quad_enable spi_periph m =
    m(SPI_QCTL spi_periph := m (SPI_QCTL spi_periph) OR SPI_QCTL_QMOD)"

definition spi_quad_disable :: "u32 \<Rightarrow> mem \<Rightarrow> mem" where
  "spi_quad_disable spi_periph m =
    m(SPI_QCTL spi_periph := m (SPI_QCTL spi_periph) AND NOT SPI_QCTL_QMOD)"

definition spi_quad_write_enable :: "u32 \<Rightarrow> mem \<Rightarrow> mem" where
  "spi_quad_write_enable spi_periph m =
    m(SPI_QCTL spi_periph := m (SPI_QCTL spi_periph) AND NOT SPI_QCTL_QRD)"

definition spi_quad_read_enable :: "u32 \<Rightarrow> mem \<Rightarrow> mem" where
  "spi_quad_read_enable spi_periph m =
    m(SPI_QCTL spi_periph := m (SPI_QCTL spi_periph) OR SPI_QCTL_QRD)"

definition spi_quad_io23_output_enable :: "u32 \<Rightarrow> mem \<Rightarrow> mem" where
  "spi_quad_io23_output_enable spi_periph m =
    m(SPI_QCTL spi_periph := m (SPI_QCTL spi_periph) OR SPI_QCTL_IO23_DRV)"

definition spi_i2s_interrupt_enable :: "u32 \<Rightarrow> u8 \<Rightarrow> mem \<Rightarrow> mem" where
  "spi_i2s_interrupt_enable spi_periph interrupt m =
    (if (ucast interrupt :: u32) = SPI_I2S_INT_TBE then
       m(SPI_CTL1 spi_periph := m (SPI_CTL1 spi_periph) OR SPI_CTL1_TBEIE)
     else if (ucast interrupt :: u32) = SPI_I2S_INT_RBNE then
       m(SPI_CTL1 spi_periph := m (SPI_CTL1 spi_periph) OR SPI_CTL1_RBNEIE)
     else if (ucast interrupt :: u32) = SPI_I2S_INT_ERR then
       m(SPI_CTL1 spi_periph := m (SPI_CTL1 spi_periph) OR SPI_CTL1_ERRIE)
     else
       m)"

definition spi_i2s_interrupt_disable :: "u32 \<Rightarrow> u8 \<Rightarrow> mem \<Rightarrow> mem" where
  "spi_i2s_interrupt_disable spi_periph interrupt m =
    (if (ucast interrupt :: u32) = SPI_I2S_INT_TBE then
       m(SPI_CTL1 spi_periph := m (SPI_CTL1 spi_periph) AND NOT SPI_CTL1_TBEIE)
     else if (ucast interrupt :: u32) = SPI_I2S_INT_RBNE then
       m(SPI_CTL1 spi_periph := m (SPI_CTL1 spi_periph) AND NOT SPI_CTL1_RBNEIE)
     else if (ucast interrupt :: u32) = SPI_I2S_INT_ERR then
       m(SPI_CTL1 spi_periph := m (SPI_CTL1 spi_periph) AND NOT SPI_CTL1_ERRIE)
     else
       m)"

definition spi_i2s_interrupt_flag_get :: "u32 \<Rightarrow> u8 \<Rightarrow> mem \<Rightarrow> FlagStatus" where
  "spi_i2s_interrupt_flag_get spi_periph interrupt m =
    (let reg1 = m (SPI_STAT spi_periph);
         reg2 = m (SPI_CTL1 spi_periph);
         (reg1, reg2) = (if (ucast interrupt :: u32) = SPI_I2S_INT_FLAG_TBE then
              (let reg1 = reg1 AND SPI_STAT_TBE;
                   reg2 = reg2 AND SPI_CTL1_TBEIE
                in (reg1, reg2))
            else if (ucast interrupt :: u32) = SPI_I2S_INT_FLAG_RBNE then
              (let reg1 = reg1 AND SPI_STAT_RBNE;
                   reg2 = reg2 AND SPI_CTL1_RBNEIE
                in (reg1, reg2))
            else if (ucast interrupt :: u32) = SPI_I2S_INT_FLAG_RXORERR then
              (let reg1 = reg1 AND SPI_STAT_RXORERR;
                   reg2 = reg2 AND SPI_CTL1_ERRIE
                in (reg1, reg2))
            else if (ucast interrupt :: u32) = SPI_INT_FLAG_CONFERR then
              (let reg1 = reg1 AND SPI_STAT_CONFERR;
                   reg2 = reg2 AND SPI_CTL1_ERRIE
                in (reg1, reg2))
            else if (ucast interrupt :: u32) = SPI_INT_FLAG_CRCERR then
              (let reg1 = reg1 AND SPI_STAT_CRCERR;
                   reg2 = reg2 AND SPI_CTL1_ERRIE
                in (reg1, reg2))
            else if (ucast interrupt :: u32) = I2S_INT_FLAG_TXURERR then
              (let reg1 = reg1 AND SPI_STAT_TXURERR;
                   reg2 = reg2 AND SPI_CTL1_ERRIE
                in (reg1, reg2))
            else if (ucast interrupt :: u32) = SPI_I2S_INT_FLAG_FERR then
              (let reg1 = reg1 AND SPI_STAT_FERR;
                   reg2 = reg2 AND SPI_CTL1_ERRIE
                in (reg1, reg2))
            else
              (reg1, reg2))
      in (if (reg1 \<noteq> 0) \<and> (reg2 \<noteq> 0) then SET else RESET))"

definition spi_i2s_flag_get :: "u32 \<Rightarrow> u32 \<Rightarrow> mem \<Rightarrow> FlagStatus" where
  "spi_i2s_flag_get spi_periph flag m =
    (if (m (SPI_STAT spi_periph) AND flag) \<noteq> 0 then SET else RESET)"

section \<open>Interfaces\<close>

interpretation spi_on: reg_bit "spi_enable p" "spi_disable p" "SPI_CTL0 p" "SPI_CTL0_SPIEN" for p
  by unfold_locales (simp_all add: spi_enable_def spi_disable_def)

end
