(* ===== verification/Gd32_Timer.thy ===== *)
theory Gd32_Timer
  imports Gd32_Rcu
begin

unbundle bit_operations_syntax

text \<open>
  Timers: gd32f30x_timer.c.
\<close>

section \<open>Registers and constants\<close>

abbreviation TIMER0 :: u32 where "TIMER0 \<equiv> 0x40012C00"
abbreviation TIMER1 :: u32 where "TIMER1 \<equiv> 0x40000000"
abbreviation TIMER2 :: u32 where "TIMER2 \<equiv> 0x40000400"
abbreviation TIMER3 :: u32 where "TIMER3 \<equiv> 0x40000800"
abbreviation TIMER4 :: u32 where "TIMER4 \<equiv> 0x40000C00"
abbreviation TIMER5 :: u32 where "TIMER5 \<equiv> 0x40001000"
abbreviation TIMER6 :: u32 where "TIMER6 \<equiv> 0x40001400"
abbreviation TIMER7 :: u32 where "TIMER7 \<equiv> 0x40013400"
abbreviation TIMER_CTL0 :: "u32 \<Rightarrow> u32" where
  "TIMER_CTL0 timerx \<equiv> timerx + 0"
abbreviation TIMER_CTL1 :: "u32 \<Rightarrow> u32" where
  "TIMER_CTL1 timerx \<equiv> timerx + 4"
abbreviation TIMER_SMCFG :: "u32 \<Rightarrow> u32" where
  "TIMER_SMCFG timerx \<equiv> timerx + 8"
abbreviation TIMER_DMAINTEN :: "u32 \<Rightarrow> u32" where
  "TIMER_DMAINTEN timerx \<equiv> timerx + 0xC"
abbreviation TIMER_INTF :: "u32 \<Rightarrow> u32" where
  "TIMER_INTF timerx \<equiv> timerx + 0x10"
abbreviation TIMER_SWEVG :: "u32 \<Rightarrow> u32" where
  "TIMER_SWEVG timerx \<equiv> timerx + 0x14"
abbreviation TIMER_CHCTL0 :: "u32 \<Rightarrow> u32" where
  "TIMER_CHCTL0 timerx \<equiv> timerx + 0x18"
abbreviation TIMER_CHCTL1 :: "u32 \<Rightarrow> u32" where
  "TIMER_CHCTL1 timerx \<equiv> timerx + 0x1C"
abbreviation TIMER_CHCTL2 :: "u32 \<Rightarrow> u32" where
  "TIMER_CHCTL2 timerx \<equiv> timerx + 0x20"
abbreviation TIMER_CNT :: "u32 \<Rightarrow> u32" where
  "TIMER_CNT timerx \<equiv> timerx + 0x24"
abbreviation TIMER_PSC :: "u32 \<Rightarrow> u32" where
  "TIMER_PSC timerx \<equiv> timerx + 0x28"
abbreviation TIMER_CAR :: "u32 \<Rightarrow> u32" where
  "TIMER_CAR timerx \<equiv> timerx + 0x2C"
abbreviation TIMER_CREP :: "u32 \<Rightarrow> u32" where
  "TIMER_CREP timerx \<equiv> timerx + 0x30"
abbreviation TIMER_CH0CV :: "u32 \<Rightarrow> u32" where
  "TIMER_CH0CV timerx \<equiv> timerx + 0x34"
abbreviation TIMER_CH1CV :: "u32 \<Rightarrow> u32" where
  "TIMER_CH1CV timerx \<equiv> timerx + 0x38"
abbreviation TIMER_CH2CV :: "u32 \<Rightarrow> u32" where
  "TIMER_CH2CV timerx \<equiv> timerx + 0x3C"
abbreviation TIMER_CH3CV :: "u32 \<Rightarrow> u32" where
  "TIMER_CH3CV timerx \<equiv> timerx + 0x40"
abbreviation TIMER_CCHP :: "u32 \<Rightarrow> u32" where
  "TIMER_CCHP timerx \<equiv> timerx + 0x44"
abbreviation TIMER_DMACFG :: "u32 \<Rightarrow> u32" where
  "TIMER_DMACFG timerx \<equiv> timerx + 0x48"
abbreviation TIMER_CFG :: "u32 \<Rightarrow> u32" where
  "TIMER_CFG timerx \<equiv> timerx + 0xFC"
abbreviation TIMER_CTL0_CEN :: u32 where "TIMER_CTL0_CEN \<equiv> 0x1"
abbreviation TIMER_CTL0_UPDIS :: u32 where "TIMER_CTL0_UPDIS \<equiv> 0x2"
abbreviation TIMER_CTL0_UPS :: u32 where "TIMER_CTL0_UPS \<equiv> 0x4"
abbreviation TIMER_CTL0_SPM :: u32 where "TIMER_CTL0_SPM \<equiv> 0x8"
abbreviation TIMER_CTL0_DIR :: u32 where "TIMER_CTL0_DIR \<equiv> 0x10"
abbreviation TIMER_CTL0_CAM :: u32 where "TIMER_CTL0_CAM \<equiv> 0x60"
abbreviation TIMER_CTL0_ARSE :: u32 where "TIMER_CTL0_ARSE \<equiv> 0x80"
abbreviation TIMER_CTL0_CKDIV :: u32 where "TIMER_CTL0_CKDIV \<equiv> 0x300"
abbreviation TIMER_CTL1_CCSE :: u32 where "TIMER_CTL1_CCSE \<equiv> 0x1"
abbreviation TIMER_CTL1_CCUC :: u32 where "TIMER_CTL1_CCUC \<equiv> 0x4"
abbreviation TIMER_CTL1_DMAS :: u32 where "TIMER_CTL1_DMAS \<equiv> 0x8"
abbreviation TIMER_CTL1_MMC :: u32 where "TIMER_CTL1_MMC \<equiv> 0x70"
abbreviation TIMER_CTL1_TI0S :: u32 where "TIMER_CTL1_TI0S \<equiv> 0x80"
abbreviation TIMER_CTL1_ISO0 :: u32 where "TIMER_CTL1_ISO0 \<equiv> 0x100"
abbreviation TIMER_CTL1_ISO0N :: u32 where "TIMER_CTL1_ISO0N \<equiv> 0x200"
abbreviation TIMER_CTL1_ISO1 :: u32 where "TIMER_CTL1_ISO1 \<equiv> 0x400"
abbreviation TIMER_CTL1_ISO1N :: u32 where "TIMER_CTL1_ISO1N \<equiv> 0x800"
abbreviation TIMER_CTL1_ISO2 :: u32 where "TIMER_CTL1_ISO2 \<equiv> 0x1000"
abbreviation TIMER_CTL1_ISO2N :: u32 where "TIMER_CTL1_ISO2N \<equiv> 0x2000"
abbreviation TIMER_CTL1_ISO3 :: u32 where "TIMER_CTL1_ISO3 \<equiv> 0x4000"
abbreviation TIMER_SMCFG_SMC :: u32 where "TIMER_SMCFG_SMC \<equiv> 0x7"
abbreviation TIMER_SMCFG_TRGS :: u32 where "TIMER_SMCFG_TRGS \<equiv> 0x70"
abbreviation TIMER_SMCFG_MSM :: u32 where "TIMER_SMCFG_MSM \<equiv> 0x80"
abbreviation TIMER_SMCFG_ETFC :: u32 where "TIMER_SMCFG_ETFC \<equiv> 0xF00"
abbreviation TIMER_SMCFG_ETPSC :: u32 where "TIMER_SMCFG_ETPSC \<equiv> 0x3000"
abbreviation TIMER_SMCFG_SMC1 :: u32 where "TIMER_SMCFG_SMC1 \<equiv> 0x4000"
abbreviation TIMER_SMCFG_ETP :: u32 where "TIMER_SMCFG_ETP \<equiv> 0x8000"
abbreviation TIMER_SWEVG_UPG :: u32 where "TIMER_SWEVG_UPG \<equiv> 0x1"
abbreviation TIMER_CHCTL0_CH0MS :: u32 where "TIMER_CHCTL0_CH0MS \<equiv> 0x3"
abbreviation TIMER_CHCTL0_CH0COMFEN :: u32 where "TIMER_CHCTL0_CH0COMFEN \<equiv> 0x4"
abbreviation TIMER_CHCTL0_CH0COMSEN :: u32 where "TIMER_CHCTL0_CH0COMSEN \<equiv> 0x8"
abbreviation TIMER_CHCTL0_CH0COMCTL :: u32 where "TIMER_CHCTL0_CH0COMCTL \<equiv> 0x70"
abbreviation TIMER_CHCTL0_CH0COMCEN :: u32 where "TIMER_CHCTL0_CH0COMCEN \<equiv> 0x80"
abbreviation TIMER_CHCTL0_CH1MS :: u32 where "TIMER_CHCTL0_CH1MS \<equiv> 0x300"
abbreviation TIMER_CHCTL0_CH1COMFEN :: u32 where "TIMER_CHCTL0_CH1COMFEN \<equiv> 0x400"
abbreviation TIMER_CHCTL0_CH1COMSEN :: u32 where "TIMER_CHCTL0_CH1COMSEN \<equiv> 0x800"
abbreviation TIMER_CHCTL0_CH1COMCTL :: u32 where "TIMER_CHCTL0_CH1COMCTL \<equiv> 0x7000"
abbreviation TIMER_CHCTL0_CH1COMCEN :: u32 where "TIMER_CHCTL0_CH1COMCEN \<equiv> 0x8000"
abbreviation TIMER_CHCTL0_CH0CAPPSC :: u32 where "TIMER_CHCTL0_CH0CAPPSC \<equiv> 0xC"
abbreviation TIMER_CHCTL0_CH0CAPFLT :: u32 where "TIMER_CHCTL0_CH0CAPFLT \<equiv> 0xF0"
abbreviation TIMER_CHCTL0_CH1CAPPSC :: u32 where "TIMER_CHCTL0_CH1CAPPSC \<equiv> 0xC00"
abbreviation TIMER_CHCTL0_CH1CAPFLT :: u32 where "TIMER_CHCTL0_CH1CAPFLT \<equiv> 0xF000"
abbreviation TIMER_CHCTL1_CH2MS :: u32 where "TIMER_CHCTL1_CH2MS \<equiv> 0x3"
abbreviation TIMER_CHCTL1_CH2COMFEN :: u32 where "TIMER_CHCTL1_CH2COMFEN \<equiv> 0x4"
abbreviation TIMER_CHCTL1_CH2COMSEN :: u32 where "TIMER_CHCTL1_CH2COMSEN \<equiv> 0x8"
abbreviation TIMER_CHCTL1_CH2COMCTL :: u32 where "TIMER_CHCTL1_CH2COMCTL \<equiv> 0x70"
abbreviation TIMER_CHCTL1_CH2COMCEN :: u32 where "TIMER_CHCTL1_CH2COMCEN \<equiv> 0x80"
abbreviation TIMER_CHCTL1_CH3MS :: u32 where "TIMER_CHCTL1_CH3MS \<equiv> 0x300"
abbreviation TIMER_CHCTL1_CH3COMFEN :: u32 where "TIMER_CHCTL1_CH3COMFEN \<equiv> 0x400"
abbreviation TIMER_CHCTL1_CH3COMSEN :: u32 where "TIMER_CHCTL1_CH3COMSEN \<equiv> 0x800"
abbreviation TIMER_CHCTL1_CH3COMCTL :: u32 where "TIMER_CHCTL1_CH3COMCTL \<equiv> 0x7000"
abbreviation TIMER_CHCTL1_CH3COMCEN :: u32 where "TIMER_CHCTL1_CH3COMCEN \<equiv> 0x8000"
abbreviation TIMER_CHCTL1_CH2CAPPSC :: u32 where "TIMER_CHCTL1_CH2CAPPSC \<equiv> 0xC"
abbreviation TIMER_CHCTL1_CH2CAPFLT :: u32 where "TIMER_CHCTL1_CH2CAPFLT \<equiv> 0xF0"
abbreviation TIMER_CHCTL1_CH3CAPPSC :: u32 where "TIMER_CHCTL1_CH3CAPPSC \<equiv> 0xC00"
abbreviation TIMER_CHCTL1_CH3CAPFLT :: u32 where "TIMER_CHCTL1_CH3CAPFLT \<equiv> 0xF000"
abbreviation TIMER_CHCTL2_CH0EN :: u32 where "TIMER_CHCTL2_CH0EN \<equiv> 0x1"
abbreviation TIMER_CHCTL2_CH0P :: u32 where "TIMER_CHCTL2_CH0P \<equiv> 0x2"
abbreviation TIMER_CHCTL2_CH0NEN :: u32 where "TIMER_CHCTL2_CH0NEN \<equiv> 0x4"
abbreviation TIMER_CHCTL2_CH0NP :: u32 where "TIMER_CHCTL2_CH0NP \<equiv> 0x8"
abbreviation TIMER_CHCTL2_CH1EN :: u32 where "TIMER_CHCTL2_CH1EN \<equiv> 0x10"
abbreviation TIMER_CHCTL2_CH1P :: u32 where "TIMER_CHCTL2_CH1P \<equiv> 0x20"
abbreviation TIMER_CHCTL2_CH1NEN :: u32 where "TIMER_CHCTL2_CH1NEN \<equiv> 0x40"
abbreviation TIMER_CHCTL2_CH1NP :: u32 where "TIMER_CHCTL2_CH1NP \<equiv> 0x80"
abbreviation TIMER_CHCTL2_CH2EN :: u32 where "TIMER_CHCTL2_CH2EN \<equiv> 0x100"
abbreviation TIMER_CHCTL2_CH2P :: u32 where "TIMER_CHCTL2_CH2P \<equiv> 0x200"
abbreviation TIMER_CHCTL2_CH2NEN :: u32 where "TIMER_CHCTL2_CH2NEN \<equiv> 0x400"
abbreviation TIMER_CHCTL2_CH2NP :: u32 where "TIMER_CHCTL2_CH2NP \<equiv> 0x800"
abbreviation TIMER_CHCTL2_CH3EN :: u32 where "TIMER_CHCTL2_CH3EN \<equiv> 0x1000"
abbreviation TIMER_CHCTL2_CH3P :: u32 where "TIMER_CHCTL2_CH3P \<equiv> 0x2000"
abbreviation TIMER_CCHP_BRKEN :: u32 where "TIMER_CCHP_BRKEN \<equiv> 0x1000"
abbreviation TIMER_CCHP_OAEN :: u32 where "TIMER_CCHP_OAEN \<equiv> 0x4000"
abbreviation TIMER_CCHP_POEN :: u32 where "TIMER_CCHP_POEN \<equiv> 0x8000"
abbreviation TIMER_DMACFG_DMATA :: u32 where "TIMER_DMACFG_DMATA \<equiv> 0x1F"
abbreviation TIMER_DMACFG_DMATC :: u32 where "TIMER_DMACFG_DMATC \<equiv> 0x1F00"
abbreviation TIMER_CFG_OUTSEL :: u32 where "TIMER_CFG_OUTSEL \<equiv> 0x1"
abbreviation TIMER_CFG_CHVSEL :: u32 where "TIMER_CFG_CHVSEL \<equiv> 0x2"
abbreviation TIMER_DMAREQUEST_UPDATEEVENT :: u32 where "TIMER_DMAREQUEST_UPDATEEVENT \<equiv> 0x0"
abbreviation TIMER_DMAREQUEST_CHANNELEVENT :: u32 where "TIMER_DMAREQUEST_CHANNELEVENT \<equiv> 0x1"
abbreviation TIMER_COUNTER_EDGE :: u32 where "TIMER_COUNTER_EDGE \<equiv> 0x0"
abbreviation TIMER_PSC_RELOAD_NOW :: u32 where "TIMER_PSC_RELOAD_NOW \<equiv> 0x0"
abbreviation TIMER_COUNTER_UP :: u32 where "TIMER_COUNTER_UP \<equiv> 0x0"
abbreviation TIMER_CKDIV_DIV1 :: u32 where "TIMER_CKDIV_DIV1 \<equiv> 0x0"
abbreviation TIMER_SP_MODE_SINGLE :: u32 where "TIMER_SP_MODE_SINGLE \<equiv> 0x0"
abbreviation TIMER_SP_MODE_REPETITIVE :: u32 where "TIMER_SP_MODE_REPETITIVE \<equiv> 0x1"
abbreviation TIMER_UPDATE_SRC_REGULAR :: u32 where "TIMER_UPDATE_SRC_REGULAR \<equiv> 0x0"
abbreviation TIMER_UPDATE_SRC_GLOBAL :: u32 where "TIMER_UPDATE_SRC_GLOBAL \<equiv> 0x1"
abbreviation TIMER_ROS_STATE_DISABLE :: u32 where "TIMER_ROS_STATE_DISABLE \<equiv> 0x0"
abbreviation TIMER_IOS_STATE_DISABLE :: u32 where "TIMER_IOS_STATE_DISABLE \<equiv> 0x0"
abbreviation TIMER_BREAK_POLARITY_LOW :: u32 where "TIMER_BREAK_POLARITY_LOW \<equiv> 0x0"
abbreviation TIMER_OUTAUTO_DISABLE :: u32 where "TIMER_OUTAUTO_DISABLE \<equiv> 0x0"
abbreviation TIMER_CCHP_PROT_OFF :: u32 where "TIMER_CCHP_PROT_OFF \<equiv> 0x0"
abbreviation TIMER_BREAK_DISABLE :: u32 where "TIMER_BREAK_DISABLE \<equiv> 0x0"
abbreviation TIMER_CH_0 :: u32 where "TIMER_CH_0 \<equiv> 0x0"
abbreviation TIMER_CH_1 :: u32 where "TIMER_CH_1 \<equiv> 0x1"
abbreviation TIMER_CH_2 :: u32 where "TIMER_CH_2 \<equiv> 0x2"
abbreviation TIMER_CH_3 :: u32 where "TIMER_CH_3 \<equiv> 0x3"
abbreviation TIMER_CCX_DISABLE :: u32 where "TIMER_CCX_DISABLE \<equiv> 0x0"
abbreviation TIMER_CCXN_DISABLE :: u32 where "TIMER_CCXN_DISABLE \<equiv> 0x0"
abbreviation TIMER_OC_POLARITY_HIGH :: u32 where "TIMER_OC_POLARITY_HIGH \<equiv> 0x0"
abbreviation TIMER_OCN_POLARITY_HIGH :: u32 where "TIMER_OCN_POLARITY_HIGH \<equiv> 0x0"
abbreviation TIMER_OC_IDLE_STATE_LOW :: u32 where "TIMER_OC_IDLE_STATE_LOW \<equiv> 0x0"
abbreviation TIMER_OCN_IDLE_STATE_LOW :: u32 where "TIMER_OCN_IDLE_STATE_LOW \<equiv> 0x0"
abbreviation TIMER_UPDATECTL_CCU :: u32 where "TIMER_UPDATECTL_CCU \<equiv> 0x0"
abbreviation TIMER_UPDATECTL_CCUTRI :: u32 where "TIMER_UPDATECTL_CCUTRI \<equiv> 0x1"
abbreviation TIMER_IC_POLARITY_RISING :: u32 where "TIMER_IC_POLARITY_RISING \<equiv> 0x0"
abbreviation TIMER_IC_POLARITY_FALLING :: u32 where "TIMER_IC_POLARITY_FALLING \<equiv> 0x2"
abbreviation TIMER_IC_SELECTION_DIRECTTI :: u32 where "TIMER_IC_SELECTION_DIRECTTI \<equiv> 0x1"
abbreviation TIMER_IC_SELECTION_INDIRECTTI :: u32 where "TIMER_IC_SELECTION_INDIRECTTI \<equiv> 0x2"
abbreviation TIMER_IC_PSC_DIV1 :: u32 where "TIMER_IC_PSC_DIV1 \<equiv> 0x0"
abbreviation TIMER_SMCFG_TRGSEL_CI1FE1 :: u32 where "TIMER_SMCFG_TRGSEL_CI1FE1 \<equiv> 0x60"
abbreviation TIMER_SMCFG_TRGSEL_ETIFP :: u32 where "TIMER_SMCFG_TRGSEL_ETIFP \<equiv> 0x70"
abbreviation TIMER_SLAVE_MODE_EXTERNAL0 :: u32 where "TIMER_SLAVE_MODE_EXTERNAL0 \<equiv> 0x7"
abbreviation TIMER_MASTER_SLAVE_MODE_ENABLE :: u32 where "TIMER_MASTER_SLAVE_MODE_ENABLE \<equiv> 0x0"
abbreviation TIMER_MASTER_SLAVE_MODE_DISABLE :: u32 where "TIMER_MASTER_SLAVE_MODE_DISABLE \<equiv> 0x1"
abbreviation TIMER_HALLINTERFACE_ENABLE :: u32 where "TIMER_HALLINTERFACE_ENABLE \<equiv> 0x0"
abbreviation TIMER_HALLINTERFACE_DISABLE :: u32 where "TIMER_HALLINTERFACE_DISABLE \<equiv> 0x1"
abbreviation TIMER_CHVSEL_ENABLE :: u32 where "TIMER_CHVSEL_ENABLE \<equiv> 0x2"
abbreviation TIMER_CHVSEL_DISABLE :: u32 where "TIMER_CHVSEL_DISABLE \<equiv> 0x0"
abbreviation TIMER_OUTSEL_ENABLE :: u32 where "TIMER_OUTSEL_ENABLE \<equiv> 0x1"
abbreviation TIMER_OUTSEL_DISABLE :: u32 where "TIMER_OUTSEL_DISABLE \<equiv> 0x0"

section \<open>Operations\<close>

record timer_parameter_struct =
  timer_prescaler :: u16
  timer_alignedmode :: u16
  timer_counterdirection :: u16
  timer_clockdivision :: u16
  timer_period :: u32
  timer_repetitioncounter :: u8

record timer_break_parameter_struct =
  timer_break_runoffstate :: u16
  timer_break_ideloffstate :: u16
  timer_break_deadtime :: u16
  timer_break_breakpolarity :: u16
  timer_break_outputautostate :: u16
  timer_break_protectmode :: u16
  timer_break_breakstate :: u16

record timer_oc_parameter_struct =
  timer_oc_outputstate :: u16
  timer_oc_outputnstate :: u16
  timer_oc_ocpolarity :: u16
  timer_oc_ocnpolarity :: u16
  timer_oc_ocidlestate :: u16
  timer_oc_ocnidlestate :: u16

record timer_ic_parameter_struct =
  timer_ic_icpolarity :: u16
  timer_ic_icselection :: u16
  timer_ic_icprescaler :: u16
  timer_ic_icfilter :: u16

definition timer_deinit :: "u32 \<Rightarrow> mem \<Rightarrow> mem" where
  "timer_deinit timer_periph m =
    (if timer_periph = TIMER0 then
       (let m = rcu_periph_reset_enable RCU_TIMER0RST m
         in rcu_periph_reset_disable RCU_TIMER0RST m)
     else if timer_periph = TIMER1 then
       (let m = rcu_periph_reset_enable RCU_TIMER1RST m
         in rcu_periph_reset_disable RCU_TIMER1RST m)
     else if timer_periph = TIMER2 then
       (let m = rcu_periph_reset_enable RCU_TIMER2RST m
         in rcu_periph_reset_disable RCU_TIMER2RST m)
     else if timer_periph = TIMER3 then
       (let m = rcu_periph_reset_enable RCU_TIMER3RST m
         in rcu_periph_reset_disable RCU_TIMER3RST m)
     else if timer_periph = TIMER4 then
       (let m = rcu_periph_reset_enable RCU_TIMER4RST m
         in rcu_periph_reset_disable RCU_TIMER4RST m)
     else if timer_periph = TIMER5 then
       (let m = rcu_periph_reset_enable RCU_TIMER5RST m
         in rcu_periph_reset_disable RCU_TIMER5RST m)
     else if timer_periph = TIMER6 then
       (let m = rcu_periph_reset_enable RCU_TIMER6RST m
         in rcu_periph_reset_disable RCU_TIMER6RST m)
     else if timer_periph = TIMER7 then
       (let m = rcu_periph_reset_enable RCU_TIMER7RST m
         in rcu_periph_reset_disable RCU_TIMER7RST m)
     else
       m)"

definition timer_struct_para_init :: "timer_parameter_struct \<Rightarrow> timer_parameter_struct" where
  "timer_struct_para_init initpara =
    (let initpara = initpara\<lparr>timer_prescaler := 0\<rparr>;
         initpara = initpara\<lparr>timer_alignedmode := (ucast TIMER_COUNTER_EDGE :: u16)\<rparr>;
         initpara = initpara\<lparr>timer_counterdirection := (ucast TIMER_COUNTER_UP :: u16)\<rparr>;
         initpara = initpara\<lparr>timer_period := 65535\<rparr>;
         initpara = initpara\<lparr>timer_clockdivision := (ucast TIMER_CKDIV_DIV1 :: u16)\<rparr>
      in initpara\<lparr>timer_repetitioncounter := 0\<rparr>)"

definition timer_init :: "u32 \<Rightarrow> timer_parameter_struct \<Rightarrow> mem \<Rightarrow> mem" where
  "timer_init timer_periph initpara m =
    (let m = m(TIMER_PSC timer_periph := (ucast (timer_prescaler initpara) :: u32));
         m = (if (((((timer_periph = TIMER0) \<or> (timer_periph = TIMER1)) \<or> (timer_periph = TIMER2)) \<or> (timer_periph = TIMER3)) \<or> (timer_periph = TIMER4)) \<or> (timer_periph = TIMER7) then
              (let m = m(TIMER_CTL0 timer_periph := m (TIMER_CTL0 timer_periph) AND NOT (TIMER_CTL0_DIR OR TIMER_CTL0_CAM));
                   m = m(TIMER_CTL0 timer_periph := m (TIMER_CTL0 timer_periph) OR (ucast (timer_alignedmode initpara) :: u32))
                in m(TIMER_CTL0 timer_periph := m (TIMER_CTL0 timer_periph) OR (ucast (timer_counterdirection initpara) :: u32)))
            else
              m);
         m = m(TIMER_CAR timer_periph := timer_period initpara);
         m = (if (timer_periph \<noteq> TIMER5) \<and> (timer_periph \<noteq> TIMER6) then
              (let m = m(TIMER_CTL0 timer_periph := m (TIMER_CTL0 timer_periph) AND NOT TIMER_CTL0_CKDIV)
                in m(TIMER_CTL0 timer_periph := m (TIMER_CTL0 timer_periph) OR (ucast (timer_clockdivision initpara) :: u32)))
            else
              m);
         m = (if (timer_periph = TIMER0) \<or> (timer_periph = TIMER7) then
              m(TIMER_CREP timer_periph := (ucast (timer_repetitioncounter initpara) :: u32))
            else
              m)
      in m(TIMER_SWEVG timer_periph := m (TIMER_SWEVG timer_periph) OR TIMER_SWEVG_UPG))"

definition timer_enable :: "u32 \<Rightarrow> mem \<Rightarrow> mem" where
  "timer_enable timer_periph m =
    m(TIMER_CTL0 timer_periph := m (TIMER_CTL0 timer_periph) OR TIMER_CTL0_CEN)"

definition timer_disable :: "u32 \<Rightarrow> mem \<Rightarrow> mem" where
  "timer_disable timer_periph m =
    m(TIMER_CTL0 timer_periph := m (TIMER_CTL0 timer_periph) AND NOT TIMER_CTL0_CEN)"

definition timer_auto_reload_shadow_enable :: "u32 \<Rightarrow> mem \<Rightarrow> mem" where
  "timer_auto_reload_shadow_enable timer_periph m =
    m(TIMER_CTL0 timer_periph := m (TIMER_CTL0 timer_periph) OR TIMER_CTL0_ARSE)"

definition timer_auto_reload_shadow_disable :: "u32 \<Rightarrow> mem \<Rightarrow> mem" where
  "timer_auto_reload_shadow_disable timer_periph m =
    m(TIMER_CTL0 timer_periph := m (TIMER_CTL0 timer_periph) AND NOT TIMER_CTL0_ARSE)"

definition timer_update_event_enable :: "u32 \<Rightarrow> mem \<Rightarrow> mem" where
  "timer_update_event_enable timer_periph m =
    m(TIMER_CTL0 timer_periph := m (TIMER_CTL0 timer_periph) AND NOT TIMER_CTL0_UPDIS)"

definition timer_update_event_disable :: "u32 \<Rightarrow> mem \<Rightarrow> mem" where
  "timer_update_event_disable timer_periph m =
    m(TIMER_CTL0 timer_periph := m (TIMER_CTL0 timer_periph) OR TIMER_CTL0_UPDIS)"

definition timer_counter_alignment :: "u32 \<Rightarrow> u16 \<Rightarrow> mem \<Rightarrow> mem" where
  "timer_counter_alignment timer_periph aligned m =
    (let m = m(TIMER_CTL0 timer_periph := m (TIMER_CTL0 timer_periph) AND NOT TIMER_CTL0_CAM)
      in m(TIMER_CTL0 timer_periph := m (TIMER_CTL0 timer_periph) OR (ucast aligned :: u32)))"

definition timer_counter_up_direction :: "u32 \<Rightarrow> mem \<Rightarrow> mem" where
  "timer_counter_up_direction timer_periph m =
    m(TIMER_CTL0 timer_periph := m (TIMER_CTL0 timer_periph) AND NOT TIMER_CTL0_DIR)"

definition timer_counter_down_direction :: "u32 \<Rightarrow> mem \<Rightarrow> mem" where
  "timer_counter_down_direction timer_periph m =
    m(TIMER_CTL0 timer_periph := m (TIMER_CTL0 timer_periph) OR TIMER_CTL0_DIR)"

definition timer_prescaler_config :: "u32 \<Rightarrow> u16 \<Rightarrow> u8 \<Rightarrow> mem \<Rightarrow> mem" where
  "timer_prescaler_config timer_periph prescaler pscreload m =
    (let m = m(TIMER_PSC timer_periph := (ucast prescaler :: u32))
      in (if (ucast pscreload :: u32) = TIMER_PSC_RELOAD_NOW then
            m(TIMER_SWEVG timer_periph := m (TIMER_SWEVG timer_periph) OR TIMER_SWEVG_UPG)
          else
            m))"

definition timer_repetition_value_config :: "u32 \<Rightarrow> u16 \<Rightarrow> mem \<Rightarrow> mem" where
  "timer_repetition_value_config timer_periph repetition m =
    m(TIMER_CREP timer_periph := (ucast repetition :: u32))"

definition timer_autoreload_value_config :: "u32 \<Rightarrow> u16 \<Rightarrow> mem \<Rightarrow> mem" where
  "timer_autoreload_value_config timer_periph autoreload m =
    m(TIMER_CAR timer_periph := (ucast autoreload :: u32))"

definition timer_counter_value_config :: "u32 \<Rightarrow> u16 \<Rightarrow> mem \<Rightarrow> mem" where
  "timer_counter_value_config timer_periph counter' m =
    m(TIMER_CNT timer_periph := (ucast counter' :: u32))"

definition timer_counter_read :: "u32 \<Rightarrow> mem \<Rightarrow> u32" where
  "timer_counter_read timer_periph m =
    m (TIMER_CNT timer_periph)"

definition timer_prescaler_read :: "u32 \<Rightarrow> mem \<Rightarrow> u16" where
  "timer_prescaler_read timer_periph m =
    (ucast (m (TIMER_PSC timer_periph)) :: u16)"

definition timer_single_pulse_mode_config :: "u32 \<Rightarrow> u32 \<Rightarrow> mem \<Rightarrow> mem" where
  "timer_single_pulse_mode_config timer_periph spmode m =
    (if spmode = TIMER_SP_MODE_SINGLE then
       m(TIMER_CTL0 timer_periph := m (TIMER_CTL0 timer_periph) OR TIMER_CTL0_SPM)
     else if spmode = TIMER_SP_MODE_REPETITIVE then
       m(TIMER_CTL0 timer_periph := m (TIMER_CTL0 timer_periph) AND NOT TIMER_CTL0_SPM)
     else
       m)"

definition timer_update_source_config :: "u32 \<Rightarrow> u32 \<Rightarrow> mem \<Rightarrow> mem" where
  "timer_update_source_config timer_periph update m =
    (if update = TIMER_UPDATE_SRC_REGULAR then
       m(TIMER_CTL0 timer_periph := m (TIMER_CTL0 timer_periph) OR TIMER_CTL0_UPS)
     else if update = TIMER_UPDATE_SRC_GLOBAL then
       m(TIMER_CTL0 timer_periph := m (TIMER_CTL0 timer_periph) AND NOT TIMER_CTL0_UPS)
     else
       m)"

definition timer_interrupt_enable :: "u32 \<Rightarrow> u32 \<Rightarrow> mem \<Rightarrow> mem" where
  "timer_interrupt_enable timer_periph interrupt m =
    m(TIMER_DMAINTEN timer_periph := m (TIMER_DMAINTEN timer_periph) OR interrupt)"

definition timer_interrupt_disable :: "u32 \<Rightarrow> u32 \<Rightarrow> mem \<Rightarrow> mem" where
  "timer_interrupt_disable timer_periph interrupt m =
    m(TIMER_DMAINTEN timer_periph := m (TIMER_DMAINTEN timer_periph) AND NOT interrupt)"

definition timer_interrupt_flag_get :: "u32 \<Rightarrow> u32 \<Rightarrow> mem \<Rightarrow> FlagStatus" where
  "timer_interrupt_flag_get timer_periph interrupt m =
    (let val = m (TIMER_DMAINTEN timer_periph) AND interrupt
      in (if ((m (TIMER_INTF timer_periph) AND interrupt) \<noteq> 0) \<and> (val \<noteq> 0) then
            SET
          else
            RESET))"

definition timer_interrupt_flag_clear :: "u32 \<Rightarrow> u32 \<Rightarrow> mem \<Rightarrow> mem" where
  "timer_interrupt_flag_clear timer_periph interrupt m =
    m(TIMER_INTF timer_periph := NOT interrupt)"

definition timer_flag_get :: "u32 \<Rightarrow> u32 \<Rightarrow> mem \<Rightarrow> FlagStatus" where
  "timer_flag_get timer_periph flag m =
    (if (m (TIMER_INTF timer_periph) AND flag) \<noteq> 0 then SET else RESET)"

definition timer_flag_clear :: "u32 \<Rightarrow> u32 \<Rightarrow> mem \<Rightarrow> mem" where
  "timer_flag_clear timer_periph flag m =
    m(TIMER_INTF timer_periph := NOT flag)"

definition timer_dma_enable :: "u32 \<Rightarrow> u16 \<Rightarrow> mem \<Rightarrow> mem" where
  "timer_dma_enable timer_periph dma m =
    m(TIMER_DMAINTEN timer_periph := m (TIMER_DMAINTEN timer_periph) OR (ucast dma :: u32))"

definition timer_dma_disable :: "u32 \<Rightarrow> u16 \<Rightarrow> mem \<Rightarrow> mem" where
  "timer_dma_disable timer_periph dma m =
    m(TIMER_DMAINTEN timer_periph := m (TIMER_DMAINTEN timer_periph) AND NOT (ucast dma :: u32))"

definition timer_channel_dma_request_source_select :: "u32 \<Rightarrow> u8 \<Rightarrow> mem \<Rightarrow> mem" where
  "timer_channel_dma_request_source_select timer_periph dma_request m =
    (if (ucast dma_request :: u32) = TIMER_DMAREQUEST_UPDATEEVENT then
       m(TIMER_CTL1 timer_periph := m (TIMER_CTL1 timer_periph) OR TIMER_CTL1_DMAS)
     else if (ucast dma_request :: u32) = TIMER_DMAREQUEST_CHANNELEVENT then
       m(TIMER_CTL1 timer_periph := m (TIMER_CTL1 timer_periph) AND NOT TIMER_CTL1_DMAS)
     else
       m)"

definition timer_dma_transfer_config :: "u32 \<Rightarrow> u32 \<Rightarrow> u32 \<Rightarrow> mem \<Rightarrow> mem" where
  "timer_dma_transfer_config timer_periph dma_baseaddr dma_lenth m =
    (let m = m(TIMER_DMACFG timer_periph := m (TIMER_DMACFG timer_periph) AND NOT (TIMER_DMACFG_DMATA OR TIMER_DMACFG_DMATC))
      in m(TIMER_DMACFG timer_periph := m (TIMER_DMACFG timer_periph) OR dma_baseaddr OR dma_lenth))"

definition timer_event_software_generate :: "u32 \<Rightarrow> u16 \<Rightarrow> mem \<Rightarrow> mem" where
  "timer_event_software_generate timer_periph event m =
    m(TIMER_SWEVG timer_periph := m (TIMER_SWEVG timer_periph) OR (ucast event :: u32))"

definition timer_break_struct_para_init :: "timer_break_parameter_struct \<Rightarrow> timer_break_parameter_struct" where
  "timer_break_struct_para_init breakpara =
    (let breakpara = breakpara\<lparr>timer_break_runoffstate := (ucast TIMER_ROS_STATE_DISABLE :: u16)\<rparr>;
         breakpara = breakpara\<lparr>timer_break_ideloffstate := (ucast TIMER_IOS_STATE_DISABLE :: u16)\<rparr>;
         breakpara = breakpara\<lparr>timer_break_deadtime := 0\<rparr>;
         breakpara = breakpara\<lparr>timer_break_breakpolarity := (ucast TIMER_BREAK_POLARITY_LOW :: u16)\<rparr>;
         breakpara = breakpara\<lparr>timer_break_outputautostate := (ucast TIMER_OUTAUTO_DISABLE :: u16)\<rparr>;
         breakpara = breakpara\<lparr>timer_break_protectmode := (ucast TIMER_CCHP_PROT_OFF :: u16)\<rparr>
      in breakpara\<lparr>timer_break_breakstate := (ucast TIMER_BREAK_DISABLE :: u16)\<rparr>)"

definition timer_break_config :: "u32 \<Rightarrow> timer_break_parameter_struct \<Rightarrow> mem \<Rightarrow> mem" where
  "timer_break_config timer_periph breakpara m =
    m(TIMER_CCHP timer_periph := (ucast (timer_break_runoffstate breakpara) :: u32) OR (ucast (timer_break_ideloffstate breakpara) :: u32) OR (ucast (timer_break_deadtime breakpara) :: u32) OR (ucast (timer_break_breakpolarity breakpara) :: u32) OR (ucast (timer_break_outputautostate breakpara) :: u32) OR (ucast (timer_break_protectmode breakpara) :: u32) OR (ucast (timer_break_breakstate breakpara) :: u32))"

definition timer_break_enable :: "u32 \<Rightarrow> mem \<Rightarrow> mem" where
  "timer_break_enable timer_periph m =
    m(TIMER_CCHP timer_periph := m (TIMER_CCHP timer_periph) OR TIMER_CCHP_BRKEN)"

definition timer_break_disable :: "u32 \<Rightarrow> mem \<Rightarrow> mem" where
  "timer_break_disable timer_periph m =
    m(TIMER_CCHP timer_periph := m (TIMER_CCHP timer_periph) AND NOT TIMER_CCHP_BRKEN)"

definition timer_automatic_output_enable :: "u32 \<Rightarrow> mem \<Rightarrow> mem" where
  "timer_automatic_output_enable timer_periph m =
    m(TIMER_CCHP timer_periph := m (TIMER_CCHP timer_periph) OR TIMER_CCHP_OAEN)"

definition timer_automatic_output_disable :: "u32 \<Rightarrow> mem \<Rightarrow> mem" where
  "timer_automatic_output_disable timer_periph m =
    m(TIMER_CCHP timer_periph := m (TIMER_CCHP timer_periph) AND NOT TIMER_CCHP_OAEN)"

definition timer_primary_output_config :: "u32 \<Rightarrow> ControlStatus \<Rightarrow> mem \<Rightarrow> mem" where
  "timer_primary_output_config timer_periph newvalue m =
    (if newvalue = ENABLE then
       m(TIMER_CCHP timer_periph := m (TIMER_CCHP timer_periph) OR TIMER_CCHP_POEN)
     else
       m(TIMER_CCHP timer_periph := m (TIMER_CCHP timer_periph) AND NOT TIMER_CCHP_POEN))"

definition timer_channel_control_shadow_config :: "u32 \<Rightarrow> ControlStatus \<Rightarrow> mem \<Rightarrow> mem" where
  "timer_channel_control_shadow_config timer_periph newvalue m =
    (if newvalue = ENABLE then
       m(TIMER_CTL1 timer_periph := m (TIMER_CTL1 timer_periph) OR TIMER_CTL1_CCSE)
     else
       m(TIMER_CTL1 timer_periph := m (TIMER_CTL1 timer_periph) AND NOT TIMER_CTL1_CCSE))"

definition timer_channel_control_shadow_update_config :: "u32 \<Rightarrow> u8 \<Rightarrow> mem \<Rightarrow> mem" where
  "timer_channel_control_shadow_update_config timer_periph ccuctl m =
    (if (ucast ccuctl :: u32) = TIMER_UPDATECTL_CCU then
       m(TIMER_CTL1 timer_periph := m (TIMER_CTL1 timer_periph) AND NOT TIMER_CTL1_CCUC)
     else if (ucast ccuctl :: u32) = TIMER_UPDATECTL_CCUTRI then
       m(TIMER_CTL1 timer_periph := m (TIMER_CTL1 timer_periph) OR TIMER_CTL1_CCUC)
     else
       m)"

definition timer_channel_output_struct_para_init :: "timer_oc_parameter_struct \<Rightarrow> timer_oc_parameter_struct" where
  "timer_channel_output_struct_para_init ocpara =
    (let ocpara = ocpara\<lparr>timer_oc_outputstate := (ucast TIMER_CCX_DISABLE :: u16)\<rparr>;
         ocpara = ocpara\<lparr>timer_oc_outputnstate := (ucast TIMER_CCXN_DISABLE :: u16)\<rparr>;
         ocpara = ocpara\<lparr>timer_oc_ocpolarity := (ucast TIMER_OC_POLARITY_HIGH :: u16)\<rparr>;
         ocpara = ocpara\<lparr>timer_oc_ocnpolarity := (ucast TIMER_OCN_POLARITY_HIGH :: u16)\<rparr>;
         ocpara = ocpara\<lparr>timer_oc_ocidlestate := (ucast TIMER_OC_IDLE_STATE_LOW :: u16)\<rparr>
      in ocpara\<lparr>timer_oc_ocnidlestate := (ucast TIMER_OCN_IDLE_STATE_LOW :: u16)\<rparr>)"

definition timer_channel_output_config :: "u32 \<Rightarrow> u16 \<Rightarrow> timer_oc_parameter_struct \<Rightarrow> mem \<Rightarrow> mem" where
  "timer_channel_output_config timer_periph channel ocpara m =
    (if (ucast channel :: u32) = TIMER_CH_0 then
       (let m = m(TIMER_CHCTL2 timer_periph := m (TIMER_CHCTL2 timer_periph) AND NOT TIMER_CHCTL2_CH0EN);
            m = m(TIMER_CHCTL0 timer_periph := m (TIMER_CHCTL0 timer_periph) AND NOT TIMER_CHCTL0_CH0MS);
            m = m(TIMER_CHCTL2 timer_periph := m (TIMER_CHCTL2 timer_periph) OR (ucast (timer_oc_outputstate ocpara) :: u32));
            m = m(TIMER_CHCTL2 timer_periph := m (TIMER_CHCTL2 timer_periph) AND NOT TIMER_CHCTL2_CH0P);
            m = m(TIMER_CHCTL2 timer_periph := m (TIMER_CHCTL2 timer_periph) OR (ucast (timer_oc_ocpolarity ocpara) :: u32))
         in (if (timer_periph = TIMER0) \<or> (timer_periph = TIMER7) then
               (let m = m(TIMER_CHCTL2 timer_periph := m (TIMER_CHCTL2 timer_periph) AND NOT TIMER_CHCTL2_CH0NEN);
                    m = m(TIMER_CHCTL2 timer_periph := m (TIMER_CHCTL2 timer_periph) OR (ucast (timer_oc_outputnstate ocpara) :: u32));
                    m = m(TIMER_CHCTL2 timer_periph := m (TIMER_CHCTL2 timer_periph) AND NOT TIMER_CHCTL2_CH0NP);
                    m = m(TIMER_CHCTL2 timer_periph := m (TIMER_CHCTL2 timer_periph) OR (ucast (timer_oc_ocnpolarity ocpara) :: u32));
                    m = m(TIMER_CTL1 timer_periph := m (TIMER_CTL1 timer_periph) AND NOT TIMER_CTL1_ISO0);
                    m = m(TIMER_CTL1 timer_periph := m (TIMER_CTL1 timer_periph) OR (ucast (timer_oc_ocidlestate ocpara) :: u32));
                    m = m(TIMER_CTL1 timer_periph := m (TIMER_CTL1 timer_periph) AND NOT TIMER_CTL1_ISO0N)
                 in m(TIMER_CTL1 timer_periph := m (TIMER_CTL1 timer_periph) OR (ucast (timer_oc_ocnidlestate ocpara) :: u32)))
             else
               m))
     else if (ucast channel :: u32) = TIMER_CH_1 then
       (let m = m(TIMER_CHCTL2 timer_periph := m (TIMER_CHCTL2 timer_periph) AND NOT TIMER_CHCTL2_CH1EN);
            m = m(TIMER_CHCTL0 timer_periph := m (TIMER_CHCTL0 timer_periph) AND NOT TIMER_CHCTL0_CH1MS);
            m = m(TIMER_CHCTL2 timer_periph := m (TIMER_CHCTL2 timer_periph) OR push_bit 4 (ucast (timer_oc_outputstate ocpara) :: u32));
            m = m(TIMER_CHCTL2 timer_periph := m (TIMER_CHCTL2 timer_periph) AND NOT TIMER_CHCTL2_CH1P);
            m = m(TIMER_CHCTL2 timer_periph := m (TIMER_CHCTL2 timer_periph) OR push_bit 4 (ucast (timer_oc_ocpolarity ocpara) :: u32))
         in (if (timer_periph = TIMER0) \<or> (timer_periph = TIMER7) then
               (let m = m(TIMER_CHCTL2 timer_periph := m (TIMER_CHCTL2 timer_periph) AND NOT TIMER_CHCTL2_CH1NEN);
                    m = m(TIMER_CHCTL2 timer_periph := m (TIMER_CHCTL2 timer_periph) OR push_bit 4 (ucast (timer_oc_outputnstate ocpara) :: u32));
                    m = m(TIMER_CHCTL2 timer_periph := m (TIMER_CHCTL2 timer_periph) AND NOT TIMER_CHCTL2_CH1NP);
                    m = m(TIMER_CHCTL2 timer_periph := m (TIMER_CHCTL2 timer_periph) OR push_bit 4 (ucast (timer_oc_ocnpolarity ocpara) :: u32));
                    m = m(TIMER_CTL1 timer_periph := m (TIMER_CTL1 timer_periph) AND NOT TIMER_CTL1_ISO1);
                    m = m(TIMER_CTL1 timer_periph := m (TIMER_CTL1 timer_periph) OR push_bit 2 (ucast (timer_oc_ocidlestate ocpara) :: u32));
                    m = m(TIMER_CTL1 timer_periph := m (TIMER_CTL1 timer_periph) AND NOT TIMER_CTL1_ISO1N)
                 in m(TIMER_CTL1 timer_periph := m (TIMER_CTL1 timer_periph) OR push_bit 2 (ucast (timer_oc_ocnidlestate ocpara) :: u32)))
             else
               m))
     else if (ucast channel :: u32) = TIMER_CH_2 then
       (let m = m(TIMER_CHCTL2 timer_periph := m (TIMER_CHCTL2 timer_periph) AND NOT TIMER_CHCTL2_CH2EN);
            m = m(TIMER_CHCTL1 timer_periph := m (TIMER_CHCTL1 timer_periph) AND NOT TIMER_CHCTL1_CH2MS);
            m = m(TIMER_CHCTL2 timer_periph := m (TIMER_CHCTL2 timer_periph) OR push_bit 8 (ucast (timer_oc_outputstate ocpara) :: u32));
            m = m(TIMER_CHCTL2 timer_periph := m (TIMER_CHCTL2 timer_periph) AND NOT TIMER_CHCTL2_CH2P);
            m = m(TIMER_CHCTL2 timer_periph := m (TIMER_CHCTL2 timer_periph) OR push_bit 8 (ucast (timer_oc_ocpolarity ocpara) :: u32))
         in (if (timer_periph = TIMER0) \<or> (timer_periph = TIMER7) then
               (let m = m(TIMER_CHCTL2 timer_periph := m (TIMER_CHCTL2 timer_periph) AND NOT TIMER_CHCTL2_CH2NEN);
                    m = m(TIMER_CHCTL2 timer_periph := m (TIMER_CHCTL2 timer_periph) OR push_bit 8 (ucast (timer_oc_outputnstate ocpara) :: u32));
                    m = m(TIMER_CHCTL2 timer_periph := m (TIMER_CHCTL2 timer_periph) AND NOT TIMER_CHCTL2_CH2NP);
                    m = m(TIMER_CHCTL2 timer_periph := m (TIMER_CHCTL2 timer_periph) OR push_bit 8 (ucast (timer_oc_ocnpolarity ocpara) :: u32));
                    m = m(TIMER_CTL1 timer_periph := m (TIMER_CTL1 timer_periph) AND NOT TIMER_CTL1_ISO2);
                    m = m(TIMER_CTL1 timer_periph := m (TIMER_CTL1 timer_periph) OR push_bit 4 (ucast (timer_oc_ocidlestate ocpara) :: u32));
                    m = m(TIMER_CTL1 timer_periph := m (TIMER_CTL1 timer_periph) AND NOT TIMER_CTL1_ISO2N)
                 in m(TIMER_CTL1 timer_periph := m (TIMER_CTL1 timer_periph) OR push_bit 4 (ucast (timer_oc_ocnidlestate ocpara) :: u32)))
             else
               m))
     else if (ucast channel :: u32) = TIMER_CH_3 then
       (let m = m(TIMER_CHCTL2 timer_periph := m (TIMER_CHCTL2 timer_periph) AND NOT TIMER_CHCTL2_CH3EN);
            m = m(TIMER_CHCTL1 timer_periph := m (TIMER_CHCTL1 timer_periph) AND NOT TIMER_CHCTL1_CH3MS);
            m = m(TIMER_CHCTL2 timer_periph := m (TIMER_CHCTL2 timer_periph) OR push_bit 12 (ucast (timer_oc_outputstate ocpara) :: u32));
            m = m(TIMER_CHCTL2 timer_periph := m (TIMER_CHCTL2 timer_periph) AND NOT TIMER_CHCTL2_CH3P);
            m = m(TIMER_CHCTL2 timer_periph := m (TIMER_CHCTL2 timer_periph) OR push_bit 12 (ucast (timer_oc_ocpolarity ocpara) :: u32))
         in (if (timer_periph = TIMER0) \<or> (timer_periph = TIMER7) then
               (let m = m(TIMER_CTL1 timer_periph := m (TIMER_CTL1 timer_periph) AND NOT TIMER_CTL1_ISO3)
                 in m(TIMER_CTL1 timer_periph := m (TIMER_CTL1 timer_periph) OR push_bit 6 (ucast (timer_oc_ocidlestate ocpara) :: u32)))
             else
               m))
     else
       m)"

definition timer_channel_output_mode_config :: "u32 \<Rightarrow> u16 \<Rightarrow> u16 \<Rightarrow> mem \<Rightarrow> mem" where
  "timer_channel_output_mode_config timer_periph channel ocmode m =
    (if (ucast channel :: u32) = TIMER_CH_0 then
       (let m = m(TIMER_CHCTL0 timer_periph := m (TIMER_CHCTL0 timer_periph) AND NOT TIMER_CHCTL0_CH0COMCTL)
         in m(TIMER_CHCTL0 timer_periph := m (TIMER_CHCTL0 timer_periph) OR (ucast ocmode :: u32)))
     else if (ucast channel :: u32) = TIMER_CH_1 then
       (let m = m(TIMER_CHCTL0 timer_periph := m (TIMER_CHCTL0 timer_periph) AND NOT TIMER_CHCTL0_CH1COMCTL)
         in m(TIMER_CHCTL0 timer_periph := m (TIMER_CHCTL0 timer_periph) OR push_bit 8 (ucast ocmode :: u32)))
     else if (ucast channel :: u32) = TIMER_CH_2 then
       (let m = m(TIMER_CHCTL1 timer_periph := m (TIMER_CHCTL1 timer_periph) AND NOT TIMER_CHCTL1_CH2COMCTL)
         in m(TIMER_CHCTL1 timer_periph := m (TIMER_CHCTL1 timer_periph) OR (ucast ocmode :: u32)))
     else if (ucast channel :: u32) = TIMER_CH_3 then
       (let m = m(TIMER_CHCTL1 timer_periph := m (TIMER_CHCTL1 timer_periph) AND NOT TIMER_CHCTL1_CH3COMCTL)
         in m(TIMER_CHCTL1 timer_periph := m (TIMER_CHCTL1 timer_periph) OR push_bit 8 (ucast ocmode :: u32)))
     else
       m)"

definition timer_channel_output_pulse_value_config :: "u32 \<Rightarrow> u16 \<Rightarrow> u32 \<Rightarrow> mem \<Rightarrow> mem" where
  "timer_channel_output_pulse_value_config timer_periph channel pulse m =
    (if (ucast channel :: u32) = TIMER_CH_0 then
       m(TIMER_CH0CV timer_periph := pulse)
     else if (ucast channel :: u32) = TIMER_CH_1 then
       m(TIMER_CH1CV timer_periph := pulse)
     else if (ucast channel :: u32) = TIMER_CH_2 then
       m(TIMER_CH2CV timer_periph := pulse)
     else if (ucast channel :: u32) = TIMER_CH_3 then m(TIMER_CH3CV timer_periph := pulse) else m)"

definition timer_channel_output_shadow_config :: "u32 \<Rightarrow> u16 \<Rightarrow> u16 \<Rightarrow> mem \<Rightarrow> mem" where
  "timer_channel_output_shadow_config timer_periph channel ocshadow m =
    (if (ucast channel :: u32) = TIMER_CH_0 then
       (let m = m(TIMER_CHCTL0 timer_periph := m (TIMER_CHCTL0 timer_periph) AND NOT TIMER_CHCTL0_CH0COMSEN)
         in m(TIMER_CHCTL0 timer_periph := m (TIMER_CHCTL0 timer_periph) OR (ucast ocshadow :: u32)))
     else if (ucast channel :: u32) = TIMER_CH_1 then
       (let m = m(TIMER_CHCTL0 timer_periph := m (TIMER_CHCTL0 timer_periph) AND NOT TIMER_CHCTL0_CH1COMSEN)
         in m(TIMER_CHCTL0 timer_periph := m (TIMER_CHCTL0 timer_periph) OR push_bit 8 (ucast ocshadow :: u32)))
     else if (ucast channel :: u32) = TIMER_CH_2 then
       (let m = m(TIMER_CHCTL1 timer_periph := m (TIMER_CHCTL1 timer_periph) AND NOT TIMER_CHCTL1_CH2COMSEN)
         in m(TIMER_CHCTL1 timer_periph := m (TIMER_CHCTL1 timer_periph) OR (ucast ocshadow :: u32)))
     else if (ucast channel :: u32) = TIMER_CH_3 then
       (let m = m(TIMER_CHCTL1 timer_periph := m (TIMER_CHCTL1 timer_periph) AND NOT TIMER_CHCTL1_CH3COMSEN)
         in m(TIMER_CHCTL1 timer_periph := m (TIMER_CHCTL1 timer_periph) OR push_bit 8 (ucast ocshadow :: u32)))
     else
       m)"

definition timer_channel_output_fast_config :: "u32 \<Rightarrow> u16 \<Rightarrow> u16 \<Rightarrow> mem \<Rightarrow> mem" where
  "timer_channel_output_fast_config timer_periph channel ocfast m =
    (if (ucast channel :: u32) = TIMER_CH_0 then
       (let m = m(TIMER_CHCTL0 timer_periph := m (TIMER_CHCTL0 timer_periph) AND NOT TIMER_CHCTL0_CH0COMFEN)
         in m(TIMER_CHCTL0 timer_periph := m (TIMER_CHCTL0 timer_periph) OR (ucast ocfast :: u32)))
     else if (ucast channel :: u32) = TIMER_CH_1 then
       (let m = m(TIMER_CHCTL0 timer_periph := m (TIMER_CHCTL0 timer_periph) AND NOT TIMER_CHCTL0_CH1COMFEN)
         in m(TIMER_CHCTL0 timer_periph := m (TIMER_CHCTL0 timer_periph) OR push_bit 8 (ucast ocfast :: u32)))
     else if (ucast channel :: u32) = TIMER_CH_2 then
       (let m = m(TIMER_CHCTL1 timer_periph := m (TIMER_CHCTL1 timer_periph) AND NOT TIMER_CHCTL1_CH2COMFEN)
         in m(TIMER_CHCTL1 timer_periph := m (TIMER_CHCTL1 timer_periph) OR (ucast ocfast :: u32)))
     else if (ucast channel :: u32) = TIMER_CH_3 then
       (let m = m(TIMER_CHCTL1 timer_periph := m (TIMER_CHCTL1 timer_periph) AND NOT TIMER_CHCTL1_CH3COMFEN)
         in m(TIMER_CHCTL1 timer_periph := m (TIMER_CHCTL1 timer_periph) OR push_bit 8 (ucast ocfast :: u32)))
     else
       m)"

definition timer_channel_output_clear_config :: "u32 \<Rightarrow> u16 \<Rightarrow> u16 \<Rightarrow> mem \<Rightarrow> mem" where
  "timer_channel_output_clear_config timer_periph channel occlear m =
    (if (ucast channel :: u32) = TIMER_CH_0 then
       (let m = m(TIMER_CHCTL0 timer_periph := m (TIMER_CHCTL0 timer_periph) AND NOT TIMER_CHCTL0_CH0COMCEN)
         in m(TIMER_CHCTL0 timer_periph := m (TIMER_CHCTL0 timer_periph) OR (ucast occlear :: u32)))
     else if (ucast channel :: u32) = TIMER_CH_1 then
       (let m = m(TIMER_CHCTL0 timer_periph := m (TIMER_CHCTL0 timer_periph) AND NOT TIMER_CHCTL0_CH1COMCEN)
         in m(TIMER_CHCTL0 timer_periph := m (TIMER_CHCTL0 timer_periph) OR push_bit 8 (ucast occlear :: u32)))
     else if (ucast channel :: u32) = TIMER_CH_2 then
       (let m = m(TIMER_CHCTL1 timer_periph := m (TIMER_CHCTL1 timer_periph) AND NOT TIMER_CHCTL1_CH2COMCEN)
         in m(TIMER_CHCTL1 timer_periph := m (TIMER_CHCTL1 timer_periph) OR (ucast occlear :: u32)))
     else if (ucast channel :: u32) = TIMER_CH_3 then
       (let m = m(TIMER_CHCTL1 timer_periph := m (TIMER_CHCTL1 timer_periph) AND NOT TIMER_CHCTL1_CH3COMCEN)
         in m(TIMER_CHCTL1 timer_periph := m (TIMER_CHCTL1 timer_periph) OR push_bit 8 (ucast occlear :: u32)))
     else
       m)"

definition timer_channel_output_polarity_config :: "u32 \<Rightarrow> u16 \<Rightarrow> u16 \<Rightarrow> mem \<Rightarrow> mem" where
  "timer_channel_output_polarity_config timer_periph channel ocpolarity m =
    (if (ucast channel :: u32) = TIMER_CH_0 then
       (let m = m(TIMER_CHCTL2 timer_periph := m (TIMER_CHCTL2 timer_periph) AND NOT TIMER_CHCTL2_CH0P)
         in m(TIMER_CHCTL2 timer_periph := m (TIMER_CHCTL2 timer_periph) OR (ucast ocpolarity :: u32)))
     else if (ucast channel :: u32) = TIMER_CH_1 then
       (let m = m(TIMER_CHCTL2 timer_periph := m (TIMER_CHCTL2 timer_periph) AND NOT TIMER_CHCTL2_CH1P)
         in m(TIMER_CHCTL2 timer_periph := m (TIMER_CHCTL2 timer_periph) OR push_bit 4 (ucast ocpolarity :: u32)))
     else if (ucast channel :: u32) = TIMER_CH_2 then
       (let m = m(TIMER_CHCTL2 timer_periph := m (TIMER_CHCTL2 timer_periph) AND NOT TIMER_CHCTL2_CH2P)
         in m(TIMER_CHCTL2 timer_periph := m (TIMER_CHCTL2 timer_periph) OR push_bit 8 (ucast ocpolarity :: u32)))
     else if (ucast channel :: u32) = TIMER_CH_3 then
       (let m = m(TIMER_CHCTL2 timer_periph := m (TIMER_CHCTL2 timer_periph) AND NOT TIMER_CHCTL2_CH3P)
         in m(TIMER_CHCTL2 timer_periph := m (TIMER_CHCTL2 timer_periph) OR push_bit 12 (ucast ocpolarity :: u32)))
     else
       m)"

definition timer_channel_complementary_output_polarity_config :: "u32 \<Rightarrow> u16 \<Rightarrow> u16 \<Rightarrow> mem \<Rightarrow> mem" where
  "timer_channel_complementary_output_polarity_config timer_periph channel ocnpolarity m =
    (if (ucast channel :: u32) = TIMER_CH_0 then
       (let m = m(TIMER_CHCTL2 timer_periph := m (TIMER_CHCTL2 timer_periph) AND NOT TIMER_CHCTL2_CH0NP)
         in m(TIMER_CHCTL2 timer_periph := m (TIMER_CHCTL2 timer_periph) OR (ucast ocnpolarity :: u32)))
     else if (ucast channel :: u32) = TIMER_CH_1 then
       (let m = m(TIMER_CHCTL2 timer_periph := m (TIMER_CHCTL2 timer_periph) AND NOT TIMER_CHCTL2_CH1NP)
         in m(TIMER_CHCTL2 timer_periph := m (TIMER_CHCTL2 timer_periph) OR push_bit 4 (ucast ocnpolarity :: u32)))
     else if (ucast channel :: u32) = TIMER_CH_2 then
       (let m = m(TIMER_CHCTL2 timer_periph := m (TIMER_CHCTL2 timer_periph) AND NOT TIMER_CHCTL2_CH2NP)
         in m(TIMER_CHCTL2 timer_periph := m (TIMER_CHCTL2 timer_periph) OR push_bit 8 (ucast ocnpolarity :: u32)))
     else
       m)"

definition timer_channel_output_state_config :: "u32 \<Rightarrow> u16 \<Rightarrow> u32 \<Rightarrow> mem \<Rightarrow> mem" where
  "timer_channel_output_state_config timer_periph channel state' m =
    (if (ucast channel :: u32) = TIMER_CH_0 then
       (let m = m(TIMER_CHCTL2 timer_periph := m (TIMER_CHCTL2 timer_periph) AND NOT TIMER_CHCTL2_CH0EN)
         in m(TIMER_CHCTL2 timer_periph := m (TIMER_CHCTL2 timer_periph) OR state'))
     else if (ucast channel :: u32) = TIMER_CH_1 then
       (let m = m(TIMER_CHCTL2 timer_periph := m (TIMER_CHCTL2 timer_periph) AND NOT TIMER_CHCTL2_CH1EN)
         in m(TIMER_CHCTL2 timer_periph := m (TIMER_CHCTL2 timer_periph) OR push_bit 4 state'))
     else if (ucast channel :: u32) = TIMER_CH_2 then
       (let m = m(TIMER_CHCTL2 timer_periph := m (TIMER_CHCTL2 timer_periph) AND NOT TIMER_CHCTL2_CH2EN)
         in m(TIMER_CHCTL2 timer_periph := m (TIMER_CHCTL2 timer_periph) OR push_bit 8 state'))
     else if (ucast channel :: u32) = TIMER_CH_3 then
       (let m = m(TIMER_CHCTL2 timer_periph := m (TIMER_CHCTL2 timer_periph) AND NOT TIMER_CHCTL2_CH3EN)
         in m(TIMER_CHCTL2 timer_periph := m (TIMER_CHCTL2 timer_periph) OR push_bit 12 state'))
     else
       m)"

definition timer_channel_complementary_output_state_config :: "u32 \<Rightarrow> u16 \<Rightarrow> u16 \<Rightarrow> mem \<Rightarrow> mem" where
  "timer_channel_complementary_output_state_config timer_periph channel ocnstate m =
    (if (ucast channel :: u32) = TIMER_CH_0 then
       (let m = m(TIMER_CHCTL2 timer_periph := m (TIMER_CHCTL2 timer_periph) AND NOT TIMER_CHCTL2_CH0NEN)
         in m(TIMER_CHCTL2 timer_periph := m (TIMER_CHCTL2 timer_periph) OR (ucast ocnstate :: u32)))
     else if (ucast channel :: u32) = TIMER_CH_1 then
       (let m = m(TIMER_CHCTL2 timer_periph := m (TIMER_CHCTL2 timer_periph) AND NOT TIMER_CHCTL2_CH1NEN)
         in m(TIMER_CHCTL2 timer_periph := m (TIMER_CHCTL2 timer_periph) OR push_bit 4 (ucast ocnstate :: u32)))
     else if (ucast channel :: u32) = TIMER_CH_2 then
       (let m = m(TIMER_CHCTL2 timer_periph := m (TIMER_CHCTL2 timer_periph) AND NOT TIMER_CHCTL2_CH2NEN)
         in m(TIMER_CHCTL2 timer_periph := m (TIMER_CHCTL2 timer_periph) OR push_bit 8 (ucast ocnstate :: u32)))
     else
       m)"

definition timer_channel_input_struct_para_init :: "timer_ic_parameter_struct \<Rightarrow> timer_ic_parameter_struct" where
  "timer_channel_input_struct_para_init icpara =
    (let icpara = icpara\<lparr>timer_ic_icpolarity := (ucast TIMER_IC_POLARITY_RISING :: u16)\<rparr>;
         icpara = icpara\<lparr>timer_ic_icselection := (ucast TIMER_IC_SELECTION_DIRECTTI :: u16)\<rparr>;
         icpara = icpara\<lparr>timer_ic_icprescaler := (ucast TIMER_IC_PSC_DIV1 :: u16)\<rparr>
      in icpara\<lparr>timer_ic_icfilter := 0\<rparr>)"

definition timer_channel_input_capture_prescaler_config :: "u32 \<Rightarrow> u16 \<Rightarrow> u16 \<Rightarrow> mem \<Rightarrow> mem" where
  "timer_channel_input_capture_prescaler_config timer_periph channel prescaler m =
    (if (ucast channel :: u32) = TIMER_CH_0 then
       (let m = m(TIMER_CHCTL0 timer_periph := m (TIMER_CHCTL0 timer_periph) AND NOT TIMER_CHCTL0_CH0CAPPSC)
         in m(TIMER_CHCTL0 timer_periph := m (TIMER_CHCTL0 timer_periph) OR (ucast prescaler :: u32)))
     else if (ucast channel :: u32) = TIMER_CH_1 then
       (let m = m(TIMER_CHCTL0 timer_periph := m (TIMER_CHCTL0 timer_periph) AND NOT TIMER_CHCTL0_CH1CAPPSC)
         in m(TIMER_CHCTL0 timer_periph := m (TIMER_CHCTL0 timer_periph) OR push_bit 8 (ucast prescaler :: u32)))
     else if (ucast channel :: u32) = TIMER_CH_2 then
       (let m = m(TIMER_CHCTL1 timer_periph := m (TIMER_CHCTL1 timer_periph) AND NOT TIMER_CHCTL1_CH2CAPPSC)
         in m(TIMER_CHCTL1 timer_periph := m (TIMER_CHCTL1 timer_periph) OR (ucast prescaler :: u32)))
     else if (ucast channel :: u32) = TIMER_CH_3 then
       (let m = m(TIMER_CHCTL1 timer_periph := m (TIMER_CHCTL1 timer_periph) AND NOT TIMER_CHCTL1_CH3CAPPSC)
         in m(TIMER_CHCTL1 timer_periph := m (TIMER_CHCTL1 timer_periph) OR push_bit 8 (ucast prescaler :: u32)))
     else
       m)"

definition timer_input_capture_config :: "u32 \<Rightarrow> u16 \<Rightarrow> timer_ic_parameter_struct \<Rightarrow> mem \<Rightarrow> mem" where
  "timer_input_capture_config timer_periph channel icpara m =
    (let m = (if (ucast channel :: u32) = TIMER_CH_0 then
              (let m = m(TIMER_CHCTL2 timer_periph := m (TIMER_CHCTL2 timer_periph) AND NOT TIMER_CHCTL2_CH0EN);
                   m = m(TIMER_CHCTL2 timer_periph := m (TIMER_CHCTL2 timer_periph) AND NOT (TIMER_CHCTL2_CH0P OR TIMER_CHCTL2_CH0NP));
                   m = m(TIMER_CHCTL2 timer_periph := m (TIMER_CHCTL2 timer_periph) OR (ucast (timer_ic_icpolarity icpara) :: u32));
                   m = m(TIMER_CHCTL0 timer_periph := m (TIMER_CHCTL0 timer_periph) AND NOT TIMER_CHCTL0_CH0MS);
                   m = m(TIMER_CHCTL0 timer_periph := m (TIMER_CHCTL0 timer_periph) OR (ucast (timer_ic_icselection icpara) :: u32));
                   m = m(TIMER_CHCTL0 timer_periph := m (TIMER_CHCTL0 timer_periph) AND NOT TIMER_CHCTL0_CH0CAPFLT);
                   m = m(TIMER_CHCTL0 timer_periph := m (TIMER_CHCTL0 timer_periph) OR push_bit 4 (ucast (timer_ic_icfilter icpara) :: u32))
                in m(TIMER_CHCTL2 timer_periph := m (TIMER_CHCTL2 timer_periph) OR TIMER_CHCTL2_CH0EN))
            else if (ucast channel :: u32) = TIMER_CH_1 then
              (let m = m(TIMER_CHCTL2 timer_periph := m (TIMER_CHCTL2 timer_periph) AND NOT TIMER_CHCTL2_CH1EN);
                   m = m(TIMER_CHCTL2 timer_periph := m (TIMER_CHCTL2 timer_periph) AND NOT (TIMER_CHCTL2_CH1P OR TIMER_CHCTL2_CH1NP));
                   m = m(TIMER_CHCTL2 timer_periph := m (TIMER_CHCTL2 timer_periph) OR push_bit 4 (ucast (timer_ic_icpolarity icpara) :: u32));
                   m = m(TIMER_CHCTL0 timer_periph := m (TIMER_CHCTL0 timer_periph) AND NOT TIMER_CHCTL0_CH1MS);
                   m = m(TIMER_CHCTL0 timer_periph := m (TIMER_CHCTL0 timer_periph) OR push_bit 8 (ucast (timer_ic_icselection icpara) :: u32));
                   m = m(TIMER_CHCTL0 timer_periph := m (TIMER_CHCTL0 timer_periph) AND NOT TIMER_CHCTL0_CH1CAPFLT);
                   m = m(TIMER_CHCTL0 timer_periph := m (TIMER_CHCTL0 timer_periph) OR push_bit 12 (ucast (timer_ic_icfilter icpara) :: u32))
                in m(TIMER_CHCTL2 timer_periph := m (TIMER_CHCTL2 timer_periph) OR TIMER_CHCTL2_CH1EN))
            else if (ucast channel :: u32) = TIMER_CH_2 then
              (let m = m(TIMER_CHCTL2 timer_periph := m (TIMER_CHCTL2 timer_periph) AND NOT TIMER_CHCTL2_CH2EN);
                   m = m(TIMER_CHCTL2 timer_periph := m (TIMER_CHCTL2 timer_periph) AND NOT (TIMER_CHCTL2_CH2P OR TIMER_CHCTL2_CH2NP));
                   m = m(TIMER_CHCTL2 timer_periph := m (TIMER_CHCTL2 timer_periph) OR push_bit 8 (ucast (timer_ic_icpolarity icpara) :: u32));
                   m = m(TIMER_CHCTL1 timer_periph := m (TIMER_CHCTL1 timer_periph) AND NOT TIMER_CHCTL1_CH2MS);
                   m = m(TIMER_CHCTL1 timer_periph := m (TIMER_CHCTL1 timer_periph) OR (ucast (timer_ic_icselection icpara) :: u32));
                   m = m(TIMER_CHCTL1 timer_periph := m (TIMER_CHCTL1 timer_periph) AND NOT TIMER_CHCTL1_CH2CAPFLT);
                   m = m(TIMER_CHCTL1 timer_periph := m (TIMER_CHCTL1 timer_periph) OR push_bit 4 (ucast (timer_ic_icfilter icpara) :: u32))
                in m(TIMER_CHCTL2 timer_periph := m (TIMER_CHCTL2 timer_periph) OR TIMER_CHCTL2_CH2EN))
            else if (ucast channel :: u32) = TIMER_CH_3 then
              (let m = m(TIMER_CHCTL2 timer_periph := m (TIMER_CHCTL2 timer_periph) AND NOT TIMER_CHCTL2_CH3EN);
                   m = m(TIMER_CHCTL2 timer_periph := m (TIMER_CHCTL2 timer_periph) AND NOT TIMER_CHCTL2_CH3P);
                   m = m(TIMER_CHCTL2 timer_periph := m (TIMER_CHCTL2 timer_periph) OR push_bit 12 (ucast (timer_ic_icpolarity icpara) :: u32));
                   m = m(TIMER_CHCTL1 timer_periph := m (TIMER_CHCTL1 timer_periph) AND NOT TIMER_CHCTL1_CH3MS);
                   m = m(TIMER_CHCTL1 timer_periph := m (TIMER_CHCTL1 timer_periph) OR push_bit 8 (ucast (timer_ic_icselection icpara) :: u32));
                   m = m(TIMER_CHCTL1 timer_periph := m (TIMER_CHCTL1 timer_periph) AND NOT TIMER_CHCTL1_CH3CAPFLT);
                   m = m(TIMER_CHCTL1 timer_periph := m (TIMER_CHCTL1 timer_periph) OR push_bit 12 (ucast (timer_ic_icfilter icpara) :: u32))
                in m(TIMER_CHCTL2 timer_periph := m (TIMER_CHCTL2 timer_periph) OR TIMER_CHCTL2_CH3EN))
            else
              m)
      in timer_channel_input_capture_prescaler_config timer_periph channel (timer_ic_icprescaler icpara) m)"

definition timer_channel_capture_value_register_read :: "u32 \<Rightarrow> u16 \<Rightarrow> mem \<Rightarrow> u32" where
  "timer_channel_capture_value_register_read timer_periph channel m =
    (let count_value = 0
      in (if (ucast channel :: u32) = TIMER_CH_0 then
            m (TIMER_CH0CV timer_periph)
          else if (ucast channel :: u32) = TIMER_CH_1 then
            m (TIMER_CH1CV timer_periph)
          else if (ucast channel :: u32) = TIMER_CH_2 then
            m (TIMER_CH2CV timer_periph)
          else if (ucast channel :: u32) = TIMER_CH_3 then
            m (TIMER_CH3CV timer_periph)
          else
            count_value))"

definition timer_input_pwm_capture_config :: "u32 \<Rightarrow> u16 \<Rightarrow> timer_ic_parameter_struct \<Rightarrow> mem \<Rightarrow> mem" where
  "timer_input_pwm_capture_config timer_periph channel icpwm m =
    (let icpolarity = (0 :: u16);
         icselection = (0 :: u16);
         icpolarity = (if (ucast (timer_ic_icpolarity icpwm) :: u32) = TIMER_IC_POLARITY_RISING then
              (ucast TIMER_IC_POLARITY_FALLING :: u16)
            else
              (ucast TIMER_IC_POLARITY_RISING :: u16));
         icselection = (if (ucast (timer_ic_icselection icpwm) :: u32) = TIMER_IC_SELECTION_DIRECTTI then
              (ucast TIMER_IC_SELECTION_INDIRECTTI :: u16)
            else
              (ucast TIMER_IC_SELECTION_DIRECTTI :: u16))
      in (if (ucast channel :: u32) = TIMER_CH_0 then
            (let m = m(TIMER_CHCTL2 timer_periph := m (TIMER_CHCTL2 timer_periph) AND NOT TIMER_CHCTL2_CH0EN);
                 m = m(TIMER_CHCTL2 timer_periph := m (TIMER_CHCTL2 timer_periph) AND NOT (TIMER_CHCTL2_CH0P OR TIMER_CHCTL2_CH0NP));
                 m = m(TIMER_CHCTL2 timer_periph := m (TIMER_CHCTL2 timer_periph) OR (ucast (timer_ic_icpolarity icpwm) :: u32));
                 m = m(TIMER_CHCTL0 timer_periph := m (TIMER_CHCTL0 timer_periph) AND NOT TIMER_CHCTL0_CH0MS);
                 m = m(TIMER_CHCTL0 timer_periph := m (TIMER_CHCTL0 timer_periph) OR (ucast (timer_ic_icselection icpwm) :: u32));
                 m = m(TIMER_CHCTL0 timer_periph := m (TIMER_CHCTL0 timer_periph) AND NOT TIMER_CHCTL0_CH0CAPFLT);
                 m = m(TIMER_CHCTL0 timer_periph := m (TIMER_CHCTL0 timer_periph) OR push_bit 4 (ucast (timer_ic_icfilter icpwm) :: u32));
                 m = m(TIMER_CHCTL2 timer_periph := m (TIMER_CHCTL2 timer_periph) OR TIMER_CHCTL2_CH0EN);
                 m = timer_channel_input_capture_prescaler_config timer_periph (ucast TIMER_CH_0 :: u16) (timer_ic_icprescaler icpwm) m;
                 m = m(TIMER_CHCTL2 timer_periph := m (TIMER_CHCTL2 timer_periph) AND NOT TIMER_CHCTL2_CH1EN);
                 m = m(TIMER_CHCTL2 timer_periph := m (TIMER_CHCTL2 timer_periph) AND NOT (TIMER_CHCTL2_CH1P OR TIMER_CHCTL2_CH1NP));
                 m = m(TIMER_CHCTL2 timer_periph := m (TIMER_CHCTL2 timer_periph) OR push_bit 4 (ucast icpolarity :: u32));
                 m = m(TIMER_CHCTL0 timer_periph := m (TIMER_CHCTL0 timer_periph) AND NOT TIMER_CHCTL0_CH1MS);
                 m = m(TIMER_CHCTL0 timer_periph := m (TIMER_CHCTL0 timer_periph) OR push_bit 8 (ucast icselection :: u32));
                 m = m(TIMER_CHCTL0 timer_periph := m (TIMER_CHCTL0 timer_periph) AND NOT TIMER_CHCTL0_CH1CAPFLT);
                 m = m(TIMER_CHCTL0 timer_periph := m (TIMER_CHCTL0 timer_periph) OR push_bit 12 (ucast (timer_ic_icfilter icpwm) :: u32));
                 m = m(TIMER_CHCTL2 timer_periph := m (TIMER_CHCTL2 timer_periph) OR TIMER_CHCTL2_CH1EN)
              in timer_channel_input_capture_prescaler_config timer_periph (ucast TIMER_CH_1 :: u16) (timer_ic_icprescaler icpwm) m)
          else
            (let m = m(TIMER_CHCTL2 timer_periph := m (TIMER_CHCTL2 timer_periph) AND NOT TIMER_CHCTL2_CH1EN);
                 m = m(TIMER_CHCTL2 timer_periph := m (TIMER_CHCTL2 timer_periph) AND NOT (TIMER_CHCTL2_CH1P OR TIMER_CHCTL2_CH1NP));
                 m = m(TIMER_CHCTL2 timer_periph := m (TIMER_CHCTL2 timer_periph) OR push_bit 4 (ucast (timer_ic_icpolarity icpwm) :: u32));
                 m = m(TIMER_CHCTL0 timer_periph := m (TIMER_CHCTL0 timer_periph) AND NOT TIMER_CHCTL0_CH1MS);
                 m = m(TIMER_CHCTL0 timer_periph := m (TIMER_CHCTL0 timer_periph) OR push_bit 8 (ucast (timer_ic_icselection icpwm) :: u32));
                 m = m(TIMER_CHCTL0 timer_periph := m (TIMER_CHCTL0 timer_periph) AND NOT TIMER_CHCTL0_CH1CAPFLT);
                 m = m(TIMER_CHCTL0 timer_periph := m (TIMER_CHCTL0 timer_periph) OR push_bit 12 (ucast (timer_ic_icfilter icpwm) :: u32));
                 m = m(TIMER_CHCTL2 timer_periph := m (TIMER_CHCTL2 timer_periph) OR TIMER_CHCTL2_CH1EN);
                 m = timer_channel_input_capture_prescaler_config timer_periph (ucast TIMER_CH_1 :: u16) (timer_ic_icprescaler icpwm) m;
                 m = m(TIMER_CHCTL2 timer_periph := m (TIMER_CHCTL2 timer_periph) AND NOT TIMER_CHCTL2_CH0EN);
                 m = m(TIMER_CHCTL2 timer_periph := m (TIMER_CHCTL2 timer_periph) AND NOT (TIMER_CHCTL2_CH0P OR TIMER_CHCTL2_CH0NP));
                 m = m(TIMER_CHCTL2 timer_periph := m (TIMER_CHCTL2 timer_periph) OR (ucast icpolarity :: u32));
                 m = m(TIMER_CHCTL0 timer_periph := m (TIMER_CHCTL0 timer_periph) AND NOT TIMER_CHCTL0_CH0MS);
                 m = m(TIMER_CHCTL0 timer_periph := m (TIMER_CHCTL0 timer_periph) OR (ucast icselection :: u32));
                 m = m(TIMER_CHCTL0 timer_periph := m (TIMER_CHCTL0 timer_periph) AND NOT TIMER_CHCTL0_CH0CAPFLT);
                 m = m(TIMER_CHCTL0 timer_periph := m (TIMER_CHCTL0 timer_periph) OR push_bit 4 (ucast (timer_ic_icfilter icpwm) :: u32));
                 m = m(TIMER_CHCTL2 timer_periph := m (TIMER_CHCTL2 timer_periph) OR TIMER_CHCTL2_CH0EN)
              in timer_channel_input_capture_prescaler_config timer_periph (ucast TIMER_CH_0 :: u16) (timer_ic_icprescaler icpwm) m)))"

definition timer_hall_mode_config :: "u32 \<Rightarrow> u32 \<Rightarrow> mem \<Rightarrow> mem" where
  "timer_hall_mode_config timer_periph hallmode m =
    (if hallmode = TIMER_HALLINTERFACE_ENABLE then
       m(TIMER_CTL1 timer_periph := m (TIMER_CTL1 timer_periph) OR TIMER_CTL1_TI0S)
     else if hallmode = TIMER_HALLINTERFACE_DISABLE then
       m(TIMER_CTL1 timer_periph := m (TIMER_CTL1 timer_periph) AND NOT TIMER_CTL1_TI0S)
     else
       m)"

definition timer_input_trigger_source_select :: "u32 \<Rightarrow> u32 \<Rightarrow> mem \<Rightarrow> mem" where
  "timer_input_trigger_source_select timer_periph intrigger m =
    (let m = m(TIMER_SMCFG timer_periph := m (TIMER_SMCFG timer_periph) AND NOT TIMER_SMCFG_TRGS)
      in m(TIMER_SMCFG timer_periph := m (TIMER_SMCFG timer_periph) OR intrigger))"

definition timer_master_output_trigger_source_select :: "u32 \<Rightarrow> u32 \<Rightarrow> mem \<Rightarrow> mem" where
  "timer_master_output_trigger_source_select timer_periph outrigger m =
    (let m = m(TIMER_CTL1 timer_periph := m (TIMER_CTL1 timer_periph) AND NOT TIMER_CTL1_MMC)
      in m(TIMER_CTL1 timer_periph := m (TIMER_CTL1 timer_periph) OR outrigger))"

definition timer_slave_mode_select :: "u32 \<Rightarrow> u32 \<Rightarrow> mem \<Rightarrow> mem" where
  "timer_slave_mode_select timer_periph slavemode m =
    (let m = m(TIMER_SMCFG timer_periph := m (TIMER_SMCFG timer_periph) AND NOT TIMER_SMCFG_SMC)
      in m(TIMER_SMCFG timer_periph := m (TIMER_SMCFG timer_periph) OR slavemode))"

definition timer_master_slave_mode_config :: "u32 \<Rightarrow> u32 \<Rightarrow> mem \<Rightarrow> mem" where
  "timer_master_slave_mode_config timer_periph masterslave m =
    (if masterslave = TIMER_MASTER_SLAVE_MODE_ENABLE then
       m(TIMER_SMCFG timer_periph := m (TIMER_SMCFG timer_periph) OR TIMER_SMCFG_MSM)
     else if masterslave = TIMER_MASTER_SLAVE_MODE_DISABLE then
       m(TIMER_SMCFG timer_periph := m (TIMER_SMCFG timer_periph) AND NOT TIMER_SMCFG_MSM)
     else
       m)"

definition timer_external_trigger_config :: "u32 \<Rightarrow> u32 \<Rightarrow> u32 \<Rightarrow> u32 \<Rightarrow> mem \<Rightarrow> mem" where
  "timer_external_trigger_config timer_periph extprescaler extpolarity extfilter m =
    (let m = m(TIMER_SMCFG timer_periph := m (TIMER_SMCFG timer_periph) AND NOT (TIMER_SMCFG_ETP OR TIMER_SMCFG_ETPSC OR TIMER_SMCFG_ETFC));
         m = m(TIMER_SMCFG timer_periph := m (TIMER_SMCFG timer_periph) OR extprescaler OR extpolarity)
      in m(TIMER_SMCFG timer_periph := m (TIMER_SMCFG timer_periph) OR push_bit 8 extfilter))"

definition timer_quadrature_decoder_mode_config :: "u32 \<Rightarrow> u32 \<Rightarrow> u16 \<Rightarrow> u16 \<Rightarrow> mem \<Rightarrow> mem" where
  "timer_quadrature_decoder_mode_config timer_periph decomode ic0polarity ic1polarity m =
    (let m = m(TIMER_SMCFG timer_periph := m (TIMER_SMCFG timer_periph) AND NOT TIMER_SMCFG_SMC);
         m = m(TIMER_SMCFG timer_periph := m (TIMER_SMCFG timer_periph) OR decomode);
         m = m(TIMER_CHCTL0 timer_periph := m (TIMER_CHCTL0 timer_periph) AND NOT TIMER_CHCTL0_CH0MS AND NOT TIMER_CHCTL0_CH1MS);
         m = m(TIMER_CHCTL0 timer_periph := m (TIMER_CHCTL0 timer_periph) OR TIMER_IC_SELECTION_DIRECTTI OR push_bit 8 TIMER_IC_SELECTION_DIRECTTI);
         m = m(TIMER_CHCTL2 timer_periph := m (TIMER_CHCTL2 timer_periph) AND NOT (TIMER_CHCTL2_CH0P OR TIMER_CHCTL2_CH0NP));
         m = m(TIMER_CHCTL2 timer_periph := m (TIMER_CHCTL2 timer_periph) AND NOT (TIMER_CHCTL2_CH1P OR TIMER_CHCTL2_CH1NP))
      in m(TIMER_CHCTL2 timer_periph := m (TIMER_CHCTL2 timer_periph) OR (ucast ic0polarity :: u32) OR push_bit 4 (ucast ic1polarity :: u32)))"

definition timer_internal_clock_config :: "u32 \<Rightarrow> mem \<Rightarrow> mem" where
  "timer_internal_clock_config timer_periph m =
    m(TIMER_SMCFG timer_periph := m (TIMER_SMCFG timer_periph) AND NOT TIMER_SMCFG_SMC)"

definition timer_internal_trigger_as_external_clock_config :: "u32 \<Rightarrow> u32 \<Rightarrow> mem \<Rightarrow> mem" where
  "timer_internal_trigger_as_external_clock_config timer_periph intrigger m =
    (let m = timer_input_trigger_source_select timer_periph intrigger m;
         m = m(TIMER_SMCFG timer_periph := m (TIMER_SMCFG timer_periph) AND NOT TIMER_SMCFG_SMC)
      in m(TIMER_SMCFG timer_periph := m (TIMER_SMCFG timer_periph) OR TIMER_SLAVE_MODE_EXTERNAL0))"

definition timer_external_trigger_as_external_clock_config :: "u32 \<Rightarrow> u32 \<Rightarrow> u16 \<Rightarrow> u32 \<Rightarrow> mem \<Rightarrow> mem" where
  "timer_external_trigger_as_external_clock_config timer_periph extrigger extpolarity extfilter m =
    (let m = (if extrigger = TIMER_SMCFG_TRGSEL_CI1FE1 then
              (let m = m(TIMER_CHCTL2 timer_periph := m (TIMER_CHCTL2 timer_periph) AND NOT TIMER_CHCTL2_CH1EN);
                   m = m(TIMER_CHCTL2 timer_periph := m (TIMER_CHCTL2 timer_periph) AND NOT (TIMER_CHCTL2_CH1P OR TIMER_CHCTL2_CH1NP));
                   m = m(TIMER_CHCTL2 timer_periph := m (TIMER_CHCTL2 timer_periph) OR push_bit 4 (ucast extpolarity :: u32));
                   m = m(TIMER_CHCTL0 timer_periph := m (TIMER_CHCTL0 timer_periph) AND NOT TIMER_CHCTL0_CH1MS);
                   m = m(TIMER_CHCTL0 timer_periph := m (TIMER_CHCTL0 timer_periph) OR push_bit 8 TIMER_IC_SELECTION_DIRECTTI);
                   m = m(TIMER_CHCTL0 timer_periph := m (TIMER_CHCTL0 timer_periph) AND NOT TIMER_CHCTL0_CH1CAPFLT);
                   m = m(TIMER_CHCTL0 timer_periph := m (TIMER_CHCTL0 timer_periph) OR push_bit 12 extfilter)
                in m(TIMER_CHCTL2 timer_periph := m (TIMER_CHCTL2 timer_periph) OR TIMER_CHCTL2_CH1EN))
            else
              (let m = m(TIMER_CHCTL2 timer_periph := m (TIMER_CHCTL2 timer_periph) AND NOT TIMER_CHCTL2_CH0EN);
                   m = m(TIMER_CHCTL2 timer_periph := m (TIMER_CHCTL2 timer_periph) AND NOT (TIMER_CHCTL2_CH0P OR TIMER_CHCTL2_CH0NP));
                   m = m(TIMER_CHCTL2 timer_periph := m (TIMER_CHCTL2 timer_periph) OR (ucast extpolarity :: u32));
                   m = m(TIMER_CHCTL0 timer_periph := m (TIMER_CHCTL0 timer_periph) AND NOT TIMER_CHCTL0_CH0MS);
                   m = m(TIMER_CHCTL0 timer_periph := m (TIMER_CHCTL0 timer_periph) OR TIMER_IC_SELECTION_DIRECTTI);
                   m = m(TIMER_CHCTL0 timer_periph := m (TIMER_CHCTL0 timer_periph) AND NOT TIMER_CHCTL0_CH0CAPFLT);
                   m = m(TIMER_CHCTL0 timer_periph := m (TIMER_CHCTL0 timer_periph) OR push_bit 4 extfilter)
                in m(TIMER_CHCTL2 timer_periph := m (TIMER_CHCTL2 timer_periph) OR TIMER_CHCTL2_CH0EN)));
         m = timer_input_trigger_source_select timer_periph extrigger m;
         m = m(TIMER_SMCFG timer_periph := m (TIMER_SMCFG timer_periph) AND NOT TIMER_SMCFG_SMC)
      in m(TIMER_SMCFG timer_periph := m (TIMER_SMCFG timer_periph) OR TIMER_SLAVE_MODE_EXTERNAL0))"

definition timer_external_clock_mode0_config :: "u32 \<Rightarrow> u32 \<Rightarrow> u32 \<Rightarrow> u32 \<Rightarrow> mem \<Rightarrow> mem" where
  "timer_external_clock_mode0_config timer_periph extprescaler extpolarity extfilter m =
    (let m = timer_external_trigger_config timer_periph extprescaler extpolarity extfilter m;
         m = m(TIMER_SMCFG timer_periph := m (TIMER_SMCFG timer_periph) AND NOT (TIMER_SMCFG_SMC OR TIMER_SMCFG_TRGS))
      in m(TIMER_SMCFG timer_periph := m (TIMER_SMCFG timer_periph) OR TIMER_SLAVE_MODE_EXTERNAL0 OR TIMER_SMCFG_TRGSEL_ETIFP))"

definition timer_external_clock_mode1_config :: "u32 \<Rightarrow> u32 \<Rightarrow> u32 \<Rightarrow> u32 \<Rightarrow> mem \<Rightarrow> mem" where
  "timer_external_clock_mode1_config timer_periph extprescaler extpolarity extfilter m =
    (let m = timer_external_trigger_config timer_periph extprescaler extpolarity extfilter m
      in m(TIMER_SMCFG timer_periph := m (TIMER_SMCFG timer_periph) OR TIMER_SMCFG_SMC1))"

definition timer_external_clock_mode1_disable :: "u32 \<Rightarrow> mem \<Rightarrow> mem" where
  "timer_external_clock_mode1_disable timer_periph m =
    m(TIMER_SMCFG timer_periph := m (TIMER_SMCFG timer_periph) AND NOT TIMER_SMCFG_SMC1)"

definition timer_write_chxval_register_config :: "u32 \<Rightarrow> u16 \<Rightarrow> mem \<Rightarrow> mem" where
  "timer_write_chxval_register_config timer_periph ccsel m =
    (if (ucast ccsel :: u32) = TIMER_CHVSEL_ENABLE then
       m(TIMER_CFG timer_periph := m (TIMER_CFG timer_periph) OR TIMER_CFG_CHVSEL)
     else if (ucast ccsel :: u32) = TIMER_CHVSEL_DISABLE then
       m(TIMER_CFG timer_periph := m (TIMER_CFG timer_periph) AND NOT TIMER_CFG_CHVSEL)
     else
       m)"

definition timer_output_value_selection_config :: "u32 \<Rightarrow> u16 \<Rightarrow> mem \<Rightarrow> mem" where
  "timer_output_value_selection_config timer_periph outsel m =
    (if (ucast outsel :: u32) = TIMER_OUTSEL_ENABLE then
       m(TIMER_CFG timer_periph := m (TIMER_CFG timer_periph) OR TIMER_CFG_OUTSEL)
     else if (ucast outsel :: u32) = TIMER_OUTSEL_DISABLE then
       m(TIMER_CFG timer_periph := m (TIMER_CFG timer_periph) AND NOT TIMER_CFG_OUTSEL)
     else
       m)"

section \<open>Interfaces\<close>

interpretation timer_on: reg_bit "timer_enable p" "timer_disable p" "TIMER_CTL0 p" "TIMER_CTL0_CEN" for p
  by unfold_locales (simp_all add: timer_enable_def timer_disable_def)

interpretation timer_shadow: reg_bit "timer_auto_reload_shadow_enable p" "timer_auto_reload_shadow_disable p" "TIMER_CTL0 p" "TIMER_CTL0_ARSE" for p
  by unfold_locales (simp_all add: timer_auto_reload_shadow_enable_def timer_auto_reload_shadow_disable_def)

interpretation timer_dir: reg_bit "timer_counter_down_direction p" "timer_counter_up_direction p" "TIMER_CTL0 p" "TIMER_CTL0_DIR" for p
  by unfold_locales (simp_all add: timer_counter_down_direction_def timer_counter_up_direction_def)

end
