(* ===== verification/Spec2Isabelle.thy ===== *)
theory Spec2Isabelle
  imports LoaderMain DeviceRun ConfigParser MemoryStorage SystemClock SerialText Gd32_Dma Gd32_Spi Gd32_Timer
begin

text \<open>
  Verification of the firmware in \<^verbatim>\<open>src/sources\<close>: a battery-powered measuring device (USKD) on a GD32F303
  microcontroller with a SIM868 GSM modem. Two programs share one flash memory. The boot loader
  (\<^verbatim>\<open>sources/Loader\<close>) starts first, powers the modem up, asks an FTP server for a new image of the
  application, writes it into a storage area, checks it, copies it into the application area and jumps there.
  The application (\<^verbatim>\<open>sources/Device\<close>) measures, keeps its measurements in flash and talks to an MQTT
  broker over the same modem. Both are built from \<^verbatim>\<open>sources/common\<close>: the input side and the power-up of the modem,
  the parser of its answers, the hardware layer, and the vendor's driver library for the chip.

  \<^bold>\<open>Layers and theories.\<close>

  \<^item> \<open>Prelude\<close>: machine words, memory-mapped registers, bounded and unbounded polling, the contracts
    \<open>reg_field\<close> and \<open>reg_bit\<close> of the vendor's configuration functions.
  \<^item> \<open>Gd32_Rcu\<close>, \<open>Gd32_Gpio\<close>, \<open>Gd32_Exti\<close>, \<open>Gd32_Usart\<close>, \<open>Gd32_I2c\<close>, \<open>Gd32_Adc\<close>, \<open>Gd32_Wdg\<close>, \<open>Gd32_Dma\<close>, \<open>Gd32_Spi\<close>,
    \<open>Gd32_Timer\<close>: the drivers \<^verbatim>\<open>gd32f30x_*.c\<close> of
    \<^verbatim>\<open>sources/common/GD32F30x_Library/Firmware/GD32F30x_standard_peripheral\<close>, one theory per file, one definition
    per function under the function's name. A register is a cell of a memory \<open>mem\<close>. What the hardware does to its registers
    while the program waits is an argument \<open>hw\<close>.
  \<^item> \<open>Gd32_Fmc\<close>: the flash controller's driver. The controller and the array are hardware and so an
    argument, a record of functions \<open>chip\<close>; \<open>nor_flash\<close> is the contract that the data sheet gives, and every
    property of the flash layers is proved from it.
  \<^item> \<open>HalRom\<close> (\<^verbatim>\<open>HAL_ROM.cpp\<close>), \<open>HalTime\<close> (\<^verbatim>\<open>Timer.cpp\<close>, \<^verbatim>\<open>HAL_FWDGT.cpp\<close>), \<open>HalPins\<close> (\<^verbatim>\<open>HAL_PINS.cpp\<close>,
    \<^verbatim>\<open>HAL_USART.cpp\<close>, the receive interrupt of \<^verbatim>\<open>HAL_IT.cpp\<close>), \<open>HalI2c\<close> (\<^verbatim>\<open>HAL_I2C.cpp\<close>), \<open>HalInit\<close> (\<^verbatim>\<open>HAL.cpp\<close>,
    \<^verbatim>\<open>HAL_ADC.cpp\<close>, \<^verbatim>\<open>systick.c\<close>, the jump between the two programs), \<open>SystemClock\<close> (\<^verbatim>\<open>system_gd32f30x.c\<close>), \<open>SerialText\<close>
    (\<^verbatim>\<open>Log.cpp\<close>, \<^verbatim>\<open>String.h\<close>, \<^verbatim>\<open>SIM868_transmit.cpp\<close> and the formatted sending of \<^verbatim>\<open>HAL_USART.cpp\<close>), \<open>DateTime\<close> (\<^verbatim>\<open>HAL_RTC.cpp\<close>): the hardware layer on the drivers.
  \<^item> \<open>Utils\<close> (\<^verbatim>\<open>Math.h\<close>, \<^verbatim>\<open>Buffer.h\<close>, \<^verbatim>\<open>StringUtils.cpp\<close>), \<open>Parser\<close> (\<^verbatim>\<open>Parser.cpp\<close>), \<open>ConfigParser\<close> (its \<^verbatim>\<open>ParseConfigField\<close>).
  \<^item> \<open>InData\<close> and \<open>Modem\<close> (\<^verbatim>\<open>sources/common/Modem/Modem.cpp\<close>): the buffers between the interrupt and the main
    loop, the splitting into lines and binary packets, and the power-up machine. The rest of the program is a client
    behind the locales \<open>line_client\<close> and \<open>modem_client\<close>.
  \<^item> \<open>ReaderFTP\<close>, \<open>Programmer\<close>, \<open>Loader\<close>, \<open>Download\<close>, \<open>LoaderMain\<close>: the boot loader
    (\<^verbatim>\<open>sources/Loader/src\<close>): the answers to \<^verbatim>\<open>AT+FTPGET\<close>, the writing of the image, the update procedure, what
    a whole download achieves, and the main loop as a client of the modem.
  \<^item> \<open>MqttRequest\<close>, \<open>Mqtt\<close>, \<open>MqttResponse\<close> (\<^verbatim>\<open>sources/Device/src/Modem/MQTT\<close>): the requests to the broker and their
    repetition, the queue and the states of the client, and the packets of the broker, taken apart byte by byte.
  \<^item> \<open>DeviceMain\<close> (\<^verbatim>\<open>sources/Device/src/Modem/SIM868.cpp\<close>, \<^verbatim>\<open>Device.cpp\<close>): the procedure that brings the device to the
    broker and the main loop, a second client of the modem.
  \<^item> \<open>Display\<close> (\<^verbatim>\<open>sources/common/Display\<close>): the frame buffer, the font, the texts and the screen behind the bus; the main loop with it.
  \<^item> \<open>Dht22\<close>, \<open>Storage\<close>, \<open>MemoryStorage\<close> (\<^verbatim>\<open>sources/Device/src/Modules/DHT22\<close>, \<^verbatim>\<open>sources/Device/src/Storage\<close>): the sensor of
    temperature and humidity, the measurements, and their records in flash.
  \<^item> \<open>DeviceStart\<close>: \<^verbatim>\<open>Device::Init\<close> with the hardware, the display and the modem together; \<open>DeviceRun\<close>: \<^verbatim>\<open>main\<close>, the states that the application reaches.

  \<^bold>\<open>State and steps.\<close> The static variables of a source file are a record; an operation is a function from the
  record to the new one. \<open>None\<close> is a store outside an array, a use of a null pointer where that stops the program, or a loop that
  does not end (the loops without a bound are \<^verbatim>\<open>partial_function (option)\<close>). So a theorem that says
  \<open>f x = Some y\<close> also says that the code returns and stays inside its arrays. The main loop and the interrupt are
  interleaved by step relations (\<open>feed\<close>, \<open>loader_step\<close>, \<open>power_run\<close>, \<open>mqtt_run\<close>, \<open>device_run\<close>). A relation has no step where an operation has no result; \<open>loader_event_stops\<close> says
  for which symbols and lines that is so in the loader, and \<open>mqtt_protocol\<close> and \<open>application_runs\<close> prove that
  \<^verbatim>\<open>MQTT::Update\<close> and \<^verbatim>\<open>Display::Update\<close> return. The last two relations carry a flag \<open>lost\<close>: a connection was lost while the main loop waited for room in the queue. The time is the 32-bit millisecond counter, an argument of
  each step. The bytes sent to the modem are collected in the state.

  \<^bold>\<open>What the theorems show.\<close> For the loader: a complete download puts exactly the image into the
  application area, an image with a wrong checksum leaves the application as it was, an update counts as completed only
  after the checks, the flash is not touched outside a download, a requested block is received byte by byte whatever lines come before it,
  the updater walks through its states in order and gives up within the turn of the main loop in which the time limit of its state is reached. For the flash layers: what is
  written, erased and copied, and that nothing else changes. For the input side: symbols are kept in order while interrupt and main
  loop interleave, complete lines are delivered once and in order, binary packets byte by byte. For the power-up: the
  times of its states and the levels of the supply and of the key. For the drivers: what each configuration function leaves in the registers it is responsible for.
  For the device: in every reachable state of the client whole packets are sent, the connection request first, unless the connection was lost during a wait for room; every request is
  confirmed or given up after five attempts; packets of the broker have the effect of their contents in order; with the expected answers the device
  reaches the broker; in every state that the application reaches the display is written to and, with the same exception, the client keeps the protocol, and the display shows the state and takes only time. A transfer on the bus of
  the display returns whatever the bus does. A measurement is stored as the sensor and the converter gave it, dates survive their conversions, the oldest record is
  found. A downloaded image is the one that is started, and the device starts with a dark screen.
  Some theorems state where the code departs from its purpose: \<open>long_line_overflows\<close>, \<open>split_packet_repeated\<close>,
  \<open>response_time\<close>, \<open>i2c_divider_not_cleared\<close>,
  \<open>Prepare_misses_words\<close>, \<open>time_request_outcome\<close>, \<open>responses_misread\<close>, \<open>append_outcome\<close>, \<open>charge_always_full\<close>, \<open>sensor_takes_display_pin\<close>, \<open>clock_too_fast\<close>.

  \<^bold>\<open>Bounds.\<close> Waits with a limit in the code keep it: the vendor's time-outs (\<^verbatim>\<open>FMC_TIMEOUT_COUNT\<close>,
  \<^verbatim>\<open>HXTAL_STARTUP_TIMEOUT\<close>, the watchdog's and the RTC's) are the first argument of \<open>poll_until\<close>; no other
  fuel is used. Lengths of buffers are the code's (\<open>CAPACITY\<close> 2048 for the modem's input). Counters that wrap are words; lengths
  that the code holds in \<^verbatim>\<open>int\<close> and that its arrays bound are natural numbers or integers.

  \<^bold>\<open>Choices.\<close> The chip is the one that the project is built for (\<^verbatim>\<open>GD32F30X_HD\<close>), the board the one that
  \<^verbatim>\<open>common_defines.h\<close> selects (\<^verbatim>\<open>HOME_VERSION\<close>), and \<^verbatim>\<open>char\<close> is unsigned as on ARM. The words of an answer of the modem
  are \<open>None\<close> if they do not fit into the 128 bytes of \<^verbatim>\<open>BufferParser\<close>, and so is a signal level of more than 15 characters. The registers of the watchdog belong
  to the loader's state, those of the ports and of the serial port to the modem's; the flash controller is in the programmer's.
  Messages for the log have no effect on any other state; the log itself is in
  \<open>SerialText\<close>, and its calls are left out of the other definitions. The bytes that the programs send to the modem are collected in their states; \<open>With0D_port\<close>,
  \<open>RAW_port\<close> and \<open>command_sent\<close> show that they are the bytes that go through the data register.

  \<^bold>\<open>Not modelled.\<close> The functions of \<^verbatim>\<open>Sender.cpp\<close> and \<^verbatim>\<open>Subscriptions.cpp\<close>, whose bodies are
  empty; the third-party driver \<^verbatim>\<open>MPU6050\<close>, whose calls are commented out; the archive \<^verbatim>\<open>_arch/Swagger\<close>, which is not in the project; the USB, CAN, Ethernet, SDIO,
  EXMC, DAC and CRC drivers of the vendor library, which the firmware does not call; the vendor's examples and utilities; the
  simulator for a PC (\<^verbatim>\<open>sources/VS\<close>) with wxWidgets; the documentation and \<^verbatim>\<open>temp\<close> trees, which hold copies.

  \<^bold>\<open>Parameters.\<close> What is not under \<^verbatim>\<open>src\<close> is an argument: the flash controller \<open>chip\<close>, the registers' hardware \<open>hw\<close>, the bus \<open>i2c_world\<close> of the
  display, the line of the sensor, the readings of the counter, the contents \<open>junk\<close> of memory that was not initialised and whether address 0 can be read and written
  (\<open>nul\<close>; the first \<^verbatim>\<open>Set\<close> of every \<^verbatim>\<open>String\<close> reads it, so that no request is made where it faults), and the formatting and arithmetic of floats where only their results are passed on (\<open>fmt\<close>, \<open>quot\<close>, \<open>secs\<close>). Where the code computes with floats, rational numbers stand for
  them, and tenths in the sensor's driver.
\<close>

section \<open>Properties of the loader\<close>

text \<open>
  C2: the loader declares the update completed, and so starts the application, only after checking
  what it did. A step that enters \<^verbatim>\<open>COMPLETED\<close> is either the server's answer that there is no file, and
  then nothing was programmed by it, or the end of a file of which both the copy in the storage area
  and the copy in the application area have the received checksum.
\<close>

theorem completed_only_if_checked:
  assumes "SIM868_Update c hw now answer l = Some l'" "l_state l \<noteq> COMPLETED" "l_state l' = COMPLETED"
  shows "(l_state l = NEED_WAIT_CONNECT \<and> answer = ''+FTPGET: 1,77'' \<and> l_prog l' = l_prog l) \<or>
     (l_state l = GET_BYTES_FIRMWARE \<and> received_FTPGET_1_0 (l_reader l) \<and>
      (\<exists>p1 p2. WriteBytes c (data_byte (l_reader l)) (pointer_data (l_reader l)) (l_prog l) = Some p1 \<and>
         CloseSession c p1 = Some p2 \<and>
         CalculateCRC (flash (rom p2)) ADDR_STORAGE (written_bytes p2) = l_source_crc l \<and>
         CalculateCRC (flash (rom (l_prog l'))) ADDR_APPLICATION (written_bytes p2) = l_source_crc l))"
proof -
  have "Updater_Update c hw now answer l = Some l'" using SIM868_Update_cases[OF assms(1)] assms(2,3) by auto
  from updater_completes[OF this assms(2,3)] show ?thesis using finish_firmware_completes assms(3) by blast
qed

theorem completed_only_if_checked_witness:
  "\<exists>l'. SIM868_Update instant_chip id 5 ''+FTPGET: 1,77'' ((demo_loader [])\<lparr>l_state := NEED_WAIT_CONNECT\<rparr>) = Some l' \<and>
     l_state l' = COMPLETED \<and> l_prog l' = demo_prog"
proof -
  let ?l = "(demo_loader [])\<lparr>l_state := NEED_WAIT_CONNECT\<rparr>"
  have w: "GetWord ''+FTPGET: 1,77'' n = Some (nth_field ''+FTPGET: 1,77'' n)" for n by (rule GetWord_short) (simp_all add: c_string_def)
  have "SIM868_Update instant_chip id 5 ''+FTPGET: 1,77'' ?l = Some (?l\<lparr>l_state := COMPLETED\<rparr>)"
    by (simp add: SIM868_Update_def ProcessUnsolicited_def w nth_field_def line_fields_def is_sep_def Updater_Update_def
        MeterIsRunning_def ElapsedTime_def demo_loader_def)
  then show ?thesis using completed_only_if_checked[of instant_chip id 5 "''+FTPGET: 1,77''" ?l] by (auto simp: demo_loader_def)
qed

text \<open>
  C6: the updater walks through its states in order: a step, be it a received symbol or a call from
  the main loop, keeps the state, takes the next one of the chain, falls back to the first one, or
  jumps from the connection request to the end when the server has no file.
\<close>

theorem loader_follows_chain:
  assumes "loader_step c hw l l'"
  shows "l_state l' = l_state l \<or> l_state l' = IDLE \<or> upd_succ (l_state l) (l_state l') \<or>
     (l_state l = NEED_WAIT_CONNECT \<and> l_state l' = COMPLETED)"
  using assms
proof (cases rule: loader_step.cases)
  case (symbol x)
  then show ?thesis by (auto simp: CallbackByteFromFTP_def split: option.splits prod.splits)
next
  case (line now answer)
  then show ?thesis using SIM868_Update_cases[OF line] updater_order[of c hw now answer l l'] by auto
qed

theorem loader_follows_chain_witness:
  "loader_step instant_chip id ((demo_loader [])\<lparr>l_state := IDLE\<rparr>) ((demo_loader [])\<lparr>l_state := NEED_SAPBR_3_GPRS\<rparr>) \<and>
   upd_succ IDLE NEED_SAPBR_3_GPRS"
proof -
  let ?l = "(demo_loader [])\<lparr>l_state := IDLE\<rparr>" and ?l' = "(demo_loader [])\<lparr>l_state := NEED_SAPBR_3_GPRS\<rparr>"
  have "SIM868_Update instant_chip id 0 [] ?l = Some ?l'"
    by (simp add: SIM868_running demo_loader_def Updater_Update_def)
  then have s: "loader_step instant_chip id ?l ?l'" by (rule loader_step.line)
  then show ?thesis using loader_follows_chain[OF s] by simp
qed

text \<open>
  C8: no state of the updater waits for ever. Once the time since the last progress, computed modulo
  \<open>2 ^ 32\<close> so that the wrap-around of the millisecond counter does no harm, has reached the limit of the
  state, the next turn of the main loop starts everything again from the first command. Whatever lines it hands over before its last call with the empty line, one of
  its calls restarts the loader: \<^verbatim>\<open>+CSQ\<close> and \<^verbatim>\<open>SEND OK\<close>, which return before the time is looked at, change
  at most the signal level, and any other line restarts. The words of the lines fit into the arrays that they are copied to.
\<close>

theorem updater_time_limit:
  assumes "l_sim l = RUNNING_UPDATER" "upd_limit (l_state l) = Some T" "time_reset (l_meter l) = t" "T \<le> d"
    "\<forall>answer \<in> set ls. words_fit answer"
  shows "\<exists>k sg. 0 < k \<and> k \<le> length ls + 1 \<and>
    loader_run c hw (take k (map (Line (t + d)) (ls @ [[]]))) l = Some (Loader_Reset (l\<lparr>l_signal := sg\<rparr>))"
  using assms by (intro timeout_turn) (simp_all add: ElapsedTime_def)

theorem updater_time_limit_witness:
  "\<exists>k sg. 0 < k \<and> k \<le> 2 \<and> loader_run instant_chip id (take k [Line (0xFFFFFFF0 + 75000) ''+CSQ: 14,0'', Line (0xFFFFFFF0 + 75000) []])
       ((demo_loader [])\<lparr>l_meter := \<lparr>time_reset = 0xFFFFFFF0, time_response = 0\<rparr>\<rparr>) =
     Some (Loader_Reset ((demo_loader [])\<lparr>l_meter := \<lparr>time_reset = 0xFFFFFFF0, time_response = 0\<rparr>, l_signal := sg\<rparr>))"
proof -
  have "GetWord ''+CSQ: 14,0'' n = Some (nth_field ''+CSQ: 14,0'' n)" for n by (rule GetWord_short) (simp_all add: c_string_def)
  then have "words_fit ''+CSQ: 14,0''" by (simp add: words_fit_def nth_field_def line_fields_def is_sep_def)
  then show ?thesis
    using updater_time_limit[where l = "(demo_loader [])\<lparr>l_meter := \<lparr>time_reset = 0xFFFFFFF0, time_response = 0\<rparr>\<rparr>" and T = 75000
        and t = "0xFFFFFFF0" and d = 75000 and ls = "[''+CSQ: 14,0'']" and c = instant_chip and hw = id]
    by (simp add: demo_loader_def upd_limit_def numeral_2_eq_2)
qed

text \<open>
  C9: the flash memory is touched only while the loader stores a file: a step outside the two states
  \<^verbatim>\<open>GET_BYTES_CRC\<close> and \<^verbatim>\<open>GET_BYTES_FIRMWARE\<close> leaves the programmer and the flash machine below it as they are.
\<close>

theorem flash_untouched_outside_download:
  assumes "loader_step c hw l l'" "l_state l \<noteq> GET_BYTES_CRC" "l_state l \<noteq> GET_BYTES_FIRMWARE"
  shows "l_prog l' = l_prog l"
  using assms(1)
proof (cases rule: loader_step.cases)
  case (symbol x)
  then show ?thesis by (auto simp: CallbackByteFromFTP_def split: option.splits prod.splits)
next
  case (line now answer)
  then show ?thesis using SIM868_Update_cases[OF line] updater_keeps_prog[of c hw now answer l l'] assms(2,3) by auto
qed

theorem flash_untouched_outside_download_witness:
  "\<exists>l'. loader_step instant_chip id ((demo_loader [])\<lparr>l_state := NEED_FTPUN\<rparr>) l' \<and> l_prog l' = demo_prog"
proof -
  let ?l = "(demo_loader [])\<lparr>l_state := NEED_FTPUN\<rparr>"
  have "SIM868_Update instant_chip id 0 [] ?l = Some ?l"
    by (simp add: SIM868_running demo_loader_def Updater_Update_def upd_on_OK_cases ElapsedTime_def)
  then have s: "loader_step instant_chip id ?l ?l" by (rule loader_step.line)
  then show ?thesis using flash_untouched_outside_download[OF s] by (auto simp: demo_loader_def)
qed

text \<open>
  C4: a downloaded image is started. When the download of a file has completed, \<^verbatim>\<open>Application::Run\<close> takes the first word of this file as the stack pointer and the second one as the entry,
  and sets the table of vectors to the beginning of the application area, where the file now is.
\<close>

theorem downloaded_image_started:
  assumes "nor_flash c" "crc_received t l" "\<forall>k<76. page_sample_sound k (flash (rom (l_prog l)))"
    "\<forall>b \<in> set blocks. snd b \<noteq> [] \<and> length (snd b) \<le> 64" "length (image_of blocks) \<le> MAX_SIZE_STORAGE"
    "data_word (l_reader l) = image_crc (padded (image_of blocks))" "Download.timely t (t0 # map fst blocks @ [t1])" "8 \<le> length (padded (image_of blocks))"
  shows "\<exists>l' m'. loader_run c hw (download_events t0 blocks t1) l = Some l' \<and> IsCompleted l' \<and>
     Application_Run (rd32 (flash (rom (l_prog l')))) m =
       (rd32 (\<lambda>a. padded (image_of blocks) ! unat a) 0, rd32 (\<lambda>a. padded (image_of blocks) ! unat a) 4, m') \<and>
     m' SCB_VTOR = ADDR_APPLICATION"
proof -
  obtain l' where l': "loader_run c hw (download_events t0 blocks t1) l = Some l'" "l_state l' = COMPLETED"
      "map (\<lambda>i. flash (rom (l_prog l')) (ADDR_APPLICATION + of_nat i)) [0..<length (padded (image_of blocks))] = padded (image_of blocks)"
    using download_run[OF assms(1-7)] by blast
  have b: "flash (rom (l_prog l')) (ADDR_APPLICATION + of_nat i) = padded (image_of blocks) ! i" if "i < 8" for i
    using arg_cong[OF l'(3), of "\<lambda>xs. xs ! i"] that assms(8) by simp
  show ?thesis
    using l'(1,2) b[of 0] b[of 1] b[of 2] b[of 3] b[of 4] b[of 5] b[of 6] b[of 7]
    by (simp add: IsCompleted_def Application_Run_def run_program_def rd32_def nvic_vector_table_set_def Let_def)
qed

theorem downloaded_image_started_witness:
  "\<exists>l' m'. loader_run instant_chip id (download_events 50 [(100, ''abcde'')] 200) (demo_loader [CHR 0x1C, CHR 0x6B, CHR 0x63, CHR 0xBB]) = Some l' \<and>
     Application_Run (rd32 (flash (rom (l_prog l')))) (\<lambda>_. 0) = (0x64636261, 0xFFFFFF65, m') \<and> m' SCB_VTOR = ADDR_APPLICATION"
proof -
  from downloaded_image_started[OF nor_flash_instant demo_download(1,2) _ _ demo_download(3), of 50 200 id "\<lambda>_. 0"]
  show ?thesis unfolding demo_image demo_padded by (auto simp: rd32_def)
qed

end
